(* ===== verification/Prelude.thy ===== *)
theory Prelude
  imports Complex_Main "HOL-Library.Word" "HOL-Library.List_Lexorder"
begin

text \<open>
  The shared vocabulary of the development: JavaScript strings, numbers and values,
  thrown errors, the insertion-ordered \<open>Map\<close>, and the generic lemmas the component
  theories use.

  \<^item> A JavaScript string is its list of UTF-16 code units (\<open>jsstr\<close>); \<open>js\<close> turns an
    ASCII literal into one.
  \<^item> A JavaScript number is a finite rational or one of the three special values
    (\<open>jsnum\<close>); \<open>-0\<close> and \<open>0\<close> are one value, as they are for \<open>===\<close> and for the
    comparisons the code makes.
  \<^item> A JavaScript value (\<open>jsval\<close>) is a primitive, an array, or an object given by its
    prototype class and its own enumerable string-keyed data properties.  Functions,
    symbols and bigints are the single value \<open>JOther\<close>.  Getters, proxies, symbol keys
    and inherited data properties do not occur in the frames and records the program
    handles, and are not modelled.
  \<^item> A call that may throw returns \<open>js_error + 'a\<close>.
\<close>

section \<open>Collections of rules\<close>

named_theorems js_defs "the JavaScript operations, unfolded to their HOL definitions"
named_theorems table_defs "the constant tables of the source"

section \<open>Strings\<close>

type_synonym jsstr = "16 word list"

definition js :: "string \<Rightarrow> jsstr" where
  "js s = map of_char s"

lemma of_char_word16_inject [simp]:
  "(of_char c :: 16 word) = of_char d \<longleftrightarrow> c = d"
proof
  assume "(of_char c :: 16 word) = of_char d"
  then have "(of_nat (of_char c) :: 16 word) = of_nat (of_char d)"
    by (simp only: of_nat_of_char)
  then have "take_bit 16 (of_char c :: nat) = take_bit 16 (of_char d)"
    by (simp add: word_of_nat_eq_iff)
  moreover have "take_bit 16 (of_char e :: nat) = of_char e" for e
    by (rule take_bit_nat_eq_self) (rule less_trans [OF nat_of_char_less_256], simp)
  ultimately show "c = d" by simp
qed simp

lemma js_inject [simp]: "js s = js t \<longleftrightarrow> s = t"
proof
  assume "js s = js t"
  then show "s = t"
    unfolding js_def by (metis (no_types, lifting) injI inj_map_eq_map of_char_word16_inject)
qed simp

lemma length_js [simp]: "length (js s) = length s"
  by (simp add: js_def)

lemma js_Nil [simp]: "js [] = []"
  by (simp add: js_def)

lemma js_eq_Nil [simp]: "js s = [] \<longleftrightarrow> s = []" "[] = js s \<longleftrightarrow> s = []"
  by (auto simp: js_def)

lemma js_append: "js (s @ t) = js s @ js t"
  by (simp add: js_def)


section \<open>Numbers and values\<close>

datatype jsnum = Fin rat | PosInf | NegInf | NaN

datatype proto = ObjectProto | NullProto | OtherProto

datatype jsval =
    JUndefined
  | JNull
  | JBool bool
  | JNum jsnum
  | JStr jsstr
  | JArr "jsval list"
  | JObj proto "(jsstr \<times> jsval) list"
  | JOther

abbreviation JInt :: "int \<Rightarrow> jsval" where
  "JInt n \<equiv> JNum (Fin (of_int n))"

abbreviation JLit :: "string \<Rightarrow> jsval" where
  "JLit s \<equiv> JStr (js s)"

abbreviation record_of :: "(string \<times> jsval) list \<Rightarrow> jsval" where
  "record_of fs \<equiv> JObj ObjectProto (map (\<lambda>(k, v). (js k, v)) fs)"

definition MAX_SAFE_INTEGER :: int where
  "MAX_SAFE_INTEGER = 9007199254740991"

definition is_integral :: "rat \<Rightarrow> bool" where
  "is_integral r \<longleftrightarrow> of_int \<lfloor>r\<rfloor> = r"

text \<open>\<open>Number.isInteger\<close> and \<open>Number.isSafeInteger\<close>; both are false on a non-number.\<close>

fun isInteger :: "jsval \<Rightarrow> bool" where
  "isInteger (JNum (Fin r)) = is_integral r"
| "isInteger _ = False"

fun isSafeInteger :: "jsval \<Rightarrow> bool" where
  "isSafeInteger (JNum (Fin r)) \<longleftrightarrow> is_integral r \<and> \<bar>\<lfloor>r\<rfloor>\<bar> \<le> MAX_SAFE_INTEGER"
| "isSafeInteger _ \<longleftrightarrow> False"

text \<open>The integer a number value denotes; only read after one of the two tests.\<close>

fun int_of :: "jsval \<Rightarrow> int" where
  "int_of (JNum (Fin r)) = \<lfloor>r\<rfloor>"
| "int_of _ = 0"

text \<open>Strict equality \<open>===\<close>.  Arrays and objects are compared by identity: two values
  that reach a comparison from different records are different objects.\<close>

fun num_eq :: "jsnum \<Rightarrow> jsnum \<Rightarrow> bool" where
  "num_eq NaN _ = False"
| "num_eq _ NaN = False"
| "num_eq a b = (a = b)"

fun js_eq :: "jsval \<Rightarrow> jsval \<Rightarrow> bool" where
  "js_eq JUndefined JUndefined = True"
| "js_eq JNull JNull = True"
| "js_eq (JBool a) (JBool b) = (a = b)"
| "js_eq (JNum a) (JNum b) = num_eq a b"
| "js_eq (JStr a) (JStr b) = (a = b)"
| "js_eq _ _ = False"

text \<open>The relation \<open><\<close> on two numbers; with \<open>undefined\<close> or \<open>NaN\<close> on either side it is
  false.\<close>

fun num_less :: "jsnum \<Rightarrow> jsnum \<Rightarrow> bool" where
  "num_less (Fin a) (Fin b) = (a < b)"
| "num_less NegInf (Fin _) = True"
| "num_less NegInf PosInf = True"
| "num_less (Fin _) PosInf = True"
| "num_less _ _ = False"

fun js_less :: "jsval \<Rightarrow> jsval \<Rightarrow> bool" where
  "js_less (JNum a) (JNum b) = num_less a b"
| "js_less _ _ = False"

fun typeof_string :: "jsval \<Rightarrow> bool" where
  "typeof_string (JStr _) = True"
| "typeof_string _ = False"

fun typeof_boolean :: "jsval \<Rightarrow> bool" where
  "typeof_boolean (JBool _) = True"
| "typeof_boolean _ = False"

text \<open>\<open>value !== null && typeof value === "object" && !Array.isArray(value)\<close>\<close>

fun isObject :: "jsval \<Rightarrow> bool" where
  "isObject (JObj _ _) = True"
| "isObject _ = False"

fun isArray :: "jsval \<Rightarrow> bool" where
  "isArray (JArr _) = True"
| "isArray _ = False"

fun elements :: "jsval \<Rightarrow> jsval list" where
  "elements (JArr xs) = xs"
| "elements _ = []"

fun str_of :: "jsval \<Rightarrow> jsstr" where
  "str_of (JStr s) = s"
| "str_of _ = []"

text \<open>Truthiness: \<open>undefined\<close>, \<open>null\<close>, \<open>false\<close>, \<open>0\<close>, \<open>NaN\<close> and \<open>""\<close> are falsy.\<close>

fun truthy :: "jsval \<Rightarrow> bool" where
  "truthy JUndefined = False"
| "truthy JNull = False"
| "truthy (JBool b) = b"
| "truthy (JNum NaN) = False"
| "truthy (JNum (Fin r)) = (r \<noteq> 0)"
| "truthy (JStr s) = (s \<noteq> [])"
| "truthy _ = True"

text \<open>Own properties.  \<open>get_own\<close> is the read \<open>value[key]\<close>, \<open>undefined\<close> when absent.\<close>

fun own_fields :: "jsval \<Rightarrow> (jsstr \<times> jsval) list" where
  "own_fields (JObj _ fs) = fs"
| "own_fields _ = []"

definition own_keys :: "jsval \<Rightarrow> jsstr list" where
  "own_keys v = remdups (map fst (own_fields v))"

definition get_own :: "jsval \<Rightarrow> jsstr \<Rightarrow> jsval" where
  "get_own v k = (case map_of (own_fields v) k of None \<Rightarrow> JUndefined | Some x \<Rightarrow> x)"

definition has_key :: "jsval \<Rightarrow> jsstr \<Rightarrow> bool" where
  "has_key v k \<longleftrightarrow> k \<in> set (own_keys v)"

abbreviation fld :: "jsval \<Rightarrow> string \<Rightarrow> jsval" where
  "fld v k \<equiv> get_own v (js k)"

abbreviation hasOwn :: "jsval \<Rightarrow> string \<Rightarrow> bool" where
  "hasOwn v k \<equiv> has_key v (js k)"

definition str_in :: "jsval \<Rightarrow> string list \<Rightarrow> bool" where
  "str_in v xs \<longleftrightarrow> list_ex (\<lambda>s. js_eq v (JLit s)) xs"

text \<open>A plain object with exactly the given own keys, the \<open>exact\<close>/\<open>hasExactKeys\<close> helper
  that the shared modules each define.\<close>

fun plain :: "jsval \<Rightarrow> bool" where
  "plain (JObj ObjectProto _) = True"
| "plain _ = False"

definition exact :: "jsval \<Rightarrow> string list \<Rightarrow> bool" where
  "exact v ks \<longleftrightarrow> plain v \<and> length (own_keys v) = length ks \<and> list_all (hasOwn v) ks"

definition without :: "jsval \<Rightarrow> string \<Rightarrow> jsval" where
  "without v k = JObj ObjectProto (filter (\<lambda>(k', _). k' \<noteq> js k) (own_fields v))"

text \<open>Comparison against a literal, the commonest test of the validators.\<close>

lemma num_eq_refl: "num_eq n n \<longleftrightarrow> n \<noteq> NaN"
  by (cases n) auto

lemma js_eq_refl_iff: "js_eq v v \<longleftrightarrow>
  (case v of JNum n \<Rightarrow> n \<noteq> NaN | JArr _ \<Rightarrow> False | JObj _ _ \<Rightarrow> False | JOther \<Rightarrow> False | _ \<Rightarrow> True)"
  by (cases v) (auto simp: num_eq_refl)

lemma num_eq_imp_eq: "num_eq a b \<Longrightarrow> a = b"
  by (cases a; cases b) auto

lemma js_eq_imp_eq: "js_eq a b \<Longrightarrow> a = b"
  by (cases a; cases b) (auto dest: num_eq_imp_eq)

lemma js_eq_sym: "js_eq a b \<longleftrightarrow> js_eq b a"
  by (metis js_eq_imp_eq)

lemma js_eq_trans: "js_eq a b \<Longrightarrow> js_eq b c \<Longrightarrow> js_eq a c"
  by (metis js_eq_imp_eq)

lemma js_eq_lit [simp]: "js_eq v (JLit s) \<longleftrightarrow> v = JLit s" "js_eq (JLit s) v \<longleftrightarrow> v = JLit s"
  by (cases v; auto)+

lemma js_eq_str [simp]: "js_eq (JStr s) (JStr t) \<longleftrightarrow> s = t"
  by simp

lemma js_eq_int [simp]: "js_eq v (JNum (Fin r)) \<longleftrightarrow> v = JNum (Fin r)"
  by (cases v) (auto elim: num_eq.elims)

lemma js_eq_bool [simp]: "js_eq v (JBool b) \<longleftrightarrow> v = JBool b"
  by (cases v) auto

lemma js_eq_null [simp]: "js_eq v JNull \<longleftrightarrow> v = JNull"
  by (cases v) auto

lemma js_eq_undefined [simp]: "js_eq v JUndefined \<longleftrightarrow> v = JUndefined"
  by (cases v) auto

lemma str_in_iff: "str_in v xs \<longleftrightarrow> (\<exists>s \<in> set xs. v = JLit s)"
  by (auto simp: str_in_def list_ex_iff)

lemma str_in_simps [simp]:
  "str_in v [] \<longleftrightarrow> False"
  "str_in v (x # xs) \<longleftrightarrow> v = JLit x \<or> str_in v xs"
  by (auto simp: str_in_iff)

lemma isSafeInteger_JInt [simp]: "isSafeInteger (JInt n) \<longleftrightarrow> \<bar>n\<bar> \<le> MAX_SAFE_INTEGER"
  by (simp add: is_integral_def)

lemma isInteger_JInt [simp]: "isInteger (JInt n)"
  by (simp add: is_integral_def)

lemma int_of_JInt [simp]: "int_of (JInt n) = n"
  by simp

lemma isSafeIntegerE:
  assumes "isSafeInteger v"
  obtains n where "v = JInt n" "\<bar>n\<bar> \<le> MAX_SAFE_INTEGER"
proof (cases v rule: isSafeInteger.cases)
  case (1 r)
  with assms have "v = JInt \<lfloor>r\<rfloor>" "\<bar>\<lfloor>r\<rfloor>\<bar> \<le> MAX_SAFE_INTEGER"
    by (auto simp: is_integral_def)
  then show ?thesis by (rule that)
qed (use assms in auto)

lemma isSafeInteger_iff: "isSafeInteger v \<longleftrightarrow> (\<exists>n. v = JInt n \<and> \<bar>n\<bar> \<le> MAX_SAFE_INTEGER)"
  by (auto elim: isSafeIntegerE simp: is_integral_def)

lemma js_less_JInt [simp]: "js_less (JInt a) (JInt b) \<longleftrightarrow> a < b"
  by simp

lemma isObjectE:
  assumes "isObject v"
  obtains p fs where "v = JObj p fs"
  using assms by (cases v) auto

lemma plain_isObject: "plain v \<Longrightarrow> isObject v"
  by (cases v rule: plain.cases) auto

subsection \<open>Own properties\<close>

lemma own_keys_JObj: "own_keys (JObj p fs) = remdups (map fst fs)"
  by (simp add: own_keys_def)

lemma get_own_JObj: "get_own (JObj p fs) k = (case map_of fs k of None \<Rightarrow> JUndefined | Some x \<Rightarrow> x)"
  by (simp add: get_own_def)

lemma has_key_JObj: "has_key (JObj p fs) k \<longleftrightarrow> k \<in> fst ` set fs"
  by (auto simp: has_key_def own_keys_def)

lemma get_own_absent: "\<not> has_key v k \<Longrightarrow> get_own v k = JUndefined"
  by (auto simp: get_own_def has_key_def own_keys_def map_of_eq_None_iff split: option.splits)
    (metis map_of_eq_None_iff option.distinct(1))

lemma get_own_present: "get_own v k \<noteq> JUndefined \<Longrightarrow> has_key v k"
  using get_own_absent by blast

lemma has_key_isObject: "has_key v k \<Longrightarrow> isObject v"
  by (cases v) (auto simp: has_key_def own_keys_def)

lemma distinct_own_keys [simp]: "distinct (own_keys v)"
  by (simp add: own_keys_def)

lemma exact_keys:
  assumes "exact v ks" and "distinct ks"
  shows "set (own_keys v) = js ` set ks"
proof -
  have sub: "js ` set ks \<subseteq> set (own_keys v)"
    using assms(1) by (auto simp: exact_def list_all_iff has_key_def)
  have "card (js ` set ks) = length ks"
    using assms(2) by (simp add: card_image inj_on_def distinct_card)
  also have "\<dots> = card (set (own_keys v))"
    using assms(1) by (simp add: exact_def distinct_card)
  finally show ?thesis
    using sub by (intro card_subset_eq [symmetric]) auto
qed

lemma exact_has_key:
  assumes "exact v ks" and "distinct ks"
  shows "has_key v k \<longleftrightarrow> k \<in> js ` set ks"
  using exact_keys [OF assms] by (simp add: has_key_def)

section \<open>Errors\<close>

datatype js_error =
    TypeError jsstr
  | RangeError jsstr
  | SyntaxError jsstr
  | PlainError jsstr
  | CodedError string jsstr

fun is_ok :: "'e + 'a \<Rightarrow> bool" where
  "is_ok (Inr _) = True"
| "is_ok (Inl _) = False"

definition check :: "bool \<Rightarrow> 'e \<Rightarrow> ('e + 'a) \<Rightarrow> ('e + 'a)" where
  "check ok e k = (if ok then k else Inl e)"

text \<open>\<open>check ok e k\<close> is \<open>if (!ok) throw e; k\<close>.\<close>

definition seq :: "('e + 'a) \<Rightarrow> ('a \<Rightarrow> 'e + 'b) \<Rightarrow> ('e + 'b)" where
  "seq r f = (case r of Inl e \<Rightarrow> Inl e | Inr x \<Rightarrow> f x)"

lemma check_simps [simp]: "check True e k = k" "check False e k = Inl e"
  by (simp_all add: check_def)

lemma check_eq_Inr [simp]: "check ok e k = Inr x \<longleftrightarrow> ok \<and> k = Inr x"
  by (simp add: check_def)

lemma is_ok_check [simp]: "is_ok (check ok e k) \<longleftrightarrow> ok \<and> is_ok k"
  by (simp add: check_def)

lemma seq_simps [simp]: "seq (Inr x) f = f x" "seq (Inl e) f = Inl e"
  by (simp_all add: seq_def)

lemma seq_eq_Inr: "seq r f = Inr y \<longleftrightarrow> (\<exists>x. r = Inr x \<and> f x = Inr y)"
  by (cases r) auto

lemma is_ok_iff: "is_ok r \<longleftrightarrow> (\<exists>x. r = Inr x)"
  by (cases r) auto

section \<open>The insertion-ordered Map\<close>

text \<open>\<open>Map.get\<close> is \<open>map_of\<close>, \<open>Map.size\<close> is \<open>length\<close>; \<open>set\<close> keeps the position of a key
  that is already present and appends a new one.\<close>

primrec mput :: "'k \<Rightarrow> 'v \<Rightarrow> ('k \<times> 'v) list \<Rightarrow> ('k \<times> 'v) list" where
  "mput k v [] = [(k, v)]"
| "mput k v (p # m) = (if fst p = k then (k, v) # m else p # mput k v m)"

definition mdel :: "'k \<Rightarrow> ('k \<times> 'v) list \<Rightarrow> ('k \<times> 'v) list" where
  "mdel k m = filter (\<lambda>p. fst p \<noteq> k) m"

definition mhas :: "'k \<Rightarrow> ('k \<times> 'v) list \<Rightarrow> bool" where
  "mhas k m \<longleftrightarrow> k \<in> fst ` set m"

abbreviation wf_map :: "('k \<times> 'v) list \<Rightarrow> bool" where
  "wf_map m \<equiv> distinct (map fst m)"

lemma mhas_map_of: "mhas k m \<longleftrightarrow> map_of m k \<noteq> None"
  by (simp add: mhas_def map_of_eq_None_iff)

lemma mhas_iff: "mhas k m \<longleftrightarrow> (\<exists>v. map_of m k = Some v)"
  by (simp add: mhas_map_of)

lemma keys_mput [simp]: "fst ` set (mput k v m) = insert k (fst ` set m)"
  by (induction m) auto

lemma map_fst_mput:
  "map fst (mput k v m) = (if k \<in> fst ` set m then map fst m else map fst m @ [k])"
  by (induction m) auto

lemma wf_mput [simp]: "wf_map m \<Longrightarrow> wf_map (mput k v m)"
  by (auto simp: map_fst_mput)

lemma map_of_mput [simp]: "map_of (mput k v m) x = (if x = k then Some v else map_of m x)"
  by (induction m) auto

lemma keys_mdel [simp]: "fst ` set (mdel k m) = fst ` set m - {k}"
  by (auto simp: mdel_def)

lemma map_fst_mdel: "map fst (mdel k m) = filter (\<lambda>k'. k' \<noteq> k) (map fst m)"
  by (induction m) (auto simp: mdel_def)

lemma wf_mdel [simp]: "wf_map m \<Longrightarrow> wf_map (mdel k m)"
  by (simp add: map_fst_mdel)

lemma map_of_mdel [simp]: "map_of (mdel k m) x = (if x = k then None else map_of m x)"
  by (induction m) (auto simp: mdel_def)

lemma length_mput: "length (mput k v m) = (if mhas k m then length m else Suc (length m))"
  by (induction m) (auto simp: mhas_def)

lemma length_mdel_le [simp]: "length (mdel k m) \<le> length m"
  by (simp add: mdel_def)

lemma mdel_absent [simp]: "\<not> mhas k m \<Longrightarrow> mdel k m = m"
  by (auto simp: mdel_def mhas_def filter_id_conv)

lemma length_mdel_less: "mhas k m \<Longrightarrow> length (mdel k m) < length m"
  by (auto simp: mdel_def mhas_def intro: length_filter_less)

lemma length_mdel: "wf_map m \<Longrightarrow> mhas k m \<Longrightarrow> Suc (length (mdel k m)) = length m"
proof (induction m)
  case (Cons p m)
  show ?case
  proof (cases "fst p = k")
    case True
    with Cons.prems have "mdel k m = m"
      by (intro mdel_absent) (auto simp: mhas_def)
    with True show ?thesis by (simp add: mdel_def)
  next
    case False
    with Cons show ?thesis by (auto simp: mdel_def mhas_def)
  qed
qed (simp add: mhas_def)

lemma mhas_mput [simp]: "mhas x (mput k v m) \<longleftrightarrow> x = k \<or> mhas x m"
  by (simp add: mhas_def)

lemma mhas_mdel [simp]: "mhas x (mdel k m) \<longleftrightarrow> x \<noteq> k \<and> mhas x m"
  by (auto simp: mhas_def)

lemma in_set_mput: "p \<in> set (mput k v m) \<Longrightarrow> p = (k, v) \<or> p \<in> set m"
  by (induction m) (auto split: if_splits)

lemma mput_absent: "\<not> mhas k m \<Longrightarrow> mput k v m = m @ [(k, v)]"
  by (induction m) (auto simp: mhas_def)

lemma mem_map_of: "wf_map m \<Longrightarrow> (k, v) \<in> set m \<longleftrightarrow> map_of m k = Some v"
  by (simp add: map_of_eq_Some_iff)

section \<open>Decimal numerals\<close>

definition unit_of :: "nat \<Rightarrow> 16 word" where
  "unit_of n = of_nat n"

lemma unat_unit_of [simp]: "n < 65536 \<Longrightarrow> unat (unit_of n) = n"
  by (simp add: unit_of_def unat_of_nat)

lemma unit_of_unat [simp]: "unit_of (unat c) = c"
  by (simp add: unit_of_def)

lemma unit_bound: "unat (c :: 16 word) < 65536"
  by (rule less_le_trans [OF unsigned_less]) simp

definition digit :: "nat \<Rightarrow> 16 word" where
  "digit d = unit_of (48 + d)"

fun show_nat :: "nat \<Rightarrow> jsstr" where
  "show_nat n = (if n < 10 then [digit n] else show_nat (n div 10) @ [digit (n mod 10)])"

declare show_nat.simps [simp del]

lemma show_nat_nonempty [simp]: "show_nat n \<noteq> []"
  by (subst show_nat.simps) simp

end
