(* ===== verification/Js_Text.thy ===== *)
theory Js_Text
  imports Prelude
begin

text \<open>
  The text operations of the language the shared modules rely on: UTF-8 encoding and
  decoding of UTF-16 strings (\<open>Buffer.from\<close>, \<open>Buffer.byteLength\<close>, the fatal
  \<open>TextDecoder\<close>), \<open>String.prototype.trim\<close>, and the character classes of the regular
  expressions; together with the round trip of the encoding on well-formed strings.
\<close>

type_synonym bytes = "8 word list"

section \<open>Surrogates\<close>

definition is_high :: "16 word \<Rightarrow> bool" where
  "is_high c \<longleftrightarrow> 0xd800 \<le> c \<and> c \<le> 0xdbff"

definition is_low :: "16 word \<Rightarrow> bool" where
  "is_low c \<longleftrightarrow> 0xdc00 \<le> c \<and> c \<le> 0xdfff"

definition is_surrogate :: "16 word \<Rightarrow> bool" where
  "is_surrogate c \<longleftrightarrow> 0xd800 \<le> c \<and> c \<le> 0xdfff"

fun well_formed :: "jsstr \<Rightarrow> bool" where
  "well_formed [] = True"
| "well_formed (c # rest) =
     (if is_surrogate c
      then (case rest of [] \<Rightarrow> False | d # rest' \<Rightarrow> is_high c \<and> is_low d \<and> well_formed rest')
      else well_formed rest)"

section \<open>UTF-8\<close>

definition byte :: "nat \<Rightarrow> 8 word" where
  "byte n = of_nat n"

definition utf8_unit :: "16 word \<Rightarrow> bytes" where
  "utf8_unit c = (let u = unat c in
     if u < 0x80 then [byte u]
     else if u < 0x800 then [byte (0xc0 + u div 64), byte (0x80 + u mod 64)]
     else if is_surrogate c then [0xef, 0xbf, 0xbd]
     else [byte (0xe0 + u div 4096), byte (0x80 + u div 64 mod 64), byte (0x80 + u mod 64)])"

definition utf8_pair :: "16 word \<Rightarrow> 16 word \<Rightarrow> bytes" where
  "utf8_pair c d = (let p = 0x10000 + (unat c - 0xd800) * 1024 + (unat d - 0xdc00) in
     [byte (0xf0 + p div 262144), byte (0x80 + p div 4096 mod 64),
      byte (0x80 + p div 64 mod 64), byte (0x80 + p mod 64)])"

fun utf8 :: "jsstr \<Rightarrow> bytes" where
  "utf8 [] = []"
| "utf8 [c] = utf8_unit c"
| "utf8 (c # d # rest) =
     (if is_high c \<and> is_low d then utf8_pair c d @ utf8 rest
      else utf8_unit c @ utf8 (d # rest))"

abbreviation byteLength :: "jsstr \<Rightarrow> nat" where
  "byteLength s \<equiv> length (utf8 s)"

definition is_cont :: "8 word \<Rightarrow> bool" where
  "is_cont b \<longleftrightarrow> 0x80 \<le> unat b \<and> unat b \<le> 0xbf"

definition cont_bits :: "8 word \<Rightarrow> nat" where
  "cont_bits b = unat b - 0x80"

fun utf8_decode :: "bytes \<Rightarrow> jsstr option" where
  "utf8_decode [] = Some []"
| "utf8_decode (b # bs) = (let n = unat b in
     if n < 0x80 then map_option ((#) (unit_of n)) (utf8_decode bs)
     else if 0xc2 \<le> n \<and> n \<le> 0xdf then
       (case bs of
          c1 # rest \<Rightarrow>
            if is_cont c1
            then map_option ((#) (unit_of ((n - 0xc0) * 64 + cont_bits c1))) (utf8_decode rest)
            else None
        | _ \<Rightarrow> None)
     else if 0xe0 \<le> n \<and> n \<le> 0xef then
       (case bs of
          c1 # c2 # rest \<Rightarrow>
            (let p = (n - 0xe0) * 4096 + cont_bits c1 * 64 + cont_bits c2 in
             if is_cont c1 \<and> is_cont c2 \<and> 0x800 \<le> p \<and> \<not> (0xd800 \<le> p \<and> p \<le> 0xdfff)
             then map_option ((#) (unit_of p)) (utf8_decode rest)
             else None)
        | _ \<Rightarrow> None)
     else if 0xf0 \<le> n \<and> n \<le> 0xf4 then
       (case bs of
          c1 # c2 # c3 # rest \<Rightarrow>
            (let p = (n - 0xf0) * 262144 + cont_bits c1 * 4096 + cont_bits c2 * 64 + cont_bits c3 in
             if is_cont c1 \<and> is_cont c2 \<and> is_cont c3 \<and> 0x10000 \<le> p \<and> p \<le> 0x10ffff
             then map_option (\<lambda>s. unit_of (0xd800 + (p - 0x10000) div 1024) #
                                   unit_of (0xdc00 + (p - 0x10000) mod 1024) # s)
                    (utf8_decode rest)
             else None)
        | _ \<Rightarrow> None)
     else None)"

subsection \<open>Round trip\<close>

declare utf8_decode.simps(2) [simp del]

lemmas utf8_decode_Cons = utf8_decode.simps(2)

lemma base64_2: "n div 4096 * 4096 + n div 64 mod 64 * 64 + n mod 64 = (n :: nat)"
proof -
  have "n div 4096 = n div 64 div 64" by (simp add: div_mult2_eq [symmetric])
  then show ?thesis
    using div_mult_mod_eq [of "n div 64" 64] div_mult_mod_eq [of n 64] by linarith
qed

lemma base64_3:
  "n div 262144 * 262144 + n div 4096 mod 64 * 4096 + n div 64 mod 64 * 64 + n mod 64 = (n :: nat)"
proof -
  have "n div 262144 = n div 4096 div 64" by (simp add: div_mult2_eq [symmetric])
  then show ?thesis
    using div_mult_mod_eq [of "n div 4096" 64] base64_2 [of n] by linarith
qed

lemma unat_byte [simp]: "n < 256 \<Longrightarrow> unat (byte n) = n"
  by (simp add: byte_def unat_of_nat)

lemma is_cont_byte: "n < 64 \<Longrightarrow> is_cont (byte (0x80 + n))"
  by (simp add: is_cont_def)

lemma cont_bits_byte: "n < 64 \<Longrightarrow> cont_bits (byte (0x80 + n)) = n"
  by (simp add: cont_bits_def)

lemma surrogate_unat: "is_surrogate c \<longleftrightarrow> 0xd800 \<le> unat c \<and> unat c \<le> 0xdfff"
  by (simp add: is_surrogate_def word_le_nat_alt)

lemma high_unat: "is_high c \<longleftrightarrow> 0xd800 \<le> unat c \<and> unat c \<le> 0xdbff"
  by (simp add: is_high_def word_le_nat_alt)

lemma low_unat: "is_low c \<longleftrightarrow> 0xdc00 \<le> unat c \<and> unat c \<le> 0xdfff"
  by (simp add: is_low_def word_le_nat_alt)

lemma surrogate_iff: "is_surrogate c \<longleftrightarrow> is_high c \<or> is_low c"
  by (auto simp: surrogate_unat high_unat low_unat)

lemma decode_unit:
  assumes "\<not> is_surrogate c"
  shows "utf8_decode (utf8_unit c @ bs) = map_option ((#) c) (utf8_decode bs)"
proof -
  define u where "u = unat c"
  have c: "unit_of u = c" and u: "u < 65536"
    using unit_bound by (simp_all add: u_def)
  have su: "\<not> (0xd800 \<le> u \<and> u \<le> 0xdfff)"
    using assms by (simp add: surrogate_unat u_def)
  consider (one) "u < 0x80" | (two) "0x80 \<le> u" "u < 0x800" | (three) "0x800 \<le> u"
    by linarith
  then show ?thesis
  proof cases
    case one
    then show ?thesis by (simp add: utf8_unit_def utf8_decode_Cons Let_def c flip: u_def)
  next
    case two
    have enc: "utf8_unit c = [byte (0xc0 + u div 64), byte (0x80 + u mod 64)]"
      using two by (simp add: utf8_unit_def Let_def flip: u_def)
    have sum: "u div 64 * 64 + u mod 64 = u" by simp
    have lead: "2 \<le> u div 64" "u div 64 < 32"
      using two by auto
    show ?thesis
      using lead by (simp add: enc utf8_decode_Cons is_cont_byte cont_bits_byte sum c)
  next
    case three
    have enc: "utf8_unit c =
        [byte (0xe0 + u div 4096), byte (0x80 + u div 64 mod 64), byte (0x80 + u mod 64)]"
      using three assms by (simp add: utf8_unit_def Let_def flip: u_def)
    have lead: "u div 4096 < 16"
      using u by auto
    show ?thesis
      using lead three su by (simp add: enc utf8_decode_Cons Let_def is_cont_byte cont_bits_byte base64_2 c)
  qed
qed

lemma decode_pair:
  assumes "is_high c" and "is_low d"
  shows "utf8_decode (utf8_pair c d @ bs) = map_option (\<lambda>s. c # d # s) (utf8_decode bs)"
proof -
  define h where "h = unat c - 0xd800"
  define l where "l = unat d - 0xdc00"
  define p where "p = 0x10000 + h * 1024 + l"
  have h: "h < 1024" "0xd800 + h = unat c" and l: "l < 1024" "0xdc00 + l = unat d"
    using assms by (auto simp: high_unat low_unat h_def l_def)
  have c: "unit_of (0xd800 + h) = c" and d: "unit_of (0xdc00 + l) = d"
    by (simp_all add: h l)
  have p: "p < 0x110000" using h(1) l(1) by (simp add: p_def)
  have enc: "utf8_pair c d =
      [byte (0xf0 + p div 262144), byte (0x80 + p div 4096 mod 64),
       byte (0x80 + p div 64 mod 64), byte (0x80 + p mod 64)]"
    by (simp add: utf8_pair_def Let_def p_def h_def l_def)
  have lead: "p div 262144 \<le> 4"
    using p by auto
  have parts: "(p - 0x10000) div 1024 = h" "(p - 0x10000) mod 1024 = l" "0x10000 \<le> p"
    using l(1) by (simp_all add: p_def)
  show ?thesis
    using p lead parts(3)
    by (simp add: enc utf8_decode_Cons Let_def is_cont_byte cont_bits_byte base64_3 parts(1,2) c d)
qed

lemma utf8_Cons:
  "utf8 (c # s) = (case s of
      d # s' \<Rightarrow> if is_high c \<and> is_low d then utf8_pair c d @ utf8 s' else utf8_unit c @ utf8 s
    | [] \<Rightarrow> utf8_unit c)"
  by (cases s) auto

lemma utf8_Cons_plain: "\<not> is_surrogate c \<Longrightarrow> utf8 (c # s) = utf8_unit c @ utf8 s"
  by (cases s) (auto simp: surrogate_iff)

theorem utf8_decode_encode:
  assumes "well_formed s"
  shows "utf8_decode (utf8 s) = Some s"
  using assms
proof (induction s rule: well_formed.induct)
  case (2 c rest)
  show ?case
  proof (cases "is_surrogate c")
    case True
    with "2.prems" obtain d rest' where r: "rest = d # rest'" "is_high c" "is_low d" "well_formed rest'"
      by (auto split: list.splits)
    with 2(1) [OF True r(1)] have "utf8_decode (utf8 rest') = Some rest'" by simp
    with r show ?thesis by (simp add: decode_pair)
  next
    case False
    with 2 have "utf8_decode (utf8 rest) = Some rest" by simp
    with False show ?thesis by (simp add: utf8_Cons_plain decode_unit)
  qed
qed simp

corollary utf8_inject:
  assumes "well_formed s" and "well_formed t"
  shows "utf8 s = utf8 t \<longleftrightarrow> s = t"
  by (metis utf8_decode_encode [OF assms(1)] utf8_decode_encode [OF assms(2)] option.inject)

section \<open>White space and character classes\<close>

text \<open>The code units that \<open>String.prototype.trim\<close> and the class \<open>\s\<close> treat as white
  space.\<close>

definition is_space :: "16 word \<Rightarrow> bool" where
  "is_space c \<longleftrightarrow> c \<in> {0x09, 0x0a, 0x0b, 0x0c, 0x0d, 0x20, 0xa0, 0x1680, 0x2028, 0x2029,
      0x202f, 0x205f, 0x3000, 0xfeff} \<or> (0x2000 \<le> c \<and> c \<le> 0x200a)"

definition trim :: "jsstr \<Rightarrow> jsstr" where
  "trim s = rev (dropWhile is_space (rev (dropWhile is_space s)))"

definition is_digit :: "16 word \<Rightarrow> bool" where
  "is_digit c \<longleftrightarrow> 0x30 \<le> c \<and> c \<le> 0x39"

definition is_lower_hex :: "16 word \<Rightarrow> bool" where
  "is_lower_hex c \<longleftrightarrow> is_digit c \<or> (0x61 \<le> c \<and> c \<le> 0x66)"

definition is_alpha :: "16 word \<Rightarrow> bool" where
  "is_alpha c \<longleftrightarrow> (0x41 \<le> c \<and> c \<le> 0x5a) \<or> (0x61 \<le> c \<and> c \<le> 0x7a)"

definition is_alnum :: "16 word \<Rightarrow> bool" where
  "is_alnum c \<longleftrightarrow> is_alpha c \<or> is_digit c"

text \<open>The class \<open>[A-Za-z0-9._-]\<close>.\<close>

definition is_id_char :: "16 word \<Rightarrow> bool" where
  "is_id_char c \<longleftrightarrow> is_alnum c \<or> c = 0x2e \<or> c = 0x5f \<or> c = 0x2d"

text \<open>Decimal digits as a number (\<open>BigInt(text)\<close> on a string of digits).\<close>

definition digit_value :: "16 word \<Rightarrow> nat" where
  "digit_value c = unat c - 0x30"

definition decimal :: "jsstr \<Rightarrow> nat" where
  "decimal s = foldl (\<lambda>n c. 10 * n + digit_value c) 0 s"

lemma dropWhile_trailing:
  assumes "dropWhile P t = t"
  shows "dropWhile P (rev (dropWhile P (rev t))) = rev (dropWhile P (rev t))"
proof (cases "rev (dropWhile P (rev t))")
  case (Cons a xs)
  have "rev (dropWhile P (rev t)) @ rev (takeWhile P (rev t)) = t"
    by (metis rev_append rev_rev_ident takeWhile_dropWhile_id)
  with Cons have "t = a # (xs @ rev (takeWhile P (rev t)))" by simp
  with assms have "\<not> P a" by (metis dropWhile_eq_self_iff list.distinct(1) list.sel(1))
  with Cons show ?thesis by simp
next
  case Nil
  then show ?thesis by (simp only: Nil dropWhile.simps)
qed

lemma trim_trim [simp]: "trim (trim s) = trim s"
  unfolding trim_def by (simp add: dropWhile_trailing dropWhile_idem)

lemma length_trim: "length (trim s) \<le> length s"
  unfolding trim_def by (simp add: le_trans [OF length_dropWhile_le] length_dropWhile_le)

lemma digit_is_digit: "d < 10 \<Longrightarrow> is_digit (digit d)"
  by (simp add: is_digit_def digit_def word_le_nat_alt)

lemma digit_value_digit: "d < 10 \<Longrightarrow> digit_value (digit d) = d"
  by (simp add: digit_value_def digit_def)

lemma decimal_snoc: "decimal (s @ [c]) = 10 * decimal s + digit_value c"
  by (simp add: decimal_def)

theorem decimal_show_nat [simp]: "decimal (show_nat n) = n"
proof (induction n rule: show_nat.induct)
  case (1 n)
  show ?case
  proof (cases "n < 10")
    case True
    then show ?thesis by (subst show_nat.simps) (simp add: decimal_def digit_value_digit)
  next
    case False
    with 1 show ?thesis
      by (subst show_nat.simps) (simp add: decimal_snoc digit_value_digit)
  qed
qed

lemma show_nat_digits: "list_all is_digit (show_nat n)"
proof (induction n rule: show_nat.induct)
  case (1 n)
  then show ?case
    by (subst show_nat.simps) (simp add: digit_is_digit)
qed

lemma show_nat_head: "n \<noteq> 0 \<Longrightarrow> hd (show_nat n) \<noteq> 0x30"
proof (induction n rule: show_nat.induct)
  case (1 n)
  show ?case
  proof (cases "n < 10")
    case True
    then have "unat (digit n) = 48 + n" by (simp add: digit_def)
    with "1.prems" have "digit n \<noteq> 0x30" by auto
    with True show ?thesis by (subst show_nat.simps) simp
  next
    case False
    with 1 show ?thesis by (subst show_nat.simps) simp
  qed
qed

lemma show_nat_zero: "show_nat 0 = [0x30]"
  by (subst show_nat.simps) (simp add: digit_def unit_of_def)

end
