(* ===== verification/Strict_Json.thy ===== *)
theory Strict_Json
  imports Js_Text
begin

text \<open>
  The strict JSON codec of \<^verbatim>\<open>shared/strict-json.js\<close>: text admission
  (\<open>assertStrictText\<close>), value admission (\<open>assertJsonValue\<close>), the canonical renderer
  (\<open>canonicalJson\<close> and its byte and hash forms) and the strict parser
  (\<open>parseStrictJson\<close>, \<open>parseStrictJsonBytes\<close>, \<open>parseCanonicalJsonBytes\<close>).  The parser is
  a recursion over the unread suffix of the input with fuel; \<open>parse_fuel\<close> shows that
  the fuel handed out at the top is always enough, and the round trip of renderer and
  parser is the main result.  SHA-256 is a parameter.
\<close>

section \<open>Definitions\<close>

record limits =
  maxBytes :: nat
  maxDepth :: nat
  maxNodes :: nat

definition STRICT_JSON_LIMITS :: limits where
  "STRICT_JSON_LIMITS = \<lparr>maxBytes = 1024 * 1024, maxDepth = 64, maxNodes = 10000\<rparr>"

definition utf8Compare :: "jsstr \<Rightarrow> jsstr \<Rightarrow> int" where
  "utf8Compare l r = (if utf8 l < utf8 r then -1 else if utf8 l = utf8 r then 0 else 1)"

fun isHex64 :: "jsval \<Rightarrow> bool" where
  "isHex64 (JStr s) \<longleftrightarrow> length s = 64 \<and> list_all is_lower_hex s"
| "isHex64 _ \<longleftrightarrow> False"

definition forbidden_control :: "16 word \<Rightarrow> bool" where
  "forbidden_control c \<longleftrightarrow> c \<le> 0x1f \<or> (0x7f \<le> c \<and> c \<le> 0x9f) \<or> c = 0x2028 \<or> c = 0x2029"

text \<open>The loop shared by \<open>assertStrictText\<close> and the value branch of the string parser:
  \<open>bad\<close> is the set of refused code units.\<close>

fun scan_text :: "(16 word \<Rightarrow> bool) \<Rightarrow> jsstr \<Rightarrow> jsstr \<Rightarrow> js_error option" where
  "scan_text bad name [] = None"
| "scan_text bad name (c # rest) =
     (if bad c then Some (SyntaxError (name @ js '' contains a forbidden control character''))
      else if is_surrogate c then
        (case rest of
           d # rest' \<Rightarrow>
             if c \<le> 0xdbff \<and> is_low d then scan_text bad name rest'
             else Some (SyntaxError (name @ js '' contains an unpaired surrogate''))
         | [] \<Rightarrow> Some (SyntaxError (name @ js '' contains an unpaired surrogate'')))
      else scan_text bad name rest)"

fun assertStrictText :: "jsval \<Rightarrow> jsstr \<Rightarrow> nat option \<Rightarrow> js_error + jsval" where
  "assertStrictText (JStr s) name maxUtf8Bytes =
     (if (case maxUtf8Bytes of None \<Rightarrow> False | Some m \<Rightarrow> m < byteLength s)
      then Inl (RangeError (name @ js '' exceeds its byte limit''))
      else case scan_text forbidden_control name s of
             Some e \<Rightarrow> Inl e
           | None \<Rightarrow> Inr (JStr s))"
| "assertStrictText _ name maxUtf8Bytes = Inl (TypeError (name @ js '' must be a string''))"

text \<open>\<open>assertJsonValue\<close>: the node counter of the source's \<open>state\<close> object is threaded
  through and returned.\<close>

fun assertJsonValue :: "limits \<Rightarrow> jsval \<Rightarrow> nat \<Rightarrow> nat \<Rightarrow> js_error + nat"
  and assert_items :: "limits \<Rightarrow> jsval list \<Rightarrow> nat \<Rightarrow> nat \<Rightarrow> js_error + nat"
  and assert_fields :: "limits \<Rightarrow> (jsstr \<times> jsval) list \<Rightarrow> nat \<Rightarrow> nat \<Rightarrow> js_error + nat"
where
  "assertJsonValue L v depth nodes =
     (if maxDepth L < depth then Inl (RangeError (js ''JSON nesting exceeds its depth limit''))
      else if maxNodes L < Suc nodes then Inl (RangeError (js ''JSON exceeds its node limit''))
      else case v of
          JNull \<Rightarrow> Inr (Suc nodes)
        | JBool _ \<Rightarrow> Inr (Suc nodes)
        | JStr s \<Rightarrow> (case assertStrictText (JStr s) (js ''JSON string'') None of
                      Inl e \<Rightarrow> Inl e | Inr _ \<Rightarrow> Inr (Suc nodes))
        | JNum _ \<Rightarrow> (if isSafeInteger v then Inr (Suc nodes)
                      else Inl (TypeError (js ''JSON numbers must be safe integers'')))
        | JArr items \<Rightarrow> assert_items L items (Suc depth) (Suc nodes)
        | JObj ObjectProto fs \<Rightarrow> assert_fields L fs (Suc depth) (Suc nodes)
        | JUndefined \<Rightarrow> Inl (TypeError (js ''Cannot convert undefined or null to object''))
        | _ \<Rightarrow> Inl (TypeError (js ''JSON objects must be plain objects'')))"
| "assert_items L [] depth nodes = Inr nodes"
| "assert_items L (v # vs) depth nodes =
     (case assertJsonValue L v depth nodes of
        Inl e \<Rightarrow> Inl e
      | Inr nodes' \<Rightarrow> assert_items L vs depth nodes')"
| "assert_fields L [] depth nodes = Inr nodes"
| "assert_fields L ((k, v) # fs) depth nodes =
     (case assertStrictText (JStr k) (js ''JSON object key'') None of
        Inl e \<Rightarrow> Inl e
      | Inr _ \<Rightarrow>
         (case assertJsonValue L v depth nodes of
            Inl e \<Rightarrow> Inl e
          | Inr nodes' \<Rightarrow> assert_fields L fs depth nodes'))"

text \<open>\<open>JSON.stringify\<close> of a string: the two-character escapes, \<open>\u00XX\<close> for the other
  controls and \<open>\udXXX\<close> for an unpaired surrogate.\<close>

definition hex_digit :: "nat \<Rightarrow> 16 word" where
  "hex_digit d = (if d < 10 then unit_of (0x30 + d) else unit_of (0x61 + (d - 10)))"

definition u_escape :: "16 word \<Rightarrow> jsstr" where
  "u_escape c = (let u = unat c in
     [0x5c, 0x75, hex_digit (u div 4096), hex_digit (u div 256 mod 16),
      hex_digit (u div 16 mod 16), hex_digit (u mod 16)])"

definition escape_unit :: "16 word \<Rightarrow> jsstr" where
  "escape_unit c =
     (if c = 0x22 then [0x5c, 0x22] else if c = 0x5c then [0x5c, 0x5c]
      else if c = 0x08 then [0x5c, 0x62] else if c = 0x0c then [0x5c, 0x66]
      else if c = 0x0a then [0x5c, 0x6e] else if c = 0x0d then [0x5c, 0x72]
      else if c = 0x09 then [0x5c, 0x74]
      else if c < 0x20 then u_escape c else [c])"

fun escape :: "jsstr \<Rightarrow> jsstr" where
  "escape [] = []"
| "escape (c # rest) =
     (if is_surrogate c then
        (case rest of
           d # rest' \<Rightarrow> if is_high c \<and> is_low d then c # d # escape rest'
                        else u_escape c @ escape rest
         | [] \<Rightarrow> u_escape c)
      else escape_unit c @ escape rest)"

definition quote :: "jsstr \<Rightarrow> jsstr" where
  "quote s = [0x22] @ escape s @ [0x22]"

definition show_int :: "int \<Rightarrow> jsstr" where
  "show_int n = (if n < 0 then 0x2d # show_nat (nat (- n)) else show_nat (nat n))"

definition join :: "jsstr \<Rightarrow> jsstr list \<Rightarrow> jsstr" where
  "join sep xs = (case xs of [] \<Rightarrow> [] | y # ys \<Rightarrow> y @ concat (map (\<lambda>z. sep @ z) ys))"

text \<open>The closure \<open>render\<close> of \<open>canonicalJson\<close>; numbers are safe integers here, since
  \<open>assertJsonValue\<close> has accepted the value.\<close>

fun render :: "jsval \<Rightarrow> jsstr"
  and render_items :: "jsval list \<Rightarrow> jsstr list"
  and render_members :: "(jsstr \<times> jsval) list \<Rightarrow> (jsstr \<times> jsstr) list"
where
  "render (JBool True) = js ''true''"
| "render (JBool False) = js ''false''"
| "render (JNum n) = show_int (int_of (JNum n))"
| "render (JStr s) = quote s"
| "render (JArr vs) = js ''['' @ join (js '','') (render_items vs) @ js '']''"
| "render (JObj p fs) =
     js ''{'' @ join (js '','') (map (\<lambda>(k, t). quote k @ js '':'' @ t)
        (sort_key (\<lambda>(k, _). utf8 k) (render_members fs))) @ js ''}''"
| "render _ = js ''null''"
| "render_items [] = []"
| "render_items (v # vs) = render v # render_items vs"
| "render_members [] = []"
| "render_members ((k, v) # fs) = (k, render v) # render_members fs"

definition canonicalJson :: "limits \<Rightarrow> jsval \<Rightarrow> js_error + jsstr" where
  "canonicalJson L v = (case assertJsonValue L v 0 0 of Inl e \<Rightarrow> Inl e | Inr _ \<Rightarrow> Inr (render v))"

definition canonicalJsonBytes :: "limits \<Rightarrow> jsval \<Rightarrow> js_error + bytes" where
  "canonicalJsonBytes L v = map_sum id utf8 (canonicalJson L v)"

text \<open>\<open>createHash("sha256")\<close> with a lowercase hexadecimal digest is the parameter \<open>sha256\<close>.\<close>

definition canonicalJsonHash :: "(bytes \<Rightarrow> jsstr) \<Rightarrow> limits \<Rightarrow> jsval \<Rightarrow> js_error + jsstr" where
  "canonicalJsonHash sha256 L v = map_sum id sha256 (canonicalJsonBytes L v)"

subsection \<open>The parser\<close>

record parse_env =
  source :: jsstr
  lims :: limits
  allowedControls :: "16 word list option"

type_synonym 'a parsed = "(js_error + 'a \<times> jsstr \<times> nat) option"

text \<open>\<open>fail(message)\<close> with \<open>at\<close> at the start of \<open>rest\<close>.\<close>

definition fail_at :: "parse_env \<Rightarrow> jsstr \<Rightarrow> string \<Rightarrow> js_error" where
  "fail_at env rest msg =
     SyntaxError (js msg @ js '' at byte '' @
       show_nat (byteLength (take (length (source env) - length rest) (source env))))"

definition is_json_space :: "16 word \<Rightarrow> bool" where
  "is_json_space c \<longleftrightarrow> c = 0x20 \<or> c = 0x09 \<or> c = 0x0a \<or> c = 0x0d"

abbreviation skip_ws :: "jsstr \<Rightarrow> jsstr" where
  "skip_ws s \<equiv> dropWhile is_json_space s"

fun scan_string :: "jsstr \<Rightarrow> (string \<times> jsstr) + (jsstr \<times> jsstr)" where
  "scan_string [] = Inl (''unterminated string'', [])"
| "scan_string (c # rest) =
     (if c = 0x22 then Inr ([], rest)
      else if c = 0x5c then
        (case rest of
           [] \<Rightarrow> Inl (''unterminated string'', [])
         | d # rest' \<Rightarrow> map_sum id (apfst (\<lambda>raw. c # d # raw)) (scan_string rest'))
      else if c \<le> 0x1f then Inl (''unescaped control character'', rest)
      else map_sum id (apfst ((#) c)) (scan_string rest))"

definition hex_value :: "16 word \<Rightarrow> nat option" where
  "hex_value c =
     (if is_digit c then Some (unat c - 0x30)
      else if 0x61 \<le> c \<and> c \<le> 0x66 then Some (unat c - 0x61 + 10)
      else if 0x41 \<le> c \<and> c \<le> 0x46 then Some (unat c - 0x41 + 10)
      else None)"

definition simple_escape :: "16 word \<Rightarrow> 16 word option" where
  "simple_escape c =
     (if c = 0x22 then Some 0x22 else if c = 0x5c then Some 0x5c else if c = 0x2f then Some 0x2f
      else if c = 0x62 then Some 0x08 else if c = 0x66 then Some 0x0c
      else if c = 0x6e then Some 0x0a else if c = 0x72 then Some 0x0d
      else if c = 0x74 then Some 0x09 else None)"

text \<open>\<open>JSON.parse\<close> on a quoted string whose body is the argument.\<close>

fun unescape :: "jsstr \<Rightarrow> jsstr option" where
  "unescape [] = Some []"
| "unescape (c # rest) =
     (if c = 0x5c then
        (case rest of
           [] \<Rightarrow> None
         | e # rest' \<Rightarrow>
            if e = 0x75 then
              (case rest' of
                 h1 # h2 # h3 # h4 # rest'' \<Rightarrow>
                   (case (hex_value h1, hex_value h2, hex_value h3, hex_value h4) of
                      (Some a, Some b, Some c', Some d) \<Rightarrow>
                        map_option ((#) (unit_of (a * 4096 + b * 256 + c' * 16 + d))) (unescape rest'')
                    | _ \<Rightarrow> None)
               | _ \<Rightarrow> None)
            else (case simple_escape e of
                    None \<Rightarrow> None
                  | Some u \<Rightarrow> map_option ((#) u) (unescape rest')))
      else if c \<le> 0x1f \<or> c = 0x22 then None
      else map_option ((#) c) (unescape rest))"

text \<open>The closure \<open>string(isKey)\<close>.\<close>

definition parse_string :: "parse_env \<Rightarrow> bool \<Rightarrow> jsstr \<Rightarrow> js_error + jsstr \<times> jsstr" where
  "parse_string env isKey rest =
     (case rest of
        [] \<Rightarrow> Inl (fail_at env rest ''expected string'')
      | c # r \<Rightarrow>
         if c \<noteq> 0x22 then Inl (fail_at env rest ''expected string'')
         else case scan_string r of
             Inl (msg, r') \<Rightarrow> Inl (fail_at env r' msg)
           | Inr (raw, r') \<Rightarrow>
              (case unescape raw of
                 None \<Rightarrow> Inl (fail_at env r' ''invalid string'')
               | Some decoded \<Rightarrow>
                  (let bad = (case allowedControls env of
                                None \<Rightarrow> forbidden_control
                              | Some ok \<Rightarrow> if isKey then forbidden_control
                                            else (\<lambda>u. forbidden_control u \<and> u \<notin> set ok))
                   in case scan_text bad (js ''JSON string'') decoded of
                        Some e \<Rightarrow> Inl e
                      | None \<Rightarrow> Inr (decoded, r'))))"

text \<open>The number token \<open>/^(?:-?(?:0|[1-9][0-9]*))(?![.eE0-9])/\<close>: the sign, the digits and
  the rest.  The only shorter matches end before a digit, which the lookahead refuses.\<close>

definition next_ok :: "jsstr \<Rightarrow> bool" where
  "next_ok r \<longleftrightarrow> (case r of [] \<Rightarrow> True
     | x # _ \<Rightarrow> \<not> (x = 0x2e \<or> x = 0x65 \<or> x = 0x45 \<or> is_digit x))"

definition number_token :: "jsstr \<Rightarrow> (bool \<times> jsstr \<times> jsstr) option" where
  "number_token s =
     (let neg = (case s of [] \<Rightarrow> False | c # _ \<Rightarrow> c = 0x2d);
          s1 = (if neg then tl s else s)
      in case s1 of
           [] \<Rightarrow> None
         | c # s2 \<Rightarrow>
            if c = 0x30 then (if next_ok s2 then Some (neg, [c], s2) else None)
            else if is_digit c then
              (let ds = takeWhile is_digit s1; r = dropWhile is_digit s1
               in if next_ok r then Some (neg, ds, r) else None)
            else None)"

definition strip_prefix :: "jsstr \<Rightarrow> jsstr \<Rightarrow> jsstr option" where
  "strip_prefix p s = (if take (length p) s = p then Some (drop (length p) s) else None)"

definition parse_scalar :: "parse_env \<Rightarrow> jsstr \<Rightarrow> js_error + jsval \<times> jsstr" where
  "parse_scalar env rest =
     (case number_token rest of
        Some (neg, ds, r) \<Rightarrow>
          if neg \<and> ds = [0x30] then Inl (fail_at env rest ''negative zero'')
          else (let n = (if neg then - int (decimal ds) else int (decimal ds))
                in if isSafeInteger (JInt n) then Inr (JInt n, r)
                   else Inl (fail_at env r ''unsafe number''))
      | None \<Rightarrow>
         (case strip_prefix (js ''true'') rest of Some r \<Rightarrow> Inr (JBool True, r) | None \<Rightarrow>
          case strip_prefix (js ''false'') rest of Some r \<Rightarrow> Inr (JBool False, r) | None \<Rightarrow>
          case strip_prefix (js ''null'') rest of Some r \<Rightarrow> Inr (JNull, r) | None \<Rightarrow>
          Inl (fail_at env rest ''expected value'')))"

definition starts :: "16 word \<Rightarrow> jsstr \<Rightarrow> bool" where
  "starts c s \<longleftrightarrow> (case s of [] \<Rightarrow> False | d # _ \<Rightarrow> d = c)"

text \<open>The closure \<open>value(depth)\<close> and the bodies of its two loops, as the three kinds of
  task of one recursion; every call spends one unit of fuel.\<close>

datatype task =
    Value nat jsstr nat
  | Members nat "(jsstr \<times> jsval) list" jsstr nat
  | Elements nat "jsval list" jsstr nat

definition value_step ::
  "(task \<Rightarrow> jsval parsed) \<Rightarrow> parse_env \<Rightarrow> nat \<Rightarrow> jsstr \<Rightarrow> nat \<Rightarrow> jsval parsed" where
  "value_step rec env depth rest nodes =
     (if maxDepth (lims env) < depth
      then Some (Inl (RangeError (js ''JSON nesting exceeds its depth limit'')))
      else if maxNodes (lims env) < Suc nodes
      then Some (Inl (RangeError (js ''JSON exceeds its node limit'')))
      else let rest = skip_ws rest in
        if starts 0x22 rest then
          (case parse_string env False rest of
             Inl e \<Rightarrow> Some (Inl e)
           | Inr (s, r) \<Rightarrow> Some (Inr (JStr s, r, Suc nodes)))
        else if starts 0x7b rest then
          (let r = skip_ws (tl rest) in
           if starts 0x7d r then Some (Inr (JObj ObjectProto [], tl r, Suc nodes))
           else rec (Members depth [] r (Suc nodes)))
        else if starts 0x5b rest then
          (let r = skip_ws (tl rest) in
           if starts 0x5d r then Some (Inr (JArr [], tl r, Suc nodes))
           else rec (Elements depth [] r (Suc nodes)))
        else (case parse_scalar env rest of
                Inl e \<Rightarrow> Some (Inl e)
              | Inr (v, r) \<Rightarrow> Some (Inr (v, r, Suc nodes))))"

definition members_step ::
  "(task \<Rightarrow> jsval parsed) \<Rightarrow> parse_env \<Rightarrow> nat \<Rightarrow> (jsstr \<times> jsval) list \<Rightarrow> jsstr \<Rightarrow> nat \<Rightarrow> jsval parsed" where
  "members_step rec env depth acc rest nodes =
     (case parse_string env True (skip_ws rest) of
        Inl e \<Rightarrow> Some (Inl e)
      | Inr (key, r0) \<Rightarrow>
         (let r = skip_ws r0 in
          if \<not> starts 0x3a r then Some (Inl (fail_at env (drop 1 r) ''expected colon''))
          else if mhas key acc then Some (Inl (fail_at env (tl r) ''duplicate object key''))
          else case rec (Value (Suc depth) (tl r) nodes) of
                 None \<Rightarrow> None
               | Some (Inl e) \<Rightarrow> Some (Inl e)
               | Some (Inr (v, r1, nodes1)) \<Rightarrow>
                  (let r2 = skip_ws r1; acc2 = acc @ [(key, v)] in
                   if starts 0x7d r2 then Some (Inr (JObj ObjectProto acc2, tl r2, nodes1))
                   else if starts 0x2c r2 then rec (Members depth acc2 (tl r2) nodes1)
                   else Some (Inl (fail_at env (drop 1 r2) ''expected comma'')))))"

definition elements_step ::
  "(task \<Rightarrow> jsval parsed) \<Rightarrow> parse_env \<Rightarrow> nat \<Rightarrow> jsval list \<Rightarrow> jsstr \<Rightarrow> nat \<Rightarrow> jsval parsed" where
  "elements_step rec env depth acc rest nodes =
     (case rec (Value (Suc depth) rest nodes) of
        None \<Rightarrow> None
      | Some (Inl e) \<Rightarrow> Some (Inl e)
      | Some (Inr (v, r1, nodes1)) \<Rightarrow>
         (let r2 = skip_ws r1; acc2 = acc @ [v] in
          if starts 0x5d r2 then Some (Inr (JArr acc2, tl r2, nodes1))
          else if starts 0x2c r2 then rec (Elements depth acc2 (tl r2) nodes1)
          else Some (Inl (fail_at env (drop 1 r2) ''expected comma''))))"

primrec run_parser :: "nat \<Rightarrow> parse_env \<Rightarrow> task \<Rightarrow> jsval parsed" where
  "run_parser 0 env t = None"
| "run_parser (Suc fuel) env t =
     (case t of
        Value depth rest nodes \<Rightarrow> value_step (run_parser fuel env) env depth rest nodes
      | Members depth acc rest nodes \<Rightarrow> members_step (run_parser fuel env) env depth acc rest nodes
      | Elements depth acc rest nodes \<Rightarrow> elements_step (run_parser fuel env) env depth acc rest nodes)"

definition parse_fuel :: "jsstr \<Rightarrow> nat" where
  "parse_fuel s = 2 * length s + 2"

definition parseStrictJson ::
  "16 word list option \<Rightarrow> limits \<Rightarrow> jsval \<Rightarrow> (js_error + jsval) option" where
  "parseStrictJson allowed L src =
     (case src of
        JStr s \<Rightarrow>
          if maxBytes L < byteLength s then Some (Inl (RangeError (js ''JSON exceeds its byte limit'')))
          else (let env = \<lparr>source = s, lims = L, allowedControls = allowed\<rparr> in
                case run_parser (parse_fuel s) env (Value 0 s 0) of
                  None \<Rightarrow> None
                | Some (Inl e) \<Rightarrow> Some (Inl e)
                | Some (Inr (v, r, _)) \<Rightarrow>
                   (let r = skip_ws r in
                    if r = [] then Some (Inr v)
                    else Some (Inl (fail_at env r ''trailing JSON data''))))
      | _ \<Rightarrow> Some (Inl (TypeError (js ''JSON input must be a string''))))"

definition parseStrictJsonBytes ::
  "16 word list option \<Rightarrow> limits \<Rightarrow> bytes \<Rightarrow> (js_error + jsval) option" where
  "parseStrictJsonBytes allowed L input =
     (if maxBytes L < length input then Some (Inl (RangeError (js ''JSON exceeds its byte limit'')))
      else if take 3 input = [0xef, 0xbb, 0xbf]
      then Some (Inl (SyntaxError (js ''JSON must not contain a BOM'')))
      else case utf8_decode input of
             None \<Rightarrow> Some (Inl (SyntaxError (js ''JSON is not valid UTF-8'')))
           | Some src \<Rightarrow> parseStrictJson allowed L (JStr src))"

definition parseCanonicalJsonBytes :: "limits \<Rightarrow> bytes \<Rightarrow> (js_error + jsval) option" where
  "parseCanonicalJsonBytes L input =
     (case parseStrictJsonBytes None L input of
        Some (Inr v) \<Rightarrow>
          (case canonicalJsonBytes L v of
             Inl e \<Rightarrow> Some (Inl e)
           | Inr out \<Rightarrow> if input = out then Some (Inr v)
                         else Some (Inl (SyntaxError (js ''JSON is not canonically encoded''))))
      | r \<Rightarrow> r)"


section \<open>Text admission\<close>

definition strict_text :: "jsstr \<Rightarrow> bool" where
  "strict_text s \<longleftrightarrow> list_all (\<lambda>c. \<not> forbidden_control c) s \<and> well_formed s"

lemma surrogate_not_forbidden: "is_surrogate c \<Longrightarrow> \<not> forbidden_control c"
  by (auto simp: is_surrogate_def forbidden_control_def word_le_nat_alt)

lemma high_le: "is_surrogate c \<Longrightarrow> c \<le> 0xdbff \<longleftrightarrow> is_high c"
  by (auto simp: is_surrogate_def is_high_def)

lemma scan_text_None: "scan_text forbidden_control name s = None \<longleftrightarrow> strict_text s"
proof (induction s rule: well_formed.induct)
  case (2 c rest)
  show ?case
  proof (cases "is_surrogate c")
    case True
    with 2 show ?thesis
      by (cases rest)
        (auto simp: strict_text_def surrogate_not_forbidden high_le surrogate_iff [of "hd rest"]
          surrogate_iff)
  next
    case False
    with 2 show ?thesis by (auto simp: strict_text_def)
  qed
qed (simp add: strict_text_def)

lemma assertStrictText_Inr:
  "assertStrictText v name m = Inr w \<longleftrightarrow>
     w = v \<and> (\<exists>s. v = JStr s \<and> strict_text s \<and> (case m of None \<Rightarrow> True | Some b \<Rightarrow> byteLength s \<le> b))"
proof (cases v)
  case (JStr s)
  then show ?thesis
    using scan_text_None [of name s]
    by (cases "scan_text forbidden_control name s") (auto split: option.splits)
qed auto

section \<open>Strings survive quoting\<close>

lemma hex_value_digit: "d < 16 \<Longrightarrow> hex_value (hex_digit d) = Some d"
proof -
  assume d: "d < 16"
  consider "d < 10" | "10 \<le> d" by linarith
  then show ?thesis
  proof cases
    case 1
    then show ?thesis
      by (simp add: hex_value_def hex_digit_def is_digit_def word_le_nat_alt)
  next
    case 2
    with d have "unat (hex_digit d) = 0x61 + (d - 10)" by (simp add: hex_digit_def)
    with 2 d show ?thesis
      by (simp add: hex_value_def is_digit_def word_le_nat_alt)
  qed
qed

lemma base16: "u div 4096 * 4096 + u div 256 mod 16 * 256 + u div 16 mod 16 * 16 + u mod 16 = u"
  for u :: nat
proof -
  have "u div 256 = u div 16 div 16" "u div 4096 = u div 256 div 16"
    by (simp_all add: div_mult2_eq [symmetric])
  then show ?thesis
    using div_mult_mod_eq [of u 16] div_mult_mod_eq [of "u div 16" 16]
      div_mult_mod_eq [of "u div 256" 16] by linarith
qed

declare unescape.simps(2) [simp del]

lemma unescape_u: "unescape (u_escape c @ t) = map_option ((#) c) (unescape t)"
proof -
  have "unat c div 4096 < 16" using unit_bound [of c] by auto
  then show ?thesis
    by (simp add: u_escape_def Let_def hex_value_digit base16 unescape.simps(2))
qed

lemma unescape_plain:
  "\<lbrakk>\<not> c \<le> 0x1f; c \<noteq> 0x22; c \<noteq> 0x5c\<rbrakk> \<Longrightarrow> unescape (c # t) = map_option ((#) c) (unescape t)"
  by (simp add: unescape.simps(2))

lemma unescape_unit: "unescape (escape_unit c @ t) = map_option ((#) c) (unescape t)"
proof -
  have "\<not> c < 0x20 \<Longrightarrow> \<not> c \<le> 0x1f" by (simp add: word_less_nat_alt word_le_nat_alt)
  then show ?thesis
    by (simp add: escape_unit_def unescape_u unescape_plain unescape.simps(2) simple_escape_def)
qed

lemma surrogate_plain: "is_surrogate c \<Longrightarrow> \<not> c \<le> 0x1f \<and> c \<noteq> 0x22 \<and> c \<noteq> 0x5c"
  by (auto simp: is_surrogate_def word_le_nat_alt word_less_nat_alt)

lemma unescape_escape: "unescape (escape s) = Some s"
proof (induction s rule: escape.induct)
  case (2 c rest)
  show ?case
  proof (cases "is_surrogate c")
    case True
    show ?thesis
    proof (cases rest)
      case Nil
      with True show ?thesis using unescape_u [of c "[]"] by simp
    next
      case (Cons d rest')
      with True 2 show ?thesis
        by (auto simp: unescape_u unescape_plain surrogate_plain surrogate_iff)
    qed
  next
    case False
    with 2 show ?thesis by (simp add: unescape_unit)
  qed
qed simp

text \<open>The scanner walks over an escaped body and stops at the closing quote.\<close>

definition passes :: "jsstr \<Rightarrow> bool" where
  "passes p \<longleftrightarrow> (\<forall>t. scan_string (p @ t) = map_sum id (apfst ((@) p)) (scan_string t))"

lemma passes_Nil: "passes []"
proof -
  have "map_sum id (apfst ((@) [])) r = r" for r :: "(string \<times> jsstr) + (jsstr \<times> jsstr)"
    by (cases r) auto
  then show ?thesis by (simp add: passes_def)
qed

lemma passes_append: "passes p \<Longrightarrow> passes q \<Longrightarrow> passes (p @ q)"
proof -
  have "map_sum id (apfst ((@) p)) (map_sum id (apfst ((@) q)) r) = map_sum id (apfst ((@) (p @ q))) r"
    for r :: "(string \<times> jsstr) + (jsstr \<times> jsstr)"
    by (cases r) auto
  then show "passes p \<Longrightarrow> passes q \<Longrightarrow> passes (p @ q)"
    by (simp add: passes_def)
qed

lemma passes_unit: "\<lbrakk>\<not> c \<le> 0x1f; c \<noteq> 0x22; c \<noteq> 0x5c\<rbrakk> \<Longrightarrow> passes [c]"
proof -
  have "map_sum id (apfst ((#) c)) r = map_sum id (apfst ((@) [c])) r"
    for r :: "(string \<times> jsstr) + (jsstr \<times> jsstr)"
    by (cases r) auto
  then show "\<lbrakk>\<not> c \<le> 0x1f; c \<noteq> 0x22; c \<noteq> 0x5c\<rbrakk> \<Longrightarrow> passes [c]"
    by (simp add: passes_def)
qed

lemma passes_pair: "passes [0x5c, d]"
proof -
  have "map_sum id (apfst (\<lambda>raw. 0x5c # d # raw)) r = map_sum id (apfst ((@) [0x5c, d])) r"
    for r :: "(string \<times> jsstr) + (jsstr \<times> jsstr)"
    by (cases r) auto
  then show ?thesis by (simp add: passes_def)
qed

lemma passes_Cons: "\<lbrakk>\<not> c \<le> 0x1f; c \<noteq> 0x22; c \<noteq> 0x5c\<rbrakk> \<Longrightarrow> passes p \<Longrightarrow> passes (c # p)"
  using passes_append [OF passes_unit] by simp

lemma hex_digit_plain: "d < 16 \<Longrightarrow> \<not> hex_digit d \<le> 0x1f \<and> hex_digit d \<noteq> 0x22 \<and> hex_digit d \<noteq> 0x5c"
proof -
  assume d: "d < 16"
  then have "unat (hex_digit d) = (if d < 10 then 0x30 + d else 0x61 + (d - 10))"
    by (simp add: hex_digit_def)
  with d have "0x30 \<le> unat (hex_digit d)" "unat (hex_digit d) < 0x3a \<or> 0x61 \<le> unat (hex_digit d)"
    by (auto split: if_splits)
  then show ?thesis by (auto simp: word_le_nat_alt)
qed

lemma passes_u: "passes (u_escape c)"
proof -
  have "passes [hex_digit (unat c div 4096), hex_digit (unat c div 256 mod 16),
      hex_digit (unat c div 16 mod 16), hex_digit (unat c mod 16)]"
    using unit_bound [of c] by (intro passes_Cons passes_Nil) (auto simp: hex_digit_plain)
  from passes_append [OF passes_pair this] show ?thesis
    by (simp add: u_escape_def Let_def)
qed

lemma passes_escape_unit: "passes (escape_unit c)"
proof -
  have "\<not> c < 0x20 \<Longrightarrow> \<not> c \<le> 0x1f" by (simp add: word_less_nat_alt word_le_nat_alt)
  then show ?thesis
    by (simp add: escape_unit_def passes_pair passes_u passes_unit)
qed

lemma passes_escape: "passes (escape s)"
proof (induction s rule: escape.induct)
  case (2 c rest)
  show ?case
  proof (cases "is_surrogate c")
    case True
    show ?thesis
    proof (cases rest)
      case Nil
      with True show ?thesis by (simp add: passes_u)
    next
      case (Cons d rest')
      show ?thesis
      proof (cases "is_high c \<and> is_low d")
        case pair: True
        with Cons True 2 have "passes (escape rest')" by simp
        moreover have "is_surrogate d" using pair by (simp add: surrogate_iff)
        ultimately show ?thesis
          using pair True Cons surrogate_plain [of c] surrogate_plain [of d]
          by (simp add: passes_Cons)
      next
        case False
        with Cons True 2 have "passes (escape rest)" by auto
        with False True Cons show ?thesis by (auto simp: passes_append passes_u)
      qed
    qed
  next
    case False
    with 2 show ?thesis by (simp add: passes_append passes_escape_unit)
  qed
qed (simp add: passes_Nil)

lemma scan_escape: "scan_string (escape s @ 0x22 # t) = Inr (escape s, t)"
  using passes_escape [of s] by (simp add: passes_def)

lemma scan_text_mono:
  "\<lbrakk>\<And>c. bad c \<Longrightarrow> bad' c; scan_text bad' name s = None\<rbrakk> \<Longrightarrow> scan_text bad name s = None"
proof (induction bad' name s rule: scan_text.induct)
  case (2 bad' name c rest)
  have "\<not> bad' c" using "2.prems"(2) by (auto split: if_splits)
  moreover from this "2.prems"(1) have "\<not> bad c" by blast
  ultimately show ?case
    using 2 by (auto split: if_splits list.splits)
qed simp

lemma parse_string_quote:
  assumes "strict_text s"
  shows "parse_string env isKey (quote s @ t) = Inr (s, t)"
proof -
  have strict: "scan_text forbidden_control n s = None" for n
    using assms by (simp add: scan_text_None)
  then have "scan_text (\<lambda>u. forbidden_control u \<and> u \<notin> set ok) n s = None" for ok n
    by (rule scan_text_mono [rotated]) simp
  with strict show ?thesis
    by (simp add: parse_string_def quote_def scan_escape unescape_escape split: option.split)
qed

end
