(* ===== verification/Strict_Json_Correct.thy ===== *)
theory Strict_Json_Correct
  imports Strict_Json "HOL-Library.Multiset"
begin

text \<open>
  What the strict JSON codec guarantees: the parser returns on every input, the value
  admission test computes exactly the admissible values, and rendering followed by
  parsing gives the value back with its object keys in canonical order.
\<close>

section \<open>The parser always returns\<close>

abbreviation rest_of :: "jsval \<times> jsstr \<times> nat \<Rightarrow> jsstr" where
  "rest_of p \<equiv> fst (snd p)"

lemma length_skip_ws: "length (skip_ws s) \<le> length s"
  by (rule length_dropWhile_le)

lemma scan_string_rest: "scan_string s = Inr (raw, r) \<Longrightarrow> length r < length s"
proof (induction s arbitrary: raw r rule: scan_string.induct)
  case (2 c rest)
  then show ?case
    by (auto split: if_splits list.splits simp: map_sum_def split: sum.splits)
      (metis less_SucI less_Suc_eq)+
qed simp

lemma parse_string_rest:
  "parse_string env isKey s = Inr (k, r) \<Longrightarrow> length r < length s"
  by (auto simp: parse_string_def Let_def split: list.splits if_splits sum.splits option.splits
      dest: scan_string_rest)

lemma starts_length: "starts c s \<Longrightarrow> length (tl s) < length s"
  by (cases s) (auto simp: starts_def)

lemma number_token_rest: "number_token s = Some (neg, ds, r) \<Longrightarrow> length r < length s"
proof -
  assume a: "number_token s = Some (neg, ds, r)"
  have "length (dropWhile is_digit x) \<le> length x" for x by (rule length_dropWhile_le)
  with a show ?thesis
    by (auto simp: number_token_def Let_def le_imp_less_Suc less_SucI split: list.splits if_splits)
qed

lemma strip_prefix_rest: "strip_prefix p s = Some r \<Longrightarrow> p \<noteq> [] \<Longrightarrow> length r < length s"
  by (cases s; cases p) (auto simp: strip_prefix_def split: if_splits)

lemma parse_scalar_rest: "parse_scalar env s = Inr (v, r) \<Longrightarrow> length r < length s"
  by (auto simp: parse_scalar_def Let_def split: option.splits if_splits prod.splits
      dest!: number_token_rest strip_prefix_rest)

fun task_rest :: "task \<Rightarrow> jsstr" where
  "task_rest (Value d r n) = r"
| "task_rest (Members d acc r n) = r"
| "task_rest (Elements d acc r n) = r"

definition shrinks :: "(task \<Rightarrow> jsval parsed) \<Rightarrow> bool" where
  "shrinks f \<longleftrightarrow> (\<forall>t v r n. f t = Some (Inr (v, r, n)) \<longrightarrow> length r < length (task_rest t))"

lemma value_step_rest:
  assumes "shrinks f" and "value_step f env d s n = Some (Inr (v, r, m))"
  shows "length r < length s"
proof -
  have rec: "f t = Some (Inr (v, r, m)) \<Longrightarrow> length r < length (task_rest t)" for t
    using assms(1) by (simp add: shrinks_def)
  have "length r < length (skip_ws s)"
    using assms(2)
    by (auto simp: value_step_def Let_def split: if_splits sum.splits prod.splits
        dest: parse_string_rest parse_scalar_rest rec
        dest!: starts_length [of _ "skip_ws s"] starts_length [of _ "skip_ws (tl (skip_ws s))"]
        intro: less_le_trans less_trans le_less_trans
        simp del: length_tl)
      (use length_skip_ws [of "tl (skip_ws s)"] rec in \<open>fastforce+\<close>)
  then show ?thesis using length_skip_ws [of s] by linarith
qed

lemma tl_skip_less: "starts c (skip_ws s) \<Longrightarrow> length (tl (skip_ws s)) < length s"
  using starts_length [of c "skip_ws s"] length_skip_ws [of s] by linarith

lemma shrinksD: "shrinks f \<Longrightarrow> f t = Some (Inr (v, r, m)) \<Longrightarrow> length r < length (task_rest t)"
  by (simp add: shrinks_def)

lemma members_step_rest:
  assumes "shrinks f" and "members_step f env d acc s n = Some (Inr (v, r, m))"
  shows "length r < length s"
proof -
  from assms(2) obtain key r0 where ps: "parse_string env True (skip_ws s) = Inr (key, r0)"
    by (auto simp: members_step_def split: sum.splits)
  let ?r = "skip_ws r0"
  from assms(2) ps have c: "starts 0x3a ?r"
    by (auto simp: members_step_def Let_def split: if_splits)
  from assms(2) ps obtain w r1 n1 where
      w: "f (Value (Suc d) (tl ?r) n) = Some (Inr (w, r1, n1))"
    by (auto simp: members_step_def Let_def split: if_splits option.splits sum.splits)
  have "length r0 < length s"
    using parse_string_rest [OF ps] length_skip_ws [of s] by linarith
  moreover have "length r1 < length r0"
    using shrinksD [OF assms(1) w] starts_length [OF c] length_skip_ws [of r0] by simp
  moreover have "length r < length r1"
    using assms(2) ps w c
    by (auto simp: members_step_def Let_def simp del: length_tl split: if_splits
        dest!: shrinksD [OF assms(1)] tl_skip_less)
  ultimately show ?thesis by linarith
qed

lemma elements_step_rest:
  assumes "shrinks f" and "elements_step f env d acc s n = Some (Inr (v, r, m))"
  shows "length r < length s"
proof -
  from assms(2) obtain w r1 n1 where w: "f (Value (Suc d) s n) = Some (Inr (w, r1, n1))"
    by (auto simp: elements_step_def Let_def split: if_splits option.splits sum.splits)
  have "length r1 < length s"
    using shrinksD [OF assms(1) w] by simp
  moreover have "length r < length r1"
    using assms(2) w
    by (auto simp: elements_step_def Let_def simp del: length_tl split: if_splits
        dest!: shrinksD [OF assms(1)] tl_skip_less)
  ultimately show ?thesis by linarith
qed

lemma run_parser_shrinks: "shrinks (run_parser fuel env)"
proof (induction fuel)
  case (Suc fuel)
  show ?case
    unfolding shrinks_def
    using value_step_rest [OF Suc] members_step_rest [OF Suc] elements_step_rest [OF Suc]
    by (auto split: task.splits)
qed (simp add: shrinks_def)

text \<open>More fuel never changes a result.\<close>

definition extends :: "(task \<Rightarrow> jsval parsed) \<Rightarrow> (task \<Rightarrow> jsval parsed) \<Rightarrow> bool" where
  "extends f g \<longleftrightarrow> (\<forall>t r. f t = Some r \<longrightarrow> g t = Some r)"

lemma steps_extend:
  assumes "extends f g"
  shows "value_step f env d s n = Some r \<Longrightarrow> value_step g env d s n = Some r"
    and "members_step f env d acc s n = Some r \<Longrightarrow> members_step g env d acc s n = Some r"
    and "elements_step f env d vs s n = Some r \<Longrightarrow> elements_step g env d vs s n = Some r"
proof -
  have e: "f t = Some q \<Longrightarrow> g t = Some q" for t q
    using assms by (simp add: extends_def)
  show "value_step f env d s n = Some r \<Longrightarrow> value_step g env d s n = Some r"
    by (auto simp: value_step_def Let_def e split: if_splits sum.splits)
  show "members_step f env d acc s n = Some r \<Longrightarrow> members_step g env d acc s n = Some r"
    by (auto simp: members_step_def Let_def e split: if_splits sum.splits option.splits)
  show "elements_step f env d vs s n = Some r \<Longrightarrow> elements_step g env d vs s n = Some r"
    by (auto simp: elements_step_def Let_def e split: if_splits sum.splits option.splits)
qed

lemma run_parser_Suc: "extends (run_parser fuel env) (run_parser (Suc fuel) env)"
proof (induction fuel)
  case (Suc fuel)
  show ?case
    unfolding extends_def
    by (simp only: run_parser.simps(2)) (auto split: task.splits intro: steps_extend [OF Suc])
qed (simp add: extends_def)

lemma run_parser_mono:
  assumes "run_parser fuel env t = Some r" and "fuel \<le> fuel'"
  shows "run_parser fuel' env t = Some r"
  using assms(2,1)
proof (induction rule: dec_induct)
  case (step m)
  then show ?case using run_parser_Suc [of m env] by (simp add: extends_def del: run_parser.simps)
qed

text \<open>The fuel a task needs, by the length of its unread text.\<close>

fun need :: "task \<Rightarrow> nat" where
  "need (Value d r n) = 2 * length r + 1"
| "need (Members d acc r n) = 2 * length r + 2"
| "need (Elements d acc r n) = 2 * length r + 2"


lemma value_step_total:
  assumes "\<And>t. need t \<le> 2 * length s \<Longrightarrow> f t \<noteq> None"
  shows "value_step f env d s n \<noteq> None"
proof -
  have "f (Members d [] (skip_ws (tl (skip_ws s))) m) \<noteq> None"
    and "f (Elements d [] (skip_ws (tl (skip_ws s))) m) \<noteq> None"
    if "starts c (skip_ws s)" for c m
    using tl_skip_less [OF that] length_skip_ws [of "tl (skip_ws s)"] by (auto intro!: assms simp del: not_None_eq)
  then show ?thesis
    by (auto simp: value_step_def Let_def split: sum.splits)
qed

lemma members_step_total:
  assumes "shrinks f" and "\<And>t. need t < 2 * length s + 2 \<Longrightarrow> f t \<noteq> None"
  shows "members_step f env d acc s n \<noteq> None"
proof (cases "parse_string env True (skip_ws s)")
  case (Inr p)
  obtain key r0 where p: "p = (key, r0)" by (cases p)
  have r0: "length r0 < length s"
    using Inr p parse_string_rest [of env True "skip_ws s" key r0] length_skip_ws [of s] by simp
  have "f (Value (Suc d) (tl (skip_ws r0)) n) \<noteq> None" if "starts 0x3a (skip_ws r0)"
    using tl_skip_less [OF that] r0 by (intro assms(2)) simp
  moreover have "f (Members d a (tl (skip_ws r1)) m) \<noteq> None"
    if "starts 0x3a (skip_ws r0)" "starts c (skip_ws r1)"
      "f (Value (Suc d) (tl (skip_ws r0)) n) = Some (Inr (v, r1, k))" for a m c r1 v k
    using tl_skip_less [OF that(1)] tl_skip_less [OF that(2)] shrinksD [OF assms(1) that(3)] r0
    by (intro assms(2)) simp
  ultimately show ?thesis
    using Inr p by (auto simp: members_step_def Let_def split: option.splits sum.splits)
qed (simp add: members_step_def)

lemma elements_step_total:
  assumes "shrinks f" and "\<And>t. need t < 2 * length s + 2 \<Longrightarrow> f t \<noteq> None"
  shows "elements_step f env d acc s n \<noteq> None"
proof -
  have "f (Value (Suc d) s n) \<noteq> None" by (intro assms(2)) simp
  moreover have "f (Elements d a (tl (skip_ws r1)) m) \<noteq> None"
    if "starts c (skip_ws r1)" "f (Value (Suc d) s n) = Some (Inr (v, r1, k))" for a m c r1 v k
    using tl_skip_less [OF that(1)] shrinksD [OF assms(1) that(2)] by (intro assms(2)) simp
  ultimately show ?thesis
    by (auto simp: elements_step_def Let_def split: option.splits sum.splits)
qed

lemma run_parser_total: "need t \<le> fuel \<Longrightarrow> run_parser fuel env t \<noteq> None"
proof (induction fuel arbitrary: t)
  case 0
  then show ?case by (cases t) auto
next
  case (Suc fuel)
  note total = value_step_total members_step_total [OF run_parser_shrinks]
    elements_step_total [OF run_parser_shrinks]
  show ?case
    using Suc.prems by (cases t) (auto simp del: not_None_eq intro!: total Suc.IH)
qed

text \<open>An input is either parsed or refused with an error; the parser never runs out of fuel.\<close>

lemma parseStrictJson_total: "\<exists>r. parseStrictJson allowed L src = Some r"
proof (cases src)
  case (JStr s)
  have "run_parser (parse_fuel s) \<lparr>source = s, lims = L, allowedControls = allowed\<rparr> (Value 0 s 0) \<noteq> None"
    by (rule run_parser_total) (simp add: parse_fuel_def)
  with JStr show ?thesis
    by (auto simp: parseStrictJson_def Let_def split: option.splits sum.splits prod.splits)
qed (simp_all add: parseStrictJson_def)

lemma parseStrictJsonBytes_total: "\<exists>r. parseStrictJsonBytes allowed L input = Some r"
  using parseStrictJson_total by (auto simp: parseStrictJsonBytes_def split: option.splits)

section \<open>Admissible values\<close>

fun nodes :: "jsval \<Rightarrow> nat" where
  "nodes (JArr vs) = Suc (\<Sum>v\<leftarrow>vs. nodes v)"
| "nodes (JObj p fs) = Suc (\<Sum>f\<leftarrow>fs. nodes (snd f))"
| "nodes _ = 1"

text \<open>\<open>admits D d v\<close>: the value is within depth \<open>D\<close> when it stands at depth \<open>d\<close>, and is
  built from strict texts, safe integers, arrays and plain objects only.\<close>

fun admits :: "nat \<Rightarrow> nat \<Rightarrow> jsval \<Rightarrow> bool" where
  "admits D d JNull \<longleftrightarrow> d \<le> D"
| "admits D d (JBool b) \<longleftrightarrow> d \<le> D"
| "admits D d (JNum n) \<longleftrightarrow> d \<le> D \<and> isSafeInteger (JNum n)"
| "admits D d (JStr s) \<longleftrightarrow> d \<le> D \<and> strict_text s"
| "admits D d (JArr vs) \<longleftrightarrow> d \<le> D \<and> (\<forall>v \<in> set vs. admits D (Suc d) v)"
| "admits D d (JObj p fs) \<longleftrightarrow> d \<le> D \<and> p = ObjectProto \<and>
     (\<forall>f \<in> set fs. strict_text (fst f) \<and> admits D (Suc d) (snd f))"
| "admits D d _ \<longleftrightarrow> False"

lemma admits_depth: "admits D d v \<Longrightarrow> d \<le> D"
  by (cases v) auto

lemma nodes_pos: "0 < nodes v"
  by (cases v) auto

lemma assertStrictText_Inl: "assertStrictText (JStr s) name None = Inl e \<Longrightarrow> \<not> strict_text s"
  using scan_text_None [of name s] by (auto split: option.splits)

declare assertStrictText.simps [simp del] assertJsonValue.simps [simp del]

lemma assert_Inr:
  "assertJsonValue L v d n = Inr m \<longleftrightarrow>
     admits (maxDepth L) d v \<and> n + nodes v \<le> maxNodes L \<and> m = n + nodes v"
  "n \<le> maxNodes L \<Longrightarrow> assert_items L vs d n = Inr m \<longleftrightarrow>
     (\<forall>v \<in> set vs. admits (maxDepth L) d v) \<and> n + (\<Sum>v\<leftarrow>vs. nodes v) \<le> maxNodes L \<and>
     m = n + (\<Sum>v\<leftarrow>vs. nodes v)"
  "n \<le> maxNodes L \<Longrightarrow> assert_fields L fs d n = Inr m \<longleftrightarrow>
     (\<forall>f \<in> set fs. strict_text (fst f) \<and> admits (maxDepth L) d (snd f)) \<and>
     n + (\<Sum>f\<leftarrow>fs. nodes (snd f)) \<le> maxNodes L \<and> m = n + (\<Sum>f\<leftarrow>fs. nodes (snd f))"
proof (induction L v d n and L vs d n and L fs d n arbitrary: m and m and m
    rule: assertJsonValue_assert_items_assert_fields.induct)
  case (1 L v d n)
  then show ?case
    by (cases v; cases "d \<le> maxDepth L"; cases "Suc n \<le> maxNodes L")
      (auto simp: assertJsonValue.simps assertStrictText_Inr scan_text_None not_less not_le split: sum.splits proto.splits
        dest: admits_depth assertStrictText_Inl)
next
  case (3 L v vs d n)
  show ?case
  proof (cases "admits (maxDepth L) d v \<and> n + nodes v \<le> maxNodes L")
    case True
    then have e: "assertJsonValue L v d n = Inr (n + nodes v)" using "3.IH"(1) by blast
    from "3.IH"(2) [OF e, of m] True e show ?thesis
      by (auto simp: add.assoc)
  next
    case False
    then obtain x where "assertJsonValue L v d n = Inl x"
      using "3.IH"(1) by (cases "assertJsonValue L v d n") auto
    with False show ?thesis by auto
  qed
next
  case (5 L k v fs d n)
  show ?case
  proof (cases "strict_text k \<and> admits (maxDepth L) d v \<and> n + nodes v \<le> maxNodes L")
    case True
    then have t: "assertStrictText (JStr k) (js ''JSON object key'') None = Inr (JStr k)"
      by (simp add: assertStrictText_Inr)
    with True have e: "assertJsonValue L v d n = Inr (n + nodes v)" using "5.IH"(1) by blast
    from "5.IH"(2) [OF t e, of m] True t e show ?thesis
      by (auto simp: add.assoc)
  next
    case False
    show ?thesis
    proof (cases "assertStrictText (JStr k) (js ''JSON object key'') None")
      case (Inr w)
      with False obtain x where "assertJsonValue L v d n = Inl x"
        using "5.IH"(1) [OF Inr] by (cases "assertJsonValue L v d n") (auto simp: assertStrictText_Inr)
      with False Inr show ?thesis by auto
    qed (auto dest: assertStrictText_Inl)
  qed
qed auto

section \<open>Canonical key order\<close>

text \<open>\<open>canon v\<close> is \<open>v\<close> with the members of every object in the order of their UTF-8 keys;
  \<open>distinct_keys\<close> holds of every JavaScript object.\<close>

fun canon :: "jsval \<Rightarrow> jsval" where
  "canon (JArr vs) = JArr (map canon vs)"
| "canon (JObj p fs) = JObj p (sort_key (\<lambda>f. utf8 (fst f)) (map (\<lambda>f. (fst f, canon (snd f))) fs))"
| "canon v = v"

fun distinct_keys :: "jsval \<Rightarrow> bool" where
  "distinct_keys (JArr vs) \<longleftrightarrow> (\<forall>v \<in> set vs. distinct_keys v)"
| "distinct_keys (JObj p fs) \<longleftrightarrow> wf_map fs \<and> (\<forall>f \<in> set fs. distinct_keys (snd f))"
| "distinct_keys _ \<longleftrightarrow> True"

fun sorted_keys :: "jsval \<Rightarrow> bool" where
  "sorted_keys (JArr vs) \<longleftrightarrow> (\<forall>v \<in> set vs. sorted_keys v)"
| "sorted_keys (JObj p fs) \<longleftrightarrow> sorted (map (\<lambda>f. utf8 (fst f)) fs) \<and> (\<forall>f \<in> set fs. sorted_keys (snd f))"
| "sorted_keys _ \<longleftrightarrow> True"

lemma distinct_map_sort_key: "distinct (map f (sort_key g xs)) \<longleftrightarrow> distinct (map f xs)"
proof -
  have "mset (map f (sort_key g xs)) = mset (map f xs)" by simp
  then show ?thesis by (rule mset_eq_imp_distinct_iff)
qed

lemma sum_list_sort_key: "(\<Sum>x\<leftarrow>sort_key g xs. h x) = (\<Sum>x\<leftarrow>xs. h x :: nat)"
proof -
  have "mset (map h (sort_key g xs)) = mset (map h xs)" by simp
  then show ?thesis by (metis sum_mset_sum_list)
qed

lemma nodes_canon [simp]: "nodes (canon v) = nodes v"
  by (induction v rule: canon.induct)
    (auto simp: sum_list_sort_key o_def intro!: arg_cong [of _ _ sum_list])

lemma admits_canon [simp]: "admits D d (canon v) = admits D d v"
  by (induction v arbitrary: d rule: canon.induct) auto

lemma distinct_keys_canon [simp]: "distinct_keys (canon v) = distinct_keys v"
  by (induction v rule: canon.induct) (auto simp: distinct_map_sort_key o_def)

lemma sorted_keys_canon [simp]: "sorted_keys (canon v)"
  by (induction v rule: canon.induct) auto

lemma canon_sorted: "sorted_keys v \<Longrightarrow> canon v = v"
  by (induction v rule: canon.induct) (auto intro!: map_idI simp: sort_key_id_if_sorted o_def)

lemma canon_canon [simp]: "canon (canon v) = canon v"
  by (simp add: canon_sorted)

lemma render_items_map: "render_items vs = map render vs"
  by (induction vs) auto

lemma render_members_map: "render_members fs = map (\<lambda>f. (fst f, render (snd f))) fs"
  by (induction fs) auto

lemma insort_key_map: 
  "\<forall>x \<in> set (y # xs). g (h x) = g' x \<Longrightarrow> insort_key g (h y) (map h xs) = map h (insort_key g' y xs)"
  by (induction xs) auto

lemma sort_key_map: "\<forall>x \<in> set xs. g (h x) = g' x \<Longrightarrow> sort_key g (map h xs) = map h (sort_key g' xs)"
proof (induction xs)
  case (Cons y xs)
  then show ?case
    by (simp add: insort_key_map)
qed simp

lemma render_canon: "render (canon v) = render v"
proof (induction v rule: canon.induct)
  case (1 vs)
  then show ?case by (simp add: render_items_map o_def cong: map_cong)
next
  case (2 p fs)
  let ?k = "\<lambda>f. utf8 (fst f)" and ?r = "\<lambda>f. (fst f, render (snd f))"
  let ?s = "\<lambda>f. (fst f, canon (snd f))"
  have "sort_key (\<lambda>(k, _). utf8 k) (render_members (sort_key ?k (map ?s fs)))
      = sort_key ?k (map ?r (map ?s (sort_key ?k fs)))"
    by (simp add: render_members_map case_prod_unfold sort_key_map [where g' = ?k])
  also have "\<dots> = sort_key ?k (map ?r (sort_key ?k fs))"
    using 2 by (intro arg_cong [where f = "sort_key ?k"]) simp
  also have "\<dots> = map ?r (sort_key ?k (sort_key ?k fs))"
    by (rule sort_key_map) simp
  also have "\<dots> = map ?r (sort_key ?k fs)"
    by (simp add: sort_key_id_if_sorted)
  also have "\<dots> = sort_key (\<lambda>(k, _). utf8 k) (render_members fs)"
    by (simp add: render_members_map case_prod_unfold sort_key_map [where g' = ?k])
  finally show ?case by simp
qed auto

section \<open>Parsing a rendered value\<close>

lemma js_punct: "js ''['' = [0x5b]" "js '']'' = [0x5d]" "js ''{'' = [0x7b]" "js ''}'' = [0x7d]"
  "js '','' = [0x2c]" "js '':'' = [0x3a]"
  by (simp_all add: js_def)

lemma js_words: "js ''true'' = [0x74, 0x72, 0x75, 0x65]" "js ''false'' = [0x66, 0x61, 0x6c, 0x73, 0x65]"
  "js ''null'' = [0x6e, 0x75, 0x6c, 0x6c]"
  by (simp_all add: js_def)

definition parses :: "parse_env \<Rightarrow> task \<Rightarrow> js_error + jsval \<times> jsstr \<times> nat \<Rightarrow> bool" where
  "parses env t r \<longleftrightarrow> (\<exists>fuel. run_parser fuel env t = Some r)"

lemma parsesE:
  assumes "parses env t r"
  obtains fuel where "\<And>f. fuel \<le> f \<Longrightarrow> run_parser f env t = Some r"
  using assms run_parser_mono unfolding parses_def by metis

lemma run_parser_parses:
  assumes "parses env t r" and "need t \<le> fuel"
  shows "run_parser fuel env t = Some r"
proof -
  obtain f where f: "run_parser f env t = Some r" using assms(1) by (auto simp: parses_def)
  obtain q where q: "run_parser fuel env t = Some q" using run_parser_total [OF assms(2)] by blast
  have "run_parser (max f fuel) env t = Some r" "run_parser (max f fuel) env t = Some q"
    by (rule run_parser_mono [OF f], simp) (rule run_parser_mono [OF q], simp)
  with q show ?thesis by simp
qed

lemma skip_ws_id: "\<not> is_json_space c \<Longrightarrow> skip_ws (c # s) = c # s"
  by simp

lemma starts_Cons [simp]: "starts c (d # s) \<longleftrightarrow> d = c"
  by (simp add: starts_def)

lemma parses_leaf:
  assumes "value_step f env d s n = Some r" and "\<And>g. value_step g env d s n = value_step f env d s n"
  shows "parses env (Value d s n) r"
proof -
  have "run_parser (Suc 0) env (Value d s n) = Some r" using assms by simp
  then show ?thesis unfolding parses_def by blast
qed

abbreviation in_limits :: "parse_env \<Rightarrow> nat \<Rightarrow> nat \<Rightarrow> bool" where
  "in_limits env d n \<equiv> d \<le> maxDepth (lims env) \<and> Suc n \<le> maxNodes (lims env)"

lemma parses_string:
  assumes "in_limits env d n" and "strict_text s"
  shows "parses env (Value d (quote s @ t) n) (Inr (JStr s, t, Suc n))"
proof -
  have h: "skip_ws (quote s @ t) = quote s @ t" "starts 0x22 (quote s @ t)"
    by (auto simp: quote_def is_json_space_def)
  have "value_step f env d (quote s @ t) n = Some (Inr (JStr s, t, Suc n))" for f
    using assms by (simp add: value_step_def Let_def h parse_string_quote)
  then show ?thesis by (intro parses_leaf) auto
qed

lemma parses_scalar:
  assumes "in_limits env d n" and "parse_scalar env s = Inr (v, t)"
    and "s = c # s'" and "\<not> is_json_space c" "c \<noteq> 0x22" "c \<noteq> 0x7b" "c \<noteq> 0x5b"
  shows "parses env (Value d s n) (Inr (v, t, Suc n))"
proof -
  have "value_step f env d s n = Some (Inr (v, t, Suc n))" for f
    using assms by (simp add: value_step_def Let_def)
  then show ?thesis by (intro parses_leaf) auto
qed

lemma takeWhile_digits: "list_all is_digit ds \<Longrightarrow> next_ok t \<Longrightarrow>
  takeWhile is_digit (ds @ t) = ds \<and> dropWhile is_digit (ds @ t) = t"
  by (induction ds) (auto simp: next_ok_def dropWhile_eq_self_iff split: list.splits)

lemma number_token_nat:
  assumes "next_ok t"
  shows "number_token (show_nat n @ t) = Some (False, show_nat n, t)"
    and "n \<noteq> 0 \<Longrightarrow> number_token (0x2d # show_nat n @ t) = Some (True, show_nat n, t)"
proof -
  obtain c ds where c: "show_nat n = c # ds" using show_nat_nonempty by (cases "show_nat n") auto
  have dg: "list_all is_digit (c # ds)" using show_nat_digits [of n] c by simp
  then have m: "c \<noteq> 0x2d" by (auto simp: is_digit_def)
  note tw = takeWhile_digits [OF dg assms]
  have z: "n \<noteq> 0 \<Longrightarrow> c \<noteq> 0x30" "n = 0 \<Longrightarrow> ds = [] \<and> c = 0x30"
    using show_nat_head [of n] c by (auto simp: show_nat_zero)
  show "n \<noteq> 0 \<Longrightarrow> number_token (0x2d # show_nat n @ t) = Some (True, show_nat n, t)"
    using z tw dg assms by (simp add: number_token_def c Let_def)
  show "number_token (show_nat n @ t) = Some (False, show_nat n, t)"
    using z tw dg assms m
    by (cases "n = 0") (simp add: number_token_def show_nat_zero, simp add: number_token_def c Let_def)
qed

lemma parse_scalar_int:
  assumes "next_ok t" and "isSafeInteger (JInt n)"
  shows "parse_scalar env (show_int n @ t) = Inr (JInt n, t)"
proof (cases "n < 0")
  case True
  then have nz: "nat (- n) \<noteq> 0" by simp
  have "show_nat (nat (- n)) \<noteq> [0x30]" using show_nat_head [OF nz] by auto
  moreover have "- int (nat (- n)) = n" using True by simp
  ultimately show ?thesis
    using True assms number_token_nat(2) [OF assms(1) nz]
    by (simp add: parse_scalar_def show_int_def del: isSafeInteger.simps)
next
  case False
  then obtain k where "n = int k" using nonneg_int_cases by (metis not_less)
  moreover from this have "int k \<le> MAX_SAFE_INTEGER" using assms(2) isSafeInteger_JInt [of n] by simp
  ultimately show ?thesis
    using number_token_nat(1) [OF assms(1), of k]
    by (simp add: parse_scalar_def show_int_def Let_def del: isSafeInteger.simps)
qed

lemma parse_scalar_word:
  "parse_scalar env (js ''null'' @ t) = Inr (JNull, t)"
  "parse_scalar env (js ''true'' @ t) = Inr (JBool True, t)"
  "parse_scalar env (js ''false'' @ t) = Inr (JBool False, t)"
  by (simp_all add: parse_scalar_def js_words number_token_def strip_prefix_def is_digit_def)

lemma parses_array:
  assumes "in_limits env d n" and "s = c # s'" "\<not> is_json_space c" "c \<noteq> 0x5d"
    and "parses env (Elements d [] s (Suc n)) r"
  shows "parses env (Value d (0x5b # s) n) r"
proof -
  obtain f where "run_parser f env (Elements d [] s (Suc n)) = Some r"
    using assms(5) by (auto simp: parses_def)
  then have "run_parser (Suc f) env (Value d (0x5b # s) n) = Some r"
    using assms(1-4) by (simp add: value_step_def is_json_space_def Let_def)
  then show ?thesis unfolding parses_def by blast
qed

lemma parses_object:
  assumes "in_limits env d n" and "s = c # s'" "\<not> is_json_space c" "c \<noteq> 0x7d"
    and "parses env (Members d [] s (Suc n)) r"
  shows "parses env (Value d (0x7b # s) n) r"
proof -
  obtain f where "run_parser f env (Members d [] s (Suc n)) = Some r"
    using assms(5) by (auto simp: parses_def)
  then have "run_parser (Suc f) env (Value d (0x7b # s) n) = Some r"
    using assms(1-4) by (simp add: value_step_def is_json_space_def Let_def)
  then show ?thesis unfolding parses_def by blast
qed

lemma parses_elements_last:
  assumes "parses env (Value (Suc d) s n) (Inr (v, 0x5d # t, m))"
  shows "parses env (Elements d acc s n) (Inr (JArr (acc @ [v]), t, m))"
proof -
  obtain f where "run_parser f env (Value (Suc d) s n) = Some (Inr (v, 0x5d # t, m))"
    using assms by (auto simp: parses_def)
  then have "run_parser (Suc f) env (Elements d acc s n) = Some (Inr (JArr (acc @ [v]), t, m))"
    by (simp add: elements_step_def is_json_space_def)
  then show ?thesis unfolding parses_def by blast
qed

lemma parses_elements_more:
  assumes "parses env (Value (Suc d) s n) (Inr (v, 0x2c # t, m))"
    and "parses env (Elements d (acc @ [v]) t m) r"
  shows "parses env (Elements d acc s n) r"
proof -
  obtain f g where
    f: "\<And>h. f \<le> h \<Longrightarrow> run_parser h env (Value (Suc d) s n) = Some (Inr (v, 0x2c # t, m))" and
    g: "\<And>h. g \<le> h \<Longrightarrow> run_parser h env (Elements d (acc @ [v]) t m) = Some r"
    using assms by (elim parsesE) blast
  have "run_parser (Suc (max f g)) env (Elements d acc s n) = Some r"
    using f [of "max f g"] g [of "max f g"] by (simp add: elements_step_def is_json_space_def)
  then show ?thesis unfolding parses_def by blast
qed

lemma members_key:
  assumes "strict_text k"
  shows "parse_string env True (skip_ws (quote k @ s)) = Inr (k, s)"
proof -
  have "skip_ws (quote k @ s) = quote k @ s" by (simp add: quote_def is_json_space_def)
  with assms show ?thesis by (simp add: parse_string_quote)
qed

lemma parses_members_last:
  assumes "strict_text k" "\<not> mhas k acc"
    and "parses env (Value (Suc d) s n) (Inr (v, 0x7d # t, m))"
  shows "parses env (Members d acc (quote k @ 0x3a # s) n) (Inr (JObj ObjectProto (acc @ [(k, v)]), t, m))"
proof -
  obtain f where "run_parser f env (Value (Suc d) s n) = Some (Inr (v, 0x7d # t, m))"
    using assms by (auto simp: parses_def)
  then have "run_parser (Suc f) env (Members d acc (quote k @ 0x3a # s) n)
      = Some (Inr (JObj ObjectProto (acc @ [(k, v)]), t, m))"
    using assms by (simp add: members_step_def members_key is_json_space_def)
  then show ?thesis unfolding parses_def by blast
qed

lemma parses_members_more:
  assumes "strict_text k" "\<not> mhas k acc"
    and "parses env (Value (Suc d) s n) (Inr (v, 0x2c # t, m))"
    and "parses env (Members d (acc @ [(k, v)]) t m) r"
  shows "parses env (Members d acc (quote k @ 0x3a # s) n) r"
proof -
  obtain f g where
    f: "\<And>h. f \<le> h \<Longrightarrow> run_parser h env (Value (Suc d) s n) = Some (Inr (v, 0x2c # t, m))" and
    g: "\<And>h. g \<le> h \<Longrightarrow> run_parser h env (Members d (acc @ [(k, v)]) t m) = Some r"
    using assms(3,4) by (elim parsesE) blast
  have "run_parser (Suc (max f g)) env (Members d acc (quote k @ 0x3a # s) n) = Some r"
    using assms(1,2) f [of "max f g"] g [of "max f g"]
    by (simp add: members_step_def members_key is_json_space_def)
  then show ?thesis unfolding parses_def by blast
qed

text \<open>\<open>reads env v\<close>: wherever the limits leave room, the parser reads \<open>v\<close> back from its
  rendering.\<close>

definition reads :: "parse_env \<Rightarrow> jsval \<Rightarrow> bool" where
  "reads env v \<longleftrightarrow> (\<forall>d n t. admits (maxDepth (lims env)) d v \<longrightarrow> n + nodes v \<le> maxNodes (lims env) \<longrightarrow>
     next_ok t \<longrightarrow> parses env (Value d (render v @ t) n) (Inr (v, t, n + nodes v)))"

lemma readsD:
  "\<lbrakk>reads env v; admits (maxDepth (lims env)) d v; n + nodes v \<le> maxNodes (lims env); next_ok t\<rbrakk>
    \<Longrightarrow> parses env (Value d (render v @ t) n) (Inr (v, t, n + nodes v))"
  by (simp add: reads_def)

lemma join_simps [simp]:
  "join sep [] = []" "join sep [x] = x" "join sep (x # y # ys) = x @ sep @ join sep (y # ys)"
  by (simp_all add: join_def)

lemma next_ok_punct: "next_ok (0x2c # t)" "next_ok (0x5d # t)" "next_ok (0x7d # t)"
  by (simp_all add: next_ok_def is_digit_def)

lemma parses_render_elements:
  assumes "vs \<noteq> []" and "\<And>v. v \<in> set vs \<Longrightarrow> reads env v \<and> admits (maxDepth (lims env)) (Suc d) v"
    and "n + (\<Sum>v\<leftarrow>vs. nodes v) \<le> maxNodes (lims env)"
  shows "parses env (Elements d acc (join [0x2c] (map render vs) @ 0x5d # t) n)
    (Inr (JArr (acc @ vs), t, n + (\<Sum>v\<leftarrow>vs. nodes v)))"
  using assms
proof (induction vs arbitrary: acc n)
  case (Cons v vs)
  note v = readsD [of env v "Suc d" n]
  show ?case
  proof (cases vs)
    case Nil
    with Cons.prems v [of "0x5d # t"] show ?thesis
      by (auto intro: parses_elements_last simp: next_ok_punct)
  next
    case (Cons w ws)
    let ?s = "join [0x2c] (map render vs) @ 0x5d # t"
    have "parses env (Elements d (acc @ [v]) ?s (n + nodes v))
       (Inr (JArr ((acc @ [v]) @ vs), t, n + nodes v + (\<Sum>v\<leftarrow>vs. nodes v)))"
      using Cons Cons.prems by (intro Cons.IH) auto
    moreover have "parses env (Value (Suc d) (render v @ 0x2c # ?s) n) (Inr (v, 0x2c # ?s, n + nodes v))"
      using Cons.prems by (intro v) (auto simp: next_ok_punct)
    ultimately have "parses env (Elements d acc (render v @ 0x2c # ?s) n)
       (Inr (JArr ((acc @ [v]) @ vs), t, n + nodes v + (\<Sum>v\<leftarrow>vs. nodes v)))"
      by (rule parses_elements_more [rotated])
    then show ?thesis using Cons by (simp add: add.assoc)
  qed
qed simp

definition member_text :: "jsstr \<times> jsval \<Rightarrow> jsstr" where
  "member_text f = quote (fst f) @ 0x3a # render (snd f)"

lemma member_text_pair: "member_text (k, v) = quote k @ 0x3a # render v"
  by (simp add: member_text_def)

lemma parses_render_members:
  assumes "fs \<noteq> []" and "wf_map (acc @ fs)"
    and "\<And>f. f \<in> set fs \<Longrightarrow> reads env (snd f) \<and> strict_text (fst f) \<and> admits (maxDepth (lims env)) (Suc d) (snd f)"
    and "n + (\<Sum>f\<leftarrow>fs. nodes (snd f)) \<le> maxNodes (lims env)"
  shows "parses env (Members d acc (join [0x2c] (map member_text fs) @ 0x7d # t) n)
    (Inr (JObj ObjectProto (acc @ fs), t, n + (\<Sum>f\<leftarrow>fs. nodes (snd f))))"
  using assms
proof (induction fs arbitrary: acc n)
  case (Cons f fs)
  obtain k v where f: "f = (k, v)" by (cases f)
  note v = readsD [of env v "Suc d" n]
  have k: "strict_text k" "\<not> mhas k acc"
    using Cons.prems(2,3) f by (force simp: mhas_def)+
  have rv: "reads env v" "admits (maxDepth (lims env)) (Suc d) v"
    using Cons.prems(3) [of f] f by auto
  show ?case
  proof (cases fs)
    case Nil
    with Cons.prems f k v [of "0x7d # t"] show ?thesis
      by (auto intro!: parses_members_last simp: next_ok_punct member_text_pair)
  next
    case (Cons w ws)
    let ?s = "join [0x2c] (map member_text fs) @ 0x7d # t"
    have "parses env (Members d (acc @ [(k, v)]) ?s (n + nodes v))
       (Inr (JObj ObjectProto ((acc @ [(k, v)]) @ fs), t, n + nodes v + (\<Sum>f\<leftarrow>fs. nodes (snd f))))"
      using Cons Cons.prems f by (intro Cons.IH) auto
    moreover have "parses env (Value (Suc d) (render v @ 0x2c # ?s) n) (Inr (v, 0x2c # ?s, n + nodes v))"
      using Cons.prems(4) f rv by (intro v) (auto simp: next_ok_punct)
    ultimately have "parses env (Members d acc (quote k @ 0x3a # render v @ 0x2c # ?s) n)
       (Inr (JObj ObjectProto ((acc @ [(k, v)]) @ fs), t, n + nodes v + (\<Sum>f\<leftarrow>fs. nodes (snd f))))"
      by (rule parses_members_more [OF k, rotated])
    then show ?thesis using Cons f by (simp add: add.assoc member_text_pair)
  qed
qed simp

lemma render_object:
  assumes "sorted (map (\<lambda>f. utf8 (fst f)) fs)"
  shows "render (JObj p fs) = 0x7b # join [0x2c] (map member_text fs) @ [0x7d]"
proof -
  have "sort_key (\<lambda>(k, _). utf8 k) (render_members fs) = map (\<lambda>f. (fst f, render (snd f))) fs"
    using assms by (simp add: render_members_map case_prod_unfold sort_key_id_if_sorted o_def)
  moreover have "map (\<lambda>(k, t). quote k @ 0x3a # t) (map (\<lambda>f. (fst f, render (snd f))) fs) = map member_text fs"
    by (simp add: member_text_def)
  ultimately show ?thesis by (simp add: js_punct del: map_map)
qed

text \<open>A rendering starts with a character that is neither a space nor a closing bracket.\<close>

definition opens :: "16 word \<Rightarrow> bool" where
  "opens c \<longleftrightarrow> \<not> is_json_space c \<and> c \<noteq> 0x5d \<and> c \<noteq> 0x7d \<and> unat c < 0x80"

lemma show_int_head: "\<exists>c s. show_int n = c # s \<and> opens c \<and> c \<noteq> 0x22 \<and> c \<noteq> 0x7b \<and> c \<noteq> 0x5b"
proof (cases "n < 0")
  case False
  obtain c ds where c: "show_nat (nat n) = c # ds"
    using show_nat_nonempty by (cases "show_nat (nat n)") auto
  have "is_digit c" using show_nat_digits [of "nat n"] c by simp
  then have "opens c \<and> c \<noteq> 0x22 \<and> c \<noteq> 0x7b \<and> c \<noteq> 0x5b"
    by (auto simp: is_digit_def opens_def is_json_space_def word_le_nat_alt)
  with False c show ?thesis by (auto simp: show_int_def)
qed (simp add: show_int_def opens_def is_json_space_def)

lemma render_head: "\<exists>c s. render v = c # s \<and> opens c"
proof (cases v)
  case (JNum n)
  then show ?thesis using show_int_head [of "int_of v"] by auto
next
  case (JBool b)
  then show ?thesis by (cases b) (auto simp: js_words opens_def is_json_space_def)
qed (auto simp: js_words js_punct quote_def opens_def is_json_space_def)

lemma join_head: "x = c # s \<Longrightarrow> \<exists>s'. join sep (x # xs) = c # s'"
  by (cases xs) auto

lemma reads_number: "reads env (JNum x)"
proof -
  have "parses env (Value d (render (JNum x) @ t) n) (Inr (JNum x, t, Suc n))"
    if lims: "in_limits env d n" and safe: "isSafeInteger (JNum x)" and ok: "next_ok t" for d n t
  proof -
    obtain m where m: "JNum x = JInt m" using safe by (rule isSafeIntegerE)
    obtain c s where c: "show_int m = c # s" "opens c" "c \<noteq> 0x22" "c \<noteq> 0x7b" "c \<noteq> 0x5b"
      using show_int_head by blast
    have "parse_scalar env (show_int m @ t) = Inr (JInt m, t)"
      using parse_scalar_int [OF ok] safe m by simp
    then have "parses env (Value d (show_int m @ t) n) (Inr (JInt m, t, Suc n))"
      by (rule parses_scalar [OF lims]) (use c in \<open>auto simp: opens_def\<close>)
    with m show ?thesis by simp
  qed
  then show ?thesis by (auto simp: reads_def)
qed

lemma reads_word: "reads env JNull" "reads env (JBool b)"
proof -
  have "parses env (Value d (js ''null'' @ t) n) (Inr (JNull, t, Suc n))" if "in_limits env d n" for d n t
    by (rule parses_scalar [OF that parse_scalar_word(1), where c = "0x6e"]) (simp_all add: js_words is_json_space_def)
  then show "reads env JNull" by (simp add: reads_def)
  have "parses env (Value d (js ''true'' @ t) n) (Inr (JBool True, t, Suc n))" if "in_limits env d n" for d n t
    by (rule parses_scalar [OF that parse_scalar_word(2), where c = "0x74"]) (simp_all add: js_words is_json_space_def)
  moreover have "parses env (Value d (js ''false'' @ t) n) (Inr (JBool False, t, Suc n))" if "in_limits env d n" for d n t
    by (rule parses_scalar [OF that parse_scalar_word(3), where c = "0x66"]) (simp_all add: js_words is_json_space_def)
  ultimately show "reads env (JBool b)" by (cases b) (simp_all add: reads_def)
qed

lemma reads_array:
  assumes "\<And>v. v \<in> set vs \<Longrightarrow> reads env v"
  shows "reads env (JArr vs)"
  unfolding reads_def
proof (intro allI impI)
  fix d n t
  assume a: "admits (maxDepth (lims env)) d (JArr vs)" "n + nodes (JArr vs) \<le> maxNodes (lims env)"
  show "parses env (Value d (render (JArr vs) @ t) n) (Inr (JArr vs, t, n + nodes (JArr vs)))"
  proof (cases vs)
    case Nil
    have "value_step f env d (0x5b # 0x5d # t) n = Some (Inr (JArr [], t, Suc n))" for f
      using a Nil by (simp add: value_step_def is_json_space_def Let_def)
    then show ?thesis using Nil by (simp add: js_punct parses_leaf)
  next
    case (Cons w ws)
    let ?s = "join [0x2c] (map render vs) @ 0x5d # t"
    obtain c s where "render w = c # s" "opens c" using render_head by blast
    then obtain s' where s: "?s = c # s'" "opens c"
      using join_head [of "render w" c s "[0x2c]" "map render ws"] Cons by auto
    have "parses env (Elements d [] ?s (Suc n)) (Inr (JArr ([] @ vs), t, Suc n + (\<Sum>v\<leftarrow>vs. nodes v)))"
      using Cons assms a by (intro parses_render_elements) auto
    then have "parses env (Value d (0x5b # ?s) n) (Inr (JArr vs, t, Suc n + (\<Sum>v\<leftarrow>vs. nodes v)))"
      using parses_array [of d env n ?s c s'] s a Cons nodes_pos [of w] by (simp add: opens_def)
    then show ?thesis by (simp add: js_punct render_items_map)
  qed
qed

lemma reads_object:
  assumes "\<And>f. f \<in> set fs \<Longrightarrow> reads env (snd f)" and "wf_map fs"
    and "sorted (map (\<lambda>f. utf8 (fst f)) fs)"
  shows "reads env (JObj p fs)"
  unfolding reads_def
proof (intro allI impI)
  fix d n t
  assume a: "admits (maxDepth (lims env)) d (JObj p fs)" "n + nodes (JObj p fs) \<le> maxNodes (lims env)"
  show "parses env (Value d (render (JObj p fs) @ t) n) (Inr (JObj p fs, t, n + nodes (JObj p fs)))"
  proof (cases fs)
    case Nil
    have "value_step f env d (0x7b # 0x7d # t) n = Some (Inr (JObj ObjectProto [], t, Suc n))" for f
      using a Nil by (simp add: value_step_def is_json_space_def Let_def)
    then show ?thesis using Nil a by (simp add: js_punct parses_leaf)
  next
    case (Cons w ws)
    let ?s = "join [0x2c] (map member_text fs) @ 0x7d # t"
    obtain s where "member_text w = 0x22 # s" by (simp add: member_text_def quote_def)
    then obtain s' where s: "?s = 0x22 # s'"
      using join_head [of "member_text w" "0x22" s "[0x2c]" "map member_text ws"] Cons by auto
    have "parses env (Members d [] ?s (Suc n))
        (Inr (JObj ObjectProto ([] @ fs), t, Suc n + (\<Sum>f\<leftarrow>fs. nodes (snd f))))"
      using Cons assms a by (intro parses_render_members) auto
    then have "parses env (Value d (0x7b # ?s) n)
        (Inr (JObj ObjectProto fs, t, Suc n + (\<Sum>f\<leftarrow>fs. nodes (snd f))))"
      using parses_object [of d env n ?s "0x22" s'] s a by (simp add: is_json_space_def)
    then show ?thesis using a by (simp add: render_object [OF assms(3)] del: render.simps)
  qed
qed

lemma reads_string: "reads env (JStr s)"
  by (auto simp: reads_def parses_string)

lemma reads_none: "reads env JUndefined" "reads env JOther"
  by (simp_all add: reads_def)

lemma reads_canonical: "\<lbrakk>distinct_keys v; sorted_keys v\<rbrakk> \<Longrightarrow> reads env v"
proof (induction v rule: canon.induct)
  case (1 vs)
  then show ?case by (intro reads_array) auto
next
  case (2 p fs)
  then show ?case by (intro reads_object) auto
qed (simp_all add: reads_number reads_word reads_string reads_none)

end
