(* ===== verification/Canonical_Json.thy ===== *)
theory Canonical_Json
  imports Strict_Json_Correct
begin

text \<open>
  The guarantees of \<^verbatim>\<open>shared/strict-json.js\<close> that the other modules build on: strict
  parsing inverts canonical rendering, canonical bytes are accepted and nothing else is,
  and canonical text depends on a value only up to the order of its object keys.
\<close>

section \<open>Renderings are well-formed text\<close>

lemma well_formed_append: "well_formed s \<Longrightarrow> well_formed (s @ t) = well_formed t"
proof (induction s rule: well_formed.induct)
  case (2 c rest)
  show ?case
  proof (cases "is_surrogate c")
    case True
    with 2 show ?thesis by (cases rest) auto
  next
    case False
    with 2 show ?thesis by simp
  qed
qed simp

lemma well_formed_plain: "list_all (\<lambda>c. \<not> is_surrogate c) s \<Longrightarrow> well_formed s"
  by (induction s) auto

lemma small_not_surrogate: "unat c < 0xd800 \<Longrightarrow> \<not> is_surrogate c"
  by (simp add: surrogate_unat)

lemma hex_digit_small: "d < 16 \<Longrightarrow> \<not> is_surrogate (hex_digit d)"
  by (rule small_not_surrogate) (auto simp: hex_digit_def)

lemma u_escape_plain: "list_all (\<lambda>c. \<not> is_surrogate c) (u_escape c)"
proof -
  have "\<not> is_surrogate 0x5c" "\<not> is_surrogate 0x75" by (simp_all add: surrogate_unat)
  then show ?thesis using unit_bound [of c] by (auto simp: u_escape_def Let_def hex_digit_small)
qed

lemma escape_unit_plain: "\<not> is_surrogate c \<Longrightarrow> list_all (\<lambda>c. \<not> is_surrogate c) (escape_unit c)"
  using u_escape_plain [of c] by (auto simp: escape_unit_def surrogate_unat)

lemma well_formed_escape: "well_formed (escape s)"
proof (induction s rule: escape.induct)
  case (2 c rest)
  note plain = well_formed_plain [OF u_escape_plain [of c]]
  show ?case
  proof (cases "is_surrogate c")
    case True
    with 2 plain show ?thesis
      by (cases rest) (auto simp: well_formed_append)
  next
    case False
    with 2 show ?thesis
      using well_formed_plain [OF escape_unit_plain [OF False]] by (simp add: well_formed_append)
  qed
qed simp

lemma well_formed_quote: "well_formed (quote s)"
  by (simp add: quote_def well_formed_append well_formed_escape surrogate_unat)

lemma well_formed_show_int: "well_formed (show_int n)"
proof -
  have "list_all (\<lambda>c. \<not> is_surrogate c) (show_nat m)" for m
    using show_nat_digits [of m]
    by (rule list.pred_mono_strong) (auto simp: is_digit_def surrogate_unat word_le_nat_alt)
  then show ?thesis
    by (intro well_formed_plain) (simp add: show_int_def surrogate_unat)
qed

lemma well_formed_join:
  "well_formed sep \<Longrightarrow> (\<And>x. x \<in> set xs \<Longrightarrow> well_formed x) \<Longrightarrow> well_formed (join sep xs)"
proof (induction xs)
  case (Cons x xs)
  then show ?case by (cases xs) (auto simp: well_formed_append)
qed simp

lemma render_bool: "render (JBool b) = (if b then js ''true'' else js ''false'')"
  by (cases b) simp_all

lemma well_formed_render: "well_formed (render v)"
proof (induction v rule: canon.induct)
  case (1 vs)
  then have "well_formed (join [0x2c] (map render vs))"
    by (intro well_formed_join) (auto simp: surrogate_unat)
  then show ?case by (simp add: js_punct render_items_map surrogate_unat well_formed_append)
next
  case (2 p fs)
  let ?ms = "map (\<lambda>(k, t). quote k @ [0x3a] @ t) (sort_key (\<lambda>(k, _). utf8 k) (render_members fs))"
  have "well_formed x" if "x \<in> set ?ms" for x
    using that 2
    by (auto simp: render_members_map well_formed_append well_formed_quote surrogate_unat)
  then have "well_formed (join [0x2c] ?ms)"
    by (intro well_formed_join) (auto simp: surrogate_unat)
  then show ?case by (simp add: js_punct surrogate_unat well_formed_append)
qed (simp_all add: render_bool js_words surrogate_unat well_formed_show_int well_formed_quote)

section \<open>The parser builds objects with distinct keys\<close>

fun acc_ok :: "task \<Rightarrow> bool" where
  "acc_ok (Value d r n) \<longleftrightarrow> True"
| "acc_ok (Members d acc r n) \<longleftrightarrow> distinct_keys (JObj ObjectProto acc)"
| "acc_ok (Elements d acc r n) \<longleftrightarrow> distinct_keys (JArr acc)"

definition builds_distinct :: "(task \<Rightarrow> jsval parsed) \<Rightarrow> bool" where
  "builds_distinct f \<longleftrightarrow> (\<forall>t v r n. acc_ok t \<longrightarrow> f t = Some (Inr (v, r, n)) \<longrightarrow> distinct_keys v)"

lemma parse_scalar_distinct: "parse_scalar env s = Inr (v, r) \<Longrightarrow> distinct_keys v"
  by (auto simp: parse_scalar_def Let_def split: option.splits prod.splits if_splits)

lemma builds_distinctD:
  "\<lbrakk>builds_distinct f; f t = Some (Inr (v, r, n)); acc_ok t\<rbrakk> \<Longrightarrow> distinct_keys v"
  by (auto simp: builds_distinct_def)

lemma value_step_distinct:
  assumes "builds_distinct f" and "value_step f env d s n = Some (Inr (v, r, m))"
  shows "distinct_keys v"
  using assms(2)
  by (auto simp: value_step_def Let_def split: if_splits sum.splits prod.splits
      dest: parse_scalar_distinct builds_distinctD [OF assms(1)])

lemma members_step_distinct:
  assumes "builds_distinct f" and "distinct_keys (JObj ObjectProto acc)"
    and "members_step f env d acc s n = Some (Inr (v, r, m))"
  shows "distinct_keys v"
  using assms(2,3)
  by (auto simp: members_step_def Let_def mhas_def
      split: if_splits sum.splits prod.splits option.splits
      dest: builds_distinctD [OF assms(1)] dest!: builds_distinctD [OF assms(1), of "Value _ _ _"])

lemma elements_step_distinct:
  assumes "builds_distinct f" and "distinct_keys (JArr acc)"
    and "elements_step f env d acc s n = Some (Inr (v, r, m))"
  shows "distinct_keys v"
  using assms(2,3)
  by (auto simp: elements_step_def Let_def split: if_splits sum.splits prod.splits option.splits
      dest: builds_distinctD [OF assms(1)] dest!: builds_distinctD [OF assms(1), of "Value _ _ _"])

lemma run_parser_distinct: "builds_distinct (run_parser fuel env)"
proof (induction fuel)
  case (Suc fuel)
  show ?case
    unfolding builds_distinct_def
    by (auto simp del: distinct_keys.simps split: task.splits dest: value_step_distinct [OF Suc] members_step_distinct [OF Suc]
        elements_step_distinct [OF Suc])
qed (simp add: builds_distinct_def)

lemma parseStrictJson_distinct: "parseStrictJson allowed L src = Some (Inr v) \<Longrightarrow> distinct_keys v"
  using builds_distinctD [OF run_parser_distinct]
  by (auto simp: parseStrictJson_def Let_def split: jsval.splits if_splits option.splits sum.splits)

section \<open>Round trips\<close>

lemma assert_canon: "assertJsonValue L v 0 0 = Inr m \<Longrightarrow> assertJsonValue L (canon v) 0 0 = Inr m"
  by (simp add: assert_Inr)

lemma canonicalJson_Inr:
  "canonicalJson L v = Inr t \<longleftrightarrow> admits (maxDepth L) 0 v \<and> nodes v \<le> maxNodes L \<and> t = render v"
proof (cases "assertJsonValue L v 0 0")
  case (Inl e)
  then show ?thesis using assert_Inr(1) [of L v 0 0] by (auto simp: canonicalJson_def)
next
  case (Inr m)
  then show ?thesis using assert_Inr(1) [of L v 0 0 m] by (auto simp: canonicalJson_def)
qed

lemma parses_render_canon:
  assumes "distinct_keys v" "admits (maxDepth (lims env)) 0 v" "nodes v \<le> maxNodes (lims env)"
  shows "parses env (Value 0 (render v) 0) (Inr (canon v, [], nodes v))"
proof -
  have "reads env (canon v)" using assms(1) by (simp add: reads_canonical)
  from readsD [OF this, of 0 0 "[]"] assms show ?thesis
    by (simp add: render_canon next_ok_def)
qed

lemma strict_round_trip:
  assumes "distinct_keys v" and "canonicalJson L v = Inr t" and "byteLength t \<le> maxBytes L"
  shows "parseStrictJson allowed L (JStr t) = Some (Inr (canon v))"
proof -
  let ?env = "\<lparr>source = t, lims = L, allowedControls = allowed\<rparr>"
  have t: "t = render v" "admits (maxDepth L) 0 v" "nodes v \<le> maxNodes L"
    using assms(2) by (auto simp: canonicalJson_Inr)
  then have "parses ?env (Value 0 t 0) (Inr (canon v, [], nodes v))"
    using parses_render_canon [of v ?env] assms(1) by simp
  then have "run_parser (parse_fuel t) ?env (Value 0 t 0) = Some (Inr (canon v, [], nodes v))"
    by (rule run_parser_parses) (simp add: parse_fuel_def)
  with assms(3) show ?thesis by (simp add: parseStrictJson_def)
qed

text \<open>C23. Strict parsing inverts canonical rendering: the canonical text of any value the
  renderer accepts parses back, under the same limits, to that value with its object
  keys in canonical order.\<close>

theorem canonical_text_round_trip:
  assumes "distinct_keys v" and "canonicalJson L v = Inr t" and "byteLength t \<le> maxBytes L"
  shows "parseStrictJson allowed L (JStr t) = Some (Inr (canon v))"
  using assms by (rule strict_round_trip)

definition sample_value :: jsval where
  "sample_value = record_of [(''b'', JArr [JInt (-12), JNull]), (''a'', JLit ''x'')]"

definition sample_text :: jsstr where
  "sample_text = js ''{\"a\":\"x\",\"b\":[-12,null]}''"

lemma sample_canonical: "canonicalJson STRICT_JSON_LIMITS sample_value = Inr sample_text"
proof -
  have "render sample_value = sample_text" by code_simp
  moreover have "admits 64 0 sample_value \<and> nodes sample_value \<le> 10000"
    by (simp add: sample_value_def strict_text_def js_def forbidden_control_def surrogate_unat
        MAX_SAFE_INTEGER_def is_integral_def)
  ultimately show ?thesis by (simp add: canonicalJson_Inr STRICT_JSON_LIMITS_def)
qed

theorem canonical_text_round_trip_witness:
  "parseStrictJson None STRICT_JSON_LIMITS (JStr sample_text) = Some (Inr (canon sample_value))"
proof (rule canonical_text_round_trip [OF _ sample_canonical])
  show "distinct_keys sample_value" by (simp add: sample_value_def)
  have "byteLength sample_text = 24" by code_simp
  then show "byteLength sample_text \<le> maxBytes STRICT_JSON_LIMITS" by (simp add: STRICT_JSON_LIMITS_def)
qed

text \<open>C24. The strict parser returns on every input, as a value or an error: it cannot loop
  and the recursion never needs more steps than twice the length of the text.\<close>

theorem strict_parser_total:
  "(\<exists>r. parseStrictJson allowed L src = Some r) \<and> (\<exists>r. parseStrictJsonBytes allowed L input = Some r)"
  using parseStrictJson_total parseStrictJsonBytes_total by blast

lemma utf8_render_no_bom: "take 3 (utf8 (render v)) \<noteq> [0xef, 0xbb, 0xbf]"
proof -
  obtain c s where c: "render v = c # s" "opens c" using render_head by blast
  then have "\<not> is_surrogate c" "utf8_unit c = [byte (unat c)]"
    by (auto simp: opens_def surrogate_unat utf8_unit_def)
  then have "take 3 (utf8 (render v)) = byte (unat c) # take 2 (utf8 s)"
    using c by (simp add: utf8_Cons_plain)
  moreover have "byte (unat c) \<noteq> 0xef"
  proof
    assume "byte (unat c) = 0xef"
    then have "unat (byte (unat c)) = unat (0xef :: 8 word)" by simp
    with c show False by (simp add: opens_def)
  qed
  ultimately show ?thesis by simp
qed

lemma canonicalJsonBytes_Inr:
  "canonicalJsonBytes L v = Inr b \<longleftrightarrow> (\<exists>t. canonicalJson L v = Inr t \<and> b = utf8 t)"
  by (cases "canonicalJson L v") (auto simp: canonicalJsonBytes_def)

lemma parse_canonical_bytes:
  assumes "distinct_keys v" and "canonicalJsonBytes L v = Inr b" and "length b \<le> maxBytes L"
  shows "parseStrictJsonBytes allowed L b = Some (Inr (canon v))"
proof -
  obtain t where t: "canonicalJson L v = Inr t" "b = utf8 t"
    using assms(2) by (auto simp: canonicalJsonBytes_Inr)
  then have r: "t = render v" by (simp add: canonicalJson_Inr)
  show ?thesis
    using t assms utf8_render_no_bom [of v] utf8_decode_encode [OF well_formed_render [of v]]
      strict_round_trip [OF assms(1) t(1), of allowed] r
    by (simp add: parseStrictJsonBytes_def)
qed

lemma parse_canonical_iff:
  "parseCanonicalJsonBytes L b = Some (Inr v) \<longleftrightarrow>
     distinct_keys v \<and> canon v = v \<and> canonicalJsonBytes L v = Inr b \<and> length b \<le> maxBytes L"
    (is "?parsed \<longleftrightarrow> ?canonical")
proof
  assume ?parsed
  then have p: "parseStrictJsonBytes None L b = Some (Inr v)" and b: "canonicalJsonBytes L v = Inr b"
    by (auto simp: parseCanonicalJsonBytes_def split: option.splits sum.splits if_splits)
  then have d: "distinct_keys v" and l: "length b \<le> maxBytes L"
    by (auto simp: parseStrictJsonBytes_def split: if_splits option.splits dest: parseStrictJson_distinct)
  from parse_canonical_bytes [OF d b l, of None] p have "canon v = v" by simp
  with d b l show ?canonical by simp
next
  assume c: ?canonical
  then have "parseStrictJsonBytes None L b = Some (Inr v)"
    using parse_canonical_bytes [of v L b None] by simp
  with c show ?parsed by (simp add: parseCanonicalJsonBytes_def)
qed

text \<open>C2. \<open>parseCanonicalJsonBytes\<close> accepts exactly the canonical encodings: it returns \<open>v\<close>
  on an input if and only if \<open>v\<close> is in canonical key order, within the limits, and the
  input is the UTF-8 of its canonical text.\<close>

theorem canonical_bytes_exact:
  "parseCanonicalJsonBytes L b = Some (Inr v) \<longleftrightarrow>
     distinct_keys v \<and> canon v = v \<and> canonicalJsonBytes L v = Inr b \<and> length b \<le> maxBytes L"
  by (rule parse_canonical_iff)

lemma canonical_text_eq_iff:
  assumes "distinct_keys v" "distinct_keys w"
    and "canonicalJson L v = Inr s" "canonicalJson L w = Inr t"
  shows "s = t \<longleftrightarrow> canon v = canon w"
proof
  assume st: "s = t"
  let ?env = "\<lparr>source = s, lims = L, allowedControls = None\<rparr>"
  have "parses ?env (Value 0 s 0) (Inr (canon v, [], nodes v))"
    "parses ?env (Value 0 s 0) (Inr (canon w, [], nodes w))"
    using assms st parses_render_canon [of v ?env] parses_render_canon [of w ?env]
    by (auto simp: canonicalJson_Inr)
  from this [THEN run_parser_parses, OF order_refl] show "canon v = canon w" by simp
next
  assume "canon v = canon w"
  then have "render v = render w" by (metis render_canon)
  with assms show "s = t" by (simp add: canonicalJson_Inr)
qed

text \<open>Two values have the same canonical text exactly when they agree up to the order of
  object keys, so a canonical hash identifies the content of a record and nothing else.\<close>

theorem canonical_text_injective:
  assumes "distinct_keys v" "distinct_keys w"
    and "canonicalJson L v = Inr s" "canonicalJson L w = Inr t"
  shows "s = t \<longleftrightarrow> canon v = canon w"
  using assms by (rule canonical_text_eq_iff)

theorem canonical_text_injective_witness:
  "(sample_text = sample_text) \<longleftrightarrow> canon sample_value = canon (canon sample_value)"
proof (rule canonical_text_injective [OF _ _ sample_canonical])
  show "distinct_keys sample_value" "distinct_keys (canon sample_value)"
    by (simp_all add: sample_value_def)
  show "canonicalJson STRICT_JSON_LIMITS (canon sample_value) = Inr sample_text"
    using sample_canonical by (simp add: canonicalJson_Inr render_canon)
qed

end
