(* ===== verification/Identity.thy ===== *)
theory Identity
  imports Canonical_Json
begin

text \<open>
  The identity and path predicates of \<^verbatim>\<open>shared/identity.js\<close>, \<^verbatim>\<open>shared/work-dir.js\<close> and
  \<^verbatim>\<open>daemon/src/work-dir.js\<close>: principals, management anchors, ACL bindings and fully
  qualified working directories.
\<close>

section \<open>Text helpers\<close>

fun split_on :: "16 word \<Rightarrow> jsstr \<Rightarrow> jsstr list" where
  "split_on sep [] = [[]]"
| "split_on sep (c # s) =
     (if c = sep then [] # split_on sep s
      else (case split_on sep s of [] \<Rightarrow> [[c]] | w # ws \<Rightarrow> (c # w) # ws))"

text \<open>The pattern \<open>(?:0|[1-9][0-9]*)\<close> on a whole string.\<close>

fun canonical_decimal :: "jsstr \<Rightarrow> bool" where
  "canonical_decimal [] \<longleftrightarrow> False"
| "canonical_decimal (c # s) \<longleftrightarrow>
     (if c = 0x30 then s = [] else is_digit c \<and> list_all is_digit s)"

section \<open>Identities\<close>

definition isOpaqueIdentity :: "jsval \<Rightarrow> bool" where
  "isOpaqueIdentity v \<longleftrightarrow> typeof_string v \<and> str_of v \<noteq> [] \<and>
     is_ok (assertStrictText v (js ''identity'') (Some 4096))"

definition uid_text :: "jsstr \<Rightarrow> bool" where
  "uid_text s \<longleftrightarrow> take 4 s = js ''uid:'' \<and> canonical_decimal (drop 4 s) \<and> length (drop 4 s) \<le> 10"

definition sid_text :: "jsstr \<Rightarrow> bool" where
  "sid_text s \<longleftrightarrow> (let parts = split_on 0x2d s in
     4 \<le> length parts \<and> hd parts = js ''S'' \<and> list_all canonical_decimal (tl parts))"

definition isCanonicalPrincipal :: "jsval \<Rightarrow> bool" where
  "isCanonicalPrincipal v \<longleftrightarrow>
     (if js_eq (fld v ''kind'') (JLit ''uid'') then
        uid_text (str_of (fld v ''value'')) \<and>
        decimal (drop 4 (str_of (fld v ''value''))) \<le> 4294967295
      else js_eq (fld v ''kind'') (JLit ''sid'') \<and> sid_text (str_of (fld v ''value'')))"

definition isPrincipal :: "jsval \<Rightarrow> bool" where
  "isPrincipal v \<longleftrightarrow> exact v [''kind'', ''value''] \<and> isOpaqueIdentity (fld v ''value'') \<and>
     isCanonicalPrincipal v"

definition isCanonicalWindowsSid :: "jsval \<Rightarrow> bool" where
  "isCanonicalWindowsSid v \<longleftrightarrow>
     isPrincipal (record_of [(''kind'', JLit ''sid''), (''value'', v)]) \<and>
     (let fields = split_on 0x2d (str_of v) in
        4 \<le> length fields \<and> length fields \<le> 18 \<and> fields ! 1 = js ''1'' \<and>
        decimal (fields ! 2) \<le> 281474976710655 \<and>
        list_all (\<lambda>f. decimal f \<le> 4294967295) (drop 3 fields))"

definition isProvisioningSource :: "jsval \<Rightarrow> bool" where
  "isProvisioningSource v \<longleftrightarrow> exact v [''kind'', ''fingerprint''] \<and>
     typeof_string (fld v ''kind'') \<and> str_of (fld v ''kind'') \<noteq> [] \<and> isHex64 (fld v ''fingerprint'')"

definition isAclFingerprint :: "jsval \<Rightarrow> bool" where
  "isAclFingerprint v = isHex64 v"

definition ANCHOR_KEYS :: "string list" where
  "ANCHOR_KEYS = [''anchorVersion'', ''configPathFingerprint'', ''parentIdentity'',
     ''targetRelativeName'', ''controlRootRelativeName'']"

definition isManagementAnchor :: "jsval \<Rightarrow> bool" where
  "isManagementAnchor v \<longleftrightarrow> exact v ANCHOR_KEYS \<and>
     js_eq (fld v ''anchorVersion'') (JInt 1) \<and>
     isHex64 (fld v ''configPathFingerprint'') \<and>
     isOpaqueIdentity (fld v ''parentIdentity'') \<and>
     js_eq (fld v ''targetRelativeName'') (JLit ''channels.json'') \<and>
     js_eq (fld v ''controlRootRelativeName'') (JLit ''.gjc-remote-control'')"

definition managementAnchorFingerprint :: "(bytes \<Rightarrow> jsstr) \<Rightarrow> jsval \<Rightarrow> js_error + jsstr" where
  "managementAnchorFingerprint sha256 anchor =
     (if \<not> isManagementAnchor anchor then Inl (TypeError (js ''invalid management anchor''))
      else canonicalJsonHash sha256 STRICT_JSON_LIMITS anchor)"

definition isIdentityAclBinding :: "jsval \<Rightarrow> bool" where
  "isIdentityAclBinding v \<longleftrightarrow> exact v [''identity'', ''aclFingerprint''] \<and>
     isOpaqueIdentity (fld v ''identity'') \<and> isAclFingerprint (fld v ''aclFingerprint'')"

section \<open>Working directories\<close>

definition is_sep :: "16 word \<Rightarrow> bool" where
  "is_sep c \<longleftrightarrow> c = 0x5c \<or> c = 0x2f"

definition is_line_end :: "16 word \<Rightarrow> bool" where
  "is_line_end c \<longleftrightarrow> c = 0x0a \<or> c = 0x0d \<or> c = 0x2028 \<or> c = 0x2029"

definition isNormalizedWorkDir :: "jsval \<Rightarrow> bool" where
  "isNormalizedWorkDir v \<longleftrightarrow> typeof_string v \<and> str_of v \<noteq> [] \<and> trim (str_of v) = str_of v"

definition windows_drive_root :: "jsstr \<Rightarrow> bool" where
  "windows_drive_root s \<longleftrightarrow>
     (case s of a # b # c # _ \<Rightarrow> is_alpha a \<and> b = 0x3a \<and> is_sep c | _ \<Rightarrow> False)"

definition windows_unc_path :: "jsstr \<Rightarrow> bool" where
  "windows_unc_path s \<longleftrightarrow>
     (case s of
        a # b # s1 \<Rightarrow> is_sep a \<and> is_sep b \<and>
          (let host = takeWhile (\<lambda>c. \<not> is_sep c) s1; s2 = dropWhile (\<lambda>c. \<not> is_sep c) s1 in
           host \<noteq> [] \<and> s2 \<noteq> [] \<and>
           (let share = takeWhile (\<lambda>c. \<not> is_sep c) (tl s2); s3 = dropWhile (\<lambda>c. \<not> is_sep c) (tl s2) in
            share \<noteq> [] \<and> list_all (\<lambda>c. \<not> is_line_end c) (drop 1 s3)))
      | _ \<Rightarrow> False)"

definition isFullyQualifiedWindowsWorkDir :: "jsstr \<Rightarrow> bool" where
  "isFullyQualifiedWindowsWorkDir s \<longleftrightarrow> windows_drive_root s \<or> windows_unc_path s"

text \<open>\<open>split(/[\\/]+/)\<close>: the maximal runs of non-separators, an empty piece standing before
  a leading and after a trailing run of separators; empty pieces are neither \<open>.\<close> nor
  \<open>..\<close>, so one piece per separator gives the same answer.\<close>

fun segments :: "jsstr \<Rightarrow> jsstr list" where
  "segments [] = [[]]"
| "segments (c # s) =
     (if is_sep c then [] # segments s
      else (case segments s of [] \<Rightarrow> [[c]] | w # ws \<Rightarrow> (c # w) # ws))"

definition hasDotSegment :: "jsstr \<Rightarrow> bool" where
  "hasDotSegment s \<longleftrightarrow> list_ex (\<lambda>w. w = js ''.'' \<or> w = js ''..'') (segments s)"

definition posix_isAbsolute :: "jsstr \<Rightarrow> bool" where
  "posix_isAbsolute s \<longleftrightarrow> s \<noteq> [] \<and> hd s = 0x2f"

definition isFullyQualifiedRouteWorkDir :: "jsval \<Rightarrow> bool" where
  "isFullyQualifiedRouteWorkDir v \<longleftrightarrow> isNormalizedWorkDir v \<and> \<not> hasDotSegment (str_of v) \<and>
     (posix_isAbsolute (str_of v) \<or> isFullyQualifiedWindowsWorkDir (str_of v))"

definition isFullyQualifiedNativeWorkDir :: "jsval \<Rightarrow> string \<Rightarrow> bool" where
  "isFullyQualifiedNativeWorkDir v platform \<longleftrightarrow>
     (if \<not> isNormalizedWorkDir v then False
      else if platform = ''win32'' then isFullyQualifiedWindowsWorkDir (str_of v)
      else posix_isAbsolute (str_of v))"

definition isFullyQualifiedWorkDir :: "jsval \<Rightarrow> string \<Rightarrow> bool" where
  "isFullyQualifiedWorkDir v platform = isFullyQualifiedNativeWorkDir v platform"

definition validateNativeWorkDir :: "jsval \<Rightarrow> string \<Rightarrow> js_error + jsval" where
  "validateNativeWorkDir v platform =
     (if \<not> isFullyQualifiedWorkDir v platform
      then Inl (TypeError (js ''workDir must be a fully qualified native path''))
      else Inr v)"

section \<open>Facts\<close>

lemma isHex64_string: "isHex64 v \<Longrightarrow> \<exists>s. v = JStr s"
  by (cases v) auto

text \<open>A route working directory has a root on some platform, and the paths it accepts never
  climb: no segment of them is a dot segment.\<close>

lemma route_workdir_native:
  "isFullyQualifiedRouteWorkDir v \<Longrightarrow>
     isFullyQualifiedNativeWorkDir v ''linux'' \<or> isFullyQualifiedNativeWorkDir v ''win32''"
  by (auto simp: isFullyQualifiedRouteWorkDir_def isFullyQualifiedNativeWorkDir_def)

lemma segments_nonempty: "segments s \<noteq> []"
  by (induction s) (auto split: list.splits)

lemma segments_join: "list_all is_sep [c] \<Longrightarrow> segments (s @ c # t) = segments s @ segments t"
proof (induction s)
  case (Cons d s)
  then show ?case using segments_nonempty [of s] by (auto split: list.splits)
qed simp

end
