(* ===== verification/Workspace_Inventory.thy ===== *)
theory Workspace_Inventory
  imports Identity
begin

text \<open>
  Workspace authority descriptors and workspace inventories:
  \<^verbatim>\<open>shared/workspace-binding.js\<close>, \<^verbatim>\<open>shared/workspace-inventory.js\<close> and
  \<^verbatim>\<open>daemon/src/workspace-inventory.js\<close>.  An inventory is a self-describing document: it
  carries the hash of its own canonical encoding.  SHA-256 is a parameter.
\<close>

section \<open>Authority descriptors\<close>

definition WORKSPACE_AUTHORITY_DESCRIPTOR_KEYS :: "string list" where
  "WORKSPACE_AUTHORITY_DESCRIPTOR_KEYS =
     [''authorityEpoch'', ''fenceGeneration'', ''hostId'', ''mappingId'', ''mappingGeneration'',
      ''workspaceGeneration'', ''mappingVersion'', ''sourcePlatform'', ''workspaceId'',
      ''authorityFingerprint'']"

definition SOURCE_PLATFORMS :: "string list" where
  "SOURCE_PLATFORMS = [''posix'', ''windows-drive'', ''windows-unc'']"

definition isPositiveSafeInteger :: "jsval \<Rightarrow> bool" where
  "isPositiveSafeInteger v \<longleftrightarrow> isSafeInteger v \<and> 1 \<le> int_of v"

text \<open>\<open>/^[A-Za-z0-9][A-Za-z0-9._-]{0,127}$/\<close>\<close>

definition isOpaqueId :: "jsval \<Rightarrow> bool" where
  "isOpaqueId v \<longleftrightarrow>
     (case v of JStr (c # s) \<Rightarrow> is_alnum c \<and> list_all is_id_char s \<and> length s \<le> 127 | _ \<Rightarrow> False)"

definition isExactHostId :: "jsval \<Rightarrow> bool" where
  "isExactHostId v \<longleftrightarrow> typeof_string v \<and> str_of v \<noteq> [] \<and> str_of v = trim (str_of v) \<and>
     is_ok (assertStrictText v (js ''hostId'') (Some 128))"

definition binding_fail :: "string \<Rightarrow> js_error" where
  "binding_fail msg = TypeError (js ''WORKSPACE_BINDING_INVALID: '' @ js msg)"

definition validateWorkspaceAuthorityDescriptor :: "jsval \<Rightarrow> js_error + jsval" where
  "validateWorkspaceAuthorityDescriptor d =
     check (exact d WORKSPACE_AUTHORITY_DESCRIPTOR_KEYS) (binding_fail ''authority descriptor keys'') (
     check (isPositiveSafeInteger (fld d ''authorityEpoch'')) (binding_fail ''authorityEpoch'') (
     check (isPositiveSafeInteger (fld d ''fenceGeneration'')) (binding_fail ''fenceGeneration'') (
     check (isExactHostId (fld d ''hostId'')) (binding_fail ''hostId'') (
     check (isOpaqueId (fld d ''mappingId'')) (binding_fail ''mappingId'') (
     check (isPositiveSafeInteger (fld d ''mappingGeneration'')) (binding_fail ''mappingGeneration'') (
     check (isPositiveSafeInteger (fld d ''workspaceGeneration'')) (binding_fail ''workspaceGeneration'') (
     check (isPositiveSafeInteger (fld d ''mappingVersion'')) (binding_fail ''mappingVersion'') (
     check (str_in (fld d ''sourcePlatform'') SOURCE_PLATFORMS) (binding_fail ''sourcePlatform'') (
     check (isOpaqueId (fld d ''workspaceId'')) (binding_fail ''workspaceId'') (
     check (isHex64 (fld d ''authorityFingerprint'')) (binding_fail ''authorityFingerprint'') (
     Inr d)))))))))))"

definition isWorkspaceAuthorityDescriptor :: "jsval \<Rightarrow> bool" where
  "isWorkspaceAuthorityDescriptor d = is_ok (validateWorkspaceAuthorityDescriptor d)"

definition workspaceBindingFingerprint ::
  "(bytes \<Rightarrow> jsstr) \<Rightarrow> jsval \<Rightarrow> jsval \<Rightarrow> jsval \<Rightarrow> js_error + jsstr" where
  "workspaceBindingFingerprint sha256 authority inventoryGeneration inventoryFingerprint =
     seq (validateWorkspaceAuthorityDescriptor authority) (\<lambda>_.
     check (isPositiveSafeInteger inventoryGeneration) (binding_fail ''inventoryGeneration'') (
     check (isHex64 inventoryFingerprint) (binding_fail ''inventoryFingerprint'') (
     canonicalJsonHash sha256 STRICT_JSON_LIMITS
       (record_of [(''schemaVersion'', JInt 1), (''authority'', authority),
          (''inventory'', record_of [(''inventoryGeneration'', inventoryGeneration),
             (''inventoryFingerprint'', inventoryFingerprint)])]))))"

section \<open>Inventories\<close>

record inventory_limits = limits +
  maxHostIdBytes :: nat
  maxWorkspaceIdBytes :: nat
  maxWorkDirBytes :: nat
  maxWorkspaces :: nat
  maxGeneration :: int

definition WORKSPACE_INVENTORY_VERSION :: int where
  "WORKSPACE_INVENTORY_VERSION = 2"

definition WORKSPACE_INVENTORY_LIMITS :: inventory_limits where
  "WORKSPACE_INVENTORY_LIMITS = limits.extend STRICT_JSON_LIMITS
     (inventory_limits.fields 128 128 4096 64 MAX_SAFE_INTEGER)"

abbreviation json_limits :: limits where
  "json_limits \<equiv> limits.truncate WORKSPACE_INVENTORY_LIMITS"

definition TOP_LEVEL_KEYS :: "string list" where
  "TOP_LEVEL_KEYS = [''version'', ''hostId'', ''inventoryGeneration'', ''inventoryFingerprint'', ''workspaces'']"

definition PREIMAGE_KEYS :: "string list" where
  "PREIMAGE_KEYS = [''version'', ''hostId'', ''inventoryGeneration'', ''workspaces'']"

definition WORKSPACE_KEYS :: "string list" where
  "WORKSPACE_KEYS = [''hostId'', ''workspaceId'', ''sourcePlatform'', ''workDir'',
     ''rootIdentityFingerprint'', ''storageIdentityFingerprint'']"

definition inventory_fail :: "string \<Rightarrow> js_error" where
  "inventory_fail msg = TypeError (js ''WORKSPACE_INVENTORY_INVALID: '' @ js msg)"

definition strictText :: "jsval \<Rightarrow> string \<Rightarrow> nat \<Rightarrow> bool" where
  "strictText v name m \<longleftrightarrow> typeof_string v \<and> str_of v \<noteq> [] \<and>
     is_ok (assertStrictText v (js name) (Some m))"

definition workspace_id_text :: "jsval \<Rightarrow> bool" where
  "workspace_id_text v \<longleftrightarrow>
     (case v of JStr (c # s) \<Rightarrow> is_alnum c \<and> list_all is_id_char s | _ \<Rightarrow> False)"

definition validateWorkspace :: "jsval \<Rightarrow> jsval \<Rightarrow> js_error + jsval" where
  "validateWorkspace w hostId =
     check (exact w WORKSPACE_KEYS) (inventory_fail ''workspace keys'') (
     check (js_eq (fld w ''hostId'') hostId) (inventory_fail ''workspace hostId'') (
     check (workspace_id_text (fld w ''workspaceId'') \<and>
            byteLength (str_of (fld w ''workspaceId'')) \<le> maxWorkspaceIdBytes WORKSPACE_INVENTORY_LIMITS)
       (inventory_fail ''workspaceId'') (
     check (str_in (fld w ''sourcePlatform'') SOURCE_PLATFORMS) (inventory_fail ''sourcePlatform'') (
     check (strictText (fld w ''workDir'') ''workDir'' (maxWorkDirBytes WORKSPACE_INVENTORY_LIMITS))
       (inventory_fail ''workDir'') (
     check (isHex64 (fld w ''rootIdentityFingerprint'')) (inventory_fail ''rootIdentityFingerprint'') (
     check (isHex64 (fld w ''storageIdentityFingerprint'')) (inventory_fail ''storageIdentityFingerprint'') (
     Inr w)))))))"

text \<open>The loop over \<open>inventory.workspaces\<close>; \<open>prev\<close> is \<open>previousWorkspaceId\<close>.\<close>

fun validate_workspaces :: "jsval \<Rightarrow> jsstr option \<Rightarrow> jsval list \<Rightarrow> js_error + unit" where
  "validate_workspaces hostId prev [] = Inr ()"
| "validate_workspaces hostId prev (w # ws) =
     seq (validateWorkspace w hostId) (\<lambda>_.
     check (case prev of None \<Rightarrow> True
            | Some p \<Rightarrow> utf8Compare p (str_of (fld w ''workspaceId'')) < 0)
       (inventory_fail ''workspaces must be unique and sorted'')
       (validate_workspaces hostId (Some (str_of (fld w ''workspaceId''))) ws))"

definition validatePreimage :: "jsval \<Rightarrow> string list \<Rightarrow> js_error + jsval" where
  "validatePreimage doc keys =
     check (exact doc keys) (inventory_fail ''top-level keys'') (
     check (js_eq (fld doc ''version'') (JInt WORKSPACE_INVENTORY_VERSION)) (inventory_fail ''version'') (
     check (strictText (fld doc ''hostId'') ''hostId'' (maxHostIdBytes WORKSPACE_INVENTORY_LIMITS))
       (inventory_fail ''hostId'') (
     check (isSafeInteger (fld doc ''inventoryGeneration'') \<and> 1 \<le> int_of (fld doc ''inventoryGeneration'') \<and>
            int_of (fld doc ''inventoryGeneration'') \<le> maxGeneration WORKSPACE_INVENTORY_LIMITS)
       (inventory_fail ''inventoryGeneration'') (
     check (isArray (fld doc ''workspaces'') \<and>
            length (elements (fld doc ''workspaces'')) \<le> maxWorkspaces WORKSPACE_INVENTORY_LIMITS)
       (inventory_fail ''workspaces'') (
     seq (validate_workspaces (fld doc ''hostId'') None (elements (fld doc ''workspaces''))) (\<lambda>_.
     Inr doc))))))"

definition assertDocumentByteLimit :: "jsval \<Rightarrow> js_error + bytes" where
  "assertDocumentByteLimit doc =
     seq (canonicalJsonBytes json_limits doc) (\<lambda>b.
     check (1 \<le> length b \<and> length b \<le> maxBytes WORKSPACE_INVENTORY_LIMITS)
       (inventory_fail ''document byte limit'') (Inr b))"

definition workspaceInventoryFingerprint :: "(bytes \<Rightarrow> jsstr) \<Rightarrow> jsval \<Rightarrow> js_error + jsstr" where
  "workspaceInventoryFingerprint sha256 doc =
     (let hasFingerprint = plain doc \<and> hasOwn doc ''inventoryFingerprint'' in
      seq (validatePreimage doc (if hasFingerprint then TOP_LEVEL_KEYS else PREIMAGE_KEYS)) (\<lambda>_.
      canonicalJsonHash sha256 json_limits (without doc ''inventoryFingerprint'')))"

definition validateWorkspaceInventoryAndBytes :: "(bytes \<Rightarrow> jsstr) \<Rightarrow> jsval \<Rightarrow> js_error + bytes" where
  "validateWorkspaceInventoryAndBytes sha256 doc =
     seq (validatePreimage doc TOP_LEVEL_KEYS) (\<lambda>_.
     check (isHex64 (fld doc ''inventoryFingerprint'')) (inventory_fail ''inventoryFingerprint'') (
     seq (workspaceInventoryFingerprint sha256 doc) (\<lambda>fp.
     check (js_eq (JStr fp) (fld doc ''inventoryFingerprint'')) (inventory_fail ''inventory fingerprint'')
       (assertDocumentByteLimit doc))))"

definition validateWorkspaceInventory :: "(bytes \<Rightarrow> jsstr) \<Rightarrow> jsval \<Rightarrow> js_error + jsval" where
  "validateWorkspaceInventory sha256 doc =
     seq (validateWorkspaceInventoryAndBytes sha256 doc) (\<lambda>_. Inr doc)"

fun validate_all :: "jsval \<Rightarrow> jsval list \<Rightarrow> js_error + unit" where
  "validate_all hostId [] = Inr ()"
| "validate_all hostId (w # ws) = seq (validateWorkspace w hostId) (\<lambda>_. validate_all hostId ws)"

definition workspace_key :: "jsval \<Rightarrow> bytes" where
  "workspace_key w = utf8 (str_of (fld w ''workspaceId''))"

definition buildWorkspaceInventory ::
  "(bytes \<Rightarrow> jsstr) \<Rightarrow> jsval \<Rightarrow> jsval \<Rightarrow> jsval \<Rightarrow> js_error + jsval" where
  "buildWorkspaceInventory sha256 hostId inventoryGeneration workspaces =
     check (isArray workspaces) (inventory_fail ''workspaces'') (
     seq (validate_all hostId (elements workspaces)) (\<lambda>_.
     let fields = [(js ''version'', JInt WORKSPACE_INVENTORY_VERSION), (js ''hostId'', hostId),
                   (js ''inventoryGeneration'', inventoryGeneration),
                   (js ''workspaces'', JArr (sort_key workspace_key (elements workspaces)))] in
     seq (workspaceInventoryFingerprint sha256 (JObj ObjectProto fields)) (\<lambda>fp.
     let doc = JObj ObjectProto (fields @ [(js ''inventoryFingerprint'', JStr fp)]) in
     seq (assertDocumentByteLimit doc) (\<lambda>_. Inr doc))))"

definition workspaceInventoryBytes :: "(bytes \<Rightarrow> jsstr) \<Rightarrow> jsval \<Rightarrow> js_error + bytes" where
  "workspaceInventoryBytes sha256 doc = validateWorkspaceInventoryAndBytes sha256 doc"

definition parseWorkspaceInventory :: "(bytes \<Rightarrow> jsstr) \<Rightarrow> bytes \<Rightarrow> (js_error + jsval) option" where
  "parseWorkspaceInventory sha256 b =
     (case parseCanonicalJsonBytes json_limits b of
        Some (Inr doc) \<Rightarrow> Some (validateWorkspaceInventory sha256 doc)
      | r \<Rightarrow> r)"

definition workspaceInventoryHostKey :: "(bytes \<Rightarrow> jsstr) \<Rightarrow> jsval \<Rightarrow> js_error + jsstr" where
  "workspaceInventoryHostKey sha256 hostId =
     (if \<not> strictText hostId ''hostId'' (maxHostIdBytes WORKSPACE_INVENTORY_LIMITS)
      then Inl (inventory_fail ''hostId'')
      else Inr (sha256 (utf8 (str_of hostId))))"

text \<open>The daemon's wrapper: the parsed inventory is frozen, every failure is one error.\<close>

definition daemon_parseWorkspaceInventory :: "(bytes \<Rightarrow> jsstr) \<Rightarrow> bytes \<Rightarrow> (js_error + jsval) option" where
  "daemon_parseWorkspaceInventory sha256 b =
     (case parseWorkspaceInventory sha256 b of
        Some (Inl _) \<Rightarrow> Some (Inl (TypeError (js ''WORKSPACE_INVENTORY_INVALID'')))
      | r \<Rightarrow> r)"

definition findWorkspaceInventory :: "jsval \<Rightarrow> jsval \<Rightarrow> jsval option" where
  "findWorkspaceInventory doc binding =
     (if \<not> truthy doc \<or> \<not> truthy binding \<or>
         \<not> js_eq (fld doc ''inventoryGeneration'') (fld binding ''inventoryGeneration'')
      then None
      else find (\<lambda>w. js_eq (fld w ''hostId'') (fld binding ''hostId'') \<and>
                     js_eq (fld w ''workspaceId'') (fld binding ''workspaceId'') \<and>
                     js_eq (fld w ''sourcePlatform'') (fld binding ''sourcePlatform''))
             (elements (fld doc ''workspaces'')))"

section \<open>Reading a value in canonical key order\<close>

lemma map_of_sort_key:
  assumes "wf_map fs"
  shows "map_of (sort_key g fs) = map_of fs"
proof (rule map_of_eqI)
  show "set (map fst (sort_key g fs)) = set (map fst fs)" by simp
  show "\<forall>k \<in> set (map fst (sort_key g fs)). map_of (sort_key g fs) k = map_of fs k"
  proof
    fix k assume "k \<in> set (map fst (sort_key g fs))"
    then obtain v where v: "(k, v) \<in> set (sort_key g fs)" by auto
    moreover have "wf_map (sort_key g fs)" using assms by (simp add: distinct_map_sort_key)
    ultimately have "map_of (sort_key g fs) k = Some v" by simp
    moreover have "map_of fs k = Some v" using v assms by simp
    ultimately show "map_of (sort_key g fs) k = map_of fs k" by simp
  qed
qed

lemma map_of_map_snd: "map_of (map (\<lambda>f. (fst f, g (snd f))) fs) k = map_option g (map_of fs k)"
  by (induction fs) auto

lemma wf_map_snd: "wf_map (map (\<lambda>f. (fst f, g (snd f))) fs) = wf_map fs"
  by (simp add: o_def)

lemma get_own_canon: "distinct_keys v \<Longrightarrow> get_own (canon v) k = canon (get_own v k)"
proof (cases v)
  case (JObj p fs)
  assume "distinct_keys v"
  then have "wf_map (map (\<lambda>f. (fst f, canon (snd f))) fs)" using JObj by (simp add: o_def)
  then show ?thesis
    using JObj by (simp add: get_own_JObj map_of_sort_key map_of_map_snd split: option.splits)
qed (simp_all add: get_own_def)

lemma plain_canon [simp]: "plain (canon v) = plain v"
proof (cases v)
  case (JObj p fs)
  then show ?thesis by (cases p) simp_all
qed simp_all

lemma set_own_keys_canon: "set (own_keys (canon v)) = set (own_keys v)"
  by (cases v) (force simp: own_keys_def)+

lemma has_key_canon [simp]: "has_key (canon v) k = has_key v k"
  by (simp add: has_key_def set_own_keys_canon)

lemma length_own_keys_canon: "length (own_keys (canon v)) = length (own_keys v)"
  using set_own_keys_canon [of v] distinct_card [of "own_keys v"] distinct_card [of "own_keys (canon v)"]
  by simp

lemma exact_canon [simp]: "exact (canon v) ks = exact v ks"
  by (simp add: exact_def length_own_keys_canon)

lemma canon_leaf: "\<lbrakk>\<not> isArray v; \<not> isObject v\<rbrakk> \<Longrightarrow> canon v = v"
  by (cases v) auto

lemma canon_JStr_iff [simp]: "canon v = JStr s \<longleftrightarrow> v = JStr s" "JStr s = canon v \<longleftrightarrow> v = JStr s"
  by (cases v; auto)+

lemma canon_JNum_iff [simp]: "canon v = JNum n \<longleftrightarrow> v = JNum n"
  by (cases v) auto

lemma str_of_canon [simp]: "str_of (canon v) = str_of v" "typeof_string (canon v) = typeof_string v"
  by (cases v; simp)+

lemma isSafeInteger_canon [simp]: "isSafeInteger (canon v) = isSafeInteger v" "int_of (canon v) = int_of v"
  by (cases v; simp)+

lemma isHex64_canon [simp]: "isHex64 (canon v) = isHex64 v"
  by (cases v) auto

lemma elements_canon [simp]: "elements (canon v) = map canon (elements v)" "isArray (canon v) = isArray v"
  by (cases v; simp)+

lemma str_in_canon [simp]: "str_in (canon v) xs = str_in v xs"
  by (simp add: str_in_iff)

lemma assertStrictText_canon [simp]:
  "is_ok (assertStrictText (canon v) name m) = is_ok (assertStrictText v name m)"
  by (cases v) (simp_all add: assertStrictText.simps)

lemma js_eq_canon: "js_eq (canon v) (canon w) = js_eq v w"
  by (cases v; cases w) simp_all

lemma js_eq_canon_leaf: "\<lbrakk>\<not> isArray w; \<not> isObject w\<rbrakk> \<Longrightarrow> js_eq (canon v) w = js_eq v w"
  using js_eq_canon [of v w] by (simp add: canon_leaf)

lemma strictText_canon [simp]: "strictText (canon v) name m = strictText v name m"
  by (simp add: strictText_def)

lemma workspace_id_text_canon [simp]: "workspace_id_text (canon v) = workspace_id_text v"
  by (cases v) (auto simp: workspace_id_text_def)

lemma canon_without: "canon (without v k) = without (canon v) k"
proof (cases v)
  case (JObj p fs)
  have "filter (\<lambda>(k', _). k' \<noteq> js k) (map (\<lambda>f. (fst f, canon (snd f))) fs)
      = map (\<lambda>f. (fst f, canon (snd f))) (filter (\<lambda>(k', _). k' \<noteq> js k) fs)"
    by (induction fs) auto
  then show ?thesis using JObj by (simp add: without_def filter_sort)
qed (simp_all add: without_def)

lemma canonicalJsonBytes_canon:
  "canonicalJsonBytes L v = Inr b \<Longrightarrow> canonicalJsonBytes L (canon v) = Inr b"
  by (auto simp: canonicalJsonBytes_Inr canonicalJson_Inr render_canon)

lemma canonicalJsonHash_canon:
  "canonicalJsonHash sha L v = Inr h \<Longrightarrow> canonicalJsonHash sha L (canon v) = Inr h"
  by (cases "canonicalJsonBytes L v") (auto simp: canonicalJsonHash_def canonicalJsonBytes_canon)

section \<open>Validation does not depend on key order\<close>

lemma distinct_keys_get_own: "distinct_keys v \<Longrightarrow> distinct_keys (get_own v k)"
  by (cases v) (auto simp: get_own_def dest!: map_of_SomeD split: option.splits)

lemma distinct_keys_elements: "distinct_keys v \<Longrightarrow> w \<in> set (elements v) \<Longrightarrow> distinct_keys w"
  by (cases v) auto

lemma validateWorkspace_canon:
  "distinct_keys w \<Longrightarrow> is_ok (validateWorkspace (canon w) (canon h)) = is_ok (validateWorkspace w h)"
  by (simp add: validateWorkspace_def get_own_canon js_eq_canon)

lemma validateWorkspace_Inr: "validateWorkspace w h = Inr x \<longleftrightarrow> is_ok (validateWorkspace w h) \<and> x = w"
  by (auto simp: validateWorkspace_def)

lemma validate_workspaces_canon:
  "(\<And>w. w \<in> set ws \<Longrightarrow> distinct_keys w) \<Longrightarrow>
   validate_workspaces (canon h) prev (map canon ws) = Inr () \<longleftrightarrow> validate_workspaces h prev ws = Inr ()"
proof (induction ws arbitrary: prev)
  case (Cons w ws)
  then show ?case
    by (cases prev) (simp_all add: seq_eq_Inr validateWorkspace_Inr validateWorkspace_canon get_own_canon)
qed simp

lemma validatePreimage_Inr: "validatePreimage v ks = Inr x \<longleftrightarrow> is_ok (validatePreimage v ks) \<and> x = v"
  by (auto simp: validatePreimage_def seq_eq_Inr is_ok_iff)

lemma validatePreimage_canon:
  assumes "distinct_keys v"
  shows "is_ok (validatePreimage (canon v) ks) = is_ok (validatePreimage v ks)"
proof -
  have "validate_workspaces (canon (fld v ''hostId'')) None (map canon (elements (fld v ''workspaces''))) = Inr ()
     \<longleftrightarrow> validate_workspaces (fld v ''hostId'') None (elements (fld v ''workspaces'')) = Inr ()"
    using assms by (intro validate_workspaces_canon)
      (auto intro: distinct_keys_elements distinct_keys_get_own)
  moreover have "js_eq (canon x) (JInt n) = js_eq x (JInt n)" for x n
    by (rule js_eq_canon_leaf) simp_all
  ultimately show ?thesis
    using assms by (simp add: validatePreimage_def get_own_canon is_ok_iff seq_eq_Inr del: js_eq_int)
qed

lemma fingerprint_canon:
  assumes "distinct_keys v" and "workspaceInventoryFingerprint sha v = Inr fp"
  shows "workspaceInventoryFingerprint sha (canon v) = Inr fp"
proof -
  let ?ks = "if plain v \<and> hasOwn v ''inventoryFingerprint'' then TOP_LEVEL_KEYS else PREIMAGE_KEYS"
  have "is_ok (validatePreimage v ?ks)"
    and h: "canonicalJsonHash sha json_limits (without v ''inventoryFingerprint'') = Inr fp"
    using assms(2) by (auto simp: workspaceInventoryFingerprint_def Let_def seq_eq_Inr is_ok_iff)
  then have "validatePreimage (canon v) ?ks = Inr (canon v)"
    using validatePreimage_canon [OF assms(1)] by (auto simp: validatePreimage_Inr)
  moreover have "canonicalJsonHash sha json_limits (without (canon v) ''inventoryFingerprint'') = Inr fp"
    using canonicalJsonHash_canon [OF h] by (simp add: canon_without)
  ultimately show ?thesis by (simp add: workspaceInventoryFingerprint_def Let_def)
qed

lemma validateBytes_canon:
  assumes "distinct_keys v" and "validateWorkspaceInventoryAndBytes sha v = Inr b"
  shows "validateWorkspaceInventoryAndBytes sha (canon v) = Inr b"
proof -
  obtain fp where a: "is_ok (validatePreimage v TOP_LEVEL_KEYS)" "isHex64 (fld v ''inventoryFingerprint'')"
    "workspaceInventoryFingerprint sha v = Inr fp" "js_eq (JStr fp) (fld v ''inventoryFingerprint'')"
    and b: "assertDocumentByteLimit v = Inr b"
    using assms(2) by (auto simp: validateWorkspaceInventoryAndBytes_def seq_eq_Inr is_ok_iff)
  have "validatePreimage (canon v) TOP_LEVEL_KEYS = Inr (canon v)"
    using a(1) validatePreimage_canon [OF assms(1)] by (simp add: validatePreimage_Inr)
  moreover have "js_eq (JStr fp) (canon (fld v ''inventoryFingerprint''))"
    using a(4) js_eq_canon [of "JStr fp"] by simp
  moreover have "assertDocumentByteLimit (canon v) = Inr b"
    using b by (auto simp: assertDocumentByteLimit_def seq_eq_Inr canonicalJsonBytes_canon)
  ultimately show ?thesis
    using assms(1) a fingerprint_canon [OF assms(1) a(3)]
    by (simp add: validateWorkspaceInventoryAndBytes_def get_own_canon)
qed

section \<open>What a valid inventory guarantees\<close>

lemma json_limits_bytes: "maxBytes WORKSPACE_INVENTORY_LIMITS = maxBytes json_limits"
  by (simp add: limits.truncate_def)

text \<open>A validated inventory survives storage: parsing the bytes written for it gives the
  same inventory, with its object keys in canonical order.\<close>

theorem inventory_storage_round_trip:
  assumes "distinct_keys doc" and "workspaceInventoryBytes sha256 doc = Inr b"
  shows "parseWorkspaceInventory sha256 b = Some (Inr (canon doc))"
proof -
  have v: "validateWorkspaceInventoryAndBytes sha256 doc = Inr b"
    using assms(2) by (simp add: workspaceInventoryBytes_def)
  then have "canonicalJsonBytes json_limits doc = Inr b" "length b \<le> maxBytes json_limits"
    by (auto simp: validateWorkspaceInventoryAndBytes_def assertDocumentByteLimit_def seq_eq_Inr json_limits_bytes)
  then have "parseCanonicalJsonBytes json_limits b = Some (Inr (canon doc))"
    using assms(1) canonicalJsonBytes_canon by (simp add: parse_canonical_iff)
  then show ?thesis
    using validateBytes_canon [OF assms(1) v]
    by (simp add: parseWorkspaceInventory_def validateWorkspaceInventory_def)
qed

lemma utf8Compare_less: "utf8Compare l r < 0 \<longleftrightarrow> utf8 l < utf8 r"
  by (simp add: utf8Compare_def)

lemma validate_workspaces_sorted:
  "validate_workspaces h prev ws = Inr () \<Longrightarrow>
     sorted_wrt (<) (map workspace_key ws) \<and> (\<forall>w \<in> set ws. is_ok (validateWorkspace w h)) \<and>
     (\<forall>p. prev = Some p \<longrightarrow> (\<forall>w \<in> set ws. utf8 p < workspace_key w))"
proof (induction ws arbitrary: prev)
  case (Cons w ws)
  then have w: "is_ok (validateWorkspace w h)"
    and p: "case prev of None \<Rightarrow> True | Some p \<Rightarrow> utf8 p < workspace_key w"
    and r: "validate_workspaces h (Some (str_of (fld w ''workspaceId''))) ws = Inr ()"
    by (auto simp: seq_eq_Inr validateWorkspace_Inr utf8Compare_less workspace_key_def split: option.splits)
  from Cons.IH [OF r] have "\<forall>x \<in> set ws. workspace_key w < workspace_key x"
    by (simp add: workspace_key_def)
  with Cons.IH [OF r] w p show ?case by (auto split: option.splits intro: less_trans)
qed simp

lemma sorted_wrt_less_distinct: "sorted_wrt (<) (xs :: 'a :: order list) \<Longrightarrow> distinct xs"
  by (induction xs) auto

text \<open>Every inventory the parser returns lists at most 64 workspaces, all of the
  inventory's own host, with strictly ascending and therefore pairwise different
  identifiers; so a lookup by identifier has at most one match.\<close>

theorem inventory_workspaces_unique:
  assumes "parseWorkspaceInventory sha256 b = Some (Inr doc)"
  shows "length (elements (fld doc ''workspaces'')) \<le> 64 \<and>
    distinct (map (\<lambda>w. fld w ''workspaceId'') (elements (fld doc ''workspaces''))) \<and>
    list_all (\<lambda>w. fld w ''hostId'' = fld doc ''hostId'') (elements (fld doc ''workspaces''))"
proof -
  let ?ws = "elements (fld doc ''workspaces'')"
  have p: "is_ok (validatePreimage doc TOP_LEVEL_KEYS)"
    using assms by (auto simp: parseWorkspaceInventory_def validateWorkspaceInventory_def seq_eq_Inr
        validateWorkspaceInventoryAndBytes_def is_ok_iff split: option.splits sum.splits)
  then have n: "length ?ws \<le> 64" and v: "validate_workspaces (fld doc ''hostId'') None ?ws = Inr ()"
    by (auto simp: validatePreimage_def is_ok_iff seq_eq_Inr WORKSPACE_INVENTORY_LIMITS_def
        limits.extend_def inventory_limits.fields_def)
  from validate_workspaces_sorted [OF v] have "distinct (map workspace_key ?ws)"
    and ok: "\<forall>w \<in> set ?ws. is_ok (validateWorkspace w (fld doc ''hostId''))"
    by (auto dest: sorted_wrt_less_distinct)
  then have "distinct (map (\<lambda>w. fld w ''workspaceId'') ?ws)"
    by (auto simp: distinct_map inj_on_def workspace_key_def)
  moreover have "list_all (\<lambda>w. fld w ''hostId'' = fld doc ''hostId'') ?ws"
    using ok by (auto simp: list_all_iff validateWorkspace_def dest: js_eq_imp_eq)
  ultimately show ?thesis using n by blast
qed

lemma exact_top_level:
  "exact (JObj ObjectProto [(js ''version'', a), (js ''hostId'', b), (js ''inventoryGeneration'', c),
     (js ''workspaces'', d), (js ''inventoryFingerprint'', e)]) TOP_LEVEL_KEYS"
  by (simp add: exact_def TOP_LEVEL_KEYS_def own_keys_JObj has_key_JObj)

text \<open>An inventory that the builder returns is valid: it passes the validation every
  reader applies, whatever order the workspaces were given in.\<close>

theorem built_inventory_valid:
  assumes sha: "\<And>b. isHex64 (JStr (sha256 b))"
    and built: "buildWorkspaceInventory sha256 hostId generation workspaces = Inr doc"
  shows "validateWorkspaceInventory sha256 doc = Inr doc"
proof -
  let ?fields = "[(js ''version'', JInt WORKSPACE_INVENTORY_VERSION), (js ''hostId'', hostId),
    (js ''inventoryGeneration'', generation),
    (js ''workspaces'', JArr (sort_key workspace_key (elements workspaces)))]"
  let ?pre = "JObj ObjectProto ?fields"
  obtain fp b where fp: "workspaceInventoryFingerprint sha256 ?pre = Inr fp"
    and doc: "doc = JObj ObjectProto (?fields @ [(js ''inventoryFingerprint'', JStr fp)])"
    and b: "assertDocumentByteLimit doc = Inr b"
    using built by (auto simp: buildWorkspaceInventory_def seq_eq_Inr Let_def)
  have nofp: "\<not> hasOwn ?pre ''inventoryFingerprint''" by (simp add: has_key_JObj)
  have pre: "is_ok (validatePreimage ?pre PREIMAGE_KEYS)"
    and hash: "canonicalJsonHash sha256 json_limits ?pre = Inr fp"
    using fp nofp by (auto simp: workspaceInventoryFingerprint_def Let_def seq_eq_Inr is_ok_iff without_def)
  have hex: "isHex64 (JStr fp)"
    using hash sha by (cases "canonicalJsonBytes json_limits ?pre") (auto simp: canonicalJsonHash_def simp del: isHex64.simps)
  have reads: "fld doc ''version'' = JInt WORKSPACE_INVENTORY_VERSION" "fld doc ''hostId'' = hostId"
    "fld doc ''inventoryGeneration'' = generation" "fld doc ''inventoryFingerprint'' = JStr fp"
    "fld doc ''workspaces'' = JArr (sort_key workspace_key (elements workspaces))"
    "hasOwn doc ''inventoryFingerprint''" "plain doc" "without doc ''inventoryFingerprint'' = ?pre"
    by (simp_all add: doc get_own_JObj has_key_JObj without_def)
  have "validatePreimage doc TOP_LEVEL_KEYS = Inr doc"
    using pre exact_top_level
    by (simp add: validatePreimage_def reads is_ok_iff seq_eq_Inr)
      (simp add: doc get_own_JObj exact_top_level)
  then show ?thesis
    using hash hex b
    by (simp add: validateWorkspaceInventory_def validateWorkspaceInventoryAndBytes_def
        workspaceInventoryFingerprint_def reads del: isHex64.simps)
qed

section \<open>A bound on rendered size\<close>

text \<open>At most six characters per character of a string, three bytes per character.\<close>

fun render_bound :: "jsval \<Rightarrow> nat" where
  "render_bound (JArr vs) = 2 + (\<Sum>v\<leftarrow>vs. 1 + render_bound v)"
| "render_bound (JObj p fs) = 2 + (\<Sum>f\<leftarrow>fs. 6 * length (fst f) + 4 + render_bound (snd f))"
| "render_bound (JStr s) = 6 * length s + 2"
| "render_bound v = length (render v)"

lemma length_utf8: "byteLength s \<le> 3 * length s"
proof (induction s rule: utf8.induct)
  case (3 c d s)
  then show ?case by (auto simp: utf8_unit_def utf8_pair_def Let_def)
qed (simp_all add: utf8_unit_def Let_def)

lemma length_escape: "length (escape s) \<le> 6 * length s"
proof (induction s rule: escape.induct)
  case (2 c rest)
  have "length (u_escape c) = 6" "length (escape_unit c) \<le> 6"
    by (simp_all add: u_escape_def escape_unit_def Let_def)
  note len = this
  show ?case
  proof (cases "is_surrogate c")
    case True
    with 2 len show ?thesis by (cases rest) auto
  next
    case False
    with 2 len show ?thesis by simp
  qed
qed simp

lemma length_quote: "length (quote s) \<le> Suc (Suc (6 * length s))"
  using length_escape [of s] by (simp add: quote_def)

lemma length_join: "length (join [c] xs) \<le> (\<Sum>x\<leftarrow>xs. 1 + length x)"
proof (induction xs)
  case (Cons x xs)
  then show ?case by (cases xs) auto
qed simp

lemma length_render: "length (render v) \<le> render_bound v"
proof (induction v rule: render_bound.induct)
  case (1 vs)
  have "(\<Sum>x\<leftarrow>map render vs. 1 + length x) \<le> (\<Sum>v\<leftarrow>vs. 1 + render_bound v)"
    using 1 by (auto simp: o_def intro!: sum_list_mono)
  then show ?case
    using length_join [of "0x2c" "map render vs"] by (simp add: js_punct render_items_map)
next
  case (2 p fs)
  let ?ms = "map (\<lambda>(k, t). quote k @ [0x3a] @ t) (sort_key (\<lambda>(k, _). utf8 k) (render_members fs))"
  have "(\<Sum>x\<leftarrow>?ms. 1 + length x) = (\<Sum>f\<leftarrow>fs. length (quote (fst f)) + 2 + length (render (snd f)))"
    by (simp add: o_def case_prod_unfold sum_list_sort_key render_members_map add.commute)
  also have "\<dots> \<le> (\<Sum>f\<leftarrow>fs. 6 * length (fst f) + 4 + render_bound (snd f))"
  proof (rule sum_list_mono)
    fix f assume "f \<in> set fs"
    then show "length (quote (fst f)) + 2 + length (render (snd f)) \<le> 6 * length (fst f) + 4 + render_bound (snd f)"
      using 2 [of f] length_quote [of "fst f"] by simp
  qed
  finally show ?case
    using length_join [of "0x2c" ?ms] by (simp add: js_punct)
qed (use length_quote in simp_all)

lemma byteLength_render: "byteLength (render v) \<le> 3 * render_bound v"
  using length_utf8 [of "render v"] length_render [of v] by linarith

section \<open>Witnesses\<close>

definition sample_sha :: "bytes \<Rightarrow> jsstr" where
  "sample_sha b = replicate 64 0x30"

definition sample_workspace :: jsval where
  "sample_workspace = record_of [(''hostId'', JLit ''h''), (''workspaceId'', JLit ''w1''),
     (''sourcePlatform'', JLit ''posix''), (''workDir'', JLit ''/srv/w1''),
     (''rootIdentityFingerprint'', JStr (replicate 64 0x30)),
     (''storageIdentityFingerprint'', JStr (replicate 64 0x31))]"

definition sample_inventory :: jsval where
  "sample_inventory = record_of [(''version'', JInt 2), (''hostId'', JLit ''h''),
     (''inventoryGeneration'', JInt 1), (''workspaces'', JArr [sample_workspace]),
     (''inventoryFingerprint'', JStr (replicate 64 0x30))]"

lemma strict_text_replicate_0: "strict_text (replicate n 0x30)" "strict_text (replicate n 0x31)"
  by (induction n) (simp_all add: strict_text_def forbidden_control_def surrogate_unat)

lemma sample_workspace_ok: "validateWorkspace sample_workspace (JLit ''h'') = Inr sample_workspace"
proof -
  have "byteLength (js ''w1'') = 2" "byteLength (js ''/srv/w1'') = 7" by code_simp+
  moreover have "is_ok (assertStrictText (JLit ''/srv/w1'') n (Some 4096))" for n
    using calculation by (simp add: is_ok_iff assertStrictText_Inr strict_text_def js_def
        forbidden_control_def surrogate_unat)
  ultimately show ?thesis
    by (simp add: validateWorkspace_def sample_workspace_def WORKSPACE_KEYS_def SOURCE_PLATFORMS_def
        WORKSPACE_INVENTORY_LIMITS_def limits.extend_def inventory_limits.fields_def strictText_def
        get_own_JObj own_keys_JObj has_key_JObj exact_def is_lower_hex_def is_digit_def list_all_iff
        workspace_id_text_def)
      (simp add: js_def is_id_char_def is_alnum_def is_alpha_def is_digit_def)
qed

lemma sample_admits:
  "admits 64 1 (JArr [sample_workspace])" "nodes sample_workspace = 7"
  by (simp_all add: sample_workspace_def strict_text_replicate_0)
    (simp add: strict_text_def js_def forbidden_control_def surrogate_unat)

lemma sample_inventory_bytes:
  "canonicalJsonBytes json_limits sample_inventory = Inr (utf8 (render sample_inventory))"
  by (simp add: canonicalJsonBytes_Inr canonicalJson_Inr limits.truncate_def WORKSPACE_INVENTORY_LIMITS_def
      limits.extend_def STRICT_JSON_LIMITS_def sample_inventory_def sample_admits [simplified]
      strict_text_replicate_0 MAX_SAFE_INTEGER_def is_integral_def)
    (simp add: strict_text_def js_def forbidden_control_def surrogate_unat)

lemma sample_inventory_size: "byteLength (render sample_inventory) \<le> 1048576"
  using byteLength_render [of sample_inventory]
  by (simp add: sample_inventory_def sample_workspace_def show_int_def show_nat.simps)

lemma inventory_maxBytes: "maxBytes WORKSPACE_INVENTORY_LIMITS = 1048576"
  by (simp add: WORKSPACE_INVENTORY_LIMITS_def limits.extend_def STRICT_JSON_LIMITS_def)

lemma sample_document: "assertDocumentByteLimit sample_inventory = Inr (utf8 (render sample_inventory))"
proof -
  obtain c s where "render sample_inventory = c # s" "opens c" using render_head by blast
  then have "utf8 (render sample_inventory) = [byte (unat c)] @ utf8 s"
    by (auto simp: opens_def surrogate_unat utf8_unit_def utf8_Cons_plain)
  then have "1 \<le> byteLength (render sample_inventory)" by simp
  then show ?thesis
    using sample_inventory_size inventory_maxBytes
    by (simp add: assertDocumentByteLimit_def sample_inventory_bytes)
qed

lemma sample_preimage:
  assumes "exact doc ks" "fld doc ''version'' = JInt 2" "fld doc ''hostId'' = JLit ''h''"
    "fld doc ''inventoryGeneration'' = JInt 1" "fld doc ''workspaces'' = JArr [sample_workspace]"
  shows "validatePreimage doc ks = Inr doc"
proof -
  have "byteLength (js ''h'') = 1" by code_simp
  then have "strictText (JLit ''h'') ''hostId'' 128"
    by (simp add: strictText_def is_ok_iff assertStrictText_Inr strict_text_def js_def forbidden_control_def surrogate_unat)
  then show ?thesis
    using assms sample_workspace_ok
    by (simp add: validatePreimage_def WORKSPACE_INVENTORY_VERSION_def WORKSPACE_INVENTORY_LIMITS_def
        limits.extend_def inventory_limits.fields_def MAX_SAFE_INTEGER_def is_integral_def)
qed

lemma sample_hash:
  assumes "canonicalJsonBytes json_limits v = Inr b"
  shows "canonicalJsonHash sample_sha json_limits v = Inr (replicate 64 0x30)"
  using assms by (simp add: canonicalJsonHash_def sample_sha_def)

lemma canonicalJsonBytes_without:
  "canonicalJsonBytes L v = Inr b \<Longrightarrow> plain v \<Longrightarrow> \<exists>b. canonicalJsonBytes L (without v k) = Inr b"
proof -
  have "nodes (without v k) \<le> nodes v" if "plain v"
  proof (cases v)
    case (JObj p fs)
    have "(\<Sum>f\<leftarrow>filter P fs. nodes (snd f)) \<le> (\<Sum>f\<leftarrow>fs. nodes (snd f))" for P by (induction fs) auto
    with JObj show ?thesis by (simp add: without_def)
  qed (use that in auto)
  moreover have "admits D d v \<Longrightarrow> plain v \<Longrightarrow> admits D d (without v k)" for D d
    by (cases v) (auto simp: without_def)
  ultimately show "canonicalJsonBytes L v = Inr b \<Longrightarrow> plain v \<Longrightarrow> ?thesis"
    by (auto simp: canonicalJsonBytes_Inr canonicalJson_Inr intro: le_trans)
qed

lemma sample_fingerprint: "workspaceInventoryFingerprint sample_sha sample_inventory = Inr (replicate 64 0x30)"
proof -
  have "validatePreimage sample_inventory TOP_LEVEL_KEYS = Inr sample_inventory"
    by (rule sample_preimage)
      (simp_all add: sample_inventory_def get_own_JObj exact_def TOP_LEVEL_KEYS_def own_keys_JObj has_key_JObj)
  moreover have "plain sample_inventory" "hasOwn sample_inventory ''inventoryFingerprint''"
    by (simp_all add: sample_inventory_def has_key_JObj)
  moreover obtain b where "canonicalJsonBytes json_limits (without sample_inventory ''inventoryFingerprint'') = Inr b"
    using canonicalJsonBytes_without [OF sample_inventory_bytes calculation(2)] by blast
  ultimately show ?thesis by (simp add: workspaceInventoryFingerprint_def sample_hash)
qed

lemma sample_bytes: "workspaceInventoryBytes sample_sha sample_inventory = Inr (utf8 (render sample_inventory))"
proof -
  have "validatePreimage sample_inventory TOP_LEVEL_KEYS = Inr sample_inventory"
    by (rule sample_preimage)
      (simp_all add: sample_inventory_def get_own_JObj exact_def TOP_LEVEL_KEYS_def own_keys_JObj has_key_JObj)
  moreover have "fld sample_inventory ''inventoryFingerprint'' = JStr (replicate 64 0x30)"
    by (simp add: sample_inventory_def get_own_JObj)
  moreover have "list_all is_lower_hex (replicate 64 0x30)"
    by (simp add: list_all_iff is_lower_hex_def is_digit_def)
  ultimately show ?thesis
    by (simp add: workspaceInventoryBytes_def validateWorkspaceInventoryAndBytes_def sample_fingerprint sample_document)
qed

lemma sample_distinct: "distinct_keys sample_inventory"
  by (simp add: sample_inventory_def sample_workspace_def)

theorem inventory_storage_round_trip_witness:
  "parseWorkspaceInventory sample_sha (utf8 (render sample_inventory)) = Some (Inr (canon sample_inventory))"
  by (rule inventory_storage_round_trip [OF sample_distinct sample_bytes])

lemma sample_parsed:
  "parseWorkspaceInventory sample_sha (utf8 (render sample_inventory)) = Some (Inr (canon sample_inventory))"
proof -
  have "parseCanonicalJsonBytes json_limits (utf8 (render sample_inventory)) = Some (Inr (canon sample_inventory))"
    using sample_distinct canonicalJsonBytes_canon [OF sample_inventory_bytes] sample_inventory_size
      inventory_maxBytes json_limits_bytes by (simp add: parse_canonical_iff)
  then show ?thesis
    using validateBytes_canon [OF sample_distinct sample_bytes [unfolded workspaceInventoryBytes_def]]
    by (simp add: parseWorkspaceInventory_def validateWorkspaceInventory_def)
qed

theorem inventory_workspaces_unique_witness:
  "length (elements (fld (canon sample_inventory) ''workspaces'')) \<le> 64 \<and>
    distinct (map (\<lambda>w. fld w ''workspaceId'') (elements (fld (canon sample_inventory) ''workspaces''))) \<and>
    list_all (\<lambda>w. fld w ''hostId'' = fld (canon sample_inventory) ''hostId'')
      (elements (fld (canon sample_inventory) ''workspaces''))"
  by (rule inventory_workspaces_unique [OF sample_parsed])

lemma sample_built:
  "buildWorkspaceInventory sample_sha (JLit ''h'') (JInt 1) (JArr [sample_workspace]) = Inr sample_inventory"
proof -
  let ?pre = "JObj ObjectProto [(js ''version'', JInt 2), (js ''hostId'', JLit ''h''),
    (js ''inventoryGeneration'', JInt 1), (js ''workspaces'', JArr [sample_workspace])]"
  have "validatePreimage ?pre PREIMAGE_KEYS = Inr ?pre"
    by (rule sample_preimage)
      (simp_all add: get_own_JObj exact_def PREIMAGE_KEYS_def own_keys_JObj has_key_JObj)
  moreover have w: "without sample_inventory ''inventoryFingerprint'' = ?pre"
    "without ?pre ''inventoryFingerprint'' = ?pre"
    by (simp_all add: sample_inventory_def without_def)
  moreover have "\<not> hasOwn ?pre ''inventoryFingerprint''" by (simp add: has_key_JObj)
  moreover obtain b where "canonicalJsonBytes json_limits ?pre = Inr b"
    using canonicalJsonBytes_without [OF sample_inventory_bytes, of "''inventoryFingerprint''"] w
    by (auto simp: sample_inventory_def)
  ultimately have "workspaceInventoryFingerprint sample_sha ?pre = Inr (replicate 64 0x30)"
    by (simp add: workspaceInventoryFingerprint_def sample_hash)
  moreover have "JObj ObjectProto ([(js ''version'', JInt 2), (js ''hostId'', JLit ''h''),
      (js ''inventoryGeneration'', JInt 1), (js ''workspaces'', JArr [sample_workspace])] @
      [(js ''inventoryFingerprint'', JStr (replicate 64 0x30))]) = sample_inventory"
    by (simp add: sample_inventory_def)
  ultimately show ?thesis
    using sample_workspace_ok sample_document
    by (simp add: buildWorkspaceInventory_def WORKSPACE_INVENTORY_VERSION_def Let_def del: append.simps)
qed

theorem built_inventory_valid_witness:
  "validateWorkspaceInventory sample_sha sample_inventory = Inr sample_inventory"
proof (rule built_inventory_valid [OF _ sample_built])
  show "isHex64 (JStr (sample_sha b))" for b
    by (simp add: sample_sha_def list_all_iff is_lower_hex_def is_digit_def)
qed

end
