(* ===== verification/Protocol_Tables.thy ===== *)
theory Protocol_Tables
  imports Workspace_Inventory
begin

text \<open>
  The constants of \<^verbatim>\<open>shared/protocol.js\<close>: size limits, message types, capabilities, the
  readiness dimensions, the public error codes with their taxonomy, and the canonical
  remediation of each code.
\<close>

section \<open>Limits\<close>

record v0_limits =
  HOST_ID :: nat
  TOKEN :: nat
  LABEL :: nat
  REQUEST_ID :: nat
  WORK_DIR :: nat
  MESSAGE :: nat
  MODEL_NAME :: nat
  ERROR :: nat
  DENIAL_REASON :: nat
  MAX_PENDING_PER_HOST :: nat
  CAPABILITY :: nat
  MAX_CAPABILITIES :: nat
  GATE_ID :: nat
  GATE_ERROR_CODE :: nat
  TERMINAL_ERROR_CODE :: nat
  GATE_PROMPT :: nat
  CHOICE_LABEL :: nat
  MAX_CHOICES :: nat
  PROTOCOL_VERSION_MAX :: nat

definition V0_LIMITS :: v0_limits where
  "V0_LIMITS = \<lparr>
      HOST_ID = 128, TOKEN = 4096, LABEL = 256, REQUEST_ID = 128, WORK_DIR = 4096,
      MESSAGE = 1024 * 1024, MODEL_NAME = 512, ERROR = 4096, DENIAL_REASON = 1024,
      MAX_PENDING_PER_HOST = 64, CAPABILITY = 64, MAX_CAPABILITIES = 32, GATE_ID = 128,
      GATE_ERROR_CODE = 64, TERMINAL_ERROR_CODE = 64, GATE_PROMPT = 16 * 1024,
      CHOICE_LABEL = 1024, MAX_CHOICES = 64, PROTOCOL_VERSION_MAX = 1000000\<rparr>"

record v2_limits =
  WORKSPACE_ID :: nat
  MAPPING_ID :: nat
  SOCKET_GENERATION :: int
  WORKSPACE_GENERATION :: int
  MAPPING_GENERATION :: int
  MAPPING_VERSION :: int
  READINESS_REVISION :: int
  READINESS_ERROR_CODE :: nat
  READINESS_REMEDIATION_CODE :: nat
  READINESS_REMEDIATION_ACTION :: nat

definition V2_LIMITS :: v2_limits where
  "V2_LIMITS = \<lparr>
      WORKSPACE_ID = 128, MAPPING_ID = 128, SOCKET_GENERATION = MAX_SAFE_INTEGER,
      WORKSPACE_GENERATION = MAX_SAFE_INTEGER, MAPPING_GENERATION = MAX_SAFE_INTEGER,
      MAPPING_VERSION = MAX_SAFE_INTEGER, READINESS_REVISION = MAX_SAFE_INTEGER,
      READINESS_ERROR_CODE = 64, READINESS_REMEDIATION_CODE = 64,
      READINESS_REMEDIATION_ACTION = 32\<rparr>"

definition MAX_WS_PAYLOAD_BYTES :: nat where "MAX_WS_PAYLOAD_BYTES = 8 * 1024 * 1024"
definition READINESS_MIN_TTL_MS :: int where "READINESS_MIN_TTL_MS = 1000"
definition READINESS_MAX_TTL_MS :: int where "READINESS_MAX_TTL_MS = 60000"
definition READINESS_DEFAULT_TTL_MS :: int where "READINESS_DEFAULT_TTL_MS = READINESS_MAX_TTL_MS"
definition READINESS_MAX_SKEW_MS :: int where "READINESS_MAX_SKEW_MS = 5 * 60 * 1000"
definition INVENTORY_RECEIPT_TTL_MS :: int where "INVENTORY_RECEIPT_TTL_MS = 10000"
definition INVOKE_OWNERSHIP_RETENTION_MS :: int where "INVOKE_OWNERSHIP_RETENTION_MS = 24 * 60 * 60 * 1000"
definition IDLE_TIMEOUT_MS :: int where "IDLE_TIMEOUT_MS = 60 * 60 * 1000"
definition PROTOCOL_VERSION :: int where "PROTOCOL_VERSION = 1"
definition PROTOCOL_VERSION_V2 :: int where "PROTOCOL_VERSION_V2 = 2"
definition PROTOCOL_VERSION_V3 :: int where "PROTOCOL_VERSION_V3 = 3"

section \<open>Names\<close>

definition GATE_ANSWER_ERROR_CODES :: "string list" where
  "GATE_ANSWER_ERROR_CODES = [''GATE_ANSWER_REJECTED'', ''GATE_ANSWER_FAILED'']"

definition GATE_PRESENTATION_CAPABILITY :: string where
  "GATE_PRESENTATION_CAPABILITY = ''gate_presentation_v1''"

definition WORKSPACE_READINESS_CAPABILITY :: string where
  "WORKSPACE_READINESS_CAPABILITY = ''workspace_readiness_v2''"

definition WORKSPACE_INVENTORY_RECEIPT_CAPABILITY :: string where
  "WORKSPACE_INVENTORY_RECEIPT_CAPABILITY = ''workspace_inventory_receipt_v2''"

definition WORKSPACE_BIND_AUTHORITY_VERIFICATION_CAPABILITY :: string where
  "WORKSPACE_BIND_AUTHORITY_VERIFICATION_CAPABILITY = ''workspace_bind_authority_verification_v1''"

definition TERMINAL_DISPOSITION_CAPABILITY :: string where
  "TERMINAL_DISPOSITION_CAPABILITY = ''terminal_disposition_v1''"

definition INVOKE_CANCELLATION_CAPABILITY :: string where
  "INVOKE_CANCELLATION_CAPABILITY = ''invoke_cancellation_v1''"

definition CAPABILITIES :: "string list" where
  "CAPABILITIES = [''invoke'', ''set_model'', ''heartbeat'', TERMINAL_DISPOSITION_CAPABILITY,
     INVOKE_CANCELLATION_CAPABILITY, GATE_PRESENTATION_CAPABILITY]"

definition GATE_ABANDON_REASONS :: "string list" where
  "GATE_ABANDON_REASONS = [''send_failed'', ''presentation_timeout'', ''replaced'', ''invoke_terminal'',
     ''disconnected'']"

definition INVOKE_CANCELLATION_REASONS :: "string list" where
  "INVOKE_CANCELLATION_REASONS = [''idle_timeout'', ''hard_cap'', ''disconnect'', ''user_cancelled'',
     ''presentation_failed'']"

definition INVOKE_CANCELLATION_OUTCOMES :: "string list" where
  "INVOKE_CANCELLATION_OUTCOMES = [''cancelled_before_start'', ''cancellation_pending'',
     ''already_terminal'', ''not_owned'']"

definition INVOKE_TERMINAL_DISPOSITIONS :: "string list" where
  "INVOKE_TERMINAL_DISPOSITIONS = [''completed'', ''failed'', ''cancelled'', ''paused'', ''timed_out'',
     ''disconnected'']"

definition READINESS_DIMENSIONS :: "string list" where
  "READINESS_DIMENSIONS = [''connection'', ''runtime'', ''providerAuth'', ''modelProfile'', ''workspace'']"

definition READINESS_STATUS_VALUES :: "string \<Rightarrow> string list" where
  "READINESS_STATUS_VALUES d =
     (if d = ''connection'' then [''online'', ''offline'']
      else if d = ''runtime'' then [''ready'', ''incompatible'', ''error'']
      else if d = ''providerAuth'' then [''configured'', ''missing'', ''invalid'', ''unknown'']
      else if d = ''modelProfile'' then [''ready'', ''missing'', ''invalid'', ''unknown'']
      else if d = ''workspace'' then [''ready'', ''unavailable'', ''unknown'']
      else [])"

definition READINESS_AGGREGATE_STATUSES :: "string list" where
  "READINESS_AGGREGATE_STATUSES = [''online'', ''offline'', ''incompatible'', ''degraded'',
     ''connected-not-ready'', ''ready'']"

definition READINESS_REMEDIATION_ACTIONS :: "string list" where
  "READINESS_REMEDIATION_ACTIONS = [''login'', ''repair_profile'', ''retry_later'', ''refresh_workspace'',
     ''contact_admin'']"

text \<open>The read \<open>MSG_TYPES.NAME\<close> is \<open>MSG ''NAME''\<close>.\<close>

definition MSG_TYPES :: "(string \<times> string) list" where
  "MSG_TYPES = [
      (''REGISTER'', ''register''), (''REGISTER_OK'', ''register_ok''),
      (''REGISTER_DENIED'', ''register_denied''), (''BIND_WORKSPACE'', ''bind_workspace''),
      (''BIND_OK'', ''bind_ok''), (''UNBIND_WORKSPACE'', ''unbind_workspace''),
      (''UNBIND_OK'', ''unbind_ok''), (''INVOKE'', ''invoke''), (''EVENT'', ''event''),
      (''CANCEL_INVOKE'', ''cancel_invoke''), (''CANCEL_RESULT'', ''cancel_result''),
      (''PING'', ''ping''), (''PONG'', ''pong''), (''ANSWER'', ''answer''),
      (''GATE_REQUEST'', ''gate_request''), (''GATE_ANSWER_RESULT'', ''gate_answer_result''),
      (''PRESENT_GATE'', ''present_gate''),
      (''GATE_PRESENTATION_RESULT'', ''gate_presentation_result''),
      (''ABANDON_GATE'', ''abandon_gate''), (''GATE_ABANDON_RESULT'', ''gate_abandon_result''),
      (''READINESS'', ''readiness''), (''WORKSPACE_CREATE'', ''workspace_create''),
      (''WORKSPACE_REFRESH'', ''workspace_refresh''),
      (''WORKSPACE_RESET_DELETE'', ''workspace_reset_delete''),
      (''WORKSPACE_RESTORE_MIGRATION'', ''workspace_restore_migration'')]"

definition MSG :: "string \<Rightarrow> jsval" where
  "MSG name = (case map_of MSG_TYPES name of Some t \<Rightarrow> JLit t | None \<Rightarrow> JUndefined)"

lemma MSG_simps [simp]:
  "MSG ''REGISTER'' = JLit ''register''"
  "MSG ''REGISTER_OK'' = JLit ''register_ok''"
  "MSG ''REGISTER_DENIED'' = JLit ''register_denied''"
  "MSG ''BIND_WORKSPACE'' = JLit ''bind_workspace''"
  "MSG ''BIND_OK'' = JLit ''bind_ok''"
  "MSG ''UNBIND_WORKSPACE'' = JLit ''unbind_workspace''"
  "MSG ''UNBIND_OK'' = JLit ''unbind_ok''"
  "MSG ''INVOKE'' = JLit ''invoke''"
  "MSG ''EVENT'' = JLit ''event''"
  "MSG ''CANCEL_INVOKE'' = JLit ''cancel_invoke''"
  "MSG ''CANCEL_RESULT'' = JLit ''cancel_result''"
  "MSG ''PING'' = JLit ''ping''"
  "MSG ''PONG'' = JLit ''pong''"
  "MSG ''ANSWER'' = JLit ''answer''"
  "MSG ''GATE_REQUEST'' = JLit ''gate_request''"
  "MSG ''GATE_ANSWER_RESULT'' = JLit ''gate_answer_result''"
  "MSG ''PRESENT_GATE'' = JLit ''present_gate''"
  "MSG ''GATE_PRESENTATION_RESULT'' = JLit ''gate_presentation_result''"
  "MSG ''ABANDON_GATE'' = JLit ''abandon_gate''"
  "MSG ''GATE_ABANDON_RESULT'' = JLit ''gate_abandon_result''"
  "MSG ''READINESS'' = JLit ''readiness''"
  "MSG ''WORKSPACE_CREATE'' = JLit ''workspace_create''"
  "MSG ''WORKSPACE_REFRESH'' = JLit ''workspace_refresh''"
  "MSG ''WORKSPACE_RESET_DELETE'' = JLit ''workspace_reset_delete''"
  "MSG ''WORKSPACE_RESTORE_MIGRATION'' = JLit ''workspace_restore_migration''"
  by (simp_all add: MSG_def MSG_TYPES_def)

section \<open>Error codes\<close>

definition PROTOCOL_ERROR_CODES :: "string list" where
  "PROTOCOL_ERROR_CODES = [
      ''AUTH_REJECTED'', ''PROTOCOL_INCOMPATIBLE'', ''CONNECTION_LOST'', ''HEARTBEAT_TIMEOUT'',
      ''PROVIDER_MISSING'', ''PROVIDER_INVALID'', ''PROVIDER_EXPIRED'',
      ''PROVIDER_UNAVAILABLE'', ''MODEL_PROFILE_MISSING'', ''MODEL_PROFILE_INVALID'',
      ''RUNTIME_INCOMPATIBLE'', ''CONFIG_INVALID'', ''UNKNOWN_RUNTIME'', ''INVENTORY_PENDING'',
      ''INVENTORY_INVALID'', ''INVENTORY_ACCESS_DENIED'', ''INVENTORY_STALE'',
      ''INVENTORY_MANUAL_CLEANUP'', ''INVENTORY_IO_FAILED'', ''WORKSPACE_NOT_FOUND'',
      ''WORKSPACE_ROOT_ESCAPE'', ''CONTAINMENT_UNSUPPORTED'', ''BIND_AUTHORITY_HASH_MISMATCH'',
      ''BIND_AUTHORITY_HOSTID_MISMATCH'', ''BIND_AUTHORITY_CONTAINMENT_ESCAPE'',
      ''BIND_AUTHORITY_VERIFICATION_REQUIRED'', ''MAPPING_ID_REQUIRED'',
      ''WORKSPACE_MAPPING_CHANGED'', ''MAPPING_GENERATION_STALE'', ''WORKSPACE_BUSY'',
      ''WORKSPACE_GENERATION_STALE'', ''WORKSPACE_RESIDUAL_PROCESS'',
      ''WORKSPACE_STAGING_NOT_QUARANTINED'', ''WORKSPACE_PROVENANCE_MISMATCH'',
      ''LEASE_CONFLICT'', ''SESSION_RETIREMENT_PENDING'', ''SESSION_RETIREMENT_FAILED'',
      ''GIT_GRAPH_INCOMPLETE'', ''GIT_AUTH_FAILED'', ''GIT_NETWORK_FAILED'',
      ''READINESS_TIMESTAMP_INVALID'', ''READINESS_REPLAYED'', ''READINESS_EXPIRED'',
      ''RESOURCE_EXHAUSTED'', ''SESSION_LIMIT'', ''WORKSPACE_ADMISSION_EXCEEDED'',
      ''SESSION_CREATE_TIMEOUT'', ''SHUTDOWN_TIMEOUT'', ''DAEMON_FATAL'',
      ''UNHANDLED_REJECTION'', ''UNCAUGHT_EXCEPTION'']"

definition READINESS_ERROR_TAXONOMY :: "(string \<times> string list) list" where
  "READINESS_ERROR_TAXONOMY = [
     (''transport'', [
        ''AUTH_REJECTED'', ''PROTOCOL_INCOMPATIBLE'', ''CONNECTION_LOST'', ''HEARTBEAT_TIMEOUT'']),
     (''providerProfile'', [
        ''PROVIDER_MISSING'', ''PROVIDER_INVALID'', ''PROVIDER_EXPIRED'',
        ''PROVIDER_UNAVAILABLE'', ''MODEL_PROFILE_MISSING'', ''MODEL_PROFILE_INVALID'']),
     (''runtimeConfig'', [
        ''RUNTIME_INCOMPATIBLE'', ''CONFIG_INVALID'', ''UNKNOWN_RUNTIME'']),
     (''workspaceMappingLease'', [
        ''INVENTORY_PENDING'', ''INVENTORY_INVALID'', ''INVENTORY_ACCESS_DENIED'',
        ''INVENTORY_STALE'', ''INVENTORY_MANUAL_CLEANUP'', ''INVENTORY_IO_FAILED'',
        ''WORKSPACE_NOT_FOUND'', ''WORKSPACE_ROOT_ESCAPE'', ''CONTAINMENT_UNSUPPORTED'',
        ''MAPPING_ID_REQUIRED'', ''WORKSPACE_MAPPING_CHANGED'', ''MAPPING_GENERATION_STALE'',
        ''WORKSPACE_BUSY'', ''WORKSPACE_GENERATION_STALE'', ''WORKSPACE_RESIDUAL_PROCESS'',
        ''WORKSPACE_STAGING_NOT_QUARANTINED'', ''WORKSPACE_PROVENANCE_MISMATCH'',
        ''LEASE_CONFLICT'']),
     (''git'', [
        ''GIT_GRAPH_INCOMPLETE'', ''GIT_AUTH_FAILED'', ''GIT_NETWORK_FAILED'']),
     (''readiness'', [
        ''READINESS_TIMESTAMP_INVALID'', ''READINESS_REPLAYED'', ''READINESS_EXPIRED'']),
     (''resourceSession'', [
        ''RESOURCE_EXHAUSTED'', ''SESSION_LIMIT'', ''WORKSPACE_ADMISSION_EXCEEDED'',
        ''SESSION_CREATE_TIMEOUT'', ''SESSION_RETIREMENT_PENDING'',
        ''SESSION_RETIREMENT_FAILED'', ''SHUTDOWN_TIMEOUT'']),
     (''fatal'', [
        ''DAEMON_FATAL'', ''UNHANDLED_REJECTION'', ''UNCAUGHT_EXCEPTION''])]"

record remediation =
  rem_code :: string
  rem_retryable :: bool
  rem_action :: string

definition remediationTuple :: "string \<Rightarrow> bool \<Rightarrow> string \<Rightarrow> string \<times> remediation" where
  "remediationTuple c r a = (c, \<lparr>rem_code = c, rem_retryable = r, rem_action = a\<rparr>)"

text \<open>The table \<open>READINESS_REMEDIATIONS\<close>, in two halves of the source's order.\<close>

definition remediations_connection_to_mapping :: "(string \<times> remediation) list" where
  "remediations_connection_to_mapping = [
     remediationTuple ''AUTH_REJECTED'' False ''contact_admin'',
     remediationTuple ''PROTOCOL_INCOMPATIBLE'' False ''contact_admin'',
     remediationTuple ''CONNECTION_LOST'' True ''retry_later'',
     remediationTuple ''HEARTBEAT_TIMEOUT'' True ''retry_later'',
     remediationTuple ''PROVIDER_MISSING'' True ''login'',
     remediationTuple ''PROVIDER_INVALID'' False ''repair_profile'',
     remediationTuple ''PROVIDER_EXPIRED'' True ''login'',
     remediationTuple ''PROVIDER_UNAVAILABLE'' True ''retry_later'',
     remediationTuple ''MODEL_PROFILE_MISSING'' False ''repair_profile'',
     remediationTuple ''MODEL_PROFILE_INVALID'' False ''repair_profile'',
     remediationTuple ''RUNTIME_INCOMPATIBLE'' False ''contact_admin'',
     remediationTuple ''CONFIG_INVALID'' False ''contact_admin'',
     remediationTuple ''UNKNOWN_RUNTIME'' True ''retry_later'',
     remediationTuple ''INVENTORY_PENDING'' True ''retry_later'',
     remediationTuple ''INVENTORY_INVALID'' False ''contact_admin'',
     remediationTuple ''INVENTORY_ACCESS_DENIED'' False ''contact_admin'',
     remediationTuple ''INVENTORY_STALE'' False ''contact_admin'',
     remediationTuple ''INVENTORY_MANUAL_CLEANUP'' False ''contact_admin'',
     remediationTuple ''INVENTORY_IO_FAILED'' True ''retry_later'',
     remediationTuple ''WORKSPACE_NOT_FOUND'' False ''refresh_workspace'',
     remediationTuple ''WORKSPACE_ROOT_ESCAPE'' False ''contact_admin'',
     remediationTuple ''CONTAINMENT_UNSUPPORTED'' False ''contact_admin'',
     remediationTuple ''MAPPING_ID_REQUIRED'' False ''contact_admin'',
     remediationTuple ''WORKSPACE_MAPPING_CHANGED'' False ''refresh_workspace'']"

definition remediations_workspace_to_fatal :: "(string \<times> remediation) list" where
  "remediations_workspace_to_fatal = [
     remediationTuple ''MAPPING_GENERATION_STALE'' False ''refresh_workspace'',
     remediationTuple ''WORKSPACE_BUSY'' True ''retry_later'',
     remediationTuple ''WORKSPACE_GENERATION_STALE'' False ''refresh_workspace'',
     remediationTuple ''WORKSPACE_RESIDUAL_PROCESS'' True ''retry_later'',
     remediationTuple ''WORKSPACE_STAGING_NOT_QUARANTINED'' False ''contact_admin'',
     remediationTuple ''WORKSPACE_PROVENANCE_MISMATCH'' False ''contact_admin'',
     remediationTuple ''LEASE_CONFLICT'' True ''retry_later'',
     remediationTuple ''SESSION_RETIREMENT_PENDING'' True ''retry_later'',
     remediationTuple ''SESSION_RETIREMENT_FAILED'' False ''contact_admin'',
     remediationTuple ''GIT_GRAPH_INCOMPLETE'' False ''contact_admin'',
     remediationTuple ''GIT_AUTH_FAILED'' False ''login'',
     remediationTuple ''GIT_NETWORK_FAILED'' True ''retry_later'',
     remediationTuple ''READINESS_TIMESTAMP_INVALID'' False ''contact_admin'',
     remediationTuple ''READINESS_REPLAYED'' False ''contact_admin'',
     remediationTuple ''READINESS_EXPIRED'' True ''retry_later'',
     remediationTuple ''RESOURCE_EXHAUSTED'' True ''retry_later'',
     remediationTuple ''SESSION_LIMIT'' True ''retry_later'',
     remediationTuple ''WORKSPACE_ADMISSION_EXCEEDED'' True ''retry_later'',
     remediationTuple ''SESSION_CREATE_TIMEOUT'' True ''retry_later'',
     remediationTuple ''SHUTDOWN_TIMEOUT'' True ''retry_later'',
     remediationTuple ''DAEMON_FATAL'' False ''contact_admin'',
     remediationTuple ''UNHANDLED_REJECTION'' False ''contact_admin'',
     remediationTuple ''UNCAUGHT_EXCEPTION'' False ''contact_admin'']"

definition READINESS_REMEDIATIONS :: "(string \<times> remediation) list" where
  "READINESS_REMEDIATIONS = remediations_connection_to_mapping @ remediations_workspace_to_fatal"

end
