(* ===== verification/Readiness.thy ===== *)
theory Readiness
  imports Protocol_Tables
begin

text \<open>
  Field validators, readiness frames and capability gates of \<^verbatim>\<open>shared/protocol.js\<close>.
  A frame is a JavaScript value as \<open>JSON.parse\<close> produced it; every validator is a total
  predicate on such values.
\<close>

section \<open>Field validators\<close>

definition hasExactFields :: "jsval \<Rightarrow> string list \<Rightarrow> bool" where
  "hasExactFields v ks \<longleftrightarrow> isObject v \<and> length (own_keys v) = length ks \<and> list_all (hasOwn v) ks"

definition keys_within :: "jsval \<Rightarrow> string list \<Rightarrow> bool" where
  "keys_within v ks \<longleftrightarrow> list_all (\<lambda>k. k \<in> js ` set ks) (own_keys v)"

definition isBoundedString :: "jsval \<Rightarrow> nat \<Rightarrow> bool \<Rightarrow> bool" where
  "isBoundedString v maxLength allowEmpty \<longleftrightarrow> typeof_string v \<and> length (str_of v) \<le> maxLength \<and>
     (allowEmpty \<or> 0 < length (str_of v))"

definition isModelName :: "jsval \<Rightarrow> bool" where
  "isModelName v = isBoundedString v (MODEL_NAME V0_LIMITS) False"

definition isProtocolVersion :: "jsval \<Rightarrow> bool" where
  "isProtocolVersion v \<longleftrightarrow> isInteger v \<and> 0 \<le> int_of v \<and> int_of v \<le> PROTOCOL_VERSION_V3"

definition isCapabilityList :: "jsval \<Rightarrow> bool" where
  "isCapabilityList v \<longleftrightarrow> isArray v \<and> length (elements v) \<le> MAX_CAPABILITIES V0_LIMITS \<and>
     list_all (\<lambda>c. isBoundedString c (CAPABILITY V0_LIMITS) False) (elements v)"

definition isWorkspaceId :: "jsval \<Rightarrow> bool" where
  "isWorkspaceId v \<longleftrightarrow> isBoundedString v (WORKSPACE_ID V2_LIMITS) False \<and> workspace_id_text v"

definition isMappingId :: "jsval \<Rightarrow> bool" where
  "isMappingId v \<longleftrightarrow> isBoundedString v (MAPPING_ID V2_LIMITS) False \<and> workspace_id_text v"

definition isBoundedSafeInteger :: "jsval \<Rightarrow> int \<Rightarrow> int \<Rightarrow> bool" where
  "isBoundedSafeInteger v minimum maximum \<longleftrightarrow> isSafeInteger v \<and> minimum \<le> int_of v \<and> int_of v \<le> maximum"

definition isMappingGeneration :: "jsval \<Rightarrow> bool" where
  "isMappingGeneration v = isBoundedSafeInteger v 1 (MAPPING_GENERATION V2_LIMITS)"

definition isMappingVersion :: "jsval \<Rightarrow> bool" where
  "isMappingVersion v = isBoundedSafeInteger v 1 (MAPPING_VERSION V2_LIMITS)"

definition isReadinessRevision :: "jsval \<Rightarrow> bool" where
  "isReadinessRevision v = isBoundedSafeInteger v 1 (READINESS_REVISION V2_LIMITS)"

definition isReadinessSocketGeneration :: "jsval \<Rightarrow> bool" where
  "isReadinessSocketGeneration v = isBoundedSafeInteger v 1 (SOCKET_GENERATION V2_LIMITS)"

definition isReadinessWorkspaceGeneration :: "jsval \<Rightarrow> bool" where
  "isReadinessWorkspaceGeneration v = isBoundedSafeInteger v 1 (WORKSPACE_GENERATION V2_LIMITS)"

definition isReadinessTtl :: "jsval \<Rightarrow> bool" where
  "isReadinessTtl v \<longleftrightarrow> isSafeInteger v \<and> READINESS_MIN_TTL_MS \<le> int_of v \<and> int_of v \<le> READINESS_MAX_TTL_MS"

definition normalizeReadinessTtl :: "jsval \<Rightarrow> jsval" where
  "normalizeReadinessTtl v = (if js_eq v JUndefined then JInt READINESS_DEFAULT_TTL_MS else v)"

definition isReadinessTimestamp :: "jsval \<Rightarrow> bool" where
  "isReadinessTimestamp v = isBoundedSafeInteger v 0 MAX_SAFE_INTEGER"

definition isKnownErrorCode :: "jsval \<Rightarrow> bool" where
  "isKnownErrorCode v \<longleftrightarrow> isBoundedString v (READINESS_ERROR_CODE V2_LIMITS) False \<and>
     str_in v PROTOCOL_ERROR_CODES"

section \<open>Readiness errors and statuses\<close>

definition isReadinessRemediation :: "jsval \<Rightarrow> bool" where
  "isReadinessRemediation v \<longleftrightarrow> isObject v \<and> hasOwn v ''code'' \<and> hasOwn v ''retryable'' \<and> hasOwn v ''action'' \<and>
     isKnownErrorCode (fld v ''code'') \<and> typeof_boolean (fld v ''retryable'') \<and>
     str_in (fld v ''action'') READINESS_REMEDIATION_ACTIONS \<and>
     keys_within v [''code'', ''retryable'', ''action'']"

text \<open>\<open>READINESS_REMEDIATIONS[value.code]\<close>, read after the code is known to be one of the
  listed names.\<close>

definition remediation_of :: "jsval \<Rightarrow> remediation option" where
  "remediation_of v = map_option snd (find (\<lambda>(k, _). v = JLit k) READINESS_REMEDIATIONS)"

definition isReadinessError :: "jsval \<Rightarrow> bool" where
  "isReadinessError v \<longleftrightarrow> isObject v \<and> hasOwn v ''code'' \<and> hasOwn v ''at'' \<and> hasOwn v ''remediation'' \<and>
     isKnownErrorCode (fld v ''code'') \<and> isReadinessTimestamp (fld v ''at'') \<and>
     isReadinessRemediation (fld v ''remediation'') \<and>
     (case remediation_of (fld v ''code'') of
        None \<Rightarrow> False
      | Some expected \<Rightarrow>
          js_eq (fld (fld v ''remediation'') ''code'') (JLit (rem_code expected)) \<and>
          js_eq (fld (fld v ''remediation'') ''retryable'') (JBool (rem_retryable expected)) \<and>
          js_eq (fld (fld v ''remediation'') ''action'') (JLit (rem_action expected))) \<and>
     keys_within v [''code'', ''at'', ''remediation'']"

definition isReadinessStatus :: "jsval \<Rightarrow> bool" where
  "isReadinessStatus v \<longleftrightarrow> isObject v \<and> length (own_keys v) = length READINESS_DIMENSIONS \<and>
     list_all (\<lambda>d. hasOwn v d \<and> typeof_string (fld v d) \<and> str_in (fld v d) (READINESS_STATUS_VALUES d))
       READINESS_DIMENSIONS"

section \<open>Readiness frames\<close>

definition isReadinessFrameShape :: "jsval \<Rightarrow> bool" where
  "isReadinessFrameShape v \<longleftrightarrow> isObject v \<and> js_eq (fld v ''type'') (MSG ''READINESS'') \<and>
     isReadinessSocketGeneration (fld v ''socketGeneration'') \<and> isReadinessRevision (fld v ''revision'') \<and>
     isReadinessTimestamp (fld v ''observedAt'') \<and> isReadinessStatus (fld v ''status'') \<and>
     keys_within v [''type'', ''socketGeneration'', ''revision'', ''observedAt'', ''ttlMs'', ''workspaceId'',
       ''workspaceGeneration'', ''bindingId'', ''status'', ''lastError'', ''expiresAt''] \<and>
     (hasOwn v ''ttlMs'' \<longrightarrow> isReadinessTtl (fld v ''ttlMs'')) \<and>
     (hasOwn v ''expiresAt'' \<longrightarrow> isReadinessTimestamp (fld v ''expiresAt'')) \<and>
     (hasOwn v ''lastError'' \<longrightarrow> isReadinessError (fld v ''lastError'')) \<and>
     (hasOwn v ''workspaceId'' \<longleftrightarrow> hasOwn v ''workspaceGeneration'') \<and>
     (if hasOwn v ''workspaceId'' then
        isWorkspaceId (fld v ''workspaceId'') \<and>
        isReadinessWorkspaceGeneration (fld v ''workspaceGeneration'') \<and>
        (\<not> hasOwn v ''bindingId'' \<or> isMappingId (fld v ''bindingId''))
      else hasOwn v ''bindingId'' \<longrightarrow> isMappingId (fld v ''bindingId''))"

text \<open>\<open>a ?? b\<close>\<close>

definition nullish :: "jsval \<Rightarrow> jsval \<Rightarrow> jsval" where
  "nullish a b = (case a of JUndefined \<Rightarrow> b | JNull \<Rightarrow> b | _ \<Rightarrow> a)"

definition isReadinessContextValid :: "jsval \<Rightarrow> jsval \<Rightarrow> bool" where
  "isReadinessContextValid v context =
     (if \<not> isObject context then True
      else
        let current = nullish (fld context ''currentSocketGeneration'') (fld context ''socketGeneration'');
            previous = nullish (fld context ''previous'') (nullish (fld context ''previousFrame'')
              (if js_eq (fld context ''type'') (MSG ''READINESS'') then context else JUndefined));
            receivedAt = fld context ''receivedAt''
        in
          if \<not> js_eq current JUndefined \<and> \<not> js_eq (fld v ''socketGeneration'') current then False
          else if isObject previous \<and>
              js_eq (fld previous ''socketGeneration'') (fld v ''socketGeneration'') \<and>
              isReadinessRevision (fld previous ''revision'') \<and>
              int_of (fld v ''revision'') \<le> int_of (fld previous ''revision'') then False
          else if isObject previous \<and> isReadinessTimestamp (fld previous ''observedAt'') \<and>
              int_of (fld v ''observedAt'') < int_of (fld previous ''observedAt'') then False
          else if \<not> js_eq receivedAt JUndefined \<and> isReadinessTimestamp receivedAt \<and>
              READINESS_MAX_SKEW_MS < \<bar>int_of (fld v ''observedAt'') - int_of receivedAt\<bar> then False
          else True)"

definition isReadinessMessage :: "jsval \<Rightarrow> jsval \<Rightarrow> bool" where
  "isReadinessMessage v context \<longleftrightarrow>
     (if \<not> isReadinessFrameShape v then False else isReadinessContextValid v context)"

section \<open>Inventory receipts\<close>

definition INVENTORY_RECEIPT_READINESS_ERRORS :: "string list" where
  "INVENTORY_RECEIPT_READINESS_ERRORS = [''INVENTORY_PENDING'', ''WORKSPACE_NOT_FOUND'',
     ''INVENTORY_INVALID'', ''INVENTORY_ACCESS_DENIED'', ''INVENTORY_STALE'', ''INVENTORY_MANUAL_CLEANUP'',
     ''INVENTORY_IO_FAILED'', ''WORKSPACE_ROOT_ESCAPE'', ''CONTAINMENT_UNSUPPORTED'',
     ''WORKSPACE_MAPPING_CHANGED'']"

definition INVENTORY_RECEIPT_READINESS_FIELDS :: "string list" where
  "INVENTORY_RECEIPT_READINESS_FIELDS = [''type'', ''socketGeneration'', ''revision'', ''observedAt'',
     ''ttlMs'', ''bindingId'', ''workspaceId'', ''workspaceGeneration'', ''status'', ''lastError'',
     ''inventoryGeneration'', ''inventoryFingerprint'', ''bindingFingerprint'', ''expiresAt'']"

definition RECEIPT_IDENTITY_FIELDS :: "string list" where
  "RECEIPT_IDENTITY_FIELDS = [''bindingId'', ''workspaceId'', ''workspaceGeneration'']"

definition RECEIPT_PROOF_FIELDS :: "string list" where
  "RECEIPT_PROOF_FIELDS = [''inventoryGeneration'', ''inventoryFingerprint'', ''bindingFingerprint'']"

definition isInventoryReceiptReadinessShape :: "jsval \<Rightarrow> bool" where
  "isInventoryReceiptReadinessShape v =
     (if \<not> isObject v \<or> \<not> js_eq (fld v ''type'') (MSG ''READINESS'') then False
      else if \<not> list_ex (hasOwn v) (RECEIPT_IDENTITY_FIELDS @ RECEIPT_PROOF_FIELDS) then
        isReadinessFrameShape v \<and> \<not> hasOwn v ''workspaceId'' \<and> \<not> hasOwn v ''workspaceGeneration'' \<and>
        \<not> hasOwn v ''bindingId''
      else if \<not> keys_within v INVENTORY_RECEIPT_READINESS_FIELDS \<or>
          \<not> isReadinessSocketGeneration (fld v ''socketGeneration'') \<or>
          \<not> isReadinessRevision (fld v ''revision'') \<or>
          \<not> isReadinessTimestamp (fld v ''observedAt'') \<or>
          \<not> js_eq (fld v ''ttlMs'') (JInt INVENTORY_RECEIPT_TTL_MS) \<or>
          \<not> isMappingId (fld v ''bindingId'') \<or>
          \<not> isWorkspaceId (fld v ''workspaceId'') \<or>
          \<not> isReadinessWorkspaceGeneration (fld v ''workspaceGeneration'') \<or>
          \<not> isReadinessStatus (fld v ''status'') \<or>
          hasOwn v ''expiresAt'' \<and> \<not> isReadinessTimestamp (fld v ''expiresAt'') then False
      else
        let proofCount = length (filter (hasOwn v) RECEIPT_PROOF_FIELDS);
            workspace = fld (fld v ''status'') ''workspace''
        in
          if hasOwn v ''lastError'' then
            proofCount = 0 \<and> js_eq workspace (JLit ''unknown'') \<and> isReadinessError (fld v ''lastError'') \<and>
            str_in (fld (fld v ''lastError'') ''code'') INVENTORY_RECEIPT_READINESS_ERRORS
          else if proofCount \<noteq> length RECEIPT_PROOF_FIELDS \<or>
              \<not> isReadinessWorkspaceGeneration (fld v ''inventoryGeneration'') \<or>
              \<not> isHex64 (fld v ''inventoryFingerprint'') \<or> \<not> isHex64 (fld v ''bindingFingerprint'') \<or>
              \<not> str_in workspace [''unknown'', ''ready''] then False
          else \<not> js_eq workspace (JLit ''ready'') \<or>
            list_all (\<lambda>d. js_eq (fld (fld v ''status'') d) (JLit (hd (READINESS_STATUS_VALUES d))))
              READINESS_DIMENSIONS)"

definition isInventoryReceiptReadinessMessage :: "jsval \<Rightarrow> jsval \<Rightarrow> bool" where
  "isInventoryReceiptReadinessMessage v context \<longleftrightarrow>
     isInventoryReceiptReadinessShape v \<and> isReadinessContextValid v context"

end
