(* ===== verification/Wire_Frames.thy ===== *)
theory Wire_Frames
  imports Readiness
begin

text \<open>
  The frame validators of \<^verbatim>\<open>shared/protocol.js\<close>: registration and capability gates,
  binding, invocation, gates and cancellations.
\<close>

section \<open>Registration and negotiation\<close>

definition optional :: "(jsval \<Rightarrow> bool) \<Rightarrow> jsval \<Rightarrow> bool" where
  "optional P v \<longleftrightarrow> js_eq v JUndefined \<or> P v"

definition isRegisterMessage :: "jsval \<Rightarrow> bool" where
  "isRegisterMessage v \<longleftrightarrow> isObject v \<and> js_eq (fld v ''type'') (MSG ''REGISTER'') \<and>
     isBoundedString (fld v ''hostId'') (HOST_ID V0_LIMITS) False \<and>
     isBoundedString (fld v ''token'') (TOKEN V0_LIMITS) False \<and>
     optional (\<lambda>x. isBoundedString x (LABEL V0_LIMITS) True) (fld v ''label'') \<and>
     optional isProtocolVersion (fld v ''protocolVersion'') \<and>
     optional isCapabilityList (fld v ''capabilities'')"

definition isRegisterOkMessage :: "jsval \<Rightarrow> bool" where
  "isRegisterOkMessage v \<longleftrightarrow> isObject v \<and> js_eq (fld v ''type'') (MSG ''REGISTER_OK'') \<and>
     optional isProtocolVersion (fld v ''protocolVersion'') \<and>
     optional isCapabilityList (fld v ''capabilities'')"

definition isRegisterDeniedMessage :: "jsval \<Rightarrow> bool" where
  "isRegisterDeniedMessage v \<longleftrightarrow> isObject v \<and> js_eq (fld v ''type'') (MSG ''REGISTER_DENIED'') \<and>
     isBoundedString (fld v ''reason'') (DENIAL_REASON V0_LIMITS) True"

definition arr_includes :: "jsval \<Rightarrow> string \<Rightarrow> bool" where
  "arr_includes v s \<longleftrightarrow> list_ex (\<lambda>x. js_eq x (JLit s)) (elements v)"

text \<open>Both gates may be called with a pair of messages or with one record that carries
  them, or that states the negotiated version and both capability lists.  The second
  argument is \<open>None\<close> when the call has one argument.\<close>

definition unpack_gate :: "jsval \<Rightarrow> jsval option \<Rightarrow> jsval \<times> jsval" where
  "unpack_gate register registerOk =
     (case registerOk of
        Some ok \<Rightarrow> (register, ok)
      | None \<Rightarrow>
         if isObject register \<and> isObject (fld register ''register'') \<and>
            (isObject (fld register ''registerOk'') \<or> isObject (fld register ''response''))
         then (fld register ''register'', nullish (fld register ''registerOk'') (fld register ''response''))
         else (register, JUndefined))"

definition capability_gate :: "int \<Rightarrow> string list \<Rightarrow> jsval \<Rightarrow> jsval option \<Rightarrow> bool" where
  "capability_gate version caps register0 registerOk0 =
     (let (register, registerOk) = unpack_gate register0 registerOk0 in
      if registerOk0 = None \<and> isObject register \<and> isSafeInteger (fld register ''negotiatedVersion'') then
        js_eq (fld register ''negotiatedVersion'') (JInt version) \<and>
        isCapabilityList (fld register ''localCapabilities'') \<and>
        isCapabilityList (fld register ''remoteCapabilities'') \<and>
        list_all (\<lambda>c. arr_includes (fld register ''localCapabilities'') c \<and>
                      arr_includes (fld register ''remoteCapabilities'') c) caps
      else if \<not> isRegisterMessage register \<or> \<not> isRegisterOkMessage registerOk then False
      else if \<not> hasOwn register ''protocolVersion'' \<or> \<not> hasOwn register ''capabilities'' \<or>
              \<not> hasOwn registerOk ''protocolVersion'' \<or> \<not> hasOwn registerOk ''capabilities'' then False
      else js_eq (fld register ''protocolVersion'') (JInt version) \<and>
        js_eq (fld registerOk ''protocolVersion'') (JInt version) \<and>
        list_all (\<lambda>c. arr_includes (fld register ''capabilities'') c \<and>
                      arr_includes (fld registerOk ''capabilities'') c) caps)"

definition isReadinessCapabilityGate :: "jsval \<Rightarrow> jsval option \<Rightarrow> bool" where
  "isReadinessCapabilityGate = capability_gate PROTOCOL_VERSION_V2 [WORKSPACE_READINESS_CAPABILITY]"

definition isInventoryReceiptCapabilityGate :: "jsval \<Rightarrow> jsval option \<Rightarrow> bool" where
  "isInventoryReceiptCapabilityGate = capability_gate PROTOCOL_VERSION_V3
     [WORKSPACE_READINESS_CAPABILITY, WORKSPACE_INVENTORY_RECEIPT_CAPABILITY]"

definition negotiateCapabilities :: "jsval list \<Rightarrow> jsval \<Rightarrow> jsval list" where
  "negotiateCapabilities local remote =
     (let advertised = (if isCapabilityList remote then elements remote else []) in
      filter (\<lambda>c. list_ex (js_eq c) advertised) local)"

section \<open>Events and bindings\<close>

definition isEventMessage :: "jsval \<Rightarrow> bool" where
  "isEventMessage v \<longleftrightarrow> isObject v \<and> js_eq (fld v ''type'') (MSG ''EVENT'') \<and>
     isBoundedString (fld v ''requestId'') (REQUEST_ID V0_LIMITS) False \<and>
     (hasOwn v ''event'' \<or> hasOwn v ''done'' \<or> hasOwn v ''error'') \<and>
     (hasOwn v ''event'' \<longrightarrow> isObject (fld v ''event'')) \<and>
     (hasOwn v ''done'' \<longrightarrow> typeof_boolean (fld v ''done'')) \<and>
     (hasOwn v ''error'' \<longrightarrow> isBoundedString (fld v ''error'') (ERROR V0_LIMITS) False)"

definition isBindingIdentity :: "jsval \<Rightarrow> bool" where
  "isBindingIdentity v \<longleftrightarrow> isObject v \<and> isMappingId (fld v ''bindingId'') \<and>
     isBoundedString (fld v ''hostId'') (HOST_ID V0_LIMITS) False \<and>
     isMappingId (fld v ''mappingId'') \<and> isMappingGeneration (fld v ''mappingGeneration'') \<and>
     isMappingVersion (fld v ''mappingVersion'') \<and> isWorkspaceId (fld v ''workspaceId'') \<and>
     isReadinessWorkspaceGeneration (fld v ''workspaceGeneration'') \<and>
     str_in (fld v ''sourcePlatform'') SOURCE_PLATFORMS \<and>
     isHex64 (fld v ''routeFingerprint'') \<and> isHex64 (fld v ''authorityFingerprint'') \<and>
     isReadinessWorkspaceGeneration (fld v ''inventoryGeneration'')"

definition isBindWorkspaceMessage :: "jsval \<Rightarrow> bool" where
  "isBindWorkspaceMessage v \<longleftrightarrow> isBindingIdentity v \<and> js_eq (fld v ''type'') (MSG ''BIND_WORKSPACE'') \<and>
     hasOwn v ''route'' \<and> hasOwn v ''mapping'' \<and> isObject (fld v ''route'') \<and> isObject (fld v ''mapping'') \<and>
     keys_within v [''type'', ''bindingId'', ''hostId'', ''mappingId'', ''mappingGeneration'', ''mappingVersion'',
       ''workspaceId'', ''workspaceGeneration'', ''sourcePlatform'', ''routeFingerprint'',
       ''authorityFingerprint'', ''inventoryGeneration'', ''route'', ''mapping'']"

definition isBindOkMessage :: "jsval \<Rightarrow> bool" where
  "isBindOkMessage v \<longleftrightarrow> isObject v \<and> js_eq (fld v ''type'') (MSG ''BIND_OK'') \<and>
     isBoundedString (fld v ''bindingId'') (MAPPING_ID V2_LIMITS) False \<and>
     isHex64 (fld v ''bindingFingerprint'') \<and>
     keys_within v [''type'', ''bindingId'', ''bindingFingerprint'']"

definition RECEIPT_BIND_KEYS :: "string list" where
  "RECEIPT_BIND_KEYS = [''type'', ''bindingId'', ''authorityEpoch'', ''fenceGeneration'', ''hostId'',
     ''mappingId'', ''mappingGeneration'', ''mappingVersion'', ''workspaceId'', ''workspaceGeneration'',
     ''sourcePlatform'', ''authorityFingerprint'', ''mapping'']"

definition RECEIPT_BIND_OK_KEYS :: "string list" where
  "RECEIPT_BIND_OK_KEYS = [''type'', ''bindingId'', ''inventoryGeneration'', ''inventoryFingerprint'',
     ''bindingFingerprint'']"

definition RECEIPT_UNBIND_KEYS :: "string list" where
  "RECEIPT_UNBIND_KEYS = [''type'', ''bindingId'']"

definition receiptAuthorityDescriptor :: "jsval \<Rightarrow> jsval" where
  "receiptAuthorityDescriptor v = record_of (map (\<lambda>k. (k, fld v k))
     [''authorityEpoch'', ''fenceGeneration'', ''hostId'', ''mappingId'', ''mappingGeneration'',
      ''workspaceGeneration'', ''mappingVersion'', ''sourcePlatform'', ''workspaceId'',
      ''authorityFingerprint''])"

definition isInventoryReceiptBindWorkspaceMessage :: "jsval \<Rightarrow> bool" where
  "isInventoryReceiptBindWorkspaceMessage v \<longleftrightarrow> hasExactFields v RECEIPT_BIND_KEYS \<and>
     js_eq (fld v ''type'') (MSG ''BIND_WORKSPACE'') \<and> isMappingId (fld v ''bindingId'') \<and>
     isWorkspaceAuthorityDescriptor (receiptAuthorityDescriptor v) \<and> isObject (fld v ''mapping'')"

definition isInventoryReceiptBindOkMessage :: "jsval \<Rightarrow> bool" where
  "isInventoryReceiptBindOkMessage v \<longleftrightarrow> hasExactFields v RECEIPT_BIND_OK_KEYS \<and>
     js_eq (fld v ''type'') (MSG ''BIND_OK'') \<and> isMappingId (fld v ''bindingId'') \<and>
     isReadinessWorkspaceGeneration (fld v ''inventoryGeneration'') \<and>
     isHex64 (fld v ''inventoryFingerprint'') \<and> isHex64 (fld v ''bindingFingerprint'')"

definition isUnbindWorkspaceMessage :: "jsval \<Rightarrow> bool" where
  "isUnbindWorkspaceMessage v \<longleftrightarrow> hasExactFields v RECEIPT_UNBIND_KEYS \<and>
     js_eq (fld v ''type'') (MSG ''UNBIND_WORKSPACE'') \<and> isMappingId (fld v ''bindingId'')"

definition isUnbindOkMessage :: "jsval \<Rightarrow> bool" where
  "isUnbindOkMessage v \<longleftrightarrow> hasExactFields v RECEIPT_UNBIND_KEYS \<and>
     js_eq (fld v ''type'') (MSG ''UNBIND_OK'') \<and> isMappingId (fld v ''bindingId'')"

section \<open>Invocations\<close>

definition V2_INVOKE_FIELDS :: "string list" where
  "V2_INVOKE_FIELDS = [''bindingId'', ''mappingId'', ''mappingGeneration'', ''mappingVersion'',
     ''workspaceId'', ''workspaceGeneration'']"

definition isInvokeMessage :: "jsval \<Rightarrow> jsval \<Rightarrow> bool" where
  "isInvokeMessage v context =
     (if \<not> isObject v \<or> \<not> js_eq (fld v ''type'') (MSG ''INVOKE'') \<or>
         \<not> isBoundedString (fld v ''requestId'') (REQUEST_ID V0_LIMITS) False \<or>
         \<not> isObject (fld v ''command'') then False
      else
        let isV2 = isObject context \<and> js_eq (fld context ''v2'') (JBool True);
            hasV2Field = list_ex (hasOwn v) V2_INVOKE_FIELDS;
            command = fld v ''command''
        in
          if \<not> isV2 \<and> hasV2Field then False
          else if isV2 \<and> \<not>
             (keys_within v ([''type'', ''requestId''] @ V2_INVOKE_FIELDS @ [''command'']) \<and>
              isMappingId (fld v ''mappingId'') \<and> isMappingGeneration (fld v ''mappingGeneration'') \<and>
              isMappingVersion (fld v ''mappingVersion'') \<and>
              (hasOwn v ''bindingId'' \<longrightarrow> isMappingId (fld v ''bindingId'')) \<and>
              (hasOwn v ''workspaceId'' \<longrightarrow> isWorkspaceId (fld v ''workspaceId'')) \<and>
              (hasOwn v ''workspaceGeneration'' \<longrightarrow>
                 isReadinessWorkspaceGeneration (fld v ''workspaceGeneration''))) then False
          else if \<not> isV2 \<and> \<not> isBoundedString (fld v ''workDir'') (WORK_DIR V0_LIMITS) False then False
          else if js_eq (fld command ''kind'') (JLit ''set_model'') then isModelName (fld command ''modelName'')
          else if str_in (fld command ''kind'') [''prompt'', ''steer'', ''follow_up''] then
            isBoundedString (fld command ''message'') (MESSAGE V0_LIMITS) True
          else False)"

definition isInvokeTerminalEvent :: "jsval \<Rightarrow> bool" where
  "isInvokeTerminalEvent v \<longleftrightarrow>
     (exact v [''type'', ''disposition''] \<or> exact v [''type'', ''disposition'', ''code'']) \<and>
     js_eq (fld v ''type'') (JLit ''invoke_terminal'') \<and>
     str_in (fld v ''disposition'') INVOKE_TERMINAL_DISPOSITIONS \<and>
     (hasOwn v ''code'' \<longrightarrow>
        str_in (fld v ''disposition'') [''failed'', ''timed_out''] \<and>
        isBoundedString (fld v ''code'') (TERMINAL_ERROR_CODE V0_LIMITS) False \<and>
        str_in (fld v ''code'') PROTOCOL_ERROR_CODES)"

definition isCancelInvokeMessage :: "jsval \<Rightarrow> bool" where
  "isCancelInvokeMessage v \<longleftrightarrow> exact v [''type'', ''requestId'', ''cancelId'', ''reason''] \<and>
     js_eq (fld v ''type'') (MSG ''CANCEL_INVOKE'') \<and>
     isBoundedString (fld v ''requestId'') (REQUEST_ID V0_LIMITS) False \<and>
     isBoundedString (fld v ''cancelId'') (REQUEST_ID V0_LIMITS) False \<and>
     str_in (fld v ''reason'') INVOKE_CANCELLATION_REASONS"

text \<open>The outer frame shared by the three receipts that ride an event.\<close>

definition event_frame :: "jsval \<Rightarrow> bool" where
  "event_frame v \<longleftrightarrow> exact v [''type'', ''requestId'', ''event''] \<and>
     js_eq (fld v ''type'') (MSG ''EVENT'') \<and>
     isBoundedString (fld v ''requestId'') (REQUEST_ID V0_LIMITS) False"

definition isCancelResultMessage :: "jsval \<Rightarrow> bool" where
  "isCancelResultMessage v \<longleftrightarrow> event_frame v \<and>
     exact (fld v ''event'') [''type'', ''cancelId'', ''outcome''] \<and>
     js_eq (fld (fld v ''event'') ''type'') (MSG ''CANCEL_RESULT'') \<and>
     isBoundedString (fld (fld v ''event'') ''cancelId'') (REQUEST_ID V0_LIMITS) False \<and>
     str_in (fld (fld v ''event'') ''outcome'') INVOKE_CANCELLATION_OUTCOMES"

section \<open>Workflow gates\<close>

definition isAnswerMessage :: "jsval \<Rightarrow> bool" where
  "isAnswerMessage v \<longleftrightarrow>
     exact v [''type'', ''requestId'', ''gateId'', ''presentationId'', ''answerId'', ''answer''] \<and>
     js_eq (fld v ''type'') (MSG ''ANSWER'') \<and>
     isBoundedString (fld v ''requestId'') (REQUEST_ID V0_LIMITS) False \<and>
     isBoundedString (fld v ''gateId'') (GATE_ID V0_LIMITS) False \<and>
     isBoundedString (fld v ''presentationId'') (REQUEST_ID V0_LIMITS) False \<and>
     isBoundedString (fld v ''answerId'') (REQUEST_ID V0_LIMITS) False \<and>
     isBoundedString (fld v ''answer'') (MESSAGE V0_LIMITS) True"

definition isGateAnswerResultEvent :: "jsval \<Rightarrow> bool" where
  "isGateAnswerResultEvent v \<longleftrightarrow>
     exact v (if truthy (fld v ''accepted'')
        then [''type'', ''answerId'', ''gateId'', ''presentationId'', ''accepted'']
        else [''type'', ''answerId'', ''gateId'', ''presentationId'', ''accepted'', ''errorCode'']) \<and>
     js_eq (fld v ''type'') (MSG ''GATE_ANSWER_RESULT'') \<and>
     isBoundedString (fld v ''answerId'') (REQUEST_ID V0_LIMITS) False \<and>
     isBoundedString (fld v ''gateId'') (GATE_ID V0_LIMITS) False \<and>
     isBoundedString (fld v ''presentationId'') (REQUEST_ID V0_LIMITS) False \<and>
     typeof_boolean (fld v ''accepted'') \<and>
     (truthy (fld v ''accepted'') \<or>
        isBoundedString (fld v ''errorCode'') (GATE_ERROR_CODE V0_LIMITS) False \<and>
        str_in (fld v ''errorCode'') GATE_ANSWER_ERROR_CODES)"

definition gate_choice :: "jsval \<Rightarrow> bool" where
  "gate_choice c \<longleftrightarrow> exact c [''value'', ''label''] \<and> isBoundedString (fld c ''label'') (CHOICE_LABEL V0_LIMITS) False"

definition isGateRequestEvent :: "jsval \<Rightarrow> bool" where
  "isGateRequestEvent v \<longleftrightarrow> isObject v \<and>
     exact v ([''type'', ''gateId'', ''presentationId'', ''prompt'', ''kind''] @
       (if hasOwn v ''requestId'' then [''requestId''] else []) @
       (if hasOwn v ''multi'' then [''multi''] else []) @
       (if hasOwn v ''choices'' then [''choices''] else [])) \<and>
     js_eq (fld v ''type'') (MSG ''GATE_REQUEST'') \<and>
     isBoundedString (fld v ''gateId'') (GATE_ID V0_LIMITS) False \<and>
     isBoundedString (fld v ''presentationId'') (REQUEST_ID V0_LIMITS) False \<and>
     isBoundedString (fld v ''prompt'') (GATE_PROMPT V0_LIMITS) False \<and>
     str_in (fld v ''kind'') [''question'', ''approval'', ''execution''] \<and>
     (hasOwn v ''requestId'' \<longrightarrow> isBoundedString (fld v ''requestId'') (REQUEST_ID V0_LIMITS) False) \<and>
     (hasOwn v ''multi'' \<longrightarrow> typeof_boolean (fld v ''multi'')) \<and>
     (hasOwn v ''choices'' \<longrightarrow> isArray (fld v ''choices'') \<and>
        length (elements (fld v ''choices'')) \<le> MAX_CHOICES V0_LIMITS \<and>
        list_all gate_choice (elements (fld v ''choices'')))"

definition isPresentGateMessage :: "jsval \<Rightarrow> bool" where
  "isPresentGateMessage v \<longleftrightarrow>
     exact v [''type'', ''requestId'', ''gateId'', ''presentationId'', ''presentationAttemptId''] \<and>
     js_eq (fld v ''type'') (MSG ''PRESENT_GATE'') \<and>
     isBoundedString (fld v ''requestId'') (REQUEST_ID V0_LIMITS) False \<and>
     isBoundedString (fld v ''gateId'') (GATE_ID V0_LIMITS) False \<and>
     isBoundedString (fld v ''presentationId'') (REQUEST_ID V0_LIMITS) False \<and>
     isBoundedString (fld v ''presentationAttemptId'') (REQUEST_ID V0_LIMITS) False"

definition isGatePresentationResultMessage :: "jsval \<Rightarrow> bool" where
  "isGatePresentationResultMessage v \<longleftrightarrow> event_frame v \<and>
     exact (fld v ''event'') [''type'', ''presentationAttemptId'', ''gateId'', ''presentationId'', ''accepted''] \<and>
     js_eq (fld (fld v ''event'') ''type'') (MSG ''GATE_PRESENTATION_RESULT'') \<and>
     isBoundedString (fld (fld v ''event'') ''presentationAttemptId'') (REQUEST_ID V0_LIMITS) False \<and>
     isBoundedString (fld (fld v ''event'') ''gateId'') (GATE_ID V0_LIMITS) False \<and>
     isBoundedString (fld (fld v ''event'') ''presentationId'') (REQUEST_ID V0_LIMITS) False \<and>
     typeof_boolean (fld (fld v ''event'') ''accepted'')"

definition isAbandonGateMessage :: "jsval \<Rightarrow> bool" where
  "isAbandonGateMessage v \<longleftrightarrow>
     exact v [''type'', ''requestId'', ''gateId'', ''presentationId'', ''abandonId'', ''reason''] \<and>
     js_eq (fld v ''type'') (MSG ''ABANDON_GATE'') \<and>
     isBoundedString (fld v ''requestId'') (REQUEST_ID V0_LIMITS) False \<and>
     isBoundedString (fld v ''gateId'') (GATE_ID V0_LIMITS) False \<and>
     isBoundedString (fld v ''presentationId'') (REQUEST_ID V0_LIMITS) False \<and>
     isBoundedString (fld v ''abandonId'') (REQUEST_ID V0_LIMITS) False \<and>
     str_in (fld v ''reason'') GATE_ABANDON_REASONS"

definition isGateAbandonResultMessage :: "jsval \<Rightarrow> bool" where
  "isGateAbandonResultMessage v \<longleftrightarrow> event_frame v \<and>
     exact (fld v ''event'') [''type'', ''abandonId'', ''gateId'', ''presentationId'', ''accepted''] \<and>
     js_eq (fld (fld v ''event'') ''type'') (MSG ''GATE_ABANDON_RESULT'') \<and>
     isBoundedString (fld (fld v ''event'') ''abandonId'') (REQUEST_ID V0_LIMITS) False \<and>
     isBoundedString (fld (fld v ''event'') ''gateId'') (GATE_ID V0_LIMITS) False \<and>
     isBoundedString (fld (fld v ''event'') ''presentationId'') (REQUEST_ID V0_LIMITS) False \<and>
     typeof_boolean (fld (fld v ''event'') ''accepted'')"

section \<open>Errors and heartbeats\<close>

text \<open>What reaches \<open>normalizeProtocolError\<close>: an \<open>Error\<close> with its \<open>message\<close> (\<open>None\<close> when
  reading it throws) or any other value.  \<open>String(x)\<close> on a non-string is the parameter
  \<open>String_of\<close>, \<open>None\<close> when the conversion throws.\<close>

datatype caught = CaughtError "jsval option" | CaughtValue jsval

definition normalizeProtocolError :: "(jsval \<Rightarrow> jsstr option) \<Rightarrow> caught \<Rightarrow> jsstr" where
  "normalizeProtocolError String_of c =
     (let message = (case c of CaughtError (Some m) \<Rightarrow> m | CaughtError None \<Rightarrow> JStr [] | CaughtValue v \<Rightarrow> v);
          text = (case message of
                    JStr s \<Rightarrow> s
                  | _ \<Rightarrow> (case String_of message of Some s \<Rightarrow> s | None \<Rightarrow> []));
          text = (if text = [] then js ''Unknown daemon error'' else text)
      in take (ERROR V0_LIMITS) text)"

definition isPingMessage :: "jsval \<Rightarrow> bool" where
  "isPingMessage v \<longleftrightarrow> isObject v \<and> js_eq (fld v ''type'') (MSG ''PING'')"

definition isPongMessage :: "jsval \<Rightarrow> bool" where
  "isPongMessage v \<longleftrightarrow> isObject v \<and> js_eq (fld v ''type'') (MSG ''PONG'')"

section \<open>Workspace lifecycle messages\<close>

definition WORKSPACE_LIFECYCLE_AUTHORITY_FIELDS :: "string list" where
  "WORKSPACE_LIFECYCLE_AUTHORITY_FIELDS = [''hostId'', ''mappingId'', ''mappingGeneration'',
     ''mappingVersion'', ''workspaceId'', ''workspaceGeneration'', ''sourcePlatform'', ''routeFingerprint'',
     ''authorityFingerprint'']"

definition WORKSPACE_LIFECYCLE_MESSAGE_FIELDS :: "string list" where
  "WORKSPACE_LIFECYCLE_MESSAGE_FIELDS = [''type'', ''operation''] @ WORKSPACE_LIFECYCLE_AUTHORITY_FIELDS @
     [''inventoryGeneration'', ''idempotencyFingerprint'']"

definition WORKSPACE_LIFECYCLE_OPERATIONS :: "string \<Rightarrow> string list" where
  "WORKSPACE_LIFECYCLE_OPERATIONS name =
     (if name = ''WORKSPACE_CREATE'' then [''create'', ''clone'']
      else if name = ''WORKSPACE_REFRESH'' then [''refresh'']
      else if name = ''WORKSPACE_RESET_DELETE'' then [''reset'', ''delete'']
      else if name = ''WORKSPACE_RESTORE_MIGRATION'' then [''restore'', ''migration'']
      else [])"

definition isWorkspaceLifecycleAuthorityShape :: "jsval \<Rightarrow> bool" where
  "isWorkspaceLifecycleAuthorityShape v \<longleftrightarrow> isObject v \<and>
     isBoundedString (fld v ''hostId'') (HOST_ID V0_LIMITS) False \<and>
     isMappingId (fld v ''mappingId'') \<and> isMappingGeneration (fld v ''mappingGeneration'') \<and>
     isMappingVersion (fld v ''mappingVersion'') \<and> isWorkspaceId (fld v ''workspaceId'') \<and>
     isReadinessWorkspaceGeneration (fld v ''workspaceGeneration'') \<and>
     str_in (fld v ''sourcePlatform'') SOURCE_PLATFORMS \<and>
     isHex64 (fld v ''routeFingerprint'') \<and> isHex64 (fld v ''authorityFingerprint'') \<and>
     isReadinessWorkspaceGeneration (fld v ''inventoryGeneration'')"

definition isWorkspaceLifecycleMessageShape :: "jsval \<Rightarrow> string \<Rightarrow> bool" where
  "isWorkspaceLifecycleMessageShape v name \<longleftrightarrow> isWorkspaceLifecycleAuthorityShape v \<and>
     js_eq (fld v ''type'') (MSG name) \<and> isHex64 (fld v ''idempotencyFingerprint'') \<and>
     typeof_string (fld v ''operation'') \<and>
     str_in (fld v ''operation'') (WORKSPACE_LIFECYCLE_OPERATIONS name) \<and>
     hasExactFields v WORKSPACE_LIFECYCLE_MESSAGE_FIELDS"

definition isWorkspaceCreateMessage :: "jsval \<Rightarrow> bool" where
  "isWorkspaceCreateMessage v = isWorkspaceLifecycleMessageShape v ''WORKSPACE_CREATE''"

definition isWorkspaceRefreshMessage :: "jsval \<Rightarrow> bool" where
  "isWorkspaceRefreshMessage v = isWorkspaceLifecycleMessageShape v ''WORKSPACE_REFRESH''"

definition isWorkspaceResetDeleteMessage :: "jsval \<Rightarrow> bool" where
  "isWorkspaceResetDeleteMessage v = isWorkspaceLifecycleMessageShape v ''WORKSPACE_RESET_DELETE''"

definition isWorkspaceRestoreMigrationMessage :: "jsval \<Rightarrow> bool" where
  "isWorkspaceRestoreMigrationMessage v = isWorkspaceLifecycleMessageShape v ''WORKSPACE_RESTORE_MIGRATION''"

definition isWorkspaceLifecycleMessage :: "jsval \<Rightarrow> bool" where
  "isWorkspaceLifecycleMessage v =
     (if \<not> isObject v then False
      else if js_eq (fld v ''type'') (MSG ''WORKSPACE_CREATE'') then isWorkspaceCreateMessage v
      else if js_eq (fld v ''type'') (MSG ''WORKSPACE_REFRESH'') then isWorkspaceRefreshMessage v
      else if js_eq (fld v ''type'') (MSG ''WORKSPACE_RESET_DELETE'') then isWorkspaceResetDeleteMessage v
      else if js_eq (fld v ''type'') (MSG ''WORKSPACE_RESTORE_MIGRATION'') then isWorkspaceRestoreMigrationMessage v
      else False)"

definition workspaceLifecycleAuthority :: "jsval \<Rightarrow> jsval" where
  "workspaceLifecycleAuthority v =
     record_of (map (\<lambda>k. (k, fld v k)) WORKSPACE_LIFECYCLE_AUTHORITY_FIELDS)"

definition verifyWorkspaceLifecycleAuthority :: "jsval \<Rightarrow> jsval \<Rightarrow> bool" where
  "verifyWorkspaceLifecycleAuthority message trusted =
     (if \<not> isWorkspaceLifecycleMessage message then False
      else if \<not> isObject trusted then False
      else if length (own_keys trusted) \<noteq> length WORKSPACE_LIFECYCLE_AUTHORITY_FIELDS then False
      else let claimed = workspaceLifecycleAuthority message in
        list_all (\<lambda>k. hasOwn trusted k \<and> js_eq (fld claimed k) (fld trusted k))
          WORKSPACE_LIFECYCLE_AUTHORITY_FIELDS)"

end
