(* ===== verification/Protocol_Properties.thy ===== *)
theory Protocol_Properties
  imports Wire_Frames
begin

text \<open>
  What the frame validators of \<^verbatim>\<open>shared/protocol.js\<close> guarantee: lifecycle authority is
  never self-granted, the dispatch over lifecycle messages is unambiguous, readiness
  streams move forward, readiness errors are exactly the classified ones, capability
  tiers exclude each other, and the two kinds of invocation frame are disjoint.
\<close>

section \<open>Lifecycle authority\<close>

lemma fld_record_of:
  "fld (record_of (map (\<lambda>k. (k, g k)) ks)) k = (if k \<in> set ks then g k else JUndefined)"
proof -
  have "map_of (map (\<lambda>(k, v). (js k, v)) (map (\<lambda>k. (k, g k)) ks)) (js k) = (if k \<in> set ks then Some (g k) else None)"
    by (induction ks) auto
  then show ?thesis by (simp add: get_own_JObj)
qed

definition scalar :: "jsval \<Rightarrow> bool" where
  "scalar v \<longleftrightarrow> (\<exists>s. v = JStr s) \<or> (\<exists>n. v = JInt n)"

lemma js_eq_scalar: "scalar v \<Longrightarrow> js_eq v w \<longleftrightarrow> v = w"
  by (auto simp: scalar_def dest: js_eq_imp_eq)

lemma scalar_string: "isBoundedString v m e \<Longrightarrow> scalar v"
  by (cases v) (auto simp: isBoundedString_def scalar_def)

lemma scalar_int: "isBoundedSafeInteger v a b \<Longrightarrow> scalar v"
  by (auto simp: isBoundedSafeInteger_def scalar_def elim: isSafeIntegerE)

lemma scalar_hex: "isHex64 v \<Longrightarrow> scalar v"
  by (cases v) (auto simp: scalar_def)

lemma scalar_str_in: "str_in v xs \<Longrightarrow> scalar v"
  by (auto simp: str_in_iff scalar_def)

lemma lifecycle_fields_scalar:
  assumes "isWorkspaceLifecycleAuthorityShape v" and "k \<in> set WORKSPACE_LIFECYCLE_AUTHORITY_FIELDS"
  shows "scalar (fld v k)"
  using assms
  by (auto simp: WORKSPACE_LIFECYCLE_AUTHORITY_FIELDS_def isWorkspaceLifecycleAuthorityShape_def
      isMappingId_def isWorkspaceId_def isMappingGeneration_def isMappingVersion_def
      isReadinessWorkspaceGeneration_def
      intro: scalar_string scalar_int scalar_hex scalar_str_in)

lemma lifecycle_message_shape:
  "isWorkspaceLifecycleMessage v \<Longrightarrow> \<exists>name. isWorkspaceLifecycleMessageShape v name"
  by (auto simp: isWorkspaceLifecycleMessage_def isWorkspaceCreateMessage_def isWorkspaceRefreshMessage_def
      isWorkspaceResetDeleteMessage_def isWorkspaceRestoreMigrationMessage_def split: if_splits)

lemma keys_exactly:
  assumes "length (own_keys v) = length ks" "list_all (hasOwn v) ks" "distinct ks"
  shows "set (own_keys v) = js ` set ks"
proof (rule card_subset_eq [symmetric])
  show "js ` set ks \<subseteq> set (own_keys v)" using assms(2) by (auto simp: list_all_iff has_key_def)
  have "card (js ` set ks) = length ks" using assms(3) by (simp add: card_image inj_on_def distinct_card)
  then show "card (js ` set ks) = card (set (own_keys v))" using assms(1) by (simp add: distinct_card)
qed simp

text \<open>C8. A lifecycle message is authorised exactly when it is a well-formed lifecycle message
  and the host-held tuple has the nine authority fields and no other, each equal to the
  field the message claims.  No field of the message itself can widen its authority.\<close>

theorem lifecycle_authority_exact:
  "verifyWorkspaceLifecycleAuthority message trusted \<longleftrightarrow>
     isWorkspaceLifecycleMessage message \<and> isObject trusted \<and>
     set (own_keys trusted) = js ` set WORKSPACE_LIFECYCLE_AUTHORITY_FIELDS \<and>
     list_all (\<lambda>k. fld message k = fld trusted k) WORKSPACE_LIFECYCLE_AUTHORITY_FIELDS"
    (is "?verified \<longleftrightarrow> ?expected")
proof -
  let ?F = WORKSPACE_LIFECYCLE_AUTHORITY_FIELDS
  have d: "distinct ?F" by (simp add: WORKSPACE_LIFECYCLE_AUTHORITY_FIELDS_def)
  have claim: "fld (workspaceLifecycleAuthority message) k = fld message k" if "k \<in> set ?F" for k
    using that by (simp add: workspaceLifecycleAuthority_def fld_record_of del: map_map)
  have eq: "js_eq (fld message k) (fld trusted k) \<longleftrightarrow> fld message k = fld trusted k"
    if "isWorkspaceLifecycleMessage message" "k \<in> set ?F" for k
    using that lifecycle_message_shape [OF that(1)] lifecycle_fields_scalar [of message k]
    by (auto simp: isWorkspaceLifecycleMessageShape_def js_eq_scalar)
  have keys: "length (own_keys trusted) = length ?F \<and> list_all (hasOwn trusted) ?F
      \<longleftrightarrow> set (own_keys trusted) = js ` set ?F"
  proof
    assume "length (own_keys trusted) = length ?F \<and> list_all (hasOwn trusted) ?F"
    then show "set (own_keys trusted) = js ` set ?F" using keys_exactly d by blast
  next
    assume s: "set (own_keys trusted) = js ` set ?F"
    have "card (js ` set ?F) = length ?F" using d by (simp add: card_image inj_on_def distinct_card)
    with s have "length (own_keys trusted) = length ?F"
      using distinct_card [of "own_keys trusted"] by simp
    with s show "length (own_keys trusted) = length ?F \<and> list_all (hasOwn trusted) ?F"
      by (auto simp: list_all_iff has_key_def)
  qed
  show ?thesis
    using claim eq keys by (auto simp: verifyWorkspaceLifecycleAuthority_def Let_def list_all_iff)
qed

definition LIFECYCLE_KINDS :: "string list" where
  "LIFECYCLE_KINDS = [''WORKSPACE_CREATE'', ''WORKSPACE_REFRESH'', ''WORKSPACE_RESET_DELETE'',
     ''WORKSPACE_RESTORE_MIGRATION'']"

lemma lifecycle_shape_type:
  "isWorkspaceLifecycleMessageShape v name \<Longrightarrow> isObject v \<and> js_eq (fld v ''type'') (MSG name)"
  by (simp add: isWorkspaceLifecycleMessageShape_def isWorkspaceLifecycleAuthorityShape_def)

lemmas lifecycle_kind_defs = isWorkspaceCreateMessage_def isWorkspaceRefreshMessage_def
  isWorkspaceResetDeleteMessage_def isWorkspaceRestoreMigrationMessage_def

lemma lifecycle_dispatch_iff:
  "isWorkspaceLifecycleMessage v \<longleftrightarrow> (\<exists>name \<in> set LIFECYCLE_KINDS. isWorkspaceLifecycleMessageShape v name)"
  unfolding isWorkspaceLifecycleMessage_def lifecycle_kind_defs LIFECYCLE_KINDS_def
  by (auto dest: lifecycle_shape_type split: if_splits)

lemma lifecycle_kinds_inj: "inj_on MSG (set LIFECYCLE_KINDS)"
  by (simp add: LIFECYCLE_KINDS_def)

text \<open>The umbrella dispatch accepts a value exactly when one of the four lifecycle
  message kinds does, and then it is the only one.\<close>

theorem lifecycle_dispatch_unique:
  "isWorkspaceLifecycleMessage v \<longleftrightarrow>
     (\<exists>!name. name \<in> set LIFECYCLE_KINDS \<and> isWorkspaceLifecycleMessageShape v name)"
proof -
  have "name = name'" if "isWorkspaceLifecycleMessageShape v name" "isWorkspaceLifecycleMessageShape v name'"
    "name \<in> set LIFECYCLE_KINDS" "name' \<in> set LIFECYCLE_KINDS" for name name'
    using that(3,4) lifecycle_shape_type [OF that(1)] lifecycle_shape_type [OF that(2)]
      inj_onD [OF lifecycle_kinds_inj] by (metis js_eq_imp_eq)
  then show ?thesis unfolding lifecycle_dispatch_iff by blast
qed

section \<open>Readiness streams\<close>

text \<open>The context a receiver passes for one socket: the socket's generation and the last
  frame it accepted there.\<close>

definition socket_context :: "int \<Rightarrow> jsval option \<Rightarrow> jsval" where
  "socket_context g prev = record_of ([(''currentSocketGeneration'', JInt g)] @
     (case prev of None \<Rightarrow> [] | Some f \<Rightarrow> [(''previous'', f)]))"

fun accepted_stream :: "int \<Rightarrow> jsval option \<Rightarrow> jsval list \<Rightarrow> bool" where
  "accepted_stream g prev [] \<longleftrightarrow> True"
| "accepted_stream g prev (f # fs) \<longleftrightarrow>
     isReadinessMessage f (socket_context g prev) \<and> accepted_stream g (Some f) fs"

definition revision_of :: "jsval \<Rightarrow> int" where
  "revision_of f = int_of (fld f ''revision'')"

definition observed_of :: "jsval \<Rightarrow> int" where
  "observed_of f = int_of (fld f ''observedAt'')"

lemma nullish_obj: "nullish (JObj p fs) x = JObj p fs" "nullish JUndefined x = x" "nullish (JNum k) x = JNum k"
  by (simp_all add: nullish_def)

lemma message_after:
  assumes "isReadinessMessage f (socket_context g (Some e))" and "isReadinessFrameShape e"
    and "fld e ''socketGeneration'' = JInt g"
  shows "revision_of e < revision_of f \<and> observed_of e \<le> observed_of f"
proof -
  obtain p fs where e: "e = JObj p fs" using assms(2) by (auto simp: isReadinessFrameShape_def elim: isObjectE)
  have ctx: "fld (socket_context g (Some e)) ''currentSocketGeneration'' = JInt g"
    "fld (socket_context g (Some e)) ''previous'' = e" "isObject (socket_context g (Some e))"
    by (simp_all add: socket_context_def get_own_JObj)
  have v: "isReadinessContextValid f (socket_context g (Some e))"
    using assms(1) by (simp add: isReadinessMessage_def split: if_splits)
  have shape: "isReadinessRevision (fld e ''revision'')" "isReadinessTimestamp (fld e ''observedAt'')"
    using assms(2) by (auto simp: isReadinessFrameShape_def)
  have "nullish e x = e" for x by (simp add: e nullish_def)
  with v ctx have g: "fld f ''socketGeneration'' = JInt g"
    and n: "\<not> (js_eq (fld e ''socketGeneration'') (fld f ''socketGeneration'') \<and>
        isReadinessRevision (fld e ''revision'') \<and> revision_of f \<le> revision_of e)"
    and o: "\<not> (isReadinessTimestamp (fld e ''observedAt'') \<and> observed_of f < observed_of e)"
    by (auto simp: isReadinessContextValid_def Let_def nullish_obj revision_of_def observed_of_def e
        split: if_splits simp del: js_eq.simps)
  from n g assms(3) shape(1) have "\<not> revision_of f \<le> revision_of e" by simp
  moreover from o shape(2) have "\<not> observed_of f < observed_of e" by simp
  ultimately show ?thesis by simp
qed

lemma accepted_socket:
  assumes "isReadinessMessage f (socket_context g prev)"
  shows "fld f ''socketGeneration'' = JInt g \<and> isReadinessFrameShape f"
proof -
  have "isObject (socket_context g prev)" "fld (socket_context g prev) ''currentSocketGeneration'' = JInt g"
    by (simp_all add: socket_context_def get_own_JObj)
  with assms show ?thesis
    by (auto simp: isReadinessMessage_def isReadinessContextValid_def Let_def nullish_obj split: if_splits)
qed

lemma accepted_stream_after:
  "accepted_stream g (Some e) fs \<Longrightarrow> isReadinessFrameShape e \<Longrightarrow> fld e ''socketGeneration'' = JInt g \<Longrightarrow>
    sorted_wrt (<) (map revision_of (e # fs)) \<and> sorted (map observed_of (e # fs))"
proof (induction fs arbitrary: e)
  case (Cons f fs)
  then have f: "isReadinessFrameShape f" "fld f ''socketGeneration'' = JInt g"
    and s: "accepted_stream g (Some f) fs" using accepted_socket by auto
  have "revision_of e < revision_of f \<and> observed_of e \<le> observed_of f"
    using Cons.prems message_after [of f g e] by simp
  with Cons.IH [OF s f] show ?case by (auto intro: less_trans order_trans)
qed simp

text \<open>C12. On one socket every readiness frame that a receiver accepts moves forward: the
  revisions strictly increase and the observation times never decrease, so a replayed or
  reordered frame is refused.\<close>

theorem readiness_stream_monotone:
  assumes "accepted_stream g None frames"
  shows "sorted_wrt (<) (map revision_of frames) \<and> sorted (map observed_of frames)"
proof (cases frames)
  case (Cons f fs)
  with assms accepted_socket [of f g None] accepted_stream_after [of g f fs]
  show ?thesis by simp
qed simp

section \<open>Readiness errors\<close>

definition taxonomy_codes :: "string list" where
  "taxonomy_codes = concat (map snd READINESS_ERROR_TAXONOMY)"

lemma remediation_actions:
  "list_all (\<lambda>(k, r). rem_action r \<in> set READINESS_REMEDIATION_ACTIONS \<and> rem_code r = k \<and>
     k \<in> set PROTOCOL_ERROR_CODES) READINESS_REMEDIATIONS"
  by code_simp

lemma taxonomy_is_remediated:
  "list_all (\<lambda>c. c \<in> set (map fst READINESS_REMEDIATIONS)) taxonomy_codes \<and>
   list_all (\<lambda>c. c \<in> set taxonomy_codes) (map fst READINESS_REMEDIATIONS)"
  by code_simp

lemma taxonomy_codes_set: "set taxonomy_codes = fst ` set READINESS_REMEDIATIONS"
  using taxonomy_is_remediated by (auto simp: list_all_iff)

lemma remediation_entry:
  assumes "(k, r) \<in> set READINESS_REMEDIATIONS"
  shows "rem_action r \<in> set READINESS_REMEDIATION_ACTIONS \<and> rem_code r = k \<and> k \<in> set PROTOCOL_ERROR_CODES"
  using remediation_actions assms by (auto simp: list_all_iff)

lemma remediation_of_lit: "remediation_of (JLit c) = map_of READINESS_REMEDIATIONS c"
proof -
  have "map_option snd (find (\<lambda>(k, _). JLit c = JLit k) m) = map_of m c" for m :: "(string \<times> remediation) list"
    by (induction m) auto
  then show ?thesis by (simp add: remediation_of_def)
qed

lemma code_lengths: "list_all (\<lambda>c. 0 < length c \<and> length c \<le> 64) PROTOCOL_ERROR_CODES"
  by (simp add: PROTOCOL_ERROR_CODES_def)

lemma known_code: "c \<in> set PROTOCOL_ERROR_CODES \<Longrightarrow> isKnownErrorCode (JLit c)"
  using code_lengths
  by (auto simp: isKnownErrorCode_def isBoundedString_def str_in_iff list_all_iff V2_LIMITS_def)

definition error_report :: "string \<Rightarrow> remediation \<Rightarrow> jsval" where
  "error_report c r = record_of [(''code'', JLit c), (''at'', JInt 0),
     (''remediation'', record_of [(''code'', JLit (rem_code r)), (''retryable'', JBool (rem_retryable r)),
        (''action'', JLit (rem_action r))])]"

lemma error_report_ok:
  assumes "map_of READINESS_REMEDIATIONS c = Some r"
  shows "isReadinessError (error_report c r)"
proof -
  have r: "rem_action r \<in> set READINESS_REMEDIATION_ACTIONS" "rem_code r = c" "c \<in> set PROTOCOL_ERROR_CODES"
    using remediation_entry [OF map_of_SomeD [OF assms]] by auto
  let ?rem = "record_of [(''code'', JLit (rem_code r)), (''retryable'', JBool (rem_retryable r)),
        (''action'', JLit (rem_action r))]"
  have "isReadinessRemediation ?rem"
    using r known_code by (simp add: isReadinessRemediation_def get_own_JObj has_key_JObj keys_within_def
        own_keys_JObj str_in_iff)
  then show ?thesis
    using r known_code [OF r(3)] assms
    by (simp add: isReadinessError_def error_report_def get_own_JObj has_key_JObj keys_within_def own_keys_JObj
        remediation_of_lit isReadinessTimestamp_def isBoundedSafeInteger_def MAX_SAFE_INTEGER_def is_integral_def)
qed

text \<open>The codes that a valid readiness error can carry are exactly the codes of the
  published taxonomy, each with the one remediation the table gives it.\<close>

theorem readiness_error_codes:
  "(\<exists>v. isReadinessError v \<and> fld v ''code'' = JLit c) \<longleftrightarrow> c \<in> set taxonomy_codes"
proof
  assume "\<exists>v. isReadinessError v \<and> fld v ''code'' = JLit c"
  then obtain v where "isReadinessError v" "fld v ''code'' = JLit c" by blast
  then have "map_of READINESS_REMEDIATIONS c \<noteq> None"
    by (auto simp: isReadinessError_def remediation_of_lit split: option.splits)
  then show "c \<in> set taxonomy_codes"
    by (auto simp: taxonomy_codes_set dest!: map_of_SomeD intro: rev_image_eqI)
next
  assume "c \<in> set taxonomy_codes"
  then obtain r where "map_of READINESS_REMEDIATIONS c = Some r"
    using map_of_eq_None_iff [of READINESS_REMEDIATIONS c] by (auto simp: taxonomy_codes_set)
  moreover have "fld (error_report c r) ''code'' = JLit c" by (simp add: error_report_def get_own_JObj)
  ultimately show "\<exists>v. isReadinessError v \<and> fld v ''code'' = JLit c" using error_report_ok by blast
qed

text \<open>The four bind-authority codes are public protocol codes, but no readiness error may
  carry one of them: they have no canonical remediation.\<close>

theorem bind_authority_codes_unreportable:
  "list_all (\<lambda>c. isKnownErrorCode (JLit c) \<and> \<not> (\<exists>v. isReadinessError v \<and> fld v ''code'' = JLit c))
     [''BIND_AUTHORITY_HASH_MISMATCH'', ''BIND_AUTHORITY_HOSTID_MISMATCH'',
      ''BIND_AUTHORITY_CONTAINMENT_ESCAPE'', ''BIND_AUTHORITY_VERIFICATION_REQUIRED'']"
proof -
  let ?bind = "[''BIND_AUTHORITY_HASH_MISMATCH'', ''BIND_AUTHORITY_HOSTID_MISMATCH'',
      ''BIND_AUTHORITY_CONTAINMENT_ESCAPE'', ''BIND_AUTHORITY_VERIFICATION_REQUIRED'']"
  have none: "list_all (\<lambda>c. map_of READINESS_REMEDIATIONS c = None) ?bind"
    by (simp add: READINESS_REMEDIATIONS_def remediations_connection_to_mapping_def
        remediations_workspace_to_fatal_def remediationTuple_def)
  have "list_all (\<lambda>c. c \<in> set PROTOCOL_ERROR_CODES) ?bind" by (simp add: PROTOCOL_ERROR_CODES_def)
  then have "list_all (\<lambda>c. isKnownErrorCode (JLit c)) ?bind" by (simp add: known_code)
  moreover have "\<not> (isReadinessError v \<and> fld v ''code'' = JLit c)"
    if "map_of READINESS_REMEDIATIONS c = None" for v c
    using that by (auto simp: isReadinessError_def remediation_of_lit)
  ultimately show ?thesis using none by (simp add: list_all_iff)
qed

section \<open>Capability tiers\<close>

lemma gate_version:
  "capability_gate n caps r ok \<Longrightarrow>
     (if ok = None \<and> isSafeInteger (fld (fst (unpack_gate r ok)) ''negotiatedVersion'')
           \<and> isObject (fst (unpack_gate r ok))
      then fld (fst (unpack_gate r ok)) ''negotiatedVersion'' = JInt n
      else fld (fst (unpack_gate r ok)) ''protocolVersion'' = JInt n)"
  by (auto simp: capability_gate_def Let_def split: prod.splits if_splits)

text \<open>The readiness tier and the inventory-receipt tier exclude each other: no handshake
  opens both gates.\<close>

theorem capability_tiers_exclusive:
  "\<not> (isReadinessCapabilityGate register registerOk \<and> isInventoryReceiptCapabilityGate register registerOk)"
  by (auto simp: isReadinessCapabilityGate_def isInventoryReceiptCapabilityGate_def PROTOCOL_VERSION_V2_def
      PROTOCOL_VERSION_V3_def dest!: gate_version split: if_splits)

lemma bounded_string_eq: "isBoundedString x m e \<Longrightarrow> js_eq c x \<longleftrightarrow> c = x"
  by (auto dest!: scalar_string simp: scalar_def dest: js_eq_imp_eq)

text \<open>The negotiated capabilities are the local ones that a well-formed remote list
  advertises, in local order; a malformed remote list negotiates nothing.\<close>

theorem negotiation_is_intersection:
  "negotiateCapabilities local remote =
     filter (\<lambda>c. isCapabilityList remote \<and> c \<in> set (elements remote)) local"
proof (cases "isCapabilityList remote")
  case True
  then have "list_ex (js_eq c) (elements remote) \<longleftrightarrow> c \<in> set (elements remote)" for c
    by (simp add: isCapabilityList_def list_all_iff list_ex_iff) (metis bounded_string_eq)
  with True show ?thesis by (simp add: negotiateCapabilities_def)
qed (simp add: negotiateCapabilities_def)

section \<open>Invocations\<close>

text \<open>No invoke frame is valid both on a v2 socket and on a legacy one: a v2 frame names a
  mapping and no directory, a legacy frame a directory and no v2 identity.\<close>

theorem invoke_kinds_disjoint:
  "\<not> (isInvokeMessage v context \<and> isInvokeMessage v legacy \<and> isObject context \<and>
      js_eq (fld context ''v2'') (JBool True) \<and> \<not> (isObject legacy \<and> js_eq (fld legacy ''v2'') (JBool True)))"
proof -
  have "hasOwn v ''mappingId''" if "isMappingId (fld v ''mappingId'')"
    using that by (intro get_own_present) (auto simp: isMappingId_def isBoundedString_def)
  then show ?thesis
    by (auto simp: isInvokeMessage_def Let_def V2_INVOKE_FIELDS_def split: if_splits)
qed

section \<open>Inventory receipts\<close>

text \<open>A receipt that reports a bound workspace as ready carries the whole proof: the
  inventory generation and both fingerprints, no error, the fixed ten-second lifetime, and
  every readiness dimension at its best value.\<close>

theorem receipt_ready_proven:
  assumes "isInventoryReceiptReadinessMessage v context" and "hasOwn v ''bindingId''"
    and "fld (fld v ''status'') ''workspace'' = JLit ''ready''"
  shows "isReadinessWorkspaceGeneration (fld v ''inventoryGeneration'') \<and>
    isHex64 (fld v ''inventoryFingerprint'') \<and> isHex64 (fld v ''bindingFingerprint'') \<and>
    \<not> hasOwn v ''lastError'' \<and> fld v ''ttlMs'' = JInt 10000 \<and>
    fld (fld v ''status'') ''connection'' = JLit ''online'' \<and>
    fld (fld v ''status'') ''runtime'' = JLit ''ready'' \<and>
    fld (fld v ''status'') ''providerAuth'' = JLit ''configured'' \<and>
    fld (fld v ''status'') ''modelProfile'' = JLit ''ready''"
proof -
  have "list_ex (hasOwn v) (RECEIPT_IDENTITY_FIELDS @ RECEIPT_PROOF_FIELDS)"
    using assms(2) by (simp add: RECEIPT_IDENTITY_FIELDS_def)
  with assms(1,3) show ?thesis
    by (auto simp: isInventoryReceiptReadinessMessage_def isInventoryReceiptReadinessShape_def Let_def
        INVENTORY_RECEIPT_TTL_MS_def READINESS_DIMENSIONS_def READINESS_STATUS_VALUES_def split: if_splits)
qed

section \<open>Witnesses\<close>

definition ready_status :: jsval where
  "ready_status = record_of [(''connection'', JLit ''online''), (''runtime'', JLit ''ready''),
     (''providerAuth'', JLit ''configured''), (''modelProfile'', JLit ''ready''), (''workspace'', JLit ''ready'')]"

definition sample_receipt :: jsval where
  "sample_receipt = record_of [(''type'', JLit ''readiness''), (''socketGeneration'', JInt 1),
     (''revision'', JInt 1), (''observedAt'', JInt 5), (''ttlMs'', JInt 10000), (''bindingId'', JLit ''b''),
     (''workspaceId'', JLit ''w''), (''workspaceGeneration'', JInt 1), (''status'', ready_status),
     (''inventoryGeneration'', JInt 1), (''inventoryFingerprint'', JStr (replicate 64 0x30)),
     (''bindingFingerprint'', JStr (replicate 64 0x31))]"

definition sample_frame :: "int \<Rightarrow> int \<Rightarrow> jsval" where
  "sample_frame n t = record_of [(''type'', JLit ''readiness''), (''socketGeneration'', JInt 7),
     (''revision'', JInt n), (''observedAt'', JInt t), (''status'', ready_status)]"

lemma ready_status_ok: "isReadinessStatus ready_status"
  by (simp add: isReadinessStatus_def ready_status_def own_keys_JObj has_key_JObj get_own_JObj
      READINESS_DIMENSIONS_def READINESS_STATUS_VALUES_def)

lemma ready_status_values:
  "fld ready_status ''connection'' = JLit ''online''" "fld ready_status ''runtime'' = JLit ''ready''"
  "fld ready_status ''providerAuth'' = JLit ''configured''" "fld ready_status ''modelProfile'' = JLit ''ready''"
  "fld ready_status ''workspace'' = JLit ''ready''"
  by (simp_all add: ready_status_def get_own_JObj)

lemma sample_ids: "isMappingId (JLit ''b'')" "isWorkspaceId (JLit ''w'')"
  by (simp_all add: isMappingId_def isWorkspaceId_def isBoundedString_def workspace_id_text_def V2_LIMITS_def)
    (simp_all add: js_def is_alnum_def is_alpha_def)

lemma bounded_int: "a \<le> n \<Longrightarrow> n \<le> b \<Longrightarrow> b \<le> MAX_SAFE_INTEGER \<Longrightarrow> 0 \<le> a \<Longrightarrow> isBoundedSafeInteger (JInt n) a b"
  by (simp add: isBoundedSafeInteger_def is_integral_def)

lemma sample_numbers:
  assumes "1 \<le> n" "n \<le> 1000000"
  shows "isReadinessSocketGeneration (JInt n)" "isReadinessRevision (JInt n)" "isReadinessTimestamp (JInt n)"
    "isReadinessWorkspaceGeneration (JInt n)"
  using assms
  by (simp_all add: isReadinessSocketGeneration_def isReadinessRevision_def isReadinessTimestamp_def
      isReadinessWorkspaceGeneration_def V2_LIMITS_def bounded_int MAX_SAFE_INTEGER_def)

lemma sample_hex: "isHex64 (JStr (replicate 64 0x30))" "isHex64 (JStr (replicate 64 0x31))"
  by (simp_all add: list_all_iff is_lower_hex_def is_digit_def)

lemma sample_receipt_reads:
  "fld sample_receipt ''type'' = JLit ''readiness''" "fld sample_receipt ''socketGeneration'' = JInt 1"
  "fld sample_receipt ''revision'' = JInt 1" "fld sample_receipt ''observedAt'' = JInt 5"
  "fld sample_receipt ''ttlMs'' = JInt 10000" "fld sample_receipt ''bindingId'' = JLit ''b''"
  "fld sample_receipt ''workspaceId'' = JLit ''w''" "fld sample_receipt ''workspaceGeneration'' = JInt 1"
  "fld sample_receipt ''status'' = ready_status" "fld sample_receipt ''inventoryGeneration'' = JInt 1"
  "fld sample_receipt ''inventoryFingerprint'' = JStr (replicate 64 0x30)"
  "fld sample_receipt ''bindingFingerprint'' = JStr (replicate 64 0x31)"
  by (simp_all add: sample_receipt_def get_own_JObj)

lemma sample_receipt_keys:
  "hasOwn sample_receipt ''bindingId''" "\<not> hasOwn sample_receipt ''lastError''"
  "\<not> hasOwn sample_receipt ''expiresAt''" "list_all (hasOwn sample_receipt) RECEIPT_PROOF_FIELDS"
  "keys_within sample_receipt INVENTORY_RECEIPT_READINESS_FIELDS" "isObject sample_receipt"
  by (simp_all add: sample_receipt_def has_key_JObj RECEIPT_PROOF_FIELDS_def keys_within_def own_keys_JObj
      INVENTORY_RECEIPT_READINESS_FIELDS_def)

lemma sample_receipt_ok: "isInventoryReceiptReadinessMessage sample_receipt JUndefined"
proof -
  have "list_ex (hasOwn sample_receipt) (RECEIPT_IDENTITY_FIELDS @ RECEIPT_PROOF_FIELDS)"
    using sample_receipt_keys(1) by (simp add: RECEIPT_IDENTITY_FIELDS_def)
  moreover have "length (filter (hasOwn sample_receipt) RECEIPT_PROOF_FIELDS) = length RECEIPT_PROOF_FIELDS"
    using sample_receipt_keys(4) by (simp add: list_all_iff filter_id_conv)
  ultimately show ?thesis
    unfolding isInventoryReceiptReadinessMessage_def isInventoryReceiptReadinessShape_def Let_def
    using sample_numbers [of 1] sample_numbers [of 5]
    by (simp add: sample_receipt_reads sample_receipt_keys sample_ids ready_status_ok
        sample_hex INVENTORY_RECEIPT_TTL_MS_def isReadinessContextValid_def ready_status_values
        READINESS_DIMENSIONS_def READINESS_STATUS_VALUES_def del: isHex64.simps)
qed

theorem receipt_ready_proven_witness:
  "isReadinessWorkspaceGeneration (fld sample_receipt ''inventoryGeneration'') \<and>
    isHex64 (fld sample_receipt ''inventoryFingerprint'') \<and> isHex64 (fld sample_receipt ''bindingFingerprint'') \<and>
    \<not> hasOwn sample_receipt ''lastError'' \<and> fld sample_receipt ''ttlMs'' = JInt 10000 \<and>
    fld (fld sample_receipt ''status'') ''connection'' = JLit ''online'' \<and>
    fld (fld sample_receipt ''status'') ''runtime'' = JLit ''ready'' \<and>
    fld (fld sample_receipt ''status'') ''providerAuth'' = JLit ''configured'' \<and>
    fld (fld sample_receipt ''status'') ''modelProfile'' = JLit ''ready''"
  by (rule receipt_ready_proven [OF sample_receipt_ok sample_receipt_keys(1)])
    (simp add: sample_receipt_reads ready_status_values)

lemma sample_frame_shape:
  "1 \<le> n \<Longrightarrow> n \<le> 1000 \<Longrightarrow> 1 \<le> t \<Longrightarrow> t \<le> 1000 \<Longrightarrow> isReadinessFrameShape (sample_frame n t)"
  using sample_numbers [of 7]
  by (simp add: isReadinessFrameShape_def sample_frame_def get_own_JObj has_key_JObj keys_within_def own_keys_JObj
      sample_numbers ready_status_ok)

lemma sample_stream: "accepted_stream 7 None [sample_frame 1 10, sample_frame 2 10]"
proof -
  have reads: "fld (sample_frame n t) ''socketGeneration'' = JInt 7" "fld (sample_frame n t) ''revision'' = JInt n"
    "fld (sample_frame n t) ''observedAt'' = JInt t" "isObject (sample_frame n t)" for n t
    by (simp_all add: sample_frame_def get_own_JObj)
  have "nullish (sample_frame n t) x = sample_frame n t" for n t x by (simp add: sample_frame_def nullish_def)
  then show ?thesis
    by (simp add: isReadinessMessage_def sample_frame_shape isReadinessContextValid_def socket_context_def
        get_own_JObj nullish_obj Let_def reads)
qed

theorem readiness_stream_monotone_witness:
  "sorted_wrt (<) (map revision_of [sample_frame 1 10, sample_frame 2 10]) \<and>
   sorted (map observed_of [sample_frame 1 10, sample_frame 2 10])"
  by (rule readiness_stream_monotone [OF sample_stream])

end
