(* ===== verification/Lease_Registry.thy ===== *)
theory Lease_Registry
  imports Protocol_Properties
begin

text \<open>
  The process-wide authority and activity registry of
  \<^verbatim>\<open>daemon/src/workspace-lease-registry.js\<close> and the fence adapters of
  \<^verbatim>\<open>daemon/src/workspace-lease-fence.js\<close>.

  Activity entries are shared mutable objects: the map \<open>activities\<close> and the closures of
  every lease refer to the same entry.  They live in a store (\<open>entries\<close>) and are named by
  their position in it, so \<open>this.activities.get(id) === entry\<close> is an equality of
  positions.  A lease is the closure that \<open>acquireActivity\<close> returns, with its captured
  authority, entry and \<open>released\<close> flag; it is named by its position in \<open>leases\<close>.  The
  owner events of \<open>#emit\<close> are appended to \<open>log\<close>, most recent last.
\<close>

section \<open>Data\<close>

definition DEFAULT_MAX_ACTIVE_WORKSPACES :: nat where
  "DEFAULT_MAX_ACTIVE_WORKSPACES = 8"

definition V3_AUTHORITY_FIELDS :: "string list" where
  "V3_AUTHORITY_FIELDS = [''authorityEpoch'', ''fenceGeneration'', ''hostId'', ''mappingId'',
     ''mappingGeneration'', ''mappingVersion'', ''workspaceId'', ''workspaceGeneration'', ''sourcePlatform'',
     ''authorityFingerprint'', ''inventoryGeneration'', ''inventoryFingerprint'']"

definition V2_AUTHORITY_FIELDS :: "string list" where
  "V2_AUTHORITY_FIELDS = [''hostId'', ''mappingId'', ''mappingGeneration'', ''mappingVersion'',
     ''workspaceId'', ''workspaceGeneration'', ''sourcePlatform'', ''routeFingerprint'',
     ''authorityFingerprint'', ''inventoryGeneration'']"

definition GENERATION_FIELDS :: "string list" where
  "GENERATION_FIELDS = [''authorityEpoch'', ''fenceGeneration'', ''mappingGeneration'',
     ''workspaceGeneration'', ''inventoryGeneration'']"

definition LEASE_IDENTITY_FIELDS :: "string list" where
  "LEASE_IDENTITY_FIELDS = [''socketGeneration'', ''bindingId'', ''bindingFingerprint'']"

definition coded :: "string \<Rightarrow> js_error" where
  "coded c = CodedError c (js c)"

definition leaseConflict :: js_error where
  "leaseConflict = coded ''LEASE_CONFLICT''"

definition workspaceAdmissionExceeded :: js_error where
  "workspaceAdmissionExceeded = coded ''WORKSPACE_ADMISSION_EXCEEDED''"

definition workspaceBusy :: js_error where
  "workspaceBusy = coded ''WORKSPACE_BUSY''"

definition assertQuiescent :: "jsval \<Rightarrow> jsval \<Rightarrow> js_error + unit" where
  "assertQuiescent pendingInvokes pendingSessions =
     check (isSafeInteger pendingInvokes \<and> 0 \<le> int_of pendingInvokes)
       (TypeError (js ''assertQuiescent pendingInvokes must be a non-negative safe integer'')) (
     check (isSafeInteger pendingSessions \<and> 0 \<le> int_of pendingSessions)
       (TypeError (js ''assertQuiescent pendingSessions must be a non-negative safe integer'')) (
     check (\<not> (0 < int_of pendingInvokes \<or> 0 < int_of pendingSessions)) workspaceBusy (Inr ())))"

section \<open>Authorities\<close>

definition undef :: "jsval \<Rightarrow> bool" where
  "undef v \<longleftrightarrow> js_eq v JUndefined"

text \<open>\<open>/^[0-9a-f]{64}$/.test(x)\<close> converts \<open>x\<close> to a string first; of the data values only a
  string, or an array around one, can convert to 64 hexadecimal digits.\<close>

fun hex64_text :: "jsval \<Rightarrow> bool" where
  "hex64_text (JStr s) \<longleftrightarrow> isHex64 (JStr s)"
| "hex64_text (JArr [v]) \<longleftrightarrow> hex64_text v"
| "hex64_text _ \<longleftrightarrow> False"

definition authority_fields :: "jsval \<Rightarrow> string list" where
  "authority_fields a = (if undef (fld a ''authorityEpoch'') then V2_AUTHORITY_FIELDS else V3_AUTHORITY_FIELDS)"

definition hasReceiptIdentity :: "jsval \<Rightarrow> bool" where
  "hasReceiptIdentity a \<longleftrightarrow> \<not> undef (fld a ''authorityEpoch'') \<or> \<not> undef (fld a ''socketGeneration'')"

definition requireAuthority :: "jsval \<Rightarrow> js_error + jsval" where
  "requireAuthority c =
     (let fields = authority_fields c;
          generationFields = (if undef (fld c ''authorityEpoch'')
             then [''mappingGeneration'', ''workspaceGeneration'', ''inventoryGeneration'']
             else GENERATION_FIELDS)
      in if \<not> truthy c \<or> list_ex (\<lambda>k. undef (fld c k)) fields \<or>
            \<not> typeof_string (fld c ''workspaceId'') \<or> str_of (fld c ''workspaceId'') = [] \<or>
            list_ex (\<lambda>k. \<not> isSafeInteger (fld c k) \<or> int_of (fld c k) < 0) generationFields \<or>
            hasReceiptIdentity c \<and>
              (\<not> list_all (\<lambda>k. \<not> undef (fld c k)) LEASE_IDENTITY_FIELDS \<or>
               \<not> isSafeInteger (fld c ''socketGeneration'') \<or> int_of (fld c ''socketGeneration'') < 1 \<or>
               \<not> typeof_string (fld c ''bindingId'') \<or> str_of (fld c ''bindingId'') = [] \<or>
               \<not> hex64_text (fld c ''bindingFingerprint''))
         then Inl (TypeError (js ''workspace lease authority is invalid''))
         else Inr (record_of (map (\<lambda>k. (k, fld c k))
                (fields @ (if hasReceiptIdentity c then LEASE_IDENTITY_FIELDS else [])))))"

definition sameAuthority :: "jsval \<Rightarrow> jsval \<Rightarrow> bool" where
  "sameAuthority left right \<longleftrightarrow>
     list_all (\<lambda>k. js_eq (fld left k) (fld right k)) (authority_fields left @ LEASE_IDENTITY_FIELDS)"

definition regresses :: "jsval \<Rightarrow> jsval \<Rightarrow> bool" where
  "regresses previous candidate \<longleftrightarrow>
     list_ex (\<lambda>k. js_less (fld candidate k) (fld previous k))
       (GENERATION_FIELDS @ (if undef (fld previous ''socketGeneration'') then [] else [''socketGeneration'']))"

definition authorityChanged :: "jsval \<Rightarrow> jsval \<Rightarrow> bool" where
  "authorityChanged previous candidate \<longleftrightarrow>
     list_ex (\<lambda>k. \<not> js_eq (fld previous k) (fld candidate k))
       ([''hostId'', ''mappingId'', ''mappingVersion'', ''sourcePlatform''] @
        (if undef (fld previous ''authorityEpoch'') then [''routeFingerprint''] else []) @
        [''authorityFingerprint''])"

section \<open>The registry\<close>

record entry =
  e_receipt :: bool
  e_socketGeneration :: jsval
  e_bindingId :: jsval
  e_bindingFingerprint :: jsval
  e_fence :: int
  e_holders :: int
  e_exclusive :: bool
  e_invalidated :: bool

record lease =
  l_authority :: jsval
  l_entry :: nat
  l_released :: bool
  l_acquiredAt :: rat

record lease_event =
  ev_action :: string
  ev_outcome :: string
  ev_code :: "string option"
  ev_workspaceId :: "jsval option"
  ev_mappingId :: "jsval option"
  ev_fenceSequence :: "int option"
  ev_durationMs :: "int option"

record registry =
  authorities :: "(jsstr \<times> jsval) list"
  activities :: "(jsstr \<times> nat) list"
  entries :: "entry list"
  leases :: "lease list"
  nextFence :: int
  maxWorkspaces :: nat
  maxActiveWorkspaces :: nat
  log :: "lease_event list"

definition positive_limit :: "jsval \<Rightarrow> bool" where
  "positive_limit v \<longleftrightarrow> isSafeInteger v \<and> 1 \<le> int_of v"

definition new_registry :: "jsval \<Rightarrow> jsval \<Rightarrow> js_error + registry" where
  "new_registry maxW maxA =
     check (positive_limit maxW) (TypeError (js ''maxWorkspaces must be a positive safe integer'')) (
     check (positive_limit maxA) (TypeError (js ''maxActiveWorkspaces must be a positive safe integer'')) (
     Inr \<lparr>authorities = [], activities = [], entries = [], leases = [], nextFence = 0,
          maxWorkspaces = nat (int_of maxW), maxActiveWorkspaces = nat (int_of maxA), log = []\<rparr>))"

text \<open>\<open>isOpaqueId\<close> of \<^verbatim>\<open>daemon-observability.js\<close>: \<open>/^[A-Za-z0-9][A-Za-z0-9._:-]{0,127}$/\<close>.\<close>

definition owner_isOpaqueId :: "jsval \<Rightarrow> bool" where
  "owner_isOpaqueId v \<longleftrightarrow>
     (case v of JStr (c # s) \<Rightarrow> is_alnum c \<and> list_all (\<lambda>x. is_id_char x \<or> x = 0x3a) s \<and> length s \<le> 127
      | _ \<Rightarrow> False)"

definition opaque_or_none :: "jsval \<Rightarrow> jsval option" where
  "opaque_or_none v = (if owner_isOpaqueId v then Some v else None)"

definition emit :: "string \<Rightarrow> string \<Rightarrow> string option \<Rightarrow> jsval \<Rightarrow> int option \<Rightarrow> int option \<Rightarrow> registry \<Rightarrow> registry" where
  "emit act out code a fence dur R = R\<lparr>log := log R @ [\<lparr>ev_action = act, ev_outcome = out, ev_code = code,
     ev_workspaceId = opaque_or_none (fld a ''workspaceId''), ev_mappingId = opaque_or_none (fld a ''mappingId''),
     ev_fenceSequence = fence, ev_durationMs = dur\<rparr>]\<rparr>"

definition durationSince :: "rat \<Rightarrow> rat \<Rightarrow> int option" where
  "durationSince now start =
     (let d = \<lfloor>now - start\<rfloor> in if 0 \<le> d \<and> d \<le> MAX_SAFE_INTEGER then Some d else None)"

definition ws :: "jsval \<Rightarrow> jsstr" where
  "ws a = str_of (fld a ''workspaceId'')"

definition entry_of :: "registry \<Rightarrow> jsstr \<Rightarrow> (nat \<times> entry) option" where
  "entry_of R w = map_option (\<lambda>i. (i, entries R ! i)) (map_of (activities R) w)"

text \<open>\<open>if (activity) { activity.invalidated = true; if (activity.holders === 0) delete }\<close>\<close>

definition invalidate_activity :: "jsstr \<Rightarrow> registry \<Rightarrow> registry" where
  "invalidate_activity w R =
     (case map_of (activities R) w of
        None \<Rightarrow> R
      | Some i \<Rightarrow>
         (let e = (entries R ! i)\<lparr>e_invalidated := True\<rparr>;
              R1 = R\<lparr>entries := (entries R)[i := e]\<rparr>
          in if e_holders e = 0 then R1\<lparr>activities := mdel w (activities R1)\<rparr> else R1))"

definition fence_of :: "registry \<Rightarrow> jsstr \<Rightarrow> int option" where
  "fence_of R w = map_option (\<lambda>(_, e). e_fence e) (entry_of R w)"

definition gt0 :: "jsval \<Rightarrow> jsval \<Rightarrow> bool" where
  "gt0 a b \<longleftrightarrow> js_less (nullish b (JInt 0)) (nullish a (JInt 0))"

definition adoptBinding :: "jsval \<Rightarrow> registry \<Rightarrow> js_error + bool \<times> registry" where
  "adoptBinding candidate R = seq (requireAuthority candidate) (\<lambda>a.
     case map_of (authorities R) (ws a) of
       None \<Rightarrow>
         if maxWorkspaces R \<le> length (authorities R) then
           Inr (False, emit ''adopt'' ''denied'' (Some ''WORKSPACE_ADMISSION_EXCEEDED'') a None None R)
         else Inr (True, emit ''adopt'' ''succeeded'' None a None None
           (R\<lparr>authorities := mput (ws a) a (authorities R)\<rparr>))
     | Some previous \<Rightarrow>
         if sameAuthority previous a then Inr (True, R)
         else
           let denied = Inr (False, emit ''adopt'' ''denied'' (Some ''LEASE_CONFLICT'') a None None R);
               mappingAdvanced = js_less (fld previous ''mappingGeneration'') (fld a ''mappingGeneration'') \<or>
                 js_less (fld previous ''workspaceGeneration'') (fld a ''workspaceGeneration'');
               inventoryAdvanced = js_less (fld previous ''inventoryGeneration'') (fld a ''inventoryGeneration'');
               fenceAdvanced = gt0 (fld a ''authorityEpoch'') (fld previous ''authorityEpoch'') \<or>
                 gt0 (fld a ''fenceGeneration'') (fld previous ''fenceGeneration'') \<or>
                 gt0 (fld a ''socketGeneration'') (fld previous ''socketGeneration'')
           in if regresses previous a then denied
              else if \<not> mappingAdvanced \<and> \<not> inventoryAdvanced \<and> \<not> fenceAdvanced then denied
              else if authorityChanged previous a \<and> \<not> mappingAdvanced then denied
              else Inr (True, emit ''adopt'' ''succeeded'' None a (fence_of R (ws a)) None
                (invalidate_activity (ws a) (R\<lparr>authorities := mput (ws a) a (authorities R)\<rparr>))))"

text \<open>\<open>invalidateAll\<close>: the loop over the activities, then the loop over the authorities;
  the ids are returned in the insertion order of the \<open>Set\<close>.\<close>

definition event_for_id :: "jsstr \<Rightarrow> int option \<Rightarrow> registry \<Rightarrow> registry" where
  "event_for_id w fence R = emit ''invalidate'' ''succeeded'' None (record_of [(''workspaceId'', JStr w)]) fence None R"

fun invalidate_loop :: "(jsstr \<times> nat) list \<Rightarrow> jsstr list \<Rightarrow> registry \<Rightarrow> jsstr list \<times> registry" where
  "invalidate_loop [] emitted R = (emitted, R)"
| "invalidate_loop ((w, i) # rest) emitted R =
     (let fresh = \<not> e_invalidated (entries R ! i);
          R1 = R\<lparr>entries := (entries R)[i := (entries R ! i)\<lparr>e_invalidated := True\<rparr>]\<rparr>;
          R2 = (if fresh then event_for_id w (Some (e_fence (entries R ! i))) R1 else R1);
          R3 = (if e_holders (entries R ! i) = 0 then R2\<lparr>activities := mdel w (activities R2)\<rparr> else R2)
      in invalidate_loop rest (if fresh then emitted @ [w] else emitted) R3)"

fun emit_authorities :: "(jsstr \<times> jsval) list \<Rightarrow> jsstr list \<Rightarrow> registry \<Rightarrow> registry" where
  "emit_authorities [] emitted R = R"
| "emit_authorities ((w, a) # rest) emitted R =
     emit_authorities rest emitted
       (if w \<in> set emitted then R else emit ''invalidate'' ''succeeded'' None a None None R)"

definition invalidateAll :: "registry \<Rightarrow> jsstr list \<times> registry" where
  "invalidateAll R =
     (let (emitted, R1) = invalidate_loop (activities R) [] R;
          R2 = emit_authorities (authorities R1) emitted R1;
          active = map fst (activities R)
      in (active @ filter (\<lambda>w. w \<notin> set active) (map fst (authorities R)), R2\<lparr>authorities := []\<rparr>))"

definition retireBinding :: "jsval \<Rightarrow> registry \<Rightarrow> js_error + bool \<times> registry" where
  "retireBinding candidate R = seq (requireAuthority candidate) (\<lambda>a.
     case map_of (authorities R) (ws a) of
       None \<Rightarrow> Inr (False, emit ''retire'' ''denied'' (Some ''LEASE_CONFLICT'') a None None R)
     | Some current \<Rightarrow>
         if \<not> sameAuthority current a then
           Inr (False, emit ''retire'' ''denied'' (Some ''LEASE_CONFLICT'') a None None R)
         else Inr (True, emit ''retire'' ''succeeded'' None a (fence_of R (ws a)) None
           (invalidate_activity (ws a) (R\<lparr>authorities := mdel (ws a) (authorities R)\<rparr>))))"

text \<open>\<open>acquireActivity\<close>.  The first three definitions are its steps: the identity test on an
  existing entry, the creation of a fresh entry, and the reservation of a holder.  A
  refusal leaves its event in the log, so the state is returned with the error.\<close>

definition stale_entry :: "jsval \<Rightarrow> bool \<Rightarrow> jsval \<Rightarrow> entry \<Rightarrow> bool" where
  "stale_entry a receipt legacyFp e \<longleftrightarrow> e_invalidated e \<or> e_receipt e \<noteq> receipt \<or>
     receipt \<and> (\<not> js_eq (e_socketGeneration e) (fld a ''socketGeneration'') \<or>
                 \<not> js_eq (e_bindingId e) (fld a ''bindingId'') \<or>
                 \<not> js_eq (e_bindingFingerprint e) (fld a ''bindingFingerprint'')) \<or>
     \<not> receipt \<and> \<not> js_eq (e_bindingFingerprint e) legacyFp"

definition fresh_entry :: "jsval \<Rightarrow> bool \<Rightarrow> jsval \<Rightarrow> int \<Rightarrow> entry" where
  "fresh_entry a receipt legacyFp fence =
     \<lparr>e_receipt = receipt, e_socketGeneration = fld a ''socketGeneration'', e_bindingId = fld a ''bindingId'',
      e_bindingFingerprint = (if receipt then fld a ''bindingFingerprint'' else legacyFp),
      e_fence = fence, e_holders = 0, e_exclusive = False, e_invalidated = False\<rparr>"

definition reserve :: "jsval \<Rightarrow> bool \<Rightarrow> rat \<Rightarrow> nat \<Rightarrow> registry \<Rightarrow> (js_error + nat) \<times> registry" where
  "reserve a exclusive now i R =
     (let e = entries R ! i;
          busy = (Inl workspaceBusy,
            emit ''acquire'' ''denied'' (Some ''WORKSPACE_BUSY'') a (Some (e_fence e)) None R)
      in if e_exclusive e \<and> 0 < e_holders e then busy
         else if exclusive \<and> 0 < e_holders e then busy
         else
           (Inr (length (leases R)),
            emit ''acquire'' ''succeeded'' None a (Some (e_fence e)) None
              (R\<lparr>entries := (entries R)[i := e\<lparr>e_exclusive := e_exclusive e \<or> exclusive, e_holders := e_holders e + 1\<rparr>],
                leases := leases R @ [\<lparr>l_authority = a, l_entry = i, l_released = False, l_acquiredAt = now\<rparr>]\<rparr>)))"

definition admit_entry :: "jsval \<Rightarrow> bool \<Rightarrow> jsval \<Rightarrow> bool \<Rightarrow> rat \<Rightarrow> registry \<Rightarrow> (js_error + nat) \<times> registry" where
  "admit_entry a receipt legacyFp exclusive now R =
     (if maxActiveWorkspaces R \<le> length (activities R) then
        (Inl workspaceAdmissionExceeded,
         emit ''acquire'' ''denied'' (Some ''WORKSPACE_ADMISSION_EXCEEDED'') a None None R)
      else
        let fence = (if MAX_SAFE_INTEGER \<le> nextFence R then 1 else nextFence R + 1);
            i = length (entries R)
        in reserve a exclusive now i
             (R\<lparr>nextFence := fence, entries := entries R @ [fresh_entry a receipt legacyFp fence],
               activities := mput (ws a) i (activities R)\<rparr>))"

definition acquireActivity ::
  "jsval \<Rightarrow> bool \<Rightarrow> rat \<Rightarrow> registry \<Rightarrow> (js_error + nat) \<times> registry" where
  "acquireActivity candidate exclusive now R =
     (case requireAuthority candidate of
        Inl e \<Rightarrow> (Inl e, R)
      | Inr a \<Rightarrow>
        (let receipt = (\<not> undef (fld a ''socketGeneration''));
             legacyFp = fld candidate ''bindingFingerprint'' in
         if \<not> receipt \<and> (\<not> typeof_string legacyFp \<or> str_of legacyFp = [])
         then (Inl (TypeError (js ''workspace lease identity is invalid'')), R)
         else if (case map_of (authorities R) (ws a) of None \<Rightarrow> True | Some c \<Rightarrow> \<not> sameAuthority c a)
         then (Inl leaseConflict, emit ''acquire'' ''denied'' (Some ''LEASE_CONFLICT'') a None None R)
         else case entry_of R (ws a) of
             None \<Rightarrow> admit_entry a receipt legacyFp exclusive now R
           | Some (i, e) \<Rightarrow>
               if stale_entry a receipt legacyFp e then
                 if 0 < e_holders e then
                   (Inl leaseConflict,
                    emit ''acquire'' ''denied'' (Some ''LEASE_CONFLICT'') a (Some (e_fence e)) None R)
                 else admit_entry a receipt legacyFp exclusive now (R\<lparr>activities := mdel (ws a) (activities R)\<rparr>)
               else reserve a exclusive now i R))"

text \<open>The two closures of a lease.  \<open>isCurrent\<close> reads the adopted authority without testing
  that there is one, so the model lets it throw.\<close>

definition isCurrent :: "nat \<Rightarrow> registry \<Rightarrow> js_error + bool" where
  "isCurrent h R =
     (let l = leases R ! h; w = ws (l_authority l) in
      if l_released l \<or> e_invalidated (entries R ! l_entry l) \<or> map_of (activities R) w \<noteq> Some (l_entry l)
      then Inr False
      else case map_of (authorities R) w of
             None \<Rightarrow> Inl (TypeError (js ''Cannot read properties of undefined''))
           | Some c \<Rightarrow> Inr (sameAuthority c (l_authority l)))"

definition release :: "nat \<Rightarrow> rat \<Rightarrow> registry \<Rightarrow> registry" where
  "release h now R =
     (let l = leases R ! h in
      if l_released l then R
      else
        let i = l_entry l; e = (entries R ! i)\<lparr>e_holders := e_holders (entries R ! i) - 1\<rparr>;
            w = ws (l_authority l);
            R1 = R\<lparr>leases := (leases R)[h := l\<lparr>l_released := True\<rparr>], entries := (entries R)[i := e]\<rparr>;
            R2 = (if e_holders e = 0 then R1\<lparr>activities := mdel w (activities R1)\<rparr> else R1)
        in emit ''release'' ''succeeded'' None (l_authority l) (Some (e_fence e))
             (durationSince now (l_acquiredAt l)) R2)"

record admission_snapshot =
  workspaceAuthorities :: nat
  activityWorkspaces :: nat
  activityHolders :: int
  exclusiveActivityWorkspaces :: nat
  invalidatedActivityWorkspaces :: nat
  maxWorkspaceAuthorities :: nat
  snapMaxActiveWorkspaces :: nat

definition getAdmissionSnapshot :: "registry \<Rightarrow> admission_snapshot" where
  "getAdmissionSnapshot R =
     (let es = map (\<lambda>(_, i). entries R ! i) (activities R) in
      \<lparr>workspaceAuthorities = length (authorities R), activityWorkspaces = length (activities R),
       activityHolders = sum_list (map e_holders es),
       exclusiveActivityWorkspaces = length (filter e_exclusive es),
       invalidatedActivityWorkspaces = length (filter e_invalidated es),
       maxWorkspaceAuthorities = maxWorkspaces R, snapMaxActiveWorkspaces = maxActiveWorkspaces R\<rparr>)"

record authority_snapshot =
  s_workspaceId :: jsval
  s_workspaceGeneration :: jsval
  s_mappingGeneration :: jsval
  s_inventoryGeneration :: jsval
  s_fence :: "int option"
  s_holders :: int
  s_exclusive :: bool
  s_invalidated :: bool

definition snapshot :: "registry \<Rightarrow> authority_snapshot list" where
  "snapshot R = map (\<lambda>(_, a).
     let e = map_option snd (entry_of R (ws a)) in
     \<lparr>s_workspaceId = fld a ''workspaceId'', s_workspaceGeneration = fld a ''workspaceGeneration'',
      s_mappingGeneration = fld a ''mappingGeneration'', s_inventoryGeneration = fld a ''inventoryGeneration'',
      s_fence = map_option e_fence e,
      s_holders = (case e of Some x \<Rightarrow> e_holders x | None \<Rightarrow> 0),
      s_exclusive = (case e of Some x \<Rightarrow> e_exclusive x | None \<Rightarrow> False),
      s_invalidated = (case e of Some x \<Rightarrow> e_invalidated x | None \<Rightarrow> False)\<rparr>) (authorities R)"

section \<open>Fence adapters\<close>

text \<open>\<open>createActivityFence\<close> and \<open>createExclusiveFence\<close> bind the registry's \<open>acquireActivity\<close>;
  a registry is present by its type here.\<close>

definition createActivityFence :: "jsval \<Rightarrow> rat \<Rightarrow> registry \<Rightarrow> (js_error + nat) \<times> registry" where
  "createActivityFence candidate now R = acquireActivity candidate False now R"

definition createExclusiveFence :: "jsval \<Rightarrow> rat \<Rightarrow> registry \<Rightarrow> (js_error + nat) \<times> registry" where
  "createExclusiveFence candidate now R = acquireActivity candidate True now R"

text \<open>A count handed to the quiescence probe is a number or a getter; the getter's result is
  the value it resolves to.\<close>

datatype count_source = Plain_value jsval | Getter jsval

definition isPlainCount :: "count_source \<Rightarrow> bool" where
  "isPlainCount c = (case c of Plain_value (JNum _) \<Rightarrow> True | Plain_value _ \<Rightarrow> False | Getter _ \<Rightarrow> True)"

definition resolveCount :: "string \<Rightarrow> count_source \<Rightarrow> js_error + int" where
  "resolveCount name c =
     (let resolved = (case c of Plain_value v \<Rightarrow> v | Getter v \<Rightarrow> v) in
      check (isSafeInteger resolved \<and> 0 \<le> int_of resolved)
        (CodedError ''QUIESCENCE_PROBE_INVALID''
           (js ''workspace quiescence probe '' @ js name @ js '' must resolve to a non-negative safe integer''))
        (Inr (int_of resolved)))"

definition createQuiescenceProbe :: "count_source \<Rightarrow> count_source \<Rightarrow> js_error + (js_error + int \<times> int)" where
  "createQuiescenceProbe pendingInvokes pendingSessions =
     check (isPlainCount pendingInvokes \<and> isPlainCount pendingSessions)
       (CodedError ''QUIESCENCE_PROBE_INVALID''
          (js ''workspace quiescence probe pendingInvokes and pendingSessions must each be a number or a zero-arg getter function''))
       (Inr (seq (resolveCount ''pendingInvokes'' pendingInvokes) (\<lambda>a.
             seq (resolveCount ''pendingSessions'' pendingSessions) (\<lambda>b. Inr (a, b)))))"

end
