(* ===== verification/Lease_Invariant.thy ===== *)
theory Lease_Invariant
  imports Lease_Registry
begin

text \<open>
  The invariant of the lease registry and its preservation by every operation.  The two
  facts everything else rests on: an entry with a live holder is never detached from the
  activity map, and a lease whose entry is not invalidated holds the authority that is
  currently adopted.
\<close>

definition outstanding :: "lease list \<Rightarrow> nat \<Rightarrow> nat" where
  "outstanding ls i = length (filter (\<lambda>l. \<not> l_released l \<and> l_entry l = i) ls)"

definition live :: "registry \<Rightarrow> lease \<Rightarrow> bool" where
  "live R l \<longleftrightarrow> l \<in> set (leases R) \<and> \<not> l_released l"

definition maps_ok :: "registry \<Rightarrow> bool" where
  "maps_ok R \<longleftrightarrow> wf_map (authorities R) \<and> wf_map (activities R) \<and> distinct (map snd (activities R)) \<and>
     length (authorities R) \<le> maxWorkspaces R \<and> length (activities R) \<le> maxActiveWorkspaces R"

definition entries_ok :: "registry \<Rightarrow> bool" where
  "entries_ok R \<longleftrightarrow>
     (\<forall>w i. map_of (activities R) w = Some i \<longrightarrow> i < length (entries R) \<and> 0 < outstanding (leases R) i) \<and>
     (\<forall>i < length (entries R). e_holders (entries R ! i) = int (outstanding (leases R) i) \<and>
        (e_exclusive (entries R ! i) \<longrightarrow> outstanding (leases R) i \<le> 1))"

definition leases_ok :: "registry \<Rightarrow> bool" where
  "leases_ok R \<longleftrightarrow>
     (\<forall>l \<in> set (leases R). l_entry l < length (entries R)) \<and>
     (\<forall>l. live R l \<longrightarrow> map_of (activities R) (ws (l_authority l)) = Some (l_entry l)) \<and>
     (\<forall>l. live R l \<longrightarrow> \<not> e_invalidated (entries R ! l_entry l) \<longrightarrow>
        (\<exists>c. map_of (authorities R) (ws (l_authority l)) = Some c \<and> sameAuthority c (l_authority l)))"

definition registry_ok :: "registry \<Rightarrow> bool" where
  "registry_ok R \<longleftrightarrow> maps_ok R \<and> entries_ok R \<and> leases_ok R"

lemmas registry_ok_defs = registry_ok_def maps_ok_def entries_ok_def leases_ok_def live_def

section \<open>Events do not matter\<close>

lemma emit_fields [simp]:
  "authorities (emit act out cd a f d R) = authorities R" "activities (emit act out cd a f d R) = activities R"
  "entries (emit act out cd a f d R) = entries R" "leases (emit act out cd a f d R) = leases R"
  "nextFence (emit act out cd a f d R) = nextFence R" "maxWorkspaces (emit act out cd a f d R) = maxWorkspaces R"
  "maxActiveWorkspaces (emit act out cd a f d R) = maxActiveWorkspaces R"
  by (simp_all add: emit_def)

lemma registry_ok_emit [simp]: "registry_ok (emit act out cd a f d R) = registry_ok R"
  by (simp add: registry_ok_defs)

lemma registry_ok_event [simp]: "registry_ok (event_for_id w f R) = registry_ok R"
  by (simp add: event_for_id_def)

section \<open>Consequences\<close>

lemma registry_okD:
  assumes "registry_ok R"
  shows "wf_map (authorities R)" "wf_map (activities R)" "distinct (map snd (activities R))"
    "length (authorities R) \<le> maxWorkspaces R" "length (activities R) \<le> maxActiveWorkspaces R"
    "map_of (activities R) w = Some i \<Longrightarrow> i < length (entries R) \<and> 0 < outstanding (leases R) i"
    "i < length (entries R) \<Longrightarrow> e_holders (entries R ! i) = int (outstanding (leases R) i)"
    "i < length (entries R) \<Longrightarrow> e_exclusive (entries R ! i) \<Longrightarrow> outstanding (leases R) i \<le> 1"
    "l \<in> set (leases R) \<Longrightarrow> l_entry l < length (entries R)"
    "live R l \<Longrightarrow> map_of (activities R) (ws (l_authority l)) = Some (l_entry l)"
    "live R l \<Longrightarrow> \<not> e_invalidated (entries R ! l_entry l) \<Longrightarrow>
      \<exists>c. map_of (authorities R) (ws (l_authority l)) = Some c \<and> sameAuthority c (l_authority l)"
  using assms by (auto simp: registry_ok_def maps_ok_def entries_ok_def leases_ok_def)

lemma registry_okI:
  assumes "wf_map (authorities R)" "wf_map (activities R)" "distinct (map snd (activities R))"
    "length (authorities R) \<le> maxWorkspaces R" "length (activities R) \<le> maxActiveWorkspaces R"
    "\<And>w i. map_of (activities R) w = Some i \<Longrightarrow> i < length (entries R) \<and> 0 < outstanding (leases R) i"
    "\<And>i. i < length (entries R) \<Longrightarrow> e_holders (entries R ! i) = int (outstanding (leases R) i)"
    "\<And>i. i < length (entries R) \<Longrightarrow> e_exclusive (entries R ! i) \<Longrightarrow> outstanding (leases R) i \<le> 1"
    "\<And>l. l \<in> set (leases R) \<Longrightarrow> l_entry l < length (entries R)"
    "\<And>l. live R l \<Longrightarrow> map_of (activities R) (ws (l_authority l)) = Some (l_entry l)"
    "\<And>l. live R l \<Longrightarrow> \<not> e_invalidated (entries R ! l_entry l) \<Longrightarrow>
      \<exists>c. map_of (authorities R) (ws (l_authority l)) = Some c \<and> sameAuthority c (l_authority l)"
  shows "registry_ok R"
  using assms unfolding registry_ok_def maps_ok_def entries_ok_def leases_ok_def by blast

lemma activity_inj:
  assumes "registry_ok R" "map_of (activities R) w = Some i" "map_of (activities R) w' = Some i"
  shows "w = w'"
proof -
  have "(w, i) \<in> set (activities R)" "(w', i) \<in> set (activities R)"
    using assms(2,3) by (auto dest: map_of_SomeD)
  then show ?thesis
    using registry_okD(3) [OF assms(1)] by (fastforce simp: distinct_map inj_on_def)
qed

lemma outstanding_pos: "0 < outstanding ls i \<longleftrightarrow> (\<exists>l \<in> set ls. \<not> l_released l \<and> l_entry l = i)"
  by (induction ls) (auto simp: outstanding_def)

lemma outstanding_append [simp]:
  "outstanding (ls @ [l]) i = outstanding ls i + (if \<not> l_released l \<and> l_entry l = i then 1 else 0)"
  by (simp add: outstanding_def)

lemma outstanding_release:
  "\<lbrakk>h < length ls; \<not> l_released (ls ! h)\<rbrakk> \<Longrightarrow>
     outstanding (ls[h := (ls ! h)\<lparr>l_released := True\<rparr>]) i + (if l_entry (ls ! h) = i then 1 else 0) = outstanding ls i"
proof (induction ls arbitrary: h)
  case (Cons l ls)
  then show ?case by (cases h) (auto simp: outstanding_def)
qed simp

section \<open>Preservation\<close>

lemma new_registry_ok: "new_registry a b = Inr R \<Longrightarrow> registry_ok R"
  by (auto simp: new_registry_def registry_ok_defs)

text \<open>Replacing or removing an authority, with its activity invalidated, keeps the invariant:
  the leases of that workspace are no longer current, the others see no change.\<close>

lemma invalidate_activity_eq:
  assumes "registry_ok R"
  shows "invalidate_activity w (R\<lparr>authorities := A\<rparr>) =
    (case map_of (activities R) w of None \<Rightarrow> R\<lparr>authorities := A\<rparr>
     | Some i \<Rightarrow> R\<lparr>authorities := A, entries := (entries R)[i := (entries R ! i)\<lparr>e_invalidated := True\<rparr>]\<rparr>)"
proof (cases "map_of (activities R) w")
  case (Some i)
  then have "e_holders (entries R ! i) \<noteq> 0"
    using registry_okD(6) [OF assms Some] registry_okD(7) [OF assms, of i] by simp
  with Some show ?thesis by (simp add: invalidate_activity_def Let_def)
qed (simp add: invalidate_activity_def)

lemma invalidate_activity_ok:
  assumes ok: "registry_ok R" and A: "wf_map A" "length A \<le> maxWorkspaces R"
    and other: "\<And>w'. w' \<noteq> w \<Longrightarrow> map_of A w' = map_of (authorities R) w'"
  shows "registry_ok (invalidate_activity w (R\<lparr>authorities := A\<rparr>))"
proof (cases "map_of (activities R) w")
  case None
  have w: "ws (l_authority l) \<noteq> w" if "live R l" for l
    using registry_okD(10) [OF ok that] None by auto
  let ?R = "R\<lparr>authorities := A\<rparr>"
  have live: "live ?R l = live R l" for l by (simp add: live_def)
  have "registry_ok ?R"
  proof (rule registry_okI)
    fix l assume "live ?R l" "\<not> e_invalidated (entries ?R ! l_entry l)"
    then show "\<exists>c. map_of (authorities ?R) (ws (l_authority l)) = Some c \<and> sameAuthority c (l_authority l)"
      using registry_okD(11) [OF ok, of l] w [of l] other by (simp add: live)
  qed (use registry_okD [OF ok] A in \<open>simp_all add: live del: map_of_eq_Some_iff\<close>)
  then show ?thesis by (simp add: invalidate_activity_eq [OF ok] None)
next
  case (Some i)
  have i: "i < length (entries R)" using registry_okD(6) [OF ok Some] by simp
  have other_leases: "\<exists>c. map_of A (ws (l_authority l)) = Some c \<and> sameAuthority c (l_authority l)"
    if "live R l" "l_entry l \<noteq> i" "\<not> e_invalidated (entries R ! l_entry l)" for l
  proof -
    have "ws (l_authority l) \<noteq> w" using registry_okD(10) [OF ok that(1)] Some that(2) by auto
    then show ?thesis using registry_okD(11) [OF ok that(1,3)] other by simp
  qed
  let ?R = "R\<lparr>authorities := A, entries := (entries R)[i := (entries R ! i)\<lparr>e_invalidated := True\<rparr>]\<rparr>"
  have live: "live ?R l = live R l" for l by (simp add: live_def)
  have "registry_ok ?R"
  proof (rule registry_okI)
    fix l assume "live ?R l" "\<not> e_invalidated (entries ?R ! l_entry l)"
    then show "\<exists>c. map_of (authorities ?R) (ws (l_authority l)) = Some c \<and> sameAuthority c (l_authority l)"
      using other_leases [of l] i by (cases "l_entry l = i") (simp_all add: live)
  next
    fix j assume "j < length (entries ?R)"
    then show "e_holders (entries ?R ! j) = int (outstanding (leases ?R) j)"
      using registry_okD(7) [OF ok, of j] i by (cases "j = i") simp_all
  next
    fix j assume "j < length (entries ?R)" "e_exclusive (entries ?R ! j)"
    then show "outstanding (leases ?R) j \<le> 1"
      using registry_okD(8) [OF ok, of j] i by (cases "j = i") simp_all
  qed (use registry_okD [OF ok] A in \<open>simp_all add: live del: map_of_eq_Some_iff\<close>)
  then show ?thesis by (simp add: invalidate_activity_eq [OF ok] Some)
qed

lemma adoptBinding_ok:
  assumes "registry_ok R" and "adoptBinding c R = Inr (b, R')"
  shows "registry_ok R'"
proof -
  from assms(2) obtain a where a: "requireAuthority c = Inr a"
    by (auto simp: adoptBinding_def seq_eq_Inr)
  have put: "wf_map (mput (ws a) a (authorities R))" using registry_okD(1) [OF assms(1)] by simp
  show ?thesis
  proof (cases "map_of (authorities R) (ws a)")
    case None
    then have notin: "\<not> mhas (ws a) (authorities R)" by (simp add: mhas_map_of)
    have nolease: "ws (l_authority l) \<noteq> ws a \<or> e_invalidated (entries R ! l_entry l)" if "live R l" for l
      using registry_okD(11) [OF assms(1) that] None by fastforce
    have "registry_ok (R\<lparr>authorities := mput (ws a) a (authorities R)\<rparr>)"
      if "length (authorities R) < maxWorkspaces R"
      using assms(1) that nolease put notin
      by (auto simp: registry_ok_defs length_mput)
    then show ?thesis
      using assms a None by (auto simp: adoptBinding_def split: if_splits)
  next
    case (Some p)
    then have len: "length (mput (ws a) a (authorities R)) \<le> maxWorkspaces R"
      using registry_okD(4) [OF assms(1)] by (simp add: length_mput mhas_map_of)
    have "registry_ok (invalidate_activity (ws a) (R\<lparr>authorities := mput (ws a) a (authorities R)\<rparr>))"
      using put len by (intro invalidate_activity_ok [OF assms(1)]) auto
    then show ?thesis
      using assms a Some by (auto simp: adoptBinding_def Let_def split: if_splits)
  qed
qed

lemma retireBinding_ok:
  assumes "registry_ok R" and "retireBinding c R = Inr (b, R')"
  shows "registry_ok R'"
proof -
  have "registry_ok (invalidate_activity w (R\<lparr>authorities := mdel w (authorities R)\<rparr>))" for w
    using registry_okD(1,4) [OF assms(1)]
    by (intro invalidate_activity_ok [OF assms(1)]) (auto intro: le_trans [OF length_mdel_le])
  then show ?thesis
    using assms by (auto simp: retireBinding_def seq_eq_Inr split: option.splits if_splits)
qed

lemma live_append: "live (R\<lparr>leases := ls @ [x]\<rparr>) l \<longleftrightarrow> l \<in> set ls \<and> \<not> l_released l \<or> l = x \<and> \<not> l_released x"
  by (auto simp: live_def)

text \<open>A holder is added to the entry of the workspace.\<close>

lemma add_holder_ok:
  assumes ok: "registry_ok R" and m: "map_of (activities R) (ws a) = Some i"
    and cur: "map_of (authorities R) (ws a) = Some c" "sameAuthority c a"
    and shared: "\<not> e_exclusive e" "e_holders e = e_holders (entries R ! i) + 1"
      "e_invalidated e = e_invalidated (entries R ! i)"
  shows "registry_ok (R\<lparr>entries := (entries R)[i := e],
    leases := leases R @ [\<lparr>l_authority = a, l_entry = i, l_released = False, l_acquiredAt = now\<rparr>]\<rparr>)"
    (is "registry_ok ?R")
proof (rule registry_okI)
  let ?l = "\<lparr>l_authority = a, l_entry = i, l_released = False, l_acquiredAt = now\<rparr>"
  have i: "i < length (entries R)" using registry_okD(6) [OF ok m] by simp
  have live: "live ?R l \<longleftrightarrow> live R l \<or> l = ?l" for l by (auto simp: live_def)
  fix l assume l: "live ?R l"
  show "map_of (activities ?R) (ws (l_authority l)) = Some (l_entry l)"
    using l m registry_okD(10) [OF ok, of l] by (auto simp: live simp del: map_of_eq_Some_iff)
  assume "\<not> e_invalidated (entries ?R ! l_entry l)"
  then have "\<not> e_invalidated (entries R ! l_entry l)" using i shared by (cases "l_entry l = i") simp_all
  then show "\<exists>c. map_of (authorities ?R) (ws (l_authority l)) = Some c \<and> sameAuthority c (l_authority l)"
    using l cur registry_okD(11) [OF ok, of l] by (auto simp: live simp del: map_of_eq_Some_iff)
next
  have i: "i < length (entries R)" using registry_okD(6) [OF ok m] by simp
  fix j assume j: "j < length (entries ?R)"
  show "e_holders (entries ?R ! j) = int (outstanding (leases ?R) j)"
    using j i shared registry_okD(7) [OF ok, of j] by (cases "j = i") simp_all
  assume "e_exclusive (entries ?R ! j)"
  then show "outstanding (leases ?R) j \<le> 1"
    using j i shared registry_okD(8) [OF ok, of j] by (cases "j = i") simp_all
next
  have i: "i < length (entries R)" using registry_okD(6) [OF ok m] by simp
  fix l assume "l \<in> set (leases ?R)"
  then show "l_entry l < length (entries ?R)" using i registry_okD(9) [OF ok, of l] by auto
next
  fix w j assume "map_of (activities ?R) w = Some j"
  then show "j < length (entries ?R) \<and> 0 < outstanding (leases ?R) j"
    using registry_okD(6) [OF ok, of w j] by simp
qed (use registry_okD(1-5) [OF ok] in simp_all)

text \<open>A fresh entry with one holder is admitted for a workspace that has none.\<close>

lemma add_entry_ok:
  assumes ok: "registry_ok R" and m: "map_of (activities R) (ws a) = None"
    and cur: "map_of (authorities R) (ws a) = Some c" "sameAuthority c a"
    and room: "length (activities R) < maxActiveWorkspaces R"
    and e: "e_holders e = 1"
  shows "registry_ok (R\<lparr>nextFence := f, activities := mput (ws a) (length (entries R)) (activities R),
    entries := entries R @ [e],
    leases := leases R @ [\<lparr>l_authority = a, l_entry = length (entries R), l_released = False, l_acquiredAt = now\<rparr>]\<rparr>)"
    (is "registry_ok ?R")
proof (rule registry_okI)
  let ?n = "length (entries R)"
  let ?l = "\<lparr>l_authority = a, l_entry = ?n, l_released = False, l_acquiredAt = now\<rparr>"
  have fresh: "l_entry l < ?n" if "l \<in> set (leases R)" for l using registry_okD(9) [OF ok that] .
  have none: "outstanding (leases R) ?n = 0"
    using outstanding_pos [of "leases R" ?n] fresh by fastforce
  have live: "live ?R l \<longleftrightarrow> live R l \<or> l = ?l" for l by (auto simp: live_def)
  have elsewhere: "ws (l_authority l) \<noteq> ws a" if "live R l" for l
    using registry_okD(10) [OF ok that] m by auto
  show "distinct (map snd (activities ?R))"
  proof -
    have "mput (ws a) ?n (activities R) = activities R @ [(ws a, ?n)]"
      using m by (intro mput_absent) (simp add: mhas_map_of)
    moreover have "?n \<notin> snd ` set (activities R)"
    proof
      assume "?n \<in> snd ` set (activities R)"
      then obtain w where "(w, ?n) \<in> set (activities R)" by auto
      then have "map_of (activities R) w = Some ?n" using registry_okD(2) [OF ok] by simp
      then show False using registry_okD(6) [OF ok] by blast
    qed
    ultimately show ?thesis using registry_okD(3) [OF ok] by simp
  qed
  fix l assume l: "live ?R l"
  show "map_of (activities ?R) (ws (l_authority l)) = Some (l_entry l)"
    using l elsewhere [of l] registry_okD(10) [OF ok, of l] by (auto simp: live simp del: map_of_eq_Some_iff)
  assume "\<not> e_invalidated (entries ?R ! l_entry l)"
  then show "\<exists>c. map_of (authorities ?R) (ws (l_authority l)) = Some c \<and> sameAuthority c (l_authority l)"
    using l cur registry_okD(11) [OF ok, of l] fresh [of l]
    by (auto simp: live nth_append live_def simp del: map_of_eq_Some_iff)
next
  let ?n = "length (entries R)"
  have none: "outstanding (leases R) ?n = 0"
    using outstanding_pos [of "leases R" ?n] registry_okD(9) [OF ok] by fastforce
  fix j assume j: "j < length (entries ?R)"
  show "e_holders (entries ?R ! j) = int (outstanding (leases ?R) j)"
    using j registry_okD(7) [OF ok, of j] none e by (cases "j = ?n") (simp_all add: nth_append)
  assume "e_exclusive (entries ?R ! j)"
  then show "outstanding (leases ?R) j \<le> 1"
    using j registry_okD(8) [OF ok, of j] none by (cases "j = ?n") (simp_all add: nth_append)
next
  fix l assume "l \<in> set (leases ?R)"
  then show "l_entry l < length (entries ?R)" using registry_okD(9) [OF ok, of l] by auto
next
  fix w j assume "map_of (activities ?R) w = Some j"
  then show "j < length (entries ?R) \<and> 0 < outstanding (leases ?R) j"
    using registry_okD(6) [OF ok, of w j] by (auto split: if_splits simp del: map_of_eq_Some_iff)
next
  show "length (activities ?R) \<le> maxActiveWorkspaces ?R"
    using room m by (simp add: length_mput mhas_map_of)
qed (use registry_okD(1-4) [OF ok] in simp_all)

lemma reserve_ok:
  assumes ok: "registry_ok R" and m: "map_of (activities R) (ws a) = Some i"
    and cur: "map_of (authorities R) (ws a) = Some c" "sameAuthority c a"
  shows "registry_ok (snd (reserve a exclusive now i R))"
proof -
  have "0 < e_holders (entries R ! i)"
    using registry_okD(6) [OF ok m] registry_okD(7) [OF ok, of i] by simp
  then show ?thesis
    using ok add_holder_ok [OF ok m cur] by (simp add: reserve_def Let_def)
qed

lemma reserve_fresh:
  assumes "e_holders (entries R ! i) = 0"
  shows "\<exists>h R'. reserve a exclusive now i R = (Inr h, R') \<and> h = length (leases R)"
  using assms by (simp add: reserve_def Let_def)

lemma admit_entry_ok:
  assumes ok: "registry_ok R" and m: "map_of (activities R) (ws a) = None"
    and cur: "map_of (authorities R) (ws a) = Some c" "sameAuthority c a"
  shows "registry_ok (snd (admit_entry a receipt legacyFp exclusive now R))"
proof (cases "maxActiveWorkspaces R \<le> length (activities R)")
  case False
  let ?f = "if MAX_SAFE_INTEGER \<le> nextFence R then 1 else nextFence R + 1"
  let ?e = "fresh_entry a receipt legacyFp ?f"
  let ?e' = "?e\<lparr>e_exclusive := exclusive, e_holders := 1\<rparr>"
  have "(entries R @ [?e])[length (entries R) := ?e'] = entries R @ [?e']" by simp
  then have "snd (admit_entry a receipt legacyFp exclusive now R) =
    emit ''acquire'' ''succeeded'' None a (Some ?f) None (R\<lparr>nextFence := ?f, activities := mput (ws a) (length (entries R)) (activities R),
      entries := entries R @ [?e'],
      leases := leases R @ [\<lparr>l_authority = a, l_entry = length (entries R), l_released = False, l_acquiredAt = now\<rparr>]\<rparr>)"
    using False by (simp add: admit_entry_def reserve_def Let_def fresh_entry_def)
  moreover have "registry_ok (R\<lparr>nextFence := ?f, activities := mput (ws a) (length (entries R)) (activities R),
      entries := entries R @ [?e'],
      leases := leases R @ [\<lparr>l_authority = a, l_entry = length (entries R), l_released = False, l_acquiredAt = now\<rparr>]\<rparr>)"
    using False by (intro add_entry_ok [OF ok m cur]) simp_all
  ultimately show ?thesis by simp
qed (simp add: admit_entry_def ok)

lemma acquireActivity_ok:
  assumes ok: "registry_ok R"
  shows "registry_ok (snd (acquireActivity candidate exclusive now R))"
proof (cases "requireAuthority candidate")
  case (Inl e)
  then show ?thesis using ok by (simp add: acquireActivity_def)
next
  case (Inr a)
  show ?thesis
  proof (cases "map_of (authorities R) (ws a)")
    case None
    then show ?thesis using ok Inr by (simp add: acquireActivity_def Let_def)
  next
    case (Some c)
    show ?thesis
    proof (cases "sameAuthority c a")
      case False
      then show ?thesis using ok Inr Some by (simp add: acquireActivity_def Let_def)
    next
      case True
      have "0 < e_holders (entries R ! i)" if "map_of (activities R) (ws a) = Some i" for i
        using registry_okD(6) [OF ok that] registry_okD(7) [OF ok, of i] by simp
      then show ?thesis
        using ok Inr Some True reserve_ok [OF ok _ Some True] admit_entry_ok [OF ok _ Some True]
        by (auto simp: acquireActivity_def Let_def entry_of_def simp del: map_of_eq_Some_iff split: option.splits)
    qed
  qed
qed

lemma release_ok:
  assumes ok: "registry_ok R" and h: "h < length (leases R)"
  shows "registry_ok (release h now R)"
proof (cases "l_released (leases R ! h)")
  case True
  then show ?thesis using ok by (simp add: release_def)
next
  case False
  let ?l = "leases R ! h"
  let ?i = "l_entry ?l" and ?w = "ws (l_authority ?l)"
  let ?ls = "(leases R)[h := ?l\<lparr>l_released := True\<rparr>]"
  let ?e = "(entries R ! ?i)\<lparr>e_holders := e_holders (entries R ! ?i) - 1\<rparr>"
  let ?A = "if e_holders ?e = 0 then mdel ?w (activities R) else activities R"
  let ?R = "R\<lparr>leases := ?ls, entries := (entries R)[?i := ?e], activities := ?A\<rparr>"
  have l: "live R ?l" using h False by (simp add: live_def)
  have i: "?i < length (entries R)" using registry_okD(9) [OF ok] h by simp
  have m: "map_of (activities R) ?w = Some ?i" using registry_okD(10) [OF ok l] .
  note count = outstanding_release [OF h False]
  have live: "live ?R x \<Longrightarrow> live R x \<and> 0 < outstanding ?ls (l_entry x)" for x
    using subsetD [OF set_update_subset_insert [of "leases R" h "?l\<lparr>l_released := True\<rparr>"], of x]
    by (auto simp: live_def outstanding_pos)
  have zero: "e_holders ?e = 0 \<longleftrightarrow> outstanding ?ls ?i = 0"
    using registry_okD(7) [OF ok i] count [of ?i] by auto
  have "registry_ok ?R"
  proof (rule registry_okI)
    fix x assume x: "live ?R x"
    have "ws (l_authority x) \<noteq> ?w" if "e_holders ?e = 0"
      using live [OF x] zero that registry_okD(10) [OF ok, of x] m by auto
    then show "map_of (activities ?R) (ws (l_authority x)) = Some (l_entry x)"
      using live [OF x] registry_okD(10) [OF ok, of x] by (simp del: map_of_eq_Some_iff)
    assume "\<not> e_invalidated (entries ?R ! l_entry x)"
    then have "\<not> e_invalidated (entries R ! l_entry x)" using i by (cases "l_entry x = ?i") simp_all
    then show "\<exists>c. map_of (authorities ?R) (ws (l_authority x)) = Some c \<and> sameAuthority c (l_authority x)"
      using live [OF x] registry_okD(11) [OF ok, of x] by (simp del: map_of_eq_Some_iff)
  next
    fix j assume j: "j < length (entries ?R)"
    show "e_holders (entries ?R ! j) = int (outstanding (leases ?R) j)"
      using j i registry_okD(7) [OF ok, of j] count [of j] by (cases "j = ?i") simp_all
    assume "e_exclusive (entries ?R ! j)"
    then show "outstanding (leases ?R) j \<le> 1"
      using j i registry_okD(8) [OF ok, of j] count [of j] by (cases "j = ?i") auto
  next
    fix x assume "x \<in> set (leases ?R)"
    then show "l_entry x < length (entries ?R)"
      using subsetD [OF set_update_subset_insert [of "leases R" h "?l\<lparr>l_released := True\<rparr>"], of x]
        registry_okD(9) [OF ok] i by auto
  next
    fix w j assume wj: "map_of (activities ?R) w = Some j"
    then have r: "map_of (activities R) w = Some j" and d: "e_holders ?e = 0 \<Longrightarrow> w \<noteq> ?w"
      by (auto split: if_splits simp del: map_of_eq_Some_iff)
    have "j \<noteq> ?i" if "e_holders ?e = 0"
    proof
      assume "j = ?i"
      with m have "map_of (activities R) ?w = Some j" by (simp only:)
      from activity_inj [OF ok r this] d [OF that] show False by contradiction
    qed
    then have "0 < outstanding ?ls j"
      using registry_okD(6) [OF ok r] count [of j] zero by (cases "j = ?i") auto
    then show "j < length (entries ?R) \<and> 0 < outstanding (leases ?R) j"
      using registry_okD(6) [OF ok r] by simp
  next
    have "inj_on snd (set (activities R))" using registry_okD(3) [OF ok] by (simp add: distinct_map)
    then show "distinct (map snd (activities ?R))"
      using registry_okD(3) [OF ok] by (auto simp: mdel_def distinct_map inj_on_def)
  next
    show "length (activities ?R) \<le> maxActiveWorkspaces ?R"
      using registry_okD(5) [OF ok] by (auto intro: le_trans [OF length_mdel_le])
  qed (use registry_okD(1,2,4) [OF ok] in simp_all)
  moreover have "release h now R = emit ''release'' ''succeeded'' None (l_authority ?l) (Some (e_fence ?e))
      (durationSince now (l_acquiredAt ?l)) ?R"
    using False by (simp add: release_def Let_def)
  ultimately show ?thesis by simp
qed

text \<open>One round of the loop of \<open>invalidateAll\<close> over an activity that is in the map.\<close>

definition mark :: "nat \<Rightarrow> registry \<Rightarrow> registry" where
  "mark i R = R\<lparr>entries := (entries R)[i := (entries R ! i)\<lparr>e_invalidated := True\<rparr>]\<rparr>"

lemma mark_ok:
  assumes ok: "registry_ok R" and m: "map_of (activities R) w = Some i"
  shows "registry_ok (mark i R)"
proof -
  have "registry_ok (invalidate_activity w (R\<lparr>authorities := authorities R\<rparr>))"
    by (rule invalidate_activity_ok [OF ok registry_okD(1,4) [OF ok]]) simp
  moreover have "invalidate_activity w (R\<lparr>authorities := authorities R\<rparr>) = mark i R"
    unfolding invalidate_activity_eq [OF ok] by (simp add: m mark_def)
  ultimately show ?thesis by simp
qed

lemma mark_fields [simp]:
  "authorities (mark i R) = authorities R" "activities (mark i R) = activities R" "leases (mark i R) = leases R"
  "length (entries (mark i R)) = length (entries R)"
  by (simp_all add: mark_def)

lemma event_for_id_fields [simp]:
  "authorities (event_for_id w f R) = authorities R" "activities (event_for_id w f R) = activities R"
  "entries (event_for_id w f R) = entries R" "leases (event_for_id w f R) = leases R"
  by (simp_all add: event_for_id_def)

lemma invalidate_loop_ok:
  assumes "registry_ok R" and "\<And>w i. (w, i) \<in> set xs \<Longrightarrow> map_of (activities R) w = Some i"
    and "invalidate_loop xs em R = (em', R')"
  shows "registry_ok R' \<and> authorities R' = authorities R \<and> activities R' = activities R \<and>
    leases R' = leases R \<and> length (entries R') = length (entries R) \<and>
    (\<forall>j < length (entries R). e_invalidated (entries R' ! j) \<longleftrightarrow> e_invalidated (entries R ! j) \<or> j \<in> snd ` set xs)"
  using assms
proof (induction xs arbitrary: em R)
  case (Cons p xs)
  obtain w i where p: "p = (w, i)" by (cases p)
  have m: "map_of (activities R) w = Some i" using Cons.prems(2) p by simp
  have i: "i < length (entries R)" and h: "e_holders (entries R ! i) \<noteq> 0"
    using registry_okD(6) [OF Cons.prems(1) m] registry_okD(7) [OF Cons.prems(1), of i] by auto
  define R1 where "R1 = (if \<not> e_invalidated (entries R ! i)
     then event_for_id w (Some (e_fence (entries R ! i))) (mark i R) else mark i R)"
  have ok1: "registry_ok R1" using mark_ok [OF Cons.prems(1) m] by (simp add: R1_def)
  have f: "authorities R1 = authorities R" "activities R1 = activities R" "leases R1 = leases R"
    "length (entries R1) = length (entries R)" "entries R1 = entries (mark i R)"
    by (simp_all add: R1_def)
  have loop: "invalidate_loop xs (if \<not> e_invalidated (entries R ! i) then em @ [w] else em) R1 = (em', R')"
    using Cons.prems(3) h
    by (cases "e_invalidated (entries R ! i)") (simp_all add: p R1_def mark_def Let_def)
  have xs: "(w', i') \<in> set xs \<Longrightarrow> map_of (activities R1) w' = Some i'" for w' i'
    using Cons.prems(2) [of w' i'] by (simp add: f del: map_of_eq_Some_iff)
  from Cons.IH [OF ok1 xs loop] f i show ?case
    by (auto simp: p mark_def nth_list_update)
qed auto

lemma emit_authorities_fields [simp]:
  "authorities (emit_authorities xs em R) = authorities R" "activities (emit_authorities xs em R) = activities R"
  "entries (emit_authorities xs em R) = entries R" "leases (emit_authorities xs em R) = leases R"
  "maxWorkspaces (emit_authorities xs em R) = maxWorkspaces R"
  "maxActiveWorkspaces (emit_authorities xs em R) = maxActiveWorkspaces R"
  by (induction xs em R rule: emit_authorities.induct) auto

lemma registry_ok_emit_authorities [simp]: "registry_ok (emit_authorities xs em R) = registry_ok R"
  by (induction xs em R rule: emit_authorities.induct) auto

lemma invalidateAll_facts:
  assumes ok: "registry_ok R" and r: "invalidateAll R = (ids, R')"
  shows "registry_ok R' \<and> authorities R' = [] \<and> leases R' = leases R \<and> activities R' = activities R \<and>
    (\<forall>w i. map_of (activities R) w = Some i \<longrightarrow> e_invalidated (entries R' ! i)) \<and>
    set ids = fst ` set (activities R) \<union> fst ` set (authorities R)"
proof -
  obtain em R1 where loop: "invalidate_loop (activities R) [] R = (em, R1)" by (cases "invalidate_loop (activities R) [] R")
  have "map_of (activities R) w = Some i" if "(w, i) \<in> set (activities R)" for w i
    using that registry_okD(2) [OF ok] by simp
  note f = invalidate_loop_ok [OF ok this loop]
  have R': "R' = (emit_authorities (authorities R1) em R1)\<lparr>authorities := []\<rparr>"
    and ids': "ids = map fst (activities R) @ filter (\<lambda>w. w \<notin> fst ` set (activities R)) (map fst (authorities R))"
    using r loop by (auto simp: invalidateAll_def Let_def)
  have ids: "set ids = fst ` set (activities R) \<union> fst ` set (authorities R)"
    unfolding ids' set_append set_filter set_map by blast
  have inval: "e_invalidated (entries R1 ! i)" if "map_of (activities R) w = Some i" for w i
    using that f registry_okD(6) [OF ok that] by (force dest: map_of_SomeD)
  have "registry_ok R'"
  proof (rule registry_okI)
    fix l assume l: "live R' l"
    then have "live R1 l" by (simp add: live_def R')
    then have "map_of (activities R1) (ws (l_authority l)) = Some (l_entry l)" using f registry_okD(10) by blast
    moreover assume "\<not> e_invalidated (entries R' ! l_entry l)"
    ultimately show "\<exists>c. map_of (authorities R') (ws (l_authority l)) = Some c \<and> sameAuthority c (l_authority l)"
      using inval f by (simp add: R' del: map_of_eq_Some_iff)
  next
    fix l assume "live R' l"
    then show "map_of (activities R') (ws (l_authority l)) = Some (l_entry l)"
      using f registry_okD(10) [of R1 l] by (simp add: live_def R')
  qed (use f registry_okD(2,3,5-9) [of R1] in \<open>simp_all add: R' del: map_of_eq_Some_iff\<close>)
  with f R' ids inval show ?thesis by (simp del: map_of_eq_Some_iff)
qed

section \<open>Reachable registries\<close>

inductive registry_step :: "registry \<Rightarrow> registry \<Rightarrow> bool" where
  adopt: "adoptBinding c R = Inr (b, R') \<Longrightarrow> registry_step R R'"
| retire: "retireBinding c R = Inr (b, R') \<Longrightarrow> registry_step R R'"
| acquire: "acquireActivity c exclusive now R = (r, R') \<Longrightarrow> registry_step R R'"
| release: "h < length (leases R) \<Longrightarrow> registry_step R (release h now R)"
| invalidate: "invalidateAll R = (ids, R') \<Longrightarrow> registry_step R R'"

inductive reachable :: "registry \<Rightarrow> bool" where
  start: "new_registry maxW maxA = Inr R \<Longrightarrow> reachable R"
| step: "reachable R \<Longrightarrow> registry_step R R' \<Longrightarrow> reachable R'"

lemma registry_step_ok: "registry_step R R' \<Longrightarrow> registry_ok R \<Longrightarrow> registry_ok R'"
proof (induction rule: registry_step.induct)
  case (acquire c exclusive now R r R')
  then show ?case using acquireActivity_ok [of R c exclusive now] by simp
qed (auto intro: adoptBinding_ok retireBinding_ok release_ok dest: invalidateAll_facts)

lemma reachable_ok: "reachable R \<Longrightarrow> registry_ok R"
  by (induction rule: reachable.induct) (auto intro: new_registry_ok registry_step_ok)

end
