(* ===== verification/Lease_Properties.thy ===== *)
theory Lease_Properties
  imports Lease_Invariant
begin

text \<open>
  What the lease registry promises its clients, for every state it can reach, and the
  fence interface that the workspace operations use.
\<close>

section \<open>Accounting\<close>

lemma sum_outstanding:
  assumes "distinct is" and "\<And>l. l \<in> set ls \<Longrightarrow> \<not> l_released l \<Longrightarrow> l_entry l \<in> set is"
  shows "(\<Sum>i\<leftarrow>is. outstanding ls i) = length (filter (\<lambda>l. \<not> l_released l) ls)"
  using assms(2)
proof (induction ls)
  case Nil
  then show ?case by (simp add: outstanding_def sum_list_0)
next
  case (Cons l ls)
  have split: "outstanding (l # ls) i = outstanding ls i + (if \<not> l_released l \<and> l_entry l = i then 1 else 0)" for i
    by (simp add: outstanding_def)
  have one: "(\<Sum>i\<leftarrow>is. if l_entry l = i then 1 else 0 :: nat) = 1" if "\<not> l_released l"
    using assms(1) Cons.prems [of l] that by (simp add: sum_list_distinct_conv_sum_set)
  show ?case
    using Cons one by (cases "l_released l") (simp_all add: split sum_list_addf)
qed

lemma sum_list_int: "(\<Sum>i\<leftarrow>xs. int (f i)) = int (\<Sum>i\<leftarrow>xs. f i)"
  by (induction xs) auto

text \<open>C9. In every reachable state the registry stays within both of its bounds, and the
  number of holders it reports is the number of leases handed out and not yet released.\<close>

theorem lease_accounting:
  assumes "reachable R"
  shows "length (authorities R) \<le> maxWorkspaces R \<and> length (activities R) \<le> maxActiveWorkspaces R \<and>
    activityHolders (getAdmissionSnapshot R) = int (length (filter (\<lambda>l. \<not> l_released l) (leases R)))"
proof -
  note ok = reachable_ok [OF assms]
  let ?is = "map snd (activities R)"
  have "i < length (entries R)" if "i \<in> set ?is" for i
  proof -
    from that obtain w where "(w, i) \<in> set (activities R)" by auto
    then have "map_of (activities R) w = Some i" using registry_okD(2) [OF ok] by simp
    then show ?thesis using registry_okD(6) [OF ok] by blast
  qed
  then have "activityHolders (getAdmissionSnapshot R) = (\<Sum>i\<leftarrow>?is. int (outstanding (leases R) i))"
    using registry_okD(7) [OF ok]
    by (auto simp: getAdmissionSnapshot_def Let_def case_prod_unfold o_def intro!: arg_cong [where f = sum_list])
  also have "\<dots> = int (\<Sum>i\<leftarrow>?is. outstanding (leases R) i)"
    by (rule sum_list_int)
  also have "\<dots> = int (length (filter (\<lambda>l. \<not> l_released l) (leases R)))"
  proof -
    have "l_entry l \<in> set ?is" if "l \<in> set (leases R)" "\<not> l_released l" for l
      using registry_okD(10) [OF ok, of l] that by (auto simp: live_def dest!: map_of_SomeD intro: rev_image_eqI)
    then show ?thesis using sum_outstanding [OF registry_okD(3) [OF ok], of "leases R"] by simp
  qed
  finally show ?thesis using registry_okD(4,5) [OF ok] by simp
qed

section \<open>Exclusivity and currency\<close>

lemma outstanding_two:
  assumes "h < length ls" "k < length ls" "h \<noteq> k" "\<not> l_released (ls ! h)" "\<not> l_released (ls ! k)"
    "l_entry (ls ! h) = i" "l_entry (ls ! k) = i"
  shows "2 \<le> outstanding ls i"
proof -
  have "{h, k} \<subseteq> {j. j < length ls \<and> \<not> l_released (ls ! j) \<and> l_entry (ls ! j) = i}"
    using assms by auto
  then have "card {h, k} \<le> card {j. j < length ls \<and> \<not> l_released (ls ! j) \<and> l_entry (ls ! j) = i}"
    by (intro card_mono) auto
  then show ?thesis using assms(3) by (simp add: outstanding_def length_filter_conv_card)
qed


lemma isCurrent_ok:
  assumes ok: "registry_ok R" and h: "h < length (leases R)"
  shows "isCurrent h R = Inr (\<not> l_released (leases R ! h) \<and> \<not> e_invalidated (entries R ! l_entry (leases R ! h)))"
proof (cases "l_released (leases R ! h) \<or> e_invalidated (entries R ! l_entry (leases R ! h))")
  case False
  then have l: "live R (leases R ! h)" using h by (simp add: live_def)
  obtain c where "map_of (authorities R) (ws (l_authority (leases R ! h))) = Some c"
    "sameAuthority c (l_authority (leases R ! h))"
    using registry_okD(11) [OF ok l] False by blast
  with registry_okD(10) [OF ok l] False show ?thesis
    by (simp add: isCurrent_def Let_def del: map_of_eq_Some_iff)
qed (auto simp: isCurrent_def Let_def)

text \<open>Asking whether a lease is current never throws, and the answer is exactly that it has
  not been released and its activity has not been invalidated: the map and authority
  comparisons in the closure add nothing in any reachable state.\<close>

theorem lease_currency:
  assumes "reachable R" and "h < length (leases R)"
  shows "isCurrent h R = Inr (\<not> l_released (leases R ! h) \<and> \<not> e_invalidated (entries R ! l_entry (leases R ! h)))"
  using isCurrent_ok [OF reachable_ok [OF assms(1)] assms(2)] .

text \<open>After \<open>invalidateAll\<close> no authority is left, no lease ever handed out is current, and
  the returned identifiers are those of every workspace that had an activity or an
  authority.\<close>

theorem invalidateAll_kills_leases:
  assumes "reachable R" and "invalidateAll R = (ids, R')" and "h < length (leases R)"
  shows "authorities R' = [] \<and> isCurrent h R' = Inr False \<and>
    set ids = fst ` set (activities R) \<union> fst ` set (authorities R)"
proof -
  note ok = reachable_ok [OF assms(1)]
  note f = invalidateAll_facts [OF ok assms(2)]
  have "l_released (leases R ! h) \<or> e_invalidated (entries R' ! l_entry (leases R ! h))"
    using registry_okD(10) [OF ok, of "leases R ! h"] assms(3) f by (auto simp: live_def simp del: map_of_eq_Some_iff)
  then show ?thesis using isCurrent_ok [of R' h] f assms(3) by auto
qed

section \<open>Generations only move forward\<close>

text \<open>The generations that both shapes of authority carry.\<close>

definition SHARED_GENERATIONS :: "string list" where
  "SHARED_GENERATIONS = [''mappingGeneration'', ''workspaceGeneration'', ''inventoryGeneration'']"

definition sound_authority :: "jsval \<Rightarrow> bool" where
  "sound_authority a \<longleftrightarrow> list_all (\<lambda>k. isSafeInteger (fld a k)) SHARED_GENERATIONS"

lemma requireAuthority_eq:
  assumes "requireAuthority c = Inr a"
  shows "a = record_of (map (\<lambda>k. (k, fld c k))
    (authority_fields c @ (if hasReceiptIdentity c then LEASE_IDENTITY_FIELDS else [])))"
  using assms unfolding requireAuthority_def Let_def by (simp only: sum.simps split: if_split_asm)

lemma requireAuthority_fields:
  assumes "requireAuthority c = Inr a" and "k \<in> set (authority_fields c)"
  shows "fld a k = fld c k"
  using requireAuthority_eq [OF assms(1)] assms(2) by (simp add: fld_record_of del: map_map map_append)

lemma shared_generations_in: "set SHARED_GENERATIONS \<subseteq> set (authority_fields c)"
  by (simp add: SHARED_GENERATIONS_def authority_fields_def V2_AUTHORITY_FIELDS_def V3_AUTHORITY_FIELDS_def)

lemma requireAuthority_sound:
  assumes "requireAuthority c = Inr a"
  shows "sound_authority a"
proof -
  have "isSafeInteger (fld c k)" if "k \<in> set SHARED_GENERATIONS" for k
    using assms that
    by (auto simp: requireAuthority_def Let_def SHARED_GENERATIONS_def GENERATION_FIELDS_def split: if_splits)
  then show ?thesis
    using requireAuthority_fields [OF assms] shared_generations_in [of c] by (auto simp: sound_authority_def list_all_iff)
qed

definition authorities_sound :: "registry \<Rightarrow> bool" where
  "authorities_sound R \<longleftrightarrow> (\<forall>w a. map_of (authorities R) w = Some a \<longrightarrow> sound_authority a)"

lemma invalidate_activity_authorities [simp]: "authorities (invalidate_activity w R) = authorities R"
  by (simp add: invalidate_activity_def Let_def split: option.split)

lemma release_authorities [simp]: "authorities (release h now R) = authorities R"
  by (simp add: release_def Let_def)

lemma acquire_authorities [simp]: "authorities (snd (acquireActivity c x now R)) = authorities R"
  by (simp add: acquireActivity_def admit_entry_def reserve_def Let_def split: sum.split option.split)

lemma adopt_cases:
  assumes "adoptBinding c R = Inr (b, R')"
  obtains "authorities R' = authorities R"
  | a where "requireAuthority c = Inr a" "authorities R' = mput (ws a) a (authorities R)"
      "\<And>p. map_of (authorities R) (ws a) = Some p \<Longrightarrow> \<not> regresses p a"
proof -
  from assms obtain a where a: "requireAuthority c = Inr a" by (auto simp: adoptBinding_def seq_eq_Inr)
  show thesis
  proof (cases "map_of (authorities R) (ws a)")
    case None
    with assms a that show thesis by (auto simp: adoptBinding_def split: if_splits)
  next
    case (Some p)
    with assms a have "authorities R' = authorities R \<or>
        authorities R' = mput (ws a) a (authorities R) \<and> \<not> regresses p a"
      by (auto simp: adoptBinding_def Let_def split: if_splits)
    with that a Some show thesis by (metis option.inject)
  qed
qed

lemma retire_authorities:
  assumes "retireBinding c R = Inr (b, R')"
  shows "authorities R' = authorities R \<or> (\<exists>w. authorities R' = mdel w (authorities R))"
proof -
  from assms obtain a where a: "requireAuthority c = Inr a" by (auto simp: retireBinding_def seq_eq_Inr)
  show ?thesis
  proof (cases "map_of (authorities R) (ws a)")
    case None
    with assms a show ?thesis by (auto simp: retireBinding_def)
  next
    case (Some p)
    with assms a show ?thesis by (cases "sameAuthority p a") (auto simp: retireBinding_def)
  qed
qed

lemma step_generations:
  assumes "registry_step R R'" and ok: "registry_ok R" and sound: "authorities_sound R"
  shows "authorities_sound R' \<and>
    (\<forall>w p q k. map_of (authorities R) w = Some p \<longrightarrow> map_of (authorities R') w = Some q \<longrightarrow>
       k \<in> set SHARED_GENERATIONS \<longrightarrow> int_of (fld p k) \<le> int_of (fld q k))"
  using assms(1)
proof cases
  case (adopt c b)
  from adopt show ?thesis
  proof (cases rule: adopt_cases)
    case (2 a)
    have fwd: "int_of (fld p k) \<le> int_of (fld a k)"
      if "map_of (authorities R) (ws a) = Some p" "k \<in> set SHARED_GENERATIONS" for p k
    proof -
      have "\<not> js_less (fld a k) (fld p k)"
        using 2(3) [OF that(1)] that(2) by (auto simp: regresses_def SHARED_GENERATIONS_def GENERATION_FIELDS_def)
      moreover have "isSafeInteger (fld a k)" "isSafeInteger (fld p k)"
        using requireAuthority_sound [OF 2(1)] sound that
        by (auto simp: authorities_sound_def sound_authority_def list_all_iff simp del: map_of_eq_Some_iff)
      ultimately show ?thesis by (auto elim!: isSafeIntegerE)
    qed
    with 2 sound requireAuthority_sound [OF 2(1)] show ?thesis
      by (auto simp: authorities_sound_def simp del: map_of_eq_Some_iff split: if_splits)
  qed (use sound in \<open>auto simp: authorities_sound_def simp del: map_of_eq_Some_iff\<close>)
next
  case (retire c b)
  from retire_authorities [OF retire] sound show ?thesis
    by (auto simp: authorities_sound_def simp del: map_of_eq_Some_iff split: if_splits)
next
  case (acquire c exclusive now r)
  then have "authorities R' = authorities R" using acquire_authorities [of c exclusive now R] by simp
  with sound show ?thesis by (auto simp: authorities_sound_def simp del: map_of_eq_Some_iff)
next
  case (release h now)
  with sound show ?thesis by (auto simp: authorities_sound_def simp del: map_of_eq_Some_iff)
next
  case (invalidate ids)
  with invalidateAll_facts [OF ok] show ?thesis by (auto simp: authorities_sound_def)
qed

lemma reachable_sound: "reachable R \<Longrightarrow> authorities_sound R"
proof (induction rule: reachable.induct)
  case (start maxW maxA R)
  then show ?case by (auto simp: new_registry_def authorities_sound_def)
next
  case (step R R')
  then show ?case using step_generations [OF step.hyps(2) reachable_ok] by blast
qed

text \<open>A run of the registry in which a workspace always has an adopted authority.\<close>

inductive retained :: "jsstr \<Rightarrow> registry \<Rightarrow> registry \<Rightarrow> bool" for w R where
  here: "map_of (authorities R) w \<noteq> None \<Longrightarrow> retained w R R"
| more: "retained w R R1 \<Longrightarrow> registry_step R1 R2 \<Longrightarrow> map_of (authorities R2) w \<noteq> None \<Longrightarrow> retained w R R2"

lemma retained_reachable: "retained w R R' \<Longrightarrow> reachable R \<Longrightarrow> reachable R'"
  by (induction rule: retained.induct) (auto intro: reachable.step)

text \<open>As long as a workspace keeps an authority, its mapping, workspace and inventory
  generations never go back, whatever bindings are adopted, retired or denied and whatever
  leases come and go.\<close>

theorem generations_monotone:
  assumes "retained w R R'" and "reachable R" and "k \<in> set SHARED_GENERATIONS"
    and "map_of (authorities R) w = Some p" and "map_of (authorities R') w = Some q"
  shows "int_of (fld p k) \<le> int_of (fld q k)"
  using assms(1,5)
proof (induction arbitrary: q rule: retained.induct)
  case here
  then show ?case using assms(4) by simp
next
  case (more R1 R2)
  then obtain q1 where q1: "map_of (authorities R1) w = Some q1"
    by (auto elim: retained.cases simp del: map_of_eq_Some_iff)
  have r: "reachable R1" using retained_reachable [OF more.hyps(1) assms(2)] .
  show ?case
    using more.IH [OF q1] step_generations [OF more.hyps(2) reachable_ok [OF r] reachable_sound [OF r]]
      q1 more.prems assms(3) by (meson order_trans)
qed

end
