(* ===== verification/Lease_Fence.thy ===== *)
theory Lease_Fence
  imports Lease_Properties
begin

text \<open>
  The fence interface that the workspace operations receive as \<open>acquireFence\<close>, stated as
  locales: a fence is acquired, asked whether it is still current, and released.  The
  adapters of \<^verbatim>\<open>daemon/src/workspace-lease-fence.js\<close> over the lease registry are the
  interpretations.
\<close>

section \<open>The interface\<close>

locale activity_fence =
  fixes acquire :: "'c \<Rightarrow> rat \<Rightarrow> 's \<Rightarrow> (js_error + nat) \<times> 's"
    and current :: "nat \<Rightarrow> 's \<Rightarrow> js_error + bool"
    and free :: "nat \<Rightarrow> rat \<Rightarrow> 's \<Rightarrow> 's"
    and issued :: "'s \<Rightarrow> nat"
    and good :: "'s \<Rightarrow> bool"
  assumes acquire_good: "good s \<Longrightarrow> good (snd (acquire c t s))"
    and free_good: "good s \<Longrightarrow> h < issued s \<Longrightarrow> good (free h t s)"
    and acquire_current: "good s \<Longrightarrow> acquire c t s = (Inr h, s') \<Longrightarrow> h < issued s' \<and> current h s' = Inr True"
    and free_issued: "issued (free h t s) = issued s"
    and free_ends: "good s \<Longrightarrow> h < issued s \<Longrightarrow> current h (free h t s) = Inr False"
    and free_again: "h < issued s \<Longrightarrow> free h t' (free h t s) = free h t s"
begin

text \<open>The bracket of the workspace operations: acquire, work, and release in \<open>finally\<close>.  Whatever
  the work did to the state, the lease is over afterwards and releasing it again is harmless.\<close>

lemma bracket_ends:
  assumes "good s" and "acquire c t s = (Inr h, s1)"
    and "good s2" and "issued s1 \<le> issued s2"
  shows "good (free h t' s2) \<and> current h (free h t' s2) = Inr False \<and> free h t'' (free h t' s2) = free h t' s2"
proof -
  have "h < issued s2" using acquire_current [OF assms(1,2)] assms(4) by simp
  then show ?thesis using free_good free_ends free_again assms(3) by blast
qed

lemma bracket_idle:
  assumes "good s" and "acquire c t s = (Inr h, s1)"
  shows "good (free h t' s1) \<and> current h (free h t' s1) = Inr False"
  using bracket_ends [OF assms, of s1] acquire_good [OF assms(1), of c t] assms(2) by simp

end

locale exclusive_fence = activity_fence +
  assumes held_refuses: "good s \<Longrightarrow> acquire c t s = (Inr h, s') \<Longrightarrow> \<exists>e. fst (acquire c t' s') = Inl e"
begin

lemma never_twice:
  assumes "good s" and "acquire c t s = (Inr h, s1)" and "acquire c t' s1 = (r, s2)"
  shows "\<not> is_ok r"
  using held_refuses [OF assms(1,2), of t'] assms(3) by auto

end

section \<open>The registry's acquisitions\<close>

lemma reserve_Inr:
  "reserve a exclusive now i R = (Inr h, R') \<longleftrightarrow>
     \<not> (e_exclusive (entries R ! i) \<and> 0 < e_holders (entries R ! i)) \<and>
     \<not> (exclusive \<and> 0 < e_holders (entries R ! i)) \<and> h = length (leases R) \<and>
     R' = emit ''acquire'' ''succeeded'' None a (Some (e_fence (entries R ! i))) None
       (R\<lparr>entries := (entries R)[i := (entries R ! i)\<lparr>e_exclusive := e_exclusive (entries R ! i) \<or> exclusive,
            e_holders := e_holders (entries R ! i) + 1\<rparr>],
         leases := leases R @ [\<lparr>l_authority = a, l_entry = i, l_released = False, l_acquiredAt = now\<rparr>]\<rparr>)"
  by (auto simp: reserve_def Let_def)

lemma stale_live: "\<not> stale_entry a r f e \<Longrightarrow> \<not> e_invalidated e"
  by (simp add: stale_entry_def)

lemma acquire_granted:
  assumes ok: "registry_ok R" and "acquireActivity c exclusive now R = (Inr h, R')"
  obtains a i where "requireAuthority c = Inr a" "h = length (leases R)"
    "leases R' = leases R @ [\<lparr>l_authority = a, l_entry = i, l_released = False, l_acquiredAt = now\<rparr>]"
    "i < length (entries R')" "\<not> e_invalidated (entries R' ! i)" "exclusive \<longrightarrow> e_exclusive (entries R' ! i)"
    "map_of (activities R') (ws a) = Some i"
proof -
  obtain a where a: "requireAuthority c = Inr a"
    using assms(2) by (cases "requireAuthority c") (auto simp: acquireActivity_def)
  show thesis
  proof (cases "map_of (activities R) (ws a)")
    case None
    let ?r = "\<not> undef (fld a ''socketGeneration'')" and ?f = "fld c ''bindingFingerprint''"
    have "admit_entry a ?r ?f exclusive now R = (Inr h, R')"
      using assms(2) a None by (auto simp: acquireActivity_def Let_def entry_of_def split: if_splits)
    then show thesis
      using that [OF a, of "length (entries R)"]
      by (auto simp: admit_entry_def Let_def reserve_Inr fresh_entry_def split: if_splits)
  next
    case (Some i)
    have i: "i < length (entries R)" and pos: "0 < e_holders (entries R ! i)"
      using registry_okD(6) [OF ok Some] registry_okD(7) [OF ok, of i] by auto
    have "reserve a exclusive now i R = (Inr h, R')"
      and st: "\<not> stale_entry a (\<not> undef (fld a ''socketGeneration'')) (fld c ''bindingFingerprint'') (entries R ! i)"
      using assms(2) a Some pos
      by (auto simp: acquireActivity_def Let_def entry_of_def simp del: map_of_eq_Some_iff split: if_splits)
    then show thesis
      using that [OF a, of i] i pos stale_live [OF st] Some by (auto simp: reserve_Inr simp del: map_of_eq_Some_iff)
  qed
qed

lemma acquire_refused_when_exclusive:
  assumes ok: "registry_ok R" and a: "requireAuthority c = Inr a"
    and m: "map_of (activities R) (ws a) = Some i" and x: "e_exclusive (entries R ! i)"
  shows "\<exists>e. fst (acquireActivity c exclusive now R) = Inl e"
proof -
  have "0 < e_holders (entries R ! i)"
    using registry_okD(6) [OF ok m] registry_okD(7) [OF ok, of i] by auto
  with a m x show ?thesis
    by (auto simp: acquireActivity_def Let_def entry_of_def reserve_def simp del: map_of_eq_Some_iff)
qed

lemma acquire_is_current:
  assumes ok: "registry_ok R" and got: "acquireActivity c exclusive now R = (Inr h, R')"
  shows "h < length (leases R') \<and> isCurrent h R' = Inr True"
proof -
  have ok': "registry_ok R'" using acquireActivity_ok [OF ok, of c exclusive now] got by simp
  from acquire_granted [OF ok got] obtain a i where
    "h = length (leases R)" "\<not> e_invalidated (entries R' ! i)"
    "leases R' = leases R @ [\<lparr>l_authority = a, l_entry = i, l_released = False, l_acquiredAt = now\<rparr>]" by blast
  then show ?thesis using isCurrent_ok [OF ok', of h] by simp
qed

lemma release_released: "h < length (leases R) \<Longrightarrow> l_released (leases (release h now R) ! h)"
  by (simp add: release_def Let_def)

lemma release_length [simp]: "length (leases (release h now R)) = length (leases R)"
  by (simp add: release_def Let_def)

lemma release_twice: "h < length (leases R) \<Longrightarrow> release h now' (release h now R) = release h now R"
  using release_released [of h R now] by (subst release_def) (simp add: Let_def)

lemma release_not_current:
  "registry_ok R \<Longrightarrow> h < length (leases R) \<Longrightarrow> isCurrent h (release h now R) = Inr False"
  by (simp add: isCurrent_def Let_def release_released)

section \<open>Interpretations\<close>

interpretation shared_lease: activity_fence createActivityFence isCurrent release "\<lambda>R. length (leases R)" registry_ok
  by unfold_locales
    (auto simp: createActivityFence_def acquireActivity_ok release_ok release_not_current release_twice
      dest: acquire_is_current)

interpretation exclusive_lease: exclusive_fence createExclusiveFence isCurrent release "\<lambda>R. length (leases R)" registry_ok
proof unfold_locales
  fix R c t h R' t'
  assume ok: "registry_ok R" and got: "createExclusiveFence c t R = (Inr h, R')"
  have ok': "registry_ok R'"
    using acquireActivity_ok [OF ok, of c True t] got by (simp add: createExclusiveFence_def)
  from acquire_granted [OF ok got [unfolded createExclusiveFence_def]] obtain a i where
    "requireAuthority c = Inr a" "map_of (activities R') (ws a) = Some i" "e_exclusive (entries R' ! i)" by blast
  then show "\<exists>e. fst (createExclusiveFence c t' R') = Inl e"
    unfolding createExclusiveFence_def by (rule acquire_refused_when_exclusive [OF ok'])
qed (auto simp: createExclusiveFence_def acquireActivity_ok release_ok release_not_current release_twice
      dest: acquire_is_current)


lemma no_live_no_activity:
  assumes ok: "registry_ok R" and "list_all (\<lambda>l. l_released l \<or> ws (l_authority l) \<noteq> w) (leases R)"
  shows "map_of (activities R) w = None"
proof (rule ccontr)
  assume "map_of (activities R) w \<noteq> None"
  then obtain i where i: "map_of (activities R) w = Some i" by blast
  then obtain l where l: "l \<in> set (leases R)" "\<not> l_released l" "l_entry l = i"
    using registry_okD(6) [OF ok i] by (auto simp: outstanding_pos)
  then have "map_of (activities R) (ws (l_authority l)) = Some i"
    using registry_okD(10) [OF ok, of l] by (simp add: live_def)
  then have "ws (l_authority l) = w" using activity_inj [OF ok i] by simp
  with l assms(2) show False by (auto simp: list_all_iff)
qed


end
