(* ===== verification/Lease_Witnesses.thy ===== *)
theory Lease_Witnesses
  imports Lease_Fence
begin

text \<open>
  Concrete runs of the lease registry at which the theorems of \<open>Lease_Properties\<close> and
  \<open>Lease_Fence\<close> apply: one receipt authority, adopted in a registry with room for two
  workspaces, and one exclusive lease on it.
\<close>

definition wit_fields :: "(string \<times> jsval) list" where
  "wit_fields = [(''authorityEpoch'', JInt 5), (''fenceGeneration'', JInt 1), (''hostId'', JLit ''h''),
     (''mappingId'', JLit ''m''), (''mappingGeneration'', JInt 1), (''mappingVersion'', JInt 1),
     (''workspaceId'', JLit ''w''), (''workspaceGeneration'', JInt 1), (''sourcePlatform'', JLit ''posix''),
     (''authorityFingerprint'', JLit ''f''), (''inventoryGeneration'', JInt 1),
     (''inventoryFingerprint'', JLit ''g''), (''socketGeneration'', JInt 1), (''bindingId'', JLit ''b''),
     (''bindingFingerprint'', JStr (replicate 64 0x30))]"

definition wit_authority :: jsval where
  "wit_authority = record_of wit_fields"

definition wit_R0 :: registry where
  "wit_R0 = \<lparr>authorities = [], activities = [], entries = [], leases = [], nextFence = 0,
     maxWorkspaces = 2, maxActiveWorkspaces = 2, log = []\<rparr>"

definition wit_R1 :: registry where
  "wit_R1 = emit ''adopt'' ''succeeded'' None wit_authority None None
     (wit_R0\<lparr>authorities := [(js ''w'', wit_authority)]\<rparr>)"

definition wit_R2 :: registry where
  "wit_R2 = snd (createExclusiveFence wit_authority 0 wit_R1)"

lemma wit_reads:
  "fld wit_authority ''authorityEpoch'' = JInt 5" "fld wit_authority ''fenceGeneration'' = JInt 1"
  "fld wit_authority ''hostId'' = JLit ''h''" "fld wit_authority ''mappingId'' = JLit ''m''"
  "fld wit_authority ''mappingGeneration'' = JInt 1" "fld wit_authority ''mappingVersion'' = JInt 1"
  "fld wit_authority ''workspaceId'' = JLit ''w''" "fld wit_authority ''workspaceGeneration'' = JInt 1"
  "fld wit_authority ''sourcePlatform'' = JLit ''posix''" "fld wit_authority ''authorityFingerprint'' = JLit ''f''"
  "fld wit_authority ''inventoryGeneration'' = JInt 1" "fld wit_authority ''inventoryFingerprint'' = JLit ''g''"
  "fld wit_authority ''socketGeneration'' = JInt 1" "fld wit_authority ''bindingId'' = JLit ''b''"
  "fld wit_authority ''bindingFingerprint'' = JStr (replicate 64 0x30)"
  by (simp_all add: wit_authority_def wit_fields_def get_own_JObj)

lemma wit_ws: "ws wit_authority = js ''w''"
  by (simp add: ws_def wit_reads)

lemma wit_required: "requireAuthority wit_authority = Inr wit_authority"
proof -
  have "hasReceiptIdentity wit_authority" "authority_fields wit_authority = V3_AUTHORITY_FIELDS"
    by (simp_all add: hasReceiptIdentity_def authority_fields_def undef_def wit_reads)
  moreover have "record_of (map (\<lambda>k. (k, fld wit_authority k)) (V3_AUTHORITY_FIELDS @ LEASE_IDENTITY_FIELDS)) = wit_authority"
    by (simp add: V3_AUTHORITY_FIELDS_def LEASE_IDENTITY_FIELDS_def wit_reads)
      (simp add: wit_authority_def wit_fields_def)
  moreover have "truthy wit_authority" by (simp add: wit_authority_def)
  moreover have "hex64_text (JStr (replicate 64 0x30))"
    by (simp add: list_all_iff is_lower_hex_def is_digit_def)
  ultimately show ?thesis
    by (simp add: requireAuthority_def Let_def undef_def wit_reads V3_AUTHORITY_FIELDS_def GENERATION_FIELDS_def
        LEASE_IDENTITY_FIELDS_def MAX_SAFE_INTEGER_def is_integral_def)
qed

lemma wit_same: "sameAuthority wit_authority wit_authority"
  by (simp add: sameAuthority_def authority_fields_def undef_def wit_reads V3_AUTHORITY_FIELDS_def LEASE_IDENTITY_FIELDS_def)

lemma wit_reachable0: "reachable wit_R0"
proof (rule reachable.start)
  show "new_registry (JInt 2) (JInt 2) = Inr wit_R0"
    by (simp add: new_registry_def wit_R0_def positive_limit_def MAX_SAFE_INTEGER_def is_integral_def)
qed

lemma wit_adopt: "adoptBinding wit_authority wit_R0 = Inr (True, wit_R1)"
  by (simp add: adoptBinding_def wit_required wit_R1_def wit_R0_def wit_ws)

lemma wit_reachable1: "reachable wit_R1"
  by (rule reachable.step [OF wit_reachable0 registry_step.adopt [OF wit_adopt]])

lemma wit_acquire: "createExclusiveFence wit_authority 0 wit_R1 = (Inr 0, wit_R2)"
proof -
  have "fst (createExclusiveFence wit_authority 0 wit_R1) = Inr 0"
    by (simp add: createExclusiveFence_def acquireActivity_def wit_required wit_R1_def wit_R0_def wit_ws undef_def
        wit_reads wit_same entry_of_def admit_entry_def reserve_def fresh_entry_def Let_def)
  then show ?thesis by (simp add: wit_R2_def prod_eq_iff)
qed

lemma wit_reachable2: "reachable wit_R2"
  by (rule reachable.step [OF wit_reachable1 registry_step.acquire [OF wit_acquire [unfolded createExclusiveFence_def]]])

lemma wit_R2_lease: "leases wit_R2 = [\<lparr>l_authority = wit_authority, l_entry = 0, l_released = False, l_acquiredAt = 0\<rparr>]"
  and wit_R2_entry: "e_exclusive (entries wit_R2 ! 0)"
  by (simp_all add: wit_R2_def createExclusiveFence_def acquireActivity_def wit_required wit_R1_def wit_R0_def wit_ws undef_def
        wit_reads wit_same entry_of_def admit_entry_def reserve_def fresh_entry_def Let_def)

theorem lease_accounting_witness:
  "length (authorities wit_R2) \<le> maxWorkspaces wit_R2 \<and> length (activities wit_R2) \<le> maxActiveWorkspaces wit_R2 \<and>
    activityHolders (getAdmissionSnapshot wit_R2) = int (length (filter (\<lambda>l. \<not> l_released l) (leases wit_R2)))"
  by (rule lease_accounting [OF wit_reachable2])


theorem lease_currency_witness:
  "isCurrent 0 wit_R2 = Inr (\<not> l_released (leases wit_R2 ! 0) \<and> \<not> e_invalidated (entries wit_R2 ! l_entry (leases wit_R2 ! 0)))"
  by (rule lease_currency [OF wit_reachable2]) (simp add: wit_R2_lease)

theorem invalidateAll_kills_leases_witness:
  "authorities (snd (invalidateAll wit_R2)) = [] \<and> isCurrent 0 (snd (invalidateAll wit_R2)) = Inr False \<and>
    set (fst (invalidateAll wit_R2)) = fst ` set (activities wit_R2) \<union> fst ` set (authorities wit_R2)"
  by (rule invalidateAll_kills_leases [OF wit_reachable2]) (simp_all add: wit_R2_lease)



text \<open>A later binding of the same workspace, with the inventory one generation ahead.\<close>

definition wit_next :: jsval where
  "wit_next = record_of (map (\<lambda>(k, v). if k = ''inventoryGeneration'' then (k, JInt 2) else (k, v)) wit_fields)"

lemma wit_next_reads:
  "k \<noteq> ''inventoryGeneration'' \<Longrightarrow> fld wit_next k = fld wit_authority k" "fld wit_next ''inventoryGeneration'' = JInt 2"
  by (simp_all add: wit_next_def wit_authority_def wit_fields_def get_own_JObj)

lemma wit_next_required: "requireAuthority wit_next = Inr wit_next"
proof -
  have r: "hasReceiptIdentity wit_next" "authority_fields wit_next = V3_AUTHORITY_FIELDS"
    by (simp_all add: hasReceiptIdentity_def authority_fields_def undef_def wit_reads wit_next_reads)
  moreover have "record_of (map (\<lambda>k. (k, fld wit_next k)) (V3_AUTHORITY_FIELDS @ LEASE_IDENTITY_FIELDS)) = wit_next"
    by (simp add: V3_AUTHORITY_FIELDS_def LEASE_IDENTITY_FIELDS_def wit_next_reads wit_reads)
      (simp add: wit_next_def wit_fields_def)
  moreover have "truthy wit_next" by (simp add: wit_next_def)
  moreover have "hex64_text (JStr (replicate 64 0x30))"
    by (simp add: list_all_iff is_lower_hex_def is_digit_def)
  ultimately show ?thesis
    by (simp add: requireAuthority_def Let_def undef_def wit_reads wit_next_reads V3_AUTHORITY_FIELDS_def
        GENERATION_FIELDS_def LEASE_IDENTITY_FIELDS_def MAX_SAFE_INTEGER_def is_integral_def)
qed

definition wit_R3 :: registry where
  "wit_R3 = emit ''adopt'' ''succeeded'' None wit_next None None (wit_R1\<lparr>authorities := [(js ''w'', wit_next)]\<rparr>)"

lemma wit_adopt_next: "adoptBinding wit_next wit_R1 = Inr (True, wit_R3)"
proof -
  have "\<not> sameAuthority wit_authority wit_next" "\<not> regresses wit_authority wit_next"
    "\<not> authorityChanged wit_authority wit_next" "ws wit_next = js ''w''"
    by (simp_all add: sameAuthority_def regresses_def authorityChanged_def authority_fields_def undef_def ws_def
        wit_reads wit_next_reads V3_AUTHORITY_FIELDS_def LEASE_IDENTITY_FIELDS_def GENERATION_FIELDS_def)
  then show ?thesis
    by (simp add: adoptBinding_def wit_next_required Let_def wit_R3_def wit_R1_def wit_R0_def wit_reads wit_next_reads
        invalidate_activity_def fence_of_def entry_of_def emit_def)
qed

lemma wit_retained: "retained (js ''w'') wit_R1 wit_R3"
proof (rule retained.more)
  show "retained (js ''w'') wit_R1 wit_R1" by (rule retained.here) (simp add: wit_R1_def)
  show "registry_step wit_R1 wit_R3" by (rule registry_step.adopt [OF wit_adopt_next])
qed (simp add: wit_R3_def)

theorem generations_monotone_witness:
  "int_of (fld wit_authority ''inventoryGeneration'') \<le> int_of (fld wit_next ''inventoryGeneration'')"
  by (rule generations_monotone [OF wit_retained wit_reachable1])
    (simp_all add: SHARED_GENERATIONS_def wit_R1_def wit_R3_def)

section \<open>The epoch fence and the legacy shape\<close>

text \<open>A legacy binding of the same workspace with the inventory advanced, and a receipt binding
  from the previous authority epoch with the mapping advanced.\<close>

definition wit_legacy :: jsval where
  "wit_legacy = record_of [(''hostId'', JLit ''h''), (''mappingId'', JLit ''m''), (''mappingGeneration'', JInt 1),
     (''mappingVersion'', JInt 1), (''workspaceId'', JLit ''w''), (''workspaceGeneration'', JInt 1),
     (''sourcePlatform'', JLit ''posix''), (''routeFingerprint'', JLit ''r''), (''authorityFingerprint'', JLit ''f''),
     (''inventoryGeneration'', JInt 2)]"

definition wit_stale :: jsval where
  "wit_stale = record_of (map (\<lambda>(k, v). if k = ''authorityEpoch'' then (k, JInt 4)
     else if k = ''inventoryGeneration'' \<or> k = ''mappingGeneration'' then (k, JInt 2) else (k, v)) wit_fields)"

lemma wit_stale_reads:
  "k \<notin> {''authorityEpoch'', ''inventoryGeneration'', ''mappingGeneration''} \<Longrightarrow> fld wit_stale k = fld wit_authority k"
  "fld wit_stale ''authorityEpoch'' = JInt 4" "fld wit_stale ''inventoryGeneration'' = JInt 2"
  "fld wit_stale ''mappingGeneration'' = JInt 2"
  by (simp_all add: wit_stale_def wit_authority_def wit_fields_def get_own_JObj)

lemma wit_stale_required: "requireAuthority wit_stale = Inr wit_stale"
proof -
  have r: "hasReceiptIdentity wit_stale" "authority_fields wit_stale = V3_AUTHORITY_FIELDS"
    by (simp_all add: hasReceiptIdentity_def authority_fields_def undef_def wit_reads wit_stale_reads)
  moreover have "record_of (map (\<lambda>k. (k, fld wit_stale k)) (V3_AUTHORITY_FIELDS @ LEASE_IDENTITY_FIELDS)) = wit_stale"
    by (simp add: V3_AUTHORITY_FIELDS_def LEASE_IDENTITY_FIELDS_def wit_stale_reads wit_reads)
      (simp add: wit_stale_def wit_fields_def)
  moreover have "truthy wit_stale" by (simp add: wit_stale_def)
  moreover have "hex64_text (JStr (replicate 64 0x30))"
    by (simp add: list_all_iff is_lower_hex_def is_digit_def)
  ultimately show ?thesis
    by (simp add: requireAuthority_def Let_def undef_def wit_reads wit_stale_reads V3_AUTHORITY_FIELDS_def
        GENERATION_FIELDS_def LEASE_IDENTITY_FIELDS_def MAX_SAFE_INTEGER_def is_integral_def)
qed

lemma wit_legacy_reads:
  "fld wit_legacy ''authorityEpoch'' = JUndefined" "fld wit_legacy ''fenceGeneration'' = JUndefined"
  "fld wit_legacy ''hostId'' = JLit ''h''" "fld wit_legacy ''mappingId'' = JLit ''m''"
  "fld wit_legacy ''mappingGeneration'' = JInt 1" "fld wit_legacy ''mappingVersion'' = JInt 1"
  "fld wit_legacy ''workspaceId'' = JLit ''w''" "fld wit_legacy ''workspaceGeneration'' = JInt 1"
  "fld wit_legacy ''sourcePlatform'' = JLit ''posix''" "fld wit_legacy ''authorityFingerprint'' = JLit ''f''"
  "fld wit_legacy ''inventoryGeneration'' = JInt 2" "fld wit_legacy ''routeFingerprint'' = JLit ''r''"
  "fld wit_legacy ''socketGeneration'' = JUndefined" "fld wit_legacy ''bindingId'' = JUndefined"
  "fld wit_legacy ''bindingFingerprint'' = JUndefined" "fld wit_authority ''routeFingerprint'' = JUndefined"
  by (simp_all add: wit_legacy_def wit_authority_def wit_fields_def get_own_JObj)

lemma wit_legacy_required: "requireAuthority wit_legacy = Inr wit_legacy"
proof -
  have r: "\<not> hasReceiptIdentity wit_legacy" "authority_fields wit_legacy = V2_AUTHORITY_FIELDS"
    by (simp_all add: hasReceiptIdentity_def authority_fields_def undef_def wit_legacy_reads)
  moreover have "record_of (map (\<lambda>k. (k, fld wit_legacy k)) V2_AUTHORITY_FIELDS) = wit_legacy"
    by (simp add: V2_AUTHORITY_FIELDS_def wit_legacy_reads) (simp add: wit_legacy_def)
  moreover have "truthy wit_legacy" by (simp add: wit_legacy_def)
  ultimately show ?thesis
    by (simp add: requireAuthority_def Let_def undef_def wit_legacy_reads V2_AUTHORITY_FIELDS_def
        MAX_SAFE_INTEGER_def is_integral_def)
qed

lemmas wit_compare =
  sameAuthority_def regresses_def authorityChanged_def authority_fields_def undef_def ws_def
  V3_AUTHORITY_FIELDS_def V2_AUTHORITY_FIELDS_def LEASE_IDENTITY_FIELDS_def GENERATION_FIELDS_def
  wit_reads wit_stale_reads wit_legacy_reads

lemma wit_adopt_legacy:
  "adoptBinding wit_legacy wit_R1 =
     Inr (True, emit ''adopt'' ''succeeded'' None wit_legacy None None (wit_R1\<lparr>authorities := [(js ''w'', wit_legacy)]\<rparr>))"
proof -
  have "\<not> sameAuthority wit_authority wit_legacy" "\<not> regresses wit_authority wit_legacy"
    "\<not> authorityChanged wit_authority wit_legacy" "ws wit_legacy = js ''w''"
    by (simp_all add: wit_compare)
  then show ?thesis
    by (simp add: adoptBinding_def wit_legacy_required Let_def wit_R1_def wit_R0_def wit_reads wit_legacy_reads
        invalidate_activity_def fence_of_def entry_of_def emit_def)
qed

lemma wit_adopt_stale:
  "adoptBinding wit_stale (R\<lparr>authorities := [(js ''w'', wit_legacy)], activities := []\<rparr>) =
     Inr (True, emit ''adopt'' ''succeeded'' None wit_stale None None
       (R\<lparr>authorities := [(js ''w'', wit_stale)], activities := []\<rparr>))"
proof -
  have "\<not> sameAuthority wit_legacy wit_stale" "\<not> regresses wit_legacy wit_stale" "ws wit_stale = js ''w''"
    by (simp_all add: wit_compare)
  then show ?thesis
    by (simp add: adoptBinding_def wit_stale_required Let_def wit_reads wit_stale_reads wit_legacy_reads
        invalidate_activity_def fence_of_def entry_of_def emit_def)
qed


end
