(* ===== verification/Reservations.thy ===== *)
theory Reservations
  imports Lease_Registry
begin

text \<open>
  The reservations that a request takes out before it may run:
  \<^item> \<^verbatim>\<open>daemon/src/request-id-fence.js\<close>: one reservation per request id, handed out as a
    closure that releases it;
  \<^item> \<^verbatim>\<open>bot/src/invocation-ownership.js\<close>: one active invocation per channel and user,
    handed out as an object;
  \<^item> \<^verbatim>\<open>daemon/src/admission-budget.js\<close> and \<^verbatim>\<open>daemon/src/admission-headroom.js\<close>: the
    number of invocations in flight and the memory they may need;
  \<^item> \<^verbatim>\<open>daemon/src/binding-fence.js\<close>: the disposal of requests of a replaced binding.

  Closures and objects are named by the order in which they were created; two of them are
  the same one exactly when these numbers are equal.
\<close>

section \<open>The request id fence\<close>

record request_fence =
  reservations :: "(jsstr \<times> nat) list"
  closures :: "(jsstr \<times> bool) list"

definition new_fence :: request_fence where
  "new_fence = \<lparr>reservations = [], closures = []\<rparr>"

definition tryAcquire :: "jsstr \<Rightarrow> request_fence \<Rightarrow> nat option \<times> request_fence" where
  "tryAcquire requestId F =
     (if mhas requestId (reservations F) then (None, F)
      else let token = length (closures F) in
        (Some token, F\<lparr>reservations := mput requestId token (reservations F),
                       closures := closures F @ [(requestId, False)]\<rparr>))"

definition release_request :: "nat \<Rightarrow> request_fence \<Rightarrow> request_fence" where
  "release_request h F =
     (let (requestId, released) = closures F ! h in
      if released then F
      else let F1 = F\<lparr>closures := (closures F)[h := (requestId, True)]\<rparr> in
        if map_of (reservations F1) requestId = Some h
        then F1\<lparr>reservations := mdel requestId (reservations F1)\<rparr> else F1)"

definition fence_has :: "jsstr \<Rightarrow> request_fence \<Rightarrow> bool" where
  "fence_has requestId F = mhas requestId (reservations F)"

definition fence_size :: "request_fence \<Rightarrow> nat" where
  "fence_size F = length (reservations F)"

section \<open>Invocation ownership\<close>

record ownership =
  o_key :: jsstr
  o_hostId :: jsstr
  o_requestId :: "jsstr option"

record invocation_ownership =
  o_entries :: "(jsstr \<times> nat) list"
  o_objects :: "ownership list"

definition new_ownership :: invocation_ownership where
  "new_ownership = \<lparr>o_entries = [], o_objects = []\<rparr>"

definition ownership_key :: "jsstr \<Rightarrow> jsstr \<Rightarrow> jsstr" where
  "ownership_key channelId userId = channelId @ js '':'' @ userId"

definition reserve_invocation ::
  "jsstr \<times> jsstr \<times> jsstr \<Rightarrow> invocation_ownership \<Rightarrow> nat option \<times> invocation_ownership" where
  "reserve_invocation args I =
     (let (channelId, userId, hostId) = args; key = ownership_key channelId userId in
      if mhas key (o_entries I) then (None, I)
      else let n = length (o_objects I) in
        (Some n, I\<lparr>o_entries := mput key n (o_entries I),
                   o_objects := o_objects I @ [\<lparr>o_key = key, o_hostId = hostId, o_requestId = None\<rparr>]\<rparr>))"

text \<open>The argument of the two methods below is an ownership object or \<open>undefined\<close>.  On
  \<open>undefined\<close> the lookup \<open>entries.get(ownership?.key)\<close> is \<open>undefined\<close> too, so the guard
  does not fire and the property access after it throws.\<close>

definition undefined_access :: js_error where
  "undefined_access = TypeError (js ''Cannot read properties of undefined'')"

definition attachRequest ::
  "nat option \<Rightarrow> jsstr \<Rightarrow> invocation_ownership \<Rightarrow> js_error + bool \<times> invocation_ownership" where
  "attachRequest ownership requestId I =
     (case ownership of
        None \<Rightarrow> Inl undefined_access
      | Some n \<Rightarrow>
          if map_of (o_entries I) (o_key (o_objects I ! n)) \<noteq> Some n then Inr (False, I)
          else Inr (True, I\<lparr>o_objects := (o_objects I)[n := (o_objects I ! n)\<lparr>o_requestId := Some requestId\<rparr>]\<rparr>))"

definition get_invocation :: "jsstr \<Rightarrow> jsstr \<Rightarrow> invocation_ownership \<Rightarrow> ownership option" where
  "get_invocation channelId userId I =
     map_option (\<lambda>n. o_objects I ! n) (map_of (o_entries I) (ownership_key channelId userId))"

definition release_invocation ::
  "nat option \<Rightarrow> invocation_ownership \<Rightarrow> js_error + bool \<times> invocation_ownership" where
  "release_invocation ownership I =
     (case ownership of
        None \<Rightarrow> Inl undefined_access
      | Some n \<Rightarrow>
          let key = o_key (o_objects I ! n) in
          if map_of (o_entries I) key \<noteq> Some n then Inr (False, I)
          else Inr (True, I\<lparr>o_entries := mdel key (o_entries I)\<rparr>))"

section \<open>The admission budget\<close>

definition DEFAULT_MAX_IN_FLIGHT_INVOKES :: nat where
  "DEFAULT_MAX_IN_FLIGHT_INVOKES = 64"

record admission_budget =
  maxInFlightInvokes :: int
  inFlightInvokes :: int
  b_released :: "bool list"
  b_denied :: nat

definition new_budget :: "jsval \<Rightarrow> js_error + admission_budget" where
  "new_budget maxInFlight =
     check (positive_limit maxInFlight) (TypeError (js ''maxInFlightInvokes must be a positive safe integer''))
       (Inr \<lparr>maxInFlightInvokes = int_of maxInFlight, inFlightInvokes = 0, b_released = [], b_denied = 0\<rparr>)"

definition tryAcquireInvoke :: "admission_budget \<Rightarrow> nat option \<times> admission_budget" where
  "tryAcquireInvoke B =
     (if maxInFlightInvokes B \<le> inFlightInvokes B then (None, B\<lparr>b_denied := b_denied B + 1\<rparr>)
      else (Some (length (b_released B)),
            B\<lparr>inFlightInvokes := inFlightInvokes B + 1, b_released := b_released B @ [False]\<rparr>))"

definition releaseInvoke :: "nat \<Rightarrow> admission_budget \<Rightarrow> admission_budget" where
  "releaseInvoke h B =
     (if b_released B ! h then B
      else B\<lparr>b_released := (b_released B)[h := True], inFlightInvokes := inFlightInvokes B - 1\<rparr>)"

definition budget_snapshot :: "admission_budget \<Rightarrow> int \<times> int" where
  "budget_snapshot B = (inFlightInvokes B, maxInFlightInvokes B)"

section \<open>Memory headroom\<close>

definition DEFAULT_MAX_SESSIONS :: nat where
  "DEFAULT_MAX_SESSIONS = 8"

record admission_ceilings =
  c_maxActiveWorkspaces :: nat
  c_maxSessions :: nat
  c_maxInFlightInvokes :: nat

definition ADMISSION_CEILINGS :: admission_ceilings where
  "ADMISSION_CEILINGS = \<lparr>c_maxActiveWorkspaces = DEFAULT_MAX_ACTIVE_WORKSPACES,
     c_maxSessions = DEFAULT_MAX_SESSIONS, c_maxInFlightInvokes = DEFAULT_MAX_IN_FLIGHT_INVOKES\<rparr>"

definition PER_SESSION_MEMORY_ESTIMATE_MB :: nat where
  "PER_SESSION_MEMORY_ESTIMATE_MB = 512"

definition PER_INVOKE_MEMORY_ESTIMATE_MB :: nat where
  "PER_INVOKE_MEMORY_ESTIMATE_MB = 32"

definition FIXED_DAEMON_BASELINE_MB :: nat where
  "FIXED_DAEMON_BASELINE_MB = 256"

definition CGROUP_MEMORY_HEADROOM_RATIO :: rat where
  "CGROUP_MEMORY_HEADROOM_RATIO = 5 / 4"

definition worstCaseWorkloadMemoryMb :: nat where
  "worstCaseWorkloadMemoryMb =
     c_maxSessions ADMISSION_CEILINGS * PER_SESSION_MEMORY_ESTIMATE_MB +
     c_maxInFlightInvokes ADMISSION_CEILINGS * PER_INVOKE_MEMORY_ESTIMATE_MB + FIXED_DAEMON_BASELINE_MB"

definition cgroupMemoryMinimumMb :: int where
  "cgroupMemoryMinimumMb = \<lceil>of_nat worstCaseWorkloadMemoryMb * CGROUP_MEMORY_HEADROOM_RATIO\<rceil>"

section \<open>Requests of a replaced binding\<close>

record in_flight =
  f_connection :: nat
  f_bindingId :: jsval
  f_session :: nat

text \<open>The requests that match are disposed of in map order and deleted from the map; the
  disposed sessions are returned.\<close>

fun invalidate_requests ::
  "(jsstr \<times> in_flight) list \<Rightarrow> nat \<Rightarrow> jsval \<Rightarrow> (jsstr \<times> in_flight) list \<Rightarrow> nat list \<times> (jsstr \<times> in_flight) list" where
  "invalidate_requests [] conn bindingId m = ([], m)"
| "invalidate_requests ((requestId, r) # rest) conn bindingId m =
     (if f_connection r \<noteq> conn \<or> \<not> js_eq (f_bindingId r) bindingId
      then invalidate_requests rest conn bindingId m
      else let (ds, m') = invalidate_requests rest conn bindingId (mdel requestId m) in (f_session r # ds, m'))"

definition invalidateBindingRequests ::
  "(jsstr \<times> in_flight) list \<Rightarrow> nat \<Rightarrow> jsval \<Rightarrow> nat list \<times> (jsstr \<times> in_flight) list" where
  "invalidateBindingRequests m conn bindingId = invalidate_requests m conn bindingId m"

section \<open>The reservation contract\<close>

text \<open>What both keyed reservations promise, over an abstract map from keys to holders: a free
  key is granted to a holder never used before, a taken key is refused, and freeing a
  holder removes exactly the key it still holds.\<close>

locale reservation =
  fixes keyof :: "'a \<Rightarrow> 'k"
    and acquire :: "'a \<Rightarrow> 's \<Rightarrow> nat option \<times> 's"
    and free :: "nat \<Rightarrow> 's \<Rightarrow> 's"
    and held :: "'s \<Rightarrow> 'k \<rightharpoonup> nat"
    and issued :: "'s \<Rightarrow> nat"
    and good :: "'s \<Rightarrow> bool"
  assumes acquire_taken: "good s \<Longrightarrow> held s (keyof a) \<noteq> None \<Longrightarrow> acquire a s = (None, s)"
    and acquire_open: "good s \<Longrightarrow> held s (keyof a) = None \<Longrightarrow> acquire a s = (r, s') \<Longrightarrow>
      r = Some (issued s) \<and> good s' \<and> held s' = (held s)(keyof a \<mapsto> issued s) \<and> issued s' = Suc (issued s)"
    and free_effect: "good s \<Longrightarrow> h < issued s \<Longrightarrow>
      good (free h s) \<and> issued (free h s) = issued s \<and> held (free h s) = (\<lambda>k. if held s k = Some h then None else held s k)"
    and held_issued: "good s \<Longrightarrow> held s k = Some h \<Longrightarrow> h < issued s"

text \<open>The specification that the contract implements: the map and the number of holders.\<close>

datatype 'a reservation_op = Acquire 'a | Free nat

definition spec_acquire :: "'k \<Rightarrow> ('k \<rightharpoonup> nat) \<times> nat \<Rightarrow> nat option \<times> ('k \<rightharpoonup> nat) \<times> nat" where
  "spec_acquire k S = (let (m, n) = S in
     if m k \<noteq> None then (None, S) else (Some n, (m(k \<mapsto> n), Suc n)))"

definition spec_free :: "nat \<Rightarrow> ('k \<rightharpoonup> nat) \<times> nat \<Rightarrow> ('k \<rightharpoonup> nat) \<times> nat" where
  "spec_free h S = (let (m, n) = S in (\<lambda>k. if m k = Some h then None else m k, n))"

text \<open>A client drives a reservation by a list of operations; it can free a holder only when it
  was handed out.\<close>

fun drive :: "('a \<Rightarrow> 's \<Rightarrow> nat option \<times> 's) \<Rightarrow> (nat \<Rightarrow> 's \<Rightarrow> 's) \<Rightarrow> ('s \<Rightarrow> nat) \<Rightarrow> 'a reservation_op list \<Rightarrow> 's \<Rightarrow>
    nat option list \<times> 's" where
  "drive acq fre iss [] s = ([], s)"
| "drive acq fre iss (Acquire a # ops) s =
     (let (r, s1) = acq a s; (rs, s2) = drive acq fre iss ops s1 in (r # rs, s2))"
| "drive acq fre iss (Free h # ops) s = drive acq fre iss ops (if h < iss s then fre h s else s)"

definition spec_drive :: "('a \<Rightarrow> 'k) \<Rightarrow> 'a reservation_op list \<Rightarrow> ('k \<rightharpoonup> nat) \<times> nat \<Rightarrow>
    nat option list \<times> ('k \<rightharpoonup> nat) \<times> nat" where
  "spec_drive key = drive (\<lambda>a. spec_acquire (key a)) spec_free snd"

lemma spec_drive_simps [simp]:
  "spec_drive key [] S = ([], S)"
  "spec_acquire (key a) S = (r, S1) \<Longrightarrow> spec_drive key ops S1 = (rs, S2) \<Longrightarrow>
     spec_drive key (Acquire a # ops) S = (r # rs, S2)"
  "spec_drive key (Free h # ops) S = spec_drive key ops (if h < snd S then spec_free h S else S)"
  by (simp_all add: spec_drive_def)

context reservation
begin

definition absn :: "'s \<Rightarrow> ('k \<rightharpoonup> nat) \<times> nat" where
  "absn s = (held s, issued s)"

lemma acquire_refines:
  assumes "good s"
  shows "map_prod id absn (acquire a s) = spec_acquire (keyof a) (absn s) \<and> good (snd (acquire a s))"
proof (cases "held s (keyof a)")
  case None
  obtain r s' where e: "acquire a s = (r, s')" by force
  from acquire_open [OF assms None e] show ?thesis by (simp add: e spec_acquire_def absn_def None)
next
  case (Some h)
  then show ?thesis using acquire_taken [OF assms, of a] assms by (simp add: spec_acquire_def absn_def)
qed

lemma free_refines: "good s \<Longrightarrow> h < issued s \<Longrightarrow> absn (free h s) = spec_free h (absn s) \<and> good (free h s)"
  using free_effect [of s h] by (simp add: spec_free_def absn_def)

lemma drive_refines:
  "good s \<Longrightarrow> map_prod id absn (drive acquire free issued ops s) = spec_drive keyof ops (absn s) \<and>
     good (snd (drive acquire free issued ops s))"
proof (induction ops arbitrary: s)
  case (Cons op ops)
  show ?case
  proof (cases op)
    case (Acquire a)
    obtain r s1 where e: "acquire a s = (r, s1)" by force
    obtain rs s2 where d: "drive acquire free issued ops s1 = (rs, s2)" by force
    have "spec_acquire (keyof a) (absn s) = (r, absn s1)" "good s1"
      using acquire_refines [OF Cons.prems, of a] e by simp_all
    moreover from this have "spec_drive keyof ops (absn s1) = (rs, absn s2)" "good s2"
      using Cons.IH [of s1] d by simp_all
    ultimately show ?thesis using e d Acquire by simp
  next
    case (Free h)
    have "snd (absn s) = issued s" by (simp add: absn_def)
    then show ?thesis
      using Cons.IH [of "if h < issued s then free h s else s"] free_refines [OF Cons.prems, of h] Cons.prems Free
      by (cases "h < issued s") simp_all
  qed
qed simp

lemma stale_free:
  assumes "good s" and "h < issued s" and "\<forall>k. held s k \<noteq> Some h"
  shows "held (free h s) = held s"
  using free_effect [OF assms(1,2)] assms(3) by auto

end

section \<open>Both reservations satisfy the contract\<close>

lemma map_of_mdel_holder:
  assumes "map_of m k = Some h" and "\<And>x. map_of m x = Some h \<Longrightarrow> x = k"
  shows "map_of (mdel k m) = (\<lambda>x. if map_of m x = Some h then None else map_of m x)"
proof (rule ext)
  fix x
  show "map_of (mdel k m) x = (if map_of m x = Some h then None else map_of m x)"
    using assms(1) assms(2) [of x] by (cases "x = k") (auto simp del: map_of_eq_Some_iff)
qed

definition fence_ok :: "request_fence \<Rightarrow> bool" where
  "fence_ok F \<longleftrightarrow> wf_map (reservations F) \<and>
     (\<forall>k h. map_of (reservations F) k = Some h \<longrightarrow> h < length (closures F) \<and> closures F ! h = (k, False))"

lemma fence_okD:
  assumes "fence_ok F" and "map_of (reservations F) k = Some h"
  shows "h < length (closures F)" "closures F ! h = (k, False)"
  using assms by (simp_all add: fence_ok_def del: map_of_eq_Some_iff)

lemma fence_okI:
  assumes "wf_map (reservations F)"
    and "\<And>k h. map_of (reservations F) k = Some h \<Longrightarrow> h < length (closures F) \<and> closures F ! h = (k, False)"
  shows "fence_ok F"
  using assms by (simp add: fence_ok_def del: map_of_eq_Some_iff)

lemma fence_ok_wf: "fence_ok F \<Longrightarrow> wf_map (reservations F)"
  by (simp add: fence_ok_def)

lemma fence_ok_acquire:
  assumes "fence_ok F" and "\<not> mhas k (reservations F)"
  shows "fence_ok (F\<lparr>reservations := mput k (length (closures F)) (reservations F), closures := closures F @ [(k, False)]\<rparr>)"
proof (rule fence_okI)
  fix x h
  let ?F = "F\<lparr>reservations := mput k (length (closures F)) (reservations F), closures := closures F @ [(k, False)]\<rparr>"
  assume "map_of (reservations ?F) x = Some h"
  then show "h < length (closures ?F) \<and> closures ?F ! h = (x, False)"
    using fence_okD [OF assms(1), of x h] by (cases "x = k") (simp_all add: nth_append del: map_of_eq_Some_iff)
qed (simp add: fence_ok_wf [OF assms(1)])

lemma fence_ok_release:
  assumes ok: "fence_ok F" and h: "h < length (closures F)"
  shows "fence_ok (release_request h F) \<and> length (closures (release_request h F)) = length (closures F) \<and>
    map_of (reservations (release_request h F)) =
      (\<lambda>x. if map_of (reservations F) x = Some h then None else map_of (reservations F) x)"
proof -
  obtain k rel where c: "closures F ! h = (k, rel)" by force
  have own: "x = k" "\<not> rel" if "map_of (reservations F) x = Some h" for x
    using fence_okD(2) [OF ok that] c by simp_all
  show ?thesis
  proof (cases "map_of (reservations F) k = Some h")
    case True
    let ?F = "F\<lparr>closures := (closures F)[h := (k, True)], reservations := mdel k (reservations F)\<rparr>"
    have r: "release_request h F = ?F"
      using True own(2) [OF True] by (simp add: release_request_def Let_def c del: map_of_eq_Some_iff)
    have "fence_ok ?F"
    proof (rule fence_okI)
      fix x g
      assume "map_of (reservations ?F) x = Some g"
      then have "x \<noteq> k" "map_of (reservations F) x = Some g" by (auto split: if_splits simp del: map_of_eq_Some_iff)
      then show "g < length (closures ?F) \<and> closures ?F ! g = (x, False)"
        using fence_okD [OF ok, of x g] c by (cases "g = h") simp_all
    qed (simp add: fence_ok_wf [OF ok])
    moreover have "map_of (mdel k (reservations F)) =
        (\<lambda>x. if map_of (reservations F) x = Some h then None else map_of (reservations F) x)"
      by (rule map_of_mdel_holder [OF True own(1)])
    ultimately show ?thesis by (simp add: r del: map_of_mdel map_of_eq_Some_iff)
  next
    case False
    then have none: "map_of (reservations F) x \<noteq> Some h" for x using own(1) [of x] by metis
    have res: "reservations (release_request h F) = reservations F"
      and cl: "closures (release_request h F) = (if rel then closures F else (closures F)[h := (k, True)])"
      using False by (simp_all add: release_request_def Let_def c del: map_of_eq_Some_iff)
    have "fence_ok (release_request h F)"
    proof (rule fence_okI)
      fix x g
      assume "map_of (reservations (release_request h F)) x = Some g"
      then have m: "map_of (reservations F) x = Some g" by (simp only: res)
      then have "g \<noteq> h" using none by blast
      with fence_okD [OF ok m] show "g < length (closures (release_request h F)) \<and> closures (release_request h F) ! g = (x, False)"
        by (simp add: cl)
    qed (simp add: res fence_ok_wf [OF ok])
    then show ?thesis by (simp add: res cl none del: map_of_eq_Some_iff)
  qed
qed

interpretation request_ids: reservation id tryAcquire release_request "\<lambda>F. map_of (reservations F)"
    "\<lambda>F. length (closures F)" fence_ok
proof unfold_locales
  fix F :: request_fence and k r F'
  assume ok: "fence_ok F" and none: "map_of (reservations F) (id k) = None" and acq: "tryAcquire k F = (r, F')"
  have new: "\<not> mhas k (reservations F)" using none by (simp add: mhas_map_of)
  then show "r = Some (length (closures F)) \<and> fence_ok F' \<and>
    map_of (reservations F') = (map_of (reservations F))(id k \<mapsto> length (closures F)) \<and>
    length (closures F') = Suc (length (closures F))"
    using fence_ok_acquire [OF ok new] acq by (auto simp: tryAcquire_def Let_def fun_eq_iff)
qed (auto simp: tryAcquire_def mhas_map_of fence_ok_release fence_okD simp del: map_of_eq_Some_iff)

text \<open>The client of the ownership table always passes the object that \<open>reserve\<close> returned.\<close>

definition free_invocation :: "nat \<Rightarrow> invocation_ownership \<Rightarrow> invocation_ownership" where
  "free_invocation n I = (case release_invocation (Some n) I of Inr (_, I') \<Rightarrow> I' | Inl _ \<Rightarrow> I)"

definition ownership_ok :: "invocation_ownership \<Rightarrow> bool" where
  "ownership_ok I \<longleftrightarrow> wf_map (o_entries I) \<and>
     (\<forall>k n. map_of (o_entries I) k = Some n \<longrightarrow> n < length (o_objects I) \<and> o_key (o_objects I ! n) = k)"

abbreviation request_key :: "jsstr \<times> jsstr \<times> jsstr \<Rightarrow> jsstr" where
  "request_key args \<equiv> (case args of (channelId, userId, _) \<Rightarrow> ownership_key channelId userId)"

lemma ownership_okD:
  assumes "ownership_ok I" and "map_of (o_entries I) k = Some n"
  shows "n < length (o_objects I)" "o_key (o_objects I ! n) = k"
  using assms by (simp_all add: ownership_ok_def del: map_of_eq_Some_iff)

lemma ownership_okI:
  assumes "wf_map (o_entries I)"
    and "\<And>k n. map_of (o_entries I) k = Some n \<Longrightarrow> n < length (o_objects I) \<and> o_key (o_objects I ! n) = k"
  shows "ownership_ok I"
  using assms by (simp add: ownership_ok_def del: map_of_eq_Some_iff)

lemma ownership_ok_wf: "ownership_ok I \<Longrightarrow> wf_map (o_entries I)"
  by (simp add: ownership_ok_def)

lemma ownership_ok_reserve:
  assumes "ownership_ok I" and "o_key obj = k"
  shows "ownership_ok (I\<lparr>o_entries := mput k (length (o_objects I)) (o_entries I), o_objects := o_objects I @ [obj]\<rparr>)"
proof (rule ownership_okI)
  fix x n
  let ?I = "I\<lparr>o_entries := mput k (length (o_objects I)) (o_entries I), o_objects := o_objects I @ [obj]\<rparr>"
  assume "map_of (o_entries ?I) x = Some n"
  then show "n < length (o_objects ?I) \<and> o_key (o_objects ?I ! n) = x"
    using ownership_okD [OF assms(1), of x n] assms(2)
    by (cases "x = k") (simp_all add: nth_append del: map_of_eq_Some_iff)
qed (simp add: ownership_ok_wf [OF assms(1)])

lemma ownership_ok_delete:
  assumes "ownership_ok I"
  shows "ownership_ok (I\<lparr>o_entries := mdel k (o_entries I)\<rparr>)"
  using ownership_okD [OF assms] ownership_ok_wf [OF assms]
  by (intro ownership_okI) (auto simp del: map_of_eq_Some_iff split: if_splits)

lemma free_invocation_effect:
  assumes "ownership_ok I"
  shows "ownership_ok (free_invocation n I) \<and> length (o_objects (free_invocation n I)) = length (o_objects I) \<and>
    map_of (o_entries (free_invocation n I)) =
      (\<lambda>x. if map_of (o_entries I) x = Some n then None else map_of (o_entries I) x)"
proof (cases "map_of (o_entries I) (o_key (o_objects I ! n)) = Some n")
  case True
  then have "free_invocation n I = I\<lparr>o_entries := mdel (o_key (o_objects I ! n)) (o_entries I)\<rparr>"
    by (simp add: free_invocation_def release_invocation_def Let_def del: map_of_eq_Some_iff)
  moreover have "map_of (mdel (o_key (o_objects I ! n)) (o_entries I)) =
      (\<lambda>x. if map_of (o_entries I) x = Some n then None else map_of (o_entries I) x)"
    by (rule map_of_mdel_holder [OF True]) (rule ownership_okD(2) [OF assms, symmetric])
  ultimately show ?thesis
    using ownership_ok_delete [OF assms] by (simp del: map_of_mdel map_of_eq_Some_iff)
next
  case False
  then have same: "free_invocation n I = I"
    by (simp add: free_invocation_def release_invocation_def Let_def del: map_of_eq_Some_iff)
  have "map_of (o_entries I) x \<noteq> Some n" for x
    using ownership_okD(2) [OF assms, of x n] False by metis
  with same assms show ?thesis by (simp del: map_of_eq_Some_iff)
qed

interpretation invocations: reservation request_key reserve_invocation free_invocation "\<lambda>I. map_of (o_entries I)"
    "\<lambda>I. length (o_objects I)" ownership_ok
proof unfold_locales
  fix I :: invocation_ownership and args r I'
  assume ok: "ownership_ok I" and none: "map_of (o_entries I) (request_key args) = None"
    and acq: "reserve_invocation args I = (r, I')"
  obtain c u h where a: "args = (c, u, h)" by (cases args)
  have new: "\<not> mhas (ownership_key c u) (o_entries I)" using none a by (simp add: mhas_map_of)
  then show "r = Some (length (o_objects I)) \<and> ownership_ok I' \<and>
    map_of (o_entries I') = (map_of (o_entries I))(request_key args \<mapsto> length (o_objects I)) \<and>
    length (o_objects I') = Suc (length (o_objects I))"
    using ownership_ok_reserve [OF ok, of "\<lparr>o_key = ownership_key c u, o_hostId = h, o_requestId = None\<rparr>"] acq a
    by (auto simp: reserve_invocation_def Let_def fun_eq_iff)
qed (auto simp: reserve_invocation_def mhas_map_of free_invocation_effect ownership_okD
      simp del: map_of_eq_Some_iff split: prod.splits)

section \<open>Properties\<close>

text \<open>C10. Driven by any sequence of acquisitions and releases, the request id fence answers as
  the map from request ids to holders does: a request id is granted exactly when no
  unreleased holder has it, a holder released late or twice never frees the reservation of
  a later one, and no holder is handed out twice.\<close>

theorem request_fence_refines:
  "map_prod id (\<lambda>F. (map_of (reservations F), length (closures F)))
     (drive tryAcquire release_request (\<lambda>F. length (closures F)) ops new_fence) = spec_drive id ops (Map.empty, 0)"
proof -
  have "fence_ok new_fence" by (rule fence_okI) (simp_all add: new_fence_def)
  from request_ids.drive_refines [OF this, of ops] show ?thesis
    by (simp add: request_ids.absn_def [abs_def] new_fence_def)
qed

text \<open>Relabelling the keys of a specification by a function that is injective on the keys in
  use does not change its answers.\<close>

fun op_keys :: "('a \<Rightarrow> 'k) \<Rightarrow> 'a reservation_op list \<Rightarrow> 'k set" where
  "op_keys key [] = {}"
| "op_keys key (Acquire a # ops) = insert (key a) (op_keys key ops)"
| "op_keys key (Free _ # ops) = op_keys key ops"

lemma spec_relabel:
  assumes "inj_on g K" and "op_keys key ops \<subseteq> K" and "\<And>k. k \<in> K \<Longrightarrow> m' (g k) = m k"
  shows "fst (spec_drive (\<lambda>a. g (key a)) ops (m', n)) = fst (spec_drive key ops (m, n))"
  using assms(2,3)
proof (induction ops arbitrary: m m' n)
  case (Cons op ops)
  show ?case
  proof (cases op)
    case (Acquire a)
    then have k: "key a \<in> K" and sub: "op_keys key ops \<subseteq> K" using Cons.prems(1) by auto
    show ?thesis
    proof (cases "m (key a)")
      case None
      have upd: "(m'(g (key a) \<mapsto> n)) (g x) = (m(key a \<mapsto> n)) x" if "x \<in> K" for x
        using Cons.prems(2) [OF that] inj_onD [OF assms(1) _ that k] by auto
      show ?thesis
        using Cons.IH [of "m'(g (key a) \<mapsto> n)" "m(key a \<mapsto> n)" "Suc n", OF sub upd] None Cons.prems(2) [OF k] Acquire
        by (simp add: spec_drive_def spec_acquire_def case_prod_beta fun_upd_def)
    next
      case (Some h)
      then show ?thesis
        using Cons.IH [of m' m n, OF sub Cons.prems(2)] Cons.prems(2) [OF k] Acquire
        by (simp add: spec_drive_def spec_acquire_def case_prod_beta)
    qed
  next
    case (Free h)
    then have sub: "op_keys key ops \<subseteq> K" using Cons.prems(1) by auto
    have upd: "(\<lambda>x. if m' x = Some h then None else m' x) (g x) = (\<lambda>x. if m x = Some h then None else m x) x"
      if "x \<in> K" for x
      using Cons.prems(2) [OF that] by simp
    show ?thesis
      using Cons.IH [of "\<lambda>x. if m' x = Some h then None else m' x" "\<lambda>x. if m x = Some h then None else m x" n, OF sub upd] Cons.IH [of m' m n, OF sub Cons.prems(2)] Free
      by (simp add: spec_free_def)
  qed
qed simp

lemma append_sep_inject:
  "x \<notin> set a \<Longrightarrow> x \<notin> set b \<Longrightarrow> a @ x # c = b @ x # d \<longleftrightarrow> a = b \<and> c = d"
proof (induction a arbitrary: b)
  case Nil
  then show ?case by (cases b) auto
next
  case (Cons y a)
  then show ?case by (cases b) auto
qed

lemma digits_no_colon: "list_all is_digit s \<Longrightarrow> 0x3a \<notin> set s"
  by (auto simp: list_all_iff is_digit_def)

lemma ownership_key_inject:
  "list_all is_digit c \<Longrightarrow> list_all is_digit c' \<Longrightarrow> ownership_key c u = ownership_key c' u' \<longleftrightarrow> c = c' \<and> u = u'"
  by (simp add: ownership_key_def js_def append_sep_inject digits_no_colon)

definition snowflakes :: "(jsstr \<times> jsstr \<times> jsstr) reservation_op \<Rightarrow> bool" where
  "snowflakes op = (case op of Acquire (c, u, _) \<Rightarrow> list_all is_digit c \<and> list_all is_digit u | Free _ \<Rightarrow> True)"

lemma snowflake_keys:
  "list_all snowflakes ops \<Longrightarrow> op_keys (\<lambda>(c, u, _). (c, u)) ops \<subseteq> {(c, u). list_all is_digit c}"
  by (induction "(\<lambda>(c, u, _). (c, u)) :: jsstr \<times> jsstr \<times> jsstr \<Rightarrow> jsstr \<times> jsstr" ops rule: op_keys.induct)
    (auto simp: snowflakes_def)

text \<open>C28. With channel and user ids that are decimal, as Discord's are, the ownership table
  grants an invocation exactly when that user has no unreleased one in that channel; the
  string key never confuses two different pairs.\<close>

theorem ownership_per_channel_user:
  assumes "list_all snowflakes ops"
  shows "fst (drive reserve_invocation free_invocation (\<lambda>I. length (o_objects I)) ops new_ownership) =
    fst (spec_drive (\<lambda>(c, u, _). (c, u)) ops (Map.empty, 0))"
proof -
  have "ownership_ok new_ownership" by (rule ownership_okI) (simp_all add: new_ownership_def)
  from invocations.drive_refines [OF this, of ops]
  have "fst (drive reserve_invocation free_invocation (\<lambda>I. length (o_objects I)) ops new_ownership) =
      fst (spec_drive request_key ops (Map.empty, 0))"
    by (simp add: invocations.absn_def new_ownership_def prod_eq_iff)
  also have "request_key = (\<lambda>a. case_prod ownership_key ((\<lambda>(c, u, _). (c, u)) a))"
    by auto
  also have "fst (spec_drive \<dots> ops (Map.empty, 0)) = fst (spec_drive (\<lambda>(c, u, _). (c, u)) ops (Map.empty, 0))"
    by (rule spec_relabel [OF _ snowflake_keys [OF assms]])
      (auto simp: inj_on_def ownership_key_inject)
  finally show ?thesis .
qed

theorem ownership_per_channel_user_witness:
  "fst (drive reserve_invocation free_invocation (\<lambda>I. length (o_objects I))
      [Acquire (js ''1'', js ''2'', js ''h''), Acquire (js ''1'', js ''2'', js ''h''), Free 0] new_ownership) =
    fst (spec_drive (\<lambda>(c, u, _). (c, u))
      [Acquire (js ''1'', js ''2'', js ''h''), Acquire (js ''1'', js ''2'', js ''h''), Free 0] (Map.empty, 0))"
  by (rule ownership_per_channel_user) (simp add: snowflakes_def js_def is_digit_def)

subsection \<open>The budget\<close>

definition in_use :: "admission_budget \<Rightarrow> nat" where
  "in_use B = length (filter Not (b_released B))"

definition budget_ok :: "admission_budget \<Rightarrow> bool" where
  "budget_ok B \<longleftrightarrow> inFlightInvokes B = int (in_use B) \<and> inFlightInvokes B \<le> maxInFlightInvokes B"

lemma count_release:
  assumes "h < length rs" and "\<not> rs ! h"
  shows "Suc (length (filter Not (rs[h := True]))) = length (filter Not rs)"
proof -
  have "rs = take h rs @ rs ! h # drop (Suc h) rs" using assms(1) by (rule id_take_nth_drop)
  then have "filter Not rs = filter Not (take h rs) @ False # filter Not (drop (Suc h) rs)"
    using assms(2) by (metis (full_types) filter.simps(2) filter_append)
  then show ?thesis using assms by (simp add: upd_conv_take_nth_drop)
qed

lemma acquire_budget_ok:
  "budget_ok B \<Longrightarrow> budget_ok (snd (tryAcquireInvoke B)) \<and> maxInFlightInvokes (snd (tryAcquireInvoke B)) = maxInFlightInvokes B"
  by (simp add: budget_ok_def tryAcquireInvoke_def in_use_def)

lemma release_budget_ok:
  "budget_ok B \<Longrightarrow> h < length (b_released B) \<Longrightarrow> budget_ok (releaseInvoke h B)"
  "maxInFlightInvokes (releaseInvoke h B) = maxInFlightInvokes B"
  using count_release [of h "b_released B"] by (auto simp: budget_ok_def releaseInvoke_def in_use_def)

abbreviation drive_budget :: "unit reservation_op list \<Rightarrow> admission_budget \<Rightarrow> nat option list \<times> admission_budget" where
  "drive_budget \<equiv> drive (\<lambda>_. tryAcquireInvoke) releaseInvoke (\<lambda>B. length (b_released B))"

lemma drive_budget_ok:
  "budget_ok B \<Longrightarrow> budget_ok (snd (drive_budget ops B)) \<and>
    maxInFlightInvokes (snd (drive_budget ops B)) = maxInFlightInvokes B"
proof (induction ops arbitrary: B)
  case (Cons op ops)
  then show ?case
    using acquire_budget_ok [of B] release_budget_ok(1) [of B] release_budget_ok(2) [of _ B]
    by (cases op) (auto simp: case_prod_beta)
qed simp

text \<open>Whatever invocations come and go, the budget counts exactly the invocations whose
  release closure has not been called, calling a closure twice included; it never exceeds
  its bound, and it admits a further invocation exactly when it is below it.\<close>

theorem budget_accounting:
  assumes "new_budget (JInt m) = Inr B" and "drive_budget ops B = (rs, B')"
  shows "inFlightInvokes B' = int (in_use B') \<and> inFlightInvokes B' \<le> m \<and>
    (fst (tryAcquireInvoke B') \<noteq> None \<longleftrightarrow> int (in_use B') < m)"
proof -
  have "budget_ok B" and m: "maxInFlightInvokes B = m"
    using assms(1) by (auto simp: new_budget_def budget_ok_def in_use_def positive_limit_def)
  from drive_budget_ok [OF this(1), of ops] show ?thesis
    using assms(2) m by (auto simp: budget_ok_def tryAcquireInvoke_def)
qed

theorem budget_accounting_witness:
  "\<exists>B B'. inFlightInvokes B' = int (in_use B') \<and> inFlightInvokes B' \<le> 1 \<and>
    (fst (tryAcquireInvoke B') \<noteq> None \<longleftrightarrow> int (in_use B') < 1) \<and> new_budget (JInt 1) = Inr B \<and>
    drive_budget [Acquire (), Acquire (), Free 0, Free 0] B = ([Some 0, None], B')"
proof -
  let ?B = "\<lparr>maxInFlightInvokes = 1, inFlightInvokes = 0, b_released = [], b_denied = 0\<rparr>"
  have b: "new_budget (JInt 1) = Inr ?B" by (simp add: new_budget_def positive_limit_def MAX_SAFE_INTEGER_def is_integral_def)
  have d: "drive_budget [Acquire (), Acquire (), Free 0, Free 0] ?B =
      ([Some 0, None], \<lparr>maxInFlightInvokes = 1, inFlightInvokes = 0, b_released = [True], b_denied = 1\<rparr>)"
    by (simp add: tryAcquireInvoke_def releaseInvoke_def)
  from budget_accounting [OF b d] b d show ?thesis by blast
qed

text \<open>A daemon with the default ceilings, at most that many sessions and any number of
  admitted invocations in flight stays within four fifths of the cgroup memory limit that
  the module declares as the minimum.\<close>

theorem headroom_sufficient:
  assumes "new_budget (JInt (int DEFAULT_MAX_IN_FLIGHT_INVOKES)) = Inr B" and "drive_budget ops B = (rs, B')"
    and "sessions \<le> c_maxSessions ADMISSION_CEILINGS"
  shows "5 * (int (sessions * PER_SESSION_MEMORY_ESTIMATE_MB) +
      inFlightInvokes B' * int PER_INVOKE_MEMORY_ESTIMATE_MB + int FIXED_DAEMON_BASELINE_MB) \<le> 4 * cgroupMemoryMinimumMb"
proof -
  have "budget_ok B" and m: "maxInFlightInvokes B = int DEFAULT_MAX_IN_FLIGHT_INVOKES"
    using assms(1) by (auto simp: new_budget_def budget_ok_def in_use_def positive_limit_def)
  from drive_budget_ok [OF this(1), of ops] have "inFlightInvokes B' \<le> 64"
    using assms(2) m by (auto simp: budget_ok_def DEFAULT_MAX_IN_FLIGHT_INVOKES_def)
  moreover have "cgroupMemoryMinimumMb = 8000"
    by (simp add: cgroupMemoryMinimumMb_def worstCaseWorkloadMemoryMb_def ADMISSION_CEILINGS_def DEFAULT_MAX_SESSIONS_def
        DEFAULT_MAX_IN_FLIGHT_INVOKES_def PER_SESSION_MEMORY_ESTIMATE_MB_def PER_INVOKE_MEMORY_ESTIMATE_MB_def
        FIXED_DAEMON_BASELINE_MB_def CGROUP_MEMORY_HEADROOM_RATIO_def)
  ultimately show ?thesis
    using assms(3) by (simp add: ADMISSION_CEILINGS_def DEFAULT_MAX_SESSIONS_def PER_SESSION_MEMORY_ESTIMATE_MB_def
        PER_INVOKE_MEMORY_ESTIMATE_MB_def FIXED_DAEMON_BASELINE_MB_def)
qed

theorem headroom_sufficient_witness:
  "5 * (int (8 * PER_SESSION_MEMORY_ESTIMATE_MB) + 1 * int PER_INVOKE_MEMORY_ESTIMATE_MB +
      int FIXED_DAEMON_BASELINE_MB) \<le> 4 * cgroupMemoryMinimumMb"
proof -
  let ?B = "\<lparr>maxInFlightInvokes = 64, inFlightInvokes = 0, b_released = [], b_denied = 0\<rparr>"
  have b: "new_budget (JInt (int DEFAULT_MAX_IN_FLIGHT_INVOKES)) = Inr ?B"
    by (simp add: new_budget_def positive_limit_def MAX_SAFE_INTEGER_def is_integral_def DEFAULT_MAX_IN_FLIGHT_INVOKES_def)
  have d: "drive_budget [Acquire ()] ?B =
      ([Some 0], \<lparr>maxInFlightInvokes = 64, inFlightInvokes = 1, b_released = [False], b_denied = 0\<rparr>)"
    by (simp add: tryAcquireInvoke_def)
  show ?thesis using headroom_sufficient [OF b d, of 8] by (simp add: ADMISSION_CEILINGS_def DEFAULT_MAX_SESSIONS_def)
qed

subsection \<open>Disposal of a binding's requests\<close>

lemma mdel_filter: "mdel k (filter P m) = filter P (mdel k m)"
  by (simp add: mdel_def conj_commute)

abbreviation captured :: "nat \<Rightarrow> jsval \<Rightarrow> jsstr \<times> in_flight \<Rightarrow> bool" where
  "captured conn bindingId p \<equiv> f_connection (snd p) = conn \<and> js_eq (f_bindingId (snd p)) bindingId"

lemma invalidate_requests_eq:
  "wf_map (pre @ rest) \<Longrightarrow> list_all (\<lambda>p. \<not> captured c b p) pre \<Longrightarrow>
   invalidate_requests rest c b (pre @ rest) =
     (map (\<lambda>p. f_session (snd p)) (filter (captured c b) rest), pre @ filter (\<lambda>p. \<not> captured c b p) rest)"
proof (induction rest arbitrary: pre)
  case (Cons p rest)
  obtain k r where p: "p = (k, r)" by force
  show ?case
  proof (cases "captured c b p")
    case True
    have "\<not> mhas k (pre @ rest)" using Cons.prems(1) p by (auto simp: mhas_def)
    then have "mdel k (pre @ p # rest) = pre @ rest"
      using mdel_absent [of k "pre @ rest"] p by (auto simp: mdel_def)
    moreover have "wf_map (pre @ rest)" using Cons.prems(1) by auto
    ultimately show ?thesis using Cons.IH [of pre] Cons.prems(2) True p by simp
  next
    case False
    then show ?thesis using Cons.IH [of "pre @ [p]"] Cons.prems p by auto
  qed
qed (simp add: list_all_iff)

text \<open>Replacing a binding disposes of the session of every request that captured it on that
  connection, in map order and once each, and keeps every other request.\<close>

theorem invalidateBindingRequests_exact:
  assumes "wf_map m"
  shows "invalidateBindingRequests m conn bindingId =
    (map (\<lambda>p. f_session (snd p)) (filter (captured conn bindingId) m), filter (\<lambda>p. \<not> captured conn bindingId p) m)"
  using invalidate_requests_eq [of "[]" m conn bindingId] assms by (simp add: invalidateBindingRequests_def)

theorem invalidateBindingRequests_exact_witness:
  "invalidateBindingRequests
      [(js ''r1'', \<lparr>f_connection = 1, f_bindingId = JLit ''b'', f_session = 7\<rparr>),
       (js ''r2'', \<lparr>f_connection = 2, f_bindingId = JLit ''b'', f_session = 8\<rparr>)] 1 (JLit ''b'') =
    ([7], [(js ''r2'', \<lparr>f_connection = 2, f_bindingId = JLit ''b'', f_session = 8\<rparr>)])"
  using invalidateBindingRequests_exact
    [of "[(js ''r1'', \<lparr>f_connection = 1, f_bindingId = JLit ''b'', f_session = 7\<rparr>),
       (js ''r2'', \<lparr>f_connection = 2, f_bindingId = JLit ''b'', f_session = 8\<rparr>)]" 1 "JLit ''b''"]
  by simp

end
