(* ===== verification/Replay_Window.thy ===== *)
theory Replay_Window
  imports Lease_Registry
begin

text \<open>
  Two boot and admission guards of the daemon:
  \<^item> \<^verbatim>\<open>daemon/src/workspace-readiness-replay-window.js\<close>: the single-use set of readiness
    fingerprints, bounded by age;
  \<^item> \<^verbatim>\<open>daemon/src/workspace-recovery-queue.js\<close>: the bounded batches of boot recovery.

  The injected clock is the argument of each call: the value its reading returns.
\<close>

section \<open>The replay window\<close>

record replay_window =
  w_maxAgeMs :: int
  w_seen :: "(jsstr \<times> rat) list"
  w_lastNowMs :: "rat option"

text \<open>The initial \<open>lastNowMs\<close> is \<open>-Infinity\<close>, here \<open>None\<close>.\<close>

definition window_refuse :: "string \<Rightarrow> js_error" where
  "window_refuse reason = CodedError ''CONFIG_INVALID'' (js ''readiness replay window refused: '' @ js reason)"

definition createReadinessReplayWindow :: "jsval \<Rightarrow> js_error + replay_window" where
  "createReadinessReplayWindow maxAgeMs =
     check (positive_limit maxAgeMs) (window_refuse ''maxAgeMs must be a safe integer >= 1 owned by daemon config'')
       (Inr \<lparr>w_maxAgeMs = int_of maxAgeMs, w_seen = [], w_lastNowMs = None\<rparr>)"

definition readClock :: "jsnum \<Rightarrow> replay_window \<Rightarrow> js_error + rat \<times> replay_window" where
  "readClock raw W =
     (case raw of
        Fin r \<Rightarrow>
          let now = (case w_lastNowMs W of None \<Rightarrow> r | Some l \<Rightarrow> if l < r then r else l)
          in Inr (now, W\<lparr>w_lastNowMs := Some now\<rparr>)
      | _ \<Rightarrow> Inl (window_refuse ''clock.now() must return a finite number''))"

fun evict_seen :: "rat \<Rightarrow> int \<Rightarrow> (jsstr \<times> rat) list \<Rightarrow> (jsstr \<times> rat) list" where
  "evict_seen now maxAge [] = []"
| "evict_seen now maxAge ((fp, t) # rest) =
     (if of_int maxAge < now - t then evict_seen now maxAge rest else (fp, t) # rest)"

definition evict :: "rat \<Rightarrow> replay_window \<Rightarrow> replay_window" where
  "evict now W = W\<lparr>w_seen := evict_seen now (w_maxAgeMs W) (w_seen W)\<rparr>"

definition assertFingerprint :: "jsval \<Rightarrow> js_error + jsstr" where
  "assertFingerprint fp = check (typeof_string fp \<and> str_of fp \<noteq> [])
     (window_refuse ''fingerprint must be a non-empty string'') (Inr (str_of fp))"

definition window_has :: "jsval \<Rightarrow> jsnum \<Rightarrow> replay_window \<Rightarrow> js_error + bool \<times> replay_window" where
  "window_has fp clock W = seq (assertFingerprint fp) (\<lambda>f. seq (readClock clock W) (\<lambda>(now, W1).
     let W2 = evict now W1 in Inr (mhas f (w_seen W2), W2)))"

definition window_add :: "jsval \<Rightarrow> jsnum \<Rightarrow> replay_window \<Rightarrow> js_error + replay_window" where
  "window_add fp clock W = seq (assertFingerprint fp) (\<lambda>f. seq (readClock clock W) (\<lambda>(now, W1).
     let W2 = evict now W1 in
     Inr (if mhas f (w_seen W2) then W2 else W2\<lparr>w_seen := mput f now (w_seen W2)\<rparr>)))"

section \<open>The recovery queue\<close>

definition MAX_RECOVERY_BATCH :: nat where
  "MAX_RECOVERY_BATCH = 8"

definition MAX_RECOVERY_TOTAL :: nat where
  "MAX_RECOVERY_TOTAL = 64"

definition QUEUE_INVALID :: string where
  "QUEUE_INVALID = ''WORKSPACE_RECOVERY_QUEUE_INVALID''"

definition ADMISSION_EXCEEDED :: string where
  "ADMISSION_EXCEEDED = ''WORKSPACE_ADMISSION_EXCEEDED''"

definition queue_refuse :: "string \<Rightarrow> jsstr \<Rightarrow> js_error" where
  "queue_refuse c reason = CodedError c (js ''workspace_recovery_queue: '' @ js c @ js '': '' @ reason)"

definition queue_isId :: "jsval \<Rightarrow> bool" where
  "queue_isId v \<longleftrightarrow> typeof_string v \<and> 0 < length (str_of v) \<and> length (str_of v) \<le> 256"

fun check_ids :: "jsval list \<Rightarrow> jsstr list \<Rightarrow> js_error + unit" where
  "check_ids [] seen = Inr ()"
| "check_ids (v # vs) seen =
     check (queue_isId v) (queue_refuse QUEUE_INVALID (js ''every workspaceId must be a 1..256 char string'')) (
     check (str_of v \<notin> set seen) (queue_refuse QUEUE_INVALID (js ''duplicate workspaceId: '' @ str_of v)) (
     check_ids vs (str_of v # seen)))"

text \<open>\<open>for (index = 0; index < length; index += MAX_RECOVERY_BATCH) push(slice(index, index + MAX))\<close>\<close>

function batches_from :: "nat \<Rightarrow> 'a list \<Rightarrow> 'a list list" where
  "batches_from i xs =
     (if i < length xs then take MAX_RECOVERY_BATCH (drop i xs) # batches_from (i + MAX_RECOVERY_BATCH) xs else [])"
  by pat_completeness auto
termination
  by (relation "measure (\<lambda>(i, xs). length xs - i)") (auto simp: MAX_RECOVERY_BATCH_def)

declare batches_from.simps [simp del]

record recovery_plan =
  totalAdmitted :: nat
  batchCount :: nat
  batches :: "jsstr list list"

definition planRecoveryBatches :: "jsval \<Rightarrow> js_error + recovery_plan" where
  "planRecoveryBatches workspaceIds =
     check (isArray workspaceIds) (queue_refuse QUEUE_INVALID (js ''workspaceIds must be an array'')) (
     let ids = elements workspaceIds in
     seq (check_ids ids []) (\<lambda>_.
     check (length ids \<le> MAX_RECOVERY_TOTAL)
       (queue_refuse ADMISSION_EXCEEDED (js ''recovery admission of '' @ show_nat (length ids) @
          js '' workspaces exceeds the '' @ show_nat MAX_RECOVERY_TOTAL @ js '' ceiling'')) (
     let bs = batches_from 0 (map str_of ids) in
     Inr \<lparr>totalAdmitted = length ids, batchCount = length bs, batches = bs\<rparr>)))"

section \<open>The window refines a set that forgets nothing\<close>

datatype window_op = Has jsval jsnum | Add jsval jsnum

definition window_do :: "window_op \<Rightarrow> replay_window \<Rightarrow> (js_error + bool option) \<times> replay_window" where
  "window_do opn W =
     (case opn of
        Has fp c \<Rightarrow> (case window_has fp c W of Inl e \<Rightarrow> (Inl e, W) | Inr (b, W') \<Rightarrow> (Inr (Some b), W'))
      | Add fp c \<Rightarrow> (case window_add fp c W of Inl e \<Rightarrow> (Inl e, W) | Inr W' \<Rightarrow> (Inr None, W')))"

fun window_run :: "window_op list \<Rightarrow> replay_window \<Rightarrow> (js_error + bool option) list \<times> replay_window" where
  "window_run [] W = ([], W)"
| "window_run (opn # ops) W =
     (let (r, W1) = window_do opn W; (rs, W2) = window_run ops W1 in (r # rs, W2))"

text \<open>The specification remembers the time of every fingerprint for ever and calls one seen
  when it is not older than the bound; the clock is clamped as in the code.\<close>

record window_spec =
  sp_times :: "jsstr \<rightharpoonup> rat"
  sp_last :: "rat option"

definition spec_clock :: "jsnum \<Rightarrow> window_spec \<Rightarrow> rat option" where
  "spec_clock raw S = (case raw of Fin r \<Rightarrow> Some (case sp_last S of None \<Rightarrow> r | Some l \<Rightarrow> max l r) | _ \<Rightarrow> None)"

definition seen_at :: "int \<Rightarrow> rat \<Rightarrow> jsstr \<Rightarrow> window_spec \<Rightarrow> bool" where
  "seen_at maxAge now f S = (case sp_times S f of None \<Rightarrow> False | Some t \<Rightarrow> now - t \<le> of_int maxAge)"

definition spec_do :: "int \<Rightarrow> window_op \<Rightarrow> window_spec \<Rightarrow> (js_error + bool option) \<times> window_spec" where
  "spec_do maxAge opn S =
     (let (fp, c) = (case opn of Has fp c \<Rightarrow> (fp, c) | Add fp c \<Rightarrow> (fp, c)) in
      case assertFingerprint fp of
        Inl e \<Rightarrow> (Inl e, S)
      | Inr f \<Rightarrow>
        (case spec_clock c S of
           None \<Rightarrow> (Inl (window_refuse ''clock.now() must return a finite number''), S)
         | Some now \<Rightarrow>
           (case opn of
              Has _ _ \<Rightarrow> (Inr (Some (seen_at maxAge now f S)), S\<lparr>sp_last := Some now\<rparr>)
            | Add _ _ \<Rightarrow>
                (Inr None, S\<lparr>sp_last := Some now,
                   sp_times := if seen_at maxAge now f S then sp_times S else (sp_times S)(f \<mapsto> now)\<rparr>))))"

fun spec_run :: "int \<Rightarrow> window_op list \<Rightarrow> window_spec \<Rightarrow> (js_error + bool option) list \<times> window_spec" where
  "spec_run maxAge [] S = ([], S)"
| "spec_run maxAge (opn # ops) S =
     (let (r, S1) = spec_do maxAge opn S; (rs, S2) = spec_run maxAge ops S1 in (r # rs, S2))"

text \<open>The invariant: fingerprints are distinct, in the order of their times, and none is later
  than the last reading; the entries that remain are those the specification still counts.\<close>

definition window_ok :: "replay_window \<Rightarrow> bool" where
  "window_ok W \<longleftrightarrow> wf_map (w_seen W) \<and> sorted (map snd (w_seen W)) \<and>
     (case w_lastNowMs W of None \<Rightarrow> w_seen W = [] | Some l \<Rightarrow> list_all (\<lambda>p. snd p \<le> l) (w_seen W))"

definition window_rel :: "replay_window \<Rightarrow> window_spec \<Rightarrow> bool" where
  "window_rel W S \<longleftrightarrow> window_ok W \<and> sp_last S = w_lastNowMs W \<and>
     (\<forall>l. w_lastNowMs W = Some l \<longrightarrow>
        (\<forall>f t. (map_of (w_seen W) f = Some t \<longrightarrow> sp_times S f = Some t) \<and>
               (sp_times S f = Some t \<longrightarrow> l - t \<le> of_int (w_maxAgeMs W) \<longrightarrow> map_of (w_seen W) f = Some t))) \<and>
     (w_lastNowMs W = None \<longrightarrow> sp_times S = Map.empty)"

lemma evict_seen_filter:
  "sorted (map snd m) \<Longrightarrow> evict_seen now maxAge m = filter (\<lambda>p. now - snd p \<le> of_int maxAge) m"
proof (induction now maxAge m rule: evict_seen.induct)
  case (2 now maxAge fp t rest)
  show ?case
  proof (cases "of_int maxAge < now - t")
    case False
    then have "list_all (\<lambda>p. now - snd p \<le> of_int maxAge) rest"
      using "2.prems" by (auto simp: list_all_iff)
    with False show ?thesis by (auto simp: list_all_iff filter_id_conv)
  qed (use 2 in simp)
qed simp

lemma map_of_filter_value:
  "wf_map m \<Longrightarrow> map_of (filter (\<lambda>p. P (snd p)) m) k = (case map_of m k of None \<Rightarrow> None | Some v \<Rightarrow> if P v then Some v else None)"
proof (induction m)
  case (Cons p m)
  then have "fst p = k \<Longrightarrow> map_of m k = None" by (auto simp: map_of_eq_None_iff)
  with Cons show ?case by (cases p) (auto split: option.splits)
qed simp

lemma window_evicted:
  assumes "window_ok W" and "\<And>l. w_lastNowMs W = Some l \<Longrightarrow> l \<le> now"
  shows "window_ok (evict now (W\<lparr>w_lastNowMs := Some now\<rparr>))"
    and "map_of (w_seen (evict now (W\<lparr>w_lastNowMs := Some now\<rparr>))) f =
      (case map_of (w_seen W) f of None \<Rightarrow> None | Some t \<Rightarrow> if now - t \<le> of_int (w_maxAgeMs W) then Some t else None)"
    and "list_all (\<lambda>p. snd p \<le> now) (w_seen (evict now (W\<lparr>w_lastNowMs := Some now\<rparr>)))"
proof -
  have so: "sorted (map snd (w_seen W))" and wf: "wf_map (w_seen W)" using assms(1) by (simp_all add: window_ok_def)
  have le: "list_all (\<lambda>p. snd p \<le> now) (w_seen W)"
    using assms by (auto simp: window_ok_def list_all_iff split: option.splits)
  have "sorted (map snd (filter P (w_seen W)))" for P using so by (rule sorted_filter)
  moreover have "wf_map (filter P (w_seen W))" for P using wf by (rule distinct_map_filter)
  ultimately show "window_ok (evict now (W\<lparr>w_lastNowMs := Some now\<rparr>))"
    using le by (auto simp: window_ok_def evict_def evict_seen_filter [OF so] list_all_iff)
  show "map_of (w_seen (evict now (W\<lparr>w_lastNowMs := Some now\<rparr>))) f =
      (case map_of (w_seen W) f of None \<Rightarrow> None | Some t \<Rightarrow> if now - t \<le> of_int (w_maxAgeMs W) then Some t else None)"
    using map_of_filter_value [OF wf, of "\<lambda>t. now - t \<le> of_int (w_maxAgeMs W)" f]
    by (simp add: evict_def evict_seen_filter [OF so])
  show "list_all (\<lambda>p. snd p \<le> now) (w_seen (evict now (W\<lparr>w_lastNowMs := Some now\<rparr>)))"
    using le by (auto simp: evict_def evict_seen_filter [OF so] list_all_iff)
qed

lemma window_relD:
  assumes "window_rel W S"
  shows "window_ok W" "sp_last S = w_lastNowMs W"
    "map_of (w_seen W) f = Some t \<Longrightarrow> sp_times S f = Some t"
    "sp_times S f = Some t \<Longrightarrow> w_lastNowMs W = Some l \<Longrightarrow> l - t \<le> of_int (w_maxAgeMs W) \<Longrightarrow> map_of (w_seen W) f = Some t"
    "w_lastNowMs W = None \<Longrightarrow> sp_times S = Map.empty"
proof -
  show ok: "window_ok W" and "sp_last S = w_lastNowMs W" using assms unfolding window_rel_def by blast+
  show "w_lastNowMs W = None \<Longrightarrow> sp_times S = Map.empty" using assms unfolding window_rel_def by blast
  show "sp_times S f = Some t \<Longrightarrow> w_lastNowMs W = Some l \<Longrightarrow> l - t \<le> of_int (w_maxAgeMs W) \<Longrightarrow> map_of (w_seen W) f = Some t"
    using assms unfolding window_rel_def by blast
  show "sp_times S f = Some t" if "map_of (w_seen W) f = Some t"
  proof (cases "w_lastNowMs W")
    case None
    then have "w_seen W = []" using ok by (simp add: window_ok_def)
    with that show ?thesis by simp
  next
    case (Some l)
    with assms that show ?thesis unfolding window_rel_def by blast
  qed
qed

lemma window_relI:
  assumes "window_ok W" "sp_last S = w_lastNowMs W" "w_lastNowMs W = Some l"
    and "\<And>f t. map_of (w_seen W) f = Some t \<Longrightarrow> sp_times S f = Some t"
    and "\<And>f t. sp_times S f = Some t \<Longrightarrow> l - t \<le> of_int (w_maxAgeMs W) \<Longrightarrow> map_of (w_seen W) f = Some t"
  shows "window_rel W S"
proof -
  have "w_lastNowMs W \<noteq> None" and "\<And>l'. w_lastNowMs W = Some l' \<Longrightarrow> l' = l" using assms(3) by simp_all
  then show ?thesis unfolding window_rel_def using assms(1,2,4,5) by blast
qed

lemma window_rel_evict:
  assumes "window_rel W S" and "\<And>l. w_lastNowMs W = Some l \<Longrightarrow> l \<le> now"
  shows "window_rel (evict now (W\<lparr>w_lastNowMs := Some now\<rparr>)) (S\<lparr>sp_last := Some now\<rparr>)"
    and "mhas f (w_seen (evict now (W\<lparr>w_lastNowMs := Some now\<rparr>))) \<longleftrightarrow> seen_at (w_maxAgeMs W) now f S"
proof -
  let ?W = "evict now (W\<lparr>w_lastNowMs := Some now\<rparr>)"
  note rel = window_relD [OF assms(1)]
  note ev = window_evicted [OF rel(1) assms(2)]
  have bwd: "map_of (w_seen W) f = Some t" if "sp_times S f = Some t" "now - t \<le> of_int (w_maxAgeMs W)" for f t
  proof (cases "w_lastNowMs W")
    case None
    then show ?thesis using rel(5) that by simp
  next
    case (Some l)
    then have "l - t \<le> of_int (w_maxAgeMs W)" using assms(2) [OF Some] that(2) by linarith
    from rel(4) [OF that(1) Some this] show ?thesis .
  qed
  have kept: "map_of (w_seen ?W) f = Some t \<longleftrightarrow> sp_times S f = Some t \<and> now - t \<le> of_int (w_maxAgeMs W)" for f t
  proof -
    have "map_of (w_seen ?W) f = Some t \<longleftrightarrow> map_of (w_seen W) f = Some t \<and> now - t \<le> of_int (w_maxAgeMs W)"
      by (cases "map_of (w_seen W) f") (auto simp only: ev(2) option.case option.simps split: if_splits)
    then show ?thesis using rel(3) bwd by blast
  qed
  have ages: "w_maxAgeMs ?W = w_maxAgeMs W" "w_lastNowMs ?W = Some now" by (simp_all add: evict_def)
  show "window_rel ?W (S\<lparr>sp_last := Some now\<rparr>)"
    by (rule window_relI [OF ev(1) _ ages(2)]) (simp_all add: kept ages del: map_of_eq_Some_iff)
  show "mhas f (w_seen ?W) \<longleftrightarrow> seen_at (w_maxAgeMs W) now f S"
    by (cases "sp_times S f") (simp_all add: mhas_iff kept seen_at_def del: map_of_eq_Some_iff)
qed

lemma readClock_spec:
  assumes "sp_last S = w_lastNowMs W"
  shows "readClock raw W = (case spec_clock raw S of
      None \<Rightarrow> Inl (window_refuse ''clock.now() must return a finite number'')
    | Some now \<Rightarrow> Inr (now, W\<lparr>w_lastNowMs := Some now\<rparr>))"
  and "spec_clock raw S = Some now \<Longrightarrow> w_lastNowMs W = Some l \<Longrightarrow> l \<le> now"
  using assms by (auto simp: readClock_def spec_clock_def Let_def max_def split: jsnum.splits option.splits if_splits)

lemma window_rel_add:
  assumes "window_rel W S" and "w_lastNowMs W = Some now" and "\<not> mhas f (w_seen W)" and "0 \<le> w_maxAgeMs W"
    and "list_all (\<lambda>p. snd p \<le> now) (w_seen W)"
  shows "window_rel (W\<lparr>w_seen := mput f now (w_seen W)\<rparr>) (S\<lparr>sp_times := (sp_times S)(f \<mapsto> now)\<rparr>)"
proof (rule window_relI)
  note rel = window_relD [OF assms(1)]
  have put: "mput f now (w_seen W) = w_seen W @ [(f, now)]"
    using assms(3) by (rule mput_absent)
  show "window_ok (W\<lparr>w_seen := mput f now (w_seen W)\<rparr>)"
    using rel(1) assms(2,3,5) by (auto simp: window_ok_def put sorted_append list_all_iff mhas_def)
  show "sp_last (S\<lparr>sp_times := (sp_times S)(f \<mapsto> now)\<rparr>) = w_lastNowMs (W\<lparr>w_seen := mput f now (w_seen W)\<rparr>)"
    using rel(2) by simp
  show "w_lastNowMs (W\<lparr>w_seen := mput f now (w_seen W)\<rparr>) = Some now" using assms(2) by simp
  fix g t
  show "sp_times (S\<lparr>sp_times := (sp_times S)(f \<mapsto> now)\<rparr>) g = Some t"
    if "map_of (w_seen (W\<lparr>w_seen := mput f now (w_seen W)\<rparr>)) g = Some t"
    using that rel(3) [of g t] by (cases "g = f") (simp_all del: map_of_eq_Some_iff)
  show "map_of (w_seen (W\<lparr>w_seen := mput f now (w_seen W)\<rparr>)) g = Some t"
    if "sp_times (S\<lparr>sp_times := (sp_times S)(f \<mapsto> now)\<rparr>) g = Some t"
      "now - t \<le> of_int (w_maxAgeMs (W\<lparr>w_seen := mput f now (w_seen W)\<rparr>))"
    using that rel(4) [of g t, OF _ assms(2)] by (cases "g = f") (simp_all del: map_of_eq_Some_iff)
qed

lemma window_do_refines:
  assumes "window_rel W S" and "1 \<le> w_maxAgeMs W" and "window_do opn W = (r, W')"
  shows "\<exists>S'. spec_do (w_maxAgeMs W) opn S = (r, S') \<and> window_rel W' S' \<and> w_maxAgeMs W' = w_maxAgeMs W"
proof -
  note rel = window_relD [OF assms(1)]
  obtain fp c where opn: "opn = Has fp c \<or> opn = Add fp c" by (cases opn) auto
  show ?thesis
  proof (cases "assertFingerprint fp")
    case (Inl e)
    then show ?thesis
      using assms opn by (auto simp: window_do_def window_has_def window_add_def spec_do_def)
  next
    case f: (Inr f)
    show ?thesis
    proof (cases "spec_clock c S")
      case None
      then show ?thesis
        using assms opn f by (auto simp: window_do_def window_has_def window_add_def spec_do_def readClock_spec(1) [OF rel(2)])
    next
      case (Some now)
      let ?W = "evict now (W\<lparr>w_lastNowMs := Some now\<rparr>)"
      have le: "\<And>l. w_lastNowMs W = Some l \<Longrightarrow> l \<le> now" by (rule readClock_spec(2) [OF rel(2) Some])
      note ev = window_rel_evict [OF assms(1) le]
      have rc: "readClock c W = Inr (now, W\<lparr>w_lastNowMs := Some now\<rparr>)" by (simp add: readClock_spec(1) [OF rel(2)] Some)
      have W: "w_maxAgeMs ?W = w_maxAgeMs W" "w_lastNowMs ?W = Some now" by (simp_all add: evict_def)
      have add: "\<not> seen_at (w_maxAgeMs W) now f S \<Longrightarrow>
          window_rel (?W\<lparr>w_seen := mput f now (w_seen ?W)\<rparr>) (S\<lparr>sp_last := Some now, sp_times := (sp_times S)(f \<mapsto> now)\<rparr>)"
        using window_rel_add [OF ev(1) W(2), of f] ev(2) [of f] window_evicted(3) [OF rel(1) le] assms(2) W(1) by simp
      show ?thesis
        using opn
      proof
        assume "opn = Has fp c"
        then show ?thesis
          using assms(3) f rc Some ev W by (auto simp: window_do_def window_has_def spec_do_def Let_def)
      next
        assume "opn = Add fp c"
        then show ?thesis
          using assms(3) f rc Some ev W add by (auto simp: window_do_def window_add_def spec_do_def Let_def)
      qed
    qed
  qed
qed

lemma window_run_refines:
  assumes "window_rel W S" and "1 \<le> w_maxAgeMs W" and "window_run ops W = (rs, W')"
  shows "\<exists>S'. spec_run (w_maxAgeMs W) ops S = (rs, S') \<and> window_rel W' S' \<and> w_maxAgeMs W' = w_maxAgeMs W"
  using assms
proof (induction ops arbitrary: W S rs)
  case (Cons opn ops)
  obtain r W1 rs' where d: "window_do opn W = (r, W1)" and w: "window_run ops W1 = (rs', W')" and rs: "rs = r # rs'"
    using Cons.prems(3) by (auto split: prod.splits)
  from window_do_refines [OF Cons.prems(1,2) d] obtain S1
    where s: "spec_do (w_maxAgeMs W) opn S = (r, S1)" "window_rel W1 S1" "w_maxAgeMs W1 = w_maxAgeMs W" by blast
  from Cons.IH [OF s(2) _ w] s Cons.prems(2) rs show ?case by auto
qed auto

lemma window_start:
  assumes "createReadinessReplayWindow maxAgeMs = Inr W"
  shows "window_rel W \<lparr>sp_times = Map.empty, sp_last = None\<rparr>" "1 \<le> w_maxAgeMs W" "w_maxAgeMs W = int_of maxAgeMs"
  using assms by (auto simp: createReadinessReplayWindow_def positive_limit_def window_rel_def window_ok_def)

text \<open>C11. Driven by any sequence of calls, with any clock readings (backward steps, readings
  that are not finite) and any arguments, the replay window answers and throws exactly as a
  set that never forgets a fingerprint and calls it seen while its age is at most the
  bound: evicting from the front of the map, stopping at the first fresh entry, loses
  nothing.\<close>

theorem replay_window_refines:
  assumes "createReadinessReplayWindow maxAgeMs = Inr W"
  shows "fst (window_run ops W) = fst (spec_run (int_of maxAgeMs) ops \<lparr>sp_times = Map.empty, sp_last = None\<rparr>)"
proof -
  obtain rs W' where "window_run ops W = (rs, W')" by force
  with window_run_refines [OF window_start(1,2) [OF assms] this] window_start(3) [OF assms] show ?thesis by auto
qed

theorem replay_window_refines_witness:
  "\<exists>W. createReadinessReplayWindow (JInt 10) = Inr W \<and>
     fst (window_run [Add (JLit ''f'') (Fin 5), Has (JLit ''f'') (Fin 15), Has (JLit ''f'') (Fin 16)] W) =
     fst (spec_run (int_of (JInt 10)) [Add (JLit ''f'') (Fin 5), Has (JLit ''f'') (Fin 15), Has (JLit ''f'') (Fin 16)]
       \<lparr>sp_times = Map.empty, sp_last = None\<rparr>)"
proof -
  have c: "createReadinessReplayWindow (JInt 10) = Inr \<lparr>w_maxAgeMs = 10, w_seen = [], w_lastNowMs = None\<rparr>"
    by (simp add: createReadinessReplayWindow_def positive_limit_def MAX_SAFE_INTEGER_def is_integral_def)
  from replay_window_refines [OF c] c show ?thesis by blast
qed

subsection \<open>Single use\<close>

lemma spec_do_last:
  assumes "spec_do a opn S = (r, S')" and "sp_last S = Some l"
  shows "\<exists>l'. sp_last S' = Some l' \<and> l \<le> l'"
  using assms
  by (auto simp: spec_do_def spec_clock_def Let_def split: window_op.splits sum.splits option.splits jsnum.splits)

lemma spec_run_last:
  "spec_run a ops S = (rs, S') \<Longrightarrow> sp_last S = Some l \<Longrightarrow> \<exists>l'. sp_last S' = Some l' \<and> l \<le> l'"
proof (induction ops arbitrary: S l rs)
  case (Cons opn ops)
  obtain r S1 rs' where d: "spec_do a opn S = (r, S1)" and w: "spec_run a ops S1 = (rs', S')"
    using Cons.prems(1) by (auto split: prod.splits)
  from spec_do_last [OF d Cons.prems(2)] obtain l1 where "sp_last S1 = Some l1" "l \<le> l1" by blast
  with Cons.IH [OF w this(1)] show ?case by (meson order_trans)
qed auto

lemma spec_do_keeps:
  assumes "spec_do a opn S = (r, S')" and "sp_times S f = Some t" and "sp_last S' = Some l'" and "l' - t \<le> of_int a"
  shows "sp_times S' f = Some t"
  using assms
  by (auto simp: spec_do_def seen_at_def Let_def split: window_op.splits sum.splits option.splits if_splits)

lemma spec_run_keeps:
  assumes "spec_run a ops S = (rs, S')" "sp_times S f = Some t" "sp_last S = Some l" "sp_last S' = Some l'"
    "l' - t \<le> of_int a"
  shows "sp_times S' f = Some t"
  using assms
proof (induction ops arbitrary: S l rs)
  case (Cons opn ops)
  obtain r S1 rs' where d: "spec_do a opn S = (r, S1)" and w: "spec_run a ops S1 = (rs', S')"
    using Cons.prems(1) by (auto split: prod.splits)
  from spec_do_last [OF d Cons.prems(3)] obtain l1 where l1: "sp_last S1 = Some l1" by blast
  from spec_run_last [OF w l1] Cons.prems(4,5) have "l1 - t \<le> of_int a" by auto
  from Cons.IH [OF w spec_do_keeps [OF d Cons.prems(2) l1 this] l1 Cons.prems(4,5)] show ?case .
qed simp

text \<open>A fingerprint that was found unseen and then added is reported as seen by every later
  query for as long as the clamped clock has advanced by at most the freshness bound,
  whatever other calls come in between; in particular it can be used only once inside the
  window.\<close>

theorem replay_refused_within_window:
  assumes "createReadinessReplayWindow maxAgeMs = Inr W" and "window_run ops W = (rs, W0)"
    and "window_has fp c0 W0 = Inr (False, W1)" and "window_add fp c1 W1 = Inr W2"
    and "window_run ops' W2 = (rs', W3)" and "window_has fp c2 W3 = Inr (b, W4)"
    and "the (w_lastNowMs W4) - the (w_lastNowMs W2) \<le> of_int (int_of maxAgeMs)"
  shows b
proof -
  let ?S = "\<lparr>sp_times = Map.empty, sp_last = None\<rparr>" and ?a = "int_of maxAgeMs"
  note st = window_start [OF assms(1)]
  from assms(3) obtain f where f: "assertFingerprint fp = Inr f" by (auto simp: window_has_def seq_eq_Inr)
  obtain S0 where s0: "spec_run ?a ops ?S = (rs, S0)" "window_rel W0 S0" "w_maxAgeMs W0 = ?a"
    using window_run_refines [OF st(1,2) assms(2)] st(3) by auto
  have one: "1 \<le> w_maxAgeMs W0" using st s0(3) by simp
  have "window_do (Has fp c0) W0 = (Inr (Some False), W1)" using assms(3) by (simp add: window_do_def)
  from window_do_refines [OF s0(2) one this] obtain S1
    where s1: "spec_do ?a (Has fp c0) S0 = (Inr (Some False), S1)" "window_rel W1 S1" "w_maxAgeMs W1 = ?a"
    using s0(3) by auto
  then obtain n0 where n0: "sp_last S1 = Some n0" "\<not> seen_at ?a n0 f S1"
    using f by (auto simp: spec_do_def seen_at_def Let_def split: option.splits)
  have "window_do (Add fp c1) W1 = (Inr None, W2)" using assms(4) by (simp add: window_do_def)
  from window_do_refines [OF s1(2) _ this] obtain S2
    where s2: "spec_do ?a (Add fp c1) S1 = (Inr None, S2)" "window_rel W2 S2" "w_maxAgeMs W2 = ?a"
    using s1(3) st by auto
  then obtain n1 where n1: "sp_last S2 = Some n1" "n0 \<le> n1" "sp_times S2 f = Some n1"
    using f n0 by (auto simp: spec_do_def seen_at_def spec_clock_def Let_def
        split: option.splits jsnum.splits if_splits)
  obtain S3 where s3: "spec_run ?a ops' S2 = (rs', S3)" "window_rel W3 S3" "w_maxAgeMs W3 = ?a"
    using window_run_refines [OF s2(2) _ assms(5)] s2(3) st by auto
  have "window_do (Has fp c2) W3 = (Inr (Some b), W4)" using assms(6) by (simp add: window_do_def)
  from window_do_refines [OF s3(2) _ this] obtain S4
    where s4: "spec_do ?a (Has fp c2) S3 = (Inr (Some b), S4)" "window_rel W4 S4"
    using s3(3) st by auto
  from s3(1) s4(1) have run: "spec_run ?a (ops' @ [Has fp c2]) S2 = (rs' @ [Inr (Some b)], S4)"
    by (induction ops' arbitrary: S2 rs') (auto split: prod.splits)
  from spec_run_last [OF run n1(1)] obtain l where l: "sp_last S4 = Some l" by blast
  have "w_lastNowMs W2 = Some n1" "w_lastNowMs W4 = Some l"
    using window_relD(2) [OF s4(2)] window_relD(2) [OF s2(2)] n1(1) l by simp_all
  then have age: "l - n1 \<le> of_int ?a" using assms(7) by simp
  have "sp_times S4 f = Some n1" by (rule spec_run_keeps [OF run n1(3,1) l age])
  with s4(1) f l age show b by (auto simp: spec_do_def seen_at_def Let_def split: option.splits)
qed

theorem replay_refused_within_window_witness:
  "\<exists>W0 W1 W2 W4. createReadinessReplayWindow (JInt 10) = Inr W0 \<and> window_has (JLit ''f'') (Fin 5) W0 = Inr (False, W1) \<and>
     window_add (JLit ''f'') (Fin 5) W1 = Inr W2 \<and> window_has (JLit ''f'') (Fin 15) W2 = Inr (True, W4)"
proof -
  let ?W0 = "\<lparr>w_maxAgeMs = 10, w_seen = [], w_lastNowMs = None\<rparr>"
  let ?W1 = "\<lparr>w_maxAgeMs = 10, w_seen = [], w_lastNowMs = Some 5\<rparr>"
  let ?W2 = "\<lparr>w_maxAgeMs = 10, w_seen = [(js ''f'', 5)], w_lastNowMs = Some 5\<rparr>"
  let ?W4 = "\<lparr>w_maxAgeMs = 10, w_seen = [(js ''f'', 5)], w_lastNowMs = Some 15\<rparr>"
  note defs = window_has_def window_add_def readClock_def evict_def assertFingerprint_def mhas_def
  have c: "createReadinessReplayWindow (JInt 10) = Inr ?W0"
    by (simp add: createReadinessReplayWindow_def positive_limit_def MAX_SAFE_INTEGER_def is_integral_def)
  have h: "window_has (JLit ''f'') (Fin 5) ?W0 = Inr (False, ?W1)" by (simp add: defs)
  have a: "window_add (JLit ''f'') (Fin 5) ?W1 = Inr ?W2" by (simp add: defs)
  obtain b where q: "window_has (JLit ''f'') (Fin 15) ?W2 = Inr (b, ?W4)" by (simp add: defs)
  have b by (rule replay_refused_within_window [OF c _ h a _ q, of "[]" "[]" "[]" "[]"]) simp_all
  then have "b = True" by simp
  with q have "window_has (JLit ''f'') (Fin 15) ?W2 = Inr (True, ?W4)" by (simp only:)
  with c h a show ?thesis by blast
qed

section \<open>Recovery is bounded\<close>

lemma batches_from_concat: "concat (batches_from i xs) = drop i xs"
proof (induction i xs rule: batches_from.induct)
  case (1 i xs)
  then show ?case
    by (subst batches_from.simps) (auto simp flip: drop_drop simp: add.commute [of i])
qed

lemma batches_from_sizes: "list_all (\<lambda>b. 1 \<le> length b \<and> length b \<le> MAX_RECOVERY_BATCH) (batches_from i xs)"
proof (induction i xs rule: batches_from.induct)
  case (1 i xs)
  then show ?case
    by (subst batches_from.simps) (auto simp: MAX_RECOVERY_BATCH_def)
qed

lemma batches_from_count: "length (batches_from i xs) * 8 < length xs - i + 8"
proof (induction i xs rule: batches_from.induct)
  case (1 i xs)
  show ?case
  proof (cases "i < length xs")
    case True
    then have "length (batches_from i xs) = Suc (length (batches_from (i + 8) xs))"
      by (subst batches_from.simps) (simp add: MAX_RECOVERY_BATCH_def)
    moreover have "length (batches_from (i + 8) xs) * 8 < length xs - (i + 8) + 8"
      using 1 True by (simp add: MAX_RECOVERY_BATCH_def)
    ultimately show ?thesis using True by presburger
  next
    case False
    then have "batches_from i xs = []" by (subst batches_from.simps) simp
    then show ?thesis by simp
  qed
qed

lemma queue_isId_inject: "queue_isId u \<Longrightarrow> queue_isId w \<Longrightarrow> str_of u = str_of w \<longleftrightarrow> u = w"
  by (auto simp: queue_isId_def elim!: typeof_string.elims)

lemma check_ids_ok:
  "is_ok (check_ids vs seen) \<longleftrightarrow> list_all queue_isId vs \<and> distinct vs \<and> (\<forall>v \<in> set vs. str_of v \<notin> set seen)"
proof (induction vs arbitrary: seen)
  case (Cons v vs)
  show ?case
    using queue_isId_inject by (auto simp: Cons.IH list_all_iff)
qed simp

text \<open>Boot recovery admits a list of workspaces exactly when they are valid, distinct and at
  most 64; every refusal is of the whole list.\<close>

theorem recovery_admission:
  "is_ok (planRecoveryBatches v) \<longleftrightarrow> isArray v \<and> list_all queue_isId (elements v) \<and> distinct (elements v) \<and>
     length (elements v) \<le> MAX_RECOVERY_TOTAL"
  using check_ids_ok [of "elements v" "[]"]
  by (cases "check_ids (elements v) []") (auto simp: planRecoveryBatches_def Let_def)

text \<open>An admitted recovery plan is an ordered partition of the given workspaces: at most
  eight batches of one to eight, whose concatenation is the input, each workspace once.\<close>

theorem recovery_plan_partition:
  assumes "planRecoveryBatches v = Inr p"
  shows "concat (batches p) = map str_of (elements v) \<and>
    list_all (\<lambda>b. 1 \<le> length b \<and> length b \<le> MAX_RECOVERY_BATCH) (batches p) \<and>
    batchCount p = length (batches p) \<and> batchCount p \<le> 8 \<and> totalAdmitted p = length (concat (batches p)) \<and>
    distinct (concat (batches p))"
proof -
  have p: "length (elements v) \<le> MAX_RECOVERY_TOTAL" "is_ok (check_ids (elements v) [])"
    "p = \<lparr>totalAdmitted = length (elements v), batchCount = length (batches_from 0 (map str_of (elements v))),
      batches = batches_from 0 (map str_of (elements v))\<rparr>"
    using assms by (auto simp: planRecoveryBatches_def Let_def seq_eq_Inr)
  have "length (batches p) \<le> 8"
    using batches_from_count [of 0 "map str_of (elements v)"] p(1)
    by (simp add: p(3) MAX_RECOVERY_TOTAL_def)
  moreover have "distinct (map str_of (elements v))"
    using p(2) unfolding check_ids_ok
    by (auto simp: distinct_map inj_on_def list_all_iff queue_isId_inject)
  ultimately show ?thesis
    using batches_from_sizes [of 0 "map str_of (elements v)"] by (simp add: p(3) batches_from_concat)
qed

theorem recovery_plan_partition_witness:
  "\<exists>p. planRecoveryBatches (JArr [JLit ''a'', JLit ''b'']) = Inr p \<and>
    concat (batches p) = map str_of (elements (JArr [JLit ''a'', JLit ''b''])) \<and>
    list_all (\<lambda>b. 1 \<le> length b \<and> length b \<le> MAX_RECOVERY_BATCH) (batches p) \<and>
    batchCount p = length (batches p) \<and> batchCount p \<le> 8 \<and> totalAdmitted p = length (concat (batches p)) \<and>
    distinct (concat (batches p))"
proof -
  have "is_ok (planRecoveryBatches (JArr [JLit ''a'', JLit ''b'']))"
    unfolding planRecoveryBatches_def by (simp add: queue_isId_def MAX_RECOVERY_TOTAL_def Let_def)
  then obtain p where "planRecoveryBatches (JArr [JLit ''a'', JLit ''b'']) = Inr p" by (auto simp: is_ok_iff)
  with recovery_plan_partition [OF this] show ?thesis by blast
qed

end
