(* ===== verification/Gate_Store.thy ===== *)
theory Gate_Store
  imports Readiness
begin

text \<open>
  The store of workflow gates that the bot presents to a user and the delivery of an answer,
  \<^verbatim>\<open>bot/src/gate-answer.js\<close>, with the state changes of
  \<^verbatim>\<open>bot/src/gate-presentation.js\<close> (\<open>renderGatePresentation\<close> and its \<open>updateState\<close>).

  An entry object is only reached through its token while it is stored, so the map from
  tokens holds the entries themselves.  The asynchronous functions are split at their
  \<open>await\<close>s into steps that other calls may come between.
\<close>

section \<open>Entries and the store\<close>

datatype gate_state = Presenting | Answerable | Answering | Answered | Expired | Disconnected | Replaced

definition TERMINAL_STATES :: "gate_state list" where
  "TERMINAL_STATES = [Answered, Expired, Disconnected, Replaced]"

definition terminal :: "gate_state \<Rightarrow> bool" where
  "terminal s \<longleftrightarrow> s \<in> set TERMINAL_STATES"

record gate_entry =
  g_token :: jsstr
  g_hostId :: jsstr
  g_requestId :: jsstr
  g_gateId :: jsstr
  g_presentationId :: jsstr
  g_userId :: jsstr
  g_messageId :: "jsstr option"
  g_state :: gate_state
  g_channelId :: "jsstr option"
  g_kind :: jsstr
  g_prompt :: jsstr
  g_choices :: "jsstr list"
  g_multi :: bool

record gate_store =
  s_entries :: "(jsstr \<times> gate_entry) list"
  s_tokensByMessageId :: "(jsstr \<times> jsstr) list"
  s_maxEntries :: nat

definition new_gate_store :: "jsval \<Rightarrow> js_error + gate_store" where
  "new_gate_store maxEntries =
     check (isInteger maxEntries \<and> 1 \<le> int_of maxEntries \<and> int_of maxEntries \<le> 64)
       (TypeError (js ''gate presentation capacity must be from 1 to 64''))
       (Inr \<lparr>s_entries = [], s_tokensByMessageId = [], s_maxEntries = nat (int_of maxEntries)\<rparr>)"

definition gate_get :: "jsstr \<Rightarrow> gate_store \<Rightarrow> gate_entry option" where
  "gate_get token S = map_of (s_entries S) token"

definition put_entry :: "jsstr \<Rightarrow> gate_entry \<Rightarrow> gate_store \<Rightarrow> gate_store" where
  "put_entry token e S = S\<lparr>s_entries := mput token e (s_entries S)\<rparr>"

definition gate_remove :: "jsstr \<Rightarrow> gate_store \<Rightarrow> bool \<times> gate_store" where
  "gate_remove token S =
     (case gate_get token S of
        None \<Rightarrow> (False, S)
      | Some e \<Rightarrow>
         (True, S\<lparr>s_tokensByMessageId :=
              (case g_messageId e of None \<Rightarrow> s_tokensByMessageId S
               | Some mid \<Rightarrow> if mid = [] then s_tokensByMessageId S else mdel mid (s_tokensByMessageId S)),
            s_entries := mdel token (s_entries S)\<rparr>))"

text \<open>The eviction loop of \<open>create\<close>, with fuel for the number of entries: every round removes
  one.\<close>

fun evict_retired :: "nat \<Rightarrow> gate_store \<Rightarrow> gate_store" where
  "evict_retired 0 S = S"
| "evict_retired (Suc n) S =
     (if s_maxEntries S \<le> length (s_entries S) then
        case find (\<lambda>e. terminal (g_state e)) (map snd (s_entries S)) of
          None \<Rightarrow> S
        | Some retired \<Rightarrow> evict_retired n (snd (gate_remove (g_token retired) S))
      else S)"

record gate_args =
  a_hostId :: jsval
  a_requestId :: jsval
  a_gateId :: jsval
  a_presentationId :: jsval
  a_userId :: jsval

definition nonempty_string :: "jsval \<Rightarrow> bool" where
  "nonempty_string v \<longleftrightarrow> typeof_string v \<and> str_of v \<noteq> []"

definition create_gate :: "gate_args \<Rightarrow> jsval \<Rightarrow> gate_store \<Rightarrow> jsstr option \<times> gate_store" where
  "create_gate args token S0 =
     (let S = evict_retired (length (s_entries S0)) S0 in
      if s_maxEntries S \<le> length (s_entries S) then (None, S)
      else if \<not> typeof_string token \<or> length (str_of token) < 1 \<or> 64 < length (str_of token) \<or>
              mhas (str_of token) (s_entries S) then (None, S)
      else if list_ex (\<lambda>v. \<not> nonempty_string v)
                [a_hostId args, a_requestId args, a_gateId args, a_presentationId args, a_userId args] then (None, S)
      else (Some (str_of token), put_entry (str_of token)
        \<lparr>g_token = str_of token, g_hostId = str_of (a_hostId args), g_requestId = str_of (a_requestId args),
         g_gateId = str_of (a_gateId args), g_presentationId = str_of (a_presentationId args),
         g_userId = str_of (a_userId args), g_messageId = None, g_state = Presenting,
         g_channelId = None, g_kind = [], g_prompt = [], g_choices = [], g_multi = False\<rparr> S))"

definition bindMessage :: "jsstr \<Rightarrow> jsval \<Rightarrow> gate_store \<Rightarrow> bool \<times> gate_store" where
  "bindMessage token messageId S =
     (case gate_get token S of
        None \<Rightarrow> (False, S)
      | Some e \<Rightarrow>
          if g_state e \<noteq> Presenting \<or> g_messageId e \<noteq> None \<or> \<not> nonempty_string messageId \<or>
             mhas (str_of messageId) (s_tokensByMessageId S) then (False, S)
          else (True, (put_entry token (e\<lparr>g_messageId := Some (str_of messageId)\<rparr>) S)
             \<lparr>s_tokensByMessageId := mput (str_of messageId) token (s_tokensByMessageId S)\<rparr>))"

definition set_state :: "jsstr \<Rightarrow> gate_entry \<Rightarrow> gate_state \<Rightarrow> gate_store \<Rightarrow> gate_store" where
  "set_state token e s S = put_entry token (e\<lparr>g_state := s\<rparr>) S"

definition activate :: "jsstr \<Rightarrow> gate_store \<Rightarrow> bool \<times> gate_store" where
  "activate token S =
     (case gate_get token S of
        None \<Rightarrow> (False, S)
      | Some e \<Rightarrow>
          if g_state e \<noteq> Presenting \<or> g_messageId e = None \<or> g_messageId e = Some [] then (False, S)
          else (True, set_state token e Answerable S))"

definition beginAnswer ::
  "jsstr \<Rightarrow> jsstr \<Rightarrow> jsstr \<Rightarrow> jsstr option \<Rightarrow> gate_store \<Rightarrow> gate_entry option \<times> gate_store" where
  "beginAnswer token messageId userId replyToMessageId S =
     (case gate_get token S of
        None \<Rightarrow> (None, S)
      | Some e \<Rightarrow>
          if g_state e \<noteq> Answerable then (None, S)
          else if g_userId e \<noteq> userId \<or> g_messageId e \<noteq> Some messageId then (None, S)
          else if replyToMessageId \<noteq> None \<and> replyToMessageId \<noteq> g_messageId e then (None, S)
          else (Some (e\<lparr>g_state := Answering\<rparr>), set_state token e Answering S))"

definition rejectAnswer :: "jsstr \<Rightarrow> gate_store \<Rightarrow> bool \<times> gate_store" where
  "rejectAnswer token S =
     (case gate_get token S of
        None \<Rightarrow> (False, S)
      | Some e \<Rightarrow> if g_state e \<noteq> Answering then (False, S) else (True, set_state token e Answerable S))"

definition completeAnswer :: "jsstr \<Rightarrow> gate_store \<Rightarrow> bool \<times> gate_store" where
  "completeAnswer token S =
     (case gate_get token S of
        None \<Rightarrow> (False, S)
      | Some e \<Rightarrow> if g_state e \<noteq> Answering then (False, S) else (True, set_state token e Answered S))"

definition retire_gate :: "jsstr \<Rightarrow> gate_state \<Rightarrow> gate_store \<Rightarrow> bool \<times> gate_store" where
  "retire_gate token s S =
     (case gate_get token S of
        None \<Rightarrow> (False, S)
      | Some e \<Rightarrow>
          if \<not> terminal s then (False, S)
          else if terminal (g_state e) then (g_state e = s, S)
          else (True, set_state token e s S))"

definition findMessage :: "jsstr \<Rightarrow> jsstr option \<Rightarrow> gate_store \<Rightarrow> gate_entry option" where
  "findMessage messageId channelId S =
     (case map_of (s_tokensByMessageId S) messageId of
        None \<Rightarrow> None
      | Some token \<Rightarrow>
         (case gate_get token S of
            None \<Rightarrow> None
          | Some e \<Rightarrow> if channelId = None \<or> g_channelId e = channelId then Some e else None))"

definition findReply :: "jsstr \<Rightarrow> jsstr \<Rightarrow> jsstr option \<Rightarrow> gate_store \<Rightarrow> gate_entry option" where
  "findReply messageId userId channelId S =
     (case findMessage messageId channelId S of
        None \<Rightarrow> None
      | Some e \<Rightarrow> if g_state e = Answerable \<and> g_userId e = userId then Some e else None)"

section \<open>Replies and answers\<close>

datatype gate_reply = Ordinary | Not_owned gate_entry | Retired gate_entry | Reply_answerable gate_entry

definition classifyGateReply :: "jsstr \<Rightarrow> jsstr option \<Rightarrow> jsstr \<Rightarrow> gate_store \<Rightarrow> gate_reply" where
  "classifyGateReply messageId channelId userId S =
     (case findMessage messageId channelId S of
        None \<Rightarrow> Ordinary
      | Some e \<Rightarrow>
          if g_userId e \<noteq> userId then Not_owned e
          else if g_state e \<noteq> Answerable then Retired e
          else Reply_answerable e)"

text \<open>\<open>deliverGateAnswer\<close> up to the answer of the host: \<open>beginAnswer\<close>, then the callback with
  \<open>"answering"\<close>.  The callback is an argument.\<close>

definition deliver_begin ::
  "(string \<Rightarrow> jsstr \<Rightarrow> gate_store \<Rightarrow> gate_store) \<Rightarrow> jsstr \<Rightarrow> jsstr \<Rightarrow> jsstr \<Rightarrow> jsstr option \<Rightarrow> gate_store \<Rightarrow>
     gate_entry option \<times> gate_store" where
  "deliver_begin onState token messageId userId replyTo S =
     (case beginAnswer token messageId userId replyTo S of
        (None, S1) \<Rightarrow> (None, S1)
      | (Some e, S1) \<Rightarrow> (Some e, onState ''answering'' token S1))"

text \<open>The rest of it, once the host answered: \<open>ok\<close> says that it returned a result with
  \<open>ok === true\<close>; a thrown error is a result without.\<close>

definition deliver_finish ::
  "(string \<Rightarrow> jsstr \<Rightarrow> gate_store \<Rightarrow> gate_store) \<Rightarrow> jsstr \<Rightarrow> bool \<Rightarrow> gate_store \<Rightarrow> gate_store" where
  "deliver_finish onState token ok S =
     (if ok then onState ''answered'' token (snd (completeAnswer token S))
      else onState ''rejected'' token (snd (rejectAnswer token S)))"

section \<open>Presentation\<close>

text \<open>\<open>renderGatePresentation\<close> up to \<open>channel.send\<close>, after it, and when it fails.\<close>

record gate_request =
  r_requestId :: jsval
  r_gateId :: jsval
  r_presentationId :: jsval
  r_kind :: jsstr
  r_prompt :: jsstr
  r_choices :: "jsstr list"
  r_multi :: bool

definition render_begin ::
  "jsval \<Rightarrow> jsval \<Rightarrow> jsstr \<Rightarrow> gate_request \<Rightarrow> jsval \<Rightarrow> gate_store \<Rightarrow> (js_error + jsstr) \<times> gate_store" where
  "render_begin hostId userId channelId gate token S =
     (case create_gate \<lparr>a_hostId = hostId, a_requestId = r_requestId gate, a_gateId = r_gateId gate,
         a_presentationId = r_presentationId gate, a_userId = userId\<rparr> token S of
        (None, S1) \<Rightarrow> (Inl (PlainError (js ''workflow gate presentation capacity exhausted'')), S1)
      | (Some t, S1) \<Rightarrow>
         (case gate_get t S1 of
            None \<Rightarrow> (Inr t, S1)
          | Some e \<Rightarrow> (Inr t, put_entry t (e\<lparr>g_channelId := Some channelId, g_kind := r_kind gate,
              g_prompt := r_prompt gate, g_choices := r_choices gate, g_multi := r_multi gate\<rparr>) S1)))"

definition render_failed :: "jsstr \<Rightarrow> gate_store \<Rightarrow> js_error \<times> gate_store" where
  "render_failed token S = (PlainError (js ''workflow gate presentation failed''), snd (retire_gate token Expired S))"

definition render_sent :: "jsstr \<Rightarrow> jsval \<Rightarrow> gate_store \<Rightarrow> (js_error + unit) \<times> gate_store" where
  "render_sent token messageId S =
     (let (bound, S1) = bindMessage token messageId S in
      if bound then (Inr (), S1)
      else (Inl (PlainError (js ''workflow gate message ownership conflict'')), snd (retire_gate token Expired S1)))"

text \<open>\<open>updateState\<close>: \<open>toLowerCase\<close> and \<open>includes\<close> on the ASCII texts that the bot passes.\<close>

definition lower_char :: "char \<Rightarrow> char" where
  "lower_char c = (if 65 \<le> (of_char c :: nat) \<and> (of_char c :: nat) \<le> 90 then char_of (of_char c + 32 :: nat) else c)"

fun contains_text :: "string \<Rightarrow> string \<Rightarrow> bool" where
  "contains_text [] p \<longleftrightarrow> p = []"
| "contains_text (c # s) p \<longleftrightarrow> take (length p) (c # s) = p \<or> contains_text s p"

definition updateState :: "string \<Rightarrow> jsstr \<Rightarrow> gate_store \<Rightarrow> gate_store" where
  "updateState s token S =
     (let normalized = map lower_char s in
      if normalized = ''answered'' then snd (retire_gate token Answered S)
      else if contains_text normalized ''disconnect'' then snd (retire_gate token Disconnected S)
      else if contains_text normalized ''replace'' then snd (retire_gate token Replaced S)
      else if contains_text normalized ''expire'' \<or> contains_text normalized ''failed'' \<or>
              contains_text normalized ''timeout'' \<or> contains_text normalized ''reject''
      then if normalized \<noteq> ''rejected'' then snd (retire_gate token Expired S) else S
      else S)"

end
