(* ===== verification/Gate_Properties.thy ===== *)
theory Gate_Properties
  imports Gate_Store Wire_Frames
begin

text \<open>
  The invariant of the gate store, its preservation by every operation, and what it gives:
  one answer at a time, terminal states for good, and lookups by message that agree with the
  entries.
\<close>

section \<open>The invariant\<close>

definition entry_ok :: "jsstr \<Rightarrow> gate_entry \<Rightarrow> bool" where
  "entry_ok t e \<longleftrightarrow> g_token e = t \<and> g_messageId e \<noteq> Some [] \<and>
     (g_state e \<in> {Answerable, Answering} \<longrightarrow> g_messageId e \<noteq> None)"

definition gate_ok :: "gate_store \<Rightarrow> bool" where
  "gate_ok S \<longleftrightarrow> wf_map (s_entries S) \<and> wf_map (s_tokensByMessageId S) \<and> 1 \<le> s_maxEntries S \<and>
     length (s_entries S) \<le> s_maxEntries S \<and>
     (\<forall>t e. gate_get t S = Some e \<longrightarrow> entry_ok t e) \<and>
     (\<forall>m t. map_of (s_tokensByMessageId S) m = Some t \<longleftrightarrow> (\<exists>e. gate_get t S = Some e \<and> g_messageId e = Some m))"

lemma gate_okD:
  assumes "gate_ok S"
  shows "wf_map (s_entries S)" "wf_map (s_tokensByMessageId S)" "1 \<le> s_maxEntries S"
    "length (s_entries S) \<le> s_maxEntries S"
    "gate_get t S = Some e \<Longrightarrow> entry_ok t e"
    "map_of (s_tokensByMessageId S) m = Some t \<longleftrightarrow> (\<exists>e. gate_get t S = Some e \<and> g_messageId e = Some m)"
  using assms unfolding gate_ok_def by blast+

lemma gate_okI:
  assumes "wf_map (s_entries S)" "wf_map (s_tokensByMessageId S)" "1 \<le> s_maxEntries S"
    "length (s_entries S) \<le> s_maxEntries S"
    "\<And>t e. gate_get t S = Some e \<Longrightarrow> entry_ok t e"
    "\<And>m t. map_of (s_tokensByMessageId S) m = Some t \<longleftrightarrow> (\<exists>e. gate_get t S = Some e \<and> g_messageId e = Some m)"
  shows "gate_ok S"
  using assms unfolding gate_ok_def by blast

lemma gate_get_put [simp]: "gate_get t (put_entry u e S) = (if t = u then Some e else gate_get t S)"
  by (simp add: gate_get_def put_entry_def)

lemma put_entry_other [simp]:
  "s_tokensByMessageId (put_entry u e S) = s_tokensByMessageId S" "s_maxEntries (put_entry u e S) = s_maxEntries S"
  by (simp_all add: put_entry_def)

lemma put_entry_length:
  "gate_get u S = Some e0 \<Longrightarrow> length (s_entries (put_entry u e S)) = length (s_entries S)"
  by (simp add: gate_get_def put_entry_def length_mput mhas_map_of del: map_of_eq_Some_iff)

text \<open>A change of an entry that keeps its message and leaves no answerable entry without one.\<close>

lemma gate_ok_update:
  assumes ok: "gate_ok S" and e: "gate_get t S = Some e"
    and e': "g_token e' = g_token e" "g_messageId e' = g_messageId e"
      "g_state e' \<in> {Answerable, Answering} \<Longrightarrow> g_messageId e \<noteq> None"
  shows "gate_ok (put_entry t e' S)"
proof (rule gate_okI)
  note D = gate_okD [OF ok]
  show "wf_map (s_entries (put_entry t e' S))" using D(1) by (simp add: put_entry_def)
  show "wf_map (s_tokensByMessageId (put_entry t e' S))" using D(2) by simp
  show "1 \<le> s_maxEntries (put_entry t e' S)" using D(3) by simp
  show "length (s_entries (put_entry t e' S)) \<le> s_maxEntries (put_entry t e' S)"
    using D(4) put_entry_length [OF e] by simp
  show "entry_ok u f" if "gate_get u (put_entry t e' S) = Some f" for u f
    using that D(5) [OF e] D(5) [of u f] e' by (auto simp: entry_ok_def split: if_splits)
  show "map_of (s_tokensByMessageId (put_entry t e' S)) m = Some u \<longleftrightarrow>
      (\<exists>f. gate_get u (put_entry t e' S) = Some f \<and> g_messageId f = Some m)" for m u
    using D(6) [of m u] e e'(2) by (cases "u = t") (simp_all del: map_of_eq_Some_iff)
qed

lemma gate_ok_set_state:
  assumes "gate_ok S" and "gate_get t S = Some e" and "s \<in> {Answerable, Answering} \<Longrightarrow> g_messageId e \<noteq> None"
  shows "gate_ok (set_state t e s S)"
  unfolding set_state_def by (rule gate_ok_update [OF assms(1,2)]) (use assms(3) in simp_all)

lemma gate_ok_remove:
  assumes ok: "gate_ok S"
  shows "gate_ok (snd (gate_remove t S))"
proof (cases "gate_get t S")
  case None
  then show ?thesis using ok by (simp add: gate_remove_def)
next
  case (Some e)
  note D = gate_okD [OF ok]
  define T where "T = (case g_messageId e of None \<Rightarrow> s_tokensByMessageId S | Some mid \<Rightarrow> mdel mid (s_tokensByMessageId S))"
  have "g_messageId e \<noteq> Some []" using D(5) [OF Some] by (simp add: entry_ok_def)
  then have S': "snd (gate_remove t S) = S\<lparr>s_tokensByMessageId := T, s_entries := mdel t (s_entries S)\<rparr>"
    by (cases "g_messageId e") (auto simp: gate_remove_def Some T_def)
  have get: "gate_get u (snd (gate_remove t S)) = (if u = t then None else gate_get u S)" for u
    by (simp add: S' gate_get_def)
  have toks: "map_of T m = Some u \<longleftrightarrow> u \<noteq> t \<and> map_of (s_tokensByMessageId S) m = Some u" for m u
    using D(6) [of m u] D(6) [of m t] Some
    by (cases "g_messageId e") (auto simp: T_def simp del: map_of_eq_Some_iff)
  show ?thesis
  proof (rule gate_okI)
    show "wf_map (s_entries (snd (gate_remove t S)))" using D(1) by (simp add: S')
    show "wf_map (s_tokensByMessageId (snd (gate_remove t S)))"
      using D(2) by (cases "g_messageId e") (simp_all add: S' T_def)
    show "1 \<le> s_maxEntries (snd (gate_remove t S))" using D(3) by (simp add: S')
    show "length (s_entries (snd (gate_remove t S))) \<le> s_maxEntries (snd (gate_remove t S))"
      using le_trans [OF length_mdel_le [of t "s_entries S"] D(4)] by (simp add: S')
    show "entry_ok u f" if "gate_get u (snd (gate_remove t S)) = Some f" for u f
      using that D(5) [of u f] by (auto simp: get split: if_splits)
    have tk: "s_tokensByMessageId (snd (gate_remove t S)) = T" by (simp add: S')
    show "map_of (s_tokensByMessageId (snd (gate_remove t S))) m = Some u \<longleftrightarrow>
        (\<exists>f. gate_get u (snd (gate_remove t S)) = Some f \<and> g_messageId f = Some m)" for m u
      unfolding tk get toks D(6) by (cases "u = t") simp_all
  qed
qed

lemma gate_remove_entries:
  "gate_get u (snd (gate_remove t S)) = (if u = t then None else gate_get u S)"
  "s_maxEntries (snd (gate_remove t S)) = s_maxEntries S"
  by (auto simp: gate_remove_def gate_get_def simp del: map_of_eq_Some_iff split: option.splits)

lemma gate_remove_length:
  "gate_get t S = Some e \<Longrightarrow> length (s_entries (snd (gate_remove t S))) < length (s_entries S)"
  by (auto simp: gate_remove_def gate_get_def mhas_iff intro!: length_mdel_less simp del: map_of_eq_Some_iff)

section \<open>Every operation keeps the invariant\<close>

lemma find_terminal:
  assumes "gate_ok S" and "find (\<lambda>e. terminal (g_state e)) (map snd (s_entries S)) = Some r"
  shows "gate_get (g_token r) S = Some r" "terminal (g_state r)"
proof -
  have "r \<in> set (map snd (s_entries S))" and t: "terminal (g_state r)"
    using assms(2) by (auto simp: find_Some_iff intro: nth_mem)
  then obtain t where "(t, r) \<in> set (s_entries S)" by auto
  then have g: "gate_get t S = Some r" using gate_okD(1) [OF assms(1)] by (simp add: gate_get_def)
  with gate_okD(5) [OF assms(1) g] show "gate_get (g_token r) S = Some r" "terminal (g_state r)"
    using t by (simp_all add: entry_ok_def)
qed

text \<open>The loop ends with a free slot or with no retired entry left, and it only removes retired
  entries.\<close>

definition sheds :: "gate_store \<Rightarrow> gate_store \<Rightarrow> bool" where
  "sheds S S' \<longleftrightarrow> s_maxEntries S' = s_maxEntries S \<and>
     (\<forall>t. gate_get t S' = gate_get t S \<or> gate_get t S' = None \<and> (\<exists>e. gate_get t S = Some e \<and> terminal (g_state e)))"

lemma shedsD:
  assumes "sheds S S'"
  shows "s_maxEntries S' = s_maxEntries S"
    "gate_get t S' = gate_get t S \<or> gate_get t S' = None \<and> (\<exists>e. gate_get t S = Some e \<and> terminal (g_state e))"
  using assms by (simp_all add: sheds_def)

lemma sheds_trans:
  assumes "sheds S S1" and "sheds S1 S2"
  shows "sheds S S2"
  unfolding sheds_def
proof (intro conjI allI)
  show "s_maxEntries S2 = s_maxEntries S" using shedsD(1) [OF assms(1)] shedsD(1) [OF assms(2)] by simp
  show "gate_get t S2 = gate_get t S \<or> gate_get t S2 = None \<and> (\<exists>e. gate_get t S = Some e \<and> terminal (g_state e))" for t
    using shedsD(2) [OF assms(1), of t] shedsD(2) [OF assms(2), of t] by (metis option.distinct(1))
qed

lemma sheds_remove: "gate_get t S = Some e \<Longrightarrow> terminal (g_state e) \<Longrightarrow> sheds S (snd (gate_remove t S))"
  by (simp add: sheds_def gate_remove_entries)

abbreviation no_retired :: "gate_store \<Rightarrow> bool" where
  "no_retired S \<equiv> find (\<lambda>e. terminal (g_state e)) (map snd (s_entries S)) = None"

lemma evict_retired_effect:
  assumes "gate_ok S" and "length (s_entries S) \<le> n" and "evict_retired n S = S'"
  shows "gate_ok S' \<and> sheds S S' \<and> (length (s_entries S') < s_maxEntries S' \<or> no_retired S')"
  using assms
proof (induction n arbitrary: S)
  case 0
  then show ?case by (simp add: gate_ok_def sheds_def)
next
  case (Suc n)
  show ?case
  proof (cases "s_maxEntries S \<le> length (s_entries S) \<and> \<not> no_retired S")
    case True
    then obtain r where some: "find (\<lambda>e. terminal (g_state e)) (map snd (s_entries S)) = Some r" by blast
    let ?S = "snd (gate_remove (g_token r) S)"
    note r = find_terminal [OF Suc.prems(1) some]
    have "length (s_entries ?S) \<le> n" using gate_remove_length [OF r(1)] Suc.prems(2) by simp
    moreover have "evict_retired n ?S = S'" using Suc.prems(3) True some by simp
    ultimately have IH: "gate_ok S' \<and> sheds ?S S' \<and> (length (s_entries S') < s_maxEntries S' \<or> no_retired S')"
      by (rule Suc.IH [OF gate_ok_remove [OF Suc.prems(1)]])
    then have "sheds S S'" by (intro sheds_trans [OF sheds_remove [OF r]]) simp
    with IH show ?thesis by simp
  next
    case False
    have "evict_retired (Suc n) S = S"
    proof (cases "s_maxEntries S \<le> length (s_entries S)")
      case True
      then have "no_retired S" using False by blast
      then show ?thesis by (simp del: find_None_iff)
    qed simp
    then show ?thesis using Suc.prems(1,3) False by (simp add: sheds_def not_le del: find_None_iff)
  qed
qed

lemmas evict_step = evict_retired_effect [OF _ order_refl refl]

lemma gate_ok_create:
  assumes ok: "gate_ok S"
  shows "gate_ok (snd (create_gate args token S))"
proof -
  let ?S = "evict_retired (length (s_entries S)) S"
  have ev: "gate_ok ?S" using evict_step [OF ok] by blast
  note D = gate_okD [OF ev]
  show ?thesis
  proof (cases "fst (create_gate args token S)")
    case None
    then have "snd (create_gate args token S) = ?S" by (auto simp: create_gate_def Let_def split: if_splits)
    with ev show ?thesis by simp
  next
    case (Some t)
    then obtain e where S': "snd (create_gate args token S) = put_entry t e ?S" and e: "g_token e = t" "g_messageId e = None"
        "g_state e = Presenting" and room: "length (s_entries ?S) < s_maxEntries ?S" and new: "gate_get t ?S = None"
      by (auto simp: create_gate_def Let_def gate_get_def mhas_map_of split: if_splits)
    show ?thesis
      unfolding S'
    proof (rule gate_okI)
      show "wf_map (s_entries (put_entry t e ?S))" using D(1) by (simp add: put_entry_def)
      show "wf_map (s_tokensByMessageId (put_entry t e ?S))" using D(2) by simp
      show "1 \<le> s_maxEntries (put_entry t e ?S)" using D(3) by simp
      show "length (s_entries (put_entry t e ?S)) \<le> s_maxEntries (put_entry t e ?S)"
        using room new by (simp add: put_entry_def length_mput gate_get_def mhas_map_of)
      show "entry_ok u f" if "gate_get u (put_entry t e ?S) = Some f" for u f
        using that D(5) [of u f] e by (auto simp: entry_ok_def split: if_splits)
      show "map_of (s_tokensByMessageId (put_entry t e ?S)) m = Some u \<longleftrightarrow>
          (\<exists>f. gate_get u (put_entry t e ?S) = Some f \<and> g_messageId f = Some m)" for m u
        using D(6) [of m u] new e(2) by (cases "u = t") (simp_all del: map_of_eq_Some_iff)
    qed
  qed
qed

lemma gate_ok_bind:
  assumes ok: "gate_ok S"
  shows "gate_ok (snd (bindMessage t messageId S))"
proof (cases "fst (bindMessage t messageId S)")
  case False
  then have "snd (bindMessage t messageId S) = S" by (auto simp: bindMessage_def split: option.splits if_splits)
  with ok show ?thesis by simp
next
  case True
  note D = gate_okD [OF ok]
  let ?m = "str_of messageId"
  from True obtain e where e: "gate_get t S = Some e" "g_state e = Presenting" "g_messageId e = None" "?m \<noteq> []"
    "\<not> mhas ?m (s_tokensByMessageId S)"
    and S': "snd (bindMessage t messageId S) = (put_entry t (e\<lparr>g_messageId := Some ?m\<rparr>) S)
      \<lparr>s_tokensByMessageId := mput ?m t (s_tokensByMessageId S)\<rparr>"
    by (auto simp: bindMessage_def nonempty_string_def split: option.splits if_splits)
  let ?e = "e\<lparr>g_messageId := Some ?m\<rparr>"
  have get: "gate_get u (snd (bindMessage t messageId S)) = (if u = t then Some ?e else gate_get u S)" for u
    unfolding S' using gate_get_put [of u t ?e S] by (simp add: gate_get_def)
  have free: "map_of (s_tokensByMessageId S) ?m = None" using e(5) by (simp add: mhas_map_of)
  show ?thesis
  proof (rule gate_okI)
    show "wf_map (s_entries (snd (bindMessage t messageId S)))" using D(1) by (simp add: S' put_entry_def)
    show "wf_map (s_tokensByMessageId (snd (bindMessage t messageId S)))" using D(2) by (simp add: S')
    show "1 \<le> s_maxEntries (snd (bindMessage t messageId S))" using D(3) by (simp add: S')
    show "length (s_entries (snd (bindMessage t messageId S))) \<le> s_maxEntries (snd (bindMessage t messageId S))"
      using D(4) put_entry_length [OF e(1), of ?e] by (simp add: S')
    show "entry_ok u f" if "gate_get u (snd (bindMessage t messageId S)) = Some f" for u f
      using that D(5) [OF e(1)] D(5) [of u f] e(4) by (auto simp: get entry_ok_def split: if_splits)
    show "map_of (s_tokensByMessageId (snd (bindMessage t messageId S))) m = Some u \<longleftrightarrow>
        (\<exists>f. gate_get u (snd (bindMessage t messageId S)) = Some f \<and> g_messageId f = Some m)" for m u
    proof (cases "m = ?m")
      case True
      have "\<nexists>f. gate_get u S = Some f \<and> g_messageId f = Some ?m" using D(6) [of ?m u] free by auto
      then show ?thesis using True e by (auto simp: get) (simp_all add: S')
    next
      case False
      then have "map_of (s_tokensByMessageId (snd (bindMessage t messageId S))) m = map_of (s_tokensByMessageId S) m"
        by (simp add: S')
      then show ?thesis
        using D(6) [of m u] False e(1,3) by (cases "u = t") (auto simp: get simp del: map_of_eq_Some_iff)
    qed
  qed
qed

lemma gate_ok_states:
  assumes ok: "gate_ok S"
  shows "gate_ok (snd (activate t S))" "gate_ok (snd (beginAnswer t messageId userId replyTo S))"
    "gate_ok (snd (rejectAnswer t S))" "gate_ok (snd (completeAnswer t S))" "gate_ok (snd (retire_gate t s S))"
proof -
  have msg: "g_messageId e \<noteq> None" if "gate_get t S = Some e" "g_state e \<in> {Answerable, Answering}" for e
    using gate_okD(5) [OF ok that(1)] that(2) by (auto simp: entry_ok_def)
  note upd = gate_ok_set_state [OF ok]
  show "gate_ok (snd (activate t S))"
    using upd ok by (auto simp: activate_def split: option.splits)
  show "gate_ok (snd (beginAnswer t messageId userId replyTo S))"
    using upd ok by (auto simp: beginAnswer_def split: option.splits)
  show "gate_ok (snd (rejectAnswer t S))" "gate_ok (snd (completeAnswer t S))"
    using upd ok msg by (auto simp: rejectAnswer_def completeAnswer_def split: option.splits)
  show "gate_ok (snd (retire_gate t s S))"
    using upd ok by (auto simp: retire_gate_def terminal_def TERMINAL_STATES_def split: option.splits)
qed

lemma gate_ok_updateState: "gate_ok S \<Longrightarrow> gate_ok (updateState s t S)"
  by (simp add: updateState_def Let_def gate_ok_states)

lemma gate_ok_render_begin:
  assumes "gate_ok S"
  shows "gate_ok (snd (render_begin hostId userId channelId gate token S))"
proof -
  let ?args = "\<lparr>a_hostId = hostId, a_requestId = r_requestId gate, a_gateId = r_gateId gate,
         a_presentationId = r_presentationId gate, a_userId = userId\<rparr>"
  obtain r S1 where c: "create_gate ?args token S = (r, S1)" by force
  have ok: "gate_ok S1" using gate_ok_create [OF assms, of ?args token] c by simp
  show ?thesis
  proof (cases r)
    case (Some t)
    show ?thesis
    proof (cases "gate_get t S1")
      case (Some e)
      have "g_messageId e \<noteq> None" if "g_state e \<in> {Answerable, Answering}"
        using gate_okD(5) [OF ok Some] that by (auto simp: entry_ok_def)
      then have "gate_ok (put_entry t (e\<lparr>g_channelId := Some channelId, g_kind := r_kind gate, g_prompt := r_prompt gate,
          g_choices := r_choices gate, g_multi := r_multi gate\<rparr>) S1)"
        by (intro gate_ok_update [OF ok Some]) simp_all
      then show ?thesis using c \<open>r = Some t\<close> Some by (simp add: render_begin_def)
    qed (use c ok \<open>r = Some t\<close> in \<open>simp add: render_begin_def\<close>)
  qed (use c ok in \<open>simp add: render_begin_def\<close>)
qed

section \<open>Interleavings\<close>

text \<open>The steps that the handlers of the bot take on the shared store, in any order.\<close>

datatype gate_op =
    Render_begin jsval jsval jsstr gate_request jsval
  | Render_sent jsstr jsval
  | Render_failed jsstr
  | Activate jsstr
  | Deliver_begin jsstr jsstr jsstr "jsstr option"
  | Deliver_finish jsstr bool
  | Update jsstr string
  | Remove jsstr

fun gate_do :: "gate_op \<Rightarrow> gate_store \<Rightarrow> gate_store" where
  "gate_do (Render_begin hostId userId channelId gate token) S = snd (render_begin hostId userId channelId gate token S)"
| "gate_do (Render_sent t messageId) S = snd (render_sent t messageId S)"
| "gate_do (Render_failed t) S = snd (render_failed t S)"
| "gate_do (Activate t) S = snd (activate t S)"
| "gate_do (Deliver_begin t messageId userId replyTo) S = snd (deliver_begin updateState t messageId userId replyTo S)"
| "gate_do (Deliver_finish t ok) S = deliver_finish updateState t ok S"
| "gate_do (Update t s) S = updateState s t S"
| "gate_do (Remove t) S = snd (gate_remove t S)"

inductive gate_reachable :: "gate_store \<Rightarrow> bool" where
  start: "new_gate_store maxEntries = Inr S \<Longrightarrow> gate_reachable S"
| step: "gate_reachable S \<Longrightarrow> gate_reachable (gate_do opn S)"

lemma gate_ok_render_sent: "gate_ok S \<Longrightarrow> gate_ok (snd (render_sent t messageId S))"
  by (simp add: render_sent_def case_prod_beta Let_def gate_ok_bind gate_ok_states)

lemma gate_ok_deliver_begin:
  assumes "gate_ok S"
  shows "gate_ok (snd (deliver_begin updateState t messageId userId replyTo S))"
proof -
  obtain r S1 where b: "beginAnswer t messageId userId replyTo S = (r, S1)" by force
  then have "gate_ok S1" using gate_ok_states(2) [OF assms, of t messageId userId replyTo] by simp
  with b show ?thesis by (cases r) (simp_all add: deliver_begin_def gate_ok_updateState)
qed

lemma gate_ok_do: "gate_ok S \<Longrightarrow> gate_ok (gate_do opn S)"
  by (cases opn)
    (simp_all add: gate_ok_render_begin gate_ok_render_sent gate_ok_deliver_begin gate_ok_states gate_ok_updateState
      gate_ok_remove render_failed_def deliver_finish_def)

lemma gate_ok_start: "new_gate_store maxEntries = Inr S \<Longrightarrow> gate_ok S"
  by (auto simp: new_gate_store_def gate_ok_def gate_get_def)

lemma gate_reachable_ok: "gate_reachable S \<Longrightarrow> gate_ok S"
  by (induction rule: gate_reachable.induct) (auto intro: gate_ok_start gate_ok_do)

section \<open>One answer at a time\<close>

text \<open>A token is locked when it has no entry or its entry is being answered or retired.\<close>

definition locked :: "jsstr \<Rightarrow> gate_store \<Rightarrow> bool" where
  "locked t S \<longleftrightarrow> (case gate_get t S of None \<Rightarrow> True | Some e \<Rightarrow> g_state e = Answering \<or> terminal (g_state e))"

lemma locked_begin: "locked t S \<Longrightarrow> beginAnswer t messageId userId replyTo S = (None, S)"
  by (auto simp: locked_def beginAnswer_def terminal_def TERMINAL_STATES_def split: option.splits)

lemma locked_set_state:
  "locked t (set_state u e s S) \<longleftrightarrow> (if t = u then s = Answering \<or> terminal s else locked t S)"
  by (simp add: locked_def set_state_def)

text \<open>The transitions of the state machine: what each operation does to one entry.\<close>

lemma locked_steps:
  assumes "locked t S"
  shows "locked t (snd (activate u S))" "locked t (snd (beginAnswer u messageId userId replyTo S))"
    "u \<noteq> t \<Longrightarrow> locked t (snd (rejectAnswer u S))" "locked t (snd (completeAnswer u S))" "locked t (snd (retire_gate u s S))"
    "locked t (snd (gate_remove u S))" "locked t (snd (bindMessage u mid S))"
proof -
  show "locked t (snd (activate u S))"
    using assms by (auto simp: activate_def locked_set_state split: option.splits)
      (auto simp: locked_def terminal_def TERMINAL_STATES_def)
  show "locked t (snd (beginAnswer u messageId userId replyTo S))"
    using assms by (auto simp: beginAnswer_def locked_set_state split: option.splits)
  show "u \<noteq> t \<Longrightarrow> locked t (snd (rejectAnswer u S))"
    using assms by (auto simp: rejectAnswer_def locked_set_state split: option.splits)
  show "locked t (snd (completeAnswer u S))"
    using assms by (auto simp: completeAnswer_def locked_set_state terminal_def TERMINAL_STATES_def split: option.splits)
  show "locked t (snd (retire_gate u s S))"
    using assms by (auto simp: retire_gate_def locked_set_state split: option.splits)
  show "locked t (snd (gate_remove u S))"
    using assms by (simp add: locked_def gate_remove_entries)
  show "locked t (snd (bindMessage u mid S))"
    using assms by (auto simp: bindMessage_def locked_def gate_get_def put_entry_def split: option.splits
        simp del: map_of_eq_Some_iff)
qed

lemma locked_updateState: "locked t S \<Longrightarrow> locked t (updateState s u S)"
  by (simp add: updateState_def Let_def locked_steps)

lemma locked_sheds: "locked t S \<Longrightarrow> sheds S S' \<Longrightarrow> locked t S'"
  using shedsD(2) [of S S' t] by (auto simp: locked_def split: option.splits)

lemma locked_render_begin:
  assumes "gate_ok S" and "locked t S" and "token \<noteq> JStr t"
  shows "locked t (snd (render_begin hostId userId channelId gate token S))"
proof -
  let ?args = "\<lparr>a_hostId = hostId, a_requestId = r_requestId gate, a_gateId = r_gateId gate,
         a_presentationId = r_presentationId gate, a_userId = userId\<rparr>"
  let ?S = "evict_retired (length (s_entries S)) S"
  have ev: "locked t ?S" using locked_sheds [OF assms(2)] evict_step [OF assms(1)] by blast
  obtain r S1 where c: "create_gate ?args token S = (r, S1)" by force
  show ?thesis
  proof (cases r)
    case None
    then have "S1 = ?S" using c by (auto simp: create_gate_def Let_def split: if_splits)
    then show ?thesis using c None ev by (simp add: render_begin_def)
  next
    case (Some u)
    then have u: "token = JStr u" and S1: "\<exists>e. S1 = put_entry u e ?S"
      using c by (auto simp: create_gate_def Let_def elim!: typeof_string.elims split: if_splits)
    then have "u \<noteq> t" using assms(3) by auto
    then show ?thesis
      using c Some S1 ev by (auto simp: render_begin_def locked_def)
  qed
qed

text \<open>The two operations that may unlock a token: the host refused the answer in flight, or the
  token factory produced the same token again.\<close>

fun unlocks :: "jsstr \<Rightarrow> gate_op \<Rightarrow> bool" where
  "unlocks t (Deliver_finish u ok) \<longleftrightarrow> u = t \<and> \<not> ok"
| "unlocks t (Render_begin _ _ _ _ token) \<longleftrightarrow> token = JStr t"
| "unlocks t _ \<longleftrightarrow> False"

lemma locked_do:
  assumes "gate_ok S" and "locked t S" and "\<not> unlocks t opn"
  shows "locked t (gate_do opn S)"
proof (cases opn)
  case (Render_begin hostId userId channelId gate token)
  then show ?thesis using locked_render_begin [OF assms(1,2)] assms(3) by simp
next
  case (Deliver_begin u messageId userId replyTo)
  obtain r S1 where b: "beginAnswer u messageId userId replyTo S = (r, S1)" by force
  then have "locked t S1" using locked_steps(2) [OF assms(2), of u messageId userId replyTo] by simp
  with b show ?thesis by (cases r) (simp_all add: Deliver_begin deliver_begin_def locked_updateState)
next
  case (Deliver_finish u ok)
  then show ?thesis
    using locked_updateState locked_steps(3,4) [OF assms(2), of u] assms(3) by (auto simp: deliver_finish_def)
qed (simp_all add: locked_steps [OF assms(2)] locked_steps locked_updateState [OF assms(2)] render_sent_def render_failed_def
    case_prod_beta Let_def)

fun gate_run :: "gate_op list \<Rightarrow> gate_store \<Rightarrow> gate_store" where
  "gate_run [] S = S"
| "gate_run (opn # ops) S = gate_run ops (gate_do opn S)"

lemma locked_run:
  "gate_ok S \<Longrightarrow> locked t S \<Longrightarrow> list_all (\<lambda>opn. \<not> unlocks t opn) ops \<Longrightarrow> locked t (gate_run ops S)"
  by (induction ops arbitrary: S) (simp_all add: gate_ok_do locked_do)

lemma begin_locks:
  assumes "beginAnswer t messageId userId replyTo S = (Some e, S1)"
  shows "locked t S1"
  using assms by (auto simp: beginAnswer_def locked_set_state split: option.splits if_splits)

text \<open>C7. Once an answer to a gate has been started, no second answer to it can start, whatever
  the bot's handlers do in between and in whatever order, until the host refuses the first
  one: two clicks or replies can never both reach the host.\<close>

theorem gate_answered_once:
  assumes "gate_reachable S" and "beginAnswer t messageId userId replyTo S = (Some e, S1)"
    and "list_all (\<lambda>opn. \<not> unlocks t opn) ops"
  shows "beginAnswer t messageId' userId' replyTo' (gate_run ops S1) = (None, gate_run ops S1)"
proof (rule locked_begin, rule locked_run [OF _ begin_locks [OF assms(2)] assms(3)])
  show "gate_ok S1"
    using gate_ok_states(2) [OF gate_reachable_ok [OF assms(1)], of t messageId userId replyTo] assms(2) by simp
qed

section \<open>Terminal states\<close>

lemma terminal_do:
  assumes "gate_get t S = Some e" and "terminal (g_state e)"
  shows "gate_get t (snd (activate u S)) = Some e" "gate_get t (snd (beginAnswer u messageId userId replyTo S)) = Some e"
    "gate_get t (snd (rejectAnswer u S)) = Some e" "gate_get t (snd (completeAnswer u S)) = Some e"
    "gate_get t (snd (retire_gate u s S)) = Some e"
  using assms
  by (auto simp: activate_def beginAnswer_def rejectAnswer_def completeAnswer_def retire_gate_def set_state_def
      terminal_def TERMINAL_STATES_def split: option.splits)

text \<open>A retired gate stays retired in the same state under every transition of the store:
  activating, answering, rejecting, completing or retiring it again leaves its entry as it
  is.\<close>

lemma retired_gate_final:
  assumes "gate_get t S = Some e" and "terminal (g_state e)"
  shows "gate_get t (snd (activate u S)) = Some e \<and> gate_get t (snd (beginAnswer u messageId userId replyTo S)) = Some e \<and>
    gate_get t (snd (rejectAnswer u S)) = Some e \<and> gate_get t (snd (completeAnswer u S)) = Some e \<and>
    gate_get t (snd (retire_gate u s S)) = Some e"
  using terminal_do [OF assms] by simp

section \<open>Replies and admission\<close>

text \<open>A reply that is classified as an answer is one that \<open>beginAnswer\<close> accepts at that
  moment, and a reply to a message that no stored gate owns is ordinary: the lookup by
  message and the entries never disagree.\<close>

theorem gate_reply_sound:
  assumes "gate_reachable S"
  shows "(classifyGateReply m channelId u S = Reply_answerable e \<longleftrightarrow>
      (\<exists>t. gate_get t S = Some e \<and> g_messageId e = Some m \<and> (channelId = None \<or> g_channelId e = channelId) \<and>
         fst (beginAnswer t m u (Some m) S) = Some (e\<lparr>g_state := Answering\<rparr>)))"
proof -
  note D = gate_okD [OF gate_reachable_ok [OF assms]]
  have find: "findMessage m channelId S = Some e \<longleftrightarrow>
      (\<exists>t. gate_get t S = Some e \<and> g_messageId e = Some m \<and> (channelId = None \<or> g_channelId e = channelId))"
  proof (cases "map_of (s_tokensByMessageId S) m")
    case None
    then have "\<nexists>t. gate_get t S = Some e \<and> g_messageId e = Some m" using D(6) [of m] by auto
    then show ?thesis using None by (auto simp: findMessage_def)
  next
    case (Some t)
    then have uniq: "gate_get t' S = Some e \<Longrightarrow> g_messageId e = Some m \<Longrightarrow> t' = t" for t'
      using D(6) [of m t'] by (metis option.inject)
    obtain e' where e': "gate_get t S = Some e'" "g_messageId e' = Some m" using Some D(6) [of m t] by blast
    show ?thesis
      using Some e' uniq by (auto simp: findMessage_def simp del: map_of_eq_Some_iff)
  qed
  have "classifyGateReply m channelId u S = Reply_answerable e \<longleftrightarrow>
      findMessage m channelId S = Some e \<and> g_userId e = u \<and> g_state e = Answerable"
    by (auto simp: classifyGateReply_def split: option.splits if_splits)
  also have "\<dots> \<longleftrightarrow> (\<exists>t. gate_get t S = Some e \<and> g_messageId e = Some m \<and> (channelId = None \<or> g_channelId e = channelId) \<and>
      g_userId e = u \<and> g_state e = Answerable)"
    unfolding find by blast
  also have "\<dots> \<longleftrightarrow> (\<exists>t. gate_get t S = Some e \<and> g_messageId e = Some m \<and> (channelId = None \<or> g_channelId e = channelId) \<and>
         fst (beginAnswer t m u (Some m) S) = Some (e\<lparr>g_state := Answering\<rparr>))"
    by (rule iff_exI) (auto simp: beginAnswer_def split: if_splits)
  finally show ?thesis .
qed

definition args_ok :: "gate_args \<Rightarrow> bool" where
  "args_ok args \<longleftrightarrow> list_all nonempty_string [a_hostId args, a_requestId args, a_gateId args, a_presentationId args, a_userId args]"

lemma no_retired_iff: "no_retired S \<longleftrightarrow> list_all (\<lambda>p. \<not> terminal (g_state (snd p))) (s_entries S)"
  by (auto simp: find_None_iff list_all_iff)

lemma evict_all_live:
  assumes "list_all (\<lambda>p. \<not> terminal (g_state (snd p))) (s_entries S)"
  shows "evict_retired n S = S"
  using assms by (cases n) (simp_all add: no_retired_iff [symmetric] del: find_None_iff)

lemma entry_keys: "fst ` set (s_entries X) = {t. gate_get t X \<noteq> None}"
  by (auto simp: gate_get_def map_of_eq_None_iff)

lemma sheds_shorter:
  assumes ok: "gate_ok S" "gate_ok S'" and sh: "sheds S S'" and te: "gate_get t S = Some e" "gate_get t S' \<noteq> Some e"
  shows "length (s_entries S') < length (s_entries S)"
proof -
  have "{t. gate_get t S' \<noteq> None} \<subset> {t. gate_get t S \<noteq> None}"
  proof
    show "{t. gate_get t S' \<noteq> None} \<subseteq> {t. gate_get t S \<noteq> None}"
      using shedsD(2) [OF sh] by (metis (mono_tags, lifting) mem_Collect_eq subsetI)
    have "gate_get t S' = None" using shedsD(2) [OF sh, of t] te by auto
    then have "t \<notin> {t. gate_get t S' \<noteq> None}" "t \<in> {t. gate_get t S \<noteq> None}" using te(1) by simp_all
    then show "{t. gate_get t S' \<noteq> None} \<noteq> {t. gate_get t S \<noteq> None}" by blast
  qed
  then have "card (fst ` set (s_entries S')) < card (fst ` set (s_entries S))"
    unfolding entry_keys [symmetric] by (intro psubset_card_mono) auto
  then show ?thesis
    using gate_okD(1) [OF ok(1)] gate_okD(1) [OF ok(2)] by (metis distinct_card length_map list.set_map)
qed

lemma evict_makes_room:
  assumes ok: "gate_ok S" and te: "gate_get t S = Some e" "terminal (g_state e)"
    and S': "evict_retired (length (s_entries S)) S = S'"
  shows "length (s_entries S') < s_maxEntries S'"
proof (rule ccontr)
  assume "\<not> ?thesis"
  moreover have ev: "gate_ok S'" "sheds S S'" "length (s_entries S') < s_maxEntries S' \<or> no_retired S'"
    using evict_retired_effect [OF ok order_refl S'] by (simp_all del: find_None_iff)
  ultimately have live: "no_retired S'" and many: "s_maxEntries S \<le> length (s_entries S')"
    using shedsD(1) [OF ev(2)] by (simp_all del: find_None_iff)
  have "gate_get t S' \<noteq> Some e"
    using live te(2) gate_okD(1) [OF ev(1)] unfolding no_retired_iff by (auto simp: list_all_iff gate_get_def)
  from sheds_shorter [OF ok ev(1,2) te(1) this] many gate_okD(4) [OF ok] show False by simp
qed

text \<open>A new gate is refused for lack of capacity only when every slot holds a gate that is
  still live: given a valid fresh token and valid arguments, \<open>create\<close> succeeds exactly when
  there is a free slot or a retired entry to evict.\<close>

theorem gate_admission:
  assumes "gate_reachable S" and "args_ok args" and "length token \<in> {1..64}" and "gate_get token S = None"
  shows "fst (create_gate args (JStr token) S) = Some token \<longleftrightarrow>
    length (s_entries S) < s_maxEntries S \<or> list_ex (\<lambda>p. terminal (g_state (snd p))) (s_entries S)"
proof -
  note ok = gate_reachable_ok [OF assms(1)]
  let ?S = "evict_retired (length (s_entries S)) S"
  have sh: "sheds S ?S" using evict_step [OF ok] by blast
  then have "gate_get token ?S = None" using shedsD(2) [OF sh, of token] assms(4) by auto
  then have "fst (create_gate args (JStr token) S) = Some token \<longleftrightarrow> length (s_entries ?S) < s_maxEntries ?S"
    using assms(2,3) by (auto simp: create_gate_def Let_def args_ok_def gate_get_def mhas_map_of)
  also have "\<dots> \<longleftrightarrow> length (s_entries S) < s_maxEntries S \<or> list_ex (\<lambda>p. terminal (g_state (snd p))) (s_entries S)"
  proof (cases "list_ex (\<lambda>p. terminal (g_state (snd p))) (s_entries S)")
    case False
    then have "?S = S" by (intro evict_all_live) (auto simp: list_ex_iff list_all_iff)
    then show ?thesis using False by simp
  next
    case True
    then obtain t e where "gate_get t S = Some e" "terminal (g_state e)"
      using gate_okD(1) [OF ok] by (auto simp: list_ex_iff gate_get_def)
    from evict_makes_room [OF ok this refl] True show ?thesis by simp
  qed
  finally show ?thesis .
qed

section \<open>Witnesses\<close>

definition wit_gate :: gate_store where
  "wit_gate = \<lparr>s_entries = [], s_tokensByMessageId = [], s_maxEntries = 1\<rparr>"

definition wit_request :: gate_request where
  "wit_request = \<lparr>r_requestId = JLit ''r'', r_gateId = JLit ''g'', r_presentationId = JLit ''p'', r_kind = js ''question'',
     r_prompt = js ''ok?'', r_choices = [js ''yes'', js ''no''], r_multi = False\<rparr>"

definition wit_shown :: gate_store where
  "wit_shown = gate_run [Render_begin (JLit ''h'') (JLit ''u'') (js ''c'') wit_request (JLit ''t''),
     Render_sent (js ''t'') (JLit ''m''), Activate (js ''t'')] wit_gate"

lemma wit_gate_reachable: "gate_reachable wit_gate"
  by (rule gate_reachable.start [of "JInt 1"]) (simp add: new_gate_store_def wit_gate_def is_integral_def)

lemma wit_shown_reachable: "gate_reachable wit_shown"
  unfolding wit_shown_def by (simp only: gate_run.simps) (intro gate_reachable.step wit_gate_reachable)

lemma wit_shown_eq:
  "wit_shown = \<lparr>s_entries = [(js ''t'', \<lparr>g_token = js ''t'', g_hostId = js ''h'', g_requestId = js ''r'', g_gateId = js ''g'',
      g_presentationId = js ''p'', g_userId = js ''u'', g_messageId = Some (js ''m''), g_state = Answerable,
      g_channelId = Some (js ''c''), g_kind = js ''question'', g_prompt = js ''ok?'', g_choices = [js ''yes'', js ''no''],
      g_multi = False\<rparr>)], s_tokensByMessageId = [(js ''m'', js ''t'')], s_maxEntries = 1\<rparr>"
  by (simp add: wit_shown_def wit_gate_def wit_request_def render_begin_def create_gate_def Let_def gate_get_def
      nonempty_string_def put_entry_def render_sent_def bindMessage_def activate_def set_state_def mhas_def)

theorem gate_answered_once_witness:
  "fst (beginAnswer (js ''t'') (js ''m'') (js ''u'') (Some (js ''m''))
     (gate_run [Update (js ''t'') ''Awaiting answer'']
       (snd (beginAnswer (js ''t'') (js ''m'') (js ''u'') None wit_shown)))) = None"
proof -
  obtain e S1 where b: "beginAnswer (js ''t'') (js ''m'') (js ''u'') None wit_shown = (Some e, S1)"
    by (simp add: wit_shown_eq beginAnswer_def gate_get_def)
  show ?thesis
    using gate_answered_once [OF wit_shown_reachable b, of "[Update (js ''t'') ''Awaiting answer'']"] b by simp
qed

theorem gate_reply_sound_witness:
  "\<exists>e. classifyGateReply (js ''m'') (Some (js ''c'')) (js ''u'') wit_shown = Reply_answerable e \<and>
     (\<exists>t. gate_get t wit_shown = Some e \<and> g_messageId e = Some (js ''m'') \<and>
        (Some (js ''c'') = None \<or> g_channelId e = Some (js ''c'')) \<and>
        fst (beginAnswer t (js ''m'') (js ''u'') (Some (js ''m'')) wit_shown) = Some (e\<lparr>g_state := Answering\<rparr>))"
proof -
  obtain e where c: "classifyGateReply (js ''m'') (Some (js ''c'')) (js ''u'') wit_shown = Reply_answerable e"
    by (simp add: wit_shown_eq classifyGateReply_def findMessage_def gate_get_def)
  with gate_reply_sound [OF wit_shown_reachable] show ?thesis by blast
qed

theorem gate_admission_witness:
  "fst (create_gate \<lparr>a_hostId = JLit ''h'', a_requestId = JLit ''r'', a_gateId = JLit ''g'', a_presentationId = JLit ''p'',
      a_userId = JLit ''u''\<rparr> (JLit ''s'') wit_shown) = Some (js ''s'') \<longleftrightarrow>
    length (s_entries wit_shown) < s_maxEntries wit_shown \<or> list_ex (\<lambda>p. terminal (g_state (snd p))) (s_entries wit_shown)"
  by (rule gate_admission [OF wit_shown_reachable])
    (simp_all add: args_ok_def nonempty_string_def gate_get_def wit_shown_eq)

end
