(* ===== verification/Delivery.thy ===== *)
theory Delivery
  imports Readiness
begin

text \<open>
  The delivery of a remote result to Discord, \<^verbatim>\<open>bot/src/delivery.js\<close>: the wording of
  errors, the split of a long body into message-sized chunks that close and reopen code
  fences, and the messages that are sent.

  The calls \<open>sendFirst\<close> and \<open>sendFollow\<close> are the messages of the result, in order; the delay
  between them is not modelled.  \<open>JSON.stringify\<close> on an error value is the parameter
  \<open>stringify\<close>, \<open>None\<close> when it throws.
\<close>

section \<open>Constants\<close>

definition CHUNK_LIMIT :: nat where
  "CHUNK_LIMIT = 1900"

definition MAX_CHUNKS :: nat where
  "MAX_CHUNKS = 7"

abbreviation newline :: "16 word" where
  "newline \<equiv> 0x0a"

section \<open>Wording of errors\<close>

definition local_deadline_wording :: "(string \<times> string) list" where
  "local_deadline_wording =
    [(''idle_timeout'', ''The bot stopped waiting because the host produced no activity. Interruption is unconfirmed; verify the host state before retrying.''),
     (''hard_cap'', ''The bot reached its absolute wait limit. Interruption is unconfirmed; verify the host state before retrying.''),
     (''cancellation_pending'', ''The host acknowledged the cancellation request, but active work may still continue. Interruption is unconfirmed; verify the host state before retrying.''),
     (''cancellation_receipt_timeout'', ''The bot did not receive a cancellation receipt from the host. Interruption is unconfirmed; verify the host state before retrying.''),
     (''cancellation_terminal_timeout'', ''The host revoked queued work but did not deliver its terminal cancellation frame. Interruption is unconfirmed; verify the host state before retrying.''),
     (''cancellation_terminal_conflict'', ''The host contradicted its queued-cancellation receipt. Interruption is unconfirmed; verify the host state before retrying.''),
     (''cancellation_send_failed'', ''The bot could not deliver the cancellation request to the host. Interruption is unconfirmed; verify the host state before retrying.''),
     (''already_terminal'', ''The host reported that the request was already terminal, but this observer did not receive its terminal outcome. Interruption is unconfirmed; verify the host state before retrying.''),
     (''not_owned'', ''The host could not correlate the cancellation request to owned work. Interruption is unconfirmed; verify the host state before retrying.''),
     (''cancellation_unconfirmed'', ''The cancellation request could not be established. Interruption is unconfirmed; verify the host state before retrying.'')]"

definition terminal_wording :: "(string \<times> string) list" where
  "terminal_wording =
    [(''failed'', ''The host reported that the request failed. Follow the safety guidance before retrying.''),
     (''cancelled'', ''The host reported that the request was cancelled. Verify the host state for safety before retrying.''),
     (''paused'', ''The host reported that the request was paused. Verify the host state for safety before starting a new request.''),
     (''timed_out'', ''The host reported that the request timed out. Interruption is unconfirmed; verify the host state for safety before retrying.''),
     (''disconnected'', ''The request became disconnected from its observer. Interruption is unconfirmed; verify the host state for safety before retrying.'')]"

text \<open>The lookup of a property of an object literal by a value: only a string can name one.\<close>

definition wording :: "(string \<times> string) list \<Rightarrow> jsval \<Rightarrow> jsstr option" where
  "wording table v = map_option js (map_of (map (\<lambda>(k, w). (JLit k, w)) table) v)"

definition formatDeliveryError :: "(jsval \<Rightarrow> jsstr) \<Rightarrow> (jsval \<Rightarrow> jsstr option) \<Rightarrow> jsval \<Rightarrow> jsstr" where
  "formatDeliveryError string_of stringify error =
     (if \<not> truthy error \<or> \<not> (isObject error \<or> isArray error)
      then string_of (if error = JUndefined \<or> error = JNull then JLit ''unknown error'' else error)
      else case wording local_deadline_wording (fld error ''localOutcome'') of
        Some w \<Rightarrow> w
      | None \<Rightarrow>
        (let tw = wording terminal_wording (fld error ''terminalDisposition'') in
         if typeof_string (fld error ''code'') \<and> typeof_boolean (fld error ''retryable'') \<and>
            typeof_string (fld error ''action'') then
           (let structured = str_of (fld error ''code'') @ js '' (action: '' @ str_of (fld error ''action'') @ js ''; '' @
                (if fld error ''retryable'' = JBool True then js ''retryable'' else js ''not retryable'') @ js '')''
            in case tw of Some w \<Rightarrow> w @ newline # structured | None \<Rightarrow> structured)
         else case tw of
           Some w \<Rightarrow> w
         | None \<Rightarrow> (case stringify error of Some t \<Rightarrow> t | None \<Rightarrow> js ''unknown error'')))"

section \<open>Splitting\<close>

fun split_lines :: "jsstr \<Rightarrow> jsstr list" where
  "split_lines [] = [[]]"
| "split_lines (c # s) =
     (if c = newline then [] # split_lines s
      else case split_lines s of l # ls \<Rightarrow> (c # l) # ls | [] \<Rightarrow> [[c]])"

text \<open>\<open>for (i = 0; i < line.length; i += budget) lines.push(line.slice(i, i + budget))\<close>\<close>

function slices :: "nat \<Rightarrow> 'a list \<Rightarrow> 'a list list" where
  "slices budget line =
     (if line = [] \<or> budget = 0 then [] else take budget line # slices budget (drop budget line))"
  by pat_completeness auto
termination
  by (relation "measure (\<lambda>(_, line). length line)") auto

declare slices.simps [simp del]

definition bounded_lines :: "nat \<Rightarrow> jsstr \<Rightarrow> jsstr list" where
  "bounded_lines budget text =
     concat (map (\<lambda>line. if length line \<le> budget then [line] else slices budget line) (split_lines text))"

definition FENCE :: jsstr where
  "FENCE = js ''```''"

text \<open>\<open>/^\s*```/.test(line)\<close>\<close>

definition is_fence :: "jsstr \<Rightarrow> bool" where
  "is_fence line \<longleftrightarrow> take 3 (dropWhile is_space line) = FENCE"

record splitter =
  p_chunks :: "jsstr list"
  p_current :: jsstr
  p_inFence :: bool

definition flush :: "splitter \<Rightarrow> splitter" where
  "flush P =
     (if p_current P = [] then P
      else P\<lparr>p_chunks := p_chunks P @ [if p_inFence P then p_current P @ newline # FENCE else p_current P],
             p_current := if p_inFence P then FENCE else []\<rparr>)"

definition append_line :: "jsstr \<Rightarrow> splitter \<Rightarrow> splitter" where
  "append_line line P = P\<lparr>p_current := p_current P @ (if p_current P = [] then line else newline # line),
     p_inFence := (if is_fence line then \<not> p_inFence P else p_inFence P)\<rparr>"

definition split_step :: "nat \<Rightarrow> jsstr \<Rightarrow> splitter \<Rightarrow> splitter" where
  "split_step limit line P =
     (let projected = (if p_current P = [] then length line else length (p_current P) + 1 + length line);
          fence_reserve = (if p_inFence P then 4 else 0);
          P1 = (if p_current P \<noteq> [] \<and> limit < projected + fence_reserve then flush P else P)
      in append_line line P1)"

definition splitForDiscord :: "jsstr \<Rightarrow> nat \<Rightarrow> jsstr list" where
  "splitForDiscord text limit =
     (let P = fold (split_step limit) (bounded_lines (limit - 8) text)
        \<lparr>p_chunks = [], p_current = [], p_inFence = False\<rparr>
      in p_chunks P @ (if p_current P = [] then [] else [p_current P]))"

section \<open>Delivery\<close>

record result =
  res_ok :: bool
  res_text :: "jsstr option"
  res_error :: jsval

record message =
  m_first :: bool
  m_content :: jsstr
  m_components :: "jsstr list"
  m_file :: "(jsstr \<times> jsstr) option"

definition part_label :: "nat \<Rightarrow> nat \<Rightarrow> jsstr" where
  "part_label i n = (if 1 < n then js ''_(Part '' @ show_nat (i + 1) @ js ''/'' @ show_nat n @ js '')_'' @ [newline] else [])"

definition part_messages :: "jsstr list \<Rightarrow> jsstr list \<Rightarrow> message list" where
  "part_messages components chunks =
     map (\<lambda>i. \<lparr>m_first = (i = 0), m_content = part_label i (length chunks) @ chunks ! i,
               m_components = (if i = length chunks - 1 \<and> components \<noteq> [] then components else []), m_file = None\<rparr>)
       [0 ..< length chunks]"

definition deliverResult ::
  "(jsval \<Rightarrow> jsstr) \<Rightarrow> (jsval \<Rightarrow> jsstr option) \<Rightarrow> result \<Rightarrow> jsstr \<Rightarrow> jsstr \<Rightarrow> jsstr list \<Rightarrow> message list" where
  "deliverResult string_of stringify res header outputName components =
     (let text = (if res_ok res then case res_text res of Some t \<Rightarrow> t | None \<Rightarrow> js ''(no text output)''
                  else formatDeliveryError string_of stringify (res_error res));
          body = header @ newline # text
      in if length body \<le> CHUNK_LIMIT
         then [\<lparr>m_first = True, m_content = body, m_components = components, m_file = None\<rparr>]
         else let chunks = splitForDiscord body CHUNK_LIMIT in
           if length chunks \<le> MAX_CHUNKS then part_messages components chunks
           else [\<lparr>m_first = True,
                  m_content = header @ js '' (output attached, '' @ show_nat (length text) @ js '' chars)'',
                  m_components = components, m_file = Some (outputName, text)\<rparr>])"

section \<open>Lines and pieces\<close>

lemma split_lines_nonempty [simp]: "split_lines s \<noteq> []"
  by (induction s) (auto split: list.splits)

lemma split_lines_no_newline: "l \<in> set (split_lines s) \<Longrightarrow> newline \<notin> set l"
proof (induction s arbitrary: l)
  case (Cons c s)
  then show ?case by (cases "split_lines s") (auto split: if_splits)
qed simp

lemma split_lines_single [simp]: "newline \<notin> set l \<Longrightarrow> split_lines l = [l]"
  by (induction l) auto

lemma split_lines_snoc: "newline \<notin> set l \<Longrightarrow> split_lines (a @ newline # l) = split_lines a @ [l]"
proof (induction a)
  case (Cons c a)
  then show ?case by (cases "split_lines a") auto
qed simp

lemma concat_split_lines: "concat (split_lines s) = filter (\<lambda>c. c \<noteq> newline) s"
proof (induction s)
  case (Cons c s)
  then show ?case by (cases "split_lines s") auto
qed simp

lemma slices_concat: "0 < n \<Longrightarrow> concat (slices n xs) = xs"
proof (induction n xs rule: slices.induct)
  case (1 n xs)
  then show ?case by (subst slices.simps) auto
qed

lemma slices_bound: "x \<in> set (slices n xs) \<Longrightarrow> length x \<le> n \<and> set x \<subseteq> set xs"
proof (induction n xs rule: slices.induct)
  case (1 n xs)
  show ?case
  proof (cases "xs = [] \<or> n = 0")
    case True
    then show ?thesis using "1.prems" by (subst (asm) slices.simps) auto
  next
    case False
    then have "x = take n xs \<or> x \<in> set (slices n (drop n xs))"
      using "1.prems" by (subst (asm) slices.simps) auto
    with 1 False show ?thesis by (auto dest: in_set_takeD in_set_dropD)
  qed
qed

lemma bounded_lines_piece: "l \<in> set (bounded_lines n s) \<Longrightarrow> length l \<le> n \<and> newline \<notin> set l"
proof -
  assume "l \<in> set (bounded_lines n s)"
  then obtain x where x: "x \<in> set (split_lines s)" "l \<in> set (if length x \<le> n then [x] else slices n x)"
    by (auto simp: bounded_lines_def)
  show ?thesis
    using x(2) slices_bound [of l n x] split_lines_no_newline [OF x(1)] by (auto split: if_splits)
qed

lemma bounded_lines_concat: "0 < n \<Longrightarrow> concat (bounded_lines n s) = filter (\<lambda>c. c \<noteq> newline) s"
proof -
  assume n: "0 < n"
  have "concat (concat (map (\<lambda>l. if length l \<le> n then [l] else slices n l) ls)) = concat ls" for ls :: "jsstr list"
    by (induction ls) (simp_all add: slices_concat [OF n])
  then show ?thesis by (simp add: bounded_lines_def concat_split_lines)
qed

section \<open>Chunks are bounded and balanced\<close>

definition fences :: "jsstr \<Rightarrow> nat" where
  "fences s = length (filter is_fence (split_lines s))"

lemma FENCE_facts [simp]: "FENCE \<noteq> []" "length FENCE = 3" "is_fence FENCE" "newline \<notin> set FENCE" "\<not> is_fence []"
  by (auto simp: FENCE_def is_fence_def js_def is_space_def)

text \<open>What the splitter maintains after every line, for lines of at most \<open>limit - 8\<close> units.\<close>

definition split_ok :: "nat \<Rightarrow> splitter \<Rightarrow> bool" where
  "split_ok limit P \<longleftrightarrow> length (p_current P) \<le> limit \<and> (odd (fences (p_current P)) \<longleftrightarrow> p_inFence P) \<and>
     list_all (\<lambda>c. c \<noteq> [] \<and> length c \<le> limit + 4 \<and> even (fences c)) (p_chunks P)"

lemma fences_nil [simp]: "fences [] = 0"
  by (simp add: fences_def)

lemma fences_append:
  "newline \<notin> set l \<Longrightarrow> fences (a @ newline # l) = fences a + (if is_fence l then 1 else 0)"
  "newline \<notin> set l \<Longrightarrow> fences l = (if is_fence l then 1 else 0)"
  by (simp_all add: fences_def split_lines_snoc)

lemma flush_ok: "split_ok limit P \<Longrightarrow> 12 \<le> limit \<Longrightarrow> split_ok limit (flush P)"
  by (auto simp: split_ok_def flush_def fences_append)

lemma append_line_ok:
  assumes "split_ok limit P" and "newline \<notin> set line"
    and "length (p_current P) + (if p_current P = [] then 0 else 1) + length line \<le> limit"
  shows "split_ok limit (append_line line P)"
  using assms by (cases "p_current P = []") (auto simp: split_ok_def append_line_def fences_append)

lemma split_step_ok:
  assumes ok: "split_ok limit P" and l: "12 \<le> limit" "length line \<le> limit - 8" "newline \<notin> set line"
  shows "split_ok limit (split_step limit line P)"
proof (cases "p_current P \<noteq> [] \<and> limit < length (p_current P) + 1 + length line + (if p_inFence P then 4 else 0)")
  case True
  then have "split_step limit line P = append_line line (flush P)" by (simp add: split_step_def Let_def)
  moreover have short: "length (p_current (flush P)) \<le> 3" using True by (auto simp: flush_def)
  moreover from short l(1,2)
  have "length (p_current (flush P)) + (if p_current (flush P) = [] then 0 else 1) + length line \<le> limit"
    by (cases "p_current (flush P) = []") auto
  ultimately show ?thesis using append_line_ok [OF flush_ok [OF ok l(1)] l(3)] by simp
next
  case False
  then have "split_step limit line P = append_line line P" by (auto simp: split_step_def Let_def)
  with False show ?thesis using append_line_ok [OF ok l(3)] l by (auto split: if_splits)
qed

lemma split_fold_ok:
  assumes "split_ok limit P" and "12 \<le> limit" and "\<And>l. l \<in> set ls \<Longrightarrow> length l \<le> limit - 8 \<and> newline \<notin> set l"
  shows "split_ok limit (fold (split_step limit) ls P)"
  using assms(1,3) by (induction ls arbitrary: P) (auto intro: split_step_ok [OF _ assms(2)])

lemma split_ok_start: "split_ok limit \<lparr>p_chunks = [], p_current = [], p_inFence = False\<rparr>"
  by (simp add: split_ok_def)

text \<open>C29. Whatever the text, every chunk is non-empty and exceeds the limit by at most the four
  units of a closing fence, and every chunk but the last has as many closing as opening code
  fences, so that Discord renders each message on its own.\<close>

theorem chunks_bounded_balanced:
  assumes "12 \<le> limit"
  shows "list_all (\<lambda>c. c \<noteq> [] \<and> length c \<le> limit + 4) (splitForDiscord text limit) \<and>
    list_all (\<lambda>c. even (fences c)) (butlast (splitForDiscord text limit))"
proof -
  let ?P = "fold (split_step limit) (bounded_lines (limit - 8) text) \<lparr>p_chunks = [], p_current = [], p_inFence = False\<rparr>"
  have ok: "split_ok limit ?P"
    by (rule split_fold_ok [OF split_ok_start assms]) (rule bounded_lines_piece)
  have eq: "splitForDiscord text limit = p_chunks ?P @ (if p_current ?P = [] then [] else [p_current ?P])"
    by (simp add: splitForDiscord_def Let_def)
  show ?thesis
    using ok by (auto simp: eq split_ok_def list_all_iff butlast_append dest: in_set_butlastD)
qed

theorem chunks_bounded_balanced_witness:
  "list_all (\<lambda>c. c \<noteq> [] \<and> length c \<le> 12 + 4) (splitForDiscord (js ''abcdef'') 12) \<and>
    list_all (\<lambda>c. even (fences c)) (butlast (splitForDiscord (js ''abcdef'') 12))"
  by (rule chunks_bounded_balanced) simp

section \<open>Nothing but line breaks is lost\<close>

abbreviation visible :: "jsstr \<Rightarrow> jsstr" where
  "visible s \<equiv> filter (\<lambda>c. c \<noteq> newline) s"

definition emitted :: "splitter \<Rightarrow> jsstr" where
  "emitted P = visible (concat (p_chunks P) @ p_current P)"

lemma split_step_emitted:
  assumes "\<not> p_inFence P" and "\<not> is_fence line" and "newline \<notin> set line"
  shows "emitted (split_step limit line P) = emitted P @ line \<and> \<not> p_inFence (split_step limit line P)"
  using assms by (auto simp: emitted_def split_step_def append_line_def flush_def Let_def filter_id_conv)

lemma split_fold_emitted:
  assumes "\<not> p_inFence P" and "\<And>l. l \<in> set ls \<Longrightarrow> \<not> is_fence l \<and> newline \<notin> set l"
  shows "emitted (fold (split_step limit) ls P) = emitted P @ concat ls"
  using assms by (induction ls arbitrary: P) (auto simp: split_step_emitted)

text \<open>C30. When no line of the text is a code fence, the chunks together carry every character of
  it in order; only line breaks differ.\<close>

theorem chunks_complete:
  assumes "8 < limit" and "list_all (\<lambda>l. \<not> is_fence l) (bounded_lines (limit - 8) text)"
  shows "visible (concat (splitForDiscord text limit)) = visible text"
proof -
  let ?start = "\<lparr>p_chunks = [], p_current = [], p_inFence = False\<rparr>"
  let ?P = "fold (split_step limit) (bounded_lines (limit - 8) text) ?start"
  have "emitted ?P = emitted ?start @ concat (bounded_lines (limit - 8) text)"
    by (rule split_fold_emitted) (use assms(2) bounded_lines_piece in \<open>auto simp: list_all_iff\<close>)
  also have "\<dots> = visible text"
    using assms(1) by (simp add: bounded_lines_concat) (simp add: emitted_def)
  finally show ?thesis
    by (cases "p_current ?P = []") (simp_all add: splitForDiscord_def Let_def emitted_def)
qed

theorem chunks_complete_witness:
  "visible (concat (splitForDiscord (js ''abcdef'') 12)) = visible (js ''abcdef'')"
proof (rule chunks_complete)
  have "bounded_lines (12 - 8) (js ''abcdef'') = [js ''abcd'', js ''ef'']"
    by (simp add: bounded_lines_def js_def slices.simps)
  then show "list_all (\<lambda>l. \<not> is_fence l) (bounded_lines (12 - 8) (js ''abcdef''))"
    by (simp add: is_fence_def FENCE_def js_def is_space_def)
qed simp

section \<open>Messages fit\<close>

lemma show_nat_length: "n < 10 ^ k \<Longrightarrow> 1 \<le> k \<Longrightarrow> length (show_nat n) \<le> k"
proof (induction n arbitrary: k rule: show_nat.induct)
  case (1 n)
  show ?case
  proof (cases "n < 10")
    case True
    then show ?thesis using "1.prems"(2) by (subst show_nat.simps) simp
  next
    case False
    then obtain j where k: "k = Suc j" "1 \<le> j"
      using "1.prems" by (cases k; cases "k - 1") auto
    have "n div 10 < 10 ^ j" using "1.prems"(1) k by (simp add: less_mult_imp_div_less mult.commute)
    with 1 False k have "length (show_nat (n div 10)) \<le> j" by blast
    then show ?thesis using False k by (subst show_nat.simps) simp
  qed
qed

lemma part_label_length: "i < n \<Longrightarrow> n \<le> MAX_CHUNKS \<Longrightarrow> length (part_label i n) \<le> 13"
  using show_nat_length [of "i + 1" 1] show_nat_length [of n 1]
  by (simp add: part_label_def MAX_CHUNKS_def)

lemma part_messages_fit:
  assumes "chunks \<noteq> []" and "length chunks \<le> MAX_CHUNKS" and "list_all (\<lambda>c. c \<noteq> [] \<and> length c \<le> 1904) chunks"
  shows "list_all (\<lambda>msg. length (m_content msg) \<le> 2000) (part_messages components chunks) \<and>
    1 \<le> length (part_messages components chunks) \<and> length (part_messages components chunks) \<le> 7 \<and>
    map m_first (part_messages components chunks) = True # replicate (length (part_messages components chunks) - 1) False \<and>
    map m_components (part_messages components chunks) =
      replicate (length (part_messages components chunks) - 1) [] @ [components]"
proof -
  obtain n where n: "length chunks = Suc n" using assms(1) by (cases chunks) auto
  have "length (m_content msg) \<le> 2000" if "msg \<in> set (part_messages components chunks)" for msg
  proof -
    from that obtain i where i: "i < length chunks" "m_content msg = part_label i (length chunks) @ chunks ! i"
      by (auto simp: part_messages_def)
    then show ?thesis
      using part_label_length [OF i(1) assms(2)] assms(3) by (auto simp: list_all_length)
  qed
  moreover have "map m_first (part_messages components chunks) = True # replicate n False"
    by (rule nth_equalityI) (auto simp: part_messages_def n nth_Cons split: nat.split simp del: upt_Suc)
  moreover have "map m_components (part_messages components chunks) = replicate n [] @ [components]"
    by (rule nth_equalityI) (auto simp: part_messages_def n nth_append simp del: upt_Suc)
  ultimately show ?thesis
    using assms(1,2) n by (auto simp: list_all_iff part_messages_def MAX_CHUNKS_def)
qed

lemma splitForDiscord_nonempty: "\<exists>c \<in> set text. c \<noteq> newline \<Longrightarrow> 8 < limit \<Longrightarrow> splitForDiscord text limit \<noteq> []"
proof -
  assume t: "\<exists>c \<in> set text. c \<noteq> newline" and l: "8 < limit"
  let ?f = "split_step limit"
  have keep: "p_chunks (?f line P) \<noteq> [] \<or> p_current (?f line P) \<noteq> []"
    if "line \<noteq> [] \<or> p_chunks P \<noteq> [] \<or> p_current P \<noteq> []" for line P
    using that by (auto simp: split_step_def append_line_def flush_def Let_def)
  have run: "p_chunks (fold ?f ls P) \<noteq> [] \<or> p_current (fold ?f ls P) \<noteq> []"
    if "(\<exists>line \<in> set ls. line \<noteq> []) \<or> p_chunks P \<noteq> [] \<or> p_current P \<noteq> []" for ls P
    using that
  proof (induction ls arbitrary: P)
    case (Cons line ls)
    then show ?case using keep [of line P] by (cases "line \<noteq> [] \<or> p_chunks P \<noteq> [] \<or> p_current P \<noteq> []") auto
  qed simp
  have "concat (bounded_lines (limit - 8) text) \<noteq> []"
    using t l by (auto simp: bounded_lines_concat filter_empty_conv)
  then have "\<exists>line \<in> set (bounded_lines (limit - 8) text). line \<noteq> []" by auto
  with run [of "bounded_lines (limit - 8) text"] show ?thesis by (auto simp: splitForDiscord_def Let_def)
qed

text \<open>For a header of at most 100 units, every message that a delivery sends is within
  Discord's bound of 2000 units, there are between one and seven messages of which exactly
  the first is the reply, and the components are attached to exactly the last one.\<close>

theorem delivery_fits:
  assumes "length header \<le> 100" and "\<exists>c \<in> set header. c \<noteq> newline" and "length (formatDeliveryError string_of stringify (res_error res)) < 10 ^ 15"
    and "\<And>t. res_text res = Some t \<Longrightarrow> length t < 10 ^ 15"
    and "deliverResult string_of stringify res header outputName components = ms"
  shows "list_all (\<lambda>msg. length (m_content msg) \<le> 2000) ms \<and> 1 \<le> length ms \<and> length ms \<le> 7 \<and>
    map m_first ms = True # replicate (length ms - 1) False \<and>
    map m_components ms = replicate (length ms - 1) [] @ [components]"
proof -
  let ?text = "if res_ok res then case res_text res of Some t \<Rightarrow> t | None \<Rightarrow> js ''(no text output)''
    else formatDeliveryError string_of stringify (res_error res)"
  let ?body = "header @ newline # ?text" and ?chunks = "splitForDiscord (header @ newline # ?text) CHUNK_LIMIT"
  have t: "length ?text < 10 ^ 15" using assms(3,4) by (auto split: option.splits)
  have single: ?thesis if "ms = [msg]" "m_first msg" "m_components msg = components" "length (m_content msg) \<le> 2000" for msg
    using that by simp
  have bound: "list_all (\<lambda>c. c \<noteq> [] \<and> length c \<le> 1904) ?chunks"
    using split_fold_ok [OF split_ok_start, of CHUNK_LIMIT "bounded_lines (CHUNK_LIMIT - 8) ?body"] bounded_lines_piece
    by (fastforce simp: splitForDiscord_def Let_def split_ok_def list_all_iff CHUNK_LIMIT_def)
  show ?thesis
  proof (cases "length ?body \<le> CHUNK_LIMIT")
    case True
    then show ?thesis using assms(5) by (intro single) (auto simp: deliverResult_def Let_def CHUNK_LIMIT_def)
  next
    case long: False
    show ?thesis
    proof (cases "length ?chunks \<le> MAX_CHUNKS")
      case False
      have "length (show_nat (length ?text)) \<le> 15" by (rule show_nat_length [OF t]) simp
      then show ?thesis using assms(1,5) long False by (intro single) (auto simp: deliverResult_def Let_def)
    next
      case True
      then have "ms = part_messages components ?chunks" using assms(5) long by (auto simp: deliverResult_def Let_def)
      moreover have "\<exists>c \<in> set ?body. c \<noteq> newline" using assms(2) by auto
      then have "?chunks \<noteq> []" by (rule splitForDiscord_nonempty) (simp add: CHUNK_LIMIT_def)
      ultimately show ?thesis using part_messages_fit [OF _ True bound] by simp
    qed
  qed
qed

theorem delivery_fits_witness:
  "\<exists>ms. deliverResult (\<lambda>_. []) (\<lambda>_. None) \<lparr>res_ok = True, res_text = Some (js ''done''), res_error = JUndefined\<rparr>
      (js ''**GJC** result:'') (js ''gjc-output.md'') [] = ms \<and>
    list_all (\<lambda>msg. length (m_content msg) \<le> 2000) ms \<and> 1 \<le> length ms \<and> length ms \<le> 7 \<and>
    map m_first ms = True # replicate (length ms - 1) False \<and> map m_components ms = replicate (length ms - 1) [] @ [[]]"
proof -
  let ?res = "\<lparr>res_ok = True, res_text = Some (js ''done''), res_error = JUndefined\<rparr>"
  have h: "\<exists>c \<in> set (js ''**GJC** result:''). c \<noteq> newline" by (simp add: js_def)
  show ?thesis
    using delivery_fits [of "js ''**GJC** result:''" "\<lambda>_. []" "\<lambda>_. None" ?res "js ''gjc-output.md''" "[]"] h
    by (simp add: formatDeliveryError_def)
qed

text \<open>The reserve for a closing fence is not kept for the line that opens one, so a chunk can
  exceed the limit.\<close>

lemma chunk_exceeds_limit:
  "map length (splitForDiscord (js ''aaaa'' @ newline # js ''bbb'' @ newline # FENCE @ newline # js ''c'') 12) = [16, 5]"
  by code_simp

end
