(* ===== verification/Mapping_Envelope.thy ===== *)
theory Mapping_Envelope
  imports Workspace_Inventory
begin

text \<open>
  The management envelope of \<^verbatim>\<open>shared/mapping-envelope.js\<close>: managed host tokens, the control
  root and its wrappers, and the mapping, route and channel records whose fingerprints commit
  to their canonical encoding.  SHA-256 is the parameter \<open>sha256\<close>; the parser of the legacy
  format that a caller may pass is a parameter too.
\<close>

section \<open>Helpers\<close>

definition MAX_HOST_TOKENS_BYTES :: nat where
  "MAX_HOST_TOKENS_BYTES = 1024 * 1024"

definition HEX_OR_NULL :: "jsval \<Rightarrow> bool" where
  "HEX_OR_NULL v \<longleftrightarrow> js_eq v JNull \<or> isHex64 v"

text \<open>\<open>UUID\<close>: groups of 8, 4, 4, 4 and 12 lowercase hexadecimal digits with the version and
  variant digits.\<close>

definition uuid_text :: "jsstr \<Rightarrow> bool" where
  "uuid_text s \<longleftrightarrow>
     (case split_on 0x2d s of
        [a, b, c, d, e] \<Rightarrow>
          length a = 8 \<and> length b = 4 \<and> length c = 4 \<and> length d = 4 \<and> length e = 12 \<and>
          list_all (list_all is_lower_hex) [a, b, c, d, e] \<and>
          hd c \<in> set (js ''12345'') \<and> hd d \<in> set (js ''89ab'')
      | _ \<Rightarrow> False)"

definition positiveFence :: "jsval \<Rightarrow> bool" where
  "positiveFence v \<longleftrightarrow> isSafeInteger v \<and> 1 \<le> int_of v"

definition validText :: "jsval \<Rightarrow> nat \<Rightarrow> bool" where
  "validText v m \<longleftrightarrow> typeof_string v \<and> str_of v \<noteq> [] \<and> is_ok (assertStrictText v (js ''text'') (Some m))"

definition hashWithout :: "(bytes \<Rightarrow> jsstr) \<Rightarrow> jsval \<Rightarrow> string \<Rightarrow> js_error + jsstr" where
  "hashWithout sha256 v k = canonicalJsonHash sha256 STRICT_JSON_LIMITS (without v k)"

section \<open>Host tokens\<close>

definition tokens_fail :: "string \<Rightarrow> js_error" where
  "tokens_fail msg = SyntaxError (js msg)"

definition token_entry :: "jsstr \<Rightarrow> js_error + jsstr \<times> jsstr" where
  "token_entry s =
     (let hostId = takeWhile (\<lambda>c. c \<noteq> 0x3d) s; token = drop (length hostId + 1) s in
      check (length hostId < length s \<and> hostId \<noteq> []) (tokens_fail ''HOST_TOKENS entries require hostId=token'') (
      check (byteLength hostId \<le> 128 \<and> length hostId \<le> 128 \<and> validText (JStr hostId) 128 \<and>
             0x3d \<notin> set hostId \<and> \<not> is_space (hd hostId) \<and> \<not> is_space (last hostId))
        (tokens_fail ''invalid managed host ID'') (
      check (byteLength token \<le> 4096 \<and> token \<noteq> [] \<and> \<not> list_ex (\<lambda>c. c = 0 \<or> c = 0x0a \<or> c = 0x0d) token \<and>
             is_ok (assertStrictText (JStr token) (js ''managed host token'') (Some 4096)))
        (tokens_fail ''invalid managed host token'') (
      Inr (hostId, token)))))"

fun token_entries :: "jsstr list \<Rightarrow> (jsstr \<times> jsstr) list \<Rightarrow> js_error + (jsstr \<times> jsstr) list" where
  "token_entries [] tokens = Inr tokens"
| "token_entries (s # rest) tokens = seq (token_entry s) (\<lambda>(hostId, token).
     check (\<not> mhas hostId tokens) (tokens_fail ''duplicate managed host ID'')
       (token_entries rest (mput hostId token tokens)))"

definition parseManagedHostTokens :: "bytes \<Rightarrow> js_error + (jsstr \<times> jsstr) list" where
  "parseManagedHostTokens raw =
     check (length raw \<le> MAX_HOST_TOKENS_BYTES) (RangeError (js ''HOST_TOKENS exceeds 1 MiB'')) (
     check (take 3 raw \<noteq> [0xef, 0xbb, 0xbf]) (tokens_fail ''HOST_TOKENS must not contain a BOM'') (
     case utf8_decode raw of
       None \<Rightarrow> Inl (tokens_fail ''HOST_TOKENS is not valid UTF-8'')
     | Some text \<Rightarrow>
         check (text \<noteq> []) (tokens_fail ''HOST_TOKENS requires at least one entry'') (
         check (0x0d \<notin> set text) (tokens_fail ''HOST_TOKENS must use LF only'') (
         token_entries (split_on 0x0a (if last text = 0x0a then butlast text else text)) []))))"

definition managedHostSetFingerprint :: "(bytes \<Rightarrow> jsstr) \<Rightarrow> (jsstr \<times> jsstr) list \<Rightarrow> jsstr" where
  "managedHostSetFingerprint sha256 tokens =
     sha256 (utf8 (js ''{\"encoding\":\"utf-8\",\"hostIds\":['' @
       join (js '','') (map quote (sort_key utf8 (map fst tokens))) @ js ''],\"schemaVersion\":1}''))"

section \<open>The control root and its wrappers\<close>

definition CONTROL_ROOT_KEYS :: "string list" where
  "CONTROL_ROOT_KEYS = [''version'', ''kind'', ''managementStamp'', ''anchor'', ''anchorFingerprint'', ''fenceGeneration'',
     ''sourceKind'', ''wrapperKind'', ''wrapperRelativeName'', ''targetRelativeName'', ''controlRootRelativeName'',
     ''readerVersionFloorFingerprint'', ''wrapperFingerprint'', ''controlRootFingerprint'']"

definition subordinate :: "jsval \<Rightarrow> (string \<times> string) option" where
  "subordinate src =
     (if src = JLit ''managed-v1'' then Some (''managed-v1-wrapper'', ''managed-v1-wrapper.json'')
      else if src = JLit ''legacy-retained'' then Some (''legacy-retained-wrapper'', ''legacy-retained.json'')
      else None)"

definition isControlRoot :: "(bytes \<Rightarrow> jsstr) \<Rightarrow> jsval \<Rightarrow> js_error + bool" where
  "isControlRoot sha256 v =
     (if \<not> (exact v CONTROL_ROOT_KEYS \<and> js_eq (fld v ''version'') (JInt 1) \<and>
            js_eq (fld v ''kind'') (JLit ''management-control-root'') \<and>
            js_eq (fld v ''managementStamp'') (JLit ''gjc-management-control/v1'') \<and> isManagementAnchor (fld v ''anchor''))
      then Inr False
      else seq (canonicalJsonHash sha256 STRICT_JSON_LIMITS (fld v ''anchor'')) (\<lambda>ah.
        if \<not> (js_eq (fld v ''anchorFingerprint'') (JStr ah) \<and> positiveFence (fld v ''fenceGeneration'') \<and>
              (case subordinate (fld v ''sourceKind'') of
                 None \<Rightarrow> False
               | Some (k, n) \<Rightarrow> js_eq (fld v ''wrapperKind'') (JLit k) \<and> js_eq (fld v ''wrapperRelativeName'') (JLit n)) \<and>
              js_eq (fld v ''targetRelativeName'') (JLit ''channels.json'') \<and>
              js_eq (fld v ''controlRootRelativeName'') (JLit ''.gjc-remote-control'') \<and>
              isHex64 (fld v ''readerVersionFloorFingerprint'') \<and> isHex64 (fld v ''wrapperFingerprint'') \<and>
              isHex64 (fld v ''controlRootFingerprint''))
        then Inr False
        else seq (hashWithout sha256 v ''controlRootFingerprint'') (\<lambda>h.
          Inr (js_eq (fld v ''controlRootFingerprint'') (JStr h)))))"

definition RETAINED_KEYS :: "string list" where
  "RETAINED_KEYS = [''version'', ''kind'', ''sourceKind'', ''managementStamp'', ''anchorFingerprint'', ''fenceGeneration'',
     ''targetRelativeName'', ''targetState'', ''rawTargetByteFingerprint'', ''rawTargetByteLength'', ''targetIdentity'',
     ''targetAclFingerprint'', ''readerVersion'', ''legacyRetention'', ''dispatchClass'', ''routeDisposition'',
     ''retentionTxId'', ''retentionSequence'', ''previousWrapperFingerprint'', ''wrapperFingerprint'']"

definition MANAGED_KEYS :: "string list" where
  "MANAGED_KEYS = [''version'', ''kind'', ''sourceKind'', ''managementStamp'', ''anchorFingerprint'', ''fenceGeneration'',
     ''targetRelativeName'', ''targetState'', ''targetIdentity'', ''targetAclFingerprint'', ''semanticStateFingerprint'',
     ''readerVersion'', ''dispatchClass'', ''routeDisposition'', ''wrapperSequence'', ''previousWrapperFingerprint'',
     ''wrapperFingerprint'']"

definition wrapper_sealed :: "(bytes \<Rightarrow> jsstr) \<Rightarrow> jsval \<Rightarrow> js_error + bool" where
  "wrapper_sealed sha256 v = seq (hashWithout sha256 v ''wrapperFingerprint'') (\<lambda>h.
     Inr (js_eq (fld v ''wrapperFingerprint'') (JStr h)))"

definition isLegacyRetainedWrapper :: "(bytes \<Rightarrow> jsstr) \<Rightarrow> jsval \<Rightarrow> js_error + bool" where
  "isLegacyRetainedWrapper sha256 v =
     (if exact v RETAINED_KEYS \<and> js_eq (fld v ''version'') (JInt 1) \<and>
         js_eq (fld v ''kind'') (JLit ''legacy-retained-wrapper'') \<and>
         js_eq (fld v ''sourceKind'') (JLit ''legacy-retained'') \<and>
         js_eq (fld v ''managementStamp'') (JLit ''gjc-management-envelope/v1'') \<and>
         isHex64 (fld v ''anchorFingerprint'') \<and> positiveFence (fld v ''fenceGeneration'') \<and>
         js_eq (fld v ''targetRelativeName'') (JLit ''channels.json'') \<and>
         js_eq (fld v ''targetState'') (JLit ''legacy-unmigrated'') \<and> isHex64 (fld v ''rawTargetByteFingerprint'') \<and>
         isSafeInteger (fld v ''rawTargetByteLength'') \<and> 0 \<le> int_of (fld v ''rawTargetByteLength'') \<and>
         isOpaqueIdentity (fld v ''targetIdentity'') \<and> isHex64 (fld v ''targetAclFingerprint'') \<and>
         js_eq (fld v ''readerVersion'') JNull \<and> js_eq (fld v ''legacyRetention'') (JLit ''exact'') \<and>
         js_eq (fld v ''dispatchClass'') (JLit ''workspace-only'') \<and>
         js_eq (fld v ''routeDisposition'') (JLit ''no-route'') \<and> typeof_string (fld v ''retentionTxId'') \<and>
         uuid_text (str_of (fld v ''retentionTxId'')) \<and> js_eq (fld v ''retentionSequence'') (JInt 1) \<and>
         HEX_OR_NULL (fld v ''previousWrapperFingerprint'') \<and> isHex64 (fld v ''wrapperFingerprint'')
      then wrapper_sealed sha256 v else Inr False)"

definition valid_sequence :: "jsval \<Rightarrow> bool" where
  "valid_sequence v \<longleftrightarrow> isSafeInteger (fld v ''wrapperSequence'') \<and> 1 \<le> int_of (fld v ''wrapperSequence'') \<and>
     (js_eq (fld v ''wrapperSequence'') (JInt 1) \<and> js_eq (fld v ''previousWrapperFingerprint'') JNull \<or>
      1 < int_of (fld v ''wrapperSequence'') \<and> isHex64 (fld v ''previousWrapperFingerprint''))"

definition isManagedV1Wrapper :: "(bytes \<Rightarrow> jsstr) \<Rightarrow> jsval \<Rightarrow> js_error + bool" where
  "isManagedV1Wrapper sha256 v =
     (if exact v MANAGED_KEYS \<and> js_eq (fld v ''version'') (JInt 1) \<and>
         js_eq (fld v ''kind'') (JLit ''managed-v1-wrapper'') \<and> js_eq (fld v ''sourceKind'') (JLit ''managed-v1'') \<and>
         js_eq (fld v ''managementStamp'') (JLit ''gjc-management-envelope/v1'') \<and>
         isHex64 (fld v ''anchorFingerprint'') \<and> positiveFence (fld v ''fenceGeneration'') \<and>
         js_eq (fld v ''targetRelativeName'') (JLit ''channels.json'') \<and>
         str_in (fld v ''targetState'') [''genesis-empty'', ''managed-empty'', ''managed''] \<and>
         (\<not> js_eq (fld v ''targetState'') (JLit ''genesis-empty'') \<or> js_eq (fld v ''fenceGeneration'') (JInt 1)) \<and>
         isOpaqueIdentity (fld v ''targetIdentity'') \<and> isHex64 (fld v ''targetAclFingerprint'') \<and>
         HEX_OR_NULL (fld v ''semanticStateFingerprint'') \<and>
         (js_eq (fld v ''readerVersion'') JNull \<or> js_eq (fld v ''readerVersion'') (JInt 2)) \<and>
         js_eq (fld v ''dispatchClass'') (JLit ''workspace-only'') \<and>
         js_eq (fld v ''routeDisposition'') (JLit ''no-route'') \<and> valid_sequence v \<and> isHex64 (fld v ''wrapperFingerprint'')
      then wrapper_sealed sha256 v else Inr False)"

text \<open>The outcome of a validation: the code \<open>MANAGEMENT_ENVELOPE_INVALID\<close>, or an accepted
  envelope with its source kind and route disposition.\<close>

datatype envelope =
    Envelope_invalid
  | Managed_envelope (env_sourceKind: jsval) (env_routeDisposition: jsval) (env_root: jsval) (env_wrapper: jsval)
  | Legacy_v0 (env_target: jsval)

record envelope_context =
  x_targetBytes :: "bytes option"
  x_targetIdentity :: jsval
  x_targetAclFingerprint :: jsval

definition validateManagementEnvelope ::
  "(bytes \<Rightarrow> jsstr) \<Rightarrow> jsval \<Rightarrow> jsval \<Rightarrow> envelope_context \<Rightarrow> js_error + envelope" where
  "validateManagementEnvelope sha256 rt wrapper x = seq (isControlRoot sha256 rt) (\<lambda>rootOk.
     if \<not> rootOk then Inr Envelope_invalid
     else let retained = (fld rt ''sourceKind'' = JLit ''legacy-retained'') in
       seq (if retained then isLegacyRetainedWrapper sha256 wrapper else isManagedV1Wrapper sha256 wrapper) (\<lambda>validWrapper.
       if \<not> (validWrapper \<and> js_eq (fld wrapper ''wrapperFingerprint'') (fld rt ''wrapperFingerprint'') \<and>
             js_eq (fld wrapper ''anchorFingerprint'') (fld rt ''anchorFingerprint'') \<and>
             js_eq (fld wrapper ''fenceGeneration'') (fld rt ''fenceGeneration''))
       then Inr Envelope_invalid
       else if x_targetIdentity x = JUndefined \<or> x_targetAclFingerprint x = JUndefined \<or>
               \<not> js_eq (fld wrapper ''targetIdentity'') (x_targetIdentity x) \<or>
               \<not> js_eq (fld wrapper ''targetAclFingerprint'') (x_targetAclFingerprint x)
       then Inr Envelope_invalid
       else if retained \<and>
               (case x_targetBytes x of
                  None \<Rightarrow> True
                | Some target \<Rightarrow> \<not> js_eq (fld wrapper ''rawTargetByteLength'') (JInt (int (length target))) \<or>
                    \<not> js_eq (fld wrapper ''rawTargetByteFingerprint'') (JStr (sha256 target)))
       then Inr Envelope_invalid
       else Inr (Managed_envelope (fld rt ''sourceKind'')
              (if retained then JLit ''no-route'' else fld wrapper ''routeDisposition'') rt wrapper)))"

text \<open>\<open>classifyMappingEnvelope\<close>: the inputs are bytes or absent; the legacy parser is absent or a
  function whose thrown error is \<open>Inl\<close>.\<close>

definition classifyMappingEnvelope ::
  "(bytes \<Rightarrow> jsstr) \<Rightarrow> bytes option \<Rightarrow> bytes option \<Rightarrow> envelope_context \<Rightarrow> (jsval \<Rightarrow> js_error + jsval) option \<Rightarrow> envelope" where
  "classifyMappingEnvelope sha256 controlRootBytes wrapperBytes x parseLegacyV0 =
     (case controlRootBytes of
        Some rb \<Rightarrow>
          (case parseStrictJsonBytes None STRICT_JSON_LIMITS rb of
             Some (Inr rt) \<Rightarrow>
               (case wrapperBytes of
                  None \<Rightarrow> Envelope_invalid
                | Some wb \<Rightarrow>
                   (case parseStrictJsonBytes None STRICT_JSON_LIMITS wb of
                      Some (Inr wrapper) \<Rightarrow>
                        (case validateManagementEnvelope sha256 rt wrapper x of Inr e \<Rightarrow> e | Inl _ \<Rightarrow> Envelope_invalid)
                    | _ \<Rightarrow> Envelope_invalid))
           | _ \<Rightarrow> Envelope_invalid)
      | None \<Rightarrow>
          (case parseLegacyV0 of
             None \<Rightarrow> Envelope_invalid
           | Some parse \<Rightarrow>
              (case x_targetBytes x of
                 None \<Rightarrow> Envelope_invalid
               | Some tb \<Rightarrow>
                  (case parseStrictJsonBytes None STRICT_JSON_LIMITS tb of
                     Some (Inr target) \<Rightarrow>
                       if plain target \<and> hasOwn target ''managementStamp'' then Envelope_invalid
                       else (case parse target of
                               Inl _ \<Rightarrow> Envelope_invalid
                             | Inr legacy \<Rightarrow>
                                 if legacy = JBool False \<or> legacy = JUndefined \<or> legacy = JNull then Envelope_invalid
                                 else Legacy_v0 legacy)
                   | _ \<Rightarrow> Envelope_invalid))))"

end
