(* ===== verification/Host_Tokens.thy ===== *)
theory Host_Tokens
  imports Mapping_Envelope
begin

text \<open>
  What \<open>parseManagedHostTokens\<close> of \<^verbatim>\<open>shared/mapping-envelope.js\<close> accepts, stated against the text
  that lists the tokens one per line, and the fingerprint of the set of hosts.
\<close>

definition host_ok :: "jsstr \<Rightarrow> bool" where
  "host_ok h \<longleftrightarrow> h \<noteq> [] \<and> byteLength h \<le> 128 \<and> length h \<le> 128 \<and> strict_text h \<and> 0x3d \<notin> set h \<and>
     \<not> is_space (hd h) \<and> \<not> is_space (last h)"

definition token_ok :: "jsstr \<Rightarrow> bool" where
  "token_ok t \<longleftrightarrow> t \<noteq> [] \<and> byteLength t \<le> 4096 \<and> strict_text t"

definition entry_text :: "jsstr \<times> jsstr \<Rightarrow> jsstr" where
  "entry_text e = fst e @ 0x3d # snd e"

definition print_tokens :: "(jsstr \<times> jsstr) list \<Rightarrow> jsstr" where
  "print_tokens tokens = join [0x0a] (map entry_text tokens)"

lemma strict_text_units: "strict_text s \<Longrightarrow> c \<in> set s \<Longrightarrow> \<not> forbidden_control c"
  by (auto simp: strict_text_def list_all_iff)

lemma strict_text_lines: "strict_text s \<Longrightarrow> 0x0a \<notin> set s \<and> 0x0d \<notin> set s \<and> 0 \<notin> set s"
  using strict_text_units by (fastforce simp: forbidden_control_def)

lemma token_entry_Inr:
  "token_entry s = Inr e \<longleftrightarrow> s = entry_text e \<and> host_ok (fst e) \<and> token_ok (snd e)"
proof
  let ?h = "takeWhile (\<lambda>c. c \<noteq> 0x3d) s"
  assume "token_entry s = Inr e"
  then have e: "e = (?h, drop (length ?h + 1) s)" and l: "length ?h < length s" "host_ok ?h" "token_ok (snd e)"
    by (auto simp: token_entry_def Let_def host_ok_def token_ok_def validText_def is_ok_iff assertStrictText_Inr)
  have "s = ?h @ s ! length ?h # drop (Suc (length ?h)) s"
    using l(1) by (metis id_take_nth_drop takeWhile_eq_take)
  moreover have "s ! length ?h = 0x3d" using l(1) nth_length_takeWhile by fastforce
  ultimately have "s = entry_text e" using e by (simp add: entry_text_def)
  moreover have "host_ok (fst e)" using e l(2) by (metis fst_conv)
  ultimately show "s = entry_text e \<and> host_ok (fst e) \<and> token_ok (snd e)" using l(3) by blast
next
  assume a: "s = entry_text e \<and> host_ok (fst e) \<and> token_ok (snd e)"
  then have "takeWhile (\<lambda>c. c \<noteq> 0x3d) s = fst e"
    by (auto simp: entry_text_def host_ok_def takeWhile_append2 intro!: takeWhile_append2 [THEN trans])
  with a strict_text_lines [of "snd e"] show "token_entry s = Inr e"
    by (auto simp: token_entry_def Let_def entry_text_def host_ok_def token_ok_def validText_def is_ok_iff
        assertStrictText_Inr list_ex_iff)
qed

lemma entry_lines:
  "host_ok (fst e) \<Longrightarrow> token_ok (snd e) \<Longrightarrow> 0x0a \<notin> set (entry_text e) \<and> 0x0d \<notin> set (entry_text e)"
  using strict_text_lines [of "fst e"] strict_text_lines [of "snd e"]
  by (simp add: entry_text_def host_ok_def token_ok_def)

lemma token_entries_Inr:
  "token_entries ss acc = Inr tokens \<longleftrightarrow>
     (\<exists>ts. tokens = acc @ ts \<and> ss = map entry_text ts \<and> list_all (\<lambda>e. host_ok (fst e) \<and> token_ok (snd e)) ts \<and>
       distinct (map fst ts) \<and> (\<forall>e \<in> set ts. \<not> mhas (fst e) acc))"
proof (induction ss acc rule: token_entries.induct)
  case (2 s rest acc)
  show ?case (is "?l \<longleftrightarrow> ?r")
  proof
    assume ?l
    then obtain e where e: "token_entry s = Inr e" "\<not> mhas (fst e) acc"
      "token_entries rest (acc @ [e]) = Inr tokens"
      by (auto simp: seq_eq_Inr mput_absent split: prod.splits)
    from e 2 [of "fst e" "snd e"] obtain ts where "tokens = acc @ e # ts" "rest = map entry_text ts"
      "list_all (\<lambda>e. host_ok (fst e) \<and> token_ok (snd e)) ts" "distinct (map fst ts)"
      "\<forall>x \<in> set ts. \<not> mhas (fst x) (acc @ [e])"
      by (auto simp: mput_absent)
    with e show ?r by (intro exI [of _ "e # ts"]) (auto simp: token_entry_Inr mhas_def)
  next
    assume ?r
    then obtain e ts where r: "tokens = acc @ e # ts" "s = entry_text e" "rest = map entry_text ts"
      "host_ok (fst e)" "token_ok (snd e)" "list_all (\<lambda>e. host_ok (fst e) \<and> token_ok (snd e)) ts"
      "distinct (map fst (e # ts))" "\<forall>x \<in> set (e # ts). \<not> mhas (fst x) acc"
      by (auto simp: Cons_eq_map_conv)
    then have "token_entry s = Inr (fst e, snd e)" by (simp add: token_entry_Inr)
    moreover have "\<forall>x \<in> set ts. \<not> mhas (fst x) (acc @ [e])" using r(7,8) by (auto simp: mhas_def rev_image_eqI)
    then have "token_entries rest (acc @ [e]) = Inr tokens"
      using 2 [of "fst e" "snd e"] r by (simp add: mput_absent)
    ultimately show ?l using r by (cases e) (simp add: mput_absent)
  qed
qed auto

lemma split_on_nonempty: "split_on c s \<noteq> []"
  by (induction s) (auto split: list.splits)

lemma join_Cons: "join sep (x # xs) = (if xs = [] then x else x @ sep @ join sep xs)"
  by (cases xs) simp_all

lemma join_split: "join [c] (split_on c s) = s"
  by (induction s) (auto simp: join_Cons split_on_nonempty split: list.splits)

lemma split_on_plain: "c \<notin> set s \<Longrightarrow> split_on c s = [s]"
  by (induction s) auto

lemma split_on_append: "c \<notin> set s \<Longrightarrow> split_on c (s @ c # t) = s # split_on c t"
  by (induction s) auto

lemma split_join: "xs \<noteq> [] \<Longrightarrow> (\<forall>x \<in> set xs. c \<notin> set x) \<Longrightarrow> split_on c (join [c] xs) = xs"
  by (induction xs) (auto simp: join_Cons split_on_plain split_on_append)

section \<open>The token file\<close>

definition tokens_ok :: "(jsstr \<times> jsstr) list \<Rightarrow> bool" where
  "tokens_ok tokens \<longleftrightarrow> tokens \<noteq> [] \<and> distinct (map fst tokens) \<and>
     list_all (\<lambda>e. host_ok (fst e) \<and> token_ok (snd e)) tokens"

lemma token_entries_start:
  "token_entries ss [] = Inr tokens \<longleftrightarrow>
     ss = map entry_text tokens \<and> list_all (\<lambda>e. host_ok (fst e) \<and> token_ok (snd e)) tokens \<and> distinct (map fst tokens)"
  unfolding token_entries_Inr by (simp add: mhas_def)

lemma token_entries_iff:
  "token_entries (split_on 0x0a s) [] = Inr tokens \<longleftrightarrow> tokens_ok tokens \<and> s = print_tokens tokens"
proof
  assume "token_entries (split_on 0x0a s) [] = Inr tokens"
  then have t: "split_on 0x0a s = map entry_text tokens" "distinct (map fst tokens)"
    "list_all (\<lambda>e. host_ok (fst e) \<and> token_ok (snd e)) tokens"
    unfolding token_entries_start by blast+
  have "tokens \<noteq> []" using t(1) split_on_nonempty [of "0x0a" s] by auto
  moreover have "s = print_tokens tokens" using join_split [of "0x0a" s] t(1) by (simp only: print_tokens_def)
  ultimately show "tokens_ok tokens \<and> s = print_tokens tokens" using t by (simp only: tokens_ok_def) simp
next
  assume t: "tokens_ok tokens \<and> s = print_tokens tokens"
  have "\<forall>x \<in> set (map entry_text tokens). 0x0a \<notin> set x"
    using t entry_lines by (auto simp: tokens_ok_def list_all_iff)
  then have "split_on 0x0a s = map entry_text tokens"
    using t by (simp only: print_tokens_def) (rule split_join, simp_all add: tokens_ok_def)
  with t show "token_entries (split_on 0x0a s) [] = Inr tokens"
    by (simp add: token_entries_start tokens_ok_def)
qed

lemma set_join: "set (join sep xs) \<subseteq> set sep \<union> \<Union> (set ` set xs)"
  by (induction xs) (auto simp: join_Cons)

lemma last_join: "xs \<noteq> [] \<Longrightarrow> last xs \<noteq> [] \<Longrightarrow> join sep xs \<noteq> [] \<and> last (join sep xs) = last (last xs)"
  by (induction xs) (auto simp: join_Cons)

lemma hd_join: "xs \<noteq> [] \<Longrightarrow> hd xs \<noteq> [] \<Longrightarrow> join sep xs \<noteq> [] \<and> hd (join sep xs) = hd (hd xs)"
  by (cases xs) (auto simp: join_Cons)

lemma print_tokens_shape:
  assumes "tokens_ok tokens"
  shows "print_tokens tokens \<noteq> []" "last (print_tokens tokens) \<noteq> 0x0a" "0x0d \<notin> set (print_tokens tokens)"
    "\<not> is_space (hd (print_tokens tokens))"
proof -
  have l: "token_ok (snd (last tokens))" "host_ok (fst (hd tokens))" "tokens \<noteq> []"
    using assms by (auto simp: tokens_ok_def list_all_iff)
  then have "last (map entry_text tokens) \<noteq> []" "last (last (map entry_text tokens)) = last (snd (last tokens))"
    "hd (map entry_text tokens) \<noteq> []" "hd (hd (map entry_text tokens)) = hd (fst (hd tokens))"
    by (simp_all add: last_map hd_map entry_text_def token_ok_def host_ok_def)
  then have j: "print_tokens tokens \<noteq> []" "last (print_tokens tokens) = last (snd (last tokens))"
    "hd (print_tokens tokens) = hd (fst (hd tokens))"
    using l(3) last_join [of "map entry_text tokens"] hd_join [of "map entry_text tokens"]
    by (simp_all add: print_tokens_def)
  then show "print_tokens tokens \<noteq> []" by simp
  have "last (snd (last tokens)) \<in> set (snd (last tokens))" using l by (simp add: token_ok_def)
  then show "last (print_tokens tokens) \<noteq> 0x0a"
    using strict_text_lines [of "snd (last tokens)"] l(1) j(2) by (metis token_ok_def)
  show "\<not> is_space (hd (print_tokens tokens))" using l j by (simp add: host_ok_def)
  have "0x0d \<notin> set (entry_text e)" if "e \<in> set tokens" for e
    using assms that entry_lines by (auto simp: tokens_ok_def list_all_iff)
  then show "0x0d \<notin> set (print_tokens tokens)"
    using set_join [of "[0x0a]" "map entry_text tokens"] by (auto simp: print_tokens_def)
qed

lemma decode_bom:
  assumes "take 3 raw = [0xef, 0xbb, 0xbf]" "utf8_decode raw = Some s"
  shows "s \<noteq> [] \<and> hd s = 0xfeff"
proof -
  obtain rest where "raw = [0xef, 0xbb, 0xbf] @ rest" using assms(1) by (metis append_take_drop_id)
  with assms(2) show ?thesis
    by (auto simp: utf8_decode_Cons is_cont_def cont_bits_def unit_of_def)
qed

text \<open>C31. The host-token file is read exactly: the parser returns a table of tokens if and only if the
  table is non-empty, has distinct and well-formed host ids and tokens, and the file is at most
  1 MiB and decodes to the listing of the table in its order, with or without a final line feed.\<close>

theorem host_tokens_exact:
  "parseManagedHostTokens raw = Inr tokens \<longleftrightarrow>
     length raw \<le> 1048576 \<and> tokens_ok tokens \<and>
     (utf8_decode raw = Some (print_tokens tokens) \<or> utf8_decode raw = Some (print_tokens tokens @ [0x0a]))"
    (is "?parsed \<longleftrightarrow> ?listed")
proof
  assume ?parsed
  then obtain s where s: "length raw \<le> 1048576" "utf8_decode raw = Some s" "s \<noteq> []"
    "token_entries (split_on 0x0a (if last s = 0x0a then butlast s else s)) [] = Inr tokens"
    by (auto simp: parseManagedHostTokens_def MAX_HOST_TOKENS_BYTES_def split: option.splits)
  then show ?listed
    unfolding token_entries_iff by (metis append_butlast_last_id)
next
  assume l: ?listed
  note p = print_tokens_shape [of tokens]
  from l obtain s where s: "utf8_decode raw = Some s" "s = print_tokens tokens \<or> s = print_tokens tokens @ [0x0a]"
    by auto
  have "hd s = hd (print_tokens tokens)" using s p(1) l by auto
  then have "take 3 raw \<noteq> [0xef, 0xbb, 0xbf]"
    using decode_bom [OF _ s(1)] p(4) l by (auto simp: is_space_def)
  moreover have "(if last s = 0x0a then butlast s else s) = print_tokens tokens"
    using s(2) p l by auto
  moreover have "s \<noteq> []" "0x0d \<notin> set s" using s(2) p l by auto
  ultimately show ?parsed
    using l s(1) by (simp add: parseManagedHostTokens_def MAX_HOST_TOKENS_BYTES_def token_entries_iff)
qed

lemma sort_key_set:
  assumes "distinct xs" "distinct ys" "set xs = set ys" "inj_on f (set xs)"
  shows "sort_key f xs = sort_key f ys"
proof -
  have "map f (sort_key f xs) = map f (sort_key f ys)"
  proof (rule sorted_distinct_set_unique)
    show "distinct (map f (sort_key f xs))" "distinct (map f (sort_key f ys))"
      using assms by (auto simp: distinct_map)
  qed (use assms in auto)
  then show ?thesis using assms by (intro map_inj_on [of f]) auto
qed

section \<open>The fingerprint of the host set\<close>

text \<open>Two given byte strings are a collision of the hash.\<close>

definition collides :: "(bytes \<Rightarrow> jsstr) \<Rightarrow> bytes \<Rightarrow> bytes \<Rightarrow> bool" where
  "collides sha256 b b' \<longleftrightarrow> b \<noteq> b' \<and> sha256 b = sha256 b'"

lemma collides_same [simp]: "\<not> collides sha256 b b"
  by (simp add: collides_def)

definition host_set_document :: "jsstr list \<Rightarrow> jsval" where
  "host_set_document hs = record_of [(''encoding'', JLit ''utf-8''), (''hostIds'', JArr (map JStr hs)), (''schemaVersion'', JInt 1)]"

definition host_set_bytes :: "(jsstr \<times> jsstr) list \<Rightarrow> bytes" where
  "host_set_bytes tokens = utf8 (render (host_set_document (sort_key utf8 (map fst tokens))))"

lemma host_set_rendered: "managedHostSetFingerprint sha256 tokens = sha256 (host_set_bytes tokens)"
proof -
  have "render (host_set_document hs) = js ''{\"encoding\":\"utf-8\",\"hostIds\":['' @
       join (js '','') (map quote hs) @ js ''],\"schemaVersion\":1}''" for hs
  proof -
    have k: "quote (js ''encoding'') = js ''\"encoding\"''" "quote (js ''hostIds'') = js ''\"hostIds\"''"
      "quote (js ''schemaVersion'') = js ''\"schemaVersion\"''" "quote (js ''utf-8'') = js ''\"utf-8\"''"
      "show_int 1 = js ''1''"
      by code_simp+
    have o: "utf8 (js ''encoding'') \<le> utf8 (js ''hostIds'')" "utf8 (js ''hostIds'') \<le> utf8 (js ''schemaVersion'')"
      by code_simp+
    show ?thesis
      using o k by (simp add: host_set_document_def render_items_map sort_key_simps o_def js_append [symmetric])
  qed
  then show ?thesis by (simp add: managedHostSetFingerprint_def host_set_bytes_def)
qed

lemma host_set_document_eq:
  assumes "list_all strict_text hs" "list_all strict_text hs'"
    and "render (host_set_document hs) = render (host_set_document hs')"
  shows "hs = hs'"
proof -
  let ?L = "\<lparr>maxBytes = 0, maxDepth = 2, maxNodes = nodes (host_set_document hs) + nodes (host_set_document hs')\<rparr> :: limits"
  have c: "canonicalJson ?L (host_set_document g) = Inr (render (host_set_document g))"
    if "list_all strict_text g" "nodes (host_set_document g) \<le> maxNodes ?L" for g
    using that
    by (simp add: canonicalJson_Inr host_set_document_def list_all_iff MAX_SAFE_INTEGER_def is_integral_def)
      (simp add: strict_text_def js_def forbidden_control_def surrogate_unat)
  have d: "distinct_keys (host_set_document g)" for g by (simp add: host_set_document_def)
  have "canonicalJson ?L (host_set_document hs) = Inr (render (host_set_document hs))"
    "canonicalJson ?L (host_set_document hs') = Inr (render (host_set_document hs'))"
    using assms(1,2) by (auto intro!: c)
  from canonical_text_eq_iff [OF d d this] assms(3)
  have "canon (host_set_document hs) = canon (host_set_document hs')" by blast
  then have "fld (canon (host_set_document hs)) ''hostIds'' = fld (canon (host_set_document hs')) ''hostIds''" by simp
  then show ?thesis
    by (simp add: get_own_canon host_set_document_def get_own_JObj o_def)
      (metis injI inj_map_eq_map jsval.inject(3))
qed

lemma strict_text_well_formed: "strict_text s \<Longrightarrow> well_formed s"
  by (simp add: strict_text_def)

text \<open>The fingerprint of a token table identifies the set of its hosts: it does not depend on their
  order or on the tokens, and two tables with different hosts have different fingerprints
  unless the canonical documents of the two host sets are a SHA-256 collision.\<close>

theorem host_set_fingerprint_commits:
  assumes "tokens_ok a" "tokens_ok b"
  shows "(fst ` set a = fst ` set b \<longrightarrow> managedHostSetFingerprint sha256 a = managedHostSetFingerprint sha256 b) \<and>
    (managedHostSetFingerprint sha256 a = managedHostSetFingerprint sha256 b \<longrightarrow>
       fst ` set a = fst ` set b \<or> collides sha256 (host_set_bytes a) (host_set_bytes b))"
proof (intro conjI impI)
  have h: "strict_text h" if "h \<in> fst ` set a \<union> fst ` set b" for h
    using assms that by (auto simp: tokens_ok_def list_all_iff host_ok_def)
  then have inj: "inj_on utf8 (fst ` set a \<union> fst ` set b)"
    by (intro inj_onI) (metis strict_text_well_formed utf8_inject)
  {
    assume "fst ` set a = fst ` set b"
    then have "sort_key utf8 (map fst a) = sort_key utf8 (map fst b)"
      using assms inj by (intro sort_key_set) (auto simp: tokens_ok_def inj_on_def)
    then show "managedHostSetFingerprint sha256 a = managedHostSetFingerprint sha256 b"
      by (simp add: host_set_rendered host_set_bytes_def)
  }
  assume eq: "managedHostSetFingerprint sha256 a = managedHostSetFingerprint sha256 b"
  show "fst ` set a = fst ` set b \<or> collides sha256 (host_set_bytes a) (host_set_bytes b)"
  proof (rule disjCI)
    assume "\<not> collides sha256 (host_set_bytes a) (host_set_bytes b)"
    with eq have "utf8 (render (host_set_document (sort_key utf8 (map fst a)))) =
        utf8 (render (host_set_document (sort_key utf8 (map fst b))))"
      unfolding host_set_rendered collides_def host_set_bytes_def by blast
    then have "render (host_set_document (sort_key utf8 (map fst a))) = render (host_set_document (sort_key utf8 (map fst b)))"
      by (simp add: utf8_inject well_formed_render)
    from host_set_document_eq [OF _ _ this] h
    have "sort_key utf8 (map fst a) = sort_key utf8 (map fst b)" by (simp add: list_all_iff)
    then have "set (sort_key utf8 (map fst a)) = set (sort_key utf8 (map fst b))" by simp
    then show "fst ` set a = fst ` set b" by simp
  qed
qed

definition sample_tokens :: "(jsstr \<times> jsstr) list" where
  "sample_tokens = [(js ''b'', js ''t1''), (js ''a'', js ''t2'')]"

lemma sample_tokens_ok: "tokens_ok sample_tokens" "tokens_ok (rev sample_tokens)"
proof -
  have "byteLength (js ''a'') = 1" "byteLength (js ''b'') = 1" "byteLength (js ''t1'') = 2" "byteLength (js ''t2'') = 2"
    by code_simp+
  moreover have "strict_text (js ''a'')" "strict_text (js ''b'')" "strict_text (js ''t1'')" "strict_text (js ''t2'')"
    by (simp_all add: strict_text_def js_def forbidden_control_def surrogate_unat)
  moreover have "0x3d \<notin> set (js ''a'')" "0x3d \<notin> set (js ''b'')" "\<not> is_space (hd (js ''a''))" "\<not> is_space (last (js ''a''))"
    "\<not> is_space (hd (js ''b''))" "\<not> is_space (last (js ''b''))"
    by (simp_all add: js_def is_space_def)
  ultimately show "tokens_ok sample_tokens" "tokens_ok (rev sample_tokens)"
    by (simp_all add: tokens_ok_def sample_tokens_def host_ok_def token_ok_def)
qed

theorem host_set_fingerprint_commits_witness:
  "managedHostSetFingerprint sample_sha sample_tokens = managedHostSetFingerprint sample_sha (rev sample_tokens)"
  using host_set_fingerprint_commits [OF sample_tokens_ok, of sample_sha] by simp

end
