(* ===== verification/Managed_Records.thy ===== *)
theory Managed_Records
  imports Host_Tokens
begin

text \<open>
  The second half of \<^verbatim>\<open>shared/mapping-envelope.js\<close>: managed mapping and route records, whose
  fingerprints commit to the canonical encoding of the other fields, and the version 2 channel
  doc that holds them.  The association list of an object is in the order in which
  \<open>Object.entries\<close> enumerates it.
\<close>

section \<open>Patterns\<close>

definition MANAGED_CHANNEL_KEYS :: "string list" where
  "MANAGED_CHANNEL_KEYS = [''version'', ''managementStamp'', ''revision'', ''authorityEpoch'', ''fenceGeneration'',
     ''mappingGeneration'', ''tokenConfigGeneration'', ''tokenConfigHostSetFingerprint'', ''targetState'', ''dispatchClass'',
     ''mappings'', ''routes'', ''configFingerprint'']"

definition MAPPING_KEYS :: "string list" where
  "MAPPING_KEYS = [''mappingId'', ''hostId'', ''fenceGeneration'', ''mappingGeneration'', ''workspaceGeneration'',
     ''mappingVersion'', ''sourcePlatform'', ''workspaceId'', ''workDir'', ''sourceRoot'', ''containerRoot'',
     ''volumeIdentity'', ''casePolicy'', ''immutableDefault'', ''mappingFingerprint'']"

definition ROUTE_KEYS :: "string list" where
  "ROUTE_KEYS = [''channelId'', ''hostId'', ''mappingId'', ''fenceGeneration'', ''mappingGeneration'',
     ''workspaceGeneration'', ''mappingVersion'', ''sourcePlatform'', ''workspaceId'', ''workDir'', ''routeFingerprint'']"

fun opaque_token :: "jsstr \<Rightarrow> bool" where
  "opaque_token [] \<longleftrightarrow> False"
| "opaque_token (c # s) \<longleftrightarrow> is_alnum c \<and> list_all is_id_char s \<and> length s \<le> 127"

definition discord_id :: "jsstr \<Rightarrow> bool" where
  "discord_id s \<longleftrightarrow> 1 \<le> length s \<and> length s \<le> 20 \<and> list_all is_digit s"

text \<open>\<open>RegExp.prototype.test\<close> converts its argument to a string first.  A number below \<open>1e21\<close> and
  not negative prints as digits, \<open>.\<close>, \<open>e\<close> and \<open>-\<close> and starts with a digit, so it matches the
  opaque token pattern; it matches the Discord pattern when it is integral and has at most 20
  digits.\<close>

fun opaque_number :: "jsnum \<Rightarrow> bool" where
  "opaque_number (Fin r) \<longleftrightarrow> 0 \<le> r \<and> r < 10 ^ 21"
| "opaque_number PosInf \<longleftrightarrow> True"
| "opaque_number NegInf \<longleftrightarrow> False"
| "opaque_number NaN \<longleftrightarrow> True"

fun discord_number :: "jsnum \<Rightarrow> bool" where
  "discord_number (Fin r) \<longleftrightarrow> is_integral r \<and> 0 \<le> r \<and> r < 10 ^ 20"
| "discord_number _ \<longleftrightarrow> False"

text \<open>An object converts through \<open>Object.prototype.toString\<close> unless it has no prototype or an own
  property of that name, when the conversion throws.\<close>

fun converts :: "jsval \<Rightarrow> bool" where
  "converts (JArr vs) \<longleftrightarrow> list_all converts vs"
| "converts (JObj p fs) \<longleftrightarrow> p \<noteq> NullProto \<and> \<not> mhas (js ''toString'') fs"
| "converts _ \<longleftrightarrow> True"

text \<open>The test of a pattern \<open>p\<close> that matches no text with a comma; \<open>q\<close> is the pattern on the
  text of a number.\<close>

fun pattern_matches :: "(jsstr \<Rightarrow> bool) \<Rightarrow> (jsnum \<Rightarrow> bool) \<Rightarrow> jsval \<Rightarrow> bool" where
  "pattern_matches p q (JStr s) \<longleftrightarrow> p s"
| "pattern_matches p q (JNum n) \<longleftrightarrow> q n"
| "pattern_matches p q (JBool b) \<longleftrightarrow> p (if b then js ''true'' else js ''false'')"
| "pattern_matches p q JNull \<longleftrightarrow> p (js ''null'')"
| "pattern_matches p q JUndefined \<longleftrightarrow> p (js ''undefined'')"
| "pattern_matches p q (JArr []) \<longleftrightarrow> p []"
| "pattern_matches p q (JArr [v]) \<longleftrightarrow> (if v = JNull \<or> v = JUndefined then p [] else pattern_matches p q v)"
| "pattern_matches p q (JArr (v # w # vs)) \<longleftrightarrow> False"
| "pattern_matches p q (JObj _ _) \<longleftrightarrow> p (js ''[object Object]'')"
| "pattern_matches p q JOther \<longleftrightarrow> False"

definition regexp_test :: "(jsstr \<Rightarrow> bool) \<Rightarrow> (jsnum \<Rightarrow> bool) \<Rightarrow> jsval \<Rightarrow> js_error + bool" where
  "regexp_test p q v =
     check (converts v) (TypeError (js ''Cannot convert object to primitive value'')) (Inr (pattern_matches p q v))"

definition OPAQUE_TOKEN_test :: "jsval \<Rightarrow> js_error + bool" where
  "OPAQUE_TOKEN_test = regexp_test opaque_token opaque_number"

definition DISCORD_ID_test :: "jsval \<Rightarrow> js_error + bool" where
  "DISCORD_ID_test = regexp_test discord_id discord_number"

definition isManagedMappingId :: "jsval \<Rightarrow> bool" where
  "isManagedMappingId v \<longleftrightarrow> typeof_string v \<and> opaque_token (str_of v)"

definition exactHostId :: "jsval \<Rightarrow> bool" where
  "exactHostId v \<longleftrightarrow> typeof_string v \<and> length (str_of v) \<le> 128 \<and> byteLength (str_of v) \<le> 128 \<and>
     validText v 128 \<and> str_of v = trim (str_of v)"

section \<open>Locations\<close>

definition dots :: "jsstr \<Rightarrow> bool" where
  "dots s \<longleftrightarrow> s = js ''.'' \<or> s = js ''..''"

definition canonicalPosixRoot :: "jsval \<Rightarrow> bool" where
  "canonicalPosixRoot v \<longleftrightarrow>
     (case v of
        JStr s \<Rightarrow> take 1 s = [0x2f] \<and> 0x5c \<notin> set s \<and> \<not> (s \<noteq> [0x2f] \<and> last s = 0x2f) \<and>
          \<not> list_ex (\<lambda>g. g = [] \<or> dots g) (tl (split_on 0x2f s))
      | _ \<Rightarrow> False)"

definition canonicalWindowsDriveRoot :: "jsval \<Rightarrow> bool" where
  "canonicalWindowsDriveRoot v \<longleftrightarrow>
     (case v of
        JStr (c # d # b # s) \<Rightarrow> 0x41 \<le> c \<and> c \<le> 0x5a \<and> d = 0x3a \<and> b = 0x5c \<and> 0x2f \<notin> set s \<and>
          (s = [] \<or> \<not> list_ex (\<lambda>g. dots g \<or> g = []) (split_on 0x5c s))
      | _ \<Rightarrow> False)"

definition canonicalWindowsUncRoot :: "jsval \<Rightarrow> bool" where
  "canonicalWindowsUncRoot v \<longleftrightarrow>
     (case v of
        JStr (b # b' # s) \<Rightarrow> b = 0x5c \<and> b' = 0x5c \<and> 0x2f \<notin> set s \<and>
          (let ws = split_on 0x5c s in
             2 \<le> length ws \<and> \<not> list_ex (list_ex is_line_end) (drop 2 ws) \<and>
             \<not> list_ex (\<lambda>g. g = [] \<or> dots g) ws)
      | _ \<Rightarrow> False)"

definition validMappingLocation :: "jsval \<Rightarrow> bool" where
  "validMappingLocation m \<longleftrightarrow>
     str_in (fld m ''sourcePlatform'') [''posix'', ''windows-drive'', ''windows-unc''] \<and>
     str_in (fld m ''casePolicy'') [''sensitive'', ''insensitive''] \<and>
     validText (fld m ''volumeIdentity'') 512 \<and>
     (js_eq (fld m ''containerRoot'') JNull \<or> canonicalPosixRoot (fld m ''containerRoot'')) \<and>
     (js_eq (fld m ''sourcePlatform'') (JLit ''posix'') \<longrightarrow> canonicalPosixRoot (fld m ''sourceRoot'')) \<and>
     (js_eq (fld m ''sourcePlatform'') (JLit ''windows-drive'') \<longrightarrow> canonicalWindowsDriveRoot (fld m ''sourceRoot'')) \<and>
     (js_eq (fld m ''sourcePlatform'') (JLit ''windows-unc'') \<longrightarrow> canonicalWindowsUncRoot (fld m ''sourceRoot'')) \<and>
     (js_eq (fld m ''sourcePlatform'') (JLit ''posix'') \<or> js_eq (fld m ''casePolicy'') (JLit ''insensitive''))"

section \<open>Mapping and route records\<close>

definition mapping_invalid :: js_error where
  "mapping_invalid = TypeError (js ''MANAGED_MAPPING_INVALID'')"

definition route_invalid :: js_error where
  "route_invalid = TypeError (js ''MANAGED_ROUTE_INVALID'')"

definition channels_invalid :: js_error where
  "channels_invalid = TypeError (js ''MANAGED_CHANNELS_V2_INVALID'')"

definition validateManagedMappingRecord :: "(bytes \<Rightarrow> jsstr) \<Rightarrow> jsval \<Rightarrow> js_error + jsval" where
  "validateManagedMappingRecord sha256 m =
     check (exact m MAPPING_KEYS \<and> isManagedMappingId (fld m ''mappingId'') \<and> exactHostId (fld m ''hostId'') \<and>
            positiveFence (fld m ''fenceGeneration'') \<and> isSafeInteger (fld m ''mappingGeneration'') \<and>
            1 \<le> int_of (fld m ''mappingGeneration'') \<and> isSafeInteger (fld m ''workspaceGeneration'') \<and>
            1 \<le> int_of (fld m ''workspaceGeneration'') \<and> js_eq (fld m ''mappingVersion'') (JInt 1) \<and>
            validMappingLocation m \<and> typeof_boolean (fld m ''immutableDefault'') \<and>
            isHex64 (fld m ''mappingFingerprint'')) mapping_invalid (
     let workspace = (\<not> js_eq (fld m ''workspaceId'') JNull); legacy = (\<not> js_eq (fld m ''workDir'') JNull) in
     check (workspace \<noteq> legacy) mapping_invalid (
     seq (if workspace then OPAQUE_TOKEN_test (fld m ''workspaceId'') else Inr True) (\<lambda>token.
     check token mapping_invalid (
     check (\<not> (legacy \<and> (\<not> validText (fld m ''workDir'') 4096 \<or> \<not> isFullyQualifiedRouteWorkDir (fld m ''workDir''))))
       mapping_invalid (
     seq (hashWithout sha256 m ''mappingFingerprint'') (\<lambda>h.
     check (js_eq (JStr h) (fld m ''mappingFingerprint'')) mapping_invalid (Inr m)))))))"

definition SHARED_FIELDS :: "string list" where
  "SHARED_FIELDS = [''hostId'', ''mappingId'', ''fenceGeneration'', ''mappingGeneration'', ''workspaceGeneration'',
     ''mappingVersion'', ''sourcePlatform'', ''workspaceId'', ''workDir'']"

definition validateManagedRouteRecord :: "(bytes \<Rightarrow> jsstr) \<Rightarrow> jsval \<Rightarrow> jsval \<Rightarrow> js_error + jsval" where
  "validateManagedRouteRecord sha256 r m =
     check (exact r ROUTE_KEYS) route_invalid (
     seq (DISCORD_ID_test (fld r ''channelId'')) (\<lambda>channel.
     check (channel \<and> isHex64 (fld r ''routeFingerprint'')) route_invalid (
     seq (validateManagedMappingRecord sha256 m) (\<lambda>_.
     check (list_all (\<lambda>k. js_eq (fld r k) (fld m k)) SHARED_FIELDS) route_invalid (
     seq (hashWithout sha256 r ''routeFingerprint'') (\<lambda>h.
     check (js_eq (JStr h) (fld r ''routeFingerprint'')) route_invalid (Inr r)))))))"

definition with_field :: "jsval \<Rightarrow> string \<Rightarrow> jsval \<Rightarrow> jsval" where
  "with_field v k x = JObj ObjectProto (mput (js k) x (own_fields v))"

definition fingerprintManagedMappingRecord :: "(bytes \<Rightarrow> jsstr) \<Rightarrow> jsval \<Rightarrow> js_error + jsval" where
  "fingerprintManagedMappingRecord sha256 record =
     (let v = with_field record ''mappingFingerprint'' JNull in
      seq (hashWithout sha256 v ''mappingFingerprint'') (\<lambda>h.
        validateManagedMappingRecord sha256 (with_field v ''mappingFingerprint'' (JStr h))))"

definition fingerprintManagedRouteRecord :: "(bytes \<Rightarrow> jsstr) \<Rightarrow> jsval \<Rightarrow> jsval \<Rightarrow> js_error + jsval" where
  "fingerprintManagedRouteRecord sha256 record m =
     (let v = with_field record ''routeFingerprint'' JNull in
      seq (hashWithout sha256 v ''routeFingerprint'') (\<lambda>h.
        validateManagedRouteRecord sha256 (with_field v ''routeFingerprint'' (JStr h)) m))"

section \<open>The channel file\<close>

definition read_error :: "jsval \<Rightarrow> string \<Rightarrow> js_error" where
  "read_error v k = TypeError (js ''Cannot read properties of '' @
     (if v = JNull then js ''null'' else js ''undefined'') @ js '' (reading '' @ [0x27] @ js k @ [0x27] @ js '')'')"

definition is_nullish :: "jsval \<Rightarrow> bool" where
  "is_nullish v \<longleftrightarrow> v = JNull \<or> v = JUndefined"

text \<open>The loop over the mappings returns the largest generation it saw.\<close>

fun validate_mappings ::
  "(bytes \<Rightarrow> jsstr) \<Rightarrow> jsval \<Rightarrow> (jsstr \<times> jsval) list \<Rightarrow> int \<Rightarrow> js_error + int" where
  "validate_mappings sha256 doc [] mx = Inr mx"
| "validate_mappings sha256 doc ((mappingId, m) # rest) mx =
     check (\<not> is_nullish m) (read_error m ''mappingId'') (
     check (js_eq (JStr mappingId) (fld m ''mappingId'')) channels_invalid (
     seq (validateManagedMappingRecord sha256 m) (\<lambda>_.
     check (js_eq (fld m ''fenceGeneration'') (fld doc ''fenceGeneration'')) channels_invalid (
     validate_mappings sha256 doc rest (max mx (int_of (fld m ''mappingGeneration'')))))))"

text \<open>A route whose \<open>mappingId\<close> is not a string is refused by the first test; the code converts it to
  a property key and refuses it when it compares the field with the string in the mapping.\<close>

fun validate_routes ::
  "(bytes \<Rightarrow> jsstr) \<Rightarrow> jsval \<Rightarrow> (jsstr \<times> jsval) list \<Rightarrow> js_error + unit" where
  "validate_routes sha256 doc [] = Inr ()"
| "validate_routes sha256 doc ((channelId, r) # rest) =
     check (\<not> is_nullish r) (read_error r ''channelId'') (
     check (js_eq (JStr channelId) (fld r ''channelId'') \<and> typeof_string (fld r ''mappingId'') \<and>
            has_key (fld doc ''mappings'') (str_of (fld r ''mappingId''))) channels_invalid (
     seq (validateManagedRouteRecord sha256 r (get_own (fld doc ''mappings'') (str_of (fld r ''mappingId'')))) (\<lambda>_.
     check (js_eq (fld r ''fenceGeneration'') (fld doc ''fenceGeneration'')) channels_invalid (
     validate_routes sha256 doc rest))))"

definition channels_shape :: "jsval \<Rightarrow> bool" where
  "channels_shape v \<longleftrightarrow> exact v MANAGED_CHANNEL_KEYS \<and> js_eq (fld v ''version'') (JInt 2) \<and>
     js_eq (fld v ''managementStamp'') (JLit ''gjc-management-channels/v2'') \<and>
     js_eq (fld v ''dispatchClass'') (JLit ''workspace-only'') \<and> positiveFence (fld v ''fenceGeneration'') \<and>
     isSafeInteger (fld v ''mappingGeneration'') \<and> 0 \<le> int_of (fld v ''mappingGeneration'') \<and>
     isSafeInteger (fld v ''tokenConfigGeneration'') \<and> 1 \<le> int_of (fld v ''tokenConfigGeneration'') \<and>
     isHex64 (fld v ''tokenConfigHostSetFingerprint'') \<and>
     str_in (fld v ''targetState'') [''genesis-empty'', ''managed-empty'', ''managed''] \<and>
     plain (fld v ''mappings'') \<and> plain (fld v ''routes'') \<and> isHex64 (fld v ''configFingerprint'')"

definition channels_genesis :: "jsval \<Rightarrow> bool" where
  "channels_genesis v \<longleftrightarrow>
     (let empty = js_eq (fld v ''targetState'') (JLit ''genesis-empty'') in
      (empty \<longrightarrow> js_eq (fld v ''fenceGeneration'') (JInt 1)) \<and>
      empty = (js_eq (fld v ''revision'') JNull \<and> js_eq (fld v ''authorityEpoch'') JNull) \<and>
      (\<not> empty \<longrightarrow> isSafeInteger (fld v ''revision'') \<and> 1 \<le> int_of (fld v ''revision'') \<and>
         isSafeInteger (fld v ''authorityEpoch'') \<and> 1 \<le> int_of (fld v ''authorityEpoch'')) \<and>
      (empty \<longrightarrow> js_eq (fld v ''mappingGeneration'') (JInt 0) \<and> own_keys (fld v ''mappings'') = [] \<and>
         own_keys (fld v ''routes'') = []))"

definition validateManagedChannelsV2 :: "(bytes \<Rightarrow> jsstr) \<Rightarrow> jsval \<Rightarrow> js_error + jsval" where
  "validateManagedChannelsV2 sha256 v =
     check (channels_shape v) channels_invalid (
     check (channels_genesis v) channels_invalid (
     seq (validate_mappings sha256 v (own_fields (fld v ''mappings'')) 0) (\<lambda>maximumGeneration.
     seq (validate_routes sha256 v (own_fields (fld v ''routes''))) (\<lambda>_.
     check (maximumGeneration \<le> int_of (fld v ''mappingGeneration'')) channels_invalid (
     check (\<not> (js_eq (fld v ''targetState'') (JLit ''managed-empty'') \<and> own_keys (fld v ''routes'') \<noteq> [])) channels_invalid (
     check (\<not> (js_eq (fld v ''targetState'') (JLit ''managed'') \<and> own_keys (fld v ''routes'') = [])) channels_invalid (
     seq (hashWithout sha256 v ''configFingerprint'') (\<lambda>h.
     check (js_eq (JStr h) (fld v ''configFingerprint'')) channels_invalid (Inr v)))))))))"

definition createGenesisEmptyChannels :: "(bytes \<Rightarrow> jsstr) \<Rightarrow> jsval \<Rightarrow> jsval \<Rightarrow> jsval \<Rightarrow> js_error + jsval" where
  "createGenesisEmptyChannels sha256 tokenConfigGeneration tokenConfigHostSetFingerprint fenceGeneration =
     (let v = record_of [(''version'', JInt 2), (''managementStamp'', JLit ''gjc-management-channels/v2''),
        (''revision'', JNull), (''authorityEpoch'', JNull), (''fenceGeneration'', fenceGeneration),
        (''mappingGeneration'', JInt 0), (''tokenConfigGeneration'', tokenConfigGeneration),
        (''tokenConfigHostSetFingerprint'', tokenConfigHostSetFingerprint), (''targetState'', JLit ''genesis-empty''),
        (''dispatchClass'', JLit ''workspace-only''), (''mappings'', JObj ObjectProto []), (''routes'', JObj ObjectProto []),
        (''configFingerprint'', JNull)] in
      seq (hashWithout sha256 v ''configFingerprint'') (\<lambda>h.
        validateManagedChannelsV2 sha256 (with_field v ''configFingerprint'' (JStr h))))"

section \<open>Records carry their own fingerprint\<close>

lemma without_with_field: "without (with_field v k x) k = without v k"
proof -
  have "filter (\<lambda>(k', _). k' \<noteq> js k) (mput (js k) x fs) = filter (\<lambda>(k', _). k' \<noteq> js k) fs" for fs
    by (induction fs) auto
  then show ?thesis by (simp add: without_def with_field_def)
qed

lemma with_field_twice: "with_field (with_field v k x) k y = with_field v k y"
proof -
  have "mput k y (mput k x fs) = mput k y fs" for k :: jsstr and x y fs by (induction fs) auto
  then show ?thesis by (simp add: with_field_def)
qed

lemma mput_same: "map_of fs k = Some y \<Longrightarrow> mput k y fs = fs"
  by (induction fs) (auto split: if_splits)

lemma with_field_own:
  assumes "plain v" "hasOwn v k"
  shows "with_field v k (fld v k) = v"
proof -
  obtain fs where v: "v = JObj ObjectProto fs" using assms(1) by (cases v rule: plain.cases) auto
  with assms(2) obtain y where "map_of fs (js k) = Some y"
    by (metis has_key_JObj map_of_eq_None_iff not_None_eq)
  with v show ?thesis by (simp add: with_field_def get_own_JObj mput_same)
qed

lemma fld_with_field: "fld (with_field v k x) k = x"
  by (simp add: with_field_def get_own_JObj)

lemma mapping_record_Inr:
  "validateManagedMappingRecord sha256 m = Inr x \<longleftrightarrow> is_ok (validateManagedMappingRecord sha256 m) \<and> x = m"
  by (auto simp: validateManagedMappingRecord_def Let_def seq_eq_Inr is_ok_iff split: if_splits)

lemma mapping_record_accepted:
  assumes "validateManagedMappingRecord sha256 m = Inr x"
  shows "exact m MAPPING_KEYS" "isManagedMappingId (fld m ''mappingId'')" "exactHostId (fld m ''hostId'')"
    "1 \<le> int_of (fld m ''mappingGeneration'')" "isHex64 (fld m ''mappingFingerprint'')"
    "hashWithout sha256 m ''mappingFingerprint'' = Inr (str_of (fld m ''mappingFingerprint''))"
    "fld m ''mappingFingerprint'' = JStr (str_of (fld m ''mappingFingerprint''))"
  using assms
  by (auto simp: validateManagedMappingRecord_def Let_def seq_eq_Inr dest!: js_eq_imp_eq split: if_splits)
    (metis js_eq_imp_eq str_of.simps(1))+

text \<open>Fingerprinting a mapping record and validating it are inverse: the record that
  \<open>fingerprintManagedMappingRecord\<close> returns passes the validator and differs from its input in the
  fingerprint only, and a record passes the validator exactly when fingerprinting it again
  gives it back unchanged.\<close>

theorem mapping_fingerprint_round_trip:
  "(fingerprintManagedMappingRecord sha256 r = Inr v \<longrightarrow>
      validateManagedMappingRecord sha256 v = Inr v \<and>
      without v ''mappingFingerprint'' = without r ''mappingFingerprint'') \<and>
   (plain r \<longrightarrow> (validateManagedMappingRecord sha256 r = Inr r \<longleftrightarrow> fingerprintManagedMappingRecord sha256 r = Inr r))"
proof (intro conjI impI)
  assume "fingerprintManagedMappingRecord sha256 r = Inr v"
  then obtain h where "validateManagedMappingRecord sha256 (with_field r ''mappingFingerprint'' (JStr h)) = Inr v"
    by (auto simp: fingerprintManagedMappingRecord_def seq_eq_Inr with_field_twice)
  moreover from this have "v = with_field r ''mappingFingerprint'' (JStr h)" by (simp add: mapping_record_Inr)
  ultimately show "validateManagedMappingRecord sha256 v = Inr v"
    "without v ''mappingFingerprint'' = without r ''mappingFingerprint''"
    by (simp_all add: without_with_field)
next
  assume "plain r"
  show "validateManagedMappingRecord sha256 r = Inr r \<longleftrightarrow> fingerprintManagedMappingRecord sha256 r = Inr r"
  proof
    assume v: "validateManagedMappingRecord sha256 r = Inr r"
    note a = mapping_record_accepted [OF v]
    have "hasOwn r ''mappingFingerprint''"
      using a(1) by (simp add: exact_def MAPPING_KEYS_def)
    from with_field_own [OF \<open>plain r\<close> this] a v show "fingerprintManagedMappingRecord sha256 r = Inr r"
      by (simp add: fingerprintManagedMappingRecord_def hashWithout_def without_with_field with_field_twice)
  next
    assume "fingerprintManagedMappingRecord sha256 r = Inr r"
    then show "validateManagedMappingRecord sha256 r = Inr r"
      by (auto simp: fingerprintManagedMappingRecord_def seq_eq_Inr with_field_twice mapping_record_Inr)
  qed
qed

section \<open>The channel file is consistent\<close>

lemma route_record_accepted:
  assumes "validateManagedRouteRecord sha256 r m = Inr x"
  shows "x = r" "is_ok (validateManagedMappingRecord sha256 m)"
    "list_all (\<lambda>k. fld r k = fld m k) SHARED_FIELDS"
    "hashWithout sha256 r ''routeFingerprint'' = Inr (str_of (fld r ''routeFingerprint''))"
  using assms
  by (auto simp: validateManagedRouteRecord_def seq_eq_Inr is_ok_iff list_all_iff dest: js_eq_imp_eq)
    (metis js_eq_imp_eq str_of.simps(1))

definition mapping_in_file :: "(bytes \<Rightarrow> jsstr) \<Rightarrow> jsval \<Rightarrow> jsstr \<times> jsval \<Rightarrow> bool" where
  "mapping_in_file sha256 doc e \<longleftrightarrow>
     is_ok (validateManagedMappingRecord sha256 (snd e)) \<and> fld (snd e) ''mappingId'' = JStr (fst e) \<and>
     fld (snd e) ''fenceGeneration'' = fld doc ''fenceGeneration'' \<and>
     1 \<le> int_of (fld (snd e) ''mappingGeneration'') \<and>
     int_of (fld (snd e) ''mappingGeneration'') \<le> int_of (fld doc ''mappingGeneration'')"

definition route_in_file :: "jsval \<Rightarrow> jsstr \<times> jsval \<Rightarrow> bool" where
  "route_in_file doc e \<longleftrightarrow> fld (snd e) ''channelId'' = JStr (fst e) \<and>
     list_ex (\<lambda>(k, m). fld (snd e) ''mappingId'' = JStr k \<and> list_all (\<lambda>f. fld (snd e) f = fld m f) SHARED_FIELDS)
       (own_fields (fld doc ''mappings''))"

lemma validate_mappings_Inr:
  assumes "validate_mappings sha256 doc ms mx = Inr y"
  shows "mx \<le> y \<and> list_all (\<lambda>e. is_ok (validateManagedMappingRecord sha256 (snd e)) \<and>
     fld (snd e) ''mappingId'' = JStr (fst e) \<and> fld (snd e) ''fenceGeneration'' = fld doc ''fenceGeneration'' \<and>
     int_of (fld (snd e) ''mappingGeneration'') \<le> y) ms"
  using assms
  by (induction sha256 doc ms mx rule: validate_mappings.induct)
    (auto simp: seq_eq_Inr is_ok_iff dest!: js_eq_imp_eq)

lemma own_field_mem: "has_key v k \<Longrightarrow> (k, get_own v k) \<in> set (own_fields v)"
  by (frule has_key_isObject, cases v)
    (auto simp: has_key_JObj get_own_JObj map_of_eq_None_iff split: option.splits dest: map_of_SomeD)

lemma validate_routes_Inr:
  assumes "validate_routes sha256 doc rs = Inr u"
  shows "list_all (route_in_file doc) rs"
  using assms
proof (induction sha256 doc rs rule: validate_routes.induct)
  case (2 sha256 doc channelId r rest)
  let ?m = "get_own (fld doc ''mappings'') (str_of (fld r ''mappingId''))"
  from 2(2) obtain s x where c: "fld r ''channelId'' = JStr channelId" "fld r ''mappingId'' = JStr s"
    "has_key (fld doc ''mappings'') s" and v: "validateManagedRouteRecord sha256 r ?m = Inr x"
    "validate_routes sha256 doc rest = Inr u"
    by (auto simp: seq_eq_Inr dest!: js_eq_imp_eq elim!: typeof_string.elims)
  from own_field_mem [OF c(3)] c route_record_accepted(3) [OF v(1)] have "route_in_file doc (channelId, r)"
    by (auto simp: route_in_file_def list_ex_iff)
  with 2 v c show ?case by (auto simp: seq_eq_Inr)
qed simp

text \<open>C19. A channel file that validates is internally consistent: every mapping is stored under its own
  id, is a valid record of the file's fence generation and of a generation between 1 and the
  file's, every route is stored under its channel and agrees with a mapping of the file in all
  nine shared fields, and the file has routes exactly when its state is \<open>managed\<close>.\<close>

theorem managed_channels_consistent:
  assumes "validateManagedChannelsV2 sha256 v = Inr x"
  shows "x = v \<and> list_all (mapping_in_file sha256 v) (own_fields (fld v ''mappings'')) \<and>
    list_all (route_in_file v) (own_fields (fld v ''routes'')) \<and>
    (own_fields (fld v ''routes'') = [] \<longleftrightarrow> fld v ''targetState'' \<noteq> JLit ''managed'')"
proof -
  from assms obtain mx u where s: "channels_shape v" "channels_genesis v" "x = v"
    and m: "validate_mappings sha256 v (own_fields (fld v ''mappings'')) 0 = Inr mx"
    and r: "validate_routes sha256 v (own_fields (fld v ''routes'')) = Inr u"
    and g: "mx \<le> int_of (fld v ''mappingGeneration'')"
    and t: "fld v ''targetState'' = JLit ''managed-empty'' \<Longrightarrow> own_keys (fld v ''routes'') = []"
      "fld v ''targetState'' = JLit ''managed'' \<Longrightarrow> own_keys (fld v ''routes'') \<noteq> []"
    by (auto simp: validateManagedChannelsV2_def seq_eq_Inr)
  have e: "own_keys w = [] \<longleftrightarrow> own_fields w = []" for w by (simp add: own_keys_def)
  have "own_fields (fld v ''routes'') = [] \<longleftrightarrow> fld v ''targetState'' \<noteq> JLit ''managed''"
    using s t by (auto simp: channels_shape_def channels_genesis_def str_in_iff Let_def e)
  moreover have "list_all (mapping_in_file sha256 v) (own_fields (fld v ''mappings''))"
    using validate_mappings_Inr [OF m] g
    by (auto simp: list_all_iff mapping_in_file_def is_ok_iff dest: mapping_record_accepted(4))
  ultimately show ?thesis using s(3) validate_routes_Inr [OF r] by simp
qed

lemma hashWithout_Inr:
  "hashWithout sha256 v k = Inr h \<longleftrightarrow>
     admits (maxDepth STRICT_JSON_LIMITS) 0 (without v k) \<and> nodes (without v k) \<le> maxNodes STRICT_JSON_LIMITS \<and>
     h = sha256 (utf8 (render (without v k)))"
proof -
  have "map_sum id sha256 r = Inr h \<longleftrightarrow> (\<exists>b. r = Inr b \<and> h = sha256 b)" for r :: "js_error + bytes"
    by (cases r) auto
  then show ?thesis
    by (auto simp: hashWithout_def canonicalJsonHash_def canonicalJsonBytes_Inr canonicalJson_Inr)
qed

definition genesis_file :: "jsval \<Rightarrow> jsval \<Rightarrow> jsval \<Rightarrow> jsval \<Rightarrow> jsval" where
  "genesis_file g f n h = record_of [(''version'', JInt 2), (''managementStamp'', JLit ''gjc-management-channels/v2''),
     (''revision'', JNull), (''authorityEpoch'', JNull), (''fenceGeneration'', n),
     (''mappingGeneration'', JInt 0), (''tokenConfigGeneration'', g),
     (''tokenConfigHostSetFingerprint'', f), (''targetState'', JLit ''genesis-empty''),
     (''dispatchClass'', JLit ''workspace-only''), (''mappings'', JObj ObjectProto []), (''routes'', JObj ObjectProto []),
     (''configFingerprint'', h)]"

lemma genesis_fields:
  "channels_shape (genesis_file g f n (JStr h)) \<longleftrightarrow> positiveFence n \<and> isSafeInteger g \<and> 1 \<le> int_of g \<and> isHex64 f \<and> isHex64 (JStr h)"
  "channels_genesis (genesis_file g f n (JStr h)) \<longleftrightarrow> js_eq n (JInt 1)"
  "own_fields (fld (genesis_file g f n (JStr h)) ''mappings'') = []"
  "own_fields (fld (genesis_file g f n (JStr h)) ''routes'') = []"
  "fld (genesis_file g f n (JStr h)) ''targetState'' = JLit ''genesis-empty''"
  "fld (genesis_file g f n (JStr h)) ''mappingGeneration'' = JInt 0"
  "fld (genesis_file g f n (JStr h)) ''configFingerprint'' = JStr h"
  by (simp_all add: genesis_file_def channels_shape_def channels_genesis_def exact_def MANAGED_CHANNEL_KEYS_def
      own_keys_JObj has_key_JObj get_own_JObj MAX_SAFE_INTEGER_def is_integral_def)

lemma genesis_create:
  "createGenesisEmptyChannels sha256 g f n =
     seq (hashWithout sha256 (genesis_file g f n JNull) ''configFingerprint'') (\<lambda>h.
       validateManagedChannelsV2 sha256 (genesis_file g f n (JStr h)))"
  by (simp add: createGenesisEmptyChannels_def genesis_file_def with_field_def)

lemma genesis_without:
  "without (genesis_file g f n h) ''configFingerprint'' = without (genesis_file g f n JNull) ''configFingerprint''"
  by (simp add: genesis_file_def without_def)

lemma genesis_validate:
  assumes "hashWithout sha256 (genesis_file g f n JNull) ''configFingerprint'' = Inr h"
  shows "is_ok (validateManagedChannelsV2 sha256 (genesis_file g f n (JStr h))) \<longleftrightarrow>
    n = JInt 1 \<and> isSafeInteger g \<and> 1 \<le> int_of g \<and> isHex64 f \<and> isHex64 (JStr h)"
  using assms genesis_without [of g f n "JStr h"]
  by (auto simp: validateManagedChannelsV2_def genesis_fields hashWithout_def own_keys_def positiveFence_def
      MAX_SAFE_INTEGER_def is_integral_def)

lemma hex64_strict: "isHex64 (JStr s) \<Longrightarrow> strict_text s"
proof -
  have "\<not> is_surrogate c \<and> \<not> forbidden_control c" if "is_lower_hex c" for c
    using that by (auto simp: is_lower_hex_def is_digit_def forbidden_control_def surrogate_unat word_le_nat_alt word_less_nat_alt)
  then have "list_all is_lower_hex t \<Longrightarrow> strict_text t" for t
    by (induction t) (auto simp: strict_text_def)
  then show "isHex64 (JStr s) \<Longrightarrow> ?thesis" by simp
qed

text \<open>A genesis file can be created exactly for fence generation 1, a positive token generation and a
  well-formed host-set fingerprint; no other argument yields a file.\<close>

theorem genesis_channels_exact:
  assumes "\<And>b. isHex64 (JStr (sha256 b))"
  shows "is_ok (createGenesisEmptyChannels sha256 g f n) \<longleftrightarrow>
    n = JInt 1 \<and> isSafeInteger g \<and> 1 \<le> int_of g \<and> isHex64 f" (is "?made \<longleftrightarrow> ?args")
proof (cases "hashWithout sha256 (genesis_file g f n JNull) ''configFingerprint''")
  case (Inr h)
  then have "isHex64 (JStr h)"
    using assms by (simp only: hashWithout_Inr)
  with Inr show ?thesis by (simp only: genesis_create seq_simps genesis_validate) simp
next
  case (Inl e)
  have "\<not> ?args"
  proof
    assume a: ?args
    then obtain t where t: "f = JStr t" using isHex64_string by blast
    moreover have "strict_text t" using a t hex64_strict by blast
    moreover obtain k where "g = JInt k" "\<bar>k\<bar> \<le> MAX_SAFE_INTEGER" using a by (auto simp: isSafeInteger_iff)
    ultimately have "is_ok (hashWithout sha256 (genesis_file g f n JNull) ''configFingerprint'')"
      using a by (simp add: is_ok_iff hashWithout_Inr genesis_file_def without_def STRICT_JSON_LIMITS_def MAX_SAFE_INTEGER_def is_integral_def)
       (simp add: strict_text_def js_def forbidden_control_def surrogate_unat)
    with Inl show False by simp
  qed
  with Inl show ?thesis by (simp add: genesis_create)
qed

section \<open>Sample records\<close>

definition sample_mapping :: jsval where
  "sample_mapping = record_of [(''mappingId'', JLit ''m1''), (''hostId'', JLit ''h''), (''fenceGeneration'', JInt 1),
     (''mappingGeneration'', JInt 1), (''workspaceGeneration'', JInt 1), (''mappingVersion'', JInt 1),
     (''sourcePlatform'', JLit ''posix''), (''workspaceId'', JLit ''w1''), (''workDir'', JNull),
     (''sourceRoot'', JLit ''/srv''), (''containerRoot'', JNull), (''volumeIdentity'', JLit ''v''),
     (''casePolicy'', JLit ''sensitive''), (''immutableDefault'', JBool False),
     (''mappingFingerprint'', JStr (replicate 64 0x30))]"

definition sample_route :: jsval where
  "sample_route = record_of [(''channelId'', JLit ''7''), (''hostId'', JLit ''h''), (''mappingId'', JLit ''m1''),
     (''fenceGeneration'', JInt 1), (''mappingGeneration'', JInt 1), (''workspaceGeneration'', JInt 1),
     (''mappingVersion'', JInt 1), (''sourcePlatform'', JLit ''posix''), (''workspaceId'', JLit ''w1''),
     (''workDir'', JNull), (''routeFingerprint'', JStr (replicate 64 0x30))]"

definition sample_channels :: jsval where
  "sample_channels = record_of [(''version'', JInt 2), (''managementStamp'', JLit ''gjc-management-channels/v2''),
     (''revision'', JInt 1), (''authorityEpoch'', JInt 1), (''fenceGeneration'', JInt 1), (''mappingGeneration'', JInt 1),
     (''tokenConfigGeneration'', JInt 1), (''tokenConfigHostSetFingerprint'', JStr (replicate 64 0x30)),
     (''targetState'', JLit ''managed''), (''dispatchClass'', JLit ''workspace-only''),
     (''mappings'', record_of [(''m1'', sample_mapping)]), (''routes'', record_of [(''7'', sample_route)]),
     (''configFingerprint'', JStr (replicate 64 0x30))]"

lemma ascii_unit:
  fixes c :: "16 word"
  assumes "0x20 \<le> unat c" "unat c < 0x7f"
  shows "\<not> is_surrogate c" "\<not> forbidden_control c" "utf8_unit c = [byte (unat c)]"
  using assms by (simp_all add: surrogate_unat forbidden_control_def utf8_unit_def word_le_nat_alt) auto

lemma validText_ascii:
  assumes "list_all (\<lambda>c. 0x20 \<le> unat c \<and> unat c < 0x7f) s" "s \<noteq> []" "length s \<le> m"
  shows "validText (JStr s) m" "byteLength s = length s"
proof -
  have u: "byteLength t = length t \<and> strict_text t" if "list_all (\<lambda>c. 0x20 \<le> unat c \<and> unat c < 0x7f) t" for t
    using that by (induction t) (simp_all add: ascii_unit utf8_Cons_plain strict_text_def)
  show "byteLength s = length s" using u assms(1) by blast
  with u [OF assms(1)] assms(2,3) show "validText (JStr s) m"
    by (simp add: validText_def is_ok_iff assertStrictText_Inr)
qed

lemma sample_texts:
  "validText (JLit ''h'') 128" "byteLength (js ''h'') = 1" "validText (JLit ''v'') 512"
  using validText_ascii [of "js ''h''" 128] validText_ascii [of "js ''v''" 512] by (simp_all add: js_def)

lemma hex_zeros: "isHex64 (JStr (replicate 64 0x30))"
  by (simp add: list_all_iff is_lower_hex_def is_digit_def)

lemma sample_location: "validMappingLocation sample_mapping"
proof -
  have "canonicalPosixRoot (JLit ''/srv'')" by (simp add: canonicalPosixRoot_def js_def dots_def)
  then show ?thesis
    by (simp add: validMappingLocation_def sample_mapping_def get_own_JObj sample_texts)
qed

lemma sample_mapping_hash: "hashWithout sample_sha sample_mapping ''mappingFingerprint'' = Inr (replicate 64 0x30)"
  by (simp add: hashWithout_Inr sample_sha_def sample_mapping_def without_def STRICT_JSON_LIMITS_def MAX_SAFE_INTEGER_def is_integral_def)
    (simp add: strict_text_def js_def forbidden_control_def surrogate_unat)

lemma sample_patterns: "isManagedMappingId (JLit ''m1'')" "OPAQUE_TOKEN_test (JLit ''w1'') = Inr True"
  "exactHostId (JLit ''h'')" "DISCORD_ID_test (JLit ''7'') = Inr True"
  using sample_texts(1,2)
  by (simp_all add: isManagedMappingId_def exactHostId_def OPAQUE_TOKEN_test_def DISCORD_ID_test_def regexp_test_def)
    (simp_all add: js_def is_alnum_def is_id_char_def is_alpha_def is_digit_def discord_id_def trim_def is_space_def)

lemma sample_mapping_ok: "validateManagedMappingRecord sample_sha sample_mapping = Inr sample_mapping"
proof -
  have "exact sample_mapping MAPPING_KEYS"
    by (simp add: exact_def MAPPING_KEYS_def sample_mapping_def own_keys_JObj has_key_JObj)
  moreover have "fld sample_mapping ''mappingId'' = JLit ''m1''" "fld sample_mapping ''hostId'' = JLit ''h''"
    "fld sample_mapping ''fenceGeneration'' = JInt 1" "fld sample_mapping ''mappingGeneration'' = JInt 1"
    "fld sample_mapping ''workspaceGeneration'' = JInt 1" "fld sample_mapping ''mappingVersion'' = JInt 1"
    "fld sample_mapping ''workspaceId'' = JLit ''w1''" "fld sample_mapping ''workDir'' = JNull"
    "fld sample_mapping ''immutableDefault'' = JBool False"
    "fld sample_mapping ''mappingFingerprint'' = JStr (replicate 64 0x30)"
    by (simp_all add: sample_mapping_def get_own_JObj)
  ultimately show ?thesis
    using sample_location sample_mapping_hash sample_patterns hex_zeros
    by (simp add: validateManagedMappingRecord_def positiveFence_def MAX_SAFE_INTEGER_def is_integral_def)
qed

lemma sample_route_ok: "validateManagedRouteRecord sample_sha sample_route sample_mapping = Inr sample_route"
proof -
  have "exact sample_route ROUTE_KEYS"
    by (simp add: exact_def ROUTE_KEYS_def sample_route_def own_keys_JObj has_key_JObj)
  moreover have "hashWithout sample_sha sample_route ''routeFingerprint'' = Inr (replicate 64 0x30)"
    by (simp add: hashWithout_Inr sample_sha_def sample_route_def without_def STRICT_JSON_LIMITS_def MAX_SAFE_INTEGER_def is_integral_def)
      (simp add: strict_text_def js_def forbidden_control_def surrogate_unat)
  moreover have "list_all (\<lambda>k. js_eq (fld sample_route k) (fld sample_mapping k)) SHARED_FIELDS"
    by (simp add: SHARED_FIELDS_def sample_route_def sample_mapping_def get_own_JObj)
  moreover have "fld sample_route ''channelId'' = JLit ''7''"
    "fld sample_route ''routeFingerprint'' = JStr (replicate 64 0x30)"
    by (simp_all add: sample_route_def get_own_JObj)
  ultimately show ?thesis
    using sample_mapping_ok sample_patterns hex_zeros by (simp add: validateManagedRouteRecord_def)
qed

lemma sample_entries:
  "fld sample_channels ''mappings'' = record_of [(''m1'', sample_mapping)]"
  "fld sample_channels ''routes'' = record_of [(''7'', sample_route)]"
  "fld sample_channels ''fenceGeneration'' = JInt 1" "fld sample_channels ''targetState'' = JLit ''managed''"
  "fld sample_channels ''mappingGeneration'' = JInt 1"
  "fld sample_channels ''configFingerprint'' = JStr (replicate 64 0x30)"
  by (simp_all add: sample_channels_def get_own_JObj)

lemma sample_shape: "channels_shape sample_channels" "channels_genesis sample_channels"
proof -
  have "exact sample_channels MANAGED_CHANNEL_KEYS"
    by (simp add: exact_def MANAGED_CHANNEL_KEYS_def sample_channels_def own_keys_JObj has_key_JObj)
  moreover have "fld sample_channels ''version'' = JInt 2" "fld sample_channels ''revision'' = JInt 1"
    "fld sample_channels ''managementStamp'' = JLit ''gjc-management-channels/v2''"
    "fld sample_channels ''authorityEpoch'' = JInt 1" "fld sample_channels ''tokenConfigGeneration'' = JInt 1"
    "fld sample_channels ''tokenConfigHostSetFingerprint'' = JStr (replicate 64 0x30)"
    "fld sample_channels ''dispatchClass'' = JLit ''workspace-only''"
    by (simp_all add: sample_channels_def get_own_JObj)
  ultimately show "channels_shape sample_channels" "channels_genesis sample_channels"
    using hex_zeros
    by (simp_all add: channels_shape_def channels_genesis_def sample_entries positiveFence_def MAX_SAFE_INTEGER_def is_integral_def)
qed

lemma sample_admitted:
  "admits 64 2 sample_mapping" "admits 64 2 sample_route" "nodes sample_mapping = 16" "nodes sample_route = 12"
  by (simp_all add: sample_mapping_def sample_route_def strict_text_replicate_0 MAX_SAFE_INTEGER_def is_integral_def)
    (simp_all add: strict_text_def js_def forbidden_control_def surrogate_unat)

lemma sample_channels_ok: "validateManagedChannelsV2 sample_sha sample_channels = Inr sample_channels"
proof -
  have "hashWithout sample_sha sample_channels ''configFingerprint'' = Inr (replicate 64 0x30)"
    using sample_admitted [unfolded numeral_2_eq_2]
    by (simp add: hashWithout_Inr sample_sha_def sample_channels_def without_def STRICT_JSON_LIMITS_def
        strict_text_replicate_0 MAX_SAFE_INTEGER_def is_integral_def)
      (simp add: strict_text_def js_def forbidden_control_def surrogate_unat)
  moreover have "fld sample_mapping ''mappingId'' = JLit ''m1''" "fld sample_mapping ''fenceGeneration'' = JInt 1"
    "fld sample_mapping ''mappingGeneration'' = JInt 1" "fld sample_route ''mappingId'' = JLit ''m1''"
    "fld sample_route ''channelId'' = JLit ''7''" "fld sample_route ''fenceGeneration'' = JInt 1"
    by (simp_all add: sample_mapping_def sample_route_def get_own_JObj)
  moreover have "\<not> is_nullish sample_mapping" "\<not> is_nullish sample_route"
    by (simp_all add: is_nullish_def sample_mapping_def sample_route_def)
  ultimately show ?thesis
    using sample_mapping_ok sample_route_ok sample_shape
    by (simp add: validateManagedChannelsV2_def sample_entries own_keys_JObj has_key_JObj get_own_JObj)
qed

theorem mapping_fingerprint_round_trip_witness:
  "fingerprintManagedMappingRecord sample_sha sample_mapping = Inr sample_mapping"
  using mapping_fingerprint_round_trip [of sample_sha sample_mapping sample_mapping] sample_mapping_ok
  by (simp add: sample_mapping_def)

theorem managed_channels_consistent_witness:
  "list_all (mapping_in_file sample_sha sample_channels) (own_fields (fld sample_channels ''mappings'')) \<and>
   list_all (route_in_file sample_channels) (own_fields (fld sample_channels ''routes''))"
  using managed_channels_consistent [OF sample_channels_ok] by simp

theorem genesis_channels_exact_witness:
  "is_ok (createGenesisEmptyChannels sample_sha (JInt 3) (JStr (replicate 64 0x30)) (JInt 1)) \<and>
   \<not> is_ok (createGenesisEmptyChannels sample_sha (JInt 3) (JStr (replicate 64 0x30)) (JInt 2))"
proof -
  have "isHex64 (JStr (sample_sha b))" for b using hex_zeros by (simp add: sample_sha_def)
  from genesis_channels_exact [OF this] hex_zeros show ?thesis
    by (simp add: MAX_SAFE_INTEGER_def is_integral_def)
qed

end
