(* ===== verification/Bind_Authority.thy ===== *)
theory Bind_Authority
  imports Managed_Records
begin

text \<open>
  The per-bind verification of \<^verbatim>\<open>shared/bind-authority-verification.js\<close>: a bind message must carry the
  records its fingerprints commit to, name the daemon's own host, and repeat the identity of
  the verified record.  The containment test of a configured root is the parameter
  \<open>c_assertContained\<close>.
\<close>

section \<open>Verification\<close>

datatype bind_code = HASH_MISMATCH | HOSTID_MISMATCH | CONTAINMENT_ESCAPE

text \<open>\<open>assertContained\<close> is absent when it is not a function; its thrown errors are \<open>False\<close>.\<close>

record containment =
  c_root :: jsval
  c_sourcePlatform :: jsval
  c_containerRoot :: jsval
  c_assertContained :: "(jsval \<Rightarrow> jsval \<Rightarrow> jsval \<Rightarrow> bool) option"

record bind_context =
  x_hostId :: jsval
  x_containment :: "containment option"

definition ROUTE_BOUND_TUPLE_FIELDS :: "string list" where
  "ROUTE_BOUND_TUPLE_FIELDS = [''hostId'', ''mappingId'', ''mappingGeneration'', ''mappingVersion'', ''workspaceId'',
     ''workspaceGeneration'', ''sourcePlatform'', ''routeFingerprint'']"

definition RECEIPT_MAPPING_BOUND_TUPLE_FIELDS :: "string list" where
  "RECEIPT_MAPPING_BOUND_TUPLE_FIELDS = [''hostId'', ''mappingId'', ''mappingGeneration'', ''workspaceGeneration'',
     ''mappingVersion'', ''sourcePlatform'', ''workspaceId'', ''fenceGeneration'']"

definition same_fields :: "jsval \<Rightarrow> jsval \<Rightarrow> string list \<Rightarrow> bool" where
  "same_fields v w ks \<longleftrightarrow> list_all (\<lambda>k. js_eq (fld v k) (fld w k)) ks"

definition contained :: "containment option \<Rightarrow> jsval \<Rightarrow> jsval list \<Rightarrow> bool" where
  "contained co m hostChecks \<longleftrightarrow>
     (case co of
        None \<Rightarrow> True
      | Some c \<Rightarrow>
         (case c_assertContained c of
            None \<Rightarrow> False
          | Some assertContained \<Rightarrow>
              js_eq (fld m ''sourcePlatform'') (c_sourcePlatform c) \<and>
              list_all (\<lambda>candidate. assertContained (c_root c) candidate (c_sourcePlatform c)) hostChecks \<and>
              (typeof_string (c_containerRoot c) \<and> typeof_string (fld m ''containerRoot'') \<longrightarrow>
                 assertContained (c_containerRoot c) (fld m ''containerRoot'') (JLit ''posix''))))"

definition verifyBindAuthorityPreimage :: "(bytes \<Rightarrow> jsstr) \<Rightarrow> jsval \<Rightarrow> bind_context \<Rightarrow> bind_code option" where
  "verifyBindAuthorityPreimage sha256 msg x =
     (let r = fld msg ''route''; m = fld msg ''mapping'' in
      if \<not> isObject msg \<or> \<not> typeof_string (x_hostId x) then Some HASH_MISMATCH
      else if \<not> js_eq (fld msg ''hostId'') (x_hostId x) then Some HOSTID_MISMATCH
      else if \<not> isObject r \<or> \<not> isObject m then Some HASH_MISMATCH
      else if \<not> is_ok (validateManagedRouteRecord sha256 r m) then Some HASH_MISMATCH
      else if \<not> same_fields msg r ROUTE_BOUND_TUPLE_FIELDS then Some HASH_MISMATCH
      else if \<not> js_eq (fld msg ''authorityFingerprint'') (fld m ''mappingFingerprint'') then Some HASH_MISMATCH
      else if \<not> js_eq (fld m ''hostId'') (x_hostId x) then Some HOSTID_MISMATCH
      else if \<not> contained (x_containment x) m
             ((if typeof_string (fld m ''sourceRoot'') then [fld m ''sourceRoot''] else []) @
              (if js_eq (fld m ''workspaceId'') JNull \<and> typeof_string (fld m ''workDir'') then [fld m ''workDir''] else []))
        then Some CONTAINMENT_ESCAPE
      else None)"

definition verifyReceiptBindAuthorityPreimage :: "(bytes \<Rightarrow> jsstr) \<Rightarrow> jsval \<Rightarrow> bind_context \<Rightarrow> bind_code option" where
  "verifyReceiptBindAuthorityPreimage sha256 msg x =
     (let m = fld msg ''mapping'' in
      if \<not> isObject msg \<or> \<not> typeof_string (x_hostId x) then Some HASH_MISMATCH
      else if \<not> js_eq (fld msg ''hostId'') (x_hostId x) then Some HOSTID_MISMATCH
      else if \<not> isObject m then Some HASH_MISMATCH
      else if \<not> is_ok (validateManagedMappingRecord sha256 m) then Some HASH_MISMATCH
      else if \<not> js_eq (fld m ''mappingFingerprint'') (fld msg ''authorityFingerprint'') then Some HASH_MISMATCH
      else if \<not> same_fields msg m RECEIPT_MAPPING_BOUND_TUPLE_FIELDS then Some HASH_MISMATCH
      else if \<not> js_eq (fld m ''hostId'') (x_hostId x) then Some HOSTID_MISMATCH
      else if \<not> contained (x_containment x) m (if typeof_string (fld m ''sourceRoot'') then [fld m ''sourceRoot''] else [])
        then Some CONTAINMENT_ESCAPE
      else None)"

section \<open>What an accepted bind proves\<close>

lemma same_fields_eq: "same_fields v w ks \<Longrightarrow> k \<in> set ks \<Longrightarrow> fld v k = fld w k"
  by (auto simp: same_fields_def list_all_iff dest: js_eq_imp_eq)

lemma fld_without: "k \<noteq> k' \<Longrightarrow> fld (without v k') k = fld v k"
proof -
  assume "k \<noteq> k'"
  then have "map_of (filter (\<lambda>(x, _). x \<noteq> js k') fs) (js k) = map_of fs (js k)" for fs :: "(jsstr \<times> jsval) list"
    by (induction fs) auto
  then show ?thesis by (simp add: without_def get_own_def)
qed

lemma distinct_keys_without: "distinct_keys v \<Longrightarrow> distinct_keys (without v k)"
  by (cases v) (auto simp: without_def intro: distinct_map_filter)

text \<open>Equal hashes of two records without their fingerprints mean the same content, or a collision.\<close>

lemma hash_commits:
  assumes "distinct_keys v" "distinct_keys w"
    and "hashWithout sha256 v k = Inr h" "hashWithout sha256 w k = Inr h"
  shows "canon (without v k) = canon (without w k) \<or> collides sha256 (utf8 (render (without v k))) (utf8 (render (without w k)))"
proof (rule disjCI)
  assume "\<not> collides sha256 (utf8 (render (without v k))) (utf8 (render (without w k)))"
  then have "utf8 (render (without v k)) = utf8 (render (without w k))"
    using assms(3,4) unfolding hashWithout_Inr collides_def by metis
  then have "render (without v k) = render (without w k)"
    by (metis utf8_decode_encode well_formed_render option.inject)
  moreover have "canonicalJson STRICT_JSON_LIMITS (without v k) = Inr (render (without v k))"
    "canonicalJson STRICT_JSON_LIMITS (without w k) = Inr (render (without w k))"
    using assms(3,4) by (auto simp: hashWithout_Inr canonicalJson_Inr)
  ultimately show "canon (without v k) = canon (without w k)"
    using canonical_text_eq_iff assms(1,2) by (metis distinct_keys_without)
qed

lemma receipt_bind_accepted:
  assumes "verifyReceiptBindAuthorityPreimage sha256 msg x = None"
  shows "fld msg ''hostId'' = x_hostId x" "fld (fld msg ''mapping'') ''hostId'' = x_hostId x"
    "is_ok (validateManagedMappingRecord sha256 (fld msg ''mapping''))"
    "fld (fld msg ''mapping'') ''mappingFingerprint'' = fld msg ''authorityFingerprint''"
    "same_fields msg (fld msg ''mapping'') RECEIPT_MAPPING_BOUND_TUPLE_FIELDS"
  using assms by (auto simp: verifyReceiptBindAuthorityPreimage_def Let_def dest!: js_eq_imp_eq split: if_splits)

lemma js_eq_canon_same: "js_eq v w \<Longrightarrow> canon v = v"
  by (cases "(v, w)" rule: js_eq.cases) auto

text \<open>C6. A receipt bind cannot be replayed under another identity: two accepted binds with the same
  authority fingerprint carry the same host, mapping, workspace, platform, version and
  generations, unless the canonical texts of their mapping records are a SHA-256 collision.\<close>

theorem receipt_bind_commits:
  assumes "distinct_keys msg" "distinct_keys msg'"
    and "verifyReceiptBindAuthorityPreimage sha256 msg x = None"
    and "verifyReceiptBindAuthorityPreimage sha256 msg' x' = None"
    and "fld msg ''authorityFingerprint'' = fld msg' ''authorityFingerprint''"
  shows "list_all (\<lambda>k. fld msg k = fld msg' k) RECEIPT_MAPPING_BOUND_TUPLE_FIELDS \<or>
    collides sha256 (utf8 (render (without (fld msg ''mapping'') ''mappingFingerprint'')))
      (utf8 (render (without (fld msg' ''mapping'') ''mappingFingerprint'')))" (is "_ \<or> ?collision")
proof (rule disjCI)
  assume nc: "\<not> ?collision"
  let ?m = "fld msg ''mapping''" and ?m' = "fld msg' ''mapping''" and ?fp = "''mappingFingerprint''"
  note a = receipt_bind_accepted [OF assms(3)] and a' = receipt_bind_accepted [OF assms(4)]
  have d: "distinct_keys ?m" "distinct_keys ?m'" using assms(1,2) by (auto intro: distinct_keys_get_own)
  have "hashWithout sha256 ?m ?fp = Inr (str_of (fld ?m ?fp))" "hashWithout sha256 ?m' ?fp = Inr (str_of (fld ?m ?fp))"
    using a(3,4) a'(3,4) assms(5) mapping_record_accepted(6) by (metis is_ok_iff)+
  from hash_commits [OF d this] nc have eq: "canon (without ?m ?fp) = canon (without ?m' ?fp)" by simp
  have "fld msg k = fld msg' k" if k: "k \<in> set RECEIPT_MAPPING_BOUND_TUPLE_FIELDS" for k
  proof -
    have n: "k \<noteq> ?fp" using k by (auto simp: RECEIPT_MAPPING_BOUND_TUPLE_FIELDS_def)
    have "canon (fld ?m k) = canon (fld ?m' k)"
      using arg_cong [OF eq, of "\<lambda>v. fld v k"] d
      by (simp add: get_own_canon distinct_keys_without fld_without [OF n])
    moreover have "js_eq (fld msg k) (fld ?m k)" "js_eq (fld msg' k) (fld ?m' k)"
      using a(5) a'(5) k by (auto simp: same_fields_def list_all_iff)
    ultimately show ?thesis by (metis js_eq_canon_same js_eq_imp_eq)
  qed
  then show "list_all (\<lambda>k. fld msg k = fld msg' k) RECEIPT_MAPPING_BOUND_TUPLE_FIELDS" by (simp add: list_all_iff)
qed

lemma route_bind_accepted:
  assumes "verifyBindAuthorityPreimage sha256 msg x = None"
  shows "fld msg ''hostId'' = x_hostId x" "is_ok (validateManagedRouteRecord sha256 (fld msg ''route'') (fld msg ''mapping''))"
    "fld msg ''authorityFingerprint'' = fld (fld msg ''mapping'') ''mappingFingerprint''"
    "same_fields msg (fld msg ''route'') ROUTE_BOUND_TUPLE_FIELDS"
  using assms by (auto simp: verifyBindAuthorityPreimage_def Let_def dest!: js_eq_imp_eq split: if_splits)

text \<open>C32. An accepted route bind names the daemon's own host, presents exactly the hashes of its two records,
  and its mapping id, generations, version, workspace and platform are those of the mapping
  record; with a configured root the mapping's source root passed the containment test.\<close>

theorem route_bind_verified:
  assumes "verifyBindAuthorityPreimage sha256 msg x = None"
  shows "fld msg ''hostId'' = x_hostId x \<and>
    hashWithout sha256 (fld msg ''route'') ''routeFingerprint'' = Inr (str_of (fld msg ''routeFingerprint'')) \<and>
    hashWithout sha256 (fld msg ''mapping'') ''mappingFingerprint'' = Inr (str_of (fld msg ''authorityFingerprint'')) \<and>
    list_all (\<lambda>k. fld msg k = fld (fld msg ''mapping'') k)
      [''hostId'', ''mappingId'', ''mappingGeneration'', ''mappingVersion'', ''workspaceId'', ''workspaceGeneration'', ''sourcePlatform''] \<and>
    (case x_containment x of
       None \<Rightarrow> True
     | Some c \<Rightarrow> (\<exists>p. c_assertContained c = Some p \<and> fld msg ''sourcePlatform'' = c_sourcePlatform c \<and>
         p (c_root c) (fld (fld msg ''mapping'') ''sourceRoot'') (c_sourcePlatform c)))"
proof -
  let ?r = "fld msg ''route''" and ?m = "fld msg ''mapping''"
  note a = route_bind_accepted [OF assms]
  obtain y where y: "validateManagedRouteRecord sha256 ?r ?m = Inr y" using a(2) by (auto simp: is_ok_iff)
  note r = route_record_accepted [OF y]
  obtain z where z: "validateManagedMappingRecord sha256 ?m = Inr z" using r(2) by (auto simp: is_ok_iff)
  have f: "list_all (\<lambda>k. fld msg k = fld ?m k)
    [''hostId'', ''mappingId'', ''mappingGeneration'', ''mappingVersion'', ''workspaceId'', ''workspaceGeneration'', ''sourcePlatform'']"
    using r(3) same_fields_eq [OF a(4)] by (simp add: SHARED_FIELDS_def ROUTE_BOUND_TUPLE_FIELDS_def)
  have "typeof_string (fld ?m ''sourceRoot'')"
    using z by (auto simp: validateManagedMappingRecord_def validMappingLocation_def str_in_iff canonicalPosixRoot_def
        canonicalWindowsDriveRoot_def canonicalWindowsUncRoot_def split: jsval.splits)
  moreover have "contained (x_containment x) ?m
      ((if typeof_string (fld ?m ''sourceRoot'') then [fld ?m ''sourceRoot''] else []) @
       (if js_eq (fld ?m ''workspaceId'') JNull \<and> typeof_string (fld ?m ''workDir'') then [fld ?m ''workDir''] else []))"
    using assms by (auto simp: verifyBindAuthorityPreimage_def Let_def split: if_splits)
  ultimately have "case x_containment x of None \<Rightarrow> True
     | Some c \<Rightarrow> (\<exists>p. c_assertContained c = Some p \<and> fld ?m ''sourcePlatform'' = c_sourcePlatform c \<and>
         p (c_root c) (fld ?m ''sourceRoot'') (c_sourcePlatform c))"
    by (auto simp: contained_def dest: js_eq_imp_eq split: option.splits)
  moreover have "fld msg ''routeFingerprint'' = fld ?r ''routeFingerprint''"
    by (rule same_fields_eq [OF a(4)]) (simp add: ROUTE_BOUND_TUPLE_FIELDS_def)
  ultimately show ?thesis using a f r(4) mapping_record_accepted(6) [OF z] by (simp split: option.splits)
qed

definition sample_context :: bind_context where
  "sample_context = \<lparr>x_hostId = JLit ''h'', x_containment = Some \<lparr>c_root = JLit ''/'', c_sourcePlatform = JLit ''posix'',
     c_containerRoot = JUndefined, c_assertContained = Some (\<lambda>_ _ _. True)\<rparr>\<rparr>"

definition sample_bind :: jsval where
  "sample_bind = record_of [(''hostId'', JLit ''h''), (''mappingId'', JLit ''m1''), (''fenceGeneration'', JInt 1),
     (''mappingGeneration'', JInt 1), (''workspaceGeneration'', JInt 1), (''mappingVersion'', JInt 1),
     (''sourcePlatform'', JLit ''posix''), (''workspaceId'', JLit ''w1''), (''routeFingerprint'', JStr (replicate 64 0x30)),
     (''authorityFingerprint'', JStr (replicate 64 0x30)), (''route'', sample_route), (''mapping'', sample_mapping)]"

lemma sample_bind_parts: "fld sample_bind ''mapping'' = sample_mapping" "fld sample_bind ''route'' = sample_route"
  "isObject sample_bind" "isObject sample_mapping" "isObject sample_route"
  by (simp_all add: sample_bind_def get_own_JObj) (simp_all add: sample_mapping_def sample_route_def)

lemma sample_bind_fields:
  "same_fields sample_bind sample_mapping RECEIPT_MAPPING_BOUND_TUPLE_FIELDS"
  "same_fields sample_bind sample_route ROUTE_BOUND_TUPLE_FIELDS"
  "fld sample_bind ''hostId'' = JLit ''h''" "fld sample_mapping ''hostId'' = JLit ''h''"
  "fld sample_bind ''authorityFingerprint'' = JStr (replicate 64 0x30)"
  "fld sample_mapping ''mappingFingerprint'' = JStr (replicate 64 0x30)"
  "contained (x_containment sample_context) sample_mapping cs"
  by (simp_all add: same_fields_def RECEIPT_MAPPING_BOUND_TUPLE_FIELDS_def ROUTE_BOUND_TUPLE_FIELDS_def sample_bind_def
      sample_mapping_def sample_route_def get_own_JObj contained_def sample_context_def list_all_iff)

lemma sample_bind_accepted:
  "verifyReceiptBindAuthorityPreimage sample_sha sample_bind sample_context = None"
  "verifyBindAuthorityPreimage sample_sha sample_bind sample_context = None"
  using sample_mapping_ok sample_route_ok sample_bind_fields
  by (simp_all add: verifyReceiptBindAuthorityPreimage_def verifyBindAuthorityPreimage_def Let_def sample_bind_parts)
    (simp_all add: sample_context_def)

text \<open>A second message on the same mapping record, with its fields in another order and no route.\<close>

definition sample_bind' :: jsval where
  "sample_bind' = record_of [(''mapping'', sample_mapping), (''authorityFingerprint'', JStr (replicate 64 0x30)),
     (''sourcePlatform'', JLit ''posix''), (''workspaceId'', JLit ''w1''), (''mappingVersion'', JInt 1),
     (''workspaceGeneration'', JInt 1), (''mappingGeneration'', JInt 1), (''fenceGeneration'', JInt 1),
     (''mappingId'', JLit ''m1''), (''hostId'', JLit ''h'')]"

lemma sample_bind'_accepted:
  "verifyReceiptBindAuthorityPreimage sample_sha sample_bind' sample_context = None" "fld sample_bind' ''mapping'' = sample_mapping"
  "fld sample_bind' ''authorityFingerprint'' = JStr (replicate 64 0x30)"
proof -
  have p: "fld sample_bind' ''mapping'' = sample_mapping" "isObject sample_bind'" "fld sample_bind' ''hostId'' = JLit ''h''"
    "fld sample_bind' ''authorityFingerprint'' = JStr (replicate 64 0x30)"
    by (simp_all add: sample_bind'_def get_own_JObj)
  have "same_fields sample_bind' sample_mapping RECEIPT_MAPPING_BOUND_TUPLE_FIELDS"
    by (simp add: same_fields_def RECEIPT_MAPPING_BOUND_TUPLE_FIELDS_def sample_bind'_def sample_mapping_def get_own_JObj)
  with p show "verifyReceiptBindAuthorityPreimage sample_sha sample_bind' sample_context = None"
    using sample_mapping_ok sample_bind_fields sample_bind_parts
    by (simp add: verifyReceiptBindAuthorityPreimage_def Let_def) (simp add: sample_context_def)
qed (simp_all add: sample_bind'_def get_own_JObj)

theorem receipt_bind_commits_witness:
  "list_all (\<lambda>k. fld sample_bind k = fld sample_bind' k) RECEIPT_MAPPING_BOUND_TUPLE_FIELDS"
proof -
  have "distinct_keys sample_bind" "distinct_keys sample_bind'"
    by (simp_all add: sample_bind_def sample_bind'_def sample_mapping_def sample_route_def)
  from receipt_bind_commits [OF this sample_bind_accepted(1) sample_bind'_accepted(1)] show ?thesis
    by (simp add: sample_bind_parts sample_bind_fields sample_bind'_accepted)
qed

theorem route_bind_verified_witness:
  "fld sample_bind ''hostId'' = x_hostId sample_context \<and>
   hashWithout sample_sha sample_mapping ''mappingFingerprint'' = Inr (replicate 64 0x30)"
  using route_bind_verified [OF sample_bind_accepted(2)] by (simp add: sample_bind_parts sample_bind_fields)

end
