(* ===== verification/Lifecycle_Records.thy ===== *)
theory Lifecycle_Records
  imports Managed_Records
begin

text \<open>
  The records of a workspace lifecycle operation: \<^verbatim>\<open>shared/workspace-lifecycle-envelope.js\<close> with its
  transaction, checkpoint and head, and the manual-cleanup record of
  \<^verbatim>\<open>shared/recovery-envelope.js\<close>.  Every record carries the hash of its other fields.
\<close>

section \<open>Helpers\<close>

definition lifecycle_fail :: "string \<Rightarrow> js_error" where
  "lifecycle_fail msg = TypeError (js ''WORKSPACE_LIFECYCLE_ENVELOPE_INVALID: '' @ js msg)"

definition recovery_fail :: "string \<Rightarrow> js_error" where
  "recovery_fail msg = TypeError (js ''RECOVERY_ENVELOPE_INVALID: '' @ js msg)"

definition fingerprint :: "(bytes \<Rightarrow> jsstr) \<Rightarrow> jsval \<Rightarrow> string \<Rightarrow> js_error + jsstr" where
  "fingerprint sha256 v k = canonicalJsonHash sha256 STRICT_JSON_LIMITS (without v k)"

definition generation :: "jsval \<Rightarrow> bool" where
  "generation v \<longleftrightarrow> isSafeInteger v \<and> 1 \<le> int_of v"

definition nullableHash :: "jsval \<Rightarrow> bool" where
  "nullableHash v \<longleftrightarrow> js_eq v JNull \<or> isHex64 v"

text \<open>The comparison that ends every validator.\<close>

definition sealed :: "(bytes \<Rightarrow> jsstr) \<Rightarrow> jsval \<Rightarrow> string \<Rightarrow> js_error \<Rightarrow> js_error + jsval" where
  "sealed sha256 v k e = seq (fingerprint sha256 v k) (\<lambda>h. check (js_eq (JStr h) (fld v k)) e (Inr v))"

section \<open>Manual cleanup\<close>

definition mcKeys :: "string list" where
  "mcKeys = [''version'', ''kind'', ''anchorFingerprint'', ''fenceGeneration'', ''txId'', ''reason'', ''expectedFingerprint'',
     ''observedFingerprint'', ''expectedFloorFingerprint'', ''observedFloorFingerprint'', ''routeDisposition'',
     ''blockedUntilOwnerAction'', ''manualCleanupFingerprint'']"

definition validateManualCleanup :: "(bytes \<Rightarrow> jsstr) \<Rightarrow> jsval \<Rightarrow> js_error + jsval" where
  "validateManualCleanup sha256 mc =
     check (exact mc mcKeys \<and> js_eq (fld mc ''version'') (JInt 1) \<and> js_eq (fld mc ''kind'') (JLit ''manual-cleanup'') \<and>
            isHex64 (fld mc ''anchorFingerprint'') \<and> positiveFence (fld mc ''fenceGeneration'') \<and>
            nullableHash (fld mc ''expectedFingerprint'') \<and> nullableHash (fld mc ''observedFingerprint'') \<and>
            nullableHash (fld mc ''expectedFloorFingerprint'') \<and> nullableHash (fld mc ''observedFloorFingerprint'') \<and>
            isOpaqueIdentity (fld mc ''reason'') \<and> js_eq (fld mc ''routeDisposition'') (JLit ''no-route'') \<and>
            js_eq (fld mc ''blockedUntilOwnerAction'') (JBool True) \<and> isHex64 (fld mc ''manualCleanupFingerprint''))
       (recovery_fail ''manual cleanup schema'') (
     check (js_eq (fld mc ''txId'') JNull \<or> isOpaqueIdentity (fld mc ''txId'')) (recovery_fail ''manual cleanup transaction'') (
     sealed sha256 mc ''manualCleanupFingerprint'' (recovery_fail ''manual cleanup fingerprint'')))"

section \<open>Transactions\<close>

definition operations :: "string list" where
  "operations = [''create'', ''clone'', ''refresh'', ''reset'', ''delete'', ''restore'', ''migration'']"

definition txKeys :: "string list" where
  "txKeys = [''version'', ''kind'', ''txId'', ''hostId'', ''mappingId'', ''mappingGeneration'', ''mappingVersion'',
     ''workspaceId'', ''workspaceGeneration'', ''sourcePlatform'', ''routeFingerprint'', ''authorityFingerprint'',
     ''inventoryGeneration'', ''anchorFingerprint'', ''operation'', ''principalFingerprint'', ''idempotencyFingerprint'',
     ''ownerFingerprint'', ''fenceGeneration'', ''expectedHeadRevision'', ''expectedHeadFingerprint'', ''beforeFingerprint'',
     ''candidateFingerprint'', ''priorFingerprint'', ''transactionFingerprint'']"

definition transaction_schema :: "jsval \<Rightarrow> bool" where
  "transaction_schema tx \<longleftrightarrow> exact tx txKeys \<and> js_eq (fld tx ''version'') (JInt 1) \<and>
     js_eq (fld tx ''kind'') (JLit ''workspace-lifecycle-transaction'') \<and> isOpaqueIdentity (fld tx ''txId'') \<and>
     isOpaqueIdentity (fld tx ''hostId'') \<and> isOpaqueIdentity (fld tx ''mappingId'') \<and>
     generation (fld tx ''mappingGeneration'') \<and> generation (fld tx ''mappingVersion'') \<and>
     isOpaqueIdentity (fld tx ''workspaceId'') \<and> generation (fld tx ''workspaceGeneration'') \<and>
     isOpaqueIdentity (fld tx ''sourcePlatform'') \<and> isHex64 (fld tx ''routeFingerprint'') \<and>
     isHex64 (fld tx ''authorityFingerprint'') \<and> generation (fld tx ''inventoryGeneration'') \<and>
     isHex64 (fld tx ''anchorFingerprint'') \<and> str_in (fld tx ''operation'') operations \<and>
     isHex64 (fld tx ''principalFingerprint'') \<and> isHex64 (fld tx ''idempotencyFingerprint'') \<and>
     isHex64 (fld tx ''ownerFingerprint'') \<and> generation (fld tx ''fenceGeneration'') \<and>
     isSafeInteger (fld tx ''expectedHeadRevision'') \<and> 0 \<le> int_of (fld tx ''expectedHeadRevision'') \<and>
     nullableHash (fld tx ''expectedHeadFingerprint'') \<and> nullableHash (fld tx ''beforeFingerprint'') \<and>
     isHex64 (fld tx ''candidateFingerprint'') \<and> nullableHash (fld tx ''priorFingerprint'') \<and>
     isHex64 (fld tx ''transactionFingerprint'')"

definition operation_evidence :: "jsval \<Rightarrow> bool" where
  "operation_evidence tx \<longleftrightarrow>
     (if js_eq (fld tx ''operation'') (JLit ''create'') \<or> js_eq (fld tx ''operation'') (JLit ''clone'')
      then js_eq (fld tx ''beforeFingerprint'') JNull \<and> js_eq (fld tx ''priorFingerprint'') JNull
      else isHex64 (fld tx ''beforeFingerprint'') \<and> isHex64 (fld tx ''priorFingerprint''))"

definition validateWorkspaceLifecycleTransaction :: "(bytes \<Rightarrow> jsstr) \<Rightarrow> jsval \<Rightarrow> js_error + jsval" where
  "validateWorkspaceLifecycleTransaction sha256 tx =
     check (transaction_schema tx) (lifecycle_fail ''transaction schema'') (
     check (operation_evidence tx) (lifecycle_fail ''transaction operation evidence'') (
     sealed sha256 tx ''transactionFingerprint'' (lifecycle_fail ''transaction fingerprint'')))"

definition buildWorkspaceLifecycleTransaction :: "(bytes \<Rightarrow> jsstr) \<Rightarrow> jsval \<Rightarrow> js_error + jsval" where
  "buildWorkspaceLifecycleTransaction sha256 fs =
     (let tx = with_field (with_field fs ''version'' (JInt 1)) ''kind'' (JLit ''workspace-lifecycle-transaction'') in
      seq (fingerprint sha256 tx ''transactionFingerprint'') (\<lambda>h.
        validateWorkspaceLifecycleTransaction sha256 (with_field tx ''transactionFingerprint'' (JStr h))))"

section \<open>Checkpoints\<close>

definition checkpointKeys :: "string list" where
  "checkpointKeys = [''version'', ''kind'', ''txId'', ''transactionFingerprint'', ''phase'',
     ''operationEvidenceFingerprint'', ''checkpointFingerprint'']"

definition checkpoint_schema :: "jsval \<Rightarrow> bool" where
  "checkpoint_schema c \<longleftrightarrow> exact c checkpointKeys \<and> js_eq (fld c ''version'') (JInt 1) \<and>
     js_eq (fld c ''kind'') (JLit ''workspace-lifecycle-checkpoint'') \<and> isOpaqueIdentity (fld c ''txId'') \<and>
     isHex64 (fld c ''transactionFingerprint'') \<and>
     str_in (fld c ''phase'') [''prepared'', ''applied'', ''committed'', ''manual_cleanup''] \<and>
     nullableHash (fld c ''operationEvidenceFingerprint'') \<and> isHex64 (fld c ''checkpointFingerprint'')"

definition validateWorkspaceLifecycleCheckpoint :: "(bytes \<Rightarrow> jsstr) \<Rightarrow> jsval \<Rightarrow> jsval \<Rightarrow> js_error + jsval" where
  "validateWorkspaceLifecycleCheckpoint sha256 c tx =
     check (checkpoint_schema c) (lifecycle_fail ''checkpoint schema'') (
     seq (sealed sha256 c ''checkpointFingerprint'' (lifecycle_fail ''checkpoint fingerprint'')) (\<lambda>_.
     seq (if \<not> truthy tx then Inr tx
          else seq (validateWorkspaceLifecycleTransaction sha256 tx) (\<lambda>_.
            check (js_eq (fld c ''txId'') (fld tx ''txId'') \<and>
                   js_eq (fld c ''transactionFingerprint'') (fld tx ''transactionFingerprint''))
              (lifecycle_fail ''checkpoint transaction relation'') (Inr tx))) (\<lambda>_.
     check (\<not> ((js_eq (fld c ''phase'') (JLit ''applied'') \<or> js_eq (fld c ''phase'') (JLit ''committed'')) \<and>
                \<not> js_eq (fld c ''operationEvidenceFingerprint'') (fld tx ''candidateFingerprint'')))
       (lifecycle_fail ''checkpoint operation evidence'') (
     check (\<not> ((js_eq (fld c ''phase'') (JLit ''prepared'') \<or> js_eq (fld c ''phase'') (JLit ''manual_cleanup'')) \<and>
                \<not> js_eq (fld c ''operationEvidenceFingerprint'') JNull))
       (lifecycle_fail ''checkpoint nullable evidence'') (Inr c)))))"

definition buildWorkspaceLifecycleCheckpoint ::
  "(bytes \<Rightarrow> jsstr) \<Rightarrow> jsval \<Rightarrow> jsval \<Rightarrow> jsval \<Rightarrow> js_error + jsval" where
  "buildWorkspaceLifecycleCheckpoint sha256 tx phase evidence =
     seq (validateWorkspaceLifecycleTransaction sha256 tx) (\<lambda>_.
     let c = record_of [(''version'', JInt 1), (''kind'', JLit ''workspace-lifecycle-checkpoint''), (''txId'', fld tx ''txId''),
       (''transactionFingerprint'', fld tx ''transactionFingerprint''), (''phase'', phase),
       (''operationEvidenceFingerprint'', evidence)] in
     seq (fingerprint sha256 c ''checkpointFingerprint'') (\<lambda>h.
       validateWorkspaceLifecycleCheckpoint sha256 (with_field c ''checkpointFingerprint'' (JStr h)) tx))"

section \<open>Heads\<close>

definition headKeys :: "string list" where
  "headKeys = [''version'', ''kind'', ''revision'', ''currentRecordFingerprint'', ''disposition'', ''headFingerprint'']"

definition validateWorkspaceLifecycleHead :: "(bytes \<Rightarrow> jsstr) \<Rightarrow> jsval \<Rightarrow> js_error + jsval" where
  "validateWorkspaceLifecycleHead sha256 h =
     check (exact h headKeys \<and> js_eq (fld h ''version'') (JInt 1) \<and> js_eq (fld h ''kind'') (JLit ''workspace-lifecycle-head'') \<and>
            isSafeInteger (fld h ''revision'') \<and> 0 \<le> int_of (fld h ''revision'') \<and>
            nullableHash (fld h ''currentRecordFingerprint'') \<and> str_in (fld h ''disposition'') [''no-route'', ''committed''] \<and>
            isHex64 (fld h ''headFingerprint'')) (lifecycle_fail ''head schema'') (
     check (js_eq (fld h ''disposition'') (JLit ''no-route'') = js_eq (fld h ''currentRecordFingerprint'') JNull)
       (lifecycle_fail ''head disposition relation'') (
     sealed sha256 h ''headFingerprint'' (lifecycle_fail ''head fingerprint'')))"

definition buildWorkspaceLifecycleHead :: "(bytes \<Rightarrow> jsstr) \<Rightarrow> jsval \<Rightarrow> jsval \<Rightarrow> jsval \<Rightarrow> js_error + jsval" where
  "buildWorkspaceLifecycleHead sha256 revision currentRecordFingerprint disposition =
     (let h = record_of [(''version'', JInt 1), (''kind'', JLit ''workspace-lifecycle-head''), (''revision'', revision),
        (''currentRecordFingerprint'', currentRecordFingerprint), (''disposition'', disposition)] in
      seq (fingerprint sha256 h ''headFingerprint'') (\<lambda>f.
        validateWorkspaceLifecycleHead sha256 (with_field h ''headFingerprint'' (JStr f))))"

section \<open>Classification of the evidence\<close>

datatype evidence = Ev_manual_cleanup | Ev_no_route | Ev_committed

definition evidence_checks ::
  "(bytes \<Rightarrow> jsstr) \<Rightarrow> jsval \<Rightarrow> jsval \<Rightarrow> jsval \<Rightarrow> jsval \<Rightarrow> jsval \<Rightarrow> js_error + evidence" where
  "evidence_checks sha256 tx c h predecessor authority =
     seq (validateWorkspaceLifecycleTransaction sha256 tx) (\<lambda>_.
     seq (validateWorkspaceLifecycleCheckpoint sha256 c tx) (\<lambda>_.
     seq (validateWorkspaceLifecycleHead sha256 h) (\<lambda>_.
     if \<not> isHex64 authority \<or> \<not> js_eq authority (fld tx ''authorityFingerprint'') then Inr Ev_no_route
     else if int_of (fld h ''revision'') \<noteq> int_of (fld tx ''expectedHeadRevision'') + 1 then Inr Ev_no_route
     else seq (if js_eq (fld tx ''expectedHeadRevision'') (JInt 0)
               then Inr (js_eq (fld tx ''expectedHeadFingerprint'') JNull)
               else seq (validateWorkspaceLifecycleHead sha256 predecessor) (\<lambda>_.
                 Inr (js_eq (fld predecessor ''revision'') (fld tx ''expectedHeadRevision'') \<and>
                      js_eq (fld predecessor ''headFingerprint'') (fld tx ''expectedHeadFingerprint'')))) (\<lambda>chained.
          if \<not> chained then Inr Ev_no_route
          else if \<not> js_eq (fld h ''disposition'') (JLit ''committed'') \<or>
                  \<not> js_eq (fld h ''currentRecordFingerprint'') (fld c ''checkpointFingerprint'') then Inr Ev_no_route
          else Inr (if js_eq (fld c ''phase'') (JLit ''committed'') then Ev_committed else Ev_no_route)))))"

definition classifyWorkspaceLifecycleEvidence ::
  "(bytes \<Rightarrow> jsstr) \<Rightarrow> jsval \<Rightarrow> jsval \<Rightarrow> jsval \<Rightarrow> jsval \<Rightarrow> jsval \<Rightarrow> jsval \<Rightarrow> evidence" where
  "classifyWorkspaceLifecycleEvidence sha256 tx c h predecessor mc authority =
     (if \<not> js_eq mc JNull
      then (if is_ok (validateManualCleanup sha256 mc) then Ev_manual_cleanup else Ev_no_route)
      else if \<not> truthy tx \<or> \<not> truthy c \<or> \<not> truthy h then Ev_no_route
      else case evidence_checks sha256 tx c h predecessor authority of Inr e \<Rightarrow> e | Inl _ \<Rightarrow> Ev_no_route)"

end
