(* ===== verification/Sealed_Records.thy ===== *)
theory Sealed_Records
  imports Managed_Records
begin

text \<open>
  Flat records with an exact set of keys and small fields, as the generation pointer and the tombstone are: their
  canonical bytes exist, stay within the limits of their parsers, and read back as the record with its
  keys in canonical order.
\<close>

section \<open>Sizes\<close>

lemma escape_unit_strict: "\<not> forbidden_control c \<Longrightarrow> length (escape_unit c) \<le> 2"
  by (auto simp: escape_unit_def forbidden_control_def word_le_nat_alt word_less_nat_alt)

lemma length_escape_strict: "strict_text s \<Longrightarrow> length (escape s) \<le> 2 * length s"
proof (induction s rule: escape.induct)
  case (2 c rest)
  show ?case
  proof (cases "is_surrogate c")
    case True
    with 2 show ?thesis by (cases rest) (auto simp: strict_text_def surrogate_iff)
  next
    case False
    with 2 escape_unit_strict [of c] show ?thesis by (simp add: strict_text_def)
  qed
qed simp

lemma length_le_utf8: "length s \<le> byteLength s"
proof (induction s rule: utf8.induct)
  case (3 c d rest)
  then show ?case by (auto simp: utf8_unit_def utf8_pair_def Let_def)
qed (simp_all add: utf8_unit_def Let_def)

lemma length_quote_strict: "strict_text s \<Longrightarrow> length (quote s) \<le> 2 * length s + 2"
  using length_escape_strict [of s] by (simp add: quote_def)

lemma length_render_members:
  "length (render (JObj q fs)) \<le> 2 + (\<Sum>f\<leftarrow>fs. length (quote (fst f)) + 2 + length (render (snd f)))"
proof -
  let ?ms = "map (\<lambda>(k, t). quote k @ [0x3a] @ t) (sort_key (\<lambda>(k, _). utf8 k) (render_members fs))"
  have "(\<Sum>x\<leftarrow>?ms. 1 + length x) = (\<Sum>f\<leftarrow>fs. length (quote (fst f)) + 2 + length (render (snd f)))"
    by (simp add: o_def case_prod_unfold sum_list_sort_key render_members_map add.commute)
  then show ?thesis using length_join [of "0x2c" ?ms] by (simp add: js_punct)
qed

lemma exact_fields:
  assumes "exact v ks" "distinct ks" "distinct_keys v"
  shows "\<exists>fs. v = JObj ObjectProto fs \<and> distinct fs \<and> set fs = (\<lambda>k. (js k, fld v k)) ` set ks"
proof -
  obtain fs where v: "v = JObj ObjectProto fs" using assms(1) by (cases v rule: plain.cases) (auto simp: exact_def)
  have w: "wf_map fs" using assms(3) v by simp
  have k: "fst ` set fs = js ` set ks" using exact_keys [OF assms(1,2)] v by (simp add: own_keys_JObj)
  have f: "map_of fs (js x) = Some (fld v x)" if "x \<in> set ks" for x
  proof -
    have "js x \<in> fst ` set fs" using k that by simp
    then obtain y where "map_of fs (js x) = Some y" by (metis map_of_eq_None_iff not_None_eq)
    then show ?thesis using v by (simp add: get_own_JObj)
  qed
  have "e \<in> set fs \<longleftrightarrow> e \<in> (\<lambda>k. (js k, fld v k)) ` set ks" for e
  proof
    assume e: "e \<in> set fs"
    then obtain x where x: "x \<in> set ks" "fst e = js x" using k by (metis imageE image_eqI)
    then have "map_of fs (fst e) = Some (snd e)" using e w by (metis map_of_is_SomeI prod.collapse)
    with f [OF x(1)] x(2) have "e = (js x, fld v x)" by (simp add: prod_eq_iff)
    with x(1) show "e \<in> (\<lambda>k. (js k, fld v k)) ` set ks" by blast
  next
    assume "e \<in> (\<lambda>k. (js k, fld v k)) ` set ks"
    then show "e \<in> set fs" using f by (auto dest: map_of_SomeD)
  qed
  then show ?thesis using v w by (intro exI [of _ fs]) (auto simp: distinct_map)
qed

lemma length_show_nat: "n < 10 ^ k \<Longrightarrow> 0 < k \<Longrightarrow> length (show_nat n) \<le> k"
proof (induction k arbitrary: n)
  case (Suc k)
  show ?case
  proof (cases "n < 10")
    case True
    then show ?thesis by (simp add: show_nat.simps)
  next
    case False
    then have "k \<noteq> 0" using Suc.prems by (cases k) auto
    moreover have "n div 10 < 10 ^ k" using Suc.prems by (simp add: less_mult_imp_div_less mult.commute)
    ultimately have "length (show_nat (n div 10)) \<le> k" using Suc.IH by simp
    then show ?thesis by (subst show_nat.simps) simp
  qed
qed simp

lemma length_render_hex: "isHex64 v \<Longrightarrow> length (render v) \<le> 130"
  using length_quote_strict hex64_strict by (cases v) fastforce+

definition small_leaf :: "nat \<Rightarrow> jsval \<Rightarrow> bool" where
  "small_leaf n v \<longleftrightarrow> \<not> isArray v \<and> \<not> isObject v \<and> nodes v = 1 \<and> length (render v) \<le> n"

lemma small_leaf_string: "admits D d (JStr s) \<Longrightarrow> 2 * length s + 2 \<le> n \<Longrightarrow> small_leaf n (JStr s)"
  using length_quote_strict [of s] by (simp add: small_leaf_def)

lemma small_leaf_hex: "isHex64 v \<Longrightarrow> small_leaf 130 v"
  using length_render_hex [of v] by (cases v) (auto simp: small_leaf_def)

lemma small_leaf_null: "small_leaf 130 JNull"
  by (simp add: small_leaf_def)

section \<open>Flat records\<close>

definition RECORD_LIMITS :: limits where
  "RECORD_LIMITS = \<lparr>maxBytes = 64 * 1024, maxDepth = 8, maxNodes = 256\<rparr>"

text \<open>What a record type provides: its keys, its validator, and a bound for the text of every field, which the
  validator guarantees and which together fit the limit.\<close>

locale flat_record =
  fixes keys :: "string list"
    and valid :: "jsval \<Rightarrow> bool"
    and bound :: "string \<Rightarrow> nat"
  assumes keys_distinct: "distinct keys"
    and keys_strict: "list_all (\<lambda>k. strict_text (js k)) keys"
    and keys_few: "length keys < 256"
    and keys_fit: "(\<Sum>k\<in>set keys. length (quote (js k)) + 2 + bound k) \<le> 21840"
    and valid_exact: "valid p \<Longrightarrow> exact p keys"
    and valid_small: "valid p \<Longrightarrow> k \<in> set keys \<Longrightarrow> small_leaf (bound k) (fld p k)"
    and valid_admits: "valid p \<Longrightarrow> k \<in> set keys \<Longrightarrow> admits 8 1 (fld p k)"
    and valid_cong: "exact q keys \<Longrightarrow> exact p keys \<Longrightarrow> (\<And>k. k \<in> set keys \<Longrightarrow> fld q k = fld p k) \<Longrightarrow> valid q = valid p"
begin

lemma record_fields:
  assumes "valid p" "distinct_keys p"
  shows "\<exists>fs. p = JObj ObjectProto fs \<and> distinct fs \<and> set fs = (\<lambda>k. (js k, fld p k)) ` set keys"
  using exact_fields [OF valid_exact [OF assms(1)] keys_distinct assms(2)] .

lemma record_size:
  assumes "valid p" "distinct_keys p"
  shows "byteLength (render p) \<le> 65536"
proof -
  obtain fs where p: "p = JObj ObjectProto fs" "distinct fs" "set fs = (\<lambda>k. (js k, fld p k)) ` set keys"
    using record_fields [OF assms] by blast
  have "(\<Sum>f\<leftarrow>fs. length (quote (fst f)) + 2 + length (render (snd f))) =
      (\<Sum>f\<in>(\<lambda>k. (js k, fld p k)) ` set keys. length (quote (fst f)) + 2 + length (render (snd f)))"
    using p(2,3) by (simp add: sum_list_distinct_conv_sum_set)
  also have "\<dots> = (\<Sum>k\<in>set keys. length (quote (js k)) + 2 + length (render (fld p k)))"
    by (subst sum.reindex) (auto simp: inj_on_def)
  also have "\<dots> \<le> (\<Sum>k\<in>set keys. length (quote (js k)) + 2 + bound k)"
    by (rule sum_mono) (use valid_small [OF assms(1)] in \<open>simp add: small_leaf_def\<close>)
  finally have "length (render p) \<le> 21842" using length_render_members [of ObjectProto fs] p(1) keys_fit by simp
  then show ?thesis using length_utf8 [of "render p"] by simp
qed

lemma record_bytes:
  assumes "valid p" "distinct_keys p"
  shows "canonicalJsonBytes RECORD_LIMITS p = Inr (utf8 (render p))"
proof -
  obtain fs where p: "p = JObj ObjectProto fs" "distinct fs" "set fs = (\<lambda>k. (js k, fld p k)) ` set keys"
    using record_fields [OF assms] by blast
  have "(\<Sum>f\<leftarrow>fs. nodes (snd f)) = (\<Sum>f\<leftarrow>fs. 1)"
    using p(3) valid_small [OF assms(1)]
    by (intro arg_cong [where f = sum_list] map_cong refl) (auto simp: small_leaf_def)
  moreover have "length fs = length keys"
    using p(2,3) keys_distinct by (metis (mono_tags, lifting) card_image distinct_card inj_onI js_inject prod.inject)
  ultimately have "nodes p \<le> 256" using p(1) keys_few by (simp add: sum_list_triv)
  moreover have "admits 8 0 p"
    by (subst p(1)) (use p(3) valid_admits [OF assms(1)] keys_strict in \<open>auto simp: image_iff list_all_iff\<close>)
  ultimately show ?thesis
    by (simp add: canonicalJsonBytes_Inr canonicalJson_Inr RECORD_LIMITS_def)
qed

lemma record_canon:
  assumes "valid p" "distinct_keys p"
  shows "valid (canon p)" "k \<in> set keys \<Longrightarrow> fld (canon p) k = fld p k"
proof -
  have f: "fld (canon p) k = fld p k" if "k \<in> set keys" for k
    using valid_small [OF assms(1) that] assms(2) by (simp add: get_own_canon canon_leaf small_leaf_def)
  show "k \<in> set keys \<Longrightarrow> fld (canon p) k = fld p k" by (rule f)
  show "valid (canon p)" using valid_cong [of "canon p" p] f valid_exact [OF assms(1)] assms(1) by simp
qed

lemma record_parsed:
  assumes "valid p" "distinct_keys p"
  shows "parseCanonicalJsonBytes RECORD_LIMITS (utf8 (render p)) = Some (Inr (canon p))"
  using assms canonicalJsonBytes_canon [OF record_bytes [OF assms]] record_size [OF assms]
  by (simp add: parse_canonical_iff RECORD_LIMITS_def)

end

end
