(* ===== verification/Generation_Publisher.thy ===== *)
theory Generation_Publisher
  imports Lifecycle_Records Sealed_Records
begin

text \<open>
  The atomic generation publisher of \<^verbatim>\<open>daemon/src/workspace-generation-publisher.js\<close>: the pointer record
  that names the live generation, its canonical storage format, and the ordered publication
  protocol over an injected io.  A refusal keeps its code and its reason without the values the
  reason prints.
\<close>

section \<open>The pointer record\<close>

definition GENERATION_POINTER_LIMITS :: limits where
  "GENERATION_POINTER_LIMITS = \<lparr>maxBytes = 64 * 1024, maxDepth = 8, maxNodes = 256\<rparr>"

definition MAX_PATH_BYTES :: nat where
  "MAX_PATH_BYTES = 4096"

definition gen_refuse :: "string \<Rightarrow> string \<Rightarrow> js_error" where
  "gen_refuse k reason = CodedError k (js ''workspace_generation_publish: '' @ js k @ js '': '' @ js reason)"

definition gen_invalid :: "string \<Rightarrow> js_error" where
  "gen_invalid = gen_refuse ''WORKSPACE_GENERATION_INVALID''"

definition path_rejected :: "string \<Rightarrow> js_error" where
  "path_rejected = gen_refuse ''WORKSPACE_GENERATION_PATH_REJECTED''"

text \<open>The loop over the path's code units is that of \<open>assertStrictText\<close>, with the same reasons.\<close>

fun path_scan_error :: "js_error \<Rightarrow> js_error" where
  "path_scan_error (SyntaxError reason) = CodedError ''WORKSPACE_GENERATION_PATH_REJECTED''
     (js ''workspace_generation_publish: WORKSPACE_GENERATION_PATH_REJECTED: '' @ reason)"
| "path_scan_error e = e"

definition POINTER_KEYS :: "string list" where
  "POINTER_KEYS = [''version'', ''kind'', ''hostId'', ''workspaceId'', ''sourcePlatform'', ''activeGeneration'', ''generationPath'',
     ''rootIdentityFingerprint'', ''storageIdentityFingerprint'', ''gitGenerationFingerprint'', ''manifestFingerprint'',
     ''priorGeneration'', ''priorPointerFingerprint'', ''pointerFingerprint'']"

definition isId :: "jsval \<Rightarrow> bool" where
  "isId v \<longleftrightarrow> typeof_string v \<and> 0 < length (str_of v) \<and> length (str_of v) \<le> 256"

definition isGeneration :: "jsval \<Rightarrow> bool" where
  "isGeneration v \<longleftrightarrow> isSafeInteger v \<and> 1 \<le> int_of v"

definition lower_unit :: "16 word \<Rightarrow> 16 word" where
  "lower_unit c = (if 0x41 \<le> c \<and> c \<le> 0x5a then c + 0x20 else c)"

text \<open>\<open>WINDOWS_RESERVED\<close>: a device name, in any case, alone or with an extension.\<close>

definition windows_reserved :: "jsstr \<Rightarrow> bool" where
  "windows_reserved s \<longleftrightarrow>
     (let b = map lower_unit (takeWhile (\<lambda>c. c \<noteq> 0x2e) s) in
      b \<in> {js ''con'', js ''prn'', js ''aux'', js ''nul''} \<or>
      length b = 4 \<and> take 3 b \<in> {js ''com'', js ''lpt''} \<and> 0x31 \<le> last b \<and> last b \<le> 0x39)"

definition check_segment :: "jsstr \<Rightarrow> js_error option" where
  "check_segment g =
     (if g = [] then Some (path_rejected ''generationPath has an empty segment'')
      else if dots g then Some (path_rejected ''generationPath has a dot segment'')
      else if 0x3a \<in> set g then Some (path_rejected ''generationPath segment contains NTFS ADS alias'')
      else if last g = 0x20 \<or> last g = 0x2e then Some (path_rejected ''generationPath segment has a trailing dot or space'')
      else if windows_reserved g then Some (path_rejected ''generationPath segment is a Windows reserved name'')
      else None)"

fun check_segments :: "jsstr list \<Rightarrow> js_error + unit" where
  "check_segments [] = Inr ()"
| "check_segments (g # gs) = (case check_segment g of Some e \<Rightarrow> Inl e | None \<Rightarrow> check_segments gs)"

definition assertGenerationPath :: "jsval \<Rightarrow> js_error + unit" where
  "assertGenerationPath v =
     check (typeof_string v \<and> str_of v \<noteq> []) (path_rejected ''generationPath must be a non-empty string'') (
     let p = str_of v in
     check (0 \<notin> set p) (path_rejected ''generationPath contains a NUL byte'') (
     check (byteLength p \<le> MAX_PATH_BYTES) (path_rejected ''generationPath exceeds its byte limit'') (
     case scan_text forbidden_control (js ''generationPath'') p of Some e \<Rightarrow> Inl (path_scan_error e) | None \<Rightarrow>
     check (0x5c \<notin> set p) (path_rejected ''generationPath must use forward separators'') (
     check (hd p \<noteq> 0x2f) (path_rejected ''generationPath must be relative'') (
     check (\<not> (is_alpha (hd p) \<and> take 1 (tl p) = [0x3a])) (path_rejected ''generationPath must not carry a drive prefix'') (
     check_segments (split_on 0x2f p)))))))"

definition pointer_body :: "jsval \<Rightarrow> jsval" where
  "pointer_body p = record_of (map (\<lambda>k. (k, fld p k)) (butlast POINTER_KEYS))"

definition pointerFingerprintOf :: "(bytes \<Rightarrow> jsstr) \<Rightarrow> jsval \<Rightarrow> js_error + jsstr" where
  "pointerFingerprintOf sha256 p =
     (case canonicalJsonHash sha256 GENERATION_POINTER_LIMITS (pointer_body p) of
        Inr h \<Rightarrow> Inr h
      | Inl _ \<Rightarrow> Inl (gen_invalid ''pointer body is not canonicalizable''))"

definition prior_ok :: "jsval \<Rightarrow> js_error + unit" where
  "prior_ok p =
     (if js_eq (fld p ''priorGeneration'') JNull
      then check (js_eq (fld p ''priorPointerFingerprint'') JNull)
             (gen_invalid ''first publication must have a null priorPointerFingerprint'') (
           check (js_eq (fld p ''activeGeneration'') (JInt 1))
             (gen_invalid ''first publication must have activeGeneration === 1'') (Inr ()))
      else check (\<not> js_eq (fld p ''priorPointerFingerprint'') JNull)
             (gen_invalid ''a successor publication must carry a priorPointerFingerprint'') (
           check (int_of (fld p ''activeGeneration'') = int_of (fld p ''priorGeneration'') + 1)
             (gen_invalid ''activeGeneration must be priorGeneration + 1'') (Inr ())))"

definition validateGenerationPointer :: "(bytes \<Rightarrow> jsstr) \<Rightarrow> jsval \<Rightarrow> js_error + jsval" where
  "validateGenerationPointer sha256 p =
     check (exact p POINTER_KEYS) (gen_invalid ''pointer must have the exact pointer key set'') (
     check (js_eq (fld p ''version'') (JInt 1)) (gen_invalid ''unsupported pointer version'') (
     check (js_eq (fld p ''kind'') (JLit ''workspace-generation-pointer'')) (gen_invalid ''unexpected pointer kind'') (
     check (isId (fld p ''hostId'')) (gen_invalid ''hostId must be a 1..256 char string'') (
     check (isId (fld p ''workspaceId'')) (gen_invalid ''workspaceId must be a 1..256 char string'') (
     check (str_in (fld p ''sourcePlatform'') [''posix'', ''windows-drive'', ''windows-unc'']) (gen_invalid ''unknown sourcePlatform'') (
     check (isGeneration (fld p ''activeGeneration'')) (gen_invalid ''activeGeneration must be a safe integer >= 1'') (
     seq (assertGenerationPath (fld p ''generationPath'')) (\<lambda>_.
     check (isHex64 (fld p ''rootIdentityFingerprint'')) (gen_invalid ''rootIdentityFingerprint must be hex64'') (
     check (isHex64 (fld p ''storageIdentityFingerprint'')) (gen_invalid ''storageIdentityFingerprint must be hex64'') (
     check (isHex64 (fld p ''gitGenerationFingerprint'')) (gen_invalid ''gitGenerationFingerprint must be hex64'') (
     check (isHex64 (fld p ''manifestFingerprint'')) (gen_invalid ''manifestFingerprint must be hex64'') (
     check (js_eq (fld p ''priorGeneration'') JNull \<or> isGeneration (fld p ''priorGeneration''))
       (gen_invalid ''priorGeneration must be null or a safe integer >= 1'') (
     check (nullableHash (fld p ''priorPointerFingerprint'')) (gen_invalid ''priorPointerFingerprint must be null or hex64'') (
     seq (prior_ok p) (\<lambda>_.
     check (isHex64 (fld p ''pointerFingerprint'')) (gen_invalid ''pointerFingerprint must be hex64'') (
     seq (pointerFingerprintOf sha256 p) (\<lambda>h.
     check (js_eq (JStr h) (fld p ''pointerFingerprint'')) (gen_invalid ''pointerFingerprint does not match the pointer body'')
       (Inr p))))))))))))))))))"

definition null_default :: "jsval \<Rightarrow> jsval" where
  "null_default v = (if v = JUndefined then JNull else v)"

definition buildGenerationPointer :: "(bytes \<Rightarrow> jsstr) \<Rightarrow> jsval \<Rightarrow> js_error + jsval" where
  "buildGenerationPointer sha256 input =
     check (plain input) (gen_invalid ''pointer input must be an object'') (
     seq (assertGenerationPath (fld input ''generationPath'')) (\<lambda>_.
     let r = record_of [(''version'', JInt 1), (''kind'', JLit ''workspace-generation-pointer''), (''hostId'', fld input ''hostId''),
       (''workspaceId'', fld input ''workspaceId''), (''sourcePlatform'', fld input ''sourcePlatform''),
       (''activeGeneration'', fld input ''activeGeneration''), (''generationPath'', fld input ''generationPath''),
       (''rootIdentityFingerprint'', fld input ''rootIdentityFingerprint''),
       (''storageIdentityFingerprint'', fld input ''storageIdentityFingerprint''),
       (''gitGenerationFingerprint'', fld input ''gitGenerationFingerprint''),
       (''manifestFingerprint'', fld input ''manifestFingerprint''),
       (''priorGeneration'', null_default (fld input ''priorGeneration'')),
       (''priorPointerFingerprint'', null_default (fld input ''priorPointerFingerprint'')), (''pointerFingerprint'', JNull)] in
     seq (pointerFingerprintOf sha256 r) (\<lambda>h.
       validateGenerationPointer sha256 (with_field r ''pointerFingerprint'' (JStr h)))))"

definition generationPointerBytes :: "(bytes \<Rightarrow> jsstr) \<Rightarrow> jsval \<Rightarrow> js_error + bytes" where
  "generationPointerBytes sha256 p = seq (validateGenerationPointer sha256 p) (\<lambda>_.
     case canonicalJsonBytes GENERATION_POINTER_LIMITS p of
       Inr b \<Rightarrow> Inr b
     | Inl _ \<Rightarrow> Inl (gen_invalid ''pointer is not serializable''))"

definition parseGenerationPointer :: "(bytes \<Rightarrow> jsstr) \<Rightarrow> bytes \<Rightarrow> js_error + jsval" where
  "parseGenerationPointer sha256 b =
     (case parseCanonicalJsonBytes GENERATION_POINTER_LIMITS b of
        Some (Inr v) \<Rightarrow> validateGenerationPointer sha256 v
      | _ \<Rightarrow> Inl (gen_invalid ''pointer bytes are not canonical JSON''))"

section \<open>Publication over an injected io\<close>

text \<open>An io operation threads the world and may throw: \<open>Own\<close> is an error of this module, which passes
  through, \<open>Foreign\<close> any other with its code.\<close>

datatype io_error = Own js_error | Foreign string

type_synonym ('a, 'w) io = "'w \<Rightarrow> (io_error + 'a) \<times> 'w"

record ('t, 'w) pointer_io =
  readLivePointer :: "(bytes option, 'w) io"
  writeTemp :: "bytes \<Rightarrow> ('t, 'w) io"
  flushTemp :: "'t \<Rightarrow> (unit, 'w) io"
  replace :: "'t \<Rightarrow> (unit, 'w) io"
  flushParent :: "(unit, 'w) io"

definition step_failed :: "string \<Rightarrow> js_error" where
  "step_failed step = gen_refuse ''WORKSPACE_GENERATION_IO_FAILED'' (''native publication step '' @ [CHR 0x27] @ step @ [CHR 0x27] @ '' failed'')"

definition runStep :: "(string \<Rightarrow> js_error) \<Rightarrow> string \<Rightarrow> ('a, 'w) io \<Rightarrow> 'w \<Rightarrow> (js_error + 'a) \<times> 'w" where
  "runStep failed step f w = (case f w of
     (Inr x, w') \<Rightarrow> (Inr x, w')
   | (Inl (Own e), w') \<Rightarrow> (Inl e, w')
   | (Inl (Foreign k), w') \<Rightarrow> (Inl (failed step), w'))"

definition and_then :: "(js_error + 'a) \<times> 'w \<Rightarrow> ('a \<Rightarrow> 'w \<Rightarrow> (js_error + 'b) \<times> 'w) \<Rightarrow> (js_error + 'b) \<times> 'w" where
  "and_then r f = (case r of (Inl e, w) \<Rightarrow> (Inl e, w) | (Inr x, w) \<Rightarrow> f x w)"

definition readLiveGeneration ::
  "(bytes \<Rightarrow> jsstr) \<Rightarrow> ('t, 'w) pointer_io \<Rightarrow> 'w \<Rightarrow> (js_error + jsval option) \<times> 'w" where
  "readLiveGeneration sha256 io w = (case readLivePointer io w of
     (Inl (Own e), w') \<Rightarrow> (Inl e, w')
   | (Inl (Foreign k), w') \<Rightarrow> (Inl (gen_refuse ''WORKSPACE_GENERATION_IO_FAILED'' ''unable to read the live pointer''), w')
   | (Inr None, w') \<Rightarrow> (Inr None, w')
   | (Inr (Some b), w') \<Rightarrow> (map_sum id Some (parseGenerationPointer sha256 b), w'))"

definition cas_conflict :: "string \<Rightarrow> js_error" where
  "cas_conflict = gen_refuse ''WORKSPACE_GENERATION_CAS_CONFLICT''"

definition assertSuccession :: "jsval \<Rightarrow> jsval \<Rightarrow> js_error + unit" where
  "assertSuccession new current =
     check (js_eq (fld new ''hostId'') (fld current ''hostId'') \<and> js_eq (fld new ''workspaceId'') (fld current ''workspaceId''))
       (cas_conflict ''pointer host/workspace does not match the live pointer'') (
     check (js_eq (fld new ''priorGeneration'') (fld current ''activeGeneration''))
       (cas_conflict ''priorGeneration does not match the live activeGeneration'') (
     check (js_eq (fld new ''priorPointerFingerprint'') (fld current ''pointerFingerprint''))
       (cas_conflict ''priorPointerFingerprint does not match the live pointer fingerprint'') (Inr ())))"

definition cas_check :: "jsval \<Rightarrow> jsval option \<Rightarrow> js_error + unit" where
  "cas_check new current =
     (if js_eq (fld new ''priorGeneration'') JNull
      then check (current = None) (cas_conflict ''first publication attempted but a pointer is already live'') (Inr ())
      else (case current of
              None \<Rightarrow> Inl (cas_conflict ''successor publication attempted but no pointer is live'')
            | Some c \<Rightarrow> assertSuccession new c))"

record published =
  pub_activeGeneration :: jsval
  pub_priorGeneration :: jsval
  pub_pointerFingerprint :: jsval
  pub_priorPointerFingerprint :: jsval

text \<open>The four steps of a publication, each with the error that its module makes of a failure.\<close>

definition run_steps :: "(string \<Rightarrow> js_error) \<Rightarrow> ('t, 'w) pointer_io \<Rightarrow> bytes \<Rightarrow> 'w \<Rightarrow> (js_error + unit) \<times> 'w" where
  "run_steps failed io b w =
     and_then (runStep failed ''writeTemp'' (writeTemp io b) w) (\<lambda>t w1.
     and_then (runStep failed ''flushTemp'' (flushTemp io t) w1) (\<lambda>_ w2.
     and_then (runStep failed ''replace'' (replace io t) w2) (\<lambda>_ w3.
       runStep failed ''flushParent'' (flushParent io) w3)))"

definition publishGeneration ::
  "(bytes \<Rightarrow> jsstr) \<Rightarrow> ('t, 'w) pointer_io \<Rightarrow> jsval \<Rightarrow> 'w \<Rightarrow> (js_error + published) \<times> 'w" where
  "publishGeneration sha256 io new w =
     (case validateGenerationPointer sha256 new of
        Inl e \<Rightarrow> (Inl e, w)
      | Inr _ \<Rightarrow>
          and_then (readLiveGeneration sha256 io w) (\<lambda>current w1.
            case cas_check new current of
              Inl e \<Rightarrow> (Inl e, w1)
            | Inr _ \<Rightarrow>
                (case generationPointerBytes sha256 new of
                   Inl e \<Rightarrow> (Inl e, w1)
                 | Inr b \<Rightarrow> and_then (run_steps step_failed io b w1) (\<lambda>_ w2.
                     (Inr \<lparr>pub_activeGeneration = fld new ''activeGeneration'', pub_priorGeneration = fld new ''priorGeneration'',
                           pub_pointerFingerprint = fld new ''pointerFingerprint'',
                           pub_priorPointerFingerprint = fld new ''priorPointerFingerprint''\<rparr>, w2)))))"

section \<open>A valid pointer fits its size limit\<close>

lemma pointer_limits: "GENERATION_POINTER_LIMITS = RECORD_LIMITS"
  by (simp add: GENERATION_POINTER_LIMITS_def RECORD_LIMITS_def)

lemma length_render_generation: "isGeneration v \<Longrightarrow> length (render v) \<le> 16"
proof -
  assume "isGeneration v"
  then obtain n where "v = JInt n" "1 \<le> n" "n \<le> MAX_SAFE_INTEGER"
    by (auto simp: isGeneration_def isSafeInteger_iff)
  then show ?thesis using length_show_nat [of "nat n" 16] by (simp add: show_int_def MAX_SAFE_INTEGER_def nat_less_iff)
qed

lemma pointer_Inr: "validateGenerationPointer sha256 p = Inr x \<longleftrightarrow> is_ok (validateGenerationPointer sha256 p) \<and> x = p"
  by (auto simp: validateGenerationPointer_def seq_eq_Inr is_ok_iff)

lemma pointer_accepted:
  assumes "is_ok (validateGenerationPointer sha256 p)"
  shows "exact p POINTER_KEYS" "fld p ''version'' = JInt 1" "fld p ''kind'' = JLit ''workspace-generation-pointer''"
    "isId (fld p ''hostId'')" "isId (fld p ''workspaceId'')"
    "str_in (fld p ''sourcePlatform'') [''posix'', ''windows-drive'', ''windows-unc'']"
    "isGeneration (fld p ''activeGeneration'')" "is_ok (assertGenerationPath (fld p ''generationPath''))"
    "isHex64 (fld p ''rootIdentityFingerprint'')" "isHex64 (fld p ''storageIdentityFingerprint'')"
    "isHex64 (fld p ''gitGenerationFingerprint'')" "isHex64 (fld p ''manifestFingerprint'')"
    "fld p ''priorGeneration'' = JNull \<or> isGeneration (fld p ''priorGeneration'')"
    "nullableHash (fld p ''priorPointerFingerprint'')" "is_ok (prior_ok p)" "isHex64 (fld p ''pointerFingerprint'')"
    "pointerFingerprintOf sha256 p = Inr (str_of (fld p ''pointerFingerprint''))"
  using assms
  by (simp_all add: validateGenerationPointer_def is_ok_iff seq_eq_Inr) (metis js_eq_imp_eq str_of.simps(1))

lemma pointer_body_admits:
  assumes "pointerFingerprintOf sha256 p = Inr h" "k \<in> set (butlast POINTER_KEYS)"
  shows "admits 8 1 (fld p k)"
proof -
  have "\<exists>b. canonicalJsonBytes GENERATION_POINTER_LIMITS (pointer_body p) = Inr b"
    using assms(1) by (cases "canonicalJsonBytes GENERATION_POINTER_LIMITS (pointer_body p)")
      (auto simp: pointerFingerprintOf_def canonicalJsonHash_def)
  then have "admits 8 0 (pointer_body p)"
    by (auto simp: canonicalJsonBytes_Inr canonicalJson_Inr GENERATION_POINTER_LIMITS_def)
  then show ?thesis using assms(2) by (auto simp: pointer_body_def)
qed

definition field_bound :: "string \<Rightarrow> nat" where
  "field_bound k = (if k = ''generationPath'' then 8194 else if k = ''hostId'' \<or> k = ''workspaceId'' then 514 else 130)"

lemma small_leaf_generation: "isGeneration v \<Longrightarrow> small_leaf 130 v"
  using length_render_generation [of v]
  by (cases v) (auto simp: small_leaf_def isGeneration_def)

lemma pointer_small_fields:
  assumes "is_ok (validateGenerationPointer sha256 p)" and k: "k \<in> set POINTER_KEYS"
  shows "small_leaf (field_bound k) (fld p k)"
proof -
  note a = pointer_accepted [OF assms(1)]
  note adm = pointer_body_admits [OF a(17)]
  have str: "small_leaf n (fld p j)" if "typeof_string (fld p j)" "j \<in> set (butlast POINTER_KEYS)"
    "2 * length (str_of (fld p j)) + 2 \<le> n" for j n
    using that adm [of j] small_leaf_string by (cases "fld p j") auto
  have "length (str_of (fld p ''generationPath'')) \<le> 4096" "typeof_string (fld p ''generationPath'')"
    using a(8) by (auto simp: assertGenerationPath_def Let_def MAX_PATH_BYTES_def intro: order_trans [OF length_le_utf8])
  then have "small_leaf 8194 (fld p ''generationPath'')" by (intro str) (auto simp: POINTER_KEYS_def)
  moreover have "small_leaf 514 (fld p ''hostId'')" "small_leaf 514 (fld p ''workspaceId'')"
    using a(4,5) by (auto simp: isId_def POINTER_KEYS_def intro!: str)
  moreover have "small_leaf 130 (fld p ''kind'')" by (rule str) (simp_all add: a(3) POINTER_KEYS_def)
  moreover have "small_leaf 130 (fld p ''sourcePlatform'')"
    by (rule str) (use a(6) in \<open>auto simp: str_in_iff POINTER_KEYS_def\<close>)
  moreover have "small_leaf 130 (fld p ''version'')"
    using a(2) by (simp add: small_leaf_def show_int_def show_nat.simps)
  moreover have "small_leaf 130 (fld p ''priorGeneration'')"
    using a(13) by (elim disjE) (simp_all add: small_leaf_null small_leaf_generation)
  moreover have "small_leaf 130 (fld p ''priorPointerFingerprint'')"
    using a(14) unfolding nullableHash_def js_eq_null by (elim disjE) (simp_all add: small_leaf_null small_leaf_hex)
  moreover note a(7) [THEN small_leaf_generation] a(9,10,11,12,16) [THEN small_leaf_hex]
  ultimately have "\<forall>k \<in> set POINTER_KEYS. small_leaf (field_bound k) (fld p k)"
    by (simp add: POINTER_KEYS_def field_bound_def)
  with k show ?thesis by blast
qed

lemma pointer_cong:
  assumes "exact q POINTER_KEYS" "exact p POINTER_KEYS" and same: "\<And>k. k \<in> set POINTER_KEYS \<Longrightarrow> fld q k = fld p k"
  shows "is_ok (validateGenerationPointer sha256 q) = is_ok (validateGenerationPointer sha256 p)"
proof -
  have f: "fld q ''version'' = fld p ''version''" "fld q ''kind'' = fld p ''kind''" "fld q ''hostId'' = fld p ''hostId''"
    "fld q ''workspaceId'' = fld p ''workspaceId''" "fld q ''sourcePlatform'' = fld p ''sourcePlatform''"
    "fld q ''activeGeneration'' = fld p ''activeGeneration''" "fld q ''generationPath'' = fld p ''generationPath''"
    "fld q ''rootIdentityFingerprint'' = fld p ''rootIdentityFingerprint''"
    "fld q ''storageIdentityFingerprint'' = fld p ''storageIdentityFingerprint''"
    "fld q ''gitGenerationFingerprint'' = fld p ''gitGenerationFingerprint''"
    "fld q ''manifestFingerprint'' = fld p ''manifestFingerprint''" "fld q ''priorGeneration'' = fld p ''priorGeneration''"
    "fld q ''priorPointerFingerprint'' = fld p ''priorPointerFingerprint''"
    "fld q ''pointerFingerprint'' = fld p ''pointerFingerprint''"
    by (rule same, simp add: POINTER_KEYS_def)+
  have "pointer_body q = pointer_body p" by (simp add: pointer_body_def POINTER_KEYS_def f)
  then have "pointerFingerprintOf sha256 q = pointerFingerprintOf sha256 p" "prior_ok q = prior_ok p"
    by (simp_all add: pointerFingerprintOf_def prior_ok_def f)
  then show ?thesis
    using assms(1,2) by (simp add: validateGenerationPointer_def f is_ok_iff seq_eq_Inr)
qed

lemma pointer_admits:
  assumes "is_ok (validateGenerationPointer sha256 p)" "k \<in> set POINTER_KEYS"
  shows "admits 8 1 (fld p k)"
proof (cases "k = ''pointerFingerprint''")
  case True
  then show ?thesis using pointer_accepted(16) [OF assms(1)] hex64_strict isHex64_string by fastforce
next
  case False
  then have "k \<in> set (butlast POINTER_KEYS)" using assms(2) by (auto simp: POINTER_KEYS_def)
  then show ?thesis by (rule pointer_body_admits [OF pointer_accepted(17) [OF assms(1)]])
qed

interpretation pointers: flat_record POINTER_KEYS "\<lambda>p. is_ok (validateGenerationPointer sha256 p)" field_bound for sha256
proof
  show "distinct POINTER_KEYS" "length POINTER_KEYS < 256" by (simp_all add: POINTER_KEYS_def)
  show "list_all (\<lambda>k. strict_text (js k)) POINTER_KEYS"
    by (simp add: POINTER_KEYS_def strict_text_def js_def forbidden_control_def surrogate_unat)
  have "list_all (\<lambda>k. length (quote (js k)) \<le> 28) POINTER_KEYS" by code_simp
  then have "(\<Sum>k\<in>set POINTER_KEYS. length (quote (js k)) + 2 + field_bound k) \<le> (\<Sum>k\<in>set POINTER_KEYS. 30 + field_bound k)"
    by (intro sum_mono) (auto simp: list_all_iff)
  also have "\<dots> = 11072" by (simp add: POINTER_KEYS_def field_bound_def)
  finally show "(\<Sum>k\<in>set POINTER_KEYS. length (quote (js k)) + 2 + field_bound k) \<le> 21840" by simp
  fix p q k
  show "exact p POINTER_KEYS" if "is_ok (validateGenerationPointer sha256 p)"
    by (rule pointer_accepted(1) [OF that])
  show "small_leaf (field_bound k) (fld p k)" if "is_ok (validateGenerationPointer sha256 p)" "k \<in> set POINTER_KEYS"
    by (rule pointer_small_fields [OF that])
  show "admits 8 1 (fld p k)" if "is_ok (validateGenerationPointer sha256 p)" "k \<in> set POINTER_KEYS"
    by (rule pointer_admits [OF that])
  show "is_ok (validateGenerationPointer sha256 q) = is_ok (validateGenerationPointer sha256 p)"
    if "exact q POINTER_KEYS" "exact p POINTER_KEYS" "\<And>k. k \<in> set POINTER_KEYS \<Longrightarrow> fld q k = fld p k"
    by (rule pointer_cong [OF that])
qed

lemmas pointer_canon = pointers.record_canon

lemma pointer_stored:
  assumes "is_ok (validateGenerationPointer sha256 p)" "distinct_keys p"
  shows "generationPointerBytes sha256 p = Inr (utf8 (render p))"
    "parseGenerationPointer sha256 (utf8 (render p)) = Inr (canon p)"
proof -
  have "validateGenerationPointer sha256 p = Inr p" using assms(1) by (subst pointer_Inr) simp
  then show "generationPointerBytes sha256 p = Inr (utf8 (render p))"
    using pointers.record_bytes [OF assms] by (simp add: generationPointerBytes_def pointer_limits)
  have "validateGenerationPointer sha256 (canon p) = Inr (canon p)"
    using pointer_canon(1) [OF assms] by (subst pointer_Inr) simp
  then show "parseGenerationPointer sha256 (utf8 (render p)) = Inr (canon p)"
    using pointers.record_parsed [OF assms] by (simp add: parseGenerationPointer_def pointer_limits)
qed

lemma parsed_pointer:
  assumes "parseGenerationPointer sha256 b = Inr v"
  shows "is_ok (validateGenerationPointer sha256 v)" "distinct_keys v" "canon v = v" "b = utf8 (render v)"
proof -
  have v: "parseCanonicalJsonBytes GENERATION_POINTER_LIMITS b = Some (Inr v)" "is_ok (validateGenerationPointer sha256 v)"
    using assms by (auto simp: parseGenerationPointer_def pointer_Inr split: option.splits sum.splits)
  then show "is_ok (validateGenerationPointer sha256 v)" "distinct_keys v" "canon v = v" by (auto simp: parse_canonical_iff)
  with v show "b = utf8 (render v)" using pointers.record_bytes by (auto simp: parse_canonical_iff pointer_limits)
qed

text \<open>A valid generation pointer of any content can be stored and read back: its canonical bytes
  exist, stay within the 64 KiB that the reader accepts, and parse to the same pointer with its keys in
  canonical order.\<close>

theorem pointer_storage_round_trip:
  assumes "is_ok (validateGenerationPointer sha256 p)" "distinct_keys p"
  shows "\<exists>b. generationPointerBytes sha256 p = Inr b \<and> length b \<le> 65536 \<and>
    parseGenerationPointer sha256 b = Inr (canon p)"
  using pointer_stored [OF assms] pointers.record_size [OF assms] by blast

section \<open>The contract of the io\<close>

text \<open>What the publisher relies on: no operation but \<open>replace\<close> changes the live bytes, a temporary
  file keeps what was written to it, and \<open>replace\<close> is all or nothing.\<close>

locale atomic_pointer =
  fixes io :: "('t, 'w) pointer_io"
    and live :: "'w \<Rightarrow> bytes option"
    and holds :: "'t \<Rightarrow> bytes \<Rightarrow> 'w \<Rightarrow> bool"
    and good :: "'w \<Rightarrow> bool"
  assumes read_spec: "\<lbrakk>good w; readLivePointer io w = (rd, w')\<rbrakk> \<Longrightarrow>
      good w' \<and> live w' = live w \<and> (\<forall>x. rd = Inr x \<longrightarrow> x = live w)"
    and writeTemp_spec: "\<lbrakk>good w; writeTemp io b w = (wt, w')\<rbrakk> \<Longrightarrow>
      good w' \<and> live w' = live w \<and> (\<forall>t. wt = Inr t \<longrightarrow> holds t b w')"
    and flushTemp_spec: "\<lbrakk>good w; holds t b w; flushTemp io t w = (ft, w')\<rbrakk> \<Longrightarrow>
      good w' \<and> live w' = live w \<and> holds t b w'"
    and replace_spec: "\<lbrakk>good w; holds t b w; replace io t w = (rp, w')\<rbrakk> \<Longrightarrow>
      good w' \<and> (case rp of Inl _ \<Rightarrow> live w' = live w | Inr _ \<Rightarrow> live w' = Some b)"
    and flushParent_spec: "\<lbrakk>good w; flushParent io w = (fp, w')\<rbrakk> \<Longrightarrow> good w' \<and> live w' = live w"
begin

lemma run_steps_atomic:
  assumes "good w" "run_steps failed io b w = (r, w')"
  shows "good w' \<and> (live w' = live w \<or> live w' = Some b) \<and> (is_ok r \<longrightarrow> live w' = Some b)"
proof -
  obtain r1 w1 where 1: "writeTemp io b w = (r1, w1)" by force
  note s1 = writeTemp_spec [OF assms(1) 1]
  show ?thesis
  proof (cases r1)
    case (Inl e)
    then have "w' = w1 \<and> \<not> is_ok r"
      using assms(2) 1 by (cases e) (auto simp: run_steps_def runStep_def and_then_def)
    with s1 show ?thesis by auto
  next
    case (Inr t)
    obtain r2 w2 where 2: "flushTemp io t w1 = (r2, w2)" by force
    have s2: "good w2 \<and> live w2 = live w \<and> holds t b w2" using flushTemp_spec [OF _ _ 2, of b] s1 Inr by simp
    obtain r3 w3 where 3: "replace io t w2 = (r3, w3)" by force
    have s3: "good w3 \<and> (case r3 of Inl _ \<Rightarrow> live w3 = live w | Inr _ \<Rightarrow> live w3 = Some b)"
      using replace_spec [OF _ _ 3, of b] s2 by (auto split: sum.splits)
    obtain r4 w4 where 4: "flushParent io w3 = (r4, w4)" by force
    have s4: "good w4 \<and> live w4 = live w3" using flushParent_spec [OF _ 4] s3 by blast
    consider e where "r2 = Inl e" "w' = w2" "\<not> is_ok r" | e where "r3 = Inl e" "w' = w3" "\<not> is_ok r"
      | "w' = w4" "r3 = Inr ()"
      using assms(2) 1 2 3 4 Inr
      by (cases r2; cases r3; cases r4)
        (auto simp: run_steps_def runStep_def and_then_def split: io_error.splits)
    then show ?thesis using s2 s3 s4 by cases auto
  qed
qed

end

section \<open>Publication is a compare-and-swap\<close>

text \<open>The abstract state is the live pointer, and the abstract step replaces it by its immediate
  successor.\<close>

definition follows :: "jsval \<Rightarrow> jsval option \<Rightarrow> bool" where
  "follows new current \<longleftrightarrow>
     (case current of
        None \<Rightarrow> fld new ''priorGeneration'' = JNull
      | Some c \<Rightarrow> fld new ''hostId'' = fld c ''hostId'' \<and> fld new ''workspaceId'' = fld c ''workspaceId'' \<and>
          fld new ''priorGeneration'' = fld c ''activeGeneration'' \<and>
          fld new ''priorPointerFingerprint'' = fld c ''pointerFingerprint'')"

definition live_pointer :: "(bytes \<Rightarrow> jsstr) \<Rightarrow> bytes option \<Rightarrow> jsval option \<Rightarrow> bool" where
  "live_pointer sha256 lb c \<longleftrightarrow>
     (case lb of None \<Rightarrow> c = None | Some b \<Rightarrow> (\<exists>v. parseGenerationPointer sha256 b = Inr v \<and> c = Some v))"

lemma js_eq_string: "typeof_string v \<Longrightarrow> js_eq x v \<longleftrightarrow> x = v"
  by (cases v; cases x) auto

lemma isHex64_typeof: "isHex64 v \<Longrightarrow> typeof_string v"
  by (cases v) auto

lemma map_sum_Inr: "map_sum id f r = Inr y \<longleftrightarrow> (\<exists>x. r = Inr x \<and> y = f x)"
  by (cases r) auto

lemma isGeneration_JInt: "isGeneration v \<Longrightarrow> \<exists>n. v = JInt n \<and> 1 \<le> n"
  by (auto simp: isGeneration_def isSafeInteger_iff)

lemma cas_check_follows:
  assumes "is_ok (validateGenerationPointer sha256 new)" "\<And>c. current = Some c \<Longrightarrow> is_ok (validateGenerationPointer sha256 c)"
  shows "is_ok (cas_check new current) \<longleftrightarrow> follows new current"
proof (cases current)
  case None
  then show ?thesis by (auto simp: cas_check_def follows_def)
next
  case (Some c)
  note a = pointer_accepted [OF assms(2) [OF Some]]
  obtain m where m: "fld c ''activeGeneration'' = JInt m" using isGeneration_JInt [OF a(7)] by blast
  have e: "js_eq x (fld c ''hostId'') \<longleftrightarrow> x = fld c ''hostId''" "js_eq x (fld c ''workspaceId'') \<longleftrightarrow> x = fld c ''workspaceId''"
    "js_eq x (fld c ''pointerFingerprint'') \<longleftrightarrow> x = fld c ''pointerFingerprint''" for x
    using a(4,5) isHex64_typeof [OF a(16)] by (simp_all add: isId_def js_eq_string)
  show ?thesis
    by (simp add: Some cas_check_def follows_def assertSuccession_def e m)
qed

context atomic_pointer
begin

lemma read_live:
  assumes "good w" "readLiveGeneration sha256 io w = (r, w')"
  shows "good w' \<and> live w' = live w \<and> (\<forall>c. r = Inr c \<longrightarrow> live_pointer sha256 (live w) c)"
proof -
  obtain r1 w1 where 1: "readLivePointer io w = (r1, w1)" by force
  show ?thesis
    using assms(2) 1 read_spec [OF assms(1) 1]
    by (cases r1) (auto simp: readLiveGeneration_def live_pointer_def map_sum_Inr split: io_error.splits option.splits)
qed

text \<open>Whatever the outcome, the live bytes are the old ones or those of a new pointer that follows the old
  one; success means the latter.\<close>

lemma publish_atomic:
  assumes "good w" "distinct_keys new" "publishGeneration sha256 io new w = (r, w')"
  shows "good w' \<and>
    (live w' = live w \<and> \<not> is_ok r \<or>
     live w' = Some (utf8 (render new)) \<and> is_ok (validateGenerationPointer sha256 new) \<and>
       (\<exists>c. live_pointer sha256 (live w) c \<and> follows new c))"
proof (cases "is_ok (validateGenerationPointer sha256 new)")
  case False
  then show ?thesis using assms by (auto simp: publishGeneration_def is_ok_iff split: sum.splits)
next
  case True
  obtain r1 w1 where 1: "readLiveGeneration sha256 io w = (r1, w1)" by force
  note s1 = read_live [OF assms(1) 1]
  show ?thesis
  proof (cases r1)
    case (Inl e)
    then show ?thesis
      using assms(3) True 1 s1 by (auto simp: publishGeneration_def and_then_def is_ok_iff)
  next
    case (Inr c)
    then have l: "live_pointer sha256 (live w) c" using s1 by simp
    then have v: "is_ok (validateGenerationPointer sha256 x)" if "c = Some x" for x
      using that parsed_pointer(1) by (auto simp: live_pointer_def split: option.splits)
    show ?thesis
    proof (cases "is_ok (cas_check new c)")
      case False
      then show ?thesis
        using assms(3) True 1 s1 Inr by (auto simp: publishGeneration_def and_then_def is_ok_iff split: sum.splits)
    next
      case cas: True
      obtain r2 w2 where 2: "run_steps step_failed io (utf8 (render new)) w1 = (r2, w2)" by force
      have p: "w' = w2 \<and> is_ok r = is_ok r2"
        using assms(3) True 1 2 Inr cas pointer_stored(1) [OF True assms(2)]
        by (cases r2) (auto simp: publishGeneration_def and_then_def is_ok_iff)
      from run_steps_atomic [OF _ 2] s1 p
      have "good w' \<and> (live w' = live w \<or> live w' = Some (utf8 (render new))) \<and> (is_ok r \<longrightarrow> live w' = Some (utf8 (render new)))"
        by simp
      moreover have "follows new c" using cas_check_follows [OF True v] cas by simp
      ultimately show ?thesis using l True by blast
    qed
  qed
qed

end

end
