(* ===== verification/Async_Steps.thy ===== *)
theory Async_Steps
  imports Generation_Publisher Lease_Registry
begin

text \<open>
  What the workspace operations share: sequences of steps that change a state and may throw, the loops over checks, and
  what a \<open>catch\<close> reads of an error.
\<close>

fun error_message :: "js_error \<Rightarrow> jsstr" where
  "error_message (TypeError s) = s"
| "error_message (RangeError s) = s"
| "error_message (SyntaxError s) = s"
| "error_message (PlainError s) = s"
| "error_message (CodedError _ s) = s"

definition error_code :: "io_error \<Rightarrow> string option" where
  "error_code e = (case e of Foreign k \<Rightarrow> Some k | Own (CodedError k _) \<Rightarrow> Some k | _ \<Rightarrow> None)"

definition thrown :: "js_error + 'a \<Rightarrow> io_error + 'a" where
  "thrown r = map_sum Own id r"

definition then_do :: "(io_error + 'a) \<times> 's \<Rightarrow> ('a \<Rightarrow> 's \<Rightarrow> (io_error + 'b) \<times> 's) \<Rightarrow> (io_error + 'b) \<times> 's" where
  "then_do r f = (case r of (Inl e, s) \<Rightarrow> (Inl e, s) | (Inr x, s) \<Rightarrow> f x s)"

definition isNonEmptyString :: "jsval \<Rightarrow> bool" where
  "isNonEmptyString v \<longleftrightarrow> typeof_string v \<and> str_of v \<noteq> []"

definition quoted :: "string \<Rightarrow> string" where
  "quoted s = CHR 0x27 # s @ [CHR 0x27]"

text \<open>The fence number of a lease.\<close>

definition lease_fence :: "nat \<Rightarrow> registry \<Rightarrow> int" where
  "lease_fence h R = e_fence (entries R ! l_entry (leases R ! h))"

text \<open>A \<open>for\<close> loop whose body may throw.\<close>

fun for_each :: "('a \<Rightarrow> js_error + unit) \<Rightarrow> 'a list \<Rightarrow> js_error + unit" where
  "for_each f [] = Inr ()"
| "for_each f (x # xs) = seq (f x) (\<lambda>_. for_each f xs)"

lemma for_each_Inr: "for_each f xs = Inr () \<longleftrightarrow> list_all (\<lambda>x. f x = Inr ()) xs"
  by (induction xs) (auto simp: seq_eq_Inr)

lemma then_do_Inr: "then_do r f = (Inr y, s') \<longleftrightarrow> (\<exists>x s1. r = (Inr x, s1) \<and> f x s1 = (Inr y, s'))"
  by (cases r) (auto simp: then_do_def split: sum.splits)

lemma then_do_simps [simp]: "then_do (Inr x, s) f = f x s" "then_do (Inl e, s) f = (Inl e, s)"
  by (simp_all add: then_do_def)

lemma thrown_simps [simp]: "thrown (Inl e) = Inl (Own e)" "thrown (Inr x) = Inr x"
  by (simp_all add: thrown_def)

lemma thrown_Inr [simp]: "thrown r = Inr x \<longleftrightarrow> r = Inr x"
  by (cases r) (auto simp: thrown_def)

text \<open>A property of the state that every step keeps is kept by the sequence.\<close>

lemma then_do_keeps:
  assumes "I (snd r)" "\<And>x s1. r = (Inr x, s1) \<Longrightarrow> I s1 \<Longrightarrow> I (snd (f x s1))"
  shows "I (snd (then_do r f))"
  using assms by (cases r) (auto simp: then_do_def split: sum.splits)

end
