(* ===== verification/Generation_Probe.thy ===== *)
theory Generation_Probe
  imports Async_Steps Lifecycle_Records
begin

text \<open>
  The readiness probe of \<^verbatim>\<open>daemon/src/workspace-generation-probe.js\<close>: an evaluation of the evidence of one run in five
  dimensions, which returns an attestation or the protocol code of the first dimension that is not proven.
\<close>

definition READINESS_LIMITS :: limits where
  "READINESS_LIMITS = \<lparr>maxBytes = 64 * 1024, maxDepth = 8, maxNodes = 256\<rparr>"

definition DIMENSIONS :: "string list" where
  "DIMENSIONS = [''connection'', ''runtime'', ''providerAuth'', ''modelProfile'', ''workspace'']"

definition GENERATION_FINGERPRINTS :: "string list" where
  "GENERATION_FINGERPRINTS = [''pointerFingerprint'', ''rootIdentityFingerprint'', ''gitGenerationFingerprint'', ''manifestFingerprint'']"

definition FINGERPRINT_MISMATCH_CODE :: "string \<Rightarrow> string" where
  "FINGERPRINT_MISMATCH_CODE k = (if k = ''gitGenerationFingerprint'' then ''GIT_GRAPH_INCOMPLETE'' else ''WORKSPACE_GENERATION_STALE'')"

definition probe_refuse :: "string \<Rightarrow> jsstr \<Rightarrow> js_error" where
  "probe_refuse k reason = CodedError k (js ''workspace_generation_probe: '' @ js k @ js '': '' @ reason)"

definition probe_config :: "jsstr \<Rightarrow> js_error" where
  "probe_config = probe_refuse ''CONFIG_INVALID''"

definition assertLiveSource :: "(jsval \<Rightarrow> jsstr) \<Rightarrow> string \<Rightarrow> jsval \<Rightarrow> js_error + unit" where
  "assertLiveSource string_of dimension v =
     check (plain v) (probe_config (js dimension @ js '' evidence must be an object'')) (
     check (dimension = ''workspace'' \<or> exact v [''state'', ''source''])
       (probe_config (js dimension @ js '' evidence must have exactly {state,source}'')) (
     check (js_eq (fld v ''source'') (JLit ''live''))
       (probe_config (js dimension @ js '' evidence is not live (source='' @ string_of (fld v ''source'') @ js '')'')) (Inr ())))"

definition binding_side :: "jsval \<Rightarrow> string \<Rightarrow> js_error + unit" where
  "binding_side workspace side =
     check (exact (fld workspace side) GENERATION_FINGERPRINTS)
       (probe_config (js ''workspace.'' @ js side @ js '' must carry exactly the four generation fingerprints'')) (
     for_each (\<lambda>k. check (isHex64 (fld (fld workspace side) k))
       (probe_config (js ''workspace.'' @ js side @ js ''.'' @ js k @ js '' must be a 64-char lowercase hex digest'')) (Inr ()))
       GENERATION_FINGERPRINTS)"

definition assertGenerationBinding :: "jsval \<Rightarrow> js_error + jsval" where
  "assertGenerationBinding workspace =
     check (exact workspace [''state'', ''source'', ''generation'', ''expected''])
       (probe_config (js ''workspace evidence must have {state,source,generation,expected}'')) (
     seq (for_each (binding_side workspace) [''generation'', ''expected'']) (\<lambda>_.
     seq (for_each (\<lambda>k. check (js_eq (fld (fld workspace ''generation'') k) (fld (fld workspace ''expected'') k))
         (probe_refuse (FINGERPRINT_MISMATCH_CODE k) (js ''workspace generation '' @ js k @ js '' does not match the expected generation'')) (Inr ()))
       GENERATION_FINGERPRINTS) (\<lambda>_.
     Inr (record_of (map (\<lambda>k. (k, fld (fld workspace ''generation'') k)) GENERATION_FINGERPRINTS)))))"

record attestation =
  at_generationPointerFingerprint :: jsval
  at_probedAtMs :: jsval
  at_readinessFingerprint :: jsstr

definition state_of :: "jsval \<Rightarrow> string \<Rightarrow> jsval" where
  "state_of evidence dimension = fld (fld evidence dimension) ''state''"

definition not_ready :: "(jsval \<Rightarrow> jsstr) \<Rightarrow> string \<Rightarrow> string \<Rightarrow> jsval \<Rightarrow> js_error" where
  "not_ready string_of k what st = probe_refuse k (js what @ js '' (state='' @ string_of st @ js '')'')"

definition runtime_code :: "jsval \<Rightarrow> string" where
  "runtime_code st = (if js_eq st (JLit ''incompatible'') then ''RUNTIME_INCOMPATIBLE'' else ''UNKNOWN_RUNTIME'')"

definition provider_code :: "jsval \<Rightarrow> string" where
  "provider_code st =
     (if js_eq st (JLit ''invalid'') then ''PROVIDER_INVALID''
      else if js_eq st (JLit ''expired'') then ''PROVIDER_EXPIRED''
      else if js_eq st (JLit ''unknown'') then ''PROVIDER_UNAVAILABLE''
      else ''PROVIDER_MISSING'')"

definition profile_code :: "jsval \<Rightarrow> string" where
  "profile_code st = (if js_eq st (JLit ''invalid'') then ''MODEL_PROFILE_INVALID'' else ''MODEL_PROFILE_MISSING'')"

definition check_freshness :: "jsval \<Rightarrow> js_error + unit" where
  "check_freshness freshness =
     check (exact freshness [''probedAtMs'', ''nowMs'', ''maxAgeMs'']) (probe_config (js ''freshness must have {probedAtMs,nowMs,maxAgeMs}'')) (
     seq (for_each (\<lambda>k. check (isSafeInteger (fld freshness k) \<and> 0 \<le> int_of (fld freshness k))
         (probe_refuse ''READINESS_TIMESTAMP_INVALID'' (js ''freshness.'' @ js k @ js '' must be a non-negative safe integer'')) (Inr ()))
       [''probedAtMs'', ''nowMs'', ''maxAgeMs'']) (\<lambda>_.
     check (1 \<le> int_of (fld freshness ''maxAgeMs'')) (probe_config (js ''freshness.maxAgeMs must be >= 1'')) (
     check (int_of (fld freshness ''probedAtMs'') \<le> int_of (fld freshness ''nowMs''))
       (probe_refuse ''READINESS_TIMESTAMP_INVALID'' (js ''freshness.nowMs precedes probedAtMs'')) (
     check (int_of (fld freshness ''nowMs'') - int_of (fld freshness ''probedAtMs'') \<le> int_of (fld freshness ''maxAgeMs''))
       (probe_refuse ''READINESS_EXPIRED'' (js ''readiness evidence is older than maxAgeMs'')) (Inr ())))))"

definition attestation_body :: "jsval \<Rightarrow> jsval \<Rightarrow> jsval" where
  "attestation_body gen probedAtMs = record_of [(''version'', JInt 1), (''kind'', JLit ''workspace-generation-readiness''),
     (''connection'', JLit ''online''), (''runtime'', JLit ''ready''), (''providerAuth'', JLit ''configured''),
     (''modelProfile'', JLit ''ready''), (''workspace'', JLit ''ready''),
     (''generationPointerFingerprint'', fld gen ''pointerFingerprint''),
     (''rootIdentityFingerprint'', fld gen ''rootIdentityFingerprint''),
     (''gitGenerationFingerprint'', fld gen ''gitGenerationFingerprint''),
     (''manifestFingerprint'', fld gen ''manifestFingerprint''), (''probedAtMs'', probedAtMs)]"

definition issue_attestation :: "(bytes \<Rightarrow> jsstr) \<Rightarrow> jsval \<Rightarrow> jsval \<Rightarrow> js_error + attestation" where
  "issue_attestation sha256 gen probedAtMs =
     (case canonicalJsonHash sha256 READINESS_LIMITS (attestation_body gen probedAtMs) of
        Inl e \<Rightarrow> Inl (probe_config (js ''readiness attestation is not canonicalizable: '' @ error_message e))
      | Inr h \<Rightarrow> Inr \<lparr>at_generationPointerFingerprint = fld gen ''pointerFingerprint'', at_probedAtMs = probedAtMs,
                    at_readinessFingerprint = h\<rparr>)"

definition evaluateGenerationReadiness :: "(jsval \<Rightarrow> jsstr) \<Rightarrow> (bytes \<Rightarrow> jsstr) \<Rightarrow> jsval \<Rightarrow> js_error + attestation" where
  "evaluateGenerationReadiness string_of sha256 evidence =
     (let st = state_of evidence in
     check (exact evidence (DIMENSIONS @ [''freshness'']))
       (probe_config (js ''readiness evidence must have exactly the five dimensions plus freshness'')) (
     seq (for_each (\<lambda>d. assertLiveSource string_of d (fld evidence d)) DIMENSIONS) (\<lambda>_.
     check (js_eq (st ''connection'') (JLit ''online''))
       (not_ready string_of ''CONNECTION_LOST'' ''connection is not online'' (st ''connection'')) (
     check (js_eq (st ''runtime'') (JLit ''ready''))
       (not_ready string_of (runtime_code (st ''runtime'')) ''runtime is not ready'' (st ''runtime'')) (
     check (js_eq (st ''providerAuth'') (JLit ''configured''))
       (not_ready string_of (provider_code (st ''providerAuth'')) ''provider auth is not configured'' (st ''providerAuth'')) (
     check (js_eq (st ''modelProfile'') (JLit ''ready''))
       (not_ready string_of (profile_code (st ''modelProfile'')) ''model profile is not ready'' (st ''modelProfile'')) (
     check (js_eq (st ''workspace'') (JLit ''ready''))
       (not_ready string_of ''WORKSPACE_NOT_FOUND'' ''workspace is not ready'' (st ''workspace'')) (
     seq (assertGenerationBinding (fld evidence ''workspace'')) (\<lambda>gen.
     seq (check_freshness (fld evidence ''freshness'')) (\<lambda>_.
     issue_attestation sha256 gen (fld (fld evidence ''freshness'') ''probedAtMs'')))))))))))"

section \<open>What an attestation proves\<close>

lemma source_live: "assertLiveSource string_of d v = Inr () \<Longrightarrow> fld v ''source'' = JLit ''live''"
  by (auto simp: assertLiveSource_def)

lemma binding_matches:
  assumes "assertGenerationBinding workspace = Inr g" "k \<in> set GENERATION_FINGERPRINTS"
  shows "fld g k = fld (fld workspace ''generation'') k" "fld (fld workspace ''generation'') k = fld (fld workspace ''expected'') k"
    "isHex64 (fld g k)"
proof -
  have "list_all (\<lambda>k. isHex64 (fld (fld workspace ''generation'') k)) GENERATION_FINGERPRINTS"
    and m: "list_all (\<lambda>k. js_eq (fld (fld workspace ''generation'') k) (fld (fld workspace ''expected'') k)) GENERATION_FINGERPRINTS"
    and g: "g = record_of (map (\<lambda>k. (k, fld (fld workspace ''generation'') k)) GENERATION_FINGERPRINTS)"
    using assms(1) by (auto simp: assertGenerationBinding_def seq_eq_Inr for_each_Inr binding_side_def)
  then have h: "isHex64 (fld (fld workspace ''generation'') k)" using assms(2) by (simp add: list_all_iff)
  show f: "fld g k = fld (fld workspace ''generation'') k"
    using assms(2) by (auto simp: g GENERATION_FINGERPRINTS_def get_own_JObj)
  show "isHex64 (fld g k)" using h f by simp
  have "js_eq (fld (fld workspace ''generation'') k) (fld (fld workspace ''expected'') k)"
    using m assms(2) by (simp add: list_all_iff)
  with h show "fld (fld workspace ''generation'') k = fld (fld workspace ''expected'') k"
    by (cases "fld (fld workspace ''generation'') k"; cases "fld (fld workspace ''expected'') k") auto
qed

text \<open>C38. The probe fails closed: it attests only evidence that is live in all five dimensions and affirmative in each,
  whose four generation fingerprints are digests equal to the expected ones, and whose age is between zero and the
  bound; and the attestation is the digest of exactly these fingerprints and the time of the probe.\<close>

theorem attestation_proves:
  assumes "evaluateGenerationReadiness string_of sha256 evidence = Inr a"
  shows "list_all (\<lambda>d. fld (fld evidence d) ''source'' = JLit ''live'') DIMENSIONS \<and>
    map (state_of evidence) DIMENSIONS = map JLit [''online'', ''ready'', ''configured'', ''ready'', ''ready''] \<and>
    list_all (\<lambda>k. isHex64 (fld (fld (fld evidence ''workspace'') ''generation'') k) \<and>
      fld (fld (fld evidence ''workspace'') ''generation'') k = fld (fld (fld evidence ''workspace'') ''expected'') k) GENERATION_FINGERPRINTS \<and>
    int_of (fld (fld evidence ''freshness'') ''nowMs'') - int_of (at_probedAtMs a)
      \<in> {0 .. int_of (fld (fld evidence ''freshness'') ''maxAgeMs'')} \<and>
    canonicalJsonHash sha256 READINESS_LIMITS (attestation_body (fld (fld evidence ''workspace'') ''generation'') (at_probedAtMs a)) =
      Inr (at_readinessFingerprint a)"
proof -
  obtain g where live: "list_all (\<lambda>d. assertLiveSource string_of d (fld evidence d) = Inr ()) DIMENSIONS"
    and st: "js_eq (state_of evidence ''connection'') (JLit ''online'')" "js_eq (state_of evidence ''runtime'') (JLit ''ready'')"
      "js_eq (state_of evidence ''providerAuth'') (JLit ''configured'')" "js_eq (state_of evidence ''modelProfile'') (JLit ''ready'')"
      "js_eq (state_of evidence ''workspace'') (JLit ''ready'')"
    and g: "assertGenerationBinding (fld evidence ''workspace'') = Inr g"
    and fr: "check_freshness (fld evidence ''freshness'') = Inr ()"
    and i: "issue_attestation sha256 g (fld (fld evidence ''freshness'') ''probedAtMs'') = Inr a"
    using assms by (auto simp: evaluateGenerationReadiness_def Let_def seq_eq_Inr for_each_Inr)
  have h: "canonicalJsonHash sha256 READINESS_LIMITS (attestation_body g (at_probedAtMs a)) = Inr (at_readinessFingerprint a)"
    and p: "at_probedAtMs a = fld (fld evidence ''freshness'') ''probedAtMs''"
    using i by (auto simp: issue_attestation_def split: sum.splits)
  note b = binding_matches [OF g]
  have "list_all (\<lambda>d. fld (fld evidence d) ''source'' = JLit ''live'') DIMENSIONS"
    using live source_live by (auto simp: list_all_iff)
  moreover have "map (state_of evidence) DIMENSIONS = map JLit [''online'', ''ready'', ''configured'', ''ready'', ''ready'']"
    using st by (simp add: DIMENSIONS_def)
  moreover have "list_all (\<lambda>k. isHex64 (fld (fld (fld evidence ''workspace'') ''generation'') k) \<and>
      fld (fld (fld evidence ''workspace'') ''generation'') k = fld (fld (fld evidence ''workspace'') ''expected'') k) GENERATION_FINGERPRINTS"
    using b(2,3) b(1) [symmetric] by (simp add: list_all_iff)
  moreover have "int_of (fld (fld evidence ''freshness'') ''nowMs'') - int_of (at_probedAtMs a)
      \<in> {0 .. int_of (fld (fld evidence ''freshness'') ''maxAgeMs'')}"
    using fr by (auto simp: check_freshness_def p seq_eq_Inr simp del: for_each.simps)
  moreover have "attestation_body g (at_probedAtMs a) =
      attestation_body (fld (fld evidence ''workspace'') ''generation'') (at_probedAtMs a)"
    using b(1) by (simp add: attestation_body_def GENERATION_FINGERPRINTS_def)
  ultimately show ?thesis using h by simp
qed

end
