(* ===== verification/Backup_Manifest.thy ===== *)
theory Backup_Manifest
  imports Generation_Publisher Host_Tokens
begin

text \<open>
  The backup manifest of \<^verbatim>\<open>daemon/src/workspace-backup-manifest.js\<close> and the dirty backup of
  \<^verbatim>\<open>daemon/src/workspace-dirty-backup.js\<close>: the list of a workspace's files with their sizes and digests, its
  validator and builder, the capture from an injected reader and the verification against one.  A
  refusal keeps its code and its reason without the values the reason prints.
\<close>

section \<open>Entries\<close>

definition MAX_ENTRIES :: nat where
  "MAX_ENTRIES = 100000"

definition MAX_ENTRY_PATH_BYTES :: nat where
  "MAX_ENTRY_PATH_BYTES = 4096"

definition WORKSPACE_MANIFEST_LIMITS :: limits where
  "WORKSPACE_MANIFEST_LIMITS = \<lparr>maxBytes = 64 * 1024 * 1024, maxDepth = 8, maxNodes = MAX_ENTRIES * 6 + 64\<rparr>"

definition MANIFEST_KEYS :: "string list" where
  "MANIFEST_KEYS = [''version'', ''kind'', ''hostId'', ''workspaceId'', ''workspaceGeneration'', ''sourcePlatform'',
     ''rootIdentityFingerprint'', ''storageIdentityFingerprint'', ''gitGenerationFingerprint'', ''entryCount'', ''totalSize'',
     ''entries'', ''manifestFingerprint'']"

definition ENTRY_KEYS :: "string list" where
  "ENTRY_KEYS = [''path'', ''size'', ''sha256'']"

definition man_refuse :: "string \<Rightarrow> string \<Rightarrow> js_error" where
  "man_refuse k reason = CodedError k (js ''workspace_backup_manifest: '' @ js k @ js '': '' @ js reason)"

definition man_invalid :: "string \<Rightarrow> js_error" where
  "man_invalid = man_refuse ''WORKSPACE_MANIFEST_INVALID''"

definition entry_rejected :: "string \<Rightarrow> js_error" where
  "entry_rejected = man_refuse ''WORKSPACE_MANIFEST_PATH_REJECTED''"

definition isSafeCount :: "jsval \<Rightarrow> bool" where
  "isSafeCount v \<longleftrightarrow> isSafeInteger v \<and> 0 \<le> int_of v"

definition entry_segment :: "jsstr \<Rightarrow> js_error option" where
  "entry_segment g =
     (if g = [] then Some (entry_rejected ''entry path has an empty segment'')
      else if dots g then Some (entry_rejected ''entry path has a dot segment'')
      else if 0x3a \<in> set g then Some (entry_rejected ''entry path segment contains NTFS ADS alias'')
      else if last g = 0x20 \<or> last g = 0x2e then Some (entry_rejected ''entry path segment has a trailing dot or space'')
      else if windows_reserved g then Some (entry_rejected ''entry path segment is a Windows reserved name'')
      else None)"

fun entry_segments :: "jsstr list \<Rightarrow> js_error + unit" where
  "entry_segments [] = Inr ()"
| "entry_segments (g # gs) = (case entry_segment g of Some e \<Rightarrow> Inl e | None \<Rightarrow> entry_segments gs)"

definition assertRelativePath :: "jsval \<Rightarrow> js_error + unit" where
  "assertRelativePath v =
     check (typeof_string v \<and> str_of v \<noteq> []) (entry_rejected ''entry path must be a non-empty string'') (
     let p = str_of v in
     check (0 \<notin> set p) (entry_rejected ''entry path contains a NUL byte'') (
     case assertStrictText v (js ''entry path'') (Some MAX_ENTRY_PATH_BYTES) of
       Inl _ \<Rightarrow> Inl (entry_rejected ''entry path rejected'')
     | Inr _ \<Rightarrow>
     check (0x5c \<notin> set p) (entry_rejected ''entry path must use forward separators'') (
     check (hd p \<noteq> 0x2f) (entry_rejected ''entry path must be relative'') (
     check (\<not> (is_alpha (hd p) \<and> take 1 (tl p) = [0x3a])) (entry_rejected ''entry path must not carry a drive prefix'') (
     entry_segments (split_on 0x2f p))))))"

definition assertEntry :: "jsval \<Rightarrow> js_error + unit" where
  "assertEntry e =
     check (exact e ENTRY_KEYS) (man_invalid ''entry must have exactly {path,size,sha256}'') (
     seq (assertRelativePath (fld e ''path'')) (\<lambda>_.
     check (isSafeCount (fld e ''size'')) (man_invalid ''entry size must be a non-negative safe integer'') (
     check (isHex64 (fld e ''sha256'')) (man_invalid ''entry sha256 must be a 64-char lowercase hex digest'') (Inr ()))))"

fun assert_entries :: "jsval list \<Rightarrow> js_error + unit" where
  "assert_entries [] = Inr ()"
| "assert_entries (e # es) = seq (assertEntry e) (\<lambda>_. assert_entries es)"

section \<open>The manifest\<close>

definition manifest_body :: "jsval \<Rightarrow> jsval" where
  "manifest_body m = record_of (map (\<lambda>k. (k, fld m k)) (butlast MANIFEST_KEYS))"

definition manifestFingerprintOf :: "(bytes \<Rightarrow> jsstr) \<Rightarrow> jsval \<Rightarrow> js_error + jsstr" where
  "manifestFingerprintOf sha256 m =
     (case canonicalJsonHash sha256 WORKSPACE_MANIFEST_LIMITS (manifest_body m) of
        Inr h \<Rightarrow> Inr h
      | Inl _ \<Rightarrow> Inl (man_invalid ''manifest body is not canonicalizable''))"

definition entry_path :: "jsval \<Rightarrow> jsstr" where
  "entry_path e = str_of (fld e ''path'')"

definition entry_size :: "jsval \<Rightarrow> int" where
  "entry_size e = int_of (fld e ''size'')"

text \<open>The running sum of safe sizes: a sum beyond the safe integers is at least \<open>2 ^ 53\<close>, also after the rounding of
  the addition, so the test on the exact sum is the test of the code.\<close>

definition add_size :: "int \<Rightarrow> jsval \<Rightarrow> (int \<Rightarrow> js_error + 'a) \<Rightarrow> js_error + 'a" where
  "add_size tsize e k =
     check (\<bar>tsize + entry_size e\<bar> \<le> MAX_SAFE_INTEGER) (man_invalid ''totalSize overflow'') (k (tsize + entry_size e))"

fun check_entries :: "jsval list \<Rightarrow> jsstr option \<Rightarrow> int \<Rightarrow> js_error + int" where
  "check_entries [] previousPath tsize = Inr tsize"
| "check_entries (e # es) previousPath tsize =
     seq (assertEntry e) (\<lambda>_.
     check (case previousPath of None \<Rightarrow> True | Some p \<Rightarrow> utf8Compare p (entry_path e) \<le> 0) (man_invalid ''entries not sorted'') (
     check (case previousPath of None \<Rightarrow> True | Some p \<Rightarrow> utf8Compare p (entry_path e) \<noteq> 0) (man_invalid ''duplicate entry path'') (
     add_size tsize e (\<lambda>s. check_entries es (Some (entry_path e)) s))))"

definition validateWorkspaceManifest :: "(bytes \<Rightarrow> jsstr) \<Rightarrow> jsval \<Rightarrow> js_error + jsval" where
  "validateWorkspaceManifest sha256 m =
     check (exact m MANIFEST_KEYS) (man_invalid ''manifest must have the exact manifest key set'') (
     check (js_eq (fld m ''version'') (JInt 1)) (man_invalid ''unsupported manifest version'') (
     check (js_eq (fld m ''kind'') (JLit ''workspace-backup-manifest'')) (man_invalid ''unexpected manifest kind'') (
     check (isId (fld m ''hostId'')) (man_invalid ''hostId must be a 1..256 char string'') (
     check (isId (fld m ''workspaceId'')) (man_invalid ''workspaceId must be a 1..256 char string'') (
     check (isGeneration (fld m ''workspaceGeneration'')) (man_invalid ''workspaceGeneration must be a safe integer >= 1'') (
     check (str_in (fld m ''sourcePlatform'') [''posix'', ''windows-drive'', ''windows-unc'']) (man_invalid ''unknown sourcePlatform'') (
     check (isHex64 (fld m ''rootIdentityFingerprint'')) (man_invalid ''rootIdentityFingerprint must be hex64'') (
     check (isHex64 (fld m ''storageIdentityFingerprint'')) (man_invalid ''storageIdentityFingerprint must be hex64'') (
     check (isHex64 (fld m ''gitGenerationFingerprint'')) (man_invalid ''gitGenerationFingerprint must be hex64'') (
     check (isArray (fld m ''entries'')) (man_invalid ''entries must be an array'') (
     check (length (elements (fld m ''entries'')) \<le> MAX_ENTRIES) (man_invalid ''entry count exceeds the limit'') (
     seq (check_entries (elements (fld m ''entries'')) None 0) (\<lambda>tsize.
     check (js_eq (fld m ''entryCount'') (JInt (int (length (elements (fld m ''entries'')))))) (man_invalid ''entryCount does not match entries length'') (
     check (js_eq (fld m ''totalSize'') (JInt tsize)) (man_invalid ''totalSize does not match the sum of entry sizes'') (
     check (isHex64 (fld m ''manifestFingerprint'')) (man_invalid ''manifestFingerprint must be hex64'') (
     seq (manifestFingerprintOf sha256 m) (\<lambda>h.
     check (js_eq (JStr h) (fld m ''manifestFingerprint'')) (man_invalid ''manifestFingerprint does not match the manifest body'')
       (Inr m))))))))))))))))))"

definition sort_entries :: "jsval list \<Rightarrow> jsval list" where
  "sort_entries = sort_key (\<lambda>e. utf8 (entry_path e))"

definition file_entry :: "jsval \<Rightarrow> jsval \<Rightarrow> jsval \<Rightarrow> jsval" where
  "file_entry path n sha = record_of [(''path'', path), (''size'', n), (''sha256'', sha)]"

definition copy_entry :: "jsval \<Rightarrow> jsval" where
  "copy_entry e = file_entry (fld e ''path'') (fld e ''size'') (fld e ''sha256'')"

fun total_size :: "jsval list \<Rightarrow> int \<Rightarrow> js_error + int" where
  "total_size [] tsize = Inr tsize"
| "total_size (e # es) tsize = add_size tsize e (\<lambda>s. total_size es s)"

definition manifest_record :: "jsval \<Rightarrow> jsval list \<Rightarrow> int \<Rightarrow> jsval" where
  "manifest_record input es tsize =
     record_of [(''version'', JInt 1), (''kind'', JLit ''workspace-backup-manifest''), (''hostId'', fld input ''hostId''),
       (''workspaceId'', fld input ''workspaceId''), (''workspaceGeneration'', fld input ''workspaceGeneration''),
       (''sourcePlatform'', fld input ''sourcePlatform''), (''rootIdentityFingerprint'', fld input ''rootIdentityFingerprint''),
       (''storageIdentityFingerprint'', fld input ''storageIdentityFingerprint''),
       (''gitGenerationFingerprint'', fld input ''gitGenerationFingerprint''), (''entryCount'', JInt (int (length es))),
       (''totalSize'', JInt tsize), (''entries'', JArr es), (''manifestFingerprint'', JNull)]"

definition buildWorkspaceManifest :: "(bytes \<Rightarrow> jsstr) \<Rightarrow> jsval \<Rightarrow> js_error + jsval" where
  "buildWorkspaceManifest sha256 input =
     check (plain input) (man_invalid ''manifest input must be an object'') (
     check (isArray (fld input ''entries'')) (man_invalid ''entries must be an array'') (
     check (length (elements (fld input ''entries'')) \<le> MAX_ENTRIES) (man_invalid ''entry count exceeds the limit'') (
     seq (assert_entries (elements (fld input ''entries''))) (\<lambda>_.
     let es = sort_entries (map copy_entry (elements (fld input ''entries''))) in
     seq (total_size es 0) (\<lambda>tsize.
     let r = manifest_record input es tsize in
     seq (manifestFingerprintOf sha256 r) (\<lambda>h.
       validateWorkspaceManifest sha256 (with_field r ''manifestFingerprint'' (JStr h))))))))"

definition workspaceManifestBytes :: "(bytes \<Rightarrow> jsstr) \<Rightarrow> jsval \<Rightarrow> js_error + bytes" where
  "workspaceManifestBytes sha256 m = seq (validateWorkspaceManifest sha256 m) (\<lambda>_.
     case canonicalJsonBytes WORKSPACE_MANIFEST_LIMITS m of
       Inr b \<Rightarrow> Inr b
     | Inl _ \<Rightarrow> Inl (man_invalid ''manifest is not serializable''))"

definition parseWorkspaceManifest :: "(bytes \<Rightarrow> jsstr) \<Rightarrow> bytes \<Rightarrow> js_error + jsval" where
  "parseWorkspaceManifest sha256 b =
     (case parseCanonicalJsonBytes WORKSPACE_MANIFEST_LIMITS b of
        Some (Inr v) \<Rightarrow> validateWorkspaceManifest sha256 v
      | _ \<Rightarrow> Inl (man_invalid ''manifest bytes are not canonical JSON''))"

section \<open>Capture and verification\<close>

text \<open>The injected \<open>io.readBytes\<close> takes the path as it is and returns bytes or throws.\<close>

type_synonym 'w byte_reader = "jsstr \<Rightarrow> (bytes, 'w) io"

fun read_entries ::
  "(bytes \<Rightarrow> jsstr) \<Rightarrow> 'w byte_reader \<Rightarrow> jsval list \<Rightarrow> jsval list \<Rightarrow> jsval list \<Rightarrow> 'w \<Rightarrow> (js_error + jsval list) \<times> 'w" where
  "read_entries sha256 rd [] seen es w = (Inr es, w)"
| "read_entries sha256 rd (path # paths) seen es w =
     (case assertRelativePath path of
        Inl e \<Rightarrow> (Inl e, w)
      | Inr _ \<Rightarrow>
         if list_ex (js_eq path) seen then (Inl (man_invalid ''duplicate path in input''), w)
         else (case rd (str_of path) w of
             (Inl (Own e), w1) \<Rightarrow> (Inl e, w1)
           | (Inl (Foreign k), w1) \<Rightarrow> (Inl (man_refuse ''WORKSPACE_MANIFEST_READ_FAILED'' ''unable to read''), w1)
           | (Inr b, w1) \<Rightarrow>
               read_entries sha256 rd paths (seen @ [path])
                 (es @ [file_entry path (JInt (int (length b))) (JStr (sha256 b))]) w1))"

definition computeManifestEntries ::
  "(bytes \<Rightarrow> jsstr) \<Rightarrow> 'w byte_reader \<Rightarrow> jsval \<Rightarrow> 'w \<Rightarrow> (js_error + jsval list) \<times> 'w" where
  "computeManifestEntries sha256 rd relativePaths w =
     (if \<not> isArray relativePaths then (Inl (man_invalid ''relativePaths must be an array''), w)
      else and_then (read_entries sha256 rd (elements relativePaths) [] [] w) (\<lambda>es w1. (Inr (sort_entries es), w1)))"

definition man_mismatch :: "string \<Rightarrow> js_error" where
  "man_mismatch = man_refuse ''WORKSPACE_MANIFEST_MISMATCH''"

fun verify_entries ::
  "(bytes \<Rightarrow> jsstr) \<Rightarrow> 'w byte_reader \<Rightarrow> jsval list \<Rightarrow> nat \<Rightarrow> 'w \<Rightarrow> (js_error + nat) \<times> 'w" where
  "verify_entries sha256 rd [] verifiedCount w = (Inr verifiedCount, w)"
| "verify_entries sha256 rd (e # es) verifiedCount w =
     (case rd (entry_path e) w of
        (Inl _, w1) \<Rightarrow> (Inl (man_mismatch ''unable to read during verification''), w1)
      | (Inr b, w1) \<Rightarrow>
          if \<not> js_eq (JInt (int (length b))) (fld e ''size'') then (Inl (man_mismatch ''size mismatch''), w1)
          else if \<not> js_eq (JStr (sha256 b)) (fld e ''sha256'') then (Inl (man_mismatch ''sha256 mismatch''), w1)
          else verify_entries sha256 rd es (Suc verifiedCount) w1)"

definition verifyManifestAgainst ::
  "(bytes \<Rightarrow> jsstr) \<Rightarrow> 'w byte_reader \<Rightarrow> jsval \<Rightarrow> 'w \<Rightarrow> (js_error + nat) \<times> 'w" where
  "verifyManifestAgainst sha256 rd m w =
     (case validateWorkspaceManifest sha256 m of
        Inl e \<Rightarrow> (Inl e, w)
      | Inr _ \<Rightarrow> verify_entries sha256 rd (elements (fld m ''entries'')) 0 w)"

section \<open>The dirty backup\<close>

definition DIRTY_BACKUP_REQUEST_KEYS :: "string list" where
  "DIRTY_BACKUP_REQUEST_KEYS = [''hostId'', ''workspaceId'', ''workspaceGeneration'', ''sourcePlatform'', ''rootIdentityFingerprint'',
     ''storageIdentityFingerprint'', ''gitGenerationFingerprint'', ''relativePaths'']"

definition dirty_refuse :: "string \<Rightarrow> string \<Rightarrow> js_error" where
  "dirty_refuse k reason = CodedError k (js ''workspace_dirty_backup: '' @ js k @ js '': '' @ js reason)"

text \<open>The size and the membership of the set of intended paths; two objects are never the same element.\<close>

fun set_of_values :: "jsval list \<Rightarrow> jsval list \<Rightarrow> jsval list" where
  "set_of_values acc [] = acc"
| "set_of_values acc (v # vs) =
     set_of_values (if list_ex (js_eq v) acc \<or> v = JNum NaN \<and> v \<in> set acc then acc else acc @ [v]) vs"

fun unintended :: "jsval list \<Rightarrow> jsval list \<Rightarrow> bool" where
  "unintended want [] \<longleftrightarrow> False"
| "unintended want (e # es) \<longleftrightarrow> \<not> list_ex (js_eq (fld e ''path'')) want \<or> unintended want es"

definition assertDirtyBackupComplete :: "(bytes \<Rightarrow> jsstr) \<Rightarrow> jsval \<Rightarrow> jsval \<Rightarrow> js_error + jsval" where
  "assertDirtyBackupComplete sha256 m relativePaths =
     seq (validateWorkspaceManifest sha256 m) (\<lambda>_.
     check (isArray relativePaths \<and> elements relativePaths \<noteq> [])
       (dirty_refuse ''CONFIG_INVALID'' ''relativePaths must be a non-empty array'') (
     let want = set_of_values [] (elements relativePaths) in
     check (length want = length (elements relativePaths)) (dirty_refuse ''CONFIG_INVALID'' ''relativePaths must not contain duplicates'') (
     check (js_eq (fld m ''entryCount'') (JInt (int (length want))))
       (dirty_refuse ''WORKSPACE_MANIFEST_MISMATCH'' ''dirty backup does not cover the intended paths'') (
     check (\<not> unintended want (elements (fld m ''entries'')))
       (dirty_refuse ''WORKSPACE_MANIFEST_MISMATCH'' ''dirty backup contains an unintended path'') (Inr m)))))"

definition backup_input :: "jsval \<Rightarrow> jsval list \<Rightarrow> jsval" where
  "backup_input request es = record_of [(''hostId'', fld request ''hostId''), (''workspaceId'', fld request ''workspaceId''),
     (''workspaceGeneration'', fld request ''workspaceGeneration''), (''sourcePlatform'', fld request ''sourcePlatform''),
     (''rootIdentityFingerprint'', fld request ''rootIdentityFingerprint''),
     (''storageIdentityFingerprint'', fld request ''storageIdentityFingerprint''),
     (''gitGenerationFingerprint'', fld request ''gitGenerationFingerprint''), (''entries'', JArr es)]"

text \<open>The result carries the manifest and, as a field of it, the fingerprint.\<close>

definition computeDirtyBackup ::
  "(bytes \<Rightarrow> jsstr) \<Rightarrow> 'w byte_reader \<Rightarrow> jsval \<Rightarrow> 'w \<Rightarrow> (js_error + jsval) \<times> 'w" where
  "computeDirtyBackup sha256 rd request w =
     (if \<not> exact request DIRTY_BACKUP_REQUEST_KEYS
      then (Inl (dirty_refuse ''CONFIG_INVALID'' ''dirty backup request must have the exact key set''), w)
      else if \<not> isArray (fld request ''relativePaths'')
      then (Inl (dirty_refuse ''CONFIG_INVALID'' ''relativePaths must be an array''), w)
      else if elements (fld request ''relativePaths'') = []
      then (Inl (dirty_refuse ''CONFIG_INVALID'' ''dirty backup requires at least one path (no vacuous backup)''), w)
      else and_then (computeManifestEntries sha256 rd (fld request ''relativePaths'') w) (\<lambda>es w1.
        (seq (buildWorkspaceManifest sha256 (backup_input request es))
         (\<lambda>m. assertDirtyBackupComplete sha256 m (fld request ''relativePaths'')), w1)))"

section \<open>Capture of a tree\<close>

text \<open>A tree of files that does not change while it is read.\<close>

definition tree_reader :: "(jsstr \<Rightarrow> bytes option) \<Rightarrow> 'w byte_reader" where
  "tree_reader T p w = (case T p of Some b \<Rightarrow> Inr b | None \<Rightarrow> Inl (Foreign ''ENOENT''), w)"

definition captured :: "(bytes \<Rightarrow> jsstr) \<Rightarrow> (jsstr \<Rightarrow> bytes option) \<Rightarrow> jsval \<Rightarrow> jsval" where
  "captured sha256 T p =
     file_entry p (JInt (int (length (the (T (str_of p)))))) (JStr (sha256 (the (T (str_of p)))))"

lemma file_entry_simps [simp]:
  "fld (file_entry p n s) ''path'' = p" "fld (file_entry p n s) ''size'' = n" "fld (file_entry p n s) ''sha256'' = s"
  "copy_entry (file_entry p n s) = file_entry p n s" "entry_path (file_entry p n s) = str_of p"
  by (simp_all add: file_entry_def copy_entry_def entry_path_def get_own_JObj)

lemma tree_reader_simps:
  "T p = Some b \<Longrightarrow> tree_reader T p w = (Inr b, w)" "T p = None \<Longrightarrow> tree_reader T p w = (Inl (Foreign ''ENOENT''), w)"
  by (simp_all add: tree_reader_def)

lemma relative_path_string: "is_ok (assertRelativePath v) \<Longrightarrow> typeof_string v"
  by (simp add: assertRelativePath_def)

lemma js_eq_strings: "typeof_string v \<Longrightarrow> js_eq v x \<longleftrightarrow> v = x"
  by (cases v; cases x) auto

lemma read_entries_tree:
  assumes "read_entries sha256 (tree_reader T) paths seen es w = (Inr r, w')"
  shows "w' = w \<and> r = es @ map (captured sha256 T) paths \<and> distinct paths \<and> set paths \<inter> set seen = {} \<and>
    (\<forall>p \<in> set paths. typeof_string p \<and> T (str_of p) \<noteq> None)"
  using assms
proof (induction paths arbitrary: seen es w)
  case (Cons p paths)
  obtain u where u: "assertRelativePath p = Inr u" using Cons.prems by (auto split: sum.splits)
  then have s: "typeof_string p" by (intro relative_path_string) simp
  then have n: "p \<notin> set seen" using Cons.prems u by (auto simp: list_ex_iff js_eq_strings split: if_splits)
  have d: "\<not> list_ex (js_eq p) seen" using Cons.prems u by (auto split: if_splits)
  obtain b where b: "T (str_of p) = Some b" using Cons.prems u d by (cases "T (str_of p)") (auto simp: tree_reader_simps)
  have "read_entries sha256 (tree_reader T) paths (seen @ [p]) (es @ [captured sha256 T p]) w = (Inr r, w')"
    using Cons.prems u d b by (simp add: tree_reader_simps captured_def)
  from Cons.IH [OF this] s n b show ?case by auto
qed simp

lemma compute_entries_tree:
  assumes "computeManifestEntries sha256 (tree_reader T) v w = (Inr es, w')"
  shows "w' = w" "es = sort_entries (map (captured sha256 T) (elements v))" "distinct (elements v)"
    "\<forall>p \<in> set (elements v). typeof_string p \<and> T (str_of p) \<noteq> None"
proof -
  obtain r where r: "read_entries sha256 (tree_reader T) (elements v) [] [] w = (Inr r, w')" "es = sort_entries r"
    using assms by (auto simp: computeManifestEntries_def and_then_def split: if_splits prod.splits sum.splits)
  from read_entries_tree [OF r(1)] r(2)
  show "w' = w" "es = sort_entries (map (captured sha256 T) (elements v))" "distinct (elements v)"
    "\<forall>p \<in> set (elements v). typeof_string p \<and> T (str_of p) \<noteq> None" by auto
qed

lemma manifest_Inr: "validateWorkspaceManifest sha256 m = Inr x \<longleftrightarrow> is_ok (validateWorkspaceManifest sha256 m) \<and> x = m"
  by (auto simp: validateWorkspaceManifest_def seq_eq_Inr is_ok_iff)

lemma manifest_record_fld:
  "fld (with_field (manifest_record input es tsize) ''manifestFingerprint'' h) ''entries'' = JArr es"
  "\<forall>k \<in> set (butlast DIRTY_BACKUP_REQUEST_KEYS).
     fld (with_field (manifest_record input es tsize) ''manifestFingerprint'' h) k = fld input k"
  by (simp_all add: manifest_record_def with_field_def get_own_JObj own_keys_JObj DIRTY_BACKUP_REQUEST_KEYS_def)

lemma build_manifest:
  assumes "buildWorkspaceManifest sha256 input = Inr m"
  shows "is_ok (validateWorkspaceManifest sha256 m)"
    "elements (fld m ''entries'') = sort_entries (map copy_entry (elements (fld input ''entries'')))"
    "\<forall>k \<in> set (butlast DIRTY_BACKUP_REQUEST_KEYS). fld m k = fld input k"
proof -
  obtain tsize h where m: "validateWorkspaceManifest sha256 (with_field (manifest_record input
       (sort_entries (map copy_entry (elements (fld input ''entries'')))) tsize) ''manifestFingerprint'' (JStr h)) = Inr m"
    using assms by (auto simp only: buildWorkspaceManifest_def Let_def seq_eq_Inr check_eq_Inr)
  then have e: "m = with_field (manifest_record input
       (sort_entries (map copy_entry (elements (fld input ''entries'')))) tsize) ''manifestFingerprint'' (JStr h)"
    by (rule manifest_Inr [THEN iffD1, THEN conjunct2])
  show "is_ok (validateWorkspaceManifest sha256 m)" using m by (simp only: e manifest_Inr)
  show "elements (fld m ''entries'') = sort_entries (map copy_entry (elements (fld input ''entries'')))"
    "\<forall>k \<in> set (butlast DIRTY_BACKUP_REQUEST_KEYS). fld m k = fld input k"
    unfolding e by (simp_all add: manifest_record_fld)
qed

lemma set_sort_entries [simp]: "set (sort_entries es) = set es" "length (sort_entries es) = length es"
  by (simp_all add: sort_entries_def)

lemma backup_input_fld:
  "fld (backup_input request es) ''entries'' = JArr es"
  "k \<in> set (butlast DIRTY_BACKUP_REQUEST_KEYS) \<Longrightarrow> fld (backup_input request es) k = fld request k"
  by (auto simp: backup_input_def get_own_JObj DIRTY_BACKUP_REQUEST_KEYS_def)

lemma dirty_backup_tree:
  assumes "computeDirtyBackup sha256 (tree_reader T) request w = (Inr m, w')"
  defines "paths \<equiv> elements (fld request ''relativePaths'')"
  shows "w' = w" "is_ok (validateWorkspaceManifest sha256 m)" "set (elements (fld m ''entries'')) = captured sha256 T ` set paths"
    "length (elements (fld m ''entries'')) = length paths" "paths \<noteq> []" "distinct paths"
    "\<forall>p \<in> set paths. typeof_string p \<and> T (str_of p) \<noteq> None"
    "\<forall>k \<in> set (butlast DIRTY_BACKUP_REQUEST_KEYS). fld m k = fld request k"
proof -
  obtain es where es: "computeManifestEntries sha256 (tree_reader T) (fld request ''relativePaths'') w = (Inr es, w')"
    and b: "buildWorkspaceManifest sha256 (backup_input request es) = Inr m"
    and ne: "paths \<noteq> []"
    using assms(1) unfolding paths_def
    by (auto simp: computeDirtyBackup_def and_then_def assertDirtyBackupComplete_def Let_def seq_eq_Inr
        split: if_splits prod.splits sum.splits)
  note c = compute_entries_tree [OF es, folded paths_def] and v = build_manifest [OF b, unfolded backup_input_fld elements.simps]
  have k: "copy_entry x = x" if "x \<in> captured sha256 T ` set paths" for x using that by (auto simp: captured_def)
  show "w' = w" "paths \<noteq> []" "distinct paths" "\<forall>p \<in> set paths. typeof_string p \<and> T (str_of p) \<noteq> None"
    "is_ok (validateWorkspaceManifest sha256 m)" using c ne v(1) by auto
  show "set (elements (fld m ''entries'')) = captured sha256 T ` set paths"
    using v(2) k by (simp add: c(2) image_image)
  show "length (elements (fld m ''entries'')) = length paths" using v(2) by (simp add: c(2))
  show "\<forall>k \<in> set (butlast DIRTY_BACKUP_REQUEST_KEYS). fld m k = fld request k" using v(3) backup_input_fld(2) by metis
qed

text \<open>C36. A dirty backup that is reported as taken is complete: its manifest is valid and of the requested workspace and
  generation, it has one entry for each requested path and no other, there is at least one, and every
  entry carries the size and the digest of the bytes of its file.\<close>

theorem dirty_backup_complete:
  assumes "computeDirtyBackup sha256 (tree_reader T) request w = (Inr m, w')"
  shows "is_ok (validateWorkspaceManifest sha256 m) \<and>
    (\<forall>k \<in> set (butlast DIRTY_BACKUP_REQUEST_KEYS). fld m k = fld request k) \<and>
    elements (fld request ''relativePaths'') \<noteq> [] \<and> distinct (elements (fld request ''relativePaths'')) \<and>
    length (elements (fld m ''entries'')) = length (elements (fld request ''relativePaths'')) \<and>
    (\<forall>p \<in> set (elements (fld request ''relativePaths'')). \<exists>b. T (str_of p) = Some b \<and>
       file_entry p (JInt (int (length b))) (JStr (sha256 b)) \<in> set (elements (fld m ''entries'')))"
proof -
  note a = dirty_backup_tree [OF assms]
  have "\<exists>b. T (str_of p) = Some b \<and> file_entry p (JInt (int (length b))) (JStr (sha256 b)) \<in> set (elements (fld m ''entries''))"
    if "p \<in> set (elements (fld request ''relativePaths''))" for p
  proof -
    have "captured sha256 T p \<in> set (elements (fld m ''entries''))" using a(3) that by simp
    moreover obtain b where "T (str_of p) = Some b" using a(7) \<open>p \<in> _\<close> by blast
    ultimately show ?thesis by (simp add: captured_def)
  qed
  with a(2,4,5,6,8) show ?thesis by blast
qed

lemma verify_entries_tree:
  "is_ok (fst (verify_entries sha256 (tree_reader T) es n w)) \<longleftrightarrow>
     (\<forall>e \<in> set es. \<exists>b. T (entry_path e) = Some b \<and> js_eq (JInt (int (length b))) (fld e ''size'') \<and>
        js_eq (JStr (sha256 b)) (fld e ''sha256''))"
proof (induction es arbitrary: n w)
  case (Cons e es)
  show ?case
  proof (cases "T (entry_path e)")
    case None
    then show ?thesis by (simp add: tree_reader_simps)
  next
    case (Some b)
    then show ?thesis using Cons.IH [of "Suc n" w] by (simp add: tree_reader_simps)
  qed
qed simp

text \<open>A backup detects every later change of its files, up to collisions of SHA-256: verification succeeds on the
  tree it was taken from, and where it succeeds on another tree every file of the backup has the same bytes
  as when it was taken.\<close>

theorem backup_detects_changes:
  assumes "computeDirtyBackup sha256 (tree_reader T) request w = (Inr m, w')"
  shows "is_ok (fst (verifyManifestAgainst sha256 (tree_reader T) m w')) \<and>
    (is_ok (fst (verifyManifestAgainst sha256 (tree_reader T') m w')) \<longrightarrow>
      (\<forall>p \<in> set (elements (fld request ''relativePaths'')). T' (str_of p) = T (str_of p) \<or>
         collides sha256 (the (T (str_of p))) (the (T' (str_of p)))))"
proof -
  note a = dirty_backup_tree [OF assms]
  obtain x where x: "validateWorkspaceManifest sha256 m = Inr x" using a(2) by (auto simp: is_ok_iff)
  have v: "is_ok (fst (verifyManifestAgainst sha256 (tree_reader S) m w')) \<longleftrightarrow>
      (\<forall>p \<in> set (elements (fld request ''relativePaths'')). \<exists>b. S (str_of p) = Some b \<and>
         length b = length (the (T (str_of p))) \<and> sha256 b = sha256 (the (T (str_of p))))" for S
    by (simp add: verifyManifestAgainst_def verify_entries_tree captured_def x a(3))
  have "S (str_of p) = T (str_of p) \<or> collides sha256 (the (T (str_of p))) (the (S (str_of p)))"
    if "T (str_of p) \<noteq> None" "S (str_of p) = Some b" "sha256 b = sha256 (the (T (str_of p)))" for S p b
    using that by (auto simp: collides_def)
  then show ?thesis unfolding v using a(7) by fastforce
qed

end
