(* ===== verification/Generation_Storage.thy ===== *)
theory Generation_Storage
  imports Generation_Publisher
begin

text \<open>
  The storage io of \<^verbatim>\<open>daemon/src/workspace-generation-storage-io.js\<close> over a model of the \<open>fs/promises\<close>
  calls it makes.  A file is named by its directory and its name in it; a call may fail with a
  code drawn from a script of faults, and a failing write leaves a prefix of the data behind.
  Directories are taken to exist, so \<open>ensureDir\<close> has no effect.  The suffix of a temporary name
  (process id, counter and random bytes) is a parameter, as are the platform test and \<open>JSON.parse\<close>.
\<close>

section \<open>The file system\<close>

type_synonym location = "jsstr \<times> jsstr"

datatype fault = Done | Fault (fault_code: string) nat

record fs =
  files :: "(location \<times> bytes) list"
  faults :: "fault list"
  tempCounter :: nat

definition next_fault :: "fs \<Rightarrow> fault \<times> fs" where
  "next_fault w = (case faults w of [] \<Rightarrow> (Done, w) | f # rest \<Rightarrow> (f, w\<lparr>faults := rest\<rparr>))"

text \<open>A call that either fails or has the given effect.\<close>

definition fs_call :: "(fs \<Rightarrow> (io_error + 'a) \<times> fs) \<Rightarrow> ('a, fs) io" where
  "fs_call f w = (case next_fault w of (Fault k _, w') \<Rightarrow> (Inl (Foreign k), w') | (Done, w') \<Rightarrow> f w')"

definition readFile :: "location \<Rightarrow> (bytes, fs) io" where
  "readFile p = fs_call (\<lambda>w. case map_of (files w) p of
     None \<Rightarrow> (Inl (Foreign ''ENOENT''), w) | Some b \<Rightarrow> (Inr b, w))"

definition open_wx :: "location \<Rightarrow> (unit, fs) io" where
  "open_wx p = fs_call (\<lambda>w. if mhas p (files w) then (Inl (Foreign ''EEXIST''), w)
     else (Inr (), w\<lparr>files := mput p [] (files w)\<rparr>))"

definition write_handle :: "location \<Rightarrow> bytes \<Rightarrow> (unit, fs) io" where
  "write_handle p b w = (case next_fault w of
     (Fault k n, w') \<Rightarrow> (Inl (Foreign k), w'\<lparr>files := mput p (take n b) (files w')\<rparr>)
   | (Done, w') \<Rightarrow> (Inr (), w'\<lparr>files := mput p b (files w')\<rparr>))"

definition sync_handle :: "(unit, fs) io" where
  "sync_handle = fs_call (\<lambda>w. (Inr (), w))"

definition open_directory :: "(unit, fs) io" where
  "open_directory = fs_call (\<lambda>w. (Inr (), w))"

definition rename :: "location \<Rightarrow> location \<Rightarrow> (unit, fs) io" where
  "rename p q = fs_call (\<lambda>w. case map_of (files w) p of
     None \<Rightarrow> (Inl (Foreign ''ENOENT''), w)
   | Some b \<Rightarrow> (Inr (), w\<lparr>files := mput q b (mdel p (files w))\<rparr>))"

definition unlink :: "location \<Rightarrow> (unit, fs) io" where
  "unlink p = fs_call (\<lambda>w. if mhas p (files w) then (Inr (), w\<lparr>files := mdel p (files w)\<rparr>)
     else (Inl (Foreign ''ENOENT''), w))"

section \<open>The atomic pointer io\<close>

definition readBytesOrNull :: "location \<Rightarrow> (bytes option, fs) io" where
  "readBytesOrNull p w = (case readFile p w of
     (Inr b, w') \<Rightarrow> (Inr (Some b), w')
   | (Inl (Foreign k), w') \<Rightarrow> (if k = ''ENOENT'' then Inr None else Inl (Foreign k), w')
   | (Inl (Own e), w') \<Rightarrow> (Inl (Own e), w'))"

definition temp_location :: "(nat \<Rightarrow> jsstr) \<Rightarrow> location \<Rightarrow> nat \<Rightarrow> location" where
  "temp_location suffix p n = (fst p, snd p @ js ''.'' @ suffix n @ js ''.tmp'')"

definition io_then :: "('a, fs) io \<Rightarrow> ('a \<Rightarrow> ('b, fs) io) \<Rightarrow> ('b, fs) io" where
  "io_then m f w = (case m w of (Inl e, w') \<Rightarrow> (Inl e, w') | (Inr x, w') \<Rightarrow> f x w')"

definition storage_writeTemp :: "(nat \<Rightarrow> jsstr) \<Rightarrow> location \<Rightarrow> bytes \<Rightarrow> (location, fs) io" where
  "storage_writeTemp suffix p b w =
     (let n = Suc (tempCounter w); t = temp_location suffix p n in
      io_then (open_wx t) (\<lambda>_. io_then (write_handle t b) (\<lambda>_ w'. (Inr t, w'))) (w\<lparr>tempCounter := n\<rparr>))"

definition unsupported :: "string \<Rightarrow> bool" where
  "unsupported k \<longleftrightarrow> k = ''EISDIR'' \<or> k = ''EBADF'' \<or> k = ''EINVAL''"

text \<open>A refusal to open or to sync the directory is ignored when the platform cannot do it.\<close>

definition tolerate :: "(unit, fs) io \<Rightarrow> (bool, fs) io" where
  "tolerate m w = (case m w of
     (Inr _, w') \<Rightarrow> (Inr True, w')
   | (Inl (Foreign k), w') \<Rightarrow> (if unsupported k then Inr False else Inl (Foreign k), w')
   | (Inl (Own e), w') \<Rightarrow> (Inl (Own e), w'))"

definition storage_flushParent :: "bool \<Rightarrow> (unit, fs) io" where
  "storage_flushParent win32 w =
     (if win32 then (Inr (), w)
      else io_then (tolerate open_directory) (\<lambda>opened.
        if \<not> opened then (\<lambda>w'. (Inr (), w')) else io_then (tolerate sync_handle) (\<lambda>_ w'. (Inr (), w'))) w)"

definition createAtomicPointerIo :: "bool \<Rightarrow> (nat \<Rightarrow> jsstr) \<Rightarrow> location \<Rightarrow> (location, fs) pointer_io" where
  "createAtomicPointerIo win32 suffix p =
     \<lparr>readLivePointer = readBytesOrNull p, writeTemp = storage_writeTemp suffix p, flushTemp = (\<lambda>t. sync_handle),
      replace = (\<lambda>t. rename t p), flushParent = storage_flushParent win32\<rparr>"

text \<open>\<open>sweepLeftoverTemps\<close>: every sibling whose name has the temporary pattern is unlinked; all
  unlinks are started, and a failure other than a missing file is reported.\<close>

definition is_temp_name :: "jsstr \<Rightarrow> jsstr \<Rightarrow> bool" where
  "is_temp_name base nm \<longleftrightarrow> take (length base + 1) nm = base @ js ''.'' \<and>
     drop (length nm - 4) nm = js ''.tmp'' \<and> 4 \<le> length nm"

fun unlink_all :: "location list \<Rightarrow> (unit, fs) io" where
  "unlink_all [] w = (Inr (), w)"
| "unlink_all (p # ps) w =
     (let (r, w1) = unlink p w; (r', w2) = unlink_all ps w1 in
      (case r of
         Inl (Foreign k) \<Rightarrow> if k = ''ENOENT'' then r' else Inl (Foreign k)
       | Inl (Own e) \<Rightarrow> Inl (Own e)
       | Inr _ \<Rightarrow> r', w2))"

definition sweepLeftoverTemps :: "location \<Rightarrow> (unit, fs) io" where
  "sweepLeftoverTemps p w = (case next_fault w of
     (Fault k _, w') \<Rightarrow> (if k = ''ENOENT'' then Inr () else Inl (Foreign k), w')
   | (Done, w') \<Rightarrow> unlink_all (filter (\<lambda>l. fst l = fst p \<and> is_temp_name (snd p) (snd l)) (map fst (files w'))) w')"

section \<open>The storage of one workspace\<close>

text \<open>\<open>path.join\<close> of a root, a directory entry and a fixed name.\<close>

definition workspace_dir :: "jsstr \<Rightarrow> jsstr \<Rightarrow> string \<Rightarrow> jsstr" where
  "workspace_dir workspaceRoot workspaceId part = workspaceRoot @ js ''/'' @ workspaceId @ js ''/'' @ js part"

definition live_location :: "jsstr \<Rightarrow> jsstr \<Rightarrow> location" where
  "live_location workspaceRoot workspaceId = (workspace_dir workspaceRoot workspaceId ''generation'', js ''live.ptr'')"

definition createGenerationPublisherIo ::
  "bool \<Rightarrow> (nat \<Rightarrow> jsstr) \<Rightarrow> jsstr \<Rightarrow> jsstr \<Rightarrow> (location, fs) pointer_io" where
  "createGenerationPublisherIo win32 suffix workspaceRoot workspaceId =
     createAtomicPointerIo win32 suffix (live_location workspaceRoot workspaceId)"

definition lift_io :: "js_error + 'a \<Rightarrow> ('a, fs) io" where
  "lift_io r w = (map_sum Own id r, w)"

definition pointer_or_null :: "(bytes \<Rightarrow> jsstr) \<Rightarrow> bytes option \<Rightarrow> js_error + jsval" where
  "pointer_or_null sha256 b = (case b of None \<Rightarrow> Inr JNull | Some x \<Rightarrow> parseGenerationPointer sha256 x)"

text \<open>\<open>JSON.parse\<close> throws on malformed text; only a missing file reads as \<open>null\<close>.\<close>

definition readJsonOrNull :: "(bytes \<Rightarrow> jsval option) \<Rightarrow> location \<Rightarrow> (jsval, fs) io" where
  "readJsonOrNull jsonParse p = io_then (readBytesOrNull p) (\<lambda>b.
     case b of
       None \<Rightarrow> lift_io (Inr JNull)
     | Some x \<Rightarrow> (case jsonParse x of Some v \<Rightarrow> lift_io (Inr v) | None \<Rightarrow> lift_io (Inl (SyntaxError (js ''JSON.parse'')))))"

definition readSnapshotInputs ::
  "(bytes \<Rightarrow> jsstr) \<Rightarrow> (bytes \<Rightarrow> jsval option) \<Rightarrow> jsstr \<Rightarrow> jsstr \<Rightarrow> (jsval, fs) io" where
  "readSnapshotInputs sha256 jsonParse workspaceRoot workspaceId =
     (let gdir = workspace_dir workspaceRoot workspaceId ''generation''; ldir = workspace_dir workspaceRoot workspaceId ''lifecycle'' in
      io_then (readBytesOrNull (gdir, js ''live.ptr'')) (\<lambda>liveBytes.
      io_then (readBytesOrNull (gdir, js ''prior.ptr'')) (\<lambda>priorBytes.
      io_then (readBytesOrNull (gdir, js ''candidate.ptr'')) (\<lambda>candidateBytes.
      io_then (readJsonOrNull jsonParse (ldir, js ''checkpoint.json'')) (\<lambda>checkpoint.
      io_then (readJsonOrNull jsonParse (ldir, js ''transaction.json'')) (\<lambda>transaction.
      io_then (readJsonOrNull jsonParse (ldir, js ''manual-cleanup.json'')) (\<lambda>manualCleanup.
        lift_io (
          seq (pointer_or_null sha256 liveBytes) (\<lambda>live.
          seq (pointer_or_null sha256 priorBytes) (\<lambda>prior.
          seq (pointer_or_null sha256 candidateBytes) (\<lambda>candidate.
          Inr (record_of [(''livePointer'', live), (''priorPointer'', prior), (''candidatePointer'', candidate),
            (''checkpoint'', checkpoint), (''transaction'', transaction), (''manualCleanup'', manualCleanup)]))))))))))))"

section \<open>The manual-cleanup record\<close>

datatype cleanup_outcome = Published | Refused io_error bool

definition publish_cleanup ::
  "(bytes \<Rightarrow> jsstr) \<Rightarrow> bool \<Rightarrow> (nat \<Rightarrow> jsstr) \<Rightarrow> location \<Rightarrow> jsval \<Rightarrow> fs \<Rightarrow> cleanup_outcome \<times> fs" where
  "publish_cleanup sha256 win32 suffix p mc w =
     (case seq (validateManualCleanup sha256 mc) (\<lambda>_. canonicalJsonBytes STRICT_JSON_LIMITS mc) of
        Inl e \<Rightarrow> (Refused (Own e) False, w)
      | Inr b \<Rightarrow>
         (case readBytesOrNull p w of
            (Inl e, w1) \<Rightarrow> (Refused e False, w1)
          | (Inr (Some old), w1) \<Rightarrow>
              (if old = b then Published
               else Refused (Own (CodedError ''WORKSPACE_LIFECYCLE_JOURNAL_CONFLICT'' (js ''manual-cleanup record already exists''))) False, w1)
          | (Inr None, w1) \<Rightarrow>
             (case io_then (storage_writeTemp suffix p b) (\<lambda>t. io_then sync_handle (\<lambda>_. rename t p)) w1 of
                (Inl e, w2) \<Rightarrow> (Refused e False, w2)
              | (Inr _, w2) \<Rightarrow>
                 (case storage_flushParent win32 w2 of
                    (Inl e, w3) \<Rightarrow> (Refused e True, w3)
                  | (Inr _, w3) \<Rightarrow> (Published, w3)))))"

definition clear_cleanup :: "bool \<Rightarrow> location \<Rightarrow> (unit, fs) io" where
  "clear_cleanup win32 p w =
     (case unlink p w of
        (Inl (Foreign k), w1) \<Rightarrow> if k = ''ENOENT'' then storage_flushParent win32 w1 else (Inl (Foreign k), w1)
      | (Inl (Own e), w1) \<Rightarrow> (Inl (Own e), w1)
      | (Inr _, w1) \<Rightarrow> storage_flushParent win32 w1)"

section \<open>The storage io is an atomic pointer\<close>

text \<open>\<open>ENOENT\<close> is reported for missing files only.\<close>

definition honest_faults :: "fs \<Rightarrow> bool" where
  "honest_faults w \<longleftrightarrow> list_all (\<lambda>f. \<forall>n. f \<noteq> Fault ''ENOENT'' n) (faults w)"

definition outside :: "(nat \<Rightarrow> jsstr) \<Rightarrow> location \<Rightarrow> location \<Rightarrow> bool" where
  "outside suffix p q \<longleftrightarrow> q \<noteq> p \<and> (\<forall>n. q \<noteq> temp_location suffix p n)"

definition keeps :: "(nat \<Rightarrow> jsstr) \<Rightarrow> location \<Rightarrow> (location \<Rightarrow> bytes option) \<Rightarrow> fs \<Rightarrow> bool" where
  "keeps suffix p g w \<longleftrightarrow> honest_faults w \<and> (\<forall>q. outside suffix p q \<longrightarrow> map_of (files w) q = g q)"

definition temp_holds :: "(nat \<Rightarrow> jsstr) \<Rightarrow> location \<Rightarrow> location \<Rightarrow> bytes \<Rightarrow> fs \<Rightarrow> bool" where
  "temp_holds suffix p t b w \<longleftrightarrow> (\<exists>n. t = temp_location suffix p n) \<and> map_of (files w) t = Some b"

lemma temp_neq [simp]: "temp_location suffix p n \<noteq> p" "p \<noteq> temp_location suffix p n"
  by (cases p; simp add: temp_location_def)+

lemma temp_not_outside [simp]: "\<not> outside suffix p (temp_location suffix p n)" "\<not> outside suffix p p"
  by (auto simp: outside_def)

lemma temp_holds_temp [simp]:
  "temp_holds suffix p (temp_location suffix p n) b w \<longleftrightarrow> map_of (files w) (temp_location suffix p n) = Some b"
  by (auto simp: temp_holds_def)

lemma next_fault_spec:
  "next_fault w = (f, w') \<Longrightarrow> files w' = files w \<and> tempCounter w' = tempCounter w \<and>
     (honest_faults w \<longrightarrow> honest_faults w' \<and> (\<forall>n. f \<noteq> Fault ''ENOENT'' n))"
  by (auto simp: next_fault_def honest_faults_def split: list.splits)

lemma keeps_files: "files w' = files w \<Longrightarrow> honest_faults w' \<Longrightarrow> keeps suffix p g w \<Longrightarrow> keeps suffix p g w'"
  by (simp add: keeps_def)

text \<open>A call without an effect on the files.\<close>

lemma fs_call_pure:
  assumes "fs_call (\<lambda>w. (f w, w)) w = (r, w')" "honest_faults w"
  shows "files w' = files w \<and> tempCounter w' = tempCounter w \<and> honest_faults w' \<and>
    (r = f w' \<or> (\<exists>k. r = Inl (Foreign k) \<and> k \<noteq> ''ENOENT''))"
proof -
  obtain f1 w1 where 1: "next_fault w = (f1, w1)" by force
  note s = next_fault_spec [OF 1]
  show ?thesis
  proof (cases f1)
    case Done
    then have "r = f w'" "w' = w1" using assms(1) 1 by (auto simp: fs_call_def)
    then show ?thesis using s assms(2) by blast
  next
    case (Fault k n)
    then have "r = Inl (Foreign k)" "w' = w1" using assms(1) 1 by (auto simp: fs_call_def)
    moreover have "k \<noteq> ''ENOENT''" using s assms(2) Fault by blast
    ultimately show ?thesis using s assms(2) by blast
  qed
qed

lemma readBytesOrNull_spec:
  assumes "readBytesOrNull p w = (r, w')" "honest_faults w"
  shows "files w' = files w \<and> tempCounter w' = tempCounter w \<and> honest_faults w' \<and> (\<forall>x. r = Inr x \<longrightarrow> x = map_of (files w) p)"
proof -
  let ?f = "\<lambda>w. case map_of (files w) p of None \<Rightarrow> Inl (Foreign ''ENOENT'') | Some b \<Rightarrow> Inr b"
  have rf: "readFile p = fs_call (\<lambda>w. (?f w, w))"
    unfolding readFile_def by (rule arg_cong [of _ _ fs_call]) (auto split: option.splits)
  obtain r1 w1 where 1: "readFile p w = (r1, w1)" by force
  have "files w1 = files w \<and> tempCounter w1 = tempCounter w \<and> honest_faults w1 \<and>
      (r1 = ?f w1 \<or> (\<exists>k. r1 = Inl (Foreign k) \<and> k \<noteq> ''ENOENT''))"
    by (rule fs_call_pure) (use 1 assms(2) rf in auto)
  then show ?thesis using assms(1) 1 by (auto simp: readBytesOrNull_def split: option.splits)
qed

lemma sync_handle_spec:
  assumes "sync_handle w = (r, w')" "honest_faults w"
  shows "files w' = files w \<and> tempCounter w' = tempCounter w \<and> honest_faults w'"
  using fs_call_pure [of "\<lambda>w. Inr ()"] assms by (auto simp: sync_handle_def)

lemma tolerate_spec:
  assumes "tolerate sync_handle w = (r, w')" "honest_faults w"
  shows "files w' = files w \<and> tempCounter w' = tempCounter w \<and> honest_faults w'"
proof -
  obtain r1 w1 where 1: "sync_handle w = (r1, w1)" by force
  then have "w' = w1" using assms(1) by (auto simp: tolerate_def split: sum.splits io_error.splits)
  then show ?thesis using sync_handle_spec [OF 1 assms(2)] by simp
qed

lemma open_directory_sync: "open_directory = sync_handle"
  by (simp add: open_directory_def sync_handle_def)

lemma flushParent_files:
  assumes "storage_flushParent win32 w = (r, w')" "honest_faults w"
  shows "files w' = files w \<and> tempCounter w' = tempCounter w \<and> honest_faults w'"
proof (cases win32)
  case True
  then show ?thesis using assms by (simp add: storage_flushParent_def)
next
  case False
  obtain r1 w1 where 1: "tolerate sync_handle w = (r1, w1)" by force
  obtain r2 w2 where 2: "tolerate sync_handle w1 = (r2, w2)" by force
  have "w' = w1 \<or> w' = w2"
    using assms(1) False 1 2
    by (auto simp: storage_flushParent_def open_directory_sync io_then_def split: sum.splits if_splits)
  then show ?thesis using tolerate_spec [OF 1 assms(2)] tolerate_spec [OF 2] by auto
qed

lemma keeps_honest: "keeps suffix p g w \<Longrightarrow> honest_faults w"
  by (simp add: keeps_def)

lemma keeps_mput_temp:
  "keeps suffix p g w \<Longrightarrow> keeps suffix p g (w\<lparr>files := mput (temp_location suffix p n) b (files w)\<rparr>)"
  by (auto simp: keeps_def outside_def honest_faults_def)

lemma open_wx_spec:
  assumes "open_wx (temp_location suffix p n) w = (r, w')" "keeps suffix p g w"
  shows "keeps suffix p g w' \<and> map_of (files w') p = map_of (files w) p"
proof -
  obtain f1 w1 where 1: "next_fault w = (f1, w1)" by force
  note s = next_fault_spec [OF 1]
  have k: "keeps suffix p g w1" "files w1 = files w" using s assms(2) by (auto simp: keeps_def)
  show ?thesis
    using assms(1) 1 k
      keeps_mput_temp [OF k(1), of n "[]"]
    by (cases f1) (auto simp: open_wx_def fs_call_def split: if_splits)
qed

lemma write_handle_spec:
  assumes "write_handle (temp_location suffix p n) b w = (r, w')" "keeps suffix p g w"
  shows "keeps suffix p g w' \<and> map_of (files w') p = map_of (files w) p \<and>
    (is_ok r \<longrightarrow> map_of (files w') (temp_location suffix p n) = Some b)"
proof -
  obtain f1 w1 where 1: "next_fault w = (f1, w1)" by force
  note s = next_fault_spec [OF 1]
  have k: "keeps suffix p g w1" "files w1 = files w" using s assms(2) by (auto simp: keeps_def)
  show ?thesis
    using assms(1) 1 k
      keeps_mput_temp [OF k(1), of n]
    by (cases f1) (auto simp: write_handle_def)
qed

lemma storage_writeTemp_spec:
  assumes "storage_writeTemp suffix p b w = (r, w')" "keeps suffix p g w"
  shows "keeps suffix p g w' \<and> map_of (files w') p = map_of (files w) p \<and>
    (\<forall>t. r = Inr t \<longrightarrow> temp_holds suffix p t b w')"
proof -
  let ?n = "Suc (tempCounter w)"
  let ?t = "temp_location suffix p ?n" and ?w = "w\<lparr>tempCounter := ?n\<rparr>"
  have k: "keeps suffix p g ?w" using assms(2) by (simp add: keeps_def honest_faults_def)
  obtain r1 w1 where 1: "open_wx ?t ?w = (r1, w1)" by force
  note s1 = open_wx_spec [OF 1 k]
  obtain r2 w2 where 2: "write_handle ?t b w1 = (r2, w2)" by force
  note s2 = write_handle_spec [OF 2 s1 [THEN conjunct1]]
  have "(r, w') = (case r1 of Inl e \<Rightarrow> (Inl e, w1) | Inr _ \<Rightarrow> (case r2 of Inl e \<Rightarrow> (Inl e, w2) | Inr _ \<Rightarrow> (Inr ?t, w2)))"
    using assms(1) 1 2 by (simp add: storage_writeTemp_def io_then_def Let_def split: sum.splits)
  then show ?thesis
    using s1 s2 by (cases r1; cases r2) (simp_all add: temp_holds_temp)
qed

lemma rename_spec:
  assumes "rename t p w = (r, w')" "keeps suffix p g w" "temp_holds suffix p t b w"
  shows "keeps suffix p g w' \<and>
    (case r of Inl _ \<Rightarrow> map_of (files w') p = map_of (files w) p | Inr _ \<Rightarrow> map_of (files w') p = Some b)"
proof -
  obtain f1 w1 where 1: "next_fault w = (f1, w1)" by force
  note s = next_fault_spec [OF 1]
  have k: "keeps suffix p g w1" "files w1 = files w" using s assms(2) by (auto simp: keeps_def)
  obtain n where t: "t = temp_location suffix p n" "map_of (files w) t = Some b" using assms(3) by (auto simp: temp_holds_def)
  show ?thesis
  proof (cases f1)
    case Done
    then have "r = Inr ()" "w' = w1\<lparr>files := mput p b (mdel t (files w))\<rparr>"
      using assms(1) 1 k(2) t(2) by (simp_all add: rename_def fs_call_def del: map_of_eq_Some_iff)
    moreover have "keeps suffix p g (w1\<lparr>files := mput p b (mdel t (files w))\<rparr>)"
      using k t(1) by (auto simp: keeps_def outside_def honest_faults_def)
    ultimately show ?thesis by simp
  next
    case (Fault c m)
    then have "r = Inl (Foreign c)" "w' = w1" using assms(1) 1 by (auto simp: rename_def fs_call_def)
    then show ?thesis using k by simp
  qed
qed

interpretation storage: atomic_pointer "createAtomicPointerIo win32 suffix p" "\<lambda>w. map_of (files w) p"
    "temp_holds suffix p" "keeps suffix p g"
  for win32 suffix p g
proof
  fix w w' rd
  assume "keeps suffix p g w" "readLivePointer (createAtomicPointerIo win32 suffix p) w = (rd, w')"
  then show "keeps suffix p g w' \<and> map_of (files w') p = map_of (files w) p \<and> (\<forall>x. rd = Inr x \<longrightarrow> x = map_of (files w) p)"
    using readBytesOrNull_spec [of p w rd w'] by (auto simp: createAtomicPointerIo_def keeps_def)
next
  fix w b w' wt
  assume "keeps suffix p g w" "writeTemp (createAtomicPointerIo win32 suffix p) b w = (wt, w')"
  then show "keeps suffix p g w' \<and> map_of (files w') p = map_of (files w) p \<and> (\<forall>t. wt = Inr t \<longrightarrow> temp_holds suffix p t b w')"
    using storage_writeTemp_spec by (simp add: createAtomicPointerIo_def)
next
  fix w t b w' ft
  assume "keeps suffix p g w" "temp_holds suffix p t b w" "flushTemp (createAtomicPointerIo win32 suffix p) t w = (ft, w')"
  then show "keeps suffix p g w' \<and> map_of (files w') p = map_of (files w) p \<and> temp_holds suffix p t b w'"
    using sync_handle_spec [of w ft w'] by (auto simp: createAtomicPointerIo_def keeps_def temp_holds_def)
next
  fix w t b w' rp
  assume "keeps suffix p g w" "temp_holds suffix p t b w" "replace (createAtomicPointerIo win32 suffix p) t w = (rp, w')"
  then show "keeps suffix p g w' \<and>
      (case rp of Inl _ \<Rightarrow> map_of (files w') p = map_of (files w) p | Inr _ \<Rightarrow> map_of (files w') p = Some b)"
    using rename_spec by (simp add: createAtomicPointerIo_def)
next
  fix w w' fp
  assume "keeps suffix p g w" "flushParent (createAtomicPointerIo win32 suffix p) w = (fp, w')"
  then show "keeps suffix p g w' \<and> map_of (files w') p = map_of (files w) p"
    using flushParent_files [of win32 w fp w'] by (auto simp: createAtomicPointerIo_def keeps_def)
qed

section \<open>Publication over the storage\<close>

lemma publish_storage:
  assumes "honest_faults w" "distinct_keys new"
    and "publishGeneration sha256 (createAtomicPointerIo win32 suffix p) new w = (r, w')"
  shows "honest_faults w'" "outside suffix p q \<Longrightarrow> map_of (files w') q = map_of (files w) q"
    "map_of (files w') p = map_of (files w) p \<and> \<not> is_ok r \<or>
     map_of (files w') p = Some (utf8 (render new)) \<and> is_ok (validateGenerationPointer sha256 new) \<and>
       (\<exists>c. live_pointer sha256 (map_of (files w) p) c \<and> follows new c)"
proof -
  have "keeps suffix p (map_of (files w)) w" using assms(1) by (simp add: keeps_def)
  note a = storage.publish_atomic [OF this assms(2,3)]
  from a show "honest_faults w'" "outside suffix p q \<Longrightarrow> map_of (files w') q = map_of (files w) q"
    unfolding keeps_def by blast+
  from a show "map_of (files w') p = map_of (files w) p \<and> \<not> is_ok r \<or>
     map_of (files w') p = Some (utf8 (render new)) \<and> is_ok (validateGenerationPointer sha256 new) \<and>
       (\<exists>c. live_pointer sha256 (map_of (files w) p) c \<and> follows new c)" by blast
qed

text \<open>C4. A publication that fails or crashes at any step leaves the live pointer file exactly as it was or
  holding the complete new pointer, never a torn one: if it changed, the new pointer is the immediate
  successor of the one that was live and reads back; success is reported only in that case; and no
  file but the live pointer and temporary siblings is touched.\<close>

theorem publication_crash_safe:
  assumes "honest_faults w" "distinct_keys new"
    and "publishGeneration sha256 (createAtomicPointerIo win32 suffix p) new w = (r, w')"
  shows "(map_of (files w') p = map_of (files w) p \<and> \<not> is_ok r \<or>
      (\<exists>c. live_pointer sha256 (map_of (files w) p) c \<and> follows new c) \<and>
      live_pointer sha256 (map_of (files w') p) (Some (canon new))) \<and>
    (outside suffix p q \<longrightarrow> map_of (files w') q = map_of (files w) q)"
  using publish_storage [OF assms] pointer_stored(2) [OF _ assms(2), of sha256]
  by (auto simp: live_pointer_def)

text \<open>A run of publications, each with its own outcome, over one live pointer.\<close>

fun publish_run ::
  "(bytes \<Rightarrow> jsstr) \<Rightarrow> (location, fs) pointer_io \<Rightarrow> jsval list \<Rightarrow> fs \<Rightarrow> (js_error + published) list \<times> fs" where
  "publish_run sha256 io [] w = ([], w)"
| "publish_run sha256 io (new # news) w =
     (let (r, w1) = publishGeneration sha256 io new w; (rs, w2) = publish_run sha256 io news w1 in (r # rs, w2))"

definition generation_of :: "jsval option \<Rightarrow> int" where
  "generation_of c = (case c of None \<Rightarrow> 0 | Some p \<Rightarrow> int_of (fld p ''activeGeneration''))"

lemma follows_generation:
  assumes "follows new c" "is_ok (validateGenerationPointer sha256 new)"
  shows "int_of (fld new ''activeGeneration'') = generation_of c + 1"
proof (cases c)
  case None
  then have "fld new ''priorGeneration'' = JNull" using assms(1) by (simp add: follows_def)
  then have "fld new ''activeGeneration'' = JInt 1"
    using pointer_accepted(15) [OF assms(2)] by (simp add: prior_ok_def)
  then show ?thesis using None by (simp add: generation_of_def)
next
  case (Some x)
  then have f: "fld new ''priorGeneration'' = fld x ''activeGeneration''" "fld new ''priorPointerFingerprint'' = fld x ''pointerFingerprint''"
    using assms(1) by (simp_all add: follows_def)
  note a = pointer_accepted [OF assms(2)]
  show ?thesis
  proof (cases "fld new ''priorGeneration'' = JNull")
    case True
    then have "fld new ''activeGeneration'' = JInt 1" using a(15) by (simp add: prior_ok_def)
    then show ?thesis using True f(1) Some by (simp add: generation_of_def)
  next
    case False
    then show ?thesis using a(15) f(1) Some by (simp add: prior_ok_def generation_of_def)
  qed
qed

lemma publish_generation_step:
  assumes "honest_faults w" "distinct_keys new" "live_pointer sha256 (map_of (files w) p) c"
    and "publishGeneration sha256 (createAtomicPointerIo win32 suffix p) new w = (r, w')"
  shows "\<exists>c'. live_pointer sha256 (map_of (files w') p) c' \<and>
    (c' = c \<and> \<not> is_ok r \<or> generation_of c' = generation_of c + 1)"
proof -
  have u: "d = c" if "live_pointer sha256 (map_of (files w) p) d" for d
    using that assms(3) by (auto simp: live_pointer_def split: option.splits)
  from publish_storage(3) [OF assms(1,2,4)] show ?thesis
  proof
    assume "map_of (files w') p = map_of (files w) p \<and> \<not> is_ok r"
    with assms(3) show ?thesis by auto
  next
    assume n: "map_of (files w') p = Some (utf8 (render new)) \<and> is_ok (validateGenerationPointer sha256 new) \<and>
       (\<exists>d. live_pointer sha256 (map_of (files w) p) d \<and> follows new d)"
    then have "live_pointer sha256 (map_of (files w') p) (Some (canon new))"
      using pointer_stored(2) [OF _ assms(2)] by (simp add: live_pointer_def)
    moreover have "generation_of (Some (canon new)) = generation_of c + 1"
      using n u follows_generation pointer_canon(2) [OF _ assms(2), of sha256 "''activeGeneration''"]
      by (auto simp: generation_of_def POINTER_KEYS_def)
    ultimately show ?thesis by blast
  qed
qed

text \<open>C13. The publisher refines a register that only ever moves to the next generation: over any sequence
  of publications with any faults the live pointer stays readable, its generation never goes back,
  grows by at most one per attempt and by at least one per reported success.\<close>

theorem generations_advance_one_by_one:
  assumes "honest_faults w" "list_all distinct_keys news" "live_pointer sha256 (map_of (files w) p) c"
    and "publish_run sha256 (createAtomicPointerIo win32 suffix p) news w = (rs, w')"
  shows "\<exists>c'. live_pointer sha256 (map_of (files w') p) c' \<and>
    generation_of c + int (length (filter is_ok rs)) \<le> generation_of c' \<and> generation_of c' \<le> generation_of c + int (length news)"
  using assms
proof (induction news arbitrary: w c rs)
  case (Cons new news)
  obtain r w1 where 1: "publishGeneration sha256 (createAtomicPointerIo win32 suffix p) new w = (r, w1)" by force
  obtain rs' where 2: "publish_run sha256 (createAtomicPointerIo win32 suffix p) news w1 = (rs', w')" "rs = r # rs'"
    using Cons.prems(4) 1 by (auto split: prod.splits)
  obtain c1 where c1: "live_pointer sha256 (map_of (files w1) p) c1"
    "c1 = c \<and> \<not> is_ok r \<or> generation_of c1 = generation_of c + 1"
    using publish_generation_step [OF Cons.prems(1) _ Cons.prems(3) 1] Cons.prems(2) by auto
  have "honest_faults w1" using publish_storage(1) [OF Cons.prems(1) _ 1] Cons.prems(2) by simp
  from Cons.IH [OF this _ c1(1) 2(1)] Cons.prems(2) obtain c' where c': "live_pointer sha256 (map_of (files w') p) c'"
    "generation_of c1 + int (length (filter is_ok rs')) \<le> generation_of c'"
    "generation_of c' \<le> generation_of c1 + int (length news)" by auto
  have "generation_of c + int (length (filter is_ok rs)) \<le> generation_of c'"
    using c1(2) c'(2) 2(2) by auto
  moreover have "generation_of c' \<le> generation_of c + int (length (new # news))"
    using c1(2) c'(3) by auto
  ultimately show ?case using c'(1) by blast
qed auto

lemma no_faults [simp]: "faults w = [] \<Longrightarrow> next_fault w = (Done, w)"
  by (simp add: next_fault_def)

lemma flushParent_no_faults: "faults w = [] \<Longrightarrow> storage_flushParent win32 w = (Inr (), w)"
  by (simp add: storage_flushParent_def io_then_def tolerate_def open_directory_def sync_handle_def fs_call_def)

lemma read_no_faults: "faults w = [] \<Longrightarrow> readBytesOrNull p w = (Inr (map_of (files w) p), w)"
  by (simp add: readBytesOrNull_def readFile_def fs_call_def split: option.splits)

text \<open>Without faults, and with a fresh temporary name, a successor is published.\<close>

lemma publish_no_faults:
  assumes "faults w = []" "\<not> mhas (temp_location suffix p (Suc (tempCounter w))) (files w)"
    and "is_ok (validateGenerationPointer sha256 new)" "distinct_keys new"
    and "live_pointer sha256 (map_of (files w) p) c" "follows new c"
  shows "\<exists>r w'. publishGeneration sha256 (createAtomicPointerIo win32 suffix p) new w = (Inr r, w') \<and>
    map_of (files w') p = Some (utf8 (render new)) \<and> faults w' = []"
proof -
  let ?io = "createAtomicPointerIo win32 suffix p" and ?b = "utf8 (render new)"
  let ?t = "temp_location suffix p (Suc (tempCounter w))"
  let ?w1 = "w\<lparr>tempCounter := Suc (tempCounter w), files := mput ?t ?b (mput ?t [] (files w))\<rparr>"
  let ?w2 = "?w1\<lparr>files := mput p ?b (mdel ?t (files ?w1))\<rparr>"
  have io: "readLivePointer ?io w = (Inr (map_of (files w) p), w)" "writeTemp ?io ?b w = (Inr ?t, ?w1)"
    "flushTemp ?io ?t ?w1 = (Inr (), ?w1)" "replace ?io ?t ?w1 = (Inr (), ?w2)" "flushParent ?io ?w2 = (Inr (), ?w2)"
    using assms(1,2)
    by (simp_all add: createAtomicPointerIo_def read_no_faults storage_writeTemp_def io_then_def open_wx_def write_handle_def
        sync_handle_def rename_def fs_call_def flushParent_no_faults Let_def del: map_of_eq_Some_iff)
  have "readLiveGeneration sha256 ?io w = (Inr c, w)"
    using assms(5) io(1) by (auto simp: readLiveGeneration_def live_pointer_def split: option.splits)
  moreover have "is_ok (cas_check new c)"
  proof (rule cas_check_follows [OF assms(3), THEN iffD2, OF _ assms(6)])
    fix x assume "c = Some x"
    then show "is_ok (validateGenerationPointer sha256 x)"
      using assms(5) parsed_pointer(1) by (auto simp: live_pointer_def split: option.splits)
  qed
  moreover have "generationPointerBytes sha256 new = Inr ?b" using pointer_stored(1) [OF assms(3,4)] .
  moreover have "run_steps step_failed ?io ?b w = (Inr (), ?w2)"
    using io(2-5) by (simp add: run_steps_def runStep_def and_then_def)
  ultimately have "\<exists>r. publishGeneration sha256 ?io new w = (Inr r, ?w2)"
    using assms(3) by (auto simp: publishGeneration_def and_then_def is_ok_iff)
  then show ?thesis using assms(1) by auto
qed

end
