(* ===== verification/Create_Refresh.thy ===== *)
theory Create_Refresh
  imports Generation_Probe Replay_Window Lease_Fence Backup_Manifest Generation_Storage Wire_Frames
begin

text \<open>
  The publication of workspace generations: \<^verbatim>\<open>daemon/src/workspace-create-operation.js\<close> and
  \<^verbatim>\<open>daemon/src/workspace-refresh-operation.js\<close>, which compose the containment and graph proofs, the manifest, the readiness
  probe, the replay window, the activity fence and the publisher.  What the operations await (containment, git, the
  materialisation, the clock, other tasks) is an argument; the default \<open>hashIdentity\<close> is used, as the daemon does.
\<close>

section \<open>The common part\<close>

definition IDENTITY_LIMITS :: limits where
  "IDENTITY_LIMITS = \<lparr>maxBytes = 16 * 1024, maxDepth = 4, maxNodes = 64\<rparr>"

definition CALLER_DIMENSIONS :: "string list" where
  "CALLER_DIMENSIONS = [''connection'', ''runtime'', ''providerAuth'', ''modelProfile'']"

record generation_state =
  gs_registry :: registry
  gs_fs :: fs
  gs_window :: replay_window

record generation_env =
  ge_others :: "nat \<Rightarrow> registry \<Rightarrow> registry"
  ge_now :: "nat \<Rightarrow> rat"
  ge_clock :: "nat \<Rightarrow> jsnum"
  ge_root :: "io_error + jsval \<times> jsval"
  ge_materialize :: "jsval \<Rightarrow> io_error + unit"
  ge_contained :: "jsval \<Rightarrow> jsval \<Rightarrow> io_error + unit"
  ge_graph :: "jsval \<Rightarrow> jsval \<Rightarrow> io_error + jsval"
  ge_tree :: "jsstr \<Rightarrow> bytes option"

text \<open>\<open>identifyRoot\<close> gives the root and the storage identity; \<open>verifyContained\<close> takes a path and the expected root
  identity; \<open>verifyRepositoryGraph\<close> takes the git directory and the expected graph and gives the generation fingerprint.\<close>

definition op_refuse :: "string \<Rightarrow> string \<Rightarrow> jsstr \<Rightarrow> js_error" where
  "op_refuse operation k reason = CodedError k (js operation @ js '': '' @ js k @ js '': '' @ reason)"

definition REQUEST_STRINGS :: "string list" where
  "REQUEST_STRINGS = [''hostId'', ''workspaceId'', ''sourcePlatform'', ''workDir'', ''generationPath'', ''candidatePath'', ''gitDir'']"

definition request_strings :: "(string \<Rightarrow> jsstr \<Rightarrow> js_error) \<Rightarrow> jsval \<Rightarrow> js_error + unit" where
  "request_strings refuse request = for_each (\<lambda>k. check (isNonEmptyString (fld request k))
     (refuse ''CONFIG_INVALID'' (js ''request.'' @ js k @ js '' must be a non-empty string'')) (Inr ())) REQUEST_STRINGS"

definition request_paths :: "(string \<Rightarrow> jsstr \<Rightarrow> js_error) \<Rightarrow> jsval \<Rightarrow> js_error + unit" where
  "request_paths refuse request = check (isArray (fld request ''manifestPaths'') \<and> elements (fld request ''manifestPaths'') \<noteq> [])
     (refuse ''CONFIG_INVALID'' (js ''request.manifestPaths must be a non-empty array'')) (Inr ())"

definition request_probe :: "(string \<Rightarrow> jsstr \<Rightarrow> js_error) \<Rightarrow> jsval \<Rightarrow> js_error + unit" where
  "request_probe refuse request =
     check (isSafeInteger (fld request ''probedAtMs'') \<and> 0 \<le> int_of (fld request ''probedAtMs''))
       (refuse ''READINESS_TIMESTAMP_INVALID'' (js ''request.probedAtMs must be a non-negative safe integer'')) (
     check (plain (fld request ''readiness'')) (refuse ''CONFIG_INVALID'' (js ''request.readiness must be an object'')) (
     for_each (\<lambda>d. check (plain (fld (fld request ''readiness'') d))
       (refuse ''CONFIG_INVALID'' (js ''request.readiness.'' @ js d @ js '' must be an object'')) (Inr ())) CALLER_DIMENSIONS))"

definition expected_graph :: "jsval \<Rightarrow> jsval" where
  "expected_graph request = (if plain (fld request ''expectedGraph'') then fld request ''expectedGraph'' else record_of [])"

text \<open>The fingerprints, the manifest and the pointer of the candidate generation.\<close>

definition candidate_manifest :: "(bytes \<Rightarrow> jsstr) \<Rightarrow> (jsstr \<Rightarrow> bytes option) \<Rightarrow> jsval \<Rightarrow> jsval \<Rightarrow> jsstr \<Rightarrow> jsstr \<Rightarrow> jsval \<Rightarrow> js_error + jsval" where
  "candidate_manifest sha256 tree request gen rootFp storageFp git =
     seq (fst (computeManifestEntries sha256 (tree_reader tree) (fld request ''manifestPaths'') ())) (\<lambda>es.
     buildWorkspaceManifest sha256 (record_of [(''hostId'', fld request ''hostId''), (''workspaceId'', fld request ''workspaceId''),
       (''workspaceGeneration'', gen), (''sourcePlatform'', fld request ''sourcePlatform''),
       (''rootIdentityFingerprint'', JStr rootFp), (''storageIdentityFingerprint'', JStr storageFp),
       (''gitGenerationFingerprint'', git), (''entries'', JArr es)]))"

definition candidate_pointer :: "(bytes \<Rightarrow> jsstr) \<Rightarrow> jsval \<Rightarrow> jsval \<Rightarrow> jsstr \<Rightarrow> jsstr \<Rightarrow> jsval \<Rightarrow> jsval \<Rightarrow> jsval \<Rightarrow> jsval \<Rightarrow> js_error + jsval" where
  "candidate_pointer sha256 request gen rootFp storageFp git m prior priorFp =
     buildGenerationPointer sha256 (record_of [(''hostId'', fld request ''hostId''), (''workspaceId'', fld request ''workspaceId''),
       (''sourcePlatform'', fld request ''sourcePlatform''), (''activeGeneration'', gen),
       (''generationPath'', fld request ''generationPath''), (''rootIdentityFingerprint'', JStr rootFp),
       (''storageIdentityFingerprint'', JStr storageFp), (''gitGenerationFingerprint'', git),
       (''manifestFingerprint'', fld m ''manifestFingerprint''), (''priorGeneration'', prior), (''priorPointerFingerprint'', priorFp)])"

definition candidate :: "(bytes \<Rightarrow> jsstr) \<Rightarrow> generation_env \<Rightarrow> jsval \<Rightarrow> jsval \<times> jsval \<Rightarrow> jsval \<Rightarrow> jsval \<Rightarrow> jsval \<Rightarrow> jsval \<Rightarrow> js_error + jsval \<times> jsval" where
  "candidate sha256 env request proof git gen prior priorFp =
     seq (canonicalJsonHash sha256 IDENTITY_LIMITS (fst proof)) (\<lambda>rootFp.
     seq (canonicalJsonHash sha256 IDENTITY_LIMITS (snd proof)) (\<lambda>storageFp.
     seq (candidate_manifest sha256 (ge_tree env) request gen rootFp storageFp git) (\<lambda>m.
     seq (candidate_pointer sha256 request gen rootFp storageFp git m prior priorFp) (\<lambda>p. Inr (m, p)))))"

definition generation_fingerprints :: "jsval \<Rightarrow> jsval" where
  "generation_fingerprints p = record_of (map (\<lambda>k. (k, fld p k)) GENERATION_FINGERPRINTS)"

definition readiness_evidence :: "jsval \<Rightarrow> jsval \<Rightarrow> jsnum \<Rightarrow> int \<Rightarrow> jsval" where
  "readiness_evidence request p now maxAgeMs =
     record_of (map (\<lambda>d. (d, fld (fld request ''readiness'') d)) CALLER_DIMENSIONS @
       [(''workspace'', record_of [(''state'', JLit ''ready''), (''source'', JLit ''live''),
           (''generation'', generation_fingerprints p), (''expected'', generation_fingerprints p)]),
        (''freshness'', record_of [(''probedAtMs'', fld request ''probedAtMs''), (''nowMs'', JNum now), (''maxAgeMs'', JInt maxAgeMs)])])"

text \<open>The single use of the attestation: the window refuses one it has seen, and remembers it before the publication.\<close>

definition consume :: "(string \<Rightarrow> jsstr \<Rightarrow> js_error) \<Rightarrow> generation_env \<Rightarrow> jsstr \<Rightarrow> replay_window \<Rightarrow> (js_error + unit) \<times> replay_window" where
  "consume refuse env fp W =
     (case window_has (JStr fp) (ge_clock env 1) W of
        Inl e \<Rightarrow> (Inl e, W)
      | Inr (seen, W1) \<Rightarrow>
          if seen then (Inl (refuse ''READINESS_REPLAYED'' (js ''readiness attestation has already been consumed'')), W1)
          else (case window_add (JStr fp) (ge_clock env 2) W1 of Inl e \<Rightarrow> (Inl e, W1) | Inr W2 \<Rightarrow> (Inr (), W2)))"

definition attest ::
  "(jsval \<Rightarrow> jsstr) \<Rightarrow> (bytes \<Rightarrow> jsstr) \<Rightarrow> int \<Rightarrow> (string \<Rightarrow> jsstr \<Rightarrow> js_error) \<Rightarrow> generation_env \<Rightarrow> jsval \<Rightarrow> jsval \<Rightarrow> generation_state \<Rightarrow>
     (io_error + attestation) \<times> generation_state" where
  "attest string_of sha256 maxAgeMs refuse env request p s =
     then_do (thrown (evaluateGenerationReadiness string_of sha256 (readiness_evidence request p (ge_clock env 0) maxAgeMs)), s) (\<lambda>a s.
       case consume refuse env (at_readinessFingerprint a) (gs_window s) of
         (Inl e, W) \<Rightarrow> (Inl (Own e), s\<lparr>gs_window := W\<rparr>)
       | (Inr _, W) \<Rightarrow> (Inr a, s\<lparr>gs_window := W\<rparr>))"

definition gen_fs :: "(fs \<Rightarrow> (js_error + 'a) \<times> fs) \<Rightarrow> generation_state \<Rightarrow> (io_error + 'a) \<times> generation_state" where
  "gen_fs f s = (case f (gs_fs s) of (r, w) \<Rightarrow> (thrown r, s\<lparr>gs_fs := w\<rparr>))"

record generation_receipt =
  gr_operation :: jsval
  gr_published :: published
  gr_pointer :: jsval
  gr_fence :: "int option"
  gr_readinessFingerprint :: jsstr

section \<open>Create and clone\<close>

definition create_refuse :: "string \<Rightarrow> jsstr \<Rightarrow> js_error" where
  "create_refuse = op_refuse ''workspace_create_clone''"

definition create_assertRequest :: "jsval \<Rightarrow> js_error + unit" where
  "create_assertRequest request =
     check (plain request) (create_refuse ''CONFIG_INVALID'' (js ''request must be an object'')) (
     check (str_in (fld request ''operation'') [''create'', ''clone''])
       (create_refuse ''CONFIG_INVALID'' (js ''operation must be one of create/clone'')) (
     seq (request_strings create_refuse request) (\<lambda>_.
     seq (request_paths create_refuse request) (\<lambda>_.
     check (isGeneration (fld request ''activeGeneration''))
       (create_refuse ''CONFIG_INVALID'' (js ''request.activeGeneration must be a safe integer >= 1'')) (
     request_probe create_refuse request)))))"

definition create_materialization :: "jsval \<Rightarrow> jsval" where
  "create_materialization request = record_of (map (\<lambda>k. (k, fld request k)) [''operation'', ''hostId'', ''workspaceId'', ''sourcePlatform'',
     ''workDir'', ''generationPath'', ''candidatePath'', ''gitDir'', ''activeGeneration''])"

definition runCreateClone ::
  "(jsval \<Rightarrow> jsstr) \<Rightarrow> (bytes \<Rightarrow> jsstr) \<Rightarrow> int \<Rightarrow> generation_env \<Rightarrow> (location, fs) pointer_io \<Rightarrow> jsval \<Rightarrow> generation_state \<Rightarrow>
     (io_error + generation_receipt) \<times> generation_state" where
  "runCreateClone string_of sha256 maxAgeMs env io request s =
     then_do (thrown (create_assertRequest request), s) (\<lambda>_ s.
     then_do (ge_root env, s) (\<lambda>proof s.
     then_do (ge_materialize env (create_materialization request), s) (\<lambda>_ s.
     then_do (ge_contained env (fld request ''candidatePath'') (fst proof), s) (\<lambda>_ s.
     then_do (ge_contained env (fld request ''gitDir'') (fst proof), s) (\<lambda>_ s.
     then_do (ge_graph env (fld request ''gitDir'') (expected_graph request), s) (\<lambda>git s.
     then_do (thrown (candidate sha256 env request proof git (fld request ''activeGeneration'')
        (null_default (fld request ''priorGeneration'')) (null_default (fld request ''priorPointerFingerprint''))), s) (\<lambda>(m, p) s.
     then_do (attest string_of sha256 maxAgeMs create_refuse env request p s) (\<lambda>a s.
     then_do (gen_fs (publishGeneration sha256 io p) s) (\<lambda>pub s.
       (Inr \<lparr>gr_operation = fld request ''operation'', gr_published = pub, gr_pointer = p, gr_fence = None,
             gr_readinessFingerprint = at_readinessFingerprint a\<rparr>, s))))))))))"

section \<open>Refresh\<close>

definition refresh_refuse :: "string \<Rightarrow> jsstr \<Rightarrow> js_error" where
  "refresh_refuse = op_refuse ''workspace_refresh''"

definition refresh_assertRequest :: "jsval \<Rightarrow> js_error + unit" where
  "refresh_assertRequest request =
     (let expected = fld request ''expected'' in
     check (plain request) (refresh_refuse ''CONFIG_INVALID'' (js ''request must be an object'')) (
     check (js_eq (fld request ''operation'') (JLit ''refresh''))
       (refresh_refuse ''CONFIG_INVALID'' (js (''operation must be '' @ quoted ''refresh''))) (
     seq (request_strings refresh_refuse request) (\<lambda>_.
     seq (request_paths refresh_refuse request) (\<lambda>_.
     check (\<not> js_eq (fld request ''leaseCandidate'') JUndefined \<and> \<not> js_eq (fld request ''leaseCandidate'') JNull)
       (refresh_refuse ''CONFIG_INVALID'' (js ''request.leaseCandidate is required for the activity fence'')) (
     check (plain expected) (refresh_refuse ''CONFIG_INVALID'' (js ''request.expected (base generation) must be an object'')) (
     check (isNonEmptyString (fld expected ''pointerFingerprint''))
       (refresh_refuse ''CONFIG_INVALID'' (js ''request.expected.pointerFingerprint must be a non-empty string'')) (
     request_probe refresh_refuse request))))))))"

definition assertExpectedBase :: "jsval option \<Rightarrow> jsval \<Rightarrow> js_error + jsval" where
  "assertExpectedBase base expected =
     (case base of
        None \<Rightarrow> Inl (refresh_refuse ''WORKSPACE_GENERATION_STALE'' (js ''no live generation is published to refresh''))
      | Some v \<Rightarrow>
         check (js_eq (fld v ''pointerFingerprint'') (fld expected ''pointerFingerprint''))
           (refresh_refuse ''WORKSPACE_GENERATION_STALE'' (js ''live generation does not match the expected base generation'')) (Inr v))"

definition refresh_fenceCurrent :: "nat \<Rightarrow> string \<Rightarrow> generation_state \<Rightarrow> io_error + unit" where
  "refresh_fenceCurrent h checkpoint s =
     (case isCurrent h (gs_registry s) of
        Inl e \<Rightarrow> Inl (Own e)
      | Inr cur \<Rightarrow> if cur then Inr () else Inl (Own (refresh_refuse ''LEASE_CONFLICT'' (js ''activity fence was lost before '' @ js checkpoint))))"

definition refresh_materialization :: "jsval \<Rightarrow> jsval \<Rightarrow> jsval" where
  "refresh_materialization request base = record_of (map (\<lambda>k. (k, fld request k)) [''operation'', ''hostId'', ''workspaceId'', ''sourcePlatform'',
     ''workDir'', ''generationPath'', ''candidatePath'', ''gitDir''] @ [(''baseGeneration'', base)])"

definition gen_suspend :: "generation_env \<Rightarrow> nat \<Rightarrow> generation_state \<Rightarrow> generation_state" where
  "gen_suspend env k s = s\<lparr>gs_registry := ge_others env k (gs_registry s)\<rparr>"

definition next_generation :: "jsval \<Rightarrow> jsval" where
  "next_generation v = JInt (int_of v + 1)"

text \<open>The body between the acquisition of the fence and its release.\<close>

definition refresh_body ::
  "(jsval \<Rightarrow> jsstr) \<Rightarrow> (bytes \<Rightarrow> jsstr) \<Rightarrow> int \<Rightarrow> generation_env \<Rightarrow> (location, fs) pointer_io \<Rightarrow> jsval \<Rightarrow> nat \<Rightarrow> int \<Rightarrow> generation_state \<Rightarrow>
     (io_error + generation_receipt) \<times> generation_state" where
  "refresh_body string_of sha256 maxAgeMs env io request h fence s =
     then_do (gen_fs (readLiveGeneration sha256 io) s) (\<lambda>cur s.
     then_do (thrown (assertExpectedBase cur (fld request ''expected'')), gen_suspend env 0 s) (\<lambda>base s.
     then_do (refresh_fenceCurrent h ''materialisation'' s, s) (\<lambda>_ s.
     then_do (ge_materialize env (refresh_materialization request (fld base ''activeGeneration'')), gen_suspend env 1 s) (\<lambda>_ s.
     then_do (ge_root env, gen_suspend env 2 s) (\<lambda>proof s.
     then_do (ge_contained env (fld request ''candidatePath'') (fst proof), gen_suspend env 3 s) (\<lambda>_ s.
     then_do (ge_contained env (fld request ''gitDir'') (fst proof), gen_suspend env 4 s) (\<lambda>_ s.
     then_do (ge_graph env (fld request ''gitDir'') (expected_graph request), gen_suspend env 5 s) (\<lambda>git s.
     then_do (thrown (candidate sha256 env request proof git (next_generation (fld base ''activeGeneration''))
        (fld base ''activeGeneration'') (fld base ''pointerFingerprint'')), gen_suspend env 6 s) (\<lambda>(m, p) s.
     then_do (attest string_of sha256 maxAgeMs refresh_refuse env request p s) (\<lambda>a s.
     then_do (refresh_fenceCurrent h ''publication'' s, s) (\<lambda>_ s.
     then_do (gen_fs (publishGeneration sha256 io p) s) (\<lambda>pub s.
       (Inr \<lparr>gr_operation = fld request ''operation'', gr_published = pub, gr_pointer = p, gr_fence = Some fence,
             gr_readinessFingerprint = at_readinessFingerprint a\<rparr>, s)))))))))))))"

definition runRefresh ::
  "(jsval \<Rightarrow> jsstr) \<Rightarrow> (bytes \<Rightarrow> jsstr) \<Rightarrow> int \<Rightarrow> generation_env \<Rightarrow> (location, fs) pointer_io \<Rightarrow> jsval \<Rightarrow> generation_state \<Rightarrow>
     (io_error + generation_receipt) \<times> generation_state" where
  "runRefresh string_of sha256 maxAgeMs env io request s =
     then_do (thrown (refresh_assertRequest request), s) (\<lambda>_ s.
       case createActivityFence (fld request ''leaseCandidate'') (ge_now env 0) (gs_registry s) of
         (Inl e, R) \<Rightarrow> (Inl (Own e), s\<lparr>gs_registry := R\<rparr>)
       | (Inr h, R) \<Rightarrow>
          (case refresh_body string_of sha256 maxAgeMs env io request h (lease_fence h R) (s\<lparr>gs_registry := R\<rparr>) of
             (r, s1) \<Rightarrow> (r, (gen_suspend env 7 s1)\<lparr>gs_registry := release h (ge_now env 1) (gs_registry (gen_suspend env 7 s1))\<rparr>)))"

section \<open>A run that changes the live slot\<close>

definition slot_of :: "location \<Rightarrow> generation_state \<Rightarrow> bytes option" where
  "slot_of p s = map_of (files (gs_fs s)) p"

lemma slot_of_simps [simp]:
  "slot_of p (gen_suspend env k s) = slot_of p s" "slot_of p (s\<lparr>gs_window := W\<rparr>) = slot_of p s" "slot_of p (s\<lparr>gs_registry := R\<rparr>) = slot_of p s"
  by (simp_all add: slot_of_def gen_suspend_def)

text \<open>A sequence whose outcome differs from the state it started in has got past its first step.\<close>

lemma then_do_reached:
  "slot_of p s' \<noteq> slot_of p s \<Longrightarrow> then_do (x, s) f = (q, s') \<longleftrightarrow> (\<exists>y. x = Inr y \<and> f y s = (q, s'))"
  by (cases x) auto

definition single_use :: "generation_env \<Rightarrow> jsstr \<Rightarrow> replay_window \<Rightarrow> replay_window \<Rightarrow> bool" where
  "single_use env fp W W' \<longleftrightarrow>
     (\<exists>W1. window_has (JStr fp) (ge_clock env 1) W = Inr (False, W1) \<and> window_add (JStr fp) (ge_clock env 2) W1 = Inr W')"

lemma consume_Inr: "consume refuse env fp W = (Inr (), W') \<longleftrightarrow> single_use env fp W W'"
proof (cases "window_has (JStr fp) (ge_clock env 1) W")
  case (Inr x)
  then show ?thesis
    by (cases x; cases "window_add (JStr fp) (ge_clock env 2) (snd x)") (auto simp: consume_def single_use_def)
qed (auto simp: consume_def single_use_def)

lemma attest_Inr:
  "attest string_of sha256 maxAgeMs refuse env request q s = (Inr a, s') \<longleftrightarrow>
     evaluateGenerationReadiness string_of sha256 (readiness_evidence request q (ge_clock env 0) maxAgeMs) = Inr a \<and>
     (\<exists>W. single_use env (at_readinessFingerprint a) (gs_window s) W \<and> s' = s\<lparr>gs_window := W\<rparr>)"
proof -
  have "(case consume refuse env (at_readinessFingerprint x) (gs_window s) of
         (Inl e, W) \<Rightarrow> (Inl (Own e), s\<lparr>gs_window := W\<rparr>) | (Inr _, W) \<Rightarrow> (Inr x, s\<lparr>gs_window := W\<rparr>)) = (Inr a, s') \<longleftrightarrow>
      x = a \<and> (\<exists>W. single_use env (at_readinessFingerprint x) (gs_window s) W \<and> s' = s\<lparr>gs_window := W\<rparr>)" for x
    by (auto simp: consume_Inr [of refuse, symmetric] split: prod.splits sum.splits)
  then show ?thesis by (auto simp: attest_def then_do_Inr)
qed

lemma attest_keeps:
  assumes "attest string_of sha256 maxAgeMs refuse env request q s = (r, s')"
  shows "gs_fs s' = gs_fs s" "gs_registry s' = gs_registry s"
  using assms by (auto simp: attest_def then_do_def split: sum.splits prod.splits)

lemma attest_reached:
  assumes "then_do (attest string_of sha256 maxAgeMs refuse env request q s) f = (r, s')" "slot_of p s' \<noteq> slot_of p s"
  obtains a W where "evaluateGenerationReadiness string_of sha256 (readiness_evidence request q (ge_clock env 0) maxAgeMs) = Inr a"
    "single_use env (at_readinessFingerprint a) (gs_window s) W" "f a (s\<lparr>gs_window := W\<rparr>) = (r, s')"
proof -
  obtain x s1 where 1: "attest string_of sha256 maxAgeMs refuse env request q s = (x, s1)" by force
  have "slot_of p s1 = slot_of p s" using attest_keeps(1) [OF 1] by (simp add: slot_of_def)
  then obtain a where "x = Inr a" "f a s1 = (r, s')" using assms 1 by (auto simp: then_do_reached [of p])
  with that 1 show thesis by (auto simp: attest_Inr)
qed

lemma publish_reached:
  assumes "then_do (gen_fs (publishGeneration sha256 io q) s) (\<lambda>pub s. (Inr (g pub), s)) = (r, s')"
  shows "\<exists>x. publishGeneration sha256 io q (gs_fs s) = (x, gs_fs s') \<and> is_ok r = is_ok x"
    "gs_window s' = gs_window s" "gs_registry s' = gs_registry s"
proof -
  obtain x w where "publishGeneration sha256 io q (gs_fs s) = (x, w)" by force
  with assms show "\<exists>x. publishGeneration sha256 io q (gs_fs s) = (x, gs_fs s') \<and> is_ok r = is_ok x"
    "gs_window s' = gs_window s" "gs_registry s' = gs_registry s"
    by (cases x; auto simp: gen_fs_def)+
qed

lemma pointer_built:
  assumes "buildGenerationPointer sha256 input = Inr q"
  shows "is_ok (validateGenerationPointer sha256 q)" "distinct_keys q"
    "k \<in> {''hostId'', ''workspaceId'', ''activeGeneration'', ''rootIdentityFingerprint'', ''storageIdentityFingerprint'',
       ''gitGenerationFingerprint'', ''manifestFingerprint''} \<Longrightarrow> fld q k = fld input k"
    "fld q ''priorGeneration'' = null_default (fld input ''priorGeneration'')"
    "fld q ''priorPointerFingerprint'' = null_default (fld input ''priorPointerFingerprint'')"
proof -
  let ?r = "\<lambda>x. record_of [(''version'', JInt 1), (''kind'', JLit ''workspace-generation-pointer''), (''hostId'', fld input ''hostId''),
       (''workspaceId'', fld input ''workspaceId''), (''sourcePlatform'', fld input ''sourcePlatform''),
       (''activeGeneration'', fld input ''activeGeneration''), (''generationPath'', fld input ''generationPath''),
       (''rootIdentityFingerprint'', fld input ''rootIdentityFingerprint''),
       (''storageIdentityFingerprint'', fld input ''storageIdentityFingerprint''),
       (''gitGenerationFingerprint'', fld input ''gitGenerationFingerprint''),
       (''manifestFingerprint'', fld input ''manifestFingerprint''),
       (''priorGeneration'', null_default (fld input ''priorGeneration'')),
       (''priorPointerFingerprint'', null_default (fld input ''priorPointerFingerprint'')), (''pointerFingerprint'', x)]"
  obtain h where h: "validateGenerationPointer sha256 (with_field (?r JNull) ''pointerFingerprint'' (JStr h)) = Inr q"
    using assms by (auto simp only: buildGenerationPointer_def Let_def check_eq_Inr seq_eq_Inr)
  then have "q = with_field (?r JNull) ''pointerFingerprint'' (JStr h)" by (rule pointer_Inr [THEN iffD1, THEN conjunct2])
  then have q: "q = ?r (JStr h)" by (simp add: with_field_def own_keys_JObj)
  have "is_ok (validateGenerationPointer sha256 (with_field (?r JNull) ''pointerFingerprint'' (JStr h)))"
    using h by (rule pointer_Inr [THEN iffD1, THEN conjunct1])
  then show ok: "is_ok (validateGenerationPointer sha256 q)" using q by (simp add: with_field_def own_keys_JObj)
  have f: "fld q ''hostId'' = fld input ''hostId''" "fld q ''workspaceId'' = fld input ''workspaceId''"
    "fld q ''sourcePlatform'' = fld input ''sourcePlatform''" "fld q ''activeGeneration'' = fld input ''activeGeneration''"
    "fld q ''generationPath'' = fld input ''generationPath''" "fld q ''rootIdentityFingerprint'' = fld input ''rootIdentityFingerprint''"
    "fld q ''storageIdentityFingerprint'' = fld input ''storageIdentityFingerprint''"
    "fld q ''gitGenerationFingerprint'' = fld input ''gitGenerationFingerprint''"
    "fld q ''manifestFingerprint'' = fld input ''manifestFingerprint''"
    "fld q ''priorGeneration'' = null_default (fld input ''priorGeneration'')"
    "fld q ''priorPointerFingerprint'' = null_default (fld input ''priorPointerFingerprint'')"
    by (simp_all add: q get_own_JObj)
  then show "k \<in> {''hostId'', ''workspaceId'', ''activeGeneration'', ''rootIdentityFingerprint'', ''storageIdentityFingerprint'',
       ''gitGenerationFingerprint'', ''manifestFingerprint''} \<Longrightarrow> fld q k = fld input k"
    by (elim insertE emptyE) simp_all
  show "fld q ''priorGeneration'' = null_default (fld input ''priorGeneration'')"
    "fld q ''priorPointerFingerprint'' = null_default (fld input ''priorPointerFingerprint'')"
    by (fact f)+
  have d: "distinct_keys (fld q k)" if "k \<in> set POINTER_KEYS" for k
    using pointer_small_fields [OF ok that] by (cases "fld q k") (auto simp: small_leaf_def)
  have "\<forall>v \<in> {fld input ''hostId'', fld input ''workspaceId'', fld input ''sourcePlatform'', fld input ''activeGeneration'',
      fld input ''generationPath'', fld input ''rootIdentityFingerprint'', fld input ''storageIdentityFingerprint'',
      fld input ''gitGenerationFingerprint'', fld input ''manifestFingerprint'', null_default (fld input ''priorGeneration''),
      null_default (fld input ''priorPointerFingerprint'')}. distinct_keys v"
    unfolding f [symmetric] using d by (simp add: POINTER_KEYS_def)
  then show "distinct_keys q" by (simp add: q)
qed

text \<open>What is proven of a generation before it is published: the root and both directories are contained, the graph is
  complete, the manifest has the files of the candidate as they are, the pointer commits to all of it, and the probe
  attests it by an attestation that is used for the first time.\<close>

definition generation_proven ::
  "(jsval \<Rightarrow> jsstr) \<Rightarrow> (bytes \<Rightarrow> jsstr) \<Rightarrow> int \<Rightarrow> generation_env \<Rightarrow> jsval \<Rightarrow> jsval \<Rightarrow> replay_window \<Rightarrow> replay_window \<Rightarrow> bool" where
  "generation_proven string_of sha256 maxAgeMs env request q W W' \<longleftrightarrow>
     (\<exists>rootId storageId git m a rootFp storageFp. ge_root env = Inr (rootId, storageId) \<and>
        ge_contained env (fld request ''candidatePath'') rootId = Inr () \<and> ge_contained env (fld request ''gitDir'') rootId = Inr () \<and>
        ge_graph env (fld request ''gitDir'') (expected_graph request) = Inr git \<and>
        canonicalJsonHash sha256 IDENTITY_LIMITS rootId = Inr rootFp \<and> canonicalJsonHash sha256 IDENTITY_LIMITS storageId = Inr storageFp \<and>
        is_ok (validateWorkspaceManifest sha256 m) \<and>
        set (elements (fld m ''entries'')) = captured sha256 (ge_tree env) ` set (elements (fld request ''manifestPaths'')) \<and>
        (\<forall>p \<in> set (elements (fld request ''manifestPaths'')). ge_tree env (str_of p) \<noteq> None) \<and>
        fld q ''rootIdentityFingerprint'' = JStr rootFp \<and> fld q ''storageIdentityFingerprint'' = JStr storageFp \<and>
        fld q ''gitGenerationFingerprint'' = git \<and> fld q ''manifestFingerprint'' = fld m ''manifestFingerprint'' \<and>
        evaluateGenerationReadiness string_of sha256 (readiness_evidence request q (ge_clock env 0) maxAgeMs) = Inr a \<and>
        single_use env (at_readinessFingerprint a) W W')"

lemma candidate_built:
  assumes "candidate sha256 env request (rootId, storageId) git gen prior priorFp = Inr (m, q)"
  obtains rootFp storageFp where "canonicalJsonHash sha256 IDENTITY_LIMITS rootId = Inr rootFp"
    "canonicalJsonHash sha256 IDENTITY_LIMITS storageId = Inr storageFp" "is_ok (validateWorkspaceManifest sha256 m)"
    "set (elements (fld m ''entries'')) = captured sha256 (ge_tree env) ` set (elements (fld request ''manifestPaths''))"
    "\<forall>p \<in> set (elements (fld request ''manifestPaths'')). ge_tree env (str_of p) \<noteq> None"
    "fld q ''rootIdentityFingerprint'' = JStr rootFp" "fld q ''storageIdentityFingerprint'' = JStr storageFp"
    "fld q ''gitGenerationFingerprint'' = git" "fld q ''manifestFingerprint'' = fld m ''manifestFingerprint''"
    "fld q ''activeGeneration'' = gen" "distinct_keys q"
proof -
  obtain rootFp storageFp where h: "canonicalJsonHash sha256 IDENTITY_LIMITS rootId = Inr rootFp"
    "canonicalJsonHash sha256 IDENTITY_LIMITS storageId = Inr storageFp"
    and m: "candidate_manifest sha256 (ge_tree env) request gen rootFp storageFp git = Inr m"
    and q: "candidate_pointer sha256 request gen rootFp storageFp git m prior priorFp = Inr q"
    using assms by (auto simp: candidate_def seq_eq_Inr)
  obtain es input where es: "fst (computeManifestEntries sha256 (tree_reader (ge_tree env)) (fld request ''manifestPaths'') ()) = Inr es"
    and b: "buildWorkspaceManifest sha256 input = Inr m" and i: "fld input ''entries'' = JArr es"
    using m by (auto simp: candidate_manifest_def seq_eq_Inr get_own_JObj)
  have "computeManifestEntries sha256 (tree_reader (ge_tree env)) (fld request ''manifestPaths'') () = (Inr es, ())"
    using es by (simp add: prod_eq_iff)
  note c = compute_entries_tree [OF this]
  note v = build_manifest [OF b, unfolded i elements.simps]
  have k: "copy_entry x = x" if "x \<in> captured sha256 (ge_tree env) ` A" for x A using that by (auto simp: captured_def)
  have e: "set (elements (fld m ''entries'')) = captured sha256 (ge_tree env) ` set (elements (fld request ''manifestPaths''))"
    using v(2) k by (simp add: c(2) image_image)
  note f = pointer_built [OF q [unfolded candidate_pointer_def]]
  have "fld q ''rootIdentityFingerprint'' = JStr rootFp" "fld q ''storageIdentityFingerprint'' = JStr storageFp"
    "fld q ''gitGenerationFingerprint'' = git" "fld q ''manifestFingerprint'' = fld m ''manifestFingerprint''" "fld q ''activeGeneration'' = gen"
    using f(3) by (simp_all add: get_own_JObj)
  from that [OF h v(1) e _ this f(2)] c(4) show thesis by blast
qed

lemma provenI:
  assumes "ge_root env = Inr (rootId, storageId)"
    "ge_contained env (fld request ''candidatePath'') rootId = Inr ()" "ge_contained env (fld request ''gitDir'') rootId = Inr ()"
    "ge_graph env (fld request ''gitDir'') (expected_graph request) = Inr git"
    and c: "candidate sha256 env request (rootId, storageId) git gen prior priorFp = Inr (m, q)"
    and a: "evaluateGenerationReadiness string_of sha256 (readiness_evidence request q (ge_clock env 0) maxAgeMs) = Inr a"
      "single_use env (at_readinessFingerprint a) W W'"
  shows "generation_proven string_of sha256 maxAgeMs env request q W W'"
  unfolding generation_proven_def by (rule candidate_built [OF c]) (use assms in blast)

text \<open>What a changed slot holds after the publication of a built pointer.\<close>

lemma published_slot:
  assumes h: "honest_faults (gs_fs s)" and c: "candidate sha256 env request (rootId, storageId) git gen prior priorFp = Inr (m, q)"
    and run: "then_do (gen_fs (publishGeneration sha256 (createAtomicPointerIo win32 suffix loc) q) s) (\<lambda>pub s. (Inr (g pub), s)) = (r, s')"
    and new: "slot_of loc s' \<noteq> slot_of loc s"
  shows "slot_of loc s' = Some (utf8 (render q)) \<and> is_ok (validateGenerationPointer sha256 q) \<and> fld q ''activeGeneration'' = gen \<and>
    (\<exists>c. live_pointer sha256 (slot_of loc s) c \<and> follows q c)"
proof -
  obtain x where x: "publishGeneration sha256 (createAtomicPointerIo win32 suffix loc) q (gs_fs s) = (x, gs_fs s')"
    using publish_reached(1) [OF run] by blast
  have "distinct_keys q" "fld q ''activeGeneration'' = gen" by (rule candidate_built [OF c]; blast)+
  with publish_storage(3) [OF h _ x] new show ?thesis by (auto simp: slot_of_def)
qed

text \<open>C16. A create or clone changes the live slot only by publishing a pointer of the requested generation that follows the
  live one (none, when it has no prior generation), after everything about the generation has been proven.\<close>

theorem creation_guarded:
  assumes "honest_faults (gs_fs s)"
    and "runCreateClone string_of sha256 maxAgeMs env (createAtomicPointerIo win32 suffix loc) request s = (r, s')"
    and "slot_of loc s' \<noteq> slot_of loc s"
  shows "\<exists>q. slot_of loc s' = Some (utf8 (render q)) \<and> is_ok (validateGenerationPointer sha256 q) \<and>
    fld q ''activeGeneration'' = fld request ''activeGeneration'' \<and> (\<exists>c. live_pointer sha256 (slot_of loc s) c \<and> follows q c) \<and>
    ge_materialize env (create_materialization request) = Inr () \<and>
    generation_proven string_of sha256 maxAgeMs env request q (gs_window s) (gs_window s')"
proof -
  let ?io = "createAtomicPointerIo win32 suffix loc"
  obtain rootId storageId git m q where g: "ge_root env = Inr (rootId, storageId)"
    "ge_contained env (fld request ''candidatePath'') rootId = Inr ()" "ge_contained env (fld request ''gitDir'') rootId = Inr ()"
    "ge_graph env (fld request ''gitDir'') (expected_graph request) = Inr git" "ge_materialize env (create_materialization request) = Inr ()"
    and c: "candidate sha256 env request (rootId, storageId) git (fld request ''activeGeneration'')
        (null_default (fld request ''priorGeneration'')) (null_default (fld request ''priorPointerFingerprint'')) = Inr (m, q)"
    and run: "then_do (attest string_of sha256 maxAgeMs create_refuse env request q s) (\<lambda>a s.
     then_do (gen_fs (publishGeneration sha256 ?io q) s) (\<lambda>pub s.
       (Inr \<lparr>gr_operation = fld request ''operation'', gr_published = pub, gr_pointer = q, gr_fence = None,
             gr_readinessFingerprint = at_readinessFingerprint a\<rparr>, s))) = (r, s')"
    using assms(2,3) by (auto simp: runCreateClone_def then_do_reached [of loc])
  from run assms(3) obtain a W where a: "evaluateGenerationReadiness string_of sha256 (readiness_evidence request q (ge_clock env 0) maxAgeMs) = Inr a"
    "single_use env (at_readinessFingerprint a) (gs_window s) W"
    and p: "then_do (gen_fs (publishGeneration sha256 ?io q) (s\<lparr>gs_window := W\<rparr>)) (\<lambda>pub s.
       (Inr \<lparr>gr_operation = fld request ''operation'', gr_published = pub, gr_pointer = q, gr_fence = None,
             gr_readinessFingerprint = at_readinessFingerprint a\<rparr>, s)) = (r, s')"
    by (rule attest_reached)
  have "gs_window s' = W" using publish_reached(2) [OF p] by simp
  then have "generation_proven string_of sha256 maxAgeMs env request q (gs_window s) (gs_window s')"
    using provenI [OF g(1-4) c a] by simp
  with published_slot [OF _ c p] assms(1,3) g(5) show ?thesis by auto
qed

lemma read_live_generation:
  assumes "honest_faults (gs_fs s)" "gen_fs (readLiveGeneration sha256 (createAtomicPointerIo win32 suffix loc)) s = (x, s1)"
  shows "slot_of loc s1 = slot_of loc s" "honest_faults (gs_fs s1)" "gs_registry s1 = gs_registry s" "gs_window s1 = gs_window s"
    "x = Inr c \<Longrightarrow> live_pointer sha256 (slot_of loc s) c"
proof -
  obtain y w where 1: "readLiveGeneration sha256 (createAtomicPointerIo win32 suffix loc) (gs_fs s) = (y, w)" by force
  have "keeps suffix loc (map_of (files (gs_fs s))) (gs_fs s)" using assms(1) by (simp add: keeps_def)
  note l = storage.read_live [OF this 1]
  have s1: "s1 = s\<lparr>gs_fs := w\<rparr>" "x = thrown y" using assms(2) 1 by (auto simp: gen_fs_def)
  show "slot_of loc s1 = slot_of loc s" "honest_faults (gs_fs s1)" "gs_registry s1 = gs_registry s" "gs_window s1 = gs_window s"
    "x = Inr c \<Longrightarrow> live_pointer sha256 (slot_of loc s) c"
    using l s1 by (auto simp: slot_of_def keeps_def)
qed

lemma fence_current_Inr: "refresh_fenceCurrent h checkpoint s = Inr u \<longleftrightarrow> isCurrent h (gs_registry s) = Inr True"
  by (auto simp: refresh_fenceCurrent_def split: sum.splits)

lemma expected_base_Inr:
  "assertExpectedBase cur expected = Inr base \<longleftrightarrow>
     cur = Some base \<and> js_eq (fld base ''pointerFingerprint'') (fld expected ''pointerFingerprint'')"
  by (auto simp: assertExpectedBase_def split: option.splits)

lemma refresh_body_effect:
  assumes h: "honest_faults (gs_fs s)"
    and run: "refresh_body string_of sha256 maxAgeMs env (createAtomicPointerIo win32 suffix loc) request h fence s = (r, s')"
    and new: "slot_of loc s' \<noteq> slot_of loc s"
  shows "\<exists>base q. isCurrent h (fold (ge_others env) [0..<7] (gs_registry s)) = Inr True \<and>
    live_pointer sha256 (slot_of loc s) (Some base) \<and>
    js_eq (fld base ''pointerFingerprint'') (fld (fld request ''expected'') ''pointerFingerprint'') \<and>
    slot_of loc s' = Some (utf8 (render q)) \<and> is_ok (validateGenerationPointer sha256 q) \<and> follows q (Some base) \<and>
    ge_materialize env (refresh_materialization request (fld base ''activeGeneration'')) = Inr () \<and>
    generation_proven string_of sha256 maxAgeMs env request q (gs_window s) (gs_window s')"
proof -
  let ?io = "createAtomicPointerIo win32 suffix loc"
  obtain x s1 where 1: "gen_fs (readLiveGeneration sha256 ?io) s = (x, s1)" by force
  note l = read_live_generation [OF h 1]
  have new1: "slot_of loc s' \<noteq> slot_of loc s1" using new l(1) by simp
  let ?s = "gen_suspend env 6 (gen_suspend env 5 (gen_suspend env 4 (gen_suspend env 3 (gen_suspend env 2 (gen_suspend env 1 (gen_suspend env 0 s1))))))"
  obtain base rootId storageId git m q where b: "x = Inr (Some base)"
      "js_eq (fld base ''pointerFingerprint'') (fld (fld request ''expected'') ''pointerFingerprint'')"
    and mat: "ge_materialize env (refresh_materialization request (fld base ''activeGeneration'')) = Inr ()"
    and g: "ge_root env = Inr (rootId, storageId)"
    "ge_contained env (fld request ''candidatePath'') rootId = Inr ()" "ge_contained env (fld request ''gitDir'') rootId = Inr ()"
    "ge_graph env (fld request ''gitDir'') (expected_graph request) = Inr git"
    and c: "candidate sha256 env request (rootId, storageId) git (next_generation (fld base ''activeGeneration''))
        (fld base ''activeGeneration'') (fld base ''pointerFingerprint'') = Inr (m, q)"
    and run1: "then_do (attest string_of sha256 maxAgeMs refresh_refuse env request q ?s) (\<lambda>a s.
      then_do (refresh_fenceCurrent h ''publication'' s, s) (\<lambda>_ s.
      then_do (gen_fs (publishGeneration sha256 ?io q) s) (\<lambda>pub s.
       (Inr \<lparr>gr_operation = fld request ''operation'', gr_published = pub, gr_pointer = q, gr_fence = Some fence,
             gr_readinessFingerprint = at_readinessFingerprint a\<rparr>, s)))) = (r, s')"
    using run [unfolded refresh_body_def 1] new1 by (auto simp: then_do_reached [of loc] expected_base_Inr)
  have "slot_of loc s' \<noteq> slot_of loc ?s" using new1 by simp
  with run1 obtain a W where a: "evaluateGenerationReadiness string_of sha256 (readiness_evidence request q (ge_clock env 0) maxAgeMs) = Inr a"
    "single_use env (at_readinessFingerprint a) (gs_window ?s) W"
    and run2: "then_do (refresh_fenceCurrent h ''publication'' (?s\<lparr>gs_window := W\<rparr>), ?s\<lparr>gs_window := W\<rparr>) (\<lambda>_ s.
      then_do (gen_fs (publishGeneration sha256 ?io q) s) (\<lambda>pub s.
       (Inr \<lparr>gr_operation = fld request ''operation'', gr_published = pub, gr_pointer = q, gr_fence = Some fence,
             gr_readinessFingerprint = at_readinessFingerprint a\<rparr>, s))) = (r, s')"
    by (rule attest_reached)
  let ?w = "?s\<lparr>gs_window := W\<rparr>"
  have cur: "isCurrent h (gs_registry ?w) = Inr True"
    and p: "then_do (gen_fs (publishGeneration sha256 ?io q) ?w) (\<lambda>pub s.
       (Inr \<lparr>gr_operation = fld request ''operation'', gr_published = pub, gr_pointer = q, gr_fence = Some fence,
             gr_readinessFingerprint = at_readinessFingerprint a\<rparr>, s)) = (r, s')"
    using run2 new1 by (auto simp: then_do_reached [of loc] fence_current_Inr)
  have "gs_registry ?w = fold (ge_others env) [0..<7] (gs_registry s)"
    by (simp add: gen_suspend_def l(3) upt_rec numeral_eq_Suc)
  moreover have "honest_faults (gs_fs ?w)" "slot_of loc ?w = slot_of loc s" "gs_window ?s = gs_window s" "gs_window s' = W"
    using l publish_reached(2) [OF p] by (simp_all add: gen_suspend_def slot_of_def)
  moreover have "live_pointer sha256 (slot_of loc s) (Some base)" using l(5) b(1) by simp
  moreover have "c' = Some base" if "live_pointer sha256 (slot_of loc s) c'" for c'
    using that \<open>live_pointer sha256 (slot_of loc s) (Some base)\<close> by (auto simp: live_pointer_def split: option.splits)
  ultimately show ?thesis
    using cur provenI [OF g c a] published_slot [OF _ c p] new b(2) mat by metis
qed

lemma refresh_effect:
  assumes "honest_faults (gs_fs s)"
    and "runRefresh string_of sha256 maxAgeMs env (createAtomicPointerIo win32 suffix loc) request s = (r, s')"
    and "slot_of loc s' \<noteq> slot_of loc s"
  shows "\<exists>h R base q. createActivityFence (fld request ''leaseCandidate'') (ge_now env 0) (gs_registry s) = (Inr h, R) \<and>
    isCurrent h (fold (ge_others env) [0..<7] R) = Inr True \<and>
    live_pointer sha256 (slot_of loc s) (Some base) \<and>
    js_eq (fld base ''pointerFingerprint'') (fld (fld request ''expected'') ''pointerFingerprint'') \<and>
    slot_of loc s' = Some (utf8 (render q)) \<and> is_ok (validateGenerationPointer sha256 q) \<and> follows q (Some base) \<and>
    ge_materialize env (refresh_materialization request (fld base ''activeGeneration'')) = Inr () \<and>
    generation_proven string_of sha256 maxAgeMs env request q (gs_window s) (gs_window s')"
proof -
  obtain x R where f: "createActivityFence (fld request ''leaseCandidate'') (ge_now env 0) (gs_registry s) = (x, R)" by force
  obtain h where h: "x = Inr h" and u: "refresh_assertRequest request = Inr ()"
    using assms(2,3) f by (cases "refresh_assertRequest request"; cases x) (auto simp: runRefresh_def)
  let ?s = "s\<lparr>gs_registry := R\<rparr>"
  obtain r1 s1 where 1: "refresh_body string_of sha256 maxAgeMs env (createAtomicPointerIo win32 suffix loc) request h (lease_fence h R) ?s = (r1, s1)" by force
  have s': "slot_of loc s' = slot_of loc s1" "gs_window s' = gs_window s1"
    using assms(2) u f h 1 by (auto simp: runRefresh_def gen_suspend_def slot_of_def)
  have "honest_faults (gs_fs ?s)" "slot_of loc s1 \<noteq> slot_of loc ?s" using assms(1,3) s' by simp_all
  from refresh_body_effect [OF this(1) 1 this(2)] f h s' show ?thesis by auto
qed


end
