(* ===== verification/Crash_Recovery.thy ===== *)
theory Crash_Recovery
  imports Generation_Storage Replay_Window
begin

text \<open>
  Boot recovery after a crash: the snapshot of \<^verbatim>\<open>daemon/src/workspace-recovery-snapshot.js\<close>, the classifier of
  \<^verbatim>\<open>daemon/src/workspace-generation-recovery.js\<close> and the orchestrator of
  \<^verbatim>\<open>daemon/src/workspace-recovery-operation.js\<close>, wired to the storage of one root directory as
  \<^verbatim>\<open>daemon/src/workspace-recovery-boot-wiring.js\<close> does.
\<close>

section \<open>The recovery snapshot\<close>

definition SNAPSHOT_KEYS :: "string list" where
  "SNAPSHOT_KEYS = [''workspaceId'', ''livePointer'', ''priorPointer'', ''candidatePointer'', ''checkpoint'', ''transaction'', ''manualCleanup'']"

definition snapshot_refuse :: "string \<Rightarrow> js_error" where
  "snapshot_refuse reason = CodedError ''WORKSPACE_RECOVERY_SNAPSHOT_INVALID''
     (js ''workspace_recovery_snapshot: WORKSPACE_RECOVERY_SNAPSHOT_INVALID: '' @ js reason)"

definition unless_null :: "jsval \<Rightarrow> js_error + jsval \<Rightarrow> js_error + unit" where
  "unless_null v r = (if js_eq v JNull then Inr () else map_sum id (\<lambda>_. ()) r)"

definition assertFields :: "(bytes \<Rightarrow> jsstr) \<Rightarrow> jsval \<Rightarrow> js_error + unit" where
  "assertFields sha256 s =
     check (isId (fld s ''workspaceId'')) (snapshot_refuse ''workspaceId must be a 1..256 char string'') (
     seq (unless_null (fld s ''transaction'') (validateWorkspaceLifecycleTransaction sha256 (fld s ''transaction''))) (\<lambda>_.
     seq (unless_null (fld s ''checkpoint'')
            (validateWorkspaceLifecycleCheckpoint sha256 (fld s ''checkpoint'') (fld s ''transaction''))) (\<lambda>_.
     seq (unless_null (fld s ''livePointer'') (validateGenerationPointer sha256 (fld s ''livePointer''))) (\<lambda>_.
     seq (unless_null (fld s ''priorPointer'') (validateGenerationPointer sha256 (fld s ''priorPointer''))) (\<lambda>_.
     seq (unless_null (fld s ''candidatePointer'') (validateGenerationPointer sha256 (fld s ''candidatePointer''))) (\<lambda>_.
     unless_null (fld s ''manualCleanup'') (validateManualCleanup sha256 (fld s ''manualCleanup''))))))))"

definition validateRecoverySnapshot :: "(bytes \<Rightarrow> jsstr) \<Rightarrow> jsval \<Rightarrow> js_error + jsval" where
  "validateRecoverySnapshot sha256 s =
     check (exact s SNAPSHOT_KEYS) (snapshot_refuse ''snapshot must have the exact snapshot key set'') (
     seq (assertFields sha256 s) (\<lambda>_. Inr s))"

definition buildRecoverySnapshot :: "(bytes \<Rightarrow> jsstr) \<Rightarrow> jsval \<Rightarrow> js_error + jsval" where
  "buildRecoverySnapshot sha256 input =
     check (plain input) (snapshot_refuse ''snapshot input must be an object'') (
     check (list_all (\<lambda>k. k \<in> set (map js SNAPSHOT_KEYS)) (own_keys input)) (snapshot_refuse ''unknown snapshot field'') (
     validateRecoverySnapshot sha256 (record_of [(''workspaceId'', fld input ''workspaceId''),
       (''livePointer'', null_default (fld input ''livePointer'')), (''priorPointer'', null_default (fld input ''priorPointer'')),
       (''candidatePointer'', null_default (fld input ''candidatePointer'')), (''checkpoint'', null_default (fld input ''checkpoint'')),
       (''transaction'', null_default (fld input ''transaction'')), (''manualCleanup'', null_default (fld input ''manualCleanup''))])))"

section \<open>The classifier\<close>

datatype disposition = Committed | Committed_needs_flush | Safe_replay jsval | Manual_cleanup

definition pointerFp :: "jsval \<Rightarrow> jsval" where
  "pointerFp p = (if js_eq p JNull then JNull else fld p ''pointerFingerprint'')"

definition classify_valid :: "jsval \<Rightarrow> disposition" where
  "classify_valid s =
     (let tx = fld s ''transaction''; c = fld s ''checkpoint'';
          liveFp = pointerFp (fld s ''livePointer''); priorFp = pointerFp (fld s ''priorPointer'');
          candidateFp = fld tx ''candidateFingerprint''; candidateBodyFp = pointerFp (fld s ''candidatePointer'');
          replaceLanded = (\<not> js_eq liveFp JNull \<and> js_eq liveFp candidateFp);
          replaceNeverLanded = js_eq liveFp priorFp;
          candidateBodyMatches = (\<not> js_eq candidateBodyFp JNull \<and> js_eq candidateBodyFp candidateFp);
          candidateChainsOntoLive = (\<not> js_eq (fld s ''candidatePointer'') JNull \<and>
            js_eq (fld (fld s ''candidatePointer'') ''priorPointerFingerprint'') liveFp)
      in
      if \<not> js_eq (fld s ''manualCleanup'') JNull then Manual_cleanup
      else if js_eq tx JNull \<and> js_eq c JNull then Committed
      else if js_eq tx JNull \<or> js_eq c JNull then Manual_cleanup
      else if js_eq (fld c ''phase'') (JLit ''committed'') then (if replaceLanded then Committed else Manual_cleanup)
      else if js_eq (fld c ''phase'') (JLit ''prepared'') \<or> js_eq (fld c ''phase'') (JLit ''applied'') then
        (if replaceLanded then Committed_needs_flush
         else if replaceNeverLanded \<and> candidateBodyMatches \<and> candidateChainsOntoLive
         then Safe_replay (fld s ''candidatePointer'')
         else Manual_cleanup)
      else Manual_cleanup)"

definition classifyGenerationRecovery :: "(bytes \<Rightarrow> jsstr) \<Rightarrow> jsval \<Rightarrow> js_error + disposition" where
  "classifyGenerationRecovery sha256 s = seq (validateRecoverySnapshot sha256 s) (\<lambda>s. Inr (classify_valid s))"

section \<open>The orchestrator\<close>

datatype recovery_action = No_action | Flushed | Republished | Barred

record processed =
  pr_workspaceId :: jsstr
  pr_disposition :: disposition
  pr_action :: recovery_action
  pr_failed :: bool

record ('t, 'w) recovery_deps =
  d_readSnapshotInputs :: "jsstr \<Rightarrow> (jsval, 'w) io"
  d_publisherIo :: "jsstr \<Rightarrow> ('t, 'w) pointer_io"

definition act :: "(bytes \<Rightarrow> jsstr) \<Rightarrow> ('t, 'w) pointer_io \<Rightarrow> disposition \<Rightarrow> 'w \<Rightarrow> (recovery_action \<times> bool) \<times> 'w" where
  "act sha256 io d w =
     (case d of
        Committed \<Rightarrow> ((No_action, False), w)
      | Committed_needs_flush \<Rightarrow>
          (case flushParent io w of (Inr _, w') \<Rightarrow> ((Flushed, False), w') | (Inl _, w') \<Rightarrow> ((Barred, True), w'))
      | Safe_replay candidate \<Rightarrow>
          (case publishGeneration sha256 io candidate w of
             (Inr _, w') \<Rightarrow> ((Republished, False), w') | (Inl _, w') \<Rightarrow> ((Barred, True), w'))
      | Manual_cleanup \<Rightarrow> ((Barred, False), w))"

definition recover_one ::
  "(bytes \<Rightarrow> jsstr) \<Rightarrow> ('t, 'w) recovery_deps \<Rightarrow> jsstr \<Rightarrow> 'w \<Rightarrow> processed \<times> 'w" where
  "recover_one sha256 deps workspaceId w =
     (let done = (\<lambda>d a f w. (\<lparr>pr_workspaceId = workspaceId, pr_disposition = d, pr_action = a, pr_failed = f\<rparr>, w)) in
      case d_readSnapshotInputs deps workspaceId w of
        (Inl _, w1) \<Rightarrow> done Manual_cleanup Barred True w1
      | (Inr inputs, w1) \<Rightarrow>
         (case seq (buildRecoverySnapshot sha256 (with_field inputs ''workspaceId'' (JStr workspaceId))) (classifyGenerationRecovery sha256) of
            Inl _ \<Rightarrow> done Manual_cleanup Barred True w1
          | Inr d \<Rightarrow> (case act sha256 (d_publisherIo deps workspaceId) d w1 of ((a, f), w2) \<Rightarrow> done d a f w2)))"

fun recover_each ::
  "(bytes \<Rightarrow> jsstr) \<Rightarrow> ('t, 'w) recovery_deps \<Rightarrow> jsstr list \<Rightarrow> 'w \<Rightarrow> processed list \<times> 'w" where
  "recover_each sha256 deps [] w = ([], w)"
| "recover_each sha256 deps (i # is) w =
     (let (p, w1) = recover_one sha256 deps i w; (ps, w2) = recover_each sha256 deps is w1 in (p # ps, w2))"

record recovery_report =
  r_admitted :: nat
  r_batchCount :: nat
  r_processed :: "processed list"
  r_barred :: "jsstr list"

definition recoverWorkspaces ::
  "(bytes \<Rightarrow> jsstr) \<Rightarrow> ('t, 'w) recovery_deps \<Rightarrow> jsval \<Rightarrow> 'w \<Rightarrow> (js_error + recovery_report) \<times> 'w" where
  "recoverWorkspaces sha256 deps workspaceIds w =
     (case planRecoveryBatches workspaceIds of
        Inl e \<Rightarrow> (Inl e, w)
      | Inr plan \<Rightarrow>
         (let (ps, w') = recover_each sha256 deps (concat (batches plan)) w in
          (Inr \<lparr>r_admitted = totalAdmitted plan, r_batchCount = batchCount plan, r_processed = ps,
                r_barred = map pr_workspaceId (filter (\<lambda>p. pr_action p = Barred) ps)\<rparr>, w')))"

definition boot_deps ::
  "(bytes \<Rightarrow> jsstr) \<Rightarrow> (bytes \<Rightarrow> jsval option) \<Rightarrow> bool \<Rightarrow> (nat \<Rightarrow> jsstr) \<Rightarrow> jsstr \<Rightarrow> (location, fs) recovery_deps" where
  "boot_deps sha256 jsonParse win32 suffix workspaceRoot =
     \<lparr>d_readSnapshotInputs = readSnapshotInputs sha256 jsonParse workspaceRoot,
      d_publisherIo = createGenerationPublisherIo win32 suffix workspaceRoot\<rparr>"

text \<open>\<open>runBootRecovery\<close> with the enumerated workspaces as an argument.\<close>

definition runBootRecovery ::
  "(bytes \<Rightarrow> jsstr) \<Rightarrow> (bytes \<Rightarrow> jsval option) \<Rightarrow> bool \<Rightarrow> (nat \<Rightarrow> jsstr) \<Rightarrow> jsstr \<Rightarrow> jsstr list \<Rightarrow> fs \<Rightarrow>
     (js_error + recovery_report) \<times> fs" where
  "runBootRecovery sha256 jsonParse win32 suffix workspaceRoot ids w =
     (if workspaceRoot = []
      then (Inl (CodedError ''WORKSPACE_RECOVERY_BOOT_CONFIG_INVALID'' (js ''workspace_recovery_boot_wiring: WORKSPACE_RECOVERY_BOOT_CONFIG_INVALID: workspaceRoot must be a non-empty string'')), w)
      else recoverWorkspaces sha256 (boot_deps sha256 jsonParse win32 suffix workspaceRoot) (JArr (map JStr ids)) w)"

section \<open>Reading the evidence\<close>

abbreviation gfile :: "jsstr \<Rightarrow> jsstr \<Rightarrow> string \<Rightarrow> location" where
  "gfile rt i nm \<equiv> (workspace_dir rt i ''generation'', js nm)"

abbreviation lfile :: "jsstr \<Rightarrow> jsstr \<Rightarrow> string \<Rightarrow> location" where
  "lfile rt i nm \<equiv> (workspace_dir rt i ''lifecycle'', js nm)"

text \<open>The evidence of an interrupted publication: a valid transaction for \<open>new\<close> with a checkpoint in phase
  \<open>prepared\<close> or \<open>applied\<close>, the new pointer as the candidate, and the bytes \<open>old\<close> that were live before
  as the prior pointer.\<close>

definition interrupted ::
  "(bytes \<Rightarrow> jsstr) \<Rightarrow> (bytes \<Rightarrow> jsval option) \<Rightarrow> jsstr \<Rightarrow> jsstr \<Rightarrow> jsval \<Rightarrow> bytes option \<Rightarrow> fs \<Rightarrow> bool" where
  "interrupted sha256 jsonParse rt i new old w \<longleftrightarrow>
     map_of (files w) (gfile rt i ''prior.ptr'') = old \<and>
     map_of (files w) (gfile rt i ''candidate.ptr'') = Some (utf8 (render new)) \<and>
     map_of (files w) (lfile rt i ''manual-cleanup.json'') = None \<and>
     (\<exists>tb cb tx ck. map_of (files w) (lfile rt i ''transaction.json'') = Some tb \<and> jsonParse tb = Some tx \<and>
        map_of (files w) (lfile rt i ''checkpoint.json'') = Some cb \<and> jsonParse cb = Some ck \<and>
        is_ok (validateWorkspaceLifecycleTransaction sha256 tx) \<and>
        is_ok (validateWorkspaceLifecycleCheckpoint sha256 ck tx) \<and>
        fld tx ''candidateFingerprint'' = fld new ''pointerFingerprint'' \<and>
        (fld ck ''phase'' = JLit ''prepared'' \<or> fld ck ''phase'' = JLit ''applied''))"

lemma evidence_outside:
  "outside suffix (live_location rt i) (gfile rt i ''prior.ptr'')" "outside suffix (live_location rt i) (gfile rt i ''candidate.ptr'')"
  "outside suffix (live_location rt i) (lfile rt i nm)"
  by (auto simp: outside_def live_location_def temp_location_def workspace_dir_def js_def)

lemma interrupted_files:
  assumes "interrupted sha256 jsonParse rt i new old w"
    and "\<And>q. outside suffix (live_location rt i) q \<Longrightarrow> map_of (files w') q = map_of (files w) q"
  shows "interrupted sha256 jsonParse rt i new old w'"
proof -
  have "map_of (files w') q = map_of (files w) q"
    if "q \<in> {gfile rt i ''prior.ptr'', gfile rt i ''candidate.ptr'', lfile rt i ''manual-cleanup.json'',
      lfile rt i ''transaction.json'', lfile rt i ''checkpoint.json''}" for q
    using that evidence_outside [of suffix rt i] by (intro assms(2)) auto
  then show ?thesis using assms(1) by (simp add: interrupted_def del: map_of_eq_Some_iff)
qed

definition pointer_value :: "jsval option \<Rightarrow> jsval" where
  "pointer_value c = (case c of None \<Rightarrow> JNull | Some v \<Rightarrow> v)"

lemma pointer_or_null_live: "live_pointer sha256 b c \<Longrightarrow> pointer_or_null sha256 b = Inr (pointer_value c)"
  by (auto simp: live_pointer_def pointer_or_null_def pointer_value_def split: option.splits)

lemma readJson_no_faults:
  assumes "faults w = []"
  shows "map_of (files w) p = None \<Longrightarrow> readJsonOrNull jsonParse p w = (Inr JNull, w)"
    and "map_of (files w) p = Some b \<Longrightarrow> jsonParse b = Some v \<Longrightarrow> readJsonOrNull jsonParse p w = (Inr v, w)"
  using assms by (simp_all add: readJsonOrNull_def io_then_def read_no_faults lift_io_def)

lemma read_evidence:
  assumes "faults w = []" "live_pointer sha256 (map_of (files w) (live_location rt i)) c"
    and "live_pointer sha256 old d" "live_pointer sha256 (Some (utf8 (render new))) (Some cand)"
    and "interrupted sha256 jsonParse rt i new old w"
  shows "\<exists>tx ck. readSnapshotInputs sha256 jsonParse rt i w = (Inr (record_of [(''livePointer'', pointer_value c),
      (''priorPointer'', pointer_value d), (''candidatePointer'', cand), (''checkpoint'', ck), (''transaction'', tx),
      (''manualCleanup'', JNull)]), w) \<and>
    is_ok (validateWorkspaceLifecycleTransaction sha256 tx) \<and> is_ok (validateWorkspaceLifecycleCheckpoint sha256 ck tx) \<and>
    fld tx ''candidateFingerprint'' = fld new ''pointerFingerprint'' \<and>
    (fld ck ''phase'' = JLit ''prepared'' \<or> fld ck ''phase'' = JLit ''applied'')"
proof -
  from assms(5) obtain tb cb tx ck where
    f: "map_of (files w) (gfile rt i ''prior.ptr'') = old"
    "map_of (files w) (gfile rt i ''candidate.ptr'') = Some (utf8 (render new))"
    "map_of (files w) (lfile rt i ''manual-cleanup.json'') = None"
    "map_of (files w) (lfile rt i ''transaction.json'') = Some tb" "map_of (files w) (lfile rt i ''checkpoint.json'') = Some cb"
    and j: "jsonParse tb = Some tx" "jsonParse cb = Some ck" and e: "is_ok (validateWorkspaceLifecycleTransaction sha256 tx)"
    "is_ok (validateWorkspaceLifecycleCheckpoint sha256 ck tx)" "fld tx ''candidateFingerprint'' = fld new ''pointerFingerprint''"
    "fld ck ''phase'' = JLit ''prepared'' \<or> fld ck ''phase'' = JLit ''applied''"
    unfolding interrupted_def by blast
  have v: "pointer_or_null sha256 (map_of (files w) (gfile rt i ''live.ptr'')) = Inr (pointer_value c)"
    "pointer_or_null sha256 old = Inr (pointer_value d)" "pointer_or_null sha256 (Some (utf8 (render new))) = Inr cand"
    using assms(2-4) [THEN pointer_or_null_live] by (simp_all add: live_location_def pointer_value_def)
  have "readSnapshotInputs sha256 jsonParse rt i w = (Inr (record_of [(''livePointer'', pointer_value c),
      (''priorPointer'', pointer_value d), (''candidatePointer'', cand), (''checkpoint'', ck), (''transaction'', tx),
      (''manualCleanup'', JNull)]), w)"
    using readJson_no_faults(1) [OF assms(1) f(3), of jsonParse] readJson_no_faults(2) [where jsonParse = jsonParse, OF assms(1) f(4) j(1)]
      readJson_no_faults(2) [where jsonParse = jsonParse, OF assms(1) f(5) j(2)]
    by (simp add: readSnapshotInputs_def Let_def io_then_def read_no_faults [OF assms(1)] f(1,2) v lift_io_def
        del: map_of_eq_Some_iff)
  with e show ?thesis by blast
qed

section \<open>Classification of the evidence\<close>

definition snapshot_of :: "jsstr \<Rightarrow> jsval \<Rightarrow> jsval \<Rightarrow> jsval \<Rightarrow> jsval \<Rightarrow> jsval \<Rightarrow> jsval" where
  "snapshot_of i live prior cand ck tx = record_of [(''workspaceId'', JStr i), (''livePointer'', live), (''priorPointer'', prior),
     (''candidatePointer'', cand), (''checkpoint'', ck), (''transaction'', tx), (''manualCleanup'', JNull)]"

lemma snapshot_fields [simp]:
  "fld (snapshot_of i live prior cand ck tx) ''workspaceId'' = JStr i"
  "fld (snapshot_of i live prior cand ck tx) ''livePointer'' = live"
  "fld (snapshot_of i live prior cand ck tx) ''priorPointer'' = prior"
  "fld (snapshot_of i live prior cand ck tx) ''candidatePointer'' = cand"
  "fld (snapshot_of i live prior cand ck tx) ''checkpoint'' = ck"
  "fld (snapshot_of i live prior cand ck tx) ''transaction'' = tx"
  "fld (snapshot_of i live prior cand ck tx) ''manualCleanup'' = JNull"
  by (simp_all add: snapshot_of_def get_own_JObj)

lemma exact_not_null: "exact v ks \<Longrightarrow> v \<noteq> JNull \<and> v \<noteq> JUndefined"
  by (auto simp: exact_def)

lemma transaction_not_null: "is_ok (validateWorkspaceLifecycleTransaction sha256 tx) \<Longrightarrow> tx \<noteq> JNull \<and> tx \<noteq> JUndefined"
  by (rule exact_not_null [of _ txKeys])
    (simp add: validateWorkspaceLifecycleTransaction_def transaction_schema_def is_ok_iff)

lemma checkpoint_not_null: "is_ok (validateWorkspaceLifecycleCheckpoint sha256 ck tx) \<Longrightarrow> ck \<noteq> JNull \<and> ck \<noteq> JUndefined"
  by (rule exact_not_null [of _ checkpointKeys])
    (simp add: validateWorkspaceLifecycleCheckpoint_def checkpoint_schema_def is_ok_iff)

lemma pointer_not_null: "is_ok (validateGenerationPointer sha256 p) \<Longrightarrow> p \<noteq> JNull \<and> p \<noteq> JUndefined"
  using pointer_accepted(1) exact_not_null by blast

lemma unless_null_ok: "is_ok (unless_null v r) \<longleftrightarrow> v = JNull \<or> is_ok r"
  by (cases r) (auto simp: unless_null_def)

lemma is_ok_seq: "is_ok (seq r f) \<longleftrightarrow> (\<exists>x. r = Inr x \<and> is_ok (f x))"
  by (cases r) auto

lemma is_ok_seq_const: "is_ok (seq r (\<lambda>_. k)) \<longleftrightarrow> is_ok r \<and> is_ok k"
  by (cases r) auto

definition pointer_or_none :: "(bytes \<Rightarrow> jsstr) \<Rightarrow> jsval \<Rightarrow> bool" where
  "pointer_or_none sha256 v \<longleftrightarrow> v = JNull \<or> is_ok (validateGenerationPointer sha256 v)"

lemma pointer_value_ok: "live_pointer sha256 b c \<Longrightarrow> pointer_or_none sha256 (pointer_value c)"
  using parsed_pointer(1) by (auto simp: live_pointer_def pointer_value_def pointer_or_none_def split: option.splits)

lemma snapshot_valid:
  assumes "isId (JStr i)" "pointer_or_none sha256 live" "pointer_or_none sha256 prior" "pointer_or_none sha256 cand"
    and "is_ok (validateWorkspaceLifecycleTransaction sha256 tx)" "is_ok (validateWorkspaceLifecycleCheckpoint sha256 ck tx)"
  shows "validateRecoverySnapshot sha256 (snapshot_of i live prior cand ck tx) = Inr (snapshot_of i live prior cand ck tx)"
proof -
  have "is_ok (assertFields sha256 (snapshot_of i live prior cand ck tx))"
    using assms by (simp add: assertFields_def is_ok_seq_const unless_null_ok pointer_or_none_def)
  moreover have "exact (snapshot_of i live prior cand ck tx) SNAPSHOT_KEYS"
    by (simp add: snapshot_of_def exact_def SNAPSHOT_KEYS_def own_keys_JObj has_key_JObj)
  ultimately show ?thesis by (auto simp: validateRecoverySnapshot_def is_ok_iff)
qed

lemma snapshot_built:
  assumes "isId (JStr i)" "pointer_or_none sha256 live" "pointer_or_none sha256 prior" "pointer_or_none sha256 cand"
    and "is_ok (validateWorkspaceLifecycleTransaction sha256 tx)" "is_ok (validateWorkspaceLifecycleCheckpoint sha256 ck tx)"
  shows "seq (buildRecoverySnapshot sha256 (with_field (record_of [(''livePointer'', live), (''priorPointer'', prior),
      (''candidatePointer'', cand), (''checkpoint'', ck), (''transaction'', tx), (''manualCleanup'', JNull)]) ''workspaceId'' (JStr i)))
      (classifyGenerationRecovery sha256) = Inr (classify_valid (snapshot_of i live prior cand ck tx))"
proof -
  have n: "null_default live = live" "null_default prior = prior" "null_default cand = cand" "null_default ck = ck"
    "null_default tx = tx" "null_default JNull = JNull"
    using assms(2-6) pointer_not_null transaction_not_null checkpoint_not_null
    by (auto simp: null_default_def pointer_or_none_def)
  have "buildRecoverySnapshot sha256 (with_field (record_of [(''livePointer'', live), (''priorPointer'', prior),
      (''candidatePointer'', cand), (''checkpoint'', ck), (''transaction'', tx), (''manualCleanup'', JNull)]) ''workspaceId'' (JStr i))
      = validateRecoverySnapshot sha256 (snapshot_of i live prior cand ck tx)"
    by (simp add: buildRecoverySnapshot_def with_field_def get_own_JObj own_keys_JObj SNAPSHOT_KEYS_def n snapshot_of_def)
  then show ?thesis using snapshot_valid [OF assms] by (simp add: classifyGenerationRecovery_def)
qed

lemma classify_landed:
  assumes "is_ok (validateGenerationPointer sha256 live)" "tx \<noteq> JNull" "ck \<noteq> JNull"
    and "fld ck ''phase'' = JLit ''prepared'' \<or> fld ck ''phase'' = JLit ''applied''"
    and "fld tx ''candidateFingerprint'' = fld live ''pointerFingerprint''"
  shows "classify_valid (snapshot_of i live prior cand ck tx) = Committed_needs_flush"
  using assms pointer_not_null [OF assms(1)] isHex64_string [OF pointer_accepted(16) [OF assms(1)]]
  by (auto simp: classify_valid_def Let_def pointerFp_def)

lemma classify_not_landed:
  assumes "pointer_or_none sha256 live" "is_ok (validateGenerationPointer sha256 cand)" "tx \<noteq> JNull" "ck \<noteq> JNull"
    and "fld ck ''phase'' = JLit ''prepared'' \<or> fld ck ''phase'' = JLit ''applied''"
    and "fld tx ''candidateFingerprint'' = fld cand ''pointerFingerprint''"
    and "fld cand ''priorPointerFingerprint'' = pointerFp live" "pointerFp live \<noteq> fld cand ''pointerFingerprint''"
  shows "classify_valid (snapshot_of i live live cand ck tx) = Safe_replay cand"
proof -
  obtain s where s: "fld cand ''pointerFingerprint'' = JStr s" using isHex64_string [OF pointer_accepted(16) [OF assms(2)]] by blast
  have "pointerFp live = JNull \<or> (\<exists>t. pointerFp live = JStr t)"
    using assms(1) isHex64_string pointer_accepted(16) pointer_not_null
    by (auto simp: pointer_or_none_def pointerFp_def)
  then show ?thesis
    using assms(3-8) s pointer_not_null [OF assms(2)]
    by (elim disjE exE) (simp_all add: classify_valid_def Let_def pointerFp_def [of cand])
qed

section \<open>Recovery completes an interrupted publication\<close>

lemma pointer_hash:
  assumes "is_ok (validateGenerationPointer sha256 p)"
  shows "fld p ''pointerFingerprint'' = JStr (sha256 (utf8 (render (pointer_body p))))"
    "canonicalJson GENERATION_POINTER_LIMITS (pointer_body p) = Inr (render (pointer_body p))"
proof -
  note a = pointer_accepted [OF assms]
  obtain s where s: "fld p ''pointerFingerprint'' = JStr s" using isHex64_string [OF a(16)] by blast
  have "canonicalJsonHash sha256 GENERATION_POINTER_LIMITS (pointer_body p) = Inr s"
    using a(17) s by (auto simp: pointerFingerprintOf_def split: sum.splits)
  then obtain t where t: "canonicalJson GENERATION_POINTER_LIMITS (pointer_body p) = Inr t" "s = sha256 (utf8 t)"
    by (auto simp: canonicalJsonHash_def map_sum_Inr canonicalJsonBytes_Inr)
  then have "t = render (pointer_body p)" by (simp add: canonicalJson_Inr)
  with s t show "fld p ''pointerFingerprint'' = JStr (sha256 (utf8 (render (pointer_body p))))"
    "canonicalJson GENERATION_POINTER_LIMITS (pointer_body p) = Inr (render (pointer_body p))" by simp_all
qed

lemma pointer_body_wf: "distinct_keys p \<Longrightarrow> distinct_keys (pointer_body p)"
  using distinct_keys_get_own by (auto simp: pointer_body_def POINTER_KEYS_def)

lemma pointer_body_generation: "fld (pointer_body p) ''activeGeneration'' = fld p ''activeGeneration''"
  by (simp add: pointer_body_def POINTER_KEYS_def get_own_JObj)

lemma successor_fingerprint:
  assumes "is_ok (validateGenerationPointer sha256 new)" "is_ok (validateGenerationPointer sha256 c)"
    and "distinct_keys new" "distinct_keys c" "follows new (Some c)"
    and "fld new ''pointerFingerprint'' = fld c ''pointerFingerprint''"
  shows "collides sha256 (utf8 (render (pointer_body new))) (utf8 (render (pointer_body c)))" (is ?collision)
proof (rule ccontr)
  assume "\<not> ?collision"
  then have "utf8 (render (pointer_body new)) = utf8 (render (pointer_body c))"
    using assms(6) pointer_hash(1) [OF assms(1)] pointer_hash(1) [OF assms(2)]
    by (metis jsval.inject(3) collides_def)
  then have "render (pointer_body new) = render (pointer_body c)" by (simp add: utf8_inject well_formed_render)
  then have "canon (pointer_body new) = canon (pointer_body c)"
    using canonical_text_eq_iff [OF pointer_body_wf [OF assms(3)] pointer_body_wf [OF assms(4)]
      pointer_hash(2) [OF assms(1)] pointer_hash(2) [OF assms(2)]] by blast
  then have "canon (fld new ''activeGeneration'') = canon (fld c ''activeGeneration'')"
    using get_own_canon [OF pointer_body_wf [OF assms(3)]] get_own_canon [OF pointer_body_wf [OF assms(4)]]
    by (metis pointer_body_generation)
  then have "int_of (fld new ''activeGeneration'') = int_of (fld c ''activeGeneration'')" by (metis isSafeInteger_canon(2))
  with follows_generation [OF assms(5,1)] show False by (simp add: generation_of_def)
qed

text \<open>The new pointer and the one it follows hash alike.\<close>

definition pointer_collision :: "(bytes \<Rightarrow> jsstr) \<Rightarrow> jsval \<Rightarrow> jsval option \<Rightarrow> bool" where
  "pointer_collision sha256 new c \<longleftrightarrow>
     (case c of None \<Rightarrow> False | Some x \<Rightarrow> collides sha256 (utf8 (render (pointer_body new))) (utf8 (render (pointer_body x))))"

lemma follows_prior:
  assumes "live_pointer sha256 old d" "follows new d" "is_ok (validateGenerationPointer sha256 new)"
  shows "fld new ''priorPointerFingerprint'' = pointerFp (pointer_value d)"
proof (cases d)
  case None
  then have "fld new ''priorGeneration'' = JNull" using assms(2) by (simp add: follows_def)
  then show ?thesis
    using pointer_accepted(15) [OF assms(3)] None by (simp add: prior_ok_def pointerFp_def pointer_value_def)
next
  case (Some x)
  with assms(1) obtain b where "parseGenerationPointer sha256 b = Inr x" by (auto simp: live_pointer_def split: option.splits)
  then have "x \<noteq> JNull" using parsed_pointer(1) pointer_not_null by blast
  then show ?thesis using assms(2) Some by (simp add: follows_def pointerFp_def pointer_value_def)
qed

lemma follows_differs:
  assumes "live_pointer sha256 old d" "follows new d" "is_ok (validateGenerationPointer sha256 new)" "distinct_keys new"
    and "\<not> pointer_collision sha256 new d"
  shows "pointerFp (pointer_value d) \<noteq> fld new ''pointerFingerprint''"
proof
  assume e: "pointerFp (pointer_value d) = fld new ''pointerFingerprint''"
  obtain s where "fld new ''pointerFingerprint'' = JStr s" using isHex64_string [OF pointer_accepted(16) [OF assms(3)]] by blast
  with e obtain x where x: "d = Some x" by (cases d) (auto simp: pointerFp_def pointer_value_def)
  with assms(1) obtain b where "parseGenerationPointer sha256 b = Inr x" by (auto simp: live_pointer_def split: option.splits)
  note px = parsed_pointer [OF this]
  have "fld new ''pointerFingerprint'' = fld x ''pointerFingerprint''"
    using e x pointer_not_null [OF px(1)] by (simp add: pointerFp_def pointer_value_def)
  with successor_fingerprint [OF assms(3) px(1) assms(4) px(2)] assms(2,5) x show False by (simp add: pointer_collision_def)
qed

lemma recover_classified:
  assumes "faults w = []" "isId (JStr i)" "is_ok (validateGenerationPointer sha256 new)" "distinct_keys new"
    and "live_pointer sha256 (map_of (files w) (live_location rt i)) c" "live_pointer sha256 old d"
    and "interrupted sha256 jsonParse rt i new old w"
  shows "\<exists>tx ck. recover_one sha256 (boot_deps sha256 jsonParse win32 suffix rt) i w =
      (let s = classify_valid (snapshot_of i (pointer_value c) (pointer_value d) (canon new) ck tx);
           ((a, f), w2) = act sha256 (createAtomicPointerIo win32 suffix (live_location rt i)) s w
       in (\<lparr>pr_workspaceId = i, pr_disposition = s, pr_action = a, pr_failed = f\<rparr>, w2)) \<and>
    tx \<noteq> JNull \<and> ck \<noteq> JNull \<and> (fld ck ''phase'' = JLit ''prepared'' \<or> fld ck ''phase'' = JLit ''applied'') \<and>
    fld tx ''candidateFingerprint'' = fld (canon new) ''pointerFingerprint''"
proof -
  have cand: "live_pointer sha256 (Some (utf8 (render new))) (Some (canon new))"
    using pointer_stored(2) [OF assms(3,4)] by (simp add: live_pointer_def)
  obtain tx ck where r: "readSnapshotInputs sha256 jsonParse rt i w = (Inr (record_of [(''livePointer'', pointer_value c),
      (''priorPointer'', pointer_value d), (''candidatePointer'', canon new), (''checkpoint'', ck), (''transaction'', tx),
      (''manualCleanup'', JNull)]), w)"
    and v: "is_ok (validateWorkspaceLifecycleTransaction sha256 tx)" "is_ok (validateWorkspaceLifecycleCheckpoint sha256 ck tx)"
    "fld tx ''candidateFingerprint'' = fld new ''pointerFingerprint''" "fld ck ''phase'' = JLit ''prepared'' \<or> fld ck ''phase'' = JLit ''applied''"
    using read_evidence [OF assms(1,5,6) cand assms(7)] by blast
  let ?s = "snapshot_of i (pointer_value c) (pointer_value d) (canon new) ck tx"
  have cl: "seq (buildRecoverySnapshot sha256 (with_field (record_of [(''livePointer'', pointer_value c),
      (''priorPointer'', pointer_value d), (''candidatePointer'', canon new), (''checkpoint'', ck), (''transaction'', tx),
      (''manualCleanup'', JNull)]) ''workspaceId'' (JStr i))) (classifyGenerationRecovery sha256) = Inr (classify_valid ?s)"
    using pointer_value_ok [OF assms(5)] pointer_value_ok [OF assms(6)] pointer_canon(1) [OF assms(3,4)] v
    by (intro snapshot_built [OF assms(2)]) (auto simp: pointer_or_none_def)
  have "fld (canon new) ''pointerFingerprint'' = fld new ''pointerFingerprint''"
    using pointer_canon(2) [OF assms(3,4)] by (simp add: POINTER_KEYS_def)
  moreover have "recover_one sha256 (boot_deps sha256 jsonParse win32 suffix rt) i w =
      (let s = classify_valid ?s; ((a, f), w2) = act sha256 (createAtomicPointerIo win32 suffix (live_location rt i)) s w
       in (\<lparr>pr_workspaceId = i, pr_disposition = s, pr_action = a, pr_failed = f\<rparr>, w2))"
    using r cl by (simp add: recover_one_def boot_deps_def createGenerationPublisherIo_def Let_def split: prod.splits)
  ultimately show ?thesis
    using v(3,4) transaction_not_null [OF v(1)] checkpoint_not_null [OF v(2)] by metis
qed

lemma recover_one_landed:
  assumes "faults w = []" "isId (JStr i)" "is_ok (validateGenerationPointer sha256 new)" "distinct_keys new"
    and "live_pointer sha256 old d" "interrupted sha256 jsonParse rt i new old w"
    and "map_of (files w) (live_location rt i) = Some (utf8 (render new))"
  shows "\<exists>pr. recover_one sha256 (boot_deps sha256 jsonParse win32 suffix rt) i w = (pr, w) \<and>
    pr_workspaceId pr = i \<and> pr_action pr = Flushed"
proof -
  have live: "live_pointer sha256 (map_of (files w) (live_location rt i)) (Some (canon new))"
    using pointer_stored(2) [OF assms(3,4)] assms(7) by (simp add: live_pointer_def)
  obtain tx ck where r: "recover_one sha256 (boot_deps sha256 jsonParse win32 suffix rt) i w =
      (let s = classify_valid (snapshot_of i (pointer_value (Some (canon new))) (pointer_value d) (canon new) ck tx);
           ((a, f), w2) = act sha256 (createAtomicPointerIo win32 suffix (live_location rt i)) s w
       in (\<lparr>pr_workspaceId = i, pr_disposition = s, pr_action = a, pr_failed = f\<rparr>, w2))"
    and v: "tx \<noteq> JNull" "ck \<noteq> JNull" "fld ck ''phase'' = JLit ''prepared'' \<or> fld ck ''phase'' = JLit ''applied''"
    "fld tx ''candidateFingerprint'' = fld (canon new) ''pointerFingerprint''"
    using recover_classified [OF assms(1-4) live assms(5,6)] by blast
  have "classify_valid (snapshot_of i (canon new) (pointer_value d) (canon new) ck tx) = Committed_needs_flush"
    by (rule classify_landed [OF pointer_canon(1) [OF assms(3,4)] v])
  then show ?thesis
    using r by (simp add: pointer_value_def act_def createAtomicPointerIo_def flushParent_no_faults [OF assms(1)])
qed

lemma recover_one_not_landed:
  assumes "faults w = []" "isId (JStr i)" "is_ok (validateGenerationPointer sha256 new)" "distinct_keys new"
    and "live_pointer sha256 old d" "interrupted sha256 jsonParse rt i new old w"
    and "map_of (files w) (live_location rt i) = old" "follows new d" "\<not> pointer_collision sha256 new d"
    and "\<not> mhas (temp_location suffix (live_location rt i) (Suc (tempCounter w))) (files w)"
  shows "\<exists>pr w'. recover_one sha256 (boot_deps sha256 jsonParse win32 suffix rt) i w = (pr, w') \<and>
    pr_workspaceId pr = i \<and> pr_action pr = Republished \<and> faults w' = [] \<and>
    map_of (files w') (live_location rt i) = Some (utf8 (render new)) \<and> interrupted sha256 jsonParse rt i new old w'"
proof -
  let ?p = "live_location rt i"
  have live: "live_pointer sha256 (map_of (files w) ?p) d" using assms(5,7) by simp
  have cfp: "fld (canon new) k = fld new k" if "k \<in> set POINTER_KEYS" for k using pointer_canon(2) [OF assms(3,4) that] .
  obtain tx ck where r: "recover_one sha256 (boot_deps sha256 jsonParse win32 suffix rt) i w =
      (let s = classify_valid (snapshot_of i (pointer_value d) (pointer_value d) (canon new) ck tx);
           ((a, f), w2) = act sha256 (createAtomicPointerIo win32 suffix ?p) s w
       in (\<lparr>pr_workspaceId = i, pr_disposition = s, pr_action = a, pr_failed = f\<rparr>, w2))"
    and v: "tx \<noteq> JNull" "ck \<noteq> JNull" "fld ck ''phase'' = JLit ''prepared'' \<or> fld ck ''phase'' = JLit ''applied''"
    "fld tx ''candidateFingerprint'' = fld (canon new) ''pointerFingerprint''"
    using recover_classified [OF assms(1-4) live assms(5,6)] by blast
  have prior: "fld (canon new) ''priorPointerFingerprint'' = pointerFp (pointer_value d)"
    "pointerFp (pointer_value d) \<noteq> fld (canon new) ''pointerFingerprint''"
    using follows_prior [OF assms(5,8,3)] follows_differs [OF assms(5,8,3,4,9)] cfp by (simp_all add: POINTER_KEYS_def)
  have ok: "is_ok (validateGenerationPointer sha256 (canon new))" by (rule pointer_canon(1) [OF assms(3,4)])
  have cl: "classify_valid (snapshot_of i (pointer_value d) (pointer_value d) (canon new) ck tx) = Safe_replay (canon new)"
    by (rule classify_not_landed [OF pointer_value_ok [OF assms(5)] ok v prior])
  have "follows (canon new) d"
    using assms(8) cfp by (auto simp: follows_def POINTER_KEYS_def split: option.splits)
  then obtain r' w' where pub: "publishGeneration sha256 (createAtomicPointerIo win32 suffix ?p) (canon new) w = (Inr r', w')"
    "map_of (files w') ?p = Some (utf8 (render (canon new)))" "faults w' = []"
    using publish_no_faults [OF assms(1,10) ok] assms(4) live by (metis distinct_keys_canon)
  have "interrupted sha256 jsonParse rt i new old w'"
    using assms(1,4) by (intro interrupted_files [OF assms(6)] publish_storage(2) [OF _ _ pub(1)]) (simp_all add: honest_faults_def)
  with r cl pub show ?thesis by (simp add: act_def render_canon)
qed

lemma plan_one:
  "isId (JStr i) \<Longrightarrow> \<exists>plan. planRecoveryBatches (JArr [JStr i]) = Inr plan \<and> concat (batches plan) = [i]"
  by (simp add: planRecoveryBatches_def isId_def queue_isId_def MAX_RECOVERY_TOTAL_def Let_def batches_from_concat)

lemma boot_one:
  assumes "rt \<noteq> []" "isId (JStr i)" "recover_one sha256 (boot_deps sha256 jsonParse win32 suffix rt) i w = (pr, w')"
    and "pr_workspaceId pr = i" "pr_action pr \<noteq> Barred"
  shows "\<exists>rep. runBootRecovery sha256 jsonParse win32 suffix rt [i] w = (Inr rep, w') \<and> r_barred rep = []"
proof -
  obtain plan where "planRecoveryBatches (JArr [JStr i]) = Inr plan" "concat (batches plan) = [i]"
    using plan_one [OF assms(2)] by blast
  then show ?thesis using assms by (simp add: runBootRecovery_def recoverWorkspaces_def)
qed


end
