(* ===== verification/Tombstone_Publisher.thy ===== *)
theory Tombstone_Publisher
  imports Crash_Recovery
begin

text \<open>
  The tombstone publisher of \<^verbatim>\<open>daemon/src/workspace-tombstone-publisher.js\<close>: a reset or a delete replaces the
  record in the live slot by a tombstone that chains onto it.  The slot then holds one of two kinds of
  record, and both publishers run over the same storage.
\<close>

section \<open>The tombstone record\<close>

definition TOMBSTONE_LIMITS :: limits where
  "TOMBSTONE_LIMITS = \<lparr>maxBytes = 64 * 1024, maxDepth = 8, maxNodes = 256\<rparr>"

definition POINTER_KIND :: jsval where
  "POINTER_KIND = JLit ''workspace-generation-pointer''"

definition TOMBSTONE_KIND :: jsval where
  "TOMBSTONE_KIND = JLit ''workspace-tombstone''"

definition TOMBSTONE_KEYS :: "string list" where
  "TOMBSTONE_KEYS = [''version'', ''kind'', ''hostId'', ''workspaceId'', ''sourcePlatform'', ''operation'', ''tombstonedGeneration'',
     ''priorKind'', ''priorPointerFingerprint'', ''dirtyBackupFingerprint'', ''tombstoneFingerprint'']"

definition TOMBSTONE_STEPS :: "string list" where
  "TOMBSTONE_STEPS = [''writeTemp'', ''flushTemp'', ''replace'', ''flushParent'']"

definition tomb_refuse :: "string \<Rightarrow> string \<Rightarrow> js_error" where
  "tomb_refuse k reason = CodedError k (js ''workspace_tombstone_publish: '' @ js k @ js '': '' @ js reason)"

definition tomb_invalid :: "string \<Rightarrow> js_error" where
  "tomb_invalid = tomb_refuse ''WORKSPACE_TOMBSTONE_INVALID''"

definition tombstone_body :: "jsval \<Rightarrow> jsval" where
  "tombstone_body t = record_of (map (\<lambda>k. (k, fld t k)) (butlast TOMBSTONE_KEYS))"

definition tombstoneFingerprintOf :: "(bytes \<Rightarrow> jsstr) \<Rightarrow> jsval \<Rightarrow> js_error + jsstr" where
  "tombstoneFingerprintOf sha256 t =
     (case canonicalJsonHash sha256 TOMBSTONE_LIMITS (tombstone_body t) of
        Inr h \<Rightarrow> Inr h
      | Inl _ \<Rightarrow> Inl (tomb_invalid ''tombstone body is not canonicalizable''))"

definition validateTombstone :: "(bytes \<Rightarrow> jsstr) \<Rightarrow> jsval \<Rightarrow> js_error + jsval" where
  "validateTombstone sha256 t =
     check (exact t TOMBSTONE_KEYS) (tomb_invalid ''tombstone must have the exact tombstone key set'') (
     check (js_eq (fld t ''version'') (JInt 1)) (tomb_invalid ''unsupported tombstone version'') (
     check (js_eq (fld t ''kind'') TOMBSTONE_KIND) (tomb_invalid ''unexpected tombstone kind'') (
     check (isId (fld t ''hostId'')) (tomb_invalid ''hostId must be a 1..256 char string'') (
     check (isId (fld t ''workspaceId'')) (tomb_invalid ''workspaceId must be a 1..256 char string'') (
     check (str_in (fld t ''sourcePlatform'') [''posix'', ''windows-drive'', ''windows-unc'']) (tomb_invalid ''unknown sourcePlatform'') (
     check (str_in (fld t ''operation'') [''reset'', ''delete'']) (tomb_invalid ''operation must be reset or delete'') (
     check (isGeneration (fld t ''tombstonedGeneration'')) (tomb_invalid ''tombstonedGeneration must be a safe integer >= 1'') (
     check (str_in (fld t ''priorKind'') [''workspace-generation-pointer'', ''workspace-tombstone''])
       (tomb_invalid ''priorKind must name a live-slot record kind'') (
     check (isHex64 (fld t ''priorPointerFingerprint''))
       (tomb_invalid ''priorPointerFingerprint must be hex64 (a tombstone always chains onto a live record)'') (
     check (nullableHash (fld t ''dirtyBackupFingerprint'')) (tomb_invalid ''dirtyBackupFingerprint must be null or hex64'') (
     check (isHex64 (fld t ''tombstoneFingerprint'')) (tomb_invalid ''tombstoneFingerprint must be hex64'') (
     seq (tombstoneFingerprintOf sha256 t) (\<lambda>h.
     check (js_eq (JStr h) (fld t ''tombstoneFingerprint'')) (tomb_invalid ''tombstoneFingerprint does not match the tombstone body'')
       (Inr t))))))))))))))"

definition buildTombstone :: "(bytes \<Rightarrow> jsstr) \<Rightarrow> jsval \<Rightarrow> js_error + jsval" where
  "buildTombstone sha256 input =
     check (plain input) (tomb_invalid ''tombstone input must be an object'') (
     let r = record_of [(''version'', JInt 1), (''kind'', TOMBSTONE_KIND), (''hostId'', fld input ''hostId''),
       (''workspaceId'', fld input ''workspaceId''), (''sourcePlatform'', fld input ''sourcePlatform''),
       (''operation'', fld input ''operation''), (''tombstonedGeneration'', fld input ''tombstonedGeneration''),
       (''priorKind'', fld input ''priorKind''), (''priorPointerFingerprint'', fld input ''priorPointerFingerprint''),
       (''dirtyBackupFingerprint'', null_default (fld input ''dirtyBackupFingerprint'')), (''tombstoneFingerprint'', JNull)] in
     seq (tombstoneFingerprintOf sha256 r) (\<lambda>h.
       validateTombstone sha256 (with_field r ''tombstoneFingerprint'' (JStr h))))"

definition tombstoneBytes :: "(bytes \<Rightarrow> jsstr) \<Rightarrow> jsval \<Rightarrow> js_error + bytes" where
  "tombstoneBytes sha256 t = seq (validateTombstone sha256 t) (\<lambda>_.
     case canonicalJsonBytes TOMBSTONE_LIMITS t of
       Inr b \<Rightarrow> Inr b
     | Inl _ \<Rightarrow> Inl (tomb_invalid ''tombstone is not serializable''))"

definition parseTombstone :: "(bytes \<Rightarrow> jsstr) \<Rightarrow> bytes \<Rightarrow> js_error + jsval" where
  "parseTombstone sha256 b =
     (case parseCanonicalJsonBytes TOMBSTONE_LIMITS b of
        Some (Inr v) \<Rightarrow> validateTombstone sha256 v
      | _ \<Rightarrow> Inl (tomb_invalid ''tombstone bytes are not canonical JSON''))"

section \<open>The live slot\<close>

record live_record =
  lr_kind :: jsval
  lr_fingerprint :: jsval
  lr_record :: jsval

definition slot_config_invalid :: "string \<Rightarrow> js_error" where
  "slot_config_invalid = tomb_refuse ''CONFIG_INVALID''"

text \<open>What \<open>readLiveDisposition\<close> makes of the bytes: the kind is peeked from one parse and selects the
  validator.\<close>

definition slot_record :: "(bytes \<Rightarrow> jsstr) \<Rightarrow> bytes \<Rightarrow> js_error + live_record" where
  "slot_record sha256 b =
     (case parseCanonicalJsonBytes TOMBSTONE_LIMITS b of
        Some (Inr peek) \<Rightarrow>
          check (plain peek \<and> typeof_string (fld peek ''kind'')) (slot_config_invalid ''live slot record has no string kind'') (
          if js_eq (fld peek ''kind'') POINTER_KIND
          then seq (parseGenerationPointer sha256 b) (\<lambda>p.
            Inr \<lparr>lr_kind = POINTER_KIND, lr_fingerprint = fld p ''pointerFingerprint'', lr_record = p\<rparr>)
          else if js_eq (fld peek ''kind'') TOMBSTONE_KIND
          then seq (validateTombstone sha256 peek) (\<lambda>t.
            Inr \<lparr>lr_kind = TOMBSTONE_KIND, lr_fingerprint = fld t ''tombstoneFingerprint'', lr_record = t\<rparr>)
          else Inl (slot_config_invalid ''unknown live-slot record kind''))
      | _ \<Rightarrow> Inl (slot_config_invalid ''live slot bytes are not canonical JSON''))"

definition readLiveDisposition ::
  "(bytes \<Rightarrow> jsstr) \<Rightarrow> ('t, 'w) pointer_io \<Rightarrow> 'w \<Rightarrow> (js_error + live_record option) \<times> 'w" where
  "readLiveDisposition sha256 io w = (case readLivePointer io w of
     (Inl (Own e), w') \<Rightarrow> (Inl e, w')
   | (Inl (Foreign k), w') \<Rightarrow> (Inl (tomb_refuse ''WORKSPACE_TOMBSTONE_IO_FAILED'' ''unable to read the live slot''), w')
   | (Inr None, w') \<Rightarrow> (Inr None, w')
   | (Inr (Some b), w') \<Rightarrow> (map_sum id Some (slot_record sha256 b), w'))"

definition readLiveTombstone ::
  "(bytes \<Rightarrow> jsstr) \<Rightarrow> ('t, 'w) pointer_io \<Rightarrow> 'w \<Rightarrow> (js_error + jsval option) \<times> 'w" where
  "readLiveTombstone sha256 io w = and_then (readLiveDisposition sha256 io w) (\<lambda>live w1.
     (case live of
        None \<Rightarrow> (Inr None, w1)
      | Some d \<Rightarrow> (if js_eq (lr_kind d) TOMBSTONE_KIND then (Inr (Some (lr_record d)), w1) else (Inr None, w1))))"

definition live_generation :: "live_record \<Rightarrow> jsval" where
  "live_generation d =
     (if js_eq (lr_kind d) POINTER_KIND then fld (lr_record d) ''activeGeneration'' else fld (lr_record d) ''tombstonedGeneration'')"

definition tomb_conflict :: "string \<Rightarrow> js_error" where
  "tomb_conflict = tomb_refuse ''WORKSPACE_GENERATION_CAS_CONFLICT''"

definition assertTombstoneSuccession :: "jsval \<Rightarrow> live_record \<Rightarrow> js_error + unit" where
  "assertTombstoneSuccession new d =
     check (js_eq (fld new ''hostId'') (fld (lr_record d) ''hostId'') \<and> js_eq (fld new ''workspaceId'') (fld (lr_record d) ''workspaceId''))
       (tomb_conflict ''tombstone host/workspace does not match the live record'') (
     check (js_eq (fld new ''priorKind'') (lr_kind d)) (tomb_conflict ''priorKind does not match the live record kind'') (
     check (js_eq (fld new ''priorPointerFingerprint'') (lr_fingerprint d))
       (tomb_conflict ''priorPointerFingerprint does not match the live record fingerprint'') (
     check (js_eq (fld new ''tombstonedGeneration'') (live_generation d))
       (tomb_conflict ''tombstonedGeneration does not match the live generation'') (Inr ()))))"

record tombstoned =
  ts_operation :: jsval
  ts_tombstonedGeneration :: jsval
  ts_tombstoneFingerprint :: jsval
  ts_priorPointerFingerprint :: jsval
  ts_priorKind :: jsval

definition tombstone_step_failed :: "string \<Rightarrow> js_error" where
  "tombstone_step_failed step =
     tomb_refuse ''WORKSPACE_TOMBSTONE_IO_FAILED'' (''native tombstone step '' @ [CHR 0x27] @ step @ [CHR 0x27] @ '' failed'')"

text \<open>The protocol of the four steps is the one of the generation publisher.\<close>

definition publishTombstone ::
  "(bytes \<Rightarrow> jsstr) \<Rightarrow> ('t, 'w) pointer_io \<Rightarrow> jsval \<Rightarrow> 'w \<Rightarrow> (js_error + tombstoned) \<times> 'w" where
  "publishTombstone sha256 io t w =
     (case validateTombstone sha256 t of
        Inl e \<Rightarrow> (Inl e, w)
      | Inr _ \<Rightarrow>
          and_then (readLiveDisposition sha256 io w) (\<lambda>live w1.
            case live of
              None \<Rightarrow> (Inl (tomb_conflict ''cannot tombstone an empty live slot''), w1)
            | Some d \<Rightarrow>
               (case assertTombstoneSuccession t d of
                  Inl e \<Rightarrow> (Inl e, w1)
                | Inr _ \<Rightarrow>
                   (case tombstoneBytes sha256 t of
                      Inl e \<Rightarrow> (Inl e, w1)
                    | Inr b \<Rightarrow> and_then (run_steps tombstone_step_failed io b w1) (\<lambda>_ w2.
                        (Inr \<lparr>ts_operation = fld t ''operation'', ts_tombstonedGeneration = fld t ''tombstonedGeneration'',
                              ts_tombstoneFingerprint = fld t ''tombstoneFingerprint'',
                              ts_priorPointerFingerprint = fld t ''priorPointerFingerprint'',
                              ts_priorKind = fld t ''priorKind''\<rparr>, w2))))))"

section \<open>A tombstone can be stored\<close>

lemma tombstone_limits: "TOMBSTONE_LIMITS = RECORD_LIMITS"
  by (simp add: TOMBSTONE_LIMITS_def RECORD_LIMITS_def)

lemma tombstone_Inr: "validateTombstone sha256 t = Inr x \<longleftrightarrow> is_ok (validateTombstone sha256 t) \<and> x = t"
  by (auto simp: validateTombstone_def seq_eq_Inr is_ok_iff)

lemma tombstone_accepted:
  assumes "is_ok (validateTombstone sha256 t)"
  shows "exact t TOMBSTONE_KEYS" "fld t ''version'' = JInt 1" "fld t ''kind'' = TOMBSTONE_KIND"
    "isId (fld t ''hostId'')" "isId (fld t ''workspaceId'')"
    "str_in (fld t ''sourcePlatform'') [''posix'', ''windows-drive'', ''windows-unc'']"
    "str_in (fld t ''operation'') [''reset'', ''delete'']" "isGeneration (fld t ''tombstonedGeneration'')"
    "str_in (fld t ''priorKind'') [''workspace-generation-pointer'', ''workspace-tombstone'']"
    "isHex64 (fld t ''priorPointerFingerprint'')" "nullableHash (fld t ''dirtyBackupFingerprint'')"
    "isHex64 (fld t ''tombstoneFingerprint'')"
    "tombstoneFingerprintOf sha256 t = Inr (str_of (fld t ''tombstoneFingerprint''))"
  using assms
  by (simp_all add: validateTombstone_def TOMBSTONE_KIND_def is_ok_iff seq_eq_Inr) (metis js_eq_imp_eq str_of.simps(1))

lemma tombstone_body_admits:
  assumes "tombstoneFingerprintOf sha256 t = Inr h" "k \<in> set (butlast TOMBSTONE_KEYS)"
  shows "admits 8 1 (fld t k)"
proof -
  have "\<exists>b. canonicalJsonBytes TOMBSTONE_LIMITS (tombstone_body t) = Inr b"
    using assms(1) by (cases "canonicalJsonBytes TOMBSTONE_LIMITS (tombstone_body t)")
      (auto simp: tombstoneFingerprintOf_def canonicalJsonHash_def)
  then have "admits 8 0 (tombstone_body t)"
    by (auto simp: canonicalJsonBytes_Inr canonicalJson_Inr TOMBSTONE_LIMITS_def)
  then show ?thesis using assms(2) by (auto simp: tombstone_body_def)
qed

lemma tombstone_admits:
  assumes "is_ok (validateTombstone sha256 t)" "k \<in> set TOMBSTONE_KEYS"
  shows "admits 8 1 (fld t k)"
proof (cases "k = ''tombstoneFingerprint''")
  case True
  then show ?thesis using tombstone_accepted(12) [OF assms(1)] hex64_strict isHex64_string by fastforce
next
  case False
  then have "k \<in> set (butlast TOMBSTONE_KEYS)" using assms(2) by (auto simp: TOMBSTONE_KEYS_def)
  then show ?thesis by (rule tombstone_body_admits [OF tombstone_accepted(13) [OF assms(1)]])
qed

lemma tombstone_small_fields:
  assumes "is_ok (validateTombstone sha256 t)" and k: "k \<in> set TOMBSTONE_KEYS"
  shows "small_leaf (field_bound k) (fld t k)"
proof -
  note a = tombstone_accepted [OF assms(1)]
  have str: "small_leaf n (fld t j)" if "typeof_string (fld t j)" "j \<in> set TOMBSTONE_KEYS"
    "2 * length (str_of (fld t j)) + 2 \<le> n" for j n
    using that tombstone_admits [OF assms(1), of j] small_leaf_string by (cases "fld t j") auto
  have "small_leaf 514 (fld t ''hostId'')" "small_leaf 514 (fld t ''workspaceId'')"
    using a(4,5) by (auto simp: isId_def TOMBSTONE_KEYS_def intro!: str)
  moreover have "small_leaf 130 (fld t ''kind'')" by (rule str) (simp_all add: a(3) TOMBSTONE_KIND_def TOMBSTONE_KEYS_def)
  moreover have "small_leaf 130 (fld t ''sourcePlatform'')" by (rule str) (use a(6) in \<open>auto simp: str_in_iff TOMBSTONE_KEYS_def\<close>)
  moreover have "small_leaf 130 (fld t ''operation'')" by (rule str) (use a(7) in \<open>auto simp: str_in_iff TOMBSTONE_KEYS_def\<close>)
  moreover have "small_leaf 130 (fld t ''priorKind'')" by (rule str) (use a(9) in \<open>auto simp: str_in_iff TOMBSTONE_KEYS_def\<close>)
  moreover have "small_leaf 130 (fld t ''version'')"
    using a(2) by (simp add: small_leaf_def show_int_def show_nat.simps)
  moreover have "small_leaf 130 (fld t ''dirtyBackupFingerprint'')"
    using a(11) unfolding nullableHash_def js_eq_null by (elim disjE) (simp_all add: small_leaf_null small_leaf_hex)
  moreover note a(8) [THEN small_leaf_generation] a(10,12) [THEN small_leaf_hex]
  ultimately have "\<forall>k \<in> set TOMBSTONE_KEYS. small_leaf (field_bound k) (fld t k)"
    by (simp add: TOMBSTONE_KEYS_def field_bound_def)
  with k show ?thesis by blast
qed

lemma tombstone_cong:
  assumes "exact u TOMBSTONE_KEYS" "exact t TOMBSTONE_KEYS" and same: "\<And>k. k \<in> set TOMBSTONE_KEYS \<Longrightarrow> fld u k = fld t k"
  shows "is_ok (validateTombstone sha256 u) = is_ok (validateTombstone sha256 t)"
proof -
  have f: "fld u ''version'' = fld t ''version''" "fld u ''kind'' = fld t ''kind''" "fld u ''hostId'' = fld t ''hostId''"
    "fld u ''workspaceId'' = fld t ''workspaceId''" "fld u ''sourcePlatform'' = fld t ''sourcePlatform''"
    "fld u ''operation'' = fld t ''operation''" "fld u ''tombstonedGeneration'' = fld t ''tombstonedGeneration''"
    "fld u ''priorKind'' = fld t ''priorKind''" "fld u ''priorPointerFingerprint'' = fld t ''priorPointerFingerprint''"
    "fld u ''dirtyBackupFingerprint'' = fld t ''dirtyBackupFingerprint''"
    "fld u ''tombstoneFingerprint'' = fld t ''tombstoneFingerprint''"
    by (rule same, simp add: TOMBSTONE_KEYS_def)+
  have "tombstone_body u = tombstone_body t" by (simp add: tombstone_body_def TOMBSTONE_KEYS_def f)
  then have "tombstoneFingerprintOf sha256 u = tombstoneFingerprintOf sha256 t" by (simp add: tombstoneFingerprintOf_def)
  then show ?thesis
    using assms(1,2) by (simp add: validateTombstone_def f is_ok_iff seq_eq_Inr)
qed

interpretation tombstones: flat_record TOMBSTONE_KEYS "\<lambda>t. is_ok (validateTombstone sha256 t)" field_bound for sha256
proof
  show "distinct TOMBSTONE_KEYS" "length TOMBSTONE_KEYS < 256" by (simp_all add: TOMBSTONE_KEYS_def)
  show "list_all (\<lambda>k. strict_text (js k)) TOMBSTONE_KEYS"
    by (simp add: TOMBSTONE_KEYS_def strict_text_def js_def forbidden_control_def surrogate_unat)
  have "list_all (\<lambda>k. length (quote (js k)) \<le> 28) TOMBSTONE_KEYS" by code_simp
  then have "(\<Sum>k\<in>set TOMBSTONE_KEYS. length (quote (js k)) + 2 + field_bound k) \<le> (\<Sum>k\<in>set TOMBSTONE_KEYS. 30 + field_bound k)"
    by (intro sum_mono) (auto simp: list_all_iff)
  also have "\<dots> = 2528" by (simp add: TOMBSTONE_KEYS_def field_bound_def)
  finally show "(\<Sum>k\<in>set TOMBSTONE_KEYS. length (quote (js k)) + 2 + field_bound k) \<le> 21840" by simp
  fix t u k
  show "exact t TOMBSTONE_KEYS" if "is_ok (validateTombstone sha256 t)"
    by (rule tombstone_accepted(1) [OF that])
  show "small_leaf (field_bound k) (fld t k)" if "is_ok (validateTombstone sha256 t)" "k \<in> set TOMBSTONE_KEYS"
    by (rule tombstone_small_fields [OF that])
  show "admits 8 1 (fld t k)" if "is_ok (validateTombstone sha256 t)" "k \<in> set TOMBSTONE_KEYS"
    by (rule tombstone_admits [OF that])
  show "is_ok (validateTombstone sha256 u) = is_ok (validateTombstone sha256 t)"
    if "exact u TOMBSTONE_KEYS" "exact t TOMBSTONE_KEYS" "\<And>k. k \<in> set TOMBSTONE_KEYS \<Longrightarrow> fld u k = fld t k"
    by (rule tombstone_cong [OF that])
qed

lemma tombstone_stored:
  assumes "is_ok (validateTombstone sha256 t)" "distinct_keys t"
  shows "tombstoneBytes sha256 t = Inr (utf8 (render t))" "parseTombstone sha256 (utf8 (render t)) = Inr (canon t)"
proof -
  have "validateTombstone sha256 t = Inr t" using assms(1) by (subst tombstone_Inr) simp
  then show "tombstoneBytes sha256 t = Inr (utf8 (render t))"
    using tombstones.record_bytes [OF assms] by (simp add: tombstoneBytes_def tombstone_limits)
  have "validateTombstone sha256 (canon t) = Inr (canon t)"
    using tombstones.record_canon(1) [OF assms] by (subst tombstone_Inr) simp
  then show "parseTombstone sha256 (utf8 (render t)) = Inr (canon t)"
    using tombstones.record_parsed [OF assms] by (simp add: parseTombstone_def tombstone_limits)
qed

section \<open>The two kinds of record\<close>

definition slot_pointer :: "jsval \<Rightarrow> live_record" where
  "slot_pointer p = \<lparr>lr_kind = POINTER_KIND, lr_fingerprint = fld p ''pointerFingerprint'', lr_record = p\<rparr>"

definition slot_tombstone :: "jsval \<Rightarrow> live_record" where
  "slot_tombstone t = \<lparr>lr_kind = TOMBSTONE_KIND, lr_fingerprint = fld t ''tombstoneFingerprint'', lr_record = t\<rparr>"

lemma kinds_differ: "POINTER_KIND \<noteq> TOMBSTONE_KIND" "TOMBSTONE_KIND \<noteq> POINTER_KIND"
  by (simp_all add: POINTER_KIND_def TOMBSTONE_KIND_def)

lemma js_eq_kind [simp]: "js_eq v POINTER_KIND \<longleftrightarrow> v = POINTER_KIND" "js_eq v TOMBSTONE_KIND \<longleftrightarrow> v = TOMBSTONE_KIND"
  by (simp_all add: POINTER_KIND_def TOMBSTONE_KIND_def js_eq_string)

lemma exact_plain: "exact v ks \<Longrightarrow> plain v"
  by (simp add: exact_def)

lemma pointer_slot:
  assumes "parseGenerationPointer sha256 b = Inr p"
  shows "slot_record sha256 b = Inr (slot_pointer p)"
proof -
  have v: "parseCanonicalJsonBytes TOMBSTONE_LIMITS b = Some (Inr p)"
    using assms by (auto simp: parseGenerationPointer_def pointer_Inr pointer_limits tombstone_limits split: option.splits sum.splits)
  note a = pointer_accepted [OF parsed_pointer(1) [OF assms]]
  have "fld p ''kind'' = POINTER_KIND" "plain p" "typeof_string (fld p ''kind'')"
    using a(3) exact_plain [OF a(1)] by (simp_all add: POINTER_KIND_def)
  then show ?thesis using v assms by (simp add: slot_record_def slot_pointer_def)
qed

lemma tombstone_slot:
  assumes "parseTombstone sha256 b = Inr t"
  shows "slot_record sha256 b = Inr (slot_tombstone t)"
    "parseGenerationPointer sha256 b = Inl (gen_invalid ''pointer must have the exact pointer key set'')"
proof -
  have v: "parseCanonicalJsonBytes TOMBSTONE_LIMITS b = Some (Inr t)" and ok: "is_ok (validateTombstone sha256 t)"
    using assms by (auto simp: parseTombstone_def tombstone_Inr split: option.splits sum.splits)
  note a = tombstone_accepted [OF ok]
  have "validateTombstone sha256 t = Inr t" using ok by (subst tombstone_Inr) simp
  moreover have "plain t" "typeof_string (fld t ''kind'')"
    using a(3) exact_plain [OF a(1)] by (simp_all add: TOMBSTONE_KIND_def)
  ultimately show "slot_record sha256 b = Inr (slot_tombstone t)"
    using v a(3) kinds_differ by (simp add: slot_record_def slot_tombstone_def)
  have "\<not> exact t POINTER_KEYS" using a(1) by (auto simp: exact_def POINTER_KEYS_def TOMBSTONE_KEYS_def)
  then show "parseGenerationPointer sha256 b = Inl (gen_invalid ''pointer must have the exact pointer key set'')"
    using v by (simp add: parseGenerationPointer_def pointer_limits tombstone_limits validateGenerationPointer_def check_def)
qed

lemma slot_cases:
  assumes "slot_record sha256 b = Inr d"
  obtains p where "parseGenerationPointer sha256 b = Inr p" "d = slot_pointer p"
    | t where "parseTombstone sha256 b = Inr t" "d = slot_tombstone t"
proof -
  obtain peek where p: "parseCanonicalJsonBytes TOMBSTONE_LIMITS b = Some (Inr peek)"
    using assms by (auto simp: slot_record_def split: option.splits sum.splits)
  consider "fld peek ''kind'' = POINTER_KIND" | "fld peek ''kind'' = TOMBSTONE_KIND" "fld peek ''kind'' \<noteq> POINTER_KIND"
    using assms p by (auto simp: slot_record_def check_def split: if_splits)
  then show thesis
  proof cases
    case 1
    with assms p show thesis by (auto simp: slot_record_def slot_pointer_def check_def seq_eq_Inr split: if_splits intro: that(1))
  next
    case 2
    with assms p have "validateTombstone sha256 peek = Inr (lr_record d)" "d = slot_tombstone (lr_record d)"
      by (auto simp: slot_record_def slot_tombstone_def check_def seq_eq_Inr split: if_splits)
    with p show thesis by (intro that(2)) (simp_all add: parseTombstone_def)
  qed
qed

section \<open>Disposal is a compare-and-swap\<close>

text \<open>The abstract state of the slot: empty, or one valid record of one of the two kinds.\<close>

definition slot_holds :: "(bytes \<Rightarrow> jsstr) \<Rightarrow> bytes option \<Rightarrow> live_record option \<Rightarrow> bool" where
  "slot_holds sha256 lb d \<longleftrightarrow>
     (case lb of None \<Rightarrow> d = None | Some b \<Rightarrow> (\<exists>x. slot_record sha256 b = Inr x \<and> d = Some x))"

definition chains :: "jsval \<Rightarrow> live_record \<Rightarrow> bool" where
  "chains t d \<longleftrightarrow>
     fld t ''hostId'' = fld (lr_record d) ''hostId'' \<and> fld t ''workspaceId'' = fld (lr_record d) ''workspaceId'' \<and>
     fld t ''priorKind'' = lr_kind d \<and> fld t ''priorPointerFingerprint'' = lr_fingerprint d \<and>
     fld t ''tombstonedGeneration'' = live_generation d"

lemma slot_unique: "slot_holds sha256 b d \<Longrightarrow> slot_holds sha256 b e \<Longrightarrow> d = e"
  by (auto simp: slot_holds_def split: option.splits)

lemma slot_holds_live: "live_pointer sha256 b c \<Longrightarrow> slot_holds sha256 b (map_option slot_pointer c)"
  using pointer_slot by (fastforce simp: live_pointer_def slot_holds_def split: option.splits)

lemma live_generation_simps [simp]:
  "live_generation (slot_pointer p) = fld p ''activeGeneration''" "live_generation (slot_tombstone t) = fld t ''tombstonedGeneration''"
  "lr_record (slot_pointer p) = p" "lr_record (slot_tombstone t) = t"
  "lr_kind (slot_pointer p) = POINTER_KIND" "lr_kind (slot_tombstone t) = TOMBSTONE_KIND"
  using kinds_differ by (simp_all add: live_generation_def slot_pointer_def slot_tombstone_def)

lemma js_eq_typed:
  "isId v \<Longrightarrow> js_eq x v \<longleftrightarrow> x = v" "isHex64 v \<Longrightarrow> js_eq x v \<longleftrightarrow> x = v" "isGeneration v \<Longrightarrow> js_eq x v \<longleftrightarrow> x = v"
  using isHex64_typeof [of v] isGeneration_JInt [of v] by (auto simp: isId_def js_eq_string)

lemma slot_record_typed:
  assumes "slot_record sha256 b = Inr d"
  shows "isId (fld (lr_record d) ''hostId'') \<and> isId (fld (lr_record d) ''workspaceId'') \<and>
    isHex64 (lr_fingerprint d) \<and> isGeneration (live_generation d) \<and> lr_kind d \<in> {POINTER_KIND, TOMBSTONE_KIND}"
  using assms
proof (cases rule: slot_cases)
  case (1 p)
  note a = pointer_accepted [OF parsed_pointer(1) [OF 1(1)]]
  show ?thesis using a(4,5,7,16) 1(2) by (simp add: slot_pointer_def live_generation_def)
next
  case (2 t)
  then have "is_ok (validateTombstone sha256 t)" by (auto simp: parseTombstone_def tombstone_Inr split: option.splits sum.splits)
  note a = tombstone_accepted [OF this]
  show ?thesis using a(4,5,8,12) 2(2) kinds_differ by (simp add: slot_tombstone_def live_generation_def)
qed

lemma succession_chains:
  assumes "slot_record sha256 b = Inr d"
  shows "is_ok (assertTombstoneSuccession t d) \<longleftrightarrow> chains t d"
proof -
  note typed = slot_record_typed [OF assms]
  then have "js_eq x (fld (lr_record d) ''hostId'') \<longleftrightarrow> x = fld (lr_record d) ''hostId''"
    "js_eq x (fld (lr_record d) ''workspaceId'') \<longleftrightarrow> x = fld (lr_record d) ''workspaceId''"
    "js_eq x (lr_fingerprint d) \<longleftrightarrow> x = lr_fingerprint d" "js_eq x (live_generation d) \<longleftrightarrow> x = live_generation d"
    "js_eq x (lr_kind d) \<longleftrightarrow> x = lr_kind d" for x
    using js_eq_typed by auto
  then show ?thesis by (simp add: assertTombstoneSuccession_def chains_def)
qed

context atomic_pointer
begin

lemma read_slot:
  assumes "good w" "readLiveDisposition sha256 io w = (r, w')"
  shows "good w' \<and> live w' = live w \<and> (\<forall>d. r = Inr d \<longrightarrow> slot_holds sha256 (live w) d)"
proof -
  obtain r1 w1 where 1: "readLivePointer io w = (r1, w1)" by force
  show ?thesis
    using assms(2) 1 read_spec [OF assms(1) 1]
    by (cases r1) (auto simp: readLiveDisposition_def slot_holds_def map_sum_Inr split: io_error.splits option.splits)
qed

lemma tombstone_atomic:
  assumes "good w" "distinct_keys t" "publishTombstone sha256 io t w = (r, w')"
  shows "good w' \<and>
    (live w' = live w \<and> \<not> is_ok r \<or>
     live w' = Some (utf8 (render t)) \<and> is_ok (validateTombstone sha256 t) \<and>
       (\<exists>d. slot_holds sha256 (live w) (Some d) \<and> chains t d))"
proof (cases "is_ok (validateTombstone sha256 t)")
  case False
  then show ?thesis using assms by (auto simp: publishTombstone_def is_ok_iff split: sum.splits)
next
  case True
  obtain r1 w1 where 1: "readLiveDisposition sha256 io w = (r1, w1)" by force
  note s1 = read_slot [OF assms(1) 1]
  show ?thesis
  proof (cases "\<exists>d. r1 = Inr (Some d) \<and> is_ok (assertTombstoneSuccession t d)")
    case False
    then have "w' = w1 \<and> \<not> is_ok r"
      using assms(3) True 1
      by (cases r1) (auto simp: publishTombstone_def and_then_def is_ok_iff split: option.splits sum.splits)
    with s1 show ?thesis by simp
  next
    case cas: True
    then obtain d where d: "r1 = Inr (Some d)" "is_ok (assertTombstoneSuccession t d)" by blast
    then have l: "slot_holds sha256 (live w) (Some d)" using s1 by simp
    then have "chains t d" using d(2) succession_chains by (auto simp: slot_holds_def split: option.splits)
    moreover obtain r2 w2 where 2: "run_steps tombstone_step_failed io (utf8 (render t)) w1 = (r2, w2)" by force
    have "w' = w2 \<and> is_ok r = is_ok r2"
      using assms(3) True 1 2 d tombstone_stored(1) [OF True assms(2)]
      by (cases r2) (auto simp: publishTombstone_def and_then_def is_ok_iff)
    with run_steps_atomic [OF _ 2] s1
    have "good w' \<and> (live w' = live w \<or> live w' = Some (utf8 (render t))) \<and> (is_ok r \<longrightarrow> live w' = Some (utf8 (render t)))"
      by simp
    ultimately show ?thesis using l True by blast
  qed
qed

end

section \<open>Disposal over the storage\<close>

lemma tombstone_storage:
  assumes "honest_faults w" "distinct_keys t"
    and "publishTombstone sha256 (createAtomicPointerIo win32 suffix p) t w = (r, w')"
  shows "honest_faults w'" "outside suffix p q \<Longrightarrow> map_of (files w') q = map_of (files w) q"
    "map_of (files w') p = map_of (files w) p \<and> \<not> is_ok r \<or>
     map_of (files w') p = Some (utf8 (render t)) \<and> is_ok (validateTombstone sha256 t) \<and>
       (\<exists>d. slot_holds sha256 (map_of (files w) p) (Some d) \<and> chains t d)"
proof -
  have "keeps suffix p (map_of (files w)) w" using assms(1) by (simp add: keeps_def)
  note a = storage.tombstone_atomic [OF this assms(2,3)]
  from a show "honest_faults w'" "outside suffix p q \<Longrightarrow> map_of (files w') q = map_of (files w) q"
    unfolding keeps_def by blast+
  from a show "map_of (files w') p = map_of (files w) p \<and> \<not> is_ok r \<or>
     map_of (files w') p = Some (utf8 (render t)) \<and> is_ok (validateTombstone sha256 t) \<and>
       (\<exists>d. slot_holds sha256 (map_of (files w) p) (Some d) \<and> chains t d)" by blast
qed

lemma slot_of_tombstone:
  assumes "is_ok (validateTombstone sha256 t)" "distinct_keys t"
  shows "slot_holds sha256 (Some (utf8 (render t))) (Some (slot_tombstone (canon t)))"
  using tombstone_slot(1) [OF tombstone_stored(2) [OF assms]] by (simp add: slot_holds_def)

text \<open>C34. A disposal that fails or crashes at any step leaves the live slot exactly as it was or holding the
  complete tombstone; if it changed, the slot was not empty and the tombstone names the workspace, the
  kind, the fingerprint and the generation of the record it replaced; success is reported only in
  that case, and no file but the slot and its temporary siblings is touched.\<close>

theorem disposal_crash_safe:
  assumes "honest_faults w" "distinct_keys t"
    and "publishTombstone sha256 (createAtomicPointerIo win32 suffix p) t w = (r, w')"
  shows "(map_of (files w') p = map_of (files w) p \<and> \<not> is_ok r \<or>
      (\<exists>d. slot_holds sha256 (map_of (files w) p) (Some d) \<and> chains t d) \<and>
      slot_holds sha256 (map_of (files w') p) (Some (slot_tombstone (canon t)))) \<and>
    (outside suffix p q \<longrightarrow> map_of (files w') q = map_of (files w) q)"
  using tombstone_storage [OF assms] slot_of_tombstone [OF _ assms(2), of sha256] by auto

section \<open>One slot, two publishers\<close>

text \<open>Any interleaving of publications and disposals over one slot.\<close>

datatype slot_op = Publish jsval | Dispose jsval

definition slot_step :: "(bytes \<Rightarrow> jsstr) \<Rightarrow> (location, fs) pointer_io \<Rightarrow> slot_op \<Rightarrow> fs \<Rightarrow> bool \<times> fs" where
  "slot_step sha256 io x w = (case x of
     Publish p \<Rightarrow> (let (r, w') = publishGeneration sha256 io p w in (is_ok r, w'))
   | Dispose t \<Rightarrow> (let (r, w') = publishTombstone sha256 io t w in (is_ok r, w')))"

fun slot_run :: "(bytes \<Rightarrow> jsstr) \<Rightarrow> (location, fs) pointer_io \<Rightarrow> slot_op list \<Rightarrow> fs \<Rightarrow> bool list \<times> fs" where
  "slot_run sha256 io [] w = ([], w)"
| "slot_run sha256 io (x # xs) w =
     (let (ok, w1) = slot_step sha256 io x w; (oks, w2) = slot_run sha256 io xs w1 in (ok # oks, w2))"

fun op_wf :: "slot_op \<Rightarrow> bool" where
  "op_wf (Publish p) = distinct_keys p"
| "op_wf (Dispose t) = distinct_keys t"

definition slot_generation :: "live_record option \<Rightarrow> int" where
  "slot_generation d = (case d of None \<Rightarrow> 0 | Some x \<Rightarrow> int_of (live_generation x))"

definition disposed :: "live_record option \<Rightarrow> bool" where
  "disposed d \<longleftrightarrow> (\<exists>x. d = Some x \<and> lr_kind x = TOMBSTONE_KIND)"

lemma live_slot_not_disposed:
  assumes "live_pointer sha256 b c" "slot_holds sha256 b d"
  shows "\<not> disposed d \<and> slot_generation d = generation_of c"
proof -
  have "d = map_option slot_pointer c" by (rule slot_unique [OF assms(2) slot_holds_live [OF assms(1)]])
  then show ?thesis by (cases c) (simp_all add: disposed_def slot_generation_def generation_of_def kinds_differ)
qed

lemma publish_slot_step:
  assumes "honest_faults w" "distinct_keys new" "slot_holds sha256 (map_of (files w) p) d"
    and "publishGeneration sha256 (createAtomicPointerIo win32 suffix p) new w = (r, w')"
  shows "\<exists>d'. slot_holds sha256 (map_of (files w') p) d' \<and>
    (d' = d \<and> \<not> is_ok r \<or> \<not> disposed d \<and> \<not> disposed d' \<and> slot_generation d' = slot_generation d + 1)"
proof (cases "map_of (files w') p = map_of (files w) p \<and> \<not> is_ok r")
  case True
  then show ?thesis using assms(3) by auto
next
  case False
  then obtain c where n: "map_of (files w') p = Some (utf8 (render new))" "is_ok (validateGenerationPointer sha256 new)"
    "live_pointer sha256 (map_of (files w) p) c" "follows new c"
    using publish_storage(3) [OF assms(1,2,4)] by blast
  have l: "live_pointer sha256 (map_of (files w') p) (Some (canon new))"
    using n(1) pointer_stored(2) [OF n(2) assms(2)] by (simp add: live_pointer_def)
  have "generation_of (Some (canon new)) = generation_of c + 1"
    using follows_generation [OF n(4,2)] pointer_canon(2) [OF n(2) assms(2), of "''activeGeneration''"]
    by (simp add: generation_of_def POINTER_KEYS_def)
  with slot_holds_live [OF l] live_slot_not_disposed [OF l slot_holds_live [OF l]] live_slot_not_disposed [OF n(3) assms(3)]
  show ?thesis by auto
qed

lemma dispose_slot_step:
  assumes "honest_faults w" "distinct_keys t" "slot_holds sha256 (map_of (files w) p) d"
    and "publishTombstone sha256 (createAtomicPointerIo win32 suffix p) t w = (r, w')"
  shows "\<exists>d'. slot_holds sha256 (map_of (files w') p) d' \<and>
    (d' = d \<and> \<not> is_ok r \<or> d \<noteq> None \<and> disposed d' \<and> slot_generation d' = slot_generation d)"
proof (cases "map_of (files w') p = map_of (files w) p \<and> \<not> is_ok r")
  case True
  then show ?thesis using assms(3) by auto
next
  case False
  then obtain x where n: "map_of (files w') p = Some (utf8 (render t))" "is_ok (validateTombstone sha256 t)"
    "slot_holds sha256 (map_of (files w) p) (Some x)" "chains t x"
    using tombstone_storage(3) [OF assms(1,2,4)] by blast
  have "d = Some x" by (rule slot_unique [OF assms(3) n(3)])
  moreover have "slot_generation (Some (slot_tombstone (canon t))) = slot_generation (Some x)"
    using n(4) tombstones.record_canon(2) [OF n(2) assms(2), of "''tombstonedGeneration''"]
    by (simp add: slot_generation_def chains_def TOMBSTONE_KEYS_def)
  ultimately show ?thesis
    using slot_of_tombstone [OF n(2) assms(2)] n(1) by (intro exI [of _ "Some (slot_tombstone (canon t))"]) (simp add: disposed_def)
qed

lemma slot_step_invariant:
  assumes "honest_faults w" "op_wf x" "slot_holds sha256 (map_of (files w) p) d"
    and "slot_step sha256 (createAtomicPointerIo win32 suffix p) x w = (ok, w')"
  shows "honest_faults w' \<and> (\<exists>d'. slot_holds sha256 (map_of (files w') p) d' \<and>
    slot_generation d \<le> slot_generation d' \<and> (disposed d \<longrightarrow> disposed d' \<and> slot_generation d' = slot_generation d) \<and>
    (ok \<longrightarrow> disposed d' = (\<exists>t. x = Dispose t)))"
proof (cases x)
  case (Publish new)
  then obtain r where r: "publishGeneration sha256 (createAtomicPointerIo win32 suffix p) new w = (r, w')" "ok = is_ok r"
    using assms(4) by (auto simp: slot_step_def split: prod.splits)
  have k: "distinct_keys new" using assms(2) Publish by simp
  show ?thesis using publish_slot_step [OF assms(1) k assms(3) r(1)] publish_storage(1) [OF assms(1) k r(1)] r(2) Publish by auto
next
  case (Dispose t)
  then obtain r where r: "publishTombstone sha256 (createAtomicPointerIo win32 suffix p) t w = (r, w')" "ok = is_ok r"
    using assms(4) by (auto simp: slot_step_def split: prod.splits)
  have k: "distinct_keys t" using assms(2) Dispose by simp
  show ?thesis using dispose_slot_step [OF assms(1) k assms(3) r(1)] tombstone_storage(1) [OF assms(1) k r(1)] r(2) Dispose by auto
qed


section \<open>A disposed workspace is barred\<close>

lemma boot_barred:
  assumes "rt \<noteq> []" "isId (JStr i)" "recover_one sha256 (boot_deps sha256 jsonParse win32 suffix rt) i w = (pr, w')"
    and "pr_workspaceId pr = i" "pr_action pr = Barred"
  shows "\<exists>rep. runBootRecovery sha256 jsonParse win32 suffix rt [i] w = (Inr rep, w') \<and> r_barred rep = [i]"
proof -
  obtain plan where "planRecoveryBatches (JArr [JStr i]) = Inr plan" "concat (batches plan) = [i]"
    using plan_one [OF assms(2)] by blast
  then show ?thesis using assms by (simp add: runBootRecovery_def recoverWorkspaces_def)
qed

lemma readJson_quiet:
  assumes "faults w = []"
  shows "\<exists>r. readJsonOrNull jsonParse q w = (r, w)"
  by (simp add: readJsonOrNull_def io_then_def read_no_faults [OF assms] lift_io_def split: option.splits)

lemma snapshot_unreadable:
  assumes "faults w = []" "map_of (files w) (live_location rt i) = Some b" "parseGenerationPointer sha256 b = Inl e"
  shows "\<exists>e'. readSnapshotInputs sha256 jsonParse rt i w = (Inl e', w)"
proof -
  let ?l = "workspace_dir rt i ''lifecycle''"
  obtain r1 r2 r3 where r: "readJsonOrNull jsonParse (?l, js ''checkpoint.json'') w = (r1, w)"
    "readJsonOrNull jsonParse (?l, js ''transaction.json'') w = (r2, w)"
    "readJsonOrNull jsonParse (?l, js ''manual-cleanup.json'') w = (r3, w)"
    using readJson_quiet [OF assms(1)] by metis
  then show ?thesis
    using assms read_no_faults [OF assms(1)]
    by (cases r1; cases r2; cases r3)
      (simp_all add: readSnapshotInputs_def io_then_def lift_io_def pointer_or_null_def live_location_def Let_def
        del: map_of_eq_Some_iff)
qed

text \<open>C35. A disposed workspace never serves again: while its live slot holds a tombstone every publication of a
  generation is refused as an invalid pointer, and the boot recovery of a restart bars the
  workspace; neither changes a file.\<close>

theorem disposed_workspace_barred:
  assumes "faults w = []" "rt \<noteq> []" "isId (JStr i)"
    and "map_of (files w) (live_location rt i) = Some b" "parseTombstone sha256 b = Inr t"
    and "is_ok (validateGenerationPointer sha256 new)"
  shows "publishGeneration sha256 (createGenerationPublisherIo win32 suffix rt i) new w =
      (Inl (gen_invalid ''pointer must have the exact pointer key set''), w) \<and>
    (\<exists>rep. runBootRecovery sha256 jsonParse win32 suffix rt [i] w = (Inr rep, w) \<and> r_barred rep = [i])"
proof (rule conjI)
  have "readLiveGeneration sha256 (createGenerationPublisherIo win32 suffix rt i) w =
      (Inl (gen_invalid ''pointer must have the exact pointer key set''), w)"
    using tombstone_slot(2) [OF assms(5)] assms(4) read_no_faults [OF assms(1)]
    by (simp add: readLiveGeneration_def createGenerationPublisherIo_def createAtomicPointerIo_def del: map_of_eq_Some_iff)
  then show "publishGeneration sha256 (createGenerationPublisherIo win32 suffix rt i) new w =
      (Inl (gen_invalid ''pointer must have the exact pointer key set''), w)"
    using assms(6) by (auto simp: publishGeneration_def and_then_def is_ok_iff)
next
  obtain e' where "readSnapshotInputs sha256 jsonParse rt i w = (Inl e', w)"
    using snapshot_unreadable [OF assms(1,4) tombstone_slot(2) [OF assms(5)]] by blast
  then have "recover_one sha256 (boot_deps sha256 jsonParse win32 suffix rt) i w =
      (\<lparr>pr_workspaceId = i, pr_disposition = Manual_cleanup, pr_action = Barred, pr_failed = True\<rparr>, w)"
    by (simp add: recover_one_def boot_deps_def)
  from boot_barred [OF assms(2,3) this]
  show "\<exists>rep. runBootRecovery sha256 jsonParse win32 suffix rt [i] w = (Inr rep, w) \<and> r_barred rep = [i]" by simp
qed

end
