(* ===== verification/Reset_Delete.thy ===== *)
theory Reset_Delete
  imports Async_Steps Tombstone_Publisher Backup_Manifest Lease_Fence
begin

text \<open>
  The disposal of a workspace: the guard against residual processes of
  \<^verbatim>\<open>daemon/src/workspace-residual-process.js\<close> and the reset and delete operation of
  \<^verbatim>\<open>daemon/src/workspace-reset-delete-operation.js\<close>, over the exclusive fence of the lease registry, the live slot
  and the manual-cleanup record of the storage, and the terminal callbacks that \<^verbatim>\<open>daemon/src/daemon.js\<close> hands in.
  Whatever else the operation awaits is an argument: what other tasks do to the registry meanwhile, the counts
  of the quiescence probe, the files to back up, the enumerated processes, and whether the
  retirement of the binding fails.
\<close>

section \<open>Residual processes\<close>

definition residual_refuse :: "string \<Rightarrow> string \<Rightarrow> js_error" where
  "residual_refuse k reason = CodedError k (js ''workspace_residual_process: '' @ js k @ js '': '' @ js reason)"

definition descriptor_ok :: "jsval \<Rightarrow> bool" where
  "descriptor_ok d \<longleftrightarrow> isObject d \<and> isSafeInteger (fld d ''pid'') \<and> 1 \<le> int_of (fld d ''pid'')"

text \<open>The first argument is what \<open>listResidualProcesses\<close> resolves to or throws.\<close>

definition assertResidualProcessAbsence :: "io_error + jsval \<Rightarrow> jsval \<Rightarrow> jsval \<Rightarrow> jsval \<Rightarrow> jsval \<Rightarrow> js_error + unit" where
  "assertResidualProcessAbsence listed hostId workspaceId workDir sourcePlatform =
     check (isNonEmptyString hostId \<and> isNonEmptyString workspaceId \<and> isNonEmptyString workDir \<and> isNonEmptyString sourcePlatform)
       (residual_refuse ''CONFIG_INVALID'' ''hostId, workspaceId, workDir, and sourcePlatform must be non-empty strings'') (
     case listed of
       Inl _ \<Rightarrow> Inl (residual_refuse ''CONFIG_INVALID'' ''listResidualProcesses failed'')
     | Inr r \<Rightarrow>
        check (isArray r) (residual_refuse ''CONFIG_INVALID'' ''listResidualProcesses must return an array'') (
        check (list_all descriptor_ok (elements r))
          (residual_refuse ''CONFIG_INVALID'' ''each residual-process descriptor must be an object with a positive-safe-integer pid'') (
        check (elements r = [])
          (residual_refuse ''WORKSPACE_RESIDUAL_PROCESS'' ''workspace still has residual processes; destruction is not authorised'') (Inr ()))))"

section \<open>The request\<close>

definition LIFECYCLE_AUTHORITY_KEYS :: "string list" where
  "LIFECYCLE_AUTHORITY_KEYS = [''anchorFingerprint'', ''fenceGeneration'', ''txId'', ''reason'', ''expectedFingerprint'',
     ''observedFingerprint'', ''expectedFloorFingerprint'', ''observedFloorFingerprint'']"

definition LIFECYCLE_CONTEXT_KEYS :: "string list" where
  "LIFECYCLE_CONTEXT_KEYS = [''lifecycleAuthority'', ''probeQuiescence'', ''prepareTerminal'', ''clearTerminalPreparation'', ''commitTerminal'']"

definition reset_refuse :: "string \<Rightarrow> string \<Rightarrow> js_error" where
  "reset_refuse k reason = CodedError k (js ''workspace_reset_delete: '' @ js k @ js '': '' @ js reason)"

definition reset_config :: "string \<Rightarrow> js_error" where
  "reset_config = reset_refuse ''CONFIG_INVALID''"

text \<open>A callback in a field of the request is the value \<open>JOther\<close>; what it does is an argument of the operation.\<close>

definition is_function :: "jsval \<Rightarrow> bool" where
  "is_function v \<longleftrightarrow> v = JOther"

definition lifecycleAuthority :: "jsval \<Rightarrow> jsval" where
  "lifecycleAuthority request = fld (fld request ''lifecycleContext'') ''lifecycleAuthority''"

definition assertRequest :: "jsval \<Rightarrow> js_error + unit" where
  "assertRequest request =
     (let context = fld request ''lifecycleContext'' in
     check (plain request) (reset_config ''request must be an object'') (
     check (str_in (fld request ''operation'') [''reset'', ''delete'']) (reset_config (''operation must be '' @ quoted ''reset'' @ '' or '' @ quoted ''delete'')) (
     check (isNonEmptyString (fld request ''hostId'')) (reset_config ''request.hostId must be a non-empty string'') (
     check (isNonEmptyString (fld request ''workspaceId'')) (reset_config ''request.workspaceId must be a non-empty string'') (
     check (isNonEmptyString (fld request ''sourcePlatform'')) (reset_config ''request.sourcePlatform must be a non-empty string'') (
     check (isNonEmptyString (fld request ''workDir'')) (reset_config ''request.workDir must be a non-empty string'') (
     check (\<not> js_eq (fld request ''leaseCandidate'') JUndefined \<and> \<not> js_eq (fld request ''leaseCandidate'') JNull)
       (reset_config ''request.leaseCandidate is required for the exclusive fence'') (
     check (isGeneration (fld request ''expectedWorkspaceGeneration''))
       (reset_config ''request.expectedWorkspaceGeneration must be a positive safe integer'') (
     check (is_function (fld request ''prepareDirtyBackup'')) (reset_config ''request.prepareDirtyBackup must be a function'') (
     check (exact context LIFECYCLE_CONTEXT_KEYS)
       (reset_config ''request.lifecycleContext must carry exactly lifecycleAuthority, probeQuiescence, commitTerminal'') (
     check (exact (lifecycleAuthority request) LIFECYCLE_AUTHORITY_KEYS)
       (reset_config (''request.lifecycleContext.lifecycleAuthority must carry exactly '' @
         ''anchorFingerprint, fenceGeneration, txId, reason, expectedFingerprint, observedFingerprint, expectedFloorFingerprint, observedFloorFingerprint'')) (
     check (is_function (fld context ''probeQuiescence'') \<and> is_function (fld context ''prepareTerminal'') \<and>
            is_function (fld context ''clearTerminalPreparation'') \<and> is_function (fld context ''commitTerminal''))
       (reset_config ''request.lifecycleContext callbacks must be functions'') (Inr ())))))))))))))"

definition cleanup_record :: "jsval \<Rightarrow> jsval" where
  "cleanup_record authority = record_of [(''version'', JInt 1), (''kind'', JLit ''manual-cleanup''),
     (''anchorFingerprint'', fld authority ''anchorFingerprint''), (''fenceGeneration'', fld authority ''fenceGeneration''),
     (''txId'', fld authority ''txId''), (''reason'', fld authority ''reason''),
     (''expectedFingerprint'', fld authority ''expectedFingerprint''), (''observedFingerprint'', fld authority ''observedFingerprint''),
     (''expectedFloorFingerprint'', fld authority ''expectedFloorFingerprint''),
     (''observedFloorFingerprint'', fld authority ''observedFloorFingerprint''), (''routeDisposition'', JLit ''no-route''),
     (''blockedUntilOwnerAction'', JBool True), (''manualCleanupFingerprint'', JNull)]"

definition buildManualCleanup :: "(bytes \<Rightarrow> jsstr) \<Rightarrow> jsval \<Rightarrow> js_error + jsval" where
  "buildManualCleanup sha256 authority =
     seq (fingerprint sha256 (cleanup_record authority) ''manualCleanupFingerprint'') (\<lambda>h.
     let r = with_field (cleanup_record authority) ''manualCleanupFingerprint'' (JStr h) in
     case validateManualCleanup sha256 r of
       Inl e \<Rightarrow> Inl (CodedError ''CONFIG_INVALID''
         (js ''workspace_reset_delete: CONFIG_INVALID: manual-cleanup authority is invalid: '' @ error_message e))
     | Inr _ \<Rightarrow>
     check (classifyWorkspaceLifecycleEvidence sha256 JUndefined JUndefined JUndefined JUndefined r JUndefined = Ev_manual_cleanup)
       (reset_config ''manual-cleanup record did not classify as manual_cleanup'') (Inr r))"

section \<open>The state of the operation\<close>

text \<open>The registry of the daemon, the files of the workspace, and whether the workspace is in
  \<open>barredWorkspaceIds\<close>.\<close>

record disposal_state =
  ds_registry :: registry
  ds_fs :: fs
  ds_barred :: bool

record disposal_env =
  env_now :: "nat \<Rightarrow> rat"
  env_others :: "nat \<Rightarrow> registry \<Rightarrow> registry"
  env_quiescence :: "io_error + jsval \<times> jsval"
  env_backup :: "live_record \<Rightarrow> io_error + jsval \<times> (jsstr \<Rightarrow> bytes option)"
  env_residual :: "io_error + jsval"
  env_commit :: "io_error option"

text \<open>What other tasks do to the registry while the operation is suspended.\<close>

definition suspend :: "disposal_env \<Rightarrow> nat \<Rightarrow> disposal_state \<Rightarrow> disposal_state" where
  "suspend env k s = s\<lparr>ds_registry := env_others env k (ds_registry s)\<rparr>"

definition in_fs :: "(fs \<Rightarrow> 'a \<times> fs) \<Rightarrow> disposal_state \<Rightarrow> 'a \<times> disposal_state" where
  "in_fs f s = (case f (ds_fs s) of (r, w) \<Rightarrow> (r, s\<lparr>ds_fs := w\<rparr>))"

datatype disposal =
    Disposal_committed tombstoned
  | Disposal_manual jsval "string option" string

record receipt =
  rc_operation :: jsval
  rc_tombstone :: jsval
  rc_fence :: int
  rc_dirtyBackupFingerprint :: jsval
  rc_disposition :: disposal

definition assertFenceCurrent :: "nat \<Rightarrow> string \<Rightarrow> disposal_state \<Rightarrow> io_error + unit" where
  "assertFenceCurrent h checkpoint s =
     (case isCurrent h (ds_registry s) of
        Inl e \<Rightarrow> Inl (Own e)
      | Inr cur \<Rightarrow> if cur then Inr () else Inl (Own (reset_refuse ''LEASE_CONFLICT'' (''exclusive fence was lost before '' @ checkpoint))))"

definition accept_live :: "jsval \<Rightarrow> live_record option \<Rightarrow> js_error + live_record" where
  "accept_live request cur =
     (case cur of
        None \<Rightarrow> Inl (reset_refuse ''WORKSPACE_GENERATION_STALE'' ''no live record to tombstone'')
      | Some d \<Rightarrow>
         check (js_eq (lr_kind d) POINTER_KIND) (reset_refuse ''WORKSPACE_GENERATION_STALE'' ''live slot is not the accepted generation pointer'') (
         check (js_eq (fld (lr_record d) ''hostId'') (fld request ''hostId'') \<and>
                js_eq (fld (lr_record d) ''workspaceId'') (fld request ''workspaceId'') \<and>
                js_eq (fld (lr_record d) ''sourcePlatform'') (fld request ''sourcePlatform'') \<and>
                js_eq (fld (lr_record d) ''activeGeneration'') (fld request ''expectedWorkspaceGeneration''))
           (reset_refuse ''WORKSPACE_GENERATION_STALE'' ''live pointer identity differs from the accepted binding'') (Inr d)))"

text \<open>Everything before the destructive part: quiescence, the fence, the live pointer, the backup, the
  processes, and the fence again.\<close>

definition dispose_guards ::
  "(bytes \<Rightarrow> jsstr) \<Rightarrow> disposal_env \<Rightarrow> (location, fs) pointer_io \<Rightarrow> jsval \<Rightarrow> nat \<Rightarrow> disposal_state \<Rightarrow>
     (io_error + live_record \<times> jsval) \<times> disposal_state" where
  "dispose_guards sha256 env io request h s =
     then_do (env_quiescence env, suspend env 0 s) (\<lambda>(pendingInvokes, pendingSessions) s1.
     then_do (thrown (assertQuiescent pendingInvokes pendingSessions), s1) (\<lambda>_ s1.
     then_do (assertFenceCurrent h ''live-read'' s1, s1) (\<lambda>_ s1.
     then_do (apfst thrown (in_fs (readLiveDisposition sha256 io) s1)) (\<lambda>live s2.
     then_do (thrown (accept_live request live), suspend env 1 s2) (\<lambda>d s2.
     then_do (env_backup env d, suspend env 2 s2) (\<lambda>(dirtyBackup, tree) s3.
     then_do (if plain dirtyBackup then Inr () else Inl (Own (reset_config ''prepareDirtyBackup must return { dirtyBackup, backupIo }'')), s3) (\<lambda>_ s3.
     then_do (thrown (fst (computeDirtyBackup sha256 (tree_reader tree) dirtyBackup ())), suspend env 3 s3) (\<lambda>m s3.
     then_do (thrown (assertResidualProcessAbsence (env_residual env) (fld request ''hostId'') (fld request ''workspaceId'')
        (fld request ''workDir'') (fld request ''sourcePlatform'')), suspend env 4 s3) (\<lambda>_ s4.
     then_do (assertFenceCurrent h ''publication'' s4, s4) (\<lambda>_ s4. (Inr (d, m), s4)))))))))))"

section \<open>The destructive part\<close>

text \<open>\<open>commitTerminal\<close> bars the workspace before it retires the binding, which may fail.\<close>

definition commitTerminal :: "disposal_env \<Rightarrow> disposal_state \<Rightarrow> (io_error + unit) \<times> disposal_state" where
  "commitTerminal env s = (case env_commit env of Some e \<Rightarrow> Inl e | None \<Rightarrow> Inr (), s\<lparr>ds_barred := True\<rparr>)"

text \<open>The \<open>step\<close> of an error of \<open>publishTombstone\<close>, which its message determines, if it is one of
  \<open>TOMBSTONE_STEPS\<close>.\<close>

definition failed_step :: "js_error \<Rightarrow> string option" where
  "failed_step e = find (\<lambda>st. e = tombstone_step_failed st) TOMBSTONE_STEPS"

definition make_receipt :: "jsval \<Rightarrow> jsval \<Rightarrow> jsval \<Rightarrow> int \<Rightarrow> disposal \<Rightarrow> receipt" where
  "make_receipt request t m fence d =
     \<lparr>rc_operation = fld request ''operation'', rc_tombstone = t, rc_fence = fence,
      rc_dirtyBackupFingerprint = fld m ''manifestFingerprint'', rc_disposition = d\<rparr>"

definition commitManualCleanup ::
  "disposal_env \<Rightarrow> (disposal \<Rightarrow> receipt) \<Rightarrow> jsval \<Rightarrow> io_error \<Rightarrow> string \<Rightarrow> bool \<Rightarrow> disposal_state \<Rightarrow> (io_error + receipt) \<times> disposal_state" where
  "commitManualCleanup env mk mc e step commit s =
     (let rc = mk (Disposal_manual mc (error_code e) step) in
      if commit then then_do (commitTerminal env s) (\<lambda>_ s1. (Inr rc, s1)) else (Inr rc, s))"

definition tombstone_input :: "jsval \<Rightarrow> live_record \<Rightarrow> jsval \<Rightarrow> jsval" where
  "tombstone_input request d m = record_of [(''hostId'', fld request ''hostId''), (''workspaceId'', fld request ''workspaceId''),
     (''sourcePlatform'', fld request ''sourcePlatform''), (''operation'', fld request ''operation''),
     (''tombstonedGeneration'', fld (lr_record d) ''activeGeneration''), (''priorKind'', lr_kind d),
     (''priorPointerFingerprint'', lr_fingerprint d), (''dirtyBackupFingerprint'', fld m ''manifestFingerprint'')]"

text \<open>The publication once the cleanup record is durable.\<close>

definition dispose_slot ::
  "(bytes \<Rightarrow> jsstr) \<Rightarrow> disposal_env \<Rightarrow> (location, fs) pointer_io \<Rightarrow> (unit, fs) io \<Rightarrow> (disposal \<Rightarrow> receipt) \<Rightarrow> jsval \<Rightarrow> jsval \<Rightarrow> disposal_state \<Rightarrow>
     (io_error + receipt) \<times> disposal_state" where
  "dispose_slot sha256 env io clear mk mc t s =
     (case in_fs (publishTombstone sha256 io t) s of
        (Inl e, s1) \<Rightarrow>
          (case failed_step e of
             None \<Rightarrow>
               (case in_fs clear s1 of
                  (Inl e', s2) \<Rightarrow> commitManualCleanup env mk mc e' ''clearTerminalPreparation'' True s2
                | (Inr _, s2) \<Rightarrow> (Inl (Own e), s2))
           | Some step \<Rightarrow> commitManualCleanup env mk mc (Own e) step True s1)
      | (Inr pub, s1) \<Rightarrow>
          then_do (commitTerminal env s1) (\<lambda>_ s2.
            case in_fs clear s2 of
              (Inl e', s3) \<Rightarrow> commitManualCleanup env mk mc e' ''clearTerminalPreparation'' False s3
            | (Inr _, s3) \<Rightarrow> (Inr (mk (Disposal_committed pub)), s3)))"

definition dispose_publish ::
  "(bytes \<Rightarrow> jsstr) \<Rightarrow> disposal_env \<Rightarrow> (location, fs) pointer_io \<Rightarrow> (jsval \<Rightarrow> fs \<Rightarrow> cleanup_outcome \<times> fs) \<Rightarrow> (unit, fs) io \<Rightarrow>
     jsval \<Rightarrow> jsval \<Rightarrow> nat \<Rightarrow> int \<Rightarrow> live_record \<Rightarrow> jsval \<Rightarrow> disposal_state \<Rightarrow> (io_error + receipt) \<times> disposal_state" where
  "dispose_publish sha256 env io prepare clear request mc h fence d m s =
     then_do (thrown (buildTombstone sha256 (tombstone_input request d m)), s) (\<lambda>t s.
       let mk = make_receipt request t m fence in
       case in_fs (prepare mc) s of
         (Refused e ambiguous, s1) \<Rightarrow>
           if ambiguous then commitManualCleanup env mk mc e ''prepareTerminal'' True s1 else (Inl e, s1)
       | (Published, s1) \<Rightarrow>
           (let s1 = suspend env 5 s1 in
            case isCurrent h (ds_registry s1) of
              Inl e \<Rightarrow> (Inl (Own e), s1)
            | Inr True \<Rightarrow> dispose_slot sha256 env io clear mk mc t s1
            | Inr False \<Rightarrow>
                (case in_fs clear s1 of
                   (Inl e', s2) \<Rightarrow> commitManualCleanup env mk mc e' ''clearTerminalPreparation'' True s2
                 | (Inr _, s2) \<Rightarrow> (Inl (Own (reset_refuse ''LEASE_CONFLICT'' ''exclusive fence was lost after terminal preparation'')), s2))))"

definition cleanup_location :: "jsstr \<Rightarrow> jsstr \<Rightarrow> location" where
  "cleanup_location workspaceRoot workspaceId = (workspace_dir workspaceRoot workspaceId ''lifecycle'', js ''manual-cleanup.json'')"

definition runResetDelete ::
  "(bytes \<Rightarrow> jsstr) \<Rightarrow> bool \<Rightarrow> (nat \<Rightarrow> jsstr) \<Rightarrow> jsstr \<Rightarrow> disposal_env \<Rightarrow> jsval \<Rightarrow> disposal_state \<Rightarrow>
     (io_error + receipt) \<times> disposal_state" where
  "runResetDelete sha256 win32 suffix workspaceRoot env request s =
     (let i = str_of (fld request ''workspaceId''); io = createGenerationPublisherIo win32 suffix workspaceRoot i;
          c = cleanup_location workspaceRoot i in
      then_do (thrown (assertRequest request), s) (\<lambda>_ s.
      then_do (thrown (buildManualCleanup sha256 (lifecycleAuthority request)), s) (\<lambda>mc s.
        case createExclusiveFence (fld request ''leaseCandidate'') (env_now env 0) (ds_registry s) of
          (Inl e, R) \<Rightarrow> (Inl (Own e), s\<lparr>ds_registry := R\<rparr>)
        | (Inr h, R) \<Rightarrow>
            (case then_do (dispose_guards sha256 env io request h (s\<lparr>ds_registry := R\<rparr>)) (\<lambda>(d, m).
                   dispose_publish sha256 env io (publish_cleanup sha256 win32 suffix c) (clear_cleanup win32 c) request mc h (lease_fence h R) d m) of
               (r, s1) \<Rightarrow> (r, (suspend env 6 s1)\<lparr>ds_registry := release h (env_now env 1) (ds_registry (suspend env 6 s1))\<rparr>)))))"

section \<open>The cleanup record on disk\<close>

lemma next_fault_keeps:
  "next_fault w = (f, w1) \<Longrightarrow> keeps suffix p g w \<Longrightarrow> keeps suffix p g w1 \<and> files w1 = files w"
  using next_fault_spec [of w f w1] by (auto simp: keeps_def)

lemma keepsD: "keeps suffix c g w \<Longrightarrow> outside suffix c p \<Longrightarrow> map_of (files w) p = g p"
  by (simp only: keeps_def)

lemma flushParent_keeps:
  assumes "storage_flushParent win32 w = (r, w')" "keeps suffix p g w"
  shows "keeps suffix p g w' \<and> files w' = files w"
  using flushParent_files [OF assms(1) keeps_honest [OF assms(2)]] assms(2) by (simp add: keeps_def)

lemma unlink_keeps:
  assumes "unlink p w = (r, w')" "keeps suffix p g w"
  shows "keeps suffix p g w'"
proof -
  obtain f w1 where 1: "next_fault w = (f, w1)" by force
  have k: "keeps suffix p g w1" using next_fault_keeps [OF 1 assms(2)] by simp
  then have "keeps suffix p g (w1\<lparr>files := mdel p (files w1)\<rparr>)"
    by (auto simp: keeps_def outside_def honest_faults_def)
  with k show ?thesis using assms(1) 1 by (cases f) (auto simp: unlink_def fs_call_def split: if_splits)
qed

lemma clear_cleanup_keeps:
  assumes "clear_cleanup win32 p w = (r, w')" "keeps suffix p g w"
  shows "keeps suffix p g w'"
proof -
  obtain r1 w1 where 1: "unlink p w = (r1, w1)" by force
  note k = unlink_keeps [OF 1 assms(2)]
  obtain r2 w2 where 2: "storage_flushParent win32 w1 = (r2, w2)" by force
  have "w' = w1 \<or> w' = w2"
    using assms(1) 1 2 by (auto simp: clear_cleanup_def split: sum.splits io_error.splits if_splits)
  then show ?thesis using k flushParent_keeps [OF 2 k] by auto
qed

lemma replace_cleanup_keeps:
  assumes "io_then (storage_writeTemp suffix p b) (\<lambda>t. io_then sync_handle (\<lambda>_. rename t p)) w = (r, w')" "keeps suffix p g w"
  shows "keeps suffix p g w' \<and> (is_ok r \<longrightarrow> map_of (files w') p = Some b)"
proof -
  obtain r1 w1 where 1: "storage_writeTemp suffix p b w = (r1, w1)" by force
  note s1 = storage_writeTemp_spec [OF 1 assms(2)]
  show ?thesis
  proof (cases r1)
    case (Inl e)
    then show ?thesis using assms(1) 1 s1 by (auto simp: io_then_def)
  next
    case (Inr t)
    obtain r2 w2 where 2: "sync_handle w1 = (r2, w2)" by force
    have k2: "keeps suffix p g w2" "temp_holds suffix p t b w2"
      using s1 Inr sync_handle_spec [OF 2] by (auto simp: keeps_def temp_holds_def)
    obtain r3 w3 where 3: "rename t p w2 = (r3, w3)" by force
    note s3 = rename_spec [OF 3 k2]
    show ?thesis using assms(1) 1 2 3 Inr k2(1) s3 by (cases r2; cases r3) (auto simp: io_then_def)
  qed
qed

lemma publish_cleanup_keeps:
  assumes "publish_cleanup sha256 win32 suffix p mc w = (r, w')" "keeps suffix p g w"
  shows "keeps suffix p g w' \<and>
    (r = Published \<longrightarrow> (\<exists>b. canonicalJsonBytes STRICT_JSON_LIMITS mc = Inr b \<and> map_of (files w') p = Some b))"
proof (cases "seq (validateManualCleanup sha256 mc) (\<lambda>_. canonicalJsonBytes STRICT_JSON_LIMITS mc)")
  case (Inl e)
  then show ?thesis using assms by (auto simp: publish_cleanup_def)
next
  case (Inr b)
  then have b: "canonicalJsonBytes STRICT_JSON_LIMITS mc = Inr b" by (auto simp: seq_eq_Inr)
  obtain r1 w1 where 1: "readBytesOrNull p w = (r1, w1)" by force
  have k1: "keeps suffix p g w1" "\<And>x. r1 = Inr x \<Longrightarrow> x = map_of (files w1) p"
    using readBytesOrNull_spec [OF 1 keeps_honest [OF assms(2)]] assms(2) by (auto simp: keeps_def)
  show ?thesis
  proof (cases "r1 = Inr None")
    case False
    then show ?thesis
      using assms(1) Inr 1 k1 b by (auto simp: publish_cleanup_def split: sum.splits option.splits if_splits)
  next
    case True
    obtain r2 w2 where 2: "io_then (storage_writeTemp suffix p b) (\<lambda>t. io_then sync_handle (\<lambda>_. rename t p)) w1 = (r2, w2)" by force
    note k2 = replace_cleanup_keeps [OF 2 k1(1)]
    obtain r3 w3 where 3: "storage_flushParent win32 w2 = (r3, w3)" by force
    note k3 = flushParent_keeps [OF 3 k2 [THEN conjunct1]]
    show ?thesis
      using assms(1) Inr 1 True 2 3 k2 k3 b by (cases r2; cases r3) (auto simp: publish_cleanup_def)
  qed
qed

lemma slot_and_cleanup_apart:
  "outside suffix (cleanup_location rt i) (live_location rt i)" "outside suffix (live_location rt i) (cleanup_location rt i)"
  by (simp_all add: outside_def cleanup_location_def live_location_def temp_location_def workspace_dir_def)

section \<open>A failed step of the publication\<close>

context atomic_pointer
begin

text \<open>A run of the steps that fails after it has changed the live bytes has failed at the last step.\<close>

lemma run_steps_late:
  assumes "good w" "run_steps failed io b w = (Inl e, w')" "live w' \<noteq> live w"
  shows "\<exists>w3 x. flushParent io w3 = (Inl x, w') \<and> (case x of Own e' \<Rightarrow> e = e' | Foreign k \<Rightarrow> e = failed ''flushParent'')"
proof -
  obtain r1 w1 where 1: "writeTemp io b w = (r1, w1)" by force
  note s1 = writeTemp_spec [OF assms(1) 1]
  obtain t where t: "r1 = Inr t"
    using assms(2,3) 1 s1 by (cases r1) (auto simp: run_steps_def runStep_def and_then_def split: io_error.splits)
  obtain r2 w2 where 2: "flushTemp io t w1 = (r2, w2)" by force
  have s2: "good w2 \<and> live w2 = live w \<and> holds t b w2" using flushTemp_spec [OF _ _ 2, of b] s1 t by simp
  obtain r3 w3 where 3: "replace io t w2 = (r3, w3)" by force
  have s3: "good w3 \<and> (case r3 of Inl _ \<Rightarrow> live w3 = live w | Inr _ \<Rightarrow> live w3 = Some b)"
    using replace_spec [OF _ _ 3, of b] s2 by (auto split: sum.splits)
  obtain r4 w4 where 4: "flushParent io w3 = (r4, w4)" by force
  obtain x where "r4 = Inl x" "w' = w4" "case x of Own e' \<Rightarrow> e = e' | Foreign k \<Rightarrow> e = failed ''flushParent''"
    using assms(2,3) 1 2 3 4 t s2 s3
    by (cases r2; cases r3; cases r4) (auto simp: run_steps_def runStep_def and_then_def split: io_error.splits)
  with 4 show ?thesis by blast
qed

lemma tombstone_late:
  assumes "good w" "distinct_keys t" "publishTombstone sha256 io t w = (Inl e, w')" "live w' \<noteq> live w"
  shows "\<exists>w3 x. flushParent io w3 = (Inl x, w') \<and>
    (case x of Own e' \<Rightarrow> e = e' | Foreign k \<Rightarrow> e = tombstone_step_failed ''flushParent'')"
proof -
  have ok: "is_ok (validateTombstone sha256 t)" using tombstone_atomic [OF assms(1-3)] assms(4) by blast
  obtain r1 w1 where 1: "readLiveDisposition sha256 io w = (r1, w1)" by force
  note s1 = read_slot [OF assms(1) 1]
  obtain r2 w2 where 2: "run_steps tombstone_step_failed io (utf8 (render t)) w1 = (r2, w2)" by force
  have "r2 = Inl e \<and> w2 = w'"
    using assms(3,4) ok 1 2 s1 tombstone_stored(1) [OF ok assms(2)]
    by (cases r1; cases r2) (auto simp: publishTombstone_def and_then_def is_ok_iff split: option.splits sum.splits)
  then show ?thesis using run_steps_late [OF _ _, of w1 tombstone_step_failed "utf8 (render t)" e w'] 2 s1 assms(4) by auto
qed

end

lemma fs_call_foreign:
  assumes "fs_call f w = (Inl (Own e), w')" "\<And>w. \<nexists>w'. f w = (Inl (Own e), w')"
  shows False
  using assms by (auto simp: fs_call_def split: prod.splits fault.splits)

lemma flushParent_foreign: "storage_flushParent win32 w \<noteq> (Inl (Own e), w')"
proof
  assume "storage_flushParent win32 w = (Inl (Own e), w')"
  then obtain w1 w2 where "sync_handle w1 = (Inl (Own e), w2)"
    by (auto simp: storage_flushParent_def open_directory_sync io_then_def tolerate_def split: if_splits prod.splits sum.splits io_error.splits)
  then show False unfolding sync_handle_def by (rule fs_call_foreign) simp
qed

lemma tombstone_storage_late:
  assumes "honest_faults w" "distinct_keys t" "publishTombstone sha256 (createAtomicPointerIo win32 suffix p) t w = (Inl e, w')"
    and "map_of (files w') p \<noteq> map_of (files w) p"
  shows "failed_step e = Some ''flushParent''"
proof -
  have "keeps suffix p (map_of (files w)) w" using assms(1) by (simp add: keeps_def)
  from storage.tombstone_late [OF this assms(2-4)] obtain v x where
    v: "storage_flushParent win32 v = (Inl x, w')" "case x of Own e' \<Rightarrow> e = e' | Foreign k \<Rightarrow> e = tombstone_step_failed ''flushParent''"
    by (auto simp: createAtomicPointerIo_def)
  then have "e = tombstone_step_failed ''flushParent''" using flushParent_foreign by (cases x) auto
  then show ?thesis by (simp add: failed_step_def TOMBSTONE_STEPS_def tombstone_step_failed_def tomb_refuse_def)
qed

section \<open>The parts of the operation\<close>

text \<open>The part before the destruction touches nothing but the registry.\<close>

definition untouched :: "disposal_state \<Rightarrow> disposal_state \<Rightarrow> bool" where
  "untouched s s' \<longleftrightarrow> files (ds_fs s') = files (ds_fs s) \<and> honest_faults (ds_fs s') \<and> ds_barred s' = ds_barred s"

lemma untouched_suspend: "untouched s s' \<Longrightarrow> untouched s (suspend env k s')"
  by (simp add: untouched_def suspend_def)

lemmas untouched_then_do = then_do_keeps [where I = "untouched s" for s]

lemma read_disposition_files:
  assumes "honest_faults w" "readLiveDisposition sha256 (createAtomicPointerIo win32 suffix p) w = (r, w')"
  shows "files w' = files w \<and> honest_faults w' \<and> (\<forall>d. r = Inr d \<longrightarrow> slot_holds sha256 (map_of (files w) p) d)"
proof -
  obtain r1 w1 where 1: "readBytesOrNull p w = (r1, w1)" by force
  note s = readBytesOrNull_spec [OF 1 assms(1)]
  have "w' = w1"
    using assms(2) 1 by (auto simp: readLiveDisposition_def createAtomicPointerIo_def split: sum.splits io_error.splits option.splits)
  moreover have "slot_holds sha256 (map_of (files w) p) d" if "r = Inr d" for d
    using storage.read_slot [of suffix p "map_of (files w)" w sha256 win32 r w'] assms that by (simp add: keeps_def)
  ultimately show ?thesis using s by blast
qed

lemma read_untouched:
  assumes "untouched s s1"
  shows "untouched s (snd (in_fs (readLiveDisposition sha256 (createAtomicPointerIo win32 suffix p)) s1))"
proof -
  obtain r w where "readLiveDisposition sha256 (createAtomicPointerIo win32 suffix p) (ds_fs s1) = (r, w)" by force
  with read_disposition_files [OF _ this] assms show ?thesis by (simp add: in_fs_def untouched_def)
qed

lemma guards_untouched:
  assumes "honest_faults (ds_fs s)"
  shows "untouched s (snd (dispose_guards sha256 env (createAtomicPointerIo win32 suffix p) request h s))"
proof -
  have "untouched s s" using assms by (simp add: untouched_def)
  then show ?thesis
    unfolding dispose_guards_def
    by (intro untouched_then_do; (unfold case_prod_beta)?; (intro untouched_then_do)?; simp add: untouched_suspend read_untouched)
qed

definition guarded ::
  "(bytes \<Rightarrow> jsstr) \<Rightarrow> disposal_env \<Rightarrow> jsval \<Rightarrow> bytes option \<Rightarrow> live_record \<Rightarrow> jsval \<Rightarrow> bool" where
  "guarded sha256 env request slot d m \<longleftrightarrow>
     (\<exists>a b. env_quiescence env = Inr (a, b) \<and> assertQuiescent a b = Inr ()) \<and>
     slot_holds sha256 slot (Some d) \<and> accept_live request (Some d) = Inr d \<and>
     (\<exists>db tree. env_backup env d = Inr (db, tree) \<and> computeDirtyBackup sha256 (tree_reader tree) db () = (Inr m, ())) \<and>
     env_residual env = Inr (JArr [])"

lemma residual_none:
  assumes "assertResidualProcessAbsence listed a b c d = Inr ()"
  shows "listed = Inr (JArr [])"
proof -
  obtain r where "listed = Inr r" "isArray r" "elements r = []"
    using assms by (auto simp: assertResidualProcessAbsence_def split: sum.splits)
  then show ?thesis by (cases r) auto
qed

lemma accept_live_Some: "accept_live request cur = Inr d \<Longrightarrow> cur = Some d"
  by (auto simp: accept_live_def split: option.splits)

lemma guards_passed:
  assumes "honest_faults (ds_fs s)"
    and "dispose_guards sha256 env (createAtomicPointerIo win32 suffix p) request h s = (Inr (d, m), s')"
  shows "guarded sha256 env request (map_of (files (ds_fs s)) p) d m \<and>
    ds_registry s' = fold (env_others env) [0..<5] (ds_registry s)"
proof -
  obtain a b live s2 tree db where q: "env_quiescence env = Inr (a, b)" "assertQuiescent a b = Inr ()"
    and rd: "in_fs (readLiveDisposition sha256 (createAtomicPointerIo win32 suffix p)) (suspend env 0 s) = (Inr live, s2)"
    and l: "accept_live request live = Inr d" and bk: "env_backup env d = Inr (db, tree)"
    "fst (computeDirtyBackup sha256 (tree_reader tree) db ()) = Inr m"
    and rs: "assertResidualProcessAbsence (env_residual env) (fld request ''hostId'') (fld request ''workspaceId'')
        (fld request ''workDir'') (fld request ''sourcePlatform'') = Inr ()"
    and s': "s' = suspend env 4 (suspend env 3 (suspend env 2 (suspend env 1 s2)))"
    using assms(2) by (auto simp: dispose_guards_def then_do_Inr apfst_def map_prod_def split: prod.splits if_splits)
  obtain w where w: "readLiveDisposition sha256 (createAtomicPointerIo win32 suffix p) (ds_fs s) = (Inr live, w)"
    "s2 = (suspend env 0 s)\<lparr>ds_fs := w\<rparr>"
    using rd by (auto simp: in_fs_def suspend_def split: prod.splits)
  have "slot_holds sha256 (map_of (files (ds_fs s)) p) (Some d)"
    using read_disposition_files [OF assms(1) w(1)] accept_live_Some [OF l] by simp
  moreover have "computeDirtyBackup sha256 (tree_reader tree) db () = (Inr m, ())" using bk(2) by (simp add: prod_eq_iff)
  ultimately have "guarded sha256 env request (map_of (files (ds_fs s)) p) d m"
    using q l bk(1) residual_none [OF rs] accept_live_Some [OF l] unfolding guarded_def by blast
  moreover have "ds_registry s' = fold (env_others env) [0..<5] (ds_registry s)"
    by (simp add: s' w(2) suspend_def upt_rec numeral_eq_Suc)
  ultimately show ?thesis ..
qed

lemma tombstone_built:
  assumes "buildTombstone sha256 input = Inr t"
  shows "is_ok (validateTombstone sha256 t)" "distinct_keys t"
    "fld t ''dirtyBackupFingerprint'' = null_default (fld input ''dirtyBackupFingerprint'')" "fld t ''operation'' = fld input ''operation''"
proof -
  let ?r = "record_of [(''version'', JInt 1), (''kind'', TOMBSTONE_KIND), (''hostId'', fld input ''hostId''),
       (''workspaceId'', fld input ''workspaceId''), (''sourcePlatform'', fld input ''sourcePlatform''),
       (''operation'', fld input ''operation''), (''tombstonedGeneration'', fld input ''tombstonedGeneration''),
       (''priorKind'', fld input ''priorKind''), (''priorPointerFingerprint'', fld input ''priorPointerFingerprint''),
       (''dirtyBackupFingerprint'', null_default (fld input ''dirtyBackupFingerprint'')), (''tombstoneFingerprint'', JNull)]"
  obtain h where h: "validateTombstone sha256 (with_field ?r ''tombstoneFingerprint'' (JStr h)) = Inr t"
    using assms by (auto simp only: buildTombstone_def Let_def check_eq_Inr seq_eq_Inr)
  then have t: "t = with_field ?r ''tombstoneFingerprint'' (JStr h)"
    by (rule tombstone_Inr [THEN iffD1, THEN conjunct2])
  show ok: "is_ok (validateTombstone sha256 t)" using h by (simp only: t tombstone_Inr)
  have f: "fld t ''kind'' = TOMBSTONE_KIND" "fld t ''hostId'' = fld input ''hostId''" "fld t ''workspaceId'' = fld input ''workspaceId''"
    "fld t ''sourcePlatform'' = fld input ''sourcePlatform''" "fld t ''operation'' = fld input ''operation''"
    "fld t ''tombstonedGeneration'' = fld input ''tombstonedGeneration''" "fld t ''priorKind'' = fld input ''priorKind''"
    "fld t ''priorPointerFingerprint'' = fld input ''priorPointerFingerprint''"
    "fld t ''dirtyBackupFingerprint'' = null_default (fld input ''dirtyBackupFingerprint'')"
    by (simp_all add: t with_field_def get_own_JObj own_keys_JObj)
  show "fld t ''dirtyBackupFingerprint'' = null_default (fld input ''dirtyBackupFingerprint'')" "fld t ''operation'' = fld input ''operation''"
    by (fact f)+
  have d: "distinct_keys (fld t k)" if "k \<in> set TOMBSTONE_KEYS" for k
    using tombstone_small_fields [OF ok that] by (cases "fld t k") (auto simp: small_leaf_def)
  have "\<forall>v \<in> {TOMBSTONE_KIND, fld input ''hostId'', fld input ''workspaceId'', fld input ''sourcePlatform'', fld input ''operation'',
      fld input ''tombstonedGeneration'', fld input ''priorKind'', fld input ''priorPointerFingerprint'',
      null_default (fld input ''dirtyBackupFingerprint'')}. distinct_keys v"
    unfolding f [symmetric] using d by (simp add: TOMBSTONE_KEYS_def)
  then show "distinct_keys t"
    by (simp add: t with_field_def own_keys_JObj)
qed

lemma commit_manual_effect:
  assumes "commitManualCleanup env mk mc e step commit s = (r, s')"
  shows "ds_fs s' = ds_fs s" "ds_barred s' = (commit \<or> ds_barred s)" "\<not> commit \<Longrightarrow> is_ok r"
  using assms by (auto simp: commitManualCleanup_def commitTerminal_def then_do_def Let_def split: option.splits if_splits)

lemma clear_in_fs:
  assumes "in_fs (clear_cleanup win32 c) s = (r, s')" "honest_faults (ds_fs s)" "outside suffix c p"
  shows "map_of (files (ds_fs s')) p = map_of (files (ds_fs s)) p \<and> ds_barred s' = ds_barred s"
proof -
  obtain w where w: "clear_cleanup win32 c (ds_fs s) = (r, w)" "s' = s\<lparr>ds_fs := w\<rparr>"
    using assms(1) by (auto simp: in_fs_def split: prod.splits)
  have "keeps suffix c (map_of (files (ds_fs s))) (ds_fs s)" using assms(2) by (simp add: keeps_def)
  from keepsD [OF clear_cleanup_keeps [OF w(1) this] assms(3)] w(2) show ?thesis by simp
qed

lemma dispose_slot_effect:
  assumes h: "honest_faults (ds_fs s)" and t: "distinct_keys t" and apart: "outside suffix c p" "outside suffix p c"
    and run: "dispose_slot sha256 env (createAtomicPointerIo win32 suffix p) (clear_cleanup win32 c) mk mc t s = (r, s')"
    and new: "map_of (files (ds_fs s')) p \<noteq> map_of (files (ds_fs s)) p"
  shows "map_of (files (ds_fs s')) p = Some (utf8 (render t)) \<and>
    (\<exists>d. slot_holds sha256 (map_of (files (ds_fs s)) p) (Some d) \<and> chains t d) \<and> ds_barred s' \<and>
    (is_ok r \<or> map_of (files (ds_fs s')) c = map_of (files (ds_fs s)) c)"
proof -
  obtain pr w1 where 1: "publishTombstone sha256 (createAtomicPointerIo win32 suffix p) t (ds_fs s) = (pr, w1)" by force
  note st = tombstone_storage [OF h t 1]
  let ?s1 = "s\<lparr>ds_fs := w1\<rparr>"
  have c1: "map_of (files w1) c = map_of (files (ds_fs s)) c" by (rule st(2) [OF apart(2)])
  show ?thesis
  proof (cases pr)
    case (Inl e)
    have changed: "map_of (files w1) p \<noteq> map_of (files (ds_fs s)) p"
    proof
      assume same: "map_of (files w1) p = map_of (files (ds_fs s)) p"
      obtain r2 s2 where 2: "in_fs (clear_cleanup win32 c) ?s1 = (r2, s2)" by force
      have "ds_fs s' = w1 \<or> ds_fs s' = ds_fs s2"
        using run 1 2 Inl by (auto simp: dispose_slot_def in_fs_def split: option.splits sum.splits prod.splits dest: commit_manual_effect(1))
      then show False using new same clear_in_fs [OF 2 _ apart(1)] st(1) by auto
    qed
    have "failed_step e = Some ''flushParent''" using tombstone_storage_late [OF h t 1 [unfolded Inl] changed] .
    then have "commitManualCleanup env mk mc (Own e) ''flushParent'' True ?s1 = (r, s')"
      using run 1 Inl by (simp add: dispose_slot_def in_fs_def)
    from commit_manual_effect(1,2) [OF this] st(3) changed c1 show ?thesis by auto
  next
    case (Inr pub)
    then have n: "map_of (files w1) p = Some (utf8 (render t))" "\<exists>d. slot_holds sha256 (map_of (files (ds_fs s)) p) (Some d) \<and> chains t d"
      using st(3) by auto
    let ?s2 = "?s1\<lparr>ds_barred := True\<rparr>"
    show ?thesis
    proof (cases "env_commit env")
      case (Some e)
      then have "s' = ?s2" using run 1 Inr by (simp add: dispose_slot_def in_fs_def commitTerminal_def then_do_def)
      then show ?thesis using n c1 by simp
    next
      case None
      obtain r2 s3 where 2: "in_fs (clear_cleanup win32 c) ?s2 = (r2, s3)" by force
      note cl = clear_in_fs [OF 2 _ apart(1)]
      have "is_ok r \<and> ds_fs s' = ds_fs s3 \<and> ds_barred s' = ds_barred s3"
      proof (cases r2)
        case (Inl e')
        then have "commitManualCleanup env mk mc e' ''clearTerminalPreparation'' False s3 = (r, s')"
          using run 1 Inr None 2 by (simp add: dispose_slot_def in_fs_def commitTerminal_def then_do_def)
        from commit_manual_effect [OF this] show ?thesis by simp
      next
        case (Inr u)
        then show ?thesis
          using run 1 \<open>pr = Inr pub\<close> None 2 by (auto simp: dispose_slot_def in_fs_def commitTerminal_def then_do_def)
      qed
      then show ?thesis using cl n st(1) by simp
    qed
  qed
qed

lemma dispose_publish_effect:
  assumes h: "honest_faults (ds_fs s)" and apart: "outside suffix c p" "outside suffix p c"
    and run: "dispose_publish sha256 env (createAtomicPointerIo win32 suffix p) (publish_cleanup sha256 win32 suffix c)
        (clear_cleanup win32 c) request mc k fence d m s = (r, s')"
    and new: "map_of (files (ds_fs s')) p \<noteq> map_of (files (ds_fs s)) p"
  shows "\<exists>t. buildTombstone sha256 (tombstone_input request d m) = Inr t \<and>
    isCurrent k (env_others env 5 (ds_registry s)) = Inr True \<and> map_of (files (ds_fs s')) p = Some (utf8 (render t)) \<and>
    (\<exists>x. slot_holds sha256 (map_of (files (ds_fs s)) p) (Some x) \<and> chains t x) \<and> ds_barred s' \<and>
    (is_ok r \<or> (\<exists>b. canonicalJsonBytes STRICT_JSON_LIMITS mc = Inr b \<and> map_of (files (ds_fs s')) c = Some b))"
proof -
  obtain t where t: "buildTombstone sha256 (tombstone_input request d m) = Inr t"
    using run new by (cases "buildTombstone sha256 (tombstone_input request d m)") (auto simp: dispose_publish_def then_do_def thrown_def)
  obtain q w1 where 1: "publish_cleanup sha256 win32 suffix c mc (ds_fs s) = (q, w1)" by force
  have "keeps suffix c (map_of (files (ds_fs s))) (ds_fs s)" using h by (simp add: keeps_def)
  note k1 = publish_cleanup_keeps [OF 1 this]
  have p1: "map_of (files w1) p = map_of (files (ds_fs s)) p" "honest_faults w1"
    using keepsD [OF k1 [THEN conjunct1] apart(1)] keeps_honest [OF k1 [THEN conjunct1]] by auto
  let ?s1 = "suspend env 5 (s\<lparr>ds_fs := w1\<rparr>)" and ?mk = "make_receipt request t m fence"
  have red: "(r, s') = (case q of
      Refused e ambiguous \<Rightarrow> if ambiguous then commitManualCleanup env ?mk mc e ''prepareTerminal'' True (s\<lparr>ds_fs := w1\<rparr>) else (Inl e, s\<lparr>ds_fs := w1\<rparr>)
    | Published \<Rightarrow> (case isCurrent k (ds_registry ?s1) of
        Inl e \<Rightarrow> (Inl (Own e), ?s1)
      | Inr True \<Rightarrow> dispose_slot sha256 env (createAtomicPointerIo win32 suffix p) (clear_cleanup win32 c) ?mk mc t ?s1
      | Inr False \<Rightarrow>
          (case in_fs (clear_cleanup win32 c) ?s1 of
             (Inl e', s2) \<Rightarrow> commitManualCleanup env ?mk mc e' ''clearTerminalPreparation'' True s2
           | (Inr _, s2) \<Rightarrow> (Inl (Own (reset_refuse ''LEASE_CONFLICT'' ''exclusive fence was lost after terminal preparation'')), s2))))"
    using run t 1 by (cases q) (auto simp add: dispose_publish_def in_fs_def [of "publish_cleanup _ _ _ _ _"] Let_def split: sum.splits bool.splits)
  have fs1: "ds_fs ?s1 = w1" "ds_registry ?s1 = env_others env 5 (ds_registry s)" by (simp_all add: suspend_def)
  obtain r2 s2 where 2: "in_fs (clear_cleanup win32 c) ?s1 = (r2, s2)" by force
  have p2: "map_of (files (ds_fs s2)) p = map_of (files (ds_fs s)) p"
    using clear_in_fs [OF 2 _ apart(1)] p1 fs1(1) by simp
  have pub: "q = Published" "isCurrent k (ds_registry ?s1) = Inr True"
  proof -
    have "ds_fs s' \<noteq> w1" "ds_fs s' \<noteq> ds_fs s2" using new p1(1) p2 by auto
    moreover have "ds_fs s' = w1" if "q = Refused e a" for e a
      using red that by (auto split: if_splits dest!: sym [of "(r, s')"] commit_manual_effect(1))
    ultimately show q: "q = Published" by (cases q) auto
    have "ds_fs s' = w1 \<or> ds_fs s' = ds_fs s2" if "isCurrent k (ds_registry ?s1) \<noteq> Inr True"
      using red q that 2 fs1(1)
      by (auto split: sum.splits bool.splits dest!: sym [of "(r, s')"] commit_manual_effect(1))
    with \<open>ds_fs s' \<noteq> w1\<close> \<open>ds_fs s' \<noteq> ds_fs s2\<close> show "isCurrent k (ds_registry ?s1) = Inr True" by blast
  qed
  have slot: "dispose_slot sha256 env (createAtomicPointerIo win32 suffix p) (clear_cleanup win32 c) ?mk mc t ?s1 = (r, s')"
    using red pub by simp
  obtain b where b: "canonicalJsonBytes STRICT_JSON_LIMITS mc = Inr b" "map_of (files w1) c = Some b" using k1 pub(1) by blast
  have "map_of (files (ds_fs s')) p = Some (utf8 (render t)) \<and>
      (\<exists>x. slot_holds sha256 (map_of (files w1) p) (Some x) \<and> chains t x) \<and> ds_barred s' \<and>
      (is_ok r \<or> map_of (files (ds_fs s')) c = map_of (files w1) c)"
    using dispose_slot_effect [OF _ tombstone_built(2) [OF t] apart slot] new p1 fs1(1) by simp
  with t pub(2) b p1(1) fs1(2) show ?thesis by auto
qed

text \<open>What a run that changes the live slot has gone through.\<close>

lemma disposal_run:
  assumes h: "honest_faults (ds_fs s)"
    and run: "runResetDelete sha256 win32 suffix rt env request s = (r, s')"
    and p: "p = live_location rt (str_of (fld request ''workspaceId''))" "c = cleanup_location rt (str_of (fld request ''workspaceId''))"
    and new: "map_of (files (ds_fs s')) p \<noteq> map_of (files (ds_fs s)) p"
  obtains mc k R d m t where "buildManualCleanup sha256 (lifecycleAuthority request) = Inr mc"
    "createExclusiveFence (fld request ''leaseCandidate'') (env_now env 0) (ds_registry s) = (Inr k, R)"
    "isCurrent k (fold (env_others env) [0..<6] R) = Inr True" "guarded sha256 env request (map_of (files (ds_fs s)) p) d m"
    "buildTombstone sha256 (tombstone_input request d m) = Inr t" "map_of (files (ds_fs s')) p = Some (utf8 (render t))"
    "chains t d" "ds_barred s'"
    "is_ok r \<or> (\<exists>b. canonicalJsonBytes STRICT_JSON_LIMITS mc = Inr b \<and> map_of (files (ds_fs s')) c = Some b)"
proof -
  let ?io = "createAtomicPointerIo win32 suffix p"
  have io: "createGenerationPublisherIo win32 suffix rt (str_of (fld request ''workspaceId'')) = ?io"
    by (simp add: createGenerationPublisherIo_def p(1))
  have apart: "outside suffix c p" "outside suffix p c" by (simp_all add: p slot_and_cleanup_apart)
  obtain u where u: "assertRequest request = Inr u"
    using run new by (cases "assertRequest request") (auto simp: runResetDelete_def then_do_def thrown_def Let_def)
  obtain mc where mc: "buildManualCleanup sha256 (lifecycleAuthority request) = Inr mc"
    using run new u by (cases "buildManualCleanup sha256 (lifecycleAuthority request)")
      (auto simp: runResetDelete_def then_do_def thrown_def Let_def)
  obtain q R where f: "createExclusiveFence (fld request ''leaseCandidate'') (env_now env 0) (ds_registry s) = (q, R)" by force
  obtain k where k: "q = Inr k"
    using run new u mc f by (cases q) (auto simp: runResetDelete_def then_do_def thrown_def Let_def)
  let ?s0 = "s\<lparr>ds_registry := R\<rparr>"
  obtain g s1 where g: "dispose_guards sha256 env ?io request k ?s0 = (g, s1)" by force
  have un: "untouched ?s0 s1" using guards_untouched [of ?s0 sha256 env win32 suffix p request k] h g by simp
  let ?pub = "\<lambda>(d, m). dispose_publish sha256 env ?io (publish_cleanup sha256 win32 suffix c) (clear_cleanup win32 c) request mc k (lease_fence k R) d m"
  obtain r2 s2 where 2: "then_do (g, s1) ?pub = (r2, s2)" by force
  have s': "r = r2" "ds_fs s' = ds_fs s2" "ds_barred s' = ds_barred s2"
    using run [unfolded runResetDelete_def Let_def io, folded p(2)] u mc f k g 2
    by (auto simp: suspend_def)
  obtain d m where dm: "g = Inr (d, m)"
    using 2 new s' un by (cases g) (auto simp: then_do_def untouched_def)
  have e: "files (ds_fs s1) = files (ds_fs s)" "honest_faults (ds_fs s1)" using un by (simp_all add: untouched_def)
  note gp = guards_passed [OF _ g [unfolded dm]]
  have gd: "guarded sha256 env request (map_of (files (ds_fs s)) p) d m" "ds_registry s1 = fold (env_others env) [0..<5] R"
    using gp h by simp_all
  have "dispose_publish sha256 env ?io (publish_cleanup sha256 win32 suffix c) (clear_cleanup win32 c) request mc k (lease_fence k R) d m s1 = (r2, s2)"
    using 2 dm by (simp add: then_do_def)
  from dispose_publish_effect [OF e(2) apart this] new s' e(1) obtain t x where t:
    "buildTombstone sha256 (tombstone_input request d m) = Inr t" "isCurrent k (env_others env 5 (ds_registry s1)) = Inr True"
    "map_of (files (ds_fs s')) p = Some (utf8 (render t))" "slot_holds sha256 (map_of (files (ds_fs s)) p) (Some x)" "chains t x"
    "ds_barred s'" "is_ok r \<or> (\<exists>b. canonicalJsonBytes STRICT_JSON_LIMITS mc = Inr b \<and> map_of (files (ds_fs s')) c = Some b)" by auto
  have "x = d" using slot_unique [OF t(4)] gd(1) by (auto simp: guarded_def)
  moreover have "fold (env_others env) [0..<6] R = env_others env 5 (fold (env_others env) [0..<5] R)"
    by (simp add: upt_rec numeral_eq_Suc)
  ultimately show thesis using that mc f k t gd by metis
qed

text \<open>The operation changes the registry only by its fence and by what other tasks do.\<close>

definition fenced :: "nat \<Rightarrow> disposal_state \<Rightarrow> bool" where
  "fenced h s \<longleftrightarrow> reachable (ds_registry s) \<and> h < length (leases (ds_registry s))"

definition fair_env :: "disposal_env \<Rightarrow> bool" where
  "fair_env env \<longleftrightarrow> (\<forall>k R. reachable R \<longrightarrow> reachable (env_others env k R) \<and> length (leases R) \<le> length (leases (env_others env k R)))"

lemma fenced_suspend: "fair_env env \<Longrightarrow> fenced h s \<Longrightarrow> fenced h (suspend env k s)"
  by (auto simp: fair_env_def fenced_def suspend_def intro: less_le_trans)

lemma fenced_in_fs: "fenced h (snd (in_fs f s)) = fenced h s"
  by (simp add: in_fs_def fenced_def split: prod.splits)

lemmas fenced_then_do = then_do_keeps [where I = "fenced h" for h]

lemma fenced_guards:
  assumes "fair_env env" "fenced h s"
  shows "fenced h (snd (dispose_guards sha256 env io request h s))"
  unfolding dispose_guards_def using assms
  by (intro fenced_then_do; (unfold case_prod_beta)?; (intro fenced_then_do)?; simp add: fenced_suspend fenced_in_fs)

lemma fenced_manual: "fenced h (snd (commitManualCleanup env mk mc e step commit s)) = fenced h s"
  by (auto simp: commitManualCleanup_def commitTerminal_def then_do_def Let_def fenced_def split: option.splits)

lemma fenced_after: "in_fs f s = (q, s1) \<Longrightarrow> fenced h s1 = fenced h s"
  using fenced_in_fs [of h f s] by simp

lemma fenced_slot:
  assumes s: "fenced h s"
  shows "fenced h (snd (dispose_slot sha256 env io clear mk mc t s))"
proof -
  obtain r s1 where 1: "in_fs (publishTombstone sha256 io t) s = (r, s1)" by force
  obtain q2 s2 where 2: "in_fs clear s1 = (q2, s2)" by force
  obtain q3 s3 where 3: "in_fs clear (s1\<lparr>ds_barred := True\<rparr>) = (q3, s3)" by force
  have f: "fenced h s1" "fenced h s2" "fenced h (s1\<lparr>ds_barred := True\<rparr>)" "fenced h s3"
    using s fenced_after [OF 1] fenced_after [OF 2] fenced_after [OF 3] by (simp_all add: fenced_def)
  show ?thesis
    using f by (cases r; cases q2; cases q3; cases "env_commit env")
      (simp_all add: dispose_slot_def 1 2 3 fenced_manual commitTerminal_def split: option.splits)
qed

lemma fenced_publish:
  assumes "fair_env env" "fenced h s"
  shows "fenced h (snd (dispose_publish sha256 env io prepare clear request mc h fence d m s))"
proof -
  obtain q s1 where 1: "in_fs (prepare mc) s = (q, s1)" by force
  obtain q2 s2 where 2: "in_fs clear (suspend env 5 s1) = (q2, s2)" by force
  have f: "fenced h s1" "fenced h (suspend env 5 s1)" "fenced h s2"
    using assms fenced_after [OF 1] fenced_after [OF 2] fenced_suspend by simp_all
  have "fenced h (snd (dispose_publish sha256 env io prepare clear request mc h fence d m s))"
    if "buildTombstone sha256 (tombstone_input request d m) = Inr t" for t
    using f by (cases q; cases q2) (simp_all add: dispose_publish_def that Let_def 1 2 fenced_manual fenced_slot split: sum.splits bool.splits)
  then show ?thesis
    using assms(2) by (cases "buildTombstone sha256 (tombstone_input request d m)") (simp_all add: dispose_publish_def)
qed

section \<open>The operation\<close>

lemma quiescent_zero: "assertQuiescent a b = Inr () \<Longrightarrow> js_eq a (JInt 0) \<and> js_eq b (JInt 0)"
  by (auto simp: assertQuiescent_def isSafeInteger_iff)


text \<open>C17. Write-ahead: once the live slot has changed, the workspace is barred from serving, and
  either the operation reports its receipt or the manual-cleanup record built from the
  request's authority is on disk, where the boot recovery finds it.\<close>

theorem disposal_write_ahead:
  assumes "honest_faults (ds_fs s)" and "runResetDelete sha256 win32 suffix rt env request s = (r, s')"
    and "map_of (files (ds_fs s')) (live_location rt (str_of (fld request ''workspaceId''))) \<noteq>
      map_of (files (ds_fs s)) (live_location rt (str_of (fld request ''workspaceId'')))"
  shows "ds_barred s' \<and> (is_ok r \<or>
    (\<exists>mc b. buildManualCleanup sha256 (lifecycleAuthority request) = Inr mc \<and> canonicalJsonBytes STRICT_JSON_LIMITS mc = Inr b \<and>
      map_of (files (ds_fs s')) (cleanup_location rt (str_of (fld request ''workspaceId''))) = Some b))"
  using disposal_run [OF assms(1,2) refl refl assms(3)] by metis

text \<open>Every run of the operation ends with its exclusive fence released, on every path and in every
  interleaving with tasks that use the registry through its operations.\<close>

theorem disposal_releases_fence:
  assumes "reachable (ds_registry s)" and "fair_env env"
    and "assertRequest request = Inr ()" and "buildManualCleanup sha256 (lifecycleAuthority request) = Inr mc"
    and "createExclusiveFence (fld request ''leaseCandidate'') (env_now env 0) (ds_registry s) = (Inr h, R)"
    and "runResetDelete sha256 win32 suffix rt env request s = (r, s')"
  shows "isCurrent h (ds_registry s') = Inr False"
proof -
  let ?s0 = "s\<lparr>ds_registry := R\<rparr>"
  have "reachable R" by (rule reachable.step [OF assms(1) registry_step.acquire [OF assms(5) [unfolded createExclusiveFence_def]]])
  then have "fenced h ?s0"
    using exclusive_lease.acquire_current [OF reachable_ok [OF assms(1)] assms(5)] by (simp add: fenced_def)
  note g = fenced_guards [OF assms(2) this]
  obtain s1 where run: "fenced h s1" "ds_registry s' = release h (env_now env 1) (ds_registry (suspend env 6 s1))"
  proof
    let ?i = "str_of (fld request ''workspaceId'')"
    let ?r = "then_do (dispose_guards sha256 env (createGenerationPublisherIo win32 suffix rt ?i) request h ?s0) (\<lambda>(d, m).
      dispose_publish sha256 env (createGenerationPublisherIo win32 suffix rt ?i) (publish_cleanup sha256 win32 suffix (cleanup_location rt ?i))
        (clear_cleanup win32 (cleanup_location rt ?i)) request mc h (lease_fence h R) d m)"
    show "fenced h (snd ?r)" by (rule fenced_then_do [OF g]) (auto simp: fenced_publish [OF assms(2)])
    show "ds_registry s' = release h (env_now env 1) (ds_registry (suspend env 6 (snd ?r)))"
      using assms(3-6) by (cases ?r) (auto simp: runResetDelete_def Let_def)
  qed
  then have "fenced h (suspend env 6 s1)" using fenced_suspend assms(2) by blast
  then show ?thesis using run(2) release_not_current [OF reachable_ok] by (simp add: fenced_def)
qed

end
