(* ===== verification/Lifecycle_Dispatch.thy ===== *)
theory Lifecycle_Dispatch
  imports Create_Refresh Reset_Delete
begin

text \<open>
  The dispatchers that turn a lifecycle message into a request of the operations,
  \<^verbatim>\<open>daemon/src/workspace-create-dispatch.js\<close>, \<^verbatim>\<open>daemon/src/workspace-refresh-dispatch.js\<close> and
  \<^verbatim>\<open>daemon/src/workspace-reset-delete-dispatch.js\<close>, and the request check of the git materialisation they are wired to,
  \<^verbatim>\<open>daemon/src/workspace-git-materializer.js\<close>.
\<close>

section \<open>The request check of the materialisation\<close>

text \<open>The functions of \<^verbatim>\<open>node:path\<close> are arguments.\<close>

record path_ops =
  po_isAbsolute :: "jsstr \<Rightarrow> bool"
  po_resolve :: "jsstr \<Rightarrow> jsstr"
  po_relative :: "jsstr \<Rightarrow> jsstr \<Rightarrow> jsstr"

definition mat_refuse :: "string \<Rightarrow> string \<Rightarrow> js_error" where
  "mat_refuse k reason = CodedError k (js ''materialize_workspace: '' @ js k @ js '': '' @ js reason)"

definition mat_invalid :: "string \<Rightarrow> js_error" where
  "mat_invalid = mat_refuse ''MATERIALIZE_REQUEST_INVALID''"

definition isNonEmptyAbsolutePath :: "path_ops \<Rightarrow> jsval \<Rightarrow> bool" where
  "isNonEmptyAbsolutePath P v \<longleftrightarrow> isNonEmptyString v \<and> po_isAbsolute P (str_of v)"

definition lies_in :: "path_ops \<Rightarrow> jsstr \<Rightarrow> bool" where
  "lies_in P rel \<longleftrightarrow> rel \<noteq> [] \<and> take 2 rel \<noteq> js ''..'' \<and> \<not> po_isAbsolute P rel"

definition pathOverlaps :: "path_ops \<Rightarrow> jsstr \<Rightarrow> jsstr \<Rightarrow> bool" where
  "pathOverlaps P a b =
     (let ra = po_resolve P a; rb = po_resolve P b in
      if ra = rb then True
      else if lies_in P (po_relative P ra rb) then True
      else lies_in P (po_relative P rb ra))"

definition validateRequest :: "path_ops \<Rightarrow> jsval \<Rightarrow> js_error + unit" where
  "validateRequest P request =
     check (isObject request \<or> isArray request) (mat_invalid ''request must be an object'') (
     check (isNonEmptyString (fld request ''operation'')) (mat_invalid ''operation must be a non-empty string'') (
     check (isNonEmptyAbsolutePath P (fld request ''workDir'')) (mat_invalid ''workDir must be a non-empty absolute path'') (
     check (isNonEmptyAbsolutePath P (fld request ''candidatePath'')) (mat_invalid ''candidatePath must be a non-empty absolute path'') (
     check (isNonEmptyAbsolutePath P (fld request ''gitDir'')) (mat_invalid ''gitDir must be a non-empty absolute path'') (
     check (str_in (fld request ''sourcePlatform'') [''posix'', ''windows''])
       (mat_invalid (''sourcePlatform must be '' @ quoted ''posix'' @ '' or '' @ quoted ''windows'')) (
     for_each (\<lambda>(a, b). check (\<not> pathOverlaps P (str_of (fld request a)) (str_of (fld request b)))
         (mat_invalid (a @ '' and '' @ b @ '' must be distinct, non-overlapping paths'')) (Inr ()))
       [(''workDir'', ''candidatePath''), (''workDir'', ''gitDir''), (''candidatePath'', ''gitDir'')]))))))"

text \<open>\<open>materialize\<close>; what git does is the last argument.\<close>

definition materialize :: "path_ops \<Rightarrow> (jsval \<Rightarrow> io_error + unit) \<Rightarrow> jsval \<Rightarrow> io_error + unit" where
  "materialize P clone request = (case validateRequest P request of Inl e \<Rightarrow> Inl (Own e) | Inr _ \<Rightarrow> clone request)"

section \<open>The guards of create and refresh\<close>

text \<open>A refusal has a code and a reason, which is \<open>None\<close> where it is that of a caught error.\<close>

datatype dispatched = Served generation_receipt | Not_served string "jsstr option"

definition unauthorised :: "string \<Rightarrow> (string \<times> jsstr) option" where
  "unauthorised reason = Some (''RUNTIME_INCOMPATIBLE'', js reason)"

definition inventory_guard :: "jsval \<Rightarrow> jsval \<Rightarrow> (string \<times> jsstr) option" where
  "inventory_guard message inventory =
     (if \<not> isObject inventory \<or> \<not> isNonEmptyString (fld inventory ''workDir'')
      then unauthorised ''no trusted inventory workspace for source workDir''
      else if \<not> (js_eq (fld inventory ''hostId'') (fld message ''hostId'') \<and> js_eq (fld inventory ''workspaceId'') (fld message ''workspaceId'') \<and>
                  js_eq (fld inventory ''sourcePlatform'') (fld message ''sourcePlatform''))
      then unauthorised ''trusted inventory identity does not match the verified message''
      else None)"

definition authority_guard :: "string list \<Rightarrow> string \<Rightarrow> jsval \<Rightarrow> jsval \<Rightarrow> jsval \<Rightarrow> jsval \<Rightarrow> (string \<times> jsstr) option" where
  "authority_guard ops wrong message binding inventory readiness =
     (if \<not> isObject message then unauthorised ''missing lifecycle message''
      else if \<not> str_in (fld message ''operation'') ops then unauthorised wrong
      else if \<not> isObject binding then unauthorised ''no accepted binding for workspace''
      else if \<not> verifyWorkspaceLifecycleAuthority message (workspaceLifecycleAuthority binding)
      then unauthorised ''lifecycle authority does not match the accepted binding''
      else case inventory_guard message inventory of
        Some x \<Rightarrow> Some x
      | None \<Rightarrow> if \<not> isObject readiness then unauthorised ''missing live readiness dimensions'' else None)"

definition MATERIALIZER_PLATFORM :: "jsval \<Rightarrow> string option" where
  "MATERIALIZER_PLATFORM v = (if js_eq v (JLit ''posix'') then Some ''posix'' else if js_eq v (JLit ''windows-drive'') then Some ''windows'' else None)"

definition generationSegment :: "(jsval \<Rightarrow> jsstr) \<Rightarrow> jsval \<Rightarrow> jsstr" where
  "generationSegment string_of v = replicate (6 - length (string_of v)) 0x30 @ string_of v"

definition candidate_path :: "jsstr \<Rightarrow> jsstr \<Rightarrow> jsstr \<Rightarrow> jsstr" where
  "candidate_path workspaceRoot workspaceId segment = workspace_dir workspaceRoot workspaceId ''generations'' @ js ''/'' @ segment"

definition unsupported_platform :: "(jsval \<Rightarrow> jsstr) \<Rightarrow> jsval \<Rightarrow> jsstr" where
  "unsupported_platform string_of v = js ''source platform '' @ string_of v @ js '' is not serveable''"

text \<open>\<open>resolveManifestPaths\<close> lists the files of the candidate directory; the clock gives the time of the probe.\<close>

record dispatch_env =
  de_root :: jsstr
  de_paths :: "jsstr \<Rightarrow> string \<Rightarrow> io_error + jsval"
  de_probe :: jsnum

definition dispatch_caught :: "io_error \<Rightarrow> dispatched" where
  "dispatch_caught e = Not_served (case error_code e of Some k \<Rightarrow> k | None \<Rightarrow> ''RUNTIME_INCOMPATIBLE'') None"

definition reply :: "(io_error + generation_receipt) \<times> generation_state \<Rightarrow> dispatched \<times> generation_state" where
  "reply r = (case r of (Inl e, s) \<Rightarrow> (dispatch_caught e, s) | (Inr rc, s) \<Rightarrow> (Served rc, s))"

text \<open>The paths of the candidate, which must be a non-empty array.\<close>

definition with_paths ::
  "dispatch_env \<Rightarrow> jsstr \<Rightarrow> string \<Rightarrow> generation_state \<Rightarrow> (jsval \<Rightarrow> dispatched \<times> generation_state) \<Rightarrow> dispatched \<times> generation_state" where
  "with_paths D cand platform s k =
     (case de_paths D cand platform of
        Inl e \<Rightarrow> (dispatch_caught e, s)
      | Inr paths \<Rightarrow>
          if isArray paths \<and> elements paths \<noteq> [] then k paths
          else (Not_served ''RUNTIME_INCOMPATIBLE'' (Some (js ''no trusted manifest paths for candidate'')), s))"

section \<open>Create\<close>

definition create_request :: "dispatch_env \<Rightarrow> jsval \<Rightarrow> jsval \<Rightarrow> jsval \<Rightarrow> jsstr \<Rightarrow> jsstr \<Rightarrow> jsval \<Rightarrow> jsval" where
  "create_request D message inventory readiness segment cand paths = record_of [(''operation'', fld message ''operation''),
     (''hostId'', fld message ''hostId''), (''workspaceId'', fld message ''workspaceId''), (''sourcePlatform'', fld message ''sourcePlatform''),
     (''workDir'', fld inventory ''workDir''), (''generationPath'', JStr (js ''generations/'' @ segment)), (''candidatePath'', JStr cand),
     (''gitDir'', JStr cand), (''manifestPaths'', paths), (''activeGeneration'', fld message ''workspaceGeneration''),
     (''probedAtMs'', JNum (de_probe D)), (''readiness'', readiness), (''priorGeneration'', JNull), (''priorPointerFingerprint'', JNull),
     (''expectedGraph'', record_of [])]"

definition dispatchCreate ::
  "(jsval \<Rightarrow> jsstr) \<Rightarrow> (bytes \<Rightarrow> jsstr) \<Rightarrow> int \<Rightarrow> bool \<Rightarrow> (nat \<Rightarrow> jsstr) \<Rightarrow> dispatch_env \<Rightarrow> generation_env \<Rightarrow> jsval \<Rightarrow> jsval \<Rightarrow> jsval \<Rightarrow> jsval \<Rightarrow>
     generation_state \<Rightarrow> dispatched \<times> generation_state" where
  "dispatchCreate string_of sha256 maxAgeMs win32 suffix D env message binding inventory readiness s =
     (case authority_guard [''create'', ''clone''] ''operation is not a create/clone operation'' message binding inventory readiness of
        Some (k, reason) \<Rightarrow> (Not_served k (Some reason), s)
      | None \<Rightarrow>
        (case MATERIALIZER_PLATFORM (fld message ''sourcePlatform'') of
           None \<Rightarrow> (Not_served ''CONTAINMENT_UNSUPPORTED'' (Some (unsupported_platform string_of (fld message ''sourcePlatform''))), s)
         | Some platform \<Rightarrow>
            let i = str_of (fld message ''workspaceId''); segment = generationSegment string_of (fld message ''workspaceGeneration'');
                cand = candidate_path (de_root D) i segment in
            with_paths D cand platform s (\<lambda>paths.
              reply (runCreateClone string_of sha256 maxAgeMs env (createGenerationPublisherIo win32 suffix (de_root D) i)
                (create_request D message inventory readiness segment cand paths) s))))"

section \<open>Refresh\<close>

definition refresh_request :: "dispatch_env \<Rightarrow> jsval \<Rightarrow> jsval \<Rightarrow> jsval \<Rightarrow> jsval \<Rightarrow> jsstr \<Rightarrow> jsstr \<Rightarrow> jsval \<Rightarrow> jsval \<Rightarrow> jsval" where
  "refresh_request D message inventory readiness lease segment cand expectedFp paths = record_of [(''operation'', fld message ''operation''),
     (''hostId'', fld message ''hostId''), (''workspaceId'', fld message ''workspaceId''), (''sourcePlatform'', fld message ''sourcePlatform''),
     (''workDir'', fld inventory ''workDir''), (''generationPath'', JStr (js ''generations/'' @ segment)), (''candidatePath'', JStr cand),
     (''gitDir'', JStr cand), (''manifestPaths'', paths), (''leaseCandidate'', lease),
     (''expected'', record_of [(''pointerFingerprint'', expectedFp)]), (''probedAtMs'', JNum (de_probe D)), (''readiness'', readiness),
     (''expectedGraph'', record_of [])]"

definition refreshable :: "jsval option \<Rightarrow> bool" where
  "refreshable cur = (case cur of None \<Rightarrow> False | Some v \<Rightarrow> isGeneration (fld v ''activeGeneration'') \<and> isNonEmptyString (fld v ''pointerFingerprint''))"

definition dispatchRefresh ::
  "(jsval \<Rightarrow> jsstr) \<Rightarrow> (bytes \<Rightarrow> jsstr) \<Rightarrow> int \<Rightarrow> bool \<Rightarrow> (nat \<Rightarrow> jsstr) \<Rightarrow> dispatch_env \<Rightarrow> generation_env \<Rightarrow> jsval \<Rightarrow> jsval \<Rightarrow> jsval \<Rightarrow> jsval \<Rightarrow> jsval \<Rightarrow>
     generation_state \<Rightarrow> dispatched \<times> generation_state" where
  "dispatchRefresh string_of sha256 maxAgeMs win32 suffix D env message binding inventory lease readiness s =
     (case authority_guard [''refresh''] ''operation is not a refresh operation'' message binding inventory readiness of
        Some (k, reason) \<Rightarrow> (Not_served k (Some reason), s)
      | None \<Rightarrow>
        if \<not> (isObject lease \<or> isArray lease)
        then (Not_served ''RUNTIME_INCOMPATIBLE'' (Some (js ''missing trusted fence lease candidate'')), s)
        else case MATERIALIZER_PLATFORM (fld message ''sourcePlatform'') of
           None \<Rightarrow> (Not_served ''CONTAINMENT_UNSUPPORTED'' (Some (unsupported_platform string_of (fld message ''sourcePlatform''))), s)
         | Some platform \<Rightarrow>
            let i = str_of (fld message ''workspaceId''); io = createGenerationPublisherIo win32 suffix (de_root D) i in
            (case gen_fs (readLiveGeneration sha256 io) s of
               (Inl e, s1) \<Rightarrow> (dispatch_caught e, s1)
             | (Inr cur, s1) \<Rightarrow>
                if \<not> refreshable cur
                then (Not_served ''WORKSPACE_GENERATION_STALE'' (Some (js ''no live generation is published to refresh'')), s1)
                else let base = the cur; segment = generationSegment string_of (next_generation (fld base ''activeGeneration''));
                         cand = candidate_path (de_root D) i segment in
                  with_paths D cand platform s1 (\<lambda>paths.
                    reply (runRefresh string_of sha256 maxAgeMs env io
                      (refresh_request D message inventory readiness lease segment cand (fld base ''pointerFingerprint'') paths) s1))))"

section \<open>Reset and delete\<close>

definition RECEIPT_LIFECYCLE_FIELDS :: "string list" where
  "RECEIPT_LIFECYCLE_FIELDS = [''hostId'', ''mappingId'', ''mappingGeneration'', ''mappingVersion'', ''workspaceId'',
     ''workspaceGeneration'', ''sourcePlatform'', ''authorityFingerprint'']"

definition matchesReceiptLifecycleAuthority :: "jsval \<Rightarrow> jsval \<Rightarrow> bool" where
  "matchesReceiptLifecycleAuthority message binding \<longleftrightarrow>
     isSafeInteger (fld binding ''authorityEpoch'') \<and> 1 \<le> int_of (fld binding ''authorityEpoch'') \<and>
     isSafeInteger (fld binding ''fenceGeneration'') \<and> 1 \<le> int_of (fld binding ''fenceGeneration'') \<and>
     list_all (\<lambda>k. js_eq (fld message k) (fld binding k)) RECEIPT_LIFECYCLE_FIELDS"

definition has_exact_keys :: "jsval \<Rightarrow> string list \<Rightarrow> bool" where
  "has_exact_keys v ks \<longleftrightarrow> isObject v \<and> length (own_keys v) = length ks \<and> list_all (hasOwn v) ks"

definition reset_guard :: "jsval \<Rightarrow> jsval \<Rightarrow> jsval \<Rightarrow> jsval \<Rightarrow> jsval \<Rightarrow> jsval \<Rightarrow> (string \<times> jsstr) option" where
  "reset_guard message binding inventory lease context readiness =
     (if \<not> isObject message then unauthorised ''missing lifecycle message''
      else if \<not> str_in (fld message ''operation'') [''reset'', ''delete''] then unauthorised ''operation is not a reset/delete operation''
      else if \<not> isObject binding then unauthorised ''no accepted binding for workspace''
      else if \<not> matchesReceiptLifecycleAuthority message binding
      then unauthorised ''lifecycle authority does not match the accepted receipt binding''
      else case inventory_guard message inventory of
        Some x \<Rightarrow> Some x
      | None \<Rightarrow>
        if \<not> isObject readiness then unauthorised ''missing live readiness dimensions''
        else if \<not> (isObject lease \<or> isArray lease) then unauthorised ''missing trusted fence lease candidate''
        else if \<not> (has_exact_keys context LIFECYCLE_CONTEXT_KEYS \<and>
                    has_exact_keys (fld context ''lifecycleAuthority'') LIFECYCLE_AUTHORITY_KEYS \<and>
                    is_function (fld context ''probeQuiescence'') \<and> is_function (fld context ''prepareTerminal'') \<and>
                    is_function (fld context ''clearTerminalPreparation'') \<and> is_function (fld context ''commitTerminal''))
        then unauthorised ''missing or malformed lifecycle context''
        else None)"

definition reset_dispatch_config :: "string \<Rightarrow> js_error" where
  "reset_dispatch_config reason = CodedError ''CONFIG_INVALID'' (js ''workspace_reset_delete_dispatch: CONFIG_INVALID: '' @ js reason)"

text \<open>\<open>makeBackupIo\<close> gives the reader of a candidate directory.\<close>

definition prepareDirtyBackup ::
  "(jsval \<Rightarrow> jsstr) \<Rightarrow> dispatch_env \<Rightarrow> (jsstr \<Rightarrow> jsstr \<Rightarrow> bytes option) \<Rightarrow> jsval \<Rightarrow> string \<Rightarrow> live_record \<Rightarrow>
     io_error + jsval \<times> (jsstr \<Rightarrow> bytes option)" where
  "prepareDirtyBackup string_of D trees message platform d =
     (let r = lr_record d; g = fld r ''activeGeneration'';
          cand = candidate_path (de_root D) (str_of (fld message ''workspaceId'')) (generationSegment string_of g) in
      if \<not> js_eq (lr_kind d) POINTER_KIND then Inl (Own (reset_dispatch_config ''live slot is not a generation pointer''))
      else if \<not> (isGeneration g \<and> isHex64 (fld r ''rootIdentityFingerprint'') \<and> isHex64 (fld r ''storageIdentityFingerprint'') \<and>
                  isHex64 (fld r ''gitGenerationFingerprint''))
      then Inl (Own (reset_dispatch_config ''live record is missing derivable dirty-backup identity''))
      else case de_paths D cand platform of
        Inl e \<Rightarrow> Inl e
      | Inr paths \<Rightarrow>
          if \<not> (isArray paths \<and> elements paths \<noteq> []) then Inl (Own (reset_dispatch_config ''no trusted dirty-backup paths for the live generation''))
          else Inr (record_of [(''hostId'', fld message ''hostId''), (''workspaceId'', fld message ''workspaceId''), (''workspaceGeneration'', g),
             (''sourcePlatform'', fld message ''sourcePlatform''), (''rootIdentityFingerprint'', fld r ''rootIdentityFingerprint''),
             (''storageIdentityFingerprint'', fld r ''storageIdentityFingerprint''),
             (''gitGenerationFingerprint'', fld r ''gitGenerationFingerprint''), (''relativePaths'', paths)], trees cand))"

definition reset_request_of :: "jsval \<Rightarrow> jsval \<Rightarrow> jsval \<Rightarrow> jsval \<Rightarrow> jsval \<Rightarrow> jsval" where
  "reset_request_of message binding inventory lease context = record_of [(''operation'', fld message ''operation''),
     (''hostId'', fld message ''hostId''), (''workspaceId'', fld message ''workspaceId''), (''sourcePlatform'', fld message ''sourcePlatform''),
     (''workDir'', fld inventory ''workDir''), (''expectedWorkspaceGeneration'', fld binding ''workspaceGeneration''),
     (''leaseCandidate'', lease), (''lifecycleContext'', context), (''prepareDirtyBackup'', JOther)]"

datatype reset_outcome =
    Reset_committed receipt
  | Reset_manual receipt
  | Reset_refused string "jsstr option" string

definition reset_reply :: "(io_error + receipt) \<times> disposal_state \<Rightarrow> reset_outcome \<times> disposal_state" where
  "reset_reply r = (case r of
     (Inl e, s) \<Rightarrow> (Reset_refused (case error_code e of Some k \<Rightarrow> k | None \<Rightarrow> ''RUNTIME_INCOMPATIBLE'') None ''indeterminate'', s)
   | (Inr rc, s) \<Rightarrow> (case rc_disposition rc of Disposal_committed _ \<Rightarrow> Reset_committed rc | Disposal_manual _ _ _ \<Rightarrow> Reset_manual rc, s))"

definition dispatchResetDelete ::
  "(jsval \<Rightarrow> jsstr) \<Rightarrow> (bytes \<Rightarrow> jsstr) \<Rightarrow> bool \<Rightarrow> (nat \<Rightarrow> jsstr) \<Rightarrow> dispatch_env \<Rightarrow> (jsstr \<Rightarrow> jsstr \<Rightarrow> bytes option) \<Rightarrow> disposal_env \<Rightarrow>
     jsval \<Rightarrow> jsval \<Rightarrow> jsval \<Rightarrow> jsval \<Rightarrow> jsval \<Rightarrow> jsval \<Rightarrow> disposal_state \<Rightarrow> reset_outcome \<times> disposal_state" where
  "dispatchResetDelete string_of sha256 win32 suffix D trees env message binding inventory lease context readiness s =
     (case reset_guard message binding inventory lease context readiness of
        Some (k, reason) \<Rightarrow> (Reset_refused k (Some reason) ''not_required'', s)
      | None \<Rightarrow>
        (case MATERIALIZER_PLATFORM (fld message ''sourcePlatform'') of
           None \<Rightarrow> (Reset_refused ''CONTAINMENT_UNSUPPORTED'' (Some (unsupported_platform string_of (fld message ''sourcePlatform''))) ''not_required'', s)
         | Some platform \<Rightarrow>
            reset_reply (runResetDelete sha256 win32 suffix (de_root D)
              (env\<lparr>env_backup := prepareDirtyBackup string_of D trees message platform\<rparr>)
              (reset_request_of message binding inventory lease context) s)))"

section \<open>Create and refresh cannot be served\<close>

text \<open>The dispatchers give the candidate directory as the git directory too; the materialisation refuses overlapping paths.\<close>

lemma same_directory_refused:
  assumes "fld v ''candidatePath'' = fld v ''gitDir''"
  shows "\<exists>e. materialize P clone v = Inl (Own e)"
proof -
  have "pathOverlaps P (str_of (fld v ''candidatePath'')) (str_of (fld v ''gitDir''))" using assms by (simp add: pathOverlaps_def)
  then have "\<not> is_ok (validateRequest P v)" by (simp add: validateRequest_def is_ok_iff seq_eq_Inr)
  then show ?thesis by (cases "validateRequest P v") (auto simp: materialize_def)
qed

lemma create_needs_materialization:
  assumes "runCreateClone string_of sha256 maxAgeMs env io request s = (r, s')" "ge_materialize env (create_materialization request) = Inl e"
  shows "\<not> is_ok r" "s' = s"
proof -
  have "s' = s \<and> \<not> is_ok r"
    using assms by (cases "create_assertRequest request"; cases "ge_root env") (auto simp: runCreateClone_def)
  then show "\<not> is_ok r" "s' = s" by simp_all
qed

lemma refresh_needs_materialization:
  assumes "runRefresh string_of sha256 maxAgeMs env io request s = (r, s')" "\<And>b. \<exists>e. ge_materialize env (refresh_materialization request b) = Inl e"
  shows "\<not> is_ok r"
proof
  assume "is_ok r"
  then obtain rc where "r = Inr rc" by (auto simp: is_ok_iff)
  with assms(1) obtain h R s1 where "refresh_body string_of sha256 maxAgeMs env io request h (lease_fence h R) (s\<lparr>gs_registry := R\<rparr>) = (Inr rc, s1)"
    by (auto simp: runRefresh_def then_do_Inr split: prod.splits sum.splits)
  then obtain b where "ge_materialize env (refresh_materialization request b) = Inr ()"
    by (auto simp: refresh_body_def then_do_Inr)
  with assms(2) [of b] show False by auto
qed

lemma refresh_unchanged:
  assumes "honest_faults (gs_fs s)"
    and "runRefresh string_of sha256 maxAgeMs env (createAtomicPointerIo win32 suffix loc) request s = (r, s')"
    and "\<And>b. \<exists>e. ge_materialize env (refresh_materialization request b) = Inl e"
  shows "slot_of loc s' = slot_of loc s"
proof (rule ccontr)
  assume "slot_of loc s' \<noteq> slot_of loc s"
  from refresh_effect [OF assms(1,2) this] obtain b where "ge_materialize env (refresh_materialization request b) = Inr ()" by blast
  with assms(3) [of b] show False by auto
qed

lemma reply_refused: "\<not> is_ok r \<Longrightarrow> \<exists>k reason. reply (r, s) = (Not_served k reason, s)"
  by (cases r) (auto simp: reply_def dispatch_caught_def)

lemma create_unserved:
  assumes m: "ge_materialize env = materialize P clone"
    and run: "dispatchCreate string_of sha256 maxAgeMs win32 suffix D env message binding inventory readiness s = (out, s')"
  shows "(\<exists>k reason. out = Not_served k reason) \<and> s' = s"
proof -
  have c: "\<exists>k reason. reply (runCreateClone string_of sha256 maxAgeMs env io (create_request D message inventory readiness segment cand paths) s) =
      (Not_served k reason, s)" for io segment cand paths
  proof -
    let ?q = "create_request D message inventory readiness segment cand paths"
    obtain r s1 where 1: "runCreateClone string_of sha256 maxAgeMs env io ?q s = (r, s1)" by force
    have "fld (create_materialization ?q) ''candidatePath'' = fld (create_materialization ?q) ''gitDir''"
      by (simp add: create_materialization_def create_request_def get_own_JObj)
    from same_directory_refused [OF this] obtain e where "ge_materialize env (create_materialization ?q) = Inl (Own e)" using m by metis
    from create_needs_materialization [OF 1 this] reply_refused show ?thesis by (simp add: 1)
  qed
  have "\<exists>k reason. with_paths D cand platform s (\<lambda>paths. reply (runCreateClone string_of sha256 maxAgeMs env io
      (create_request D message inventory readiness segment cand paths) s)) = (Not_served k reason, s)" for io segment cand platform
    using c by (auto simp: with_paths_def dispatch_caught_def split: sum.splits)
  note w = this
  let ?g = "authority_guard [''create'', ''clone''] ''operation is not a create/clone operation'' message binding inventory readiness"
  show ?thesis
  proof (cases "?g = None \<and> MATERIALIZER_PLATFORM (fld message ''sourcePlatform'') \<noteq> None")
    case True
    then obtain cand segment platform io where "with_paths D cand platform s (\<lambda>paths. reply (runCreateClone string_of sha256 maxAgeMs env io
      (create_request D message inventory readiness segment cand paths) s)) = (out, s')" using run by (auto simp: dispatchCreate_def Let_def)
    with w [of cand platform io segment] show ?thesis by auto
  next
    case False
    with run show ?thesis by (cases ?g) (auto simp: dispatchCreate_def)
  qed
qed

lemma refresh_unserved:
  assumes m: "ge_materialize env = materialize P clone" and h: "honest_faults (gs_fs s)"
    and run: "dispatchRefresh string_of sha256 maxAgeMs win32 suffix D env message binding inventory lease readiness s = (out, s')"
  shows "(\<exists>k reason. out = Not_served k reason) \<and>
    slot_of (live_location (de_root D) (str_of (fld message ''workspaceId''))) s' =
    slot_of (live_location (de_root D) (str_of (fld message ''workspaceId''))) s"
proof -
  let ?loc = "live_location (de_root D) (str_of (fld message ''workspaceId''))"
  let ?io = "createGenerationPublisherIo win32 suffix (de_root D) (str_of (fld message ''workspaceId''))"
  have io: "?io = createAtomicPointerIo win32 suffix ?loc" by (simp add: createGenerationPublisherIo_def)
  obtain x s1 where 1: "gen_fs (readLiveGeneration sha256 ?io) s = (x, s1)" by force
  note l = read_live_generation [OF h 1 [unfolded io]]
  have c: "\<exists>k reason s2. reply (runRefresh string_of sha256 maxAgeMs env ?io
      (refresh_request D message inventory readiness lease segment cand fp paths) s1) = (Not_served k reason, s2) \<and> slot_of ?loc s2 = slot_of ?loc s"
    for segment cand fp paths
  proof -
    let ?q = "refresh_request D message inventory readiness lease segment cand fp paths"
    obtain r s2 where 2: "runRefresh string_of sha256 maxAgeMs env ?io ?q s1 = (r, s2)" by force
    have "fld (refresh_materialization ?q b) ''candidatePath'' = fld (refresh_materialization ?q b) ''gitDir''" for b
      by (simp add: refresh_materialization_def refresh_request_def get_own_JObj)
    from same_directory_refused [OF this] m have e: "\<exists>e. ge_materialize env (refresh_materialization ?q b) = Inl e" for b by metis
    have "slot_of ?loc s2 = slot_of ?loc s1" using refresh_unchanged [OF l(2) 2 [unfolded io] e] .
    moreover obtain k reason where "reply (r, s2) = (Not_served k reason, s2)"
      using reply_refused [OF refresh_needs_materialization [OF 2 e]] by blast
    ultimately show ?thesis using l(1) by (simp add: 2)
  qed
  have w: "\<exists>k reason s2. with_paths D cand platform s1 (\<lambda>paths. reply (runRefresh string_of sha256 maxAgeMs env ?io
      (refresh_request D message inventory readiness lease segment cand fp paths) s1)) = (Not_served k reason, s2) \<and> slot_of ?loc s2 = slot_of ?loc s"
    for segment cand fp platform
    using c l(1) by (auto simp: with_paths_def dispatch_caught_def split: sum.splits)
  have "(\<exists>k reason. out = Not_served k reason) \<and> (s' = s \<or> s' = s1)" if "\<not> refreshable (case x of Inr cur \<Rightarrow> cur | _ \<Rightarrow> None)"
    using run that by (cases x) (auto simp: dispatchRefresh_def 1 dispatch_caught_def Let_def split: option.splits if_splits)
  moreover have "(\<exists>k reason. out = Not_served k reason) \<and> slot_of ?loc s' = slot_of ?loc s" if x: "x = Inr cur" "refreshable cur" for cur
  proof -
    have "((\<exists>k reason. out = Not_served k reason) \<and> s' = s) \<or>
      (\<exists>cand platform segment fp. with_paths D cand platform s1 (\<lambda>paths. reply (runRefresh string_of sha256 maxAgeMs env ?io
        (refresh_request D message inventory readiness lease segment cand fp paths) s1)) = (out, s'))"
      using run x by (auto simp: dispatchRefresh_def 1 Let_def split: option.splits if_splits)
    then show ?thesis
    proof
      assume "\<exists>cand platform segment fp. with_paths D cand platform s1 (\<lambda>paths. reply (runRefresh string_of sha256 maxAgeMs env ?io
        (refresh_request D message inventory readiness lease segment cand fp paths) s1)) = (out, s')"
      then obtain cand platform segment fp where "with_paths D cand platform s1 (\<lambda>paths. reply (runRefresh string_of sha256 maxAgeMs env ?io
        (refresh_request D message inventory readiness lease segment cand fp paths) s1)) = (out, s')" by blast
      with w [of cand platform segment fp] show ?thesis by auto
    qed simp
  qed
  ultimately show ?thesis using l(1) by (cases x) (auto simp: refreshable_def split: sum.splits)
qed

text \<open>C40. With the git materialisation wired in, no create, clone or refresh is ever served: whatever the message, the
  bindings, the candidate directory and git, the dispatcher refuses and the live slot stays as it is, because it
  passes one directory as candidate and as git directory, which the materialisation requires to be disjoint.\<close>

theorem native_generation_never_served:
  assumes "ge_materialize env = materialize P clone" and "honest_faults (gs_fs s)"
    and "loc = live_location (de_root D) (str_of (fld message ''workspaceId''))"
  shows "(\<exists>k reason. fst (dispatchCreate string_of sha256 maxAgeMs win32 suffix D env message binding inventory readiness s) = Not_served k reason) \<and>
    slot_of loc (snd (dispatchCreate string_of sha256 maxAgeMs win32 suffix D env message binding inventory readiness s)) = slot_of loc s \<and>
    (\<exists>k reason. fst (dispatchRefresh string_of sha256 maxAgeMs win32 suffix D env message binding inventory lease readiness s) = Not_served k reason) \<and>
    slot_of loc (snd (dispatchRefresh string_of sha256 maxAgeMs win32 suffix D env message binding inventory lease readiness s)) = slot_of loc s"
proof -
  obtain out s1 where 1: "dispatchCreate string_of sha256 maxAgeMs win32 suffix D env message binding inventory readiness s = (out, s1)" by force
  obtain out' s2 where 2: "dispatchRefresh string_of sha256 maxAgeMs win32 suffix D env message binding inventory lease readiness s = (out', s2)" by force
  from create_unserved [OF assms(1) 1] refresh_unserved [OF assms(1,2) 2] assms(3) show ?thesis by (auto simp: 1 2)
qed


section \<open>What the outcome of a reset or delete says\<close>

lemma slot_committed:
  assumes h: "honest_faults (ds_fs s)" and t: "distinct_keys t" and apart: "outside suffix c p"
    and run: "dispose_slot sha256 env (createAtomicPointerIo win32 suffix p) (clear_cleanup win32 c) (make_receipt request t m fence) mc t s = (Inr rc, s')"
    and rc: "rc_disposition rc = Disposal_committed pub"
  shows "map_of (files (ds_fs s')) p = Some (utf8 (render t)) \<and> ds_barred s' \<and> rc_tombstone rc = t \<and>
    rc_dirtyBackupFingerprint rc = fld m ''manifestFingerprint''"
proof -
  obtain pr w1 where 1: "publishTombstone sha256 (createAtomicPointerIo win32 suffix p) t (ds_fs s) = (pr, w1)" by force
  note st = tombstone_storage [OF h t 1]
  let ?s2 = "s\<lparr>ds_fs := w1, ds_barred := True\<rparr>"
  obtain q s3 where 3: "in_fs (clear_cleanup win32 c) ?s2 = (q, s3)" by force
  obtain q' s4 where 4: "in_fs (clear_cleanup win32 c) (s\<lparr>ds_fs := w1\<rparr>) = (q', s4)" by force
  have man: "rc_disposition rc \<noteq> Disposal_committed pub" if "commitManualCleanup env (make_receipt request t m fence) mc e step commit s1 = (Inr rc, s')" for e step commit s1
    using that by (auto simp: commitManualCleanup_def make_receipt_def then_do_def Let_def split: if_splits sum.splits prod.splits)
  have "is_ok pr \<and> s' = s3 \<and> rc = make_receipt request t m fence (Disposal_committed (projr pr))"
    using run rc 1 3 4 man
    by (cases pr; cases q; cases q'; cases "env_commit env")
      (auto simp: dispose_slot_def in_fs_def [of "publishTombstone _ _ _"] commitTerminal_def split: option.splits)
  with clear_in_fs [OF 3 _ apart] st(1,3) show ?thesis by (auto simp: make_receipt_def)
qed

lemma in_fs_barred: "in_fs f s = (q, s1) \<Longrightarrow> ds_barred s1 = ds_barred s"
  by (auto simp: in_fs_def split: prod.splits)

text \<open>Every receipt is returned with the workspace barred.\<close>

lemma slot_receipt_barred:
  assumes "dispose_slot sha256 env io clear mk mc t s = (Inr rc, s')"
  shows "ds_barred s'"
proof -
  obtain pr s1 where 1: "in_fs (publishTombstone sha256 io t) s = (pr, s1)" by force
  obtain q2 s2 where 2: "in_fs clear s1 = (q2, s2)" by force
  obtain q3 s3 where 3: "in_fs clear (s1\<lparr>ds_barred := True\<rparr>) = (q3, s3)" by force
  have b: "ds_barred s3" using in_fs_barred [OF 3] by simp
  have m: "ds_barred s'" if "commitManualCleanup env mk mc e step commit v = (Inr rc, s')" "commit \<or> ds_barred v" for e step commit v
    using commit_manual_effect(2) [OF that(1)] that(2) by simp
  show ?thesis
    using assms 1 2 3 b m
    by (cases pr; cases q2; cases q3; cases "env_commit env") (auto simp: dispose_slot_def commitTerminal_def split: option.splits)
qed

lemma publish_cases:
  assumes "dispose_publish sha256 env io prepare clear request mc k fence d m s = (Inr rc, s')"
  obtains t s1 e step v where "buildTombstone sha256 (tombstone_input request d m) = Inr t" "in_fs (prepare mc) s = (Published, s1)"
      "dispose_slot sha256 env io clear (make_receipt request t m fence) mc t (suspend env 5 s1) = (Inr rc, s')"
  | t e step v where "commitManualCleanup env (make_receipt request t m fence) mc e step True v = (Inr rc, s')"
proof -
  obtain t where t: "buildTombstone sha256 (tombstone_input request d m) = Inr t"
    using assms by (cases "buildTombstone sha256 (tombstone_input request d m)") (auto simp: dispose_publish_def)
  obtain q s1 where 1: "in_fs (prepare mc) s = (q, s1)" by force
  obtain q2 s2 where 2: "in_fs clear (suspend env 5 s1) = (q2, s2)" by force
  show thesis
    using assms t 1 2 that(1) [OF t] that(2)
    by (cases q; cases q2) (auto simp: dispose_publish_def Let_def split: sum.splits bool.splits if_splits)
qed

lemma manual_not_committed:
  assumes "commitManualCleanup env (make_receipt request t m fence) mc e step commit v = (Inr rc, s')"
  shows "rc_disposition rc = Disposal_manual mc (error_code e) step"
  using assms by (auto simp: commitManualCleanup_def make_receipt_def then_do_def Let_def split: if_splits sum.splits prod.splits)

lemma receipt_run:
  assumes h: "honest_faults (ds_fs s)" and run: "runResetDelete sha256 win32 suffix rt env request s = (Inr rc, s')"
    and p: "p = live_location rt (str_of (fld request ''workspaceId''))"
  shows "ds_barred s'"
    "rc_disposition rc = Disposal_committed pub \<Longrightarrow>
      \<exists>d m. guarded sha256 env request (map_of (files (ds_fs s)) p) d m \<and> is_ok (validateTombstone sha256 (rc_tombstone rc)) \<and>
        buildTombstone sha256 (tombstone_input request d m) = Inr (rc_tombstone rc) \<and>
        map_of (files (ds_fs s')) p = Some (utf8 (render (rc_tombstone rc)))"
proof -
  let ?io = "createAtomicPointerIo win32 suffix p" and ?c = "cleanup_location rt (str_of (fld request ''workspaceId''))"
  have io: "createGenerationPublisherIo win32 suffix rt (str_of (fld request ''workspaceId'')) = ?io"
    by (simp add: createGenerationPublisherIo_def p)
  have apart: "outside suffix ?c p" by (simp add: p slot_and_cleanup_apart)
  obtain mc k R d m s1 s2 where g: "dispose_guards sha256 env ?io request k (s\<lparr>ds_registry := R\<rparr>) = (Inr (d, m), s1)"
    and q: "dispose_publish sha256 env ?io (publish_cleanup sha256 win32 suffix ?c) (clear_cleanup win32 ?c) request mc k (lease_fence k R) d m s1 = (Inr rc, s2)"
    and s': "ds_fs s' = ds_fs s2" "ds_barred s' = ds_barred s2"
  proof -
    obtain x R where f: "createExclusiveFence (fld request ''leaseCandidate'') (env_now env 0) (ds_registry s) = (x, R)" by force
    obtain mc where mc: "assertRequest request = Inr ()" "buildManualCleanup sha256 (lifecycleAuthority request) = Inr mc"
      using run by (cases "assertRequest request"; cases "buildManualCleanup sha256 (lifecycleAuthority request)") (auto simp: runResetDelete_def Let_def)
    obtain k where k: "x = Inr k" using run f mc by (cases x) (auto simp: runResetDelete_def Let_def)
    obtain r2 s2 where 2: "then_do (dispose_guards sha256 env ?io request k (s\<lparr>ds_registry := R\<rparr>)) (\<lambda>(d, m).
        dispose_publish sha256 env ?io (publish_cleanup sha256 win32 suffix ?c) (clear_cleanup win32 ?c) request mc k (lease_fence k R) d m) = (r2, s2)" by force
    have "r2 = Inr rc" "ds_fs s' = ds_fs s2" "ds_barred s' = ds_barred s2"
      using run [unfolded runResetDelete_def Let_def io] f mc k 2 by (auto simp: suspend_def)
    with 2 that show thesis by (auto simp: then_do_Inr)
  qed
  have un: "untouched (s\<lparr>ds_registry := R\<rparr>) s1" using guards_untouched [of "s\<lparr>ds_registry := R\<rparr>" sha256 env win32 suffix p request k] h g by simp
  have gd: "guarded sha256 env request (map_of (files (ds_fs s)) p) d m" using guards_passed [OF _ g] h by simp
  show "ds_barred s'"
    by (rule publish_cases [OF q]) (use s'(2) slot_receipt_barred commit_manual_effect(2) in auto)
  show "\<exists>d m. guarded sha256 env request (map_of (files (ds_fs s)) p) d m \<and> is_ok (validateTombstone sha256 (rc_tombstone rc)) \<and>
        buildTombstone sha256 (tombstone_input request d m) = Inr (rc_tombstone rc) \<and>
        map_of (files (ds_fs s')) p = Some (utf8 (render (rc_tombstone rc)))"
    if rc: "rc_disposition rc = Disposal_committed pub"
  proof (rule publish_cases [OF q])
    fix t v assume t: "buildTombstone sha256 (tombstone_input request d m) = Inr t"
      and v: "in_fs (publish_cleanup sha256 win32 suffix ?c mc) s1 = (Published, v)"
      and sl: "dispose_slot sha256 env ?io (clear_cleanup win32 ?c) (make_receipt request t m (lease_fence k R)) mc t (suspend env 5 v) = (Inr rc, s2)"
    obtain w where w: "publish_cleanup sha256 win32 suffix ?c mc (ds_fs s1) = (Published, w)" "v = s1\<lparr>ds_fs := w\<rparr>"
      using v by (auto simp: in_fs_def split: prod.splits)
    have "keeps suffix ?c (map_of (files (ds_fs s1))) (ds_fs s1)" using un by (simp add: keeps_def untouched_def)
    from keeps_honest [OF publish_cleanup_keeps [OF w(1) this, THEN conjunct1]] have "honest_faults (ds_fs (suspend env 5 v))"
      using w(2) by (simp add: suspend_def)
    from slot_committed [OF this tombstone_built(2) [OF t] apart sl rc] tombstone_built(1) [OF t] gd t s'(1) show ?thesis by auto
  next
    fix t e step v assume "commitManualCleanup env (make_receipt request t m (lease_fence k R)) mc e step True v = (Inr rc, s2)"
    from manual_not_committed [OF this] rc show ?thesis by simp
  qed
qed

text \<open>C39. The outcome of a reset or delete is truthful: a refusal that requires no cleanup has changed nothing at all; a
  receipt, committed or manual, is returned only with the workspace barred; and a committed one means that the
  message matched the accepted receipt binding, that the slot held the pointer of the binding's generation, and
  that it now holds the tombstone of the receipt.\<close>

theorem reset_outcome_truthful:
  assumes "honest_faults (ds_fs s)" and "p = live_location (de_root D) (str_of (fld message ''workspaceId''))"
    and "dispatchResetDelete string_of sha256 win32 suffix D trees env message binding inventory lease context readiness s = (out, s')"
  shows "case out of
      Reset_refused k reason cleanup \<Rightarrow> cleanup = ''not_required'' \<longrightarrow> s' = s
    | Reset_manual rc \<Rightarrow> ds_barred s'
    | Reset_committed rc \<Rightarrow> ds_barred s' \<and> matchesReceiptLifecycleAuthority message binding \<and>
        (\<exists>d. slot_holds sha256 (map_of (files (ds_fs s)) p) (Some d) \<and> lr_kind d = POINTER_KIND \<and>
          fld (lr_record d) ''activeGeneration'' = fld binding ''workspaceGeneration'' \<and>
          fld (rc_tombstone rc) ''operation'' = fld message ''operation'') \<and>
        is_ok (validateTombstone sha256 (rc_tombstone rc)) \<and>
        map_of (files (ds_fs s')) p = Some (utf8 (render (rc_tombstone rc)))"
proof (cases "reset_guard message binding inventory lease context readiness = None \<and> MATERIALIZER_PLATFORM (fld message ''sourcePlatform'') \<noteq> None")
  case False
  with assms(3) show ?thesis
    by (cases "reset_guard message binding inventory lease context readiness") (auto simp: dispatchResetDelete_def)
next
  case True
  then obtain pf where pf: "MATERIALIZER_PLATFORM (fld message ''sourcePlatform'') = Some pf" by blast
  let ?q = "reset_request_of message binding inventory lease context"
  let ?env = "env\<lparr>env_backup := prepareDirtyBackup string_of D trees message pf\<rparr>"
  have f: "fld ?q ''workspaceId'' = fld message ''workspaceId''" "fld ?q ''expectedWorkspaceGeneration'' = fld binding ''workspaceGeneration''"
    "fld ?q ''operation'' = fld message ''operation''"
    by (simp_all add: reset_request_of_def get_own_JObj)
  have m: "matchesReceiptLifecycleAuthority message binding"
    using True by (auto simp: reset_guard_def unauthorised_def split: if_splits)
  obtain r s1 where 1: "runResetDelete sha256 win32 suffix (de_root D) ?env ?q s = (r, s1)" by force
  have out: "(out, s') = reset_reply (r, s1)" using assms(3) True pf 1 by (simp add: dispatchResetDelete_def)
  show ?thesis
  proof (cases r)
    case (Inl e)
    then show ?thesis using out by (auto simp: reset_reply_def)
  next
    case (Inr rc)
    note t = receipt_run [OF assms(1) 1 [unfolded Inr] assms(2) [folded f(1)]]
    show ?thesis
    proof (cases "rc_disposition rc")
      case (Disposal_manual mc k step)
      then show ?thesis using out Inr t(1) by (auto simp: reset_reply_def)
    next
      case (Disposal_committed pub)
      from t(2) [OF this] obtain d x where d: "guarded sha256 ?env ?q (map_of (files (ds_fs s)) p) d x"
        "is_ok (validateTombstone sha256 (rc_tombstone rc))" "buildTombstone sha256 (tombstone_input ?q d x) = Inr (rc_tombstone rc)"
        "map_of (files (ds_fs s1)) p = Some (utf8 (render (rc_tombstone rc)))" by blast
      have a: "slot_holds sha256 (map_of (files (ds_fs s)) p) (Some d)" "accept_live ?q (Some d) = Inr d" using d(1) by (auto simp: guarded_def)
      have "lr_kind d = POINTER_KIND" "fld (lr_record d) ''activeGeneration'' = fld binding ''workspaceGeneration''"
        using a(2) f(2) by (auto simp: accept_live_def dest!: js_eq_imp_eq)
      moreover have "fld (rc_tombstone rc) ''operation'' = fld message ''operation''"
        using tombstone_built(4) [OF d(3)] f(3) by (simp add: tombstone_input_def get_own_JObj)
      ultimately show ?thesis using out Inr Disposal_committed t(1) m a(1) d(2,4) by (auto simp: reset_reply_def)
    qed
  qed
qed

end
