(* ===== verification/Lifecycle_Journal.thy ===== *)
theory Lifecycle_Journal
  imports Lifecycle_Records
begin

text \<open>
  The lifecycle journal of \<^verbatim>\<open>daemon/src/workspace-lifecycle-journal.js\<close>: transactions and their checkpoints
  by transaction id, the compare-and-set head with the heads it replaced, and the record of a manual
  cleanup.  Every operation returns its result and the journal; an injected fault fires once.
\<close>

section \<open>State and operations\<close>

record journal_entry =
  j_transaction :: jsval
  j_checkpoint :: "jsval option"

record journal =
  j_failures :: "string list"
  j_records :: "(jsval \<times> journal_entry) list"
  j_head :: "jsval option"
  j_heads :: "(jsval \<times> jsval) list"
  j_manualCleanup :: "jsval option"

type_synonym 'a journal_op = "journal \<Rightarrow> (js_error + 'a) \<times> journal"

definition faultStages :: "string list" where
  "faultStages = [''create'', ''flush'', ''replace'', ''head-cas'']"

definition journal_fault :: "string \<Rightarrow> js_error" where
  "journal_fault stage = CodedError ''WORKSPACE_LIFECYCLE_JOURNAL_FAULT'' (js ''WORKSPACE_LIFECYCLE_JOURNAL_FAULT: '' @ js stage)"

definition journal_conflict :: js_error where
  "journal_conflict = CodedError ''WORKSPACE_LIFECYCLE_JOURNAL_CONFLICT'' (js ''WORKSPACE_LIFECYCLE_JOURNAL_CONFLICT'')"

definition new_journal :: "string list \<Rightarrow> js_error + journal" where
  "new_journal failures =
     (if list_all (\<lambda>s. s \<in> set faultStages) failures
      then Inr \<lparr>j_failures = remdups failures, j_records = [], j_head = None, j_heads = [], j_manualCleanup = None\<rparr>
      else Inl (TypeError (js ''WORKSPACE_LIFECYCLE_JOURNAL_INVALID_FAULT'')))"

definition boundary :: "string \<Rightarrow> 'a journal_op \<Rightarrow> 'a journal_op" where
  "boundary stage f J =
     (if stage \<in> set (j_failures J) then (Inl (journal_fault stage), J\<lparr>j_failures := filter (\<lambda>s. s \<noteq> stage) (j_failures J)\<rparr>)
      else f J)"

definition create_transaction :: "(bytes \<Rightarrow> jsstr) \<Rightarrow> jsval \<Rightarrow> jsval journal_op" where
  "create_transaction sha256 tx = boundary ''create'' (\<lambda>J.
     case validateWorkspaceLifecycleTransaction sha256 tx of
       Inl e \<Rightarrow> (Inl e, J)
     | Inr _ \<Rightarrow>
        (if mhas (fld tx ''txId'') (j_records J) then (Inl journal_conflict, J)
         else (Inr tx, J\<lparr>j_records := mput (fld tx ''txId'') \<lparr>j_transaction = tx, j_checkpoint = None\<rparr> (j_records J)\<rparr>)))"

definition put_checkpoint :: "jsval \<Rightarrow> journal_entry \<Rightarrow> journal \<Rightarrow> journal" where
  "put_checkpoint c e J = J\<lparr>j_records := mput (fld c ''txId'') (e\<lparr>j_checkpoint := Some c\<rparr>) (j_records J)\<rparr>"

definition flush_checkpoint :: "(bytes \<Rightarrow> jsstr) \<Rightarrow> jsval \<Rightarrow> jsval journal_op" where
  "flush_checkpoint sha256 c = boundary ''flush'' (\<lambda>J.
     case map_of (j_records J) (fld c ''txId'') of
       None \<Rightarrow> (Inl journal_conflict, J)
     | Some e \<Rightarrow>
        (if j_checkpoint e \<noteq> None then (Inl journal_conflict, J)
         else (case validateWorkspaceLifecycleCheckpoint sha256 c (j_transaction e) of
                 Inl err \<Rightarrow> (Inl err, J)
               | Inr _ \<Rightarrow>
                  (if \<not> js_eq (fld c ''phase'') (JLit ''prepared'') then (Inl journal_conflict, J)
                   else (Inr c, put_checkpoint c e J)))))"

definition transitions :: "(string \<times> string) list" where
  "transitions = [(''prepared'', ''applied''), (''applied'', ''committed''), (''prepared'', ''manual_cleanup''),
     (''applied'', ''manual_cleanup''), (''committed'', ''manual_cleanup'')]"

definition transition_allowed :: "jsval \<Rightarrow> jsval \<Rightarrow> bool" where
  "transition_allowed p q \<longleftrightarrow> list_ex (\<lambda>(a, b). p = JLit a \<and> q = JLit b) transitions"

definition replace_checkpoint :: "(bytes \<Rightarrow> jsstr) \<Rightarrow> jsval \<Rightarrow> jsval \<Rightarrow> jsval journal_op" where
  "replace_checkpoint sha256 c expected = boundary ''replace'' (\<lambda>J.
     case map_of (j_records J) (fld c ''txId'') of
       None \<Rightarrow> (Inl journal_conflict, J)
     | Some e \<Rightarrow>
        (case j_checkpoint e of
           None \<Rightarrow> (Inl journal_conflict, J)
         | Some old \<Rightarrow>
            (if \<not> js_eq (fld old ''checkpointFingerprint'') expected then (Inl journal_conflict, J)
             else (case validateWorkspaceLifecycleCheckpoint sha256 c (j_transaction e) of
                     Inl err \<Rightarrow> (Inl err, J)
                   | Inr _ \<Rightarrow>
                      (if \<not> transition_allowed (fld old ''phase'') (fld c ''phase'') then (Inl journal_conflict, J)
                       else (Inr c, put_checkpoint c e J))))))"

definition head_field :: "journal \<Rightarrow> string \<Rightarrow> jsval \<Rightarrow> jsval" where
  "head_field J k d = (case j_head J of None \<Rightarrow> d | Some h \<Rightarrow> if is_nullish (fld h k) then d else fld h k)"

definition find_committed :: "jsval \<Rightarrow> journal \<Rightarrow> journal_entry option" where
  "find_committed h J = find (\<lambda>e. js_eq (case j_checkpoint e of None \<Rightarrow> JUndefined | Some c \<Rightarrow> fld c ''checkpointFingerprint'')
     (fld h ''currentRecordFingerprint'')) (map snd (j_records J))"

definition compareAndSetHead :: "(bytes \<Rightarrow> jsstr) \<Rightarrow> jsval \<Rightarrow> jsval \<Rightarrow> jsval \<Rightarrow> jsval journal_op" where
  "compareAndSetHead sha256 h expectedRevision expectedHeadFingerprint = boundary ''head-cas'' (\<lambda>J.
     case validateWorkspaceLifecycleHead sha256 h of
       Inl e \<Rightarrow> (Inl e, J)
     | Inr _ \<Rightarrow>
        (case find_committed h J of
           None \<Rightarrow> (Inl journal_conflict, J)
         | Some e \<Rightarrow>
            (if \<not> js_eq (fld (the (j_checkpoint e)) ''phase'') (JLit ''committed'') then (Inl journal_conflict, J)
             else if \<not> js_eq (fld (j_transaction e) ''expectedHeadRevision'') expectedRevision \<or>
                     \<not> js_eq (fld (j_transaction e) ''expectedHeadFingerprint'') expectedHeadFingerprint
             then (Inl journal_conflict, J)
             else if (case j_manualCleanup J of None \<Rightarrow> False | Some v \<Rightarrow> truthy v) \<or>
                     \<not> js_eq (head_field J ''revision'' (JInt 0)) expectedRevision \<or>
                     \<not> js_eq (head_field J ''headFingerprint'' JNull) expectedHeadFingerprint
             then (Inl journal_conflict, J)
             else if int_of (fld h ''revision'') \<noteq> int_of expectedRevision + 1 then (Inl journal_conflict, J)
             else (Inr h, J\<lparr>j_heads := (case j_head J of None \<Rightarrow> j_heads J | Some old \<Rightarrow> mput (fld old ''headFingerprint'') old (j_heads J)),
                            j_head := Some h\<rparr>))))"

definition setManualCleanup :: "(bytes \<Rightarrow> jsstr) \<Rightarrow> jsval \<Rightarrow> jsval journal_op" where
  "setManualCleanup sha256 mc J =
     (case validateManualCleanup sha256 mc of
        Inl e \<Rightarrow> (Inl e, J)
      | Inr _ \<Rightarrow> (if (case j_manualCleanup J of None \<Rightarrow> False | Some v \<Rightarrow> truthy v) then (Inl journal_conflict, J)
                  else (Inr mc, J\<lparr>j_manualCleanup := Some mc\<rparr>)))"

definition or_null :: "jsval option \<Rightarrow> jsval" where
  "or_null v = (case v of None \<Rightarrow> JNull | Some x \<Rightarrow> x)"

definition classifyAfterRestart :: "(bytes \<Rightarrow> jsstr) \<Rightarrow> jsval \<Rightarrow> jsval \<Rightarrow> journal \<Rightarrow> evidence" where
  "classifyAfterRestart sha256 txId authority J =
     (let e = map_of (j_records J) txId;
          tx = or_null (map_option j_transaction e);
          c = or_null (Option.bind e j_checkpoint);
          predecessor = (if truthy (fld tx ''expectedHeadFingerprint'')
                         then or_null (map_of (j_heads J) (fld tx ''expectedHeadFingerprint'')) else JNull)
      in classifyWorkspaceLifecycleEvidence sha256 tx c (or_null (j_head J)) predecessor (or_null (j_manualCleanup J)) authority)"

section \<open>Runs\<close>

datatype journal_call =
  Create_transaction jsval
| Flush_checkpoint jsval
| Replace_checkpoint jsval jsval
| Compare_and_set_head jsval jsval jsval
| Set_manual_cleanup jsval

fun journal_step :: "(bytes \<Rightarrow> jsstr) \<Rightarrow> journal_call \<Rightarrow> jsval journal_op" where
  "journal_step sha256 (Create_transaction tx) = create_transaction sha256 tx"
| "journal_step sha256 (Flush_checkpoint c) = flush_checkpoint sha256 c"
| "journal_step sha256 (Replace_checkpoint c fp) = replace_checkpoint sha256 c fp"
| "journal_step sha256 (Compare_and_set_head h n fp) = compareAndSetHead sha256 h n fp"
| "journal_step sha256 (Set_manual_cleanup mc) = setManualCleanup sha256 mc"

fun is_cas :: "journal_call \<Rightarrow> bool" where
  "is_cas (Compare_and_set_head h n fp) = True"
| "is_cas _ = False"

text \<open>The journal after a sequence of calls, and the number of heads set by it.\<close>

fun journal_run :: "(bytes \<Rightarrow> jsstr) \<Rightarrow> journal_call list \<Rightarrow> journal \<Rightarrow> nat \<times> journal" where
  "journal_run sha256 [] J = (0, J)"
| "journal_run sha256 (x # xs) J =
     (let (r, J1) = journal_step sha256 x J; (n, J2) = journal_run sha256 xs J1
      in (if is_cas x \<and> is_ok r then Suc n else n, J2))"

section \<open>Invariant\<close>

definition entry_ok :: "(bytes \<Rightarrow> jsstr) \<Rightarrow> jsval \<Rightarrow> journal_entry \<Rightarrow> bool" where
  "entry_ok sha256 k e \<longleftrightarrow> fld (j_transaction e) ''txId'' = k \<and> is_ok (validateWorkspaceLifecycleTransaction sha256 (j_transaction e)) \<and>
     (\<forall>c. j_checkpoint e = Some c \<longrightarrow> is_ok (validateWorkspaceLifecycleCheckpoint sha256 c (j_transaction e)))"

definition journal_ok :: "(bytes \<Rightarrow> jsstr) \<Rightarrow> journal \<Rightarrow> bool" where
  "journal_ok sha256 J \<longleftrightarrow> distinct (map fst (j_records J)) \<and> (\<forall>(k, e) \<in> set (j_records J). entry_ok sha256 k e) \<and>
     (\<forall>h. j_head J = Some h \<longrightarrow> is_ok (validateWorkspaceLifecycleHead sha256 h) \<and> 1 \<le> int_of (fld h ''revision'')) \<and>
     (\<forall>mc. j_manualCleanup J = Some mc \<longrightarrow> is_ok (validateManualCleanup sha256 mc))"

definition head_revision :: "journal \<Rightarrow> int" where
  "head_revision J = (case j_head J of None \<Rightarrow> 0 | Some h \<Rightarrow> int_of (fld h ''revision''))"

text \<open>How far a transaction has come.\<close>

definition phase_rank :: "jsval \<Rightarrow> nat" where
  "phase_rank p = (if p = JLit ''prepared'' then 1 else if p = JLit ''applied'' then 2 else if p = JLit ''committed'' then 3 else 4)"

definition progress :: "journal_entry option \<Rightarrow> nat" where
  "progress e = (case e of None \<Rightarrow> 0 | Some x \<Rightarrow> (case j_checkpoint x of None \<Rightarrow> 0 | Some c \<Rightarrow> phase_rank (fld c ''phase'')))"

lemma boundary_cases:
  assumes "boundary s f J = (r, J')"
  obtains "f J = (r, J')" | fl where "J' = J\<lparr>j_failures := fl\<rparr>" "\<not> is_ok r"
  using assms by (auto simp: boundary_def is_ok_iff split: if_splits)

lemma transition_progress: "transition_allowed p q \<Longrightarrow> phase_rank p \<le> phase_rank q"
  by (auto simp: transition_allowed_def transitions_def phase_rank_def)

text \<open>What one call can do.\<close>

inductive journal_effect :: "(bytes \<Rightarrow> jsstr) \<Rightarrow> journal \<Rightarrow> journal \<Rightarrow> bool" for sha256 where
  Unchanged: "journal_effect sha256 J (J\<lparr>j_failures := fl\<rparr>)"
| Created: "is_ok (validateWorkspaceLifecycleTransaction sha256 tx) \<Longrightarrow> \<not> mhas (fld tx ''txId'') (j_records J) \<Longrightarrow>
    journal_effect sha256 J (J\<lparr>j_records := mput (fld tx ''txId'') \<lparr>j_transaction = tx, j_checkpoint = None\<rparr> (j_records J)\<rparr>)"
| Checkpointed: "map_of (j_records J) (fld c ''txId'') = Some e \<Longrightarrow>
    is_ok (validateWorkspaceLifecycleCheckpoint sha256 c (j_transaction e)) \<Longrightarrow>
    progress (Some e) \<le> phase_rank (fld c ''phase'') \<Longrightarrow> journal_effect sha256 J (put_checkpoint c e J)"
| Advanced: "is_ok (validateWorkspaceLifecycleHead sha256 h) \<Longrightarrow> find_committed h J = Some e \<Longrightarrow> j_manualCleanup J = None \<Longrightarrow>
    fld (the (j_checkpoint e)) ''phase'' = JLit ''committed'' \<Longrightarrow>
    fld (j_transaction e) ''expectedHeadRevision'' = head_field J ''revision'' (JInt 0) \<Longrightarrow>
    fld (j_transaction e) ''expectedHeadFingerprint'' = head_field J ''headFingerprint'' JNull \<Longrightarrow>
    int_of (fld h ''revision'') = head_revision J + 1 \<Longrightarrow>
    journal_effect sha256 J (J\<lparr>j_heads := (case j_head J of None \<Rightarrow> j_heads J | Some old \<Rightarrow> mput (fld old ''headFingerprint'') old (j_heads J)),
                        j_head := Some h\<rparr>)"
| Cleanup: "is_ok (validateManualCleanup sha256 mc) \<Longrightarrow> j_manualCleanup J = None \<Longrightarrow>
    journal_effect sha256 J (J\<lparr>j_manualCleanup := Some mc\<rparr>)"

lemma exact_truthy: "exact v ks \<Longrightarrow> truthy v \<and> v \<noteq> JNull"
  by (auto simp: exact_def elim!: plain.elims)

lemma head_accepted:
  assumes "is_ok (validateWorkspaceLifecycleHead sha256 h)"
  shows "h \<noteq> JNull" "truthy h" "isSafeInteger (fld h ''revision'')" "isHex64 (fld h ''headFingerprint'')"
    "nullableHash (fld h ''currentRecordFingerprint'')"
    "fld h ''currentRecordFingerprint'' \<noteq> JNull \<Longrightarrow> fld h ''disposition'' = JLit ''committed''"
proof -
  have s: "exact h headKeys \<and> js_eq (fld h ''version'') (JInt 1) \<and> js_eq (fld h ''kind'') (JLit ''workspace-lifecycle-head'') \<and>
            isSafeInteger (fld h ''revision'') \<and> 0 \<le> int_of (fld h ''revision'') \<and>
            nullableHash (fld h ''currentRecordFingerprint'') \<and> str_in (fld h ''disposition'') [''no-route'', ''committed''] \<and>
            isHex64 (fld h ''headFingerprint'')"
    and d: "js_eq (fld h ''disposition'') (JLit ''no-route'') = js_eq (fld h ''currentRecordFingerprint'') JNull"
    using assms by (auto simp: validateWorkspaceLifecycleHead_def is_ok_iff seq_eq_Inr)
  then show "h \<noteq> JNull" "truthy h" "isSafeInteger (fld h ''revision'')" "isHex64 (fld h ''headFingerprint'')"
    "nullableHash (fld h ''currentRecordFingerprint'')"
    using exact_truthy by blast+
  show "fld h ''currentRecordFingerprint'' \<noteq> JNull \<Longrightarrow> fld h ''disposition'' = JLit ''committed''"
    using s d by (auto simp: str_in_iff dest: js_eq_imp_eq)
qed

lemma cleanup_truthy: "is_ok (validateManualCleanup sha256 mc) \<Longrightarrow> truthy mc \<and> mc \<noteq> JNull"
  by (auto simp: validateManualCleanup_def is_ok_iff dest: exact_truthy)

lemma cleanup_none:
  assumes "journal_ok sha256 J" "\<not> (case j_manualCleanup J of None \<Rightarrow> False | Some v \<Rightarrow> truthy v)"
  shows "j_manualCleanup J = None"
  using assms cleanup_truthy by (cases "j_manualCleanup J") (auto simp: journal_ok_def)

lemma head_field_ok:
  assumes "journal_ok sha256 J"
  shows "head_field J ''revision'' (JInt 0) = (case j_head J of None \<Rightarrow> JInt 0 | Some h \<Rightarrow> fld h ''revision'')"
    "head_field J ''headFingerprint'' JNull = (case j_head J of None \<Rightarrow> JNull | Some h \<Rightarrow> fld h ''headFingerprint'')"
    "int_of (head_field J ''revision'' (JInt 0)) = head_revision J"
proof -
  have "\<not> is_nullish (fld h ''revision'') \<and> \<not> is_nullish (fld h ''headFingerprint'')" if "j_head J = Some h" for h
  proof -
    have "is_ok (validateWorkspaceLifecycleHead sha256 h)" using assms that by (simp add: journal_ok_def)
    note a = head_accepted [OF this]
    show ?thesis using a(3,4) by (auto simp: is_nullish_def)
  qed
  then show "head_field J ''revision'' (JInt 0) = (case j_head J of None \<Rightarrow> JInt 0 | Some h \<Rightarrow> fld h ''revision'')"
    "head_field J ''headFingerprint'' JNull = (case j_head J of None \<Rightarrow> JNull | Some h \<Rightarrow> fld h ''headFingerprint'')"
    "int_of (head_field J ''revision'' (JInt 0)) = head_revision J"
    by (auto simp: head_field_def head_revision_def split: option.splits)
qed

lemma unchanged [simp]: "journal_effect sha256 J J"
  using Unchanged [of sha256 J "j_failures J"] by simp

lemma checkpoint_effect:
  assumes "map_of (j_records J) (fld c ''txId'') = Some e" "validateWorkspaceLifecycleCheckpoint sha256 c (j_transaction e) = Inr y"
    and "progress (Some e) \<le> phase_rank (fld c ''phase'')"
  shows "journal_effect sha256 J (put_checkpoint c e J)"
  using assms by (intro Checkpointed) (auto simp: is_ok_iff)

lemma create_effect: "create_transaction sha256 tx J = (r, J') \<Longrightarrow> journal_effect sha256 J J'"
  unfolding create_transaction_def
  by (erule boundary_cases) (auto simp: is_ok_iff intro: Unchanged intro!: Created split: sum.splits if_splits)

lemma flush_effect: "flush_checkpoint sha256 c J = (r, J') \<Longrightarrow> journal_effect sha256 J J'"
  unfolding flush_checkpoint_def
proof (erule boundary_cases)
  show "journal_effect sha256 J J'" if "J' = J\<lparr>j_failures := fl\<rparr>" for fl using that by (simp add: Unchanged)
qed (auto intro!: checkpoint_effect simp: progress_def phase_rank_def split: sum.splits if_splits option.splits)

lemma replace_effect: "replace_checkpoint sha256 c fp J = (r, J') \<Longrightarrow> journal_effect sha256 J J'"
  unfolding replace_checkpoint_def
proof (erule boundary_cases)
  show "journal_effect sha256 J J'" if "J' = J\<lparr>j_failures := fl\<rparr>" for fl using that by (simp add: Unchanged)
qed (auto intro!: checkpoint_effect transition_progress simp: progress_def split: sum.splits if_splits option.splits)

lemma compareAndSetHead_effect:
  assumes "journal_ok sha256 J" "compareAndSetHead sha256 h n fp J = (r, J')"
  shows "if is_ok r then \<exists>e. find_committed h J = Some e \<and> fld (the (j_checkpoint e)) ''phase'' = JLit ''committed'' \<and>
       fld (j_transaction e) ''expectedHeadRevision'' = head_field J ''revision'' (JInt 0) \<and>
       fld (j_transaction e) ''expectedHeadFingerprint'' = head_field J ''headFingerprint'' JNull \<and>
       j_manualCleanup J = None \<and> is_ok (validateWorkspaceLifecycleHead sha256 h) \<and>
       int_of (fld h ''revision'') = head_revision J + 1 \<and>
       J' = J\<lparr>j_heads := (case j_head J of None \<Rightarrow> j_heads J | Some old \<Rightarrow> mput (fld old ''headFingerprint'') old (j_heads J)),
              j_head := Some h\<rparr>
     else \<exists>fl. J' = J\<lparr>j_failures := fl\<rparr>"
  using assms(2) unfolding compareAndSetHead_def
proof (rule boundary_cases)
  fix fl assume "J' = J\<lparr>j_failures := fl\<rparr>" "\<not> is_ok r"
  then show ?thesis by auto
next
  have keep: "\<exists>fl. J = J\<lparr>j_failures := fl\<rparr>" by (rule exI [of _ "j_failures J"]) simp
  assume "(case validateWorkspaceLifecycleHead sha256 h of Inl e \<Rightarrow> (Inl e, J)
     | Inr _ \<Rightarrow>
        (case find_committed h J of
           None \<Rightarrow> (Inl journal_conflict, J)
         | Some e \<Rightarrow>
            (if \<not> js_eq (fld (the (j_checkpoint e)) ''phase'') (JLit ''committed'') then (Inl journal_conflict, J)
             else if \<not> js_eq (fld (j_transaction e) ''expectedHeadRevision'') n \<or>
                     \<not> js_eq (fld (j_transaction e) ''expectedHeadFingerprint'') fp
             then (Inl journal_conflict, J)
             else if (case j_manualCleanup J of None \<Rightarrow> False | Some v \<Rightarrow> truthy v) \<or>
                     \<not> js_eq (head_field J ''revision'' (JInt 0)) n \<or>
                     \<not> js_eq (head_field J ''headFingerprint'' JNull) fp
             then (Inl journal_conflict, J)
             else if int_of (fld h ''revision'') \<noteq> int_of n + 1 then (Inl journal_conflict, J)
             else (Inr h, J\<lparr>j_heads := (case j_head J of None \<Rightarrow> j_heads J | Some old \<Rightarrow> mput (fld old ''headFingerprint'') old (j_heads J)),
                            j_head := Some h\<rparr>)))) = (r, J')"
  then show ?thesis
    using head_field_ok(3) [OF assms(1)] cleanup_none [OF assms(1)] keep
    by (auto simp: is_ok_iff dest!: js_eq_imp_eq split: sum.splits option.splits if_splits)
qed

lemma cas_effect:
  assumes "journal_ok sha256 J" "compareAndSetHead sha256 h n fp J = (r, J')"
  shows "journal_effect sha256 J J' \<and> head_revision J' = head_revision J + (if is_ok r then 1 else 0)"
proof (cases "is_ok r")
  case True
  then show ?thesis
    using compareAndSetHead_effect [OF assms] Advanced by (auto simp: head_revision_def)
next
  case False
  then show ?thesis using compareAndSetHead_effect [OF assms] by (auto simp: Unchanged head_revision_def)
qed

lemma cleanup_effect:
  assumes "journal_ok sha256 J" "setManualCleanup sha256 mc J = (r, J')"
  shows "journal_effect sha256 J J'"
  using assms(2) cleanup_none [OF assms(1)]
  by (auto simp: setManualCleanup_def is_ok_iff intro!: Cleanup split: sum.splits if_splits)

lemma boundary_head:
  assumes "\<And>r J'. f J = (r, J') \<Longrightarrow> j_head J' = j_head J" "boundary s f J = (r, J')"
  shows "head_revision J' = head_revision J"
  using assms by (auto simp: boundary_def head_revision_def split: if_splits)

lemma create_head: "create_transaction sha256 tx J = (r, J') \<Longrightarrow> head_revision J' = head_revision J"
  unfolding create_transaction_def by (erule boundary_head [rotated]) (auto split: sum.splits if_splits)

lemma flush_head: "flush_checkpoint sha256 c J = (r, J') \<Longrightarrow> head_revision J' = head_revision J"
  unfolding flush_checkpoint_def
  by (erule boundary_head [rotated]) (auto simp: put_checkpoint_def split: option.splits sum.splits if_splits)

lemma replace_head: "replace_checkpoint sha256 c fp J = (r, J') \<Longrightarrow> head_revision J' = head_revision J"
  unfolding replace_checkpoint_def
  by (erule boundary_head [rotated]) (auto simp: put_checkpoint_def split: option.splits sum.splits if_splits)

lemma cleanup_head: "setManualCleanup sha256 mc J = (r, J') \<Longrightarrow> head_revision J' = head_revision J"
  by (auto simp: setManualCleanup_def head_revision_def split: sum.splits if_splits)

lemma journal_step_effect:
  assumes "journal_ok sha256 J" "journal_step sha256 x J = (r, J')"
  shows "journal_effect sha256 J J' \<and> head_revision J' = head_revision J + (if is_cas x \<and> is_ok r then 1 else 0)"
proof (cases x)
  case (Create_transaction tx)
  with assms(2) create_effect create_head show ?thesis by simp
next
  case (Flush_checkpoint c)
  with assms(2) flush_effect flush_head show ?thesis by simp
next
  case (Replace_checkpoint c fp)
  with assms(2) replace_effect replace_head show ?thesis by simp
next
  case (Compare_and_set_head h n fp)
  with assms(2) cas_effect [OF assms(1)] show ?thesis by simp
next
  case (Set_manual_cleanup mc)
  with assms(2) cleanup_effect [OF assms(1)] cleanup_head show ?thesis by simp
qed

lemma entry_ok_lookup: "journal_ok sha256 J \<Longrightarrow> map_of (j_records J) k = Some e \<Longrightarrow> entry_ok sha256 k e"
  by (auto simp: journal_ok_def dest: map_of_SomeD)

lemma journal_ok_put:
  assumes "journal_ok sha256 J" "entry_ok sha256 k e"
  shows "journal_ok sha256 (J\<lparr>j_records := mput k e (j_records J)\<rparr>)"
  using assms by (auto simp: journal_ok_def dest: in_set_mput)

lemma journal_effect_ok:
  assumes "journal_effect sha256 J J'" "journal_ok sha256 J"
  shows "journal_ok sha256 J'"
  using assms(1)
proof (cases rule: journal_effect.cases)
  case (Checkpointed c e)
  have "entry_ok sha256 (fld c ''txId'') e" by (rule entry_ok_lookup [OF assms(2) Checkpointed(2)])
  then have "entry_ok sha256 (fld c ''txId'') (e\<lparr>j_checkpoint := Some c\<rparr>)" using Checkpointed(3) by (simp add: entry_ok_def)
  then show ?thesis using journal_ok_put [OF assms(2)] by (simp add: Checkpointed(1) put_checkpoint_def)
next
  case (Created tx)
  then have "entry_ok sha256 (fld tx ''txId'') \<lparr>j_transaction = tx, j_checkpoint = None\<rparr>" by (simp add: entry_ok_def)
  then show ?thesis using journal_ok_put [OF assms(2)] by (simp add: Created(1))
next
  case (Advanced h e)
  have "0 \<le> head_revision J" using assms(2) by (auto simp: journal_ok_def head_revision_def split: option.splits)
  then show ?thesis using Advanced assms(2) by (simp add: journal_ok_def)
qed (use assms(2) in \<open>auto simp: journal_ok_def\<close>)

lemma new_journal_ok: "new_journal fl = Inr J \<Longrightarrow> journal_ok sha256 J"
  by (auto simp: new_journal_def journal_ok_def split: if_splits)

lemma journal_run_ok: "journal_ok sha256 J \<Longrightarrow> journal_run sha256 xs J = (n, J') \<Longrightarrow> journal_ok sha256 J'"
proof (induction xs arbitrary: J n)
  case (Cons x xs)
  obtain r J1 where 1: "journal_step sha256 x J = (r, J1)" by force
  obtain m where 2: "journal_run sha256 xs J1 = (m, J')" using Cons.prems(2) 1 by (auto split: prod.splits)
  have "journal_ok sha256 J1" using journal_effect_ok journal_step_effect [OF Cons.prems(1) 1] Cons.prems(1) by blast
  from Cons.IH [OF this 2] show ?case .
qed simp

section \<open>Progress\<close>

definition journal_le :: "journal \<Rightarrow> journal \<Rightarrow> bool" where
  "journal_le J J' \<longleftrightarrow>
     (\<forall>k e. map_of (j_records J) k = Some e \<longrightarrow> (\<exists>e'. map_of (j_records J') k = Some e' \<and> j_transaction e' = j_transaction e)) \<and>
     (\<forall>k. progress (map_of (j_records J) k) \<le> progress (map_of (j_records J') k)) \<and>
     (\<forall>mc. j_manualCleanup J = Some mc \<longrightarrow> j_manualCleanup J' = Some mc)"

lemma journal_le_refl: "journal_le J J"
  by (simp add: journal_le_def)

lemma journal_le_trans: "journal_le J K \<Longrightarrow> journal_le K L \<Longrightarrow> journal_le J L"
  unfolding journal_le_def by (metis le_trans)

lemma journal_effect_le:
  assumes "journal_effect sha256 J J'"
  shows "journal_le J J'"
  using assms
proof (cases rule: journal_effect.cases)
  case (Created tx)
  then have "map_of (j_records J) (fld tx ''txId'') = None" by (simp add: mhas_map_of)
  then show ?thesis by (auto simp: Created(1) journal_le_def progress_def)
next
  case (Checkpointed c e)
  have "progress (map_of (j_records J) k) \<le> progress (map_of (j_records J') k)" for k
    using Checkpointed by (auto simp: put_checkpoint_def progress_def)
  then show ?thesis using Checkpointed(2) by (auto simp: Checkpointed(1) put_checkpoint_def journal_le_def)
qed (auto simp: journal_le_def)

lemma journal_run_le:
  assumes "journal_ok sha256 J" "journal_run sha256 xs J = (n, J')"
  shows "journal_le J J' \<and> head_revision J' = head_revision J + int n"
  using assms
proof (induction xs arbitrary: J n)
  case (Cons x xs)
  obtain r J1 where 1: "journal_step sha256 x J = (r, J1)" by force
  obtain m where 2: "journal_run sha256 xs J1 = (m, J')" "n = (if is_cas x \<and> is_ok r then Suc m else m)"
    using Cons.prems(2) 1 by (auto split: prod.splits)
  note e = journal_step_effect [OF Cons.prems(1) 1]
  have "journal_ok sha256 J1" using journal_effect_ok e Cons.prems(1) by blast
  note ih = Cons.IH [OF this 2(1)]
  have "journal_le J J1" using journal_effect_le e by blast
  then show ?case using ih e 2(2) by (auto intro: journal_le_trans)
qed (simp add: journal_le_refl)

text \<open>C33. The journal only moves forward: over any sequence of calls with any injected faults, what was
  recorded stays recorded, no transaction falls back to an earlier phase, a manual cleanup is never
  lifted, and the revision of the head counts exactly the successful compare-and-set calls.\<close>

theorem lifecycle_journal_monotone:
  assumes "new_journal fl = Inr J0" "journal_run sha256 xs J0 = (m, J1)" "journal_run sha256 ys J1 = (n, J2)"
  shows "journal_le J1 J2 \<and> head_revision J2 = int (m + n)"
proof -
  have "journal_ok sha256 J0" by (rule new_journal_ok [OF assms(1)])
  note 1 = journal_run_le [OF this assms(2)] journal_run_ok [OF this assms(2)]
  have "head_revision J0 = 0" using assms(1) by (auto simp: new_journal_def head_revision_def split: if_splits)
  then show ?thesis using 1 journal_run_le [OF 1(2) assms(3)] by simp
qed

lemma cleanup_stops_heads:
  assumes "journal_ok sha256 J" "j_manualCleanup J = Some mc" "journal_run sha256 ys J = (n, J')"
  shows "n = 0 \<and> j_manualCleanup J' = Some mc"
  using assms
proof (induction ys arbitrary: J n)
  case (Cons y ys)
  obtain r J1 where 1: "journal_step sha256 y J = (r, J1)" by force
  obtain m where 2: "journal_run sha256 ys J1 = (m, J')" "n = (if is_cas y \<and> is_ok r then Suc m else m)"
    using Cons.prems(3) 1 by (auto split: prod.splits)
  note e = journal_step_effect [OF Cons.prems(1) 1]
  have ok: "journal_ok sha256 J1" using journal_effect_ok e Cons.prems(1) by blast
  have mc: "j_manualCleanup J1 = Some mc" using journal_effect_le e Cons.prems(2) by (auto simp: journal_le_def)
  have "\<not> (is_cas y \<and> is_ok r)"
  proof
    assume c: "is_cas y \<and> is_ok r"
    then obtain h k fp where "compareAndSetHead sha256 h k fp J = (r, J1)" using 1 by (cases y) auto
    from compareAndSetHead_effect [OF Cons.prems(1) this] c Cons.prems(2) show False by simp
  qed
  then show ?case using Cons.IH [OF ok mc 2(1)] 2(2) by simp
qed simp

text \<open>A manual cleanup absorbs: once it is recorded no head can be set any more, and every transaction
  is classified as manual cleanup whatever is called afterwards.\<close>

theorem manual_cleanup_absorbs:
  assumes "new_journal fl = Inr J0" "journal_run sha256 xs J0 = (m, J)" "setManualCleanup sha256 mc J = (Inr y, J1)"
    and "journal_run sha256 ys J1 = (n, J2)"
  shows "n = 0 \<and> classifyAfterRestart sha256 txId authority J2 = Ev_manual_cleanup"
proof -
  have ok: "journal_ok sha256 J" by (rule journal_run_ok [OF new_journal_ok [OF assms(1)] assms(2)])
  have v: "is_ok (validateManualCleanup sha256 mc)" "j_manualCleanup J1 = Some mc"
    using assms(3) by (auto simp: setManualCleanup_def is_ok_iff split: sum.splits if_splits)
  have "journal_ok sha256 J1" using journal_effect_ok [OF cleanup_effect [OF ok assms(3)] ok] .
  from cleanup_stops_heads [OF this v(2) assms(4)] show ?thesis
    using v(1) cleanup_truthy [OF v(1)]
    by (auto simp: classifyAfterRestart_def Let_def or_null_def classifyWorkspaceLifecycleEvidence_def dest: js_eq_imp_eq)
qed

lemma transaction_accepted:
  assumes "is_ok (validateWorkspaceLifecycleTransaction sha256 tx)"
  shows "truthy tx" "isHex64 (fld tx ''authorityFingerprint'')" "isSafeInteger (fld tx ''expectedHeadRevision'')"
    "0 \<le> int_of (fld tx ''expectedHeadRevision'')"
  using assms exact_truthy by (auto simp: validateWorkspaceLifecycleTransaction_def transaction_schema_def is_ok_iff)

lemma checkpoint_accepted:
  assumes "is_ok (validateWorkspaceLifecycleCheckpoint sha256 c tx)"
  shows "truthy c" "isHex64 (fld c ''checkpointFingerprint'')"
  using assms exact_truthy by (auto simp: validateWorkspaceLifecycleCheckpoint_def checkpoint_schema_def is_ok_iff)

lemma find_committed_entry:
  assumes "journal_ok sha256 J" "find_committed h J = Some e" "is_ok (validateWorkspaceLifecycleHead sha256 h)"
  shows "\<exists>k c. map_of (j_records J) k = Some e \<and> entry_ok sha256 k e \<and> j_checkpoint e = Some c \<and>
    fld c ''checkpointFingerprint'' = fld h ''currentRecordFingerprint''"
proof -
  from assms(2) have m: "e \<in> snd ` set (j_records J)"
    and f: "js_eq (case j_checkpoint e of None \<Rightarrow> JUndefined | Some c \<Rightarrow> fld c ''checkpointFingerprint'') (fld h ''currentRecordFingerprint'')"
    unfolding find_committed_def find_Some_iff by auto
  from m obtain k where k: "(k, e) \<in> set (j_records J)" by force
  then have e: "map_of (j_records J) k = Some e" using assms(1) by (simp add: journal_ok_def)
  moreover have "entry_ok sha256 k e" using entry_ok_lookup [OF assms(1) e] .
  moreover obtain c where "j_checkpoint e = Some c"
    using f head_accepted(5) [OF assms(3)] by (cases "j_checkpoint e") (auto simp: nullableHash_def dest!: js_eq_imp_eq)
  ultimately show ?thesis using f by (auto dest: js_eq_imp_eq)
qed

text \<open>The head that is replaced is the predecessor that the transaction expects.\<close>

lemma predecessor_chained:
  assumes "journal_ok sha256 J" "fld tx ''expectedHeadRevision'' = head_field J ''revision'' (JInt 0)"
    and "fld tx ''expectedHeadFingerprint'' = head_field J ''headFingerprint'' JNull"
    and "heads = (case j_head J of None \<Rightarrow> j_heads J | Some old \<Rightarrow> mput (fld old ''headFingerprint'') old (j_heads J))"
    and "predecessor = (if truthy (fld tx ''expectedHeadFingerprint'')
                        then or_null (map_of heads (fld tx ''expectedHeadFingerprint'')) else JNull)"
  shows "(if js_eq (fld tx ''expectedHeadRevision'') (JInt 0)
          then Inr (js_eq (fld tx ''expectedHeadFingerprint'') JNull)
          else seq (validateWorkspaceLifecycleHead sha256 predecessor) (\<lambda>_.
                 Inr (js_eq (fld predecessor ''revision'') (fld tx ''expectedHeadRevision'') \<and>
                      js_eq (fld predecessor ''headFingerprint'') (fld tx ''expectedHeadFingerprint'')))) = Inr True"
proof (cases "j_head J")
  case None
  then show ?thesis using assms(2,3) head_field_ok [OF assms(1)] by simp
next
  case (Some old)
  then have old: "is_ok (validateWorkspaceLifecycleHead sha256 old)" "1 \<le> int_of (fld old ''revision'')"
    using assms(1) by (simp_all add: journal_ok_def)
  note a = head_accepted [OF old(1)]
  obtain n where n: "fld old ''revision'' = JInt n" "1 \<le> n" using a(3) old(2) by (auto simp: isSafeInteger_iff)
  obtain f where f: "fld old ''headFingerprint'' = JStr f" using isHex64_string [OF a(4)] by blast
  then have tf: "truthy (JStr f)" using a(4) by auto
  have tx: "fld tx ''expectedHeadRevision'' = JInt n" "fld tx ''expectedHeadFingerprint'' = JStr f"
    using assms(2,3) head_field_ok [OF assms(1)] Some n f by simp_all
  then have "predecessor = old" using assms(4,5) Some f tf by (simp add: or_null_def)
  then show ?thesis using tx n f old(1) by (auto simp: is_ok_iff)
qed

text \<open>C22. A head that was set is found after a restart: the transaction whose committed checkpoint the new
  head names is classified as committed for its own authority, and has no route under any other.\<close>

theorem committed_head_classified:
  assumes "new_journal fl = Inr J0" "journal_run sha256 xs J0 = (m, J)" "compareAndSetHead sha256 h n fp J = (Inr y, J')"
  shows "\<exists>e. find_committed h J = Some e \<and>
    classifyAfterRestart sha256 (fld (j_transaction e) ''txId'') authority J' =
      (if authority = fld (j_transaction e) ''authorityFingerprint'' then Ev_committed else Ev_no_route)"
proof -
  have ok: "journal_ok sha256 J" by (rule journal_run_ok [OF new_journal_ok [OF assms(1)] assms(2)])
  from compareAndSetHead_effect [OF ok assms(3)] obtain e where e: "find_committed h J = Some e"
    "fld (the (j_checkpoint e)) ''phase'' = JLit ''committed''"
    "fld (j_transaction e) ''expectedHeadRevision'' = head_field J ''revision'' (JInt 0)"
    "fld (j_transaction e) ''expectedHeadFingerprint'' = head_field J ''headFingerprint'' JNull"
    "j_manualCleanup J = None" and h: "is_ok (validateWorkspaceLifecycleHead sha256 h)"
    and r: "int_of (fld h ''revision'') = head_revision J + 1"
    and J': "J' = J\<lparr>j_heads := (case j_head J of None \<Rightarrow> j_heads J | Some old \<Rightarrow> mput (fld old ''headFingerprint'') old (j_heads J)),
              j_head := Some h\<rparr>" by auto
  from find_committed_entry [OF ok e(1) h] obtain k c where k: "map_of (j_records J) k = Some e" "j_checkpoint e = Some c"
    "fld c ''checkpointFingerprint'' = fld h ''currentRecordFingerprint''" and ent: "entry_ok sha256 k e" by blast
  let ?tx = "j_transaction e"
  have tx: "is_ok (validateWorkspaceLifecycleTransaction sha256 ?tx)" "is_ok (validateWorkspaceLifecycleCheckpoint sha256 c ?tx)"
    "fld ?tx ''txId'' = k" using ent k(2) by (simp_all add: entry_ok_def)
  note t = transaction_accepted [OF tx(1)] and cp = checkpoint_accepted [OF tx(2)] and ha = head_accepted [OF h]
  define predecessor where "predecessor = (if truthy (fld ?tx ''expectedHeadFingerprint'')
                         then or_null (map_of (j_heads J') (fld ?tx ''expectedHeadFingerprint'')) else JNull)"
  have dis: "fld h ''disposition'' = JLit ''committed''" by (rule ha(6)) (use cp(2) k(3) in auto)
  have hd: "j_heads J' = (case j_head J of None \<Rightarrow> j_heads J | Some old \<Rightarrow> mput (fld old ''headFingerprint'') old (j_heads J))"
    by (simp add: J')
  note chain = predecessor_chained [OF ok e(3,4) hd predecessor_def]
  have rev: "int_of (fld h ''revision'') = int_of (fld ?tx ''expectedHeadRevision'') + 1"
    using r e(3) head_field_ok(3) [OF ok] by simp
  obtain a where a: "fld ?tx ''authorityFingerprint'' = JStr a" using isHex64_string [OF t(2)] by blast
  have fp: "js_eq (fld h ''currentRecordFingerprint'') (fld c ''checkpointFingerprint'')"
    using k(3) isHex64_string [OF cp(2)] by auto
  have "evidence_checks sha256 ?tx c h predecessor authority =
      Inr (if authority = fld ?tx ''authorityFingerprint'' then Ev_committed else Ev_no_route)"
  proof (cases "authority = fld ?tx ''authorityFingerprint''")
    case True
    then show ?thesis
      using tx(1,2) h rev chain fp dis e(2) k(2) t(2) a by (auto simp: evidence_checks_def is_ok_iff)
  next
    case False
    then have "\<not> js_eq authority (fld ?tx ''authorityFingerprint'')" by (auto dest: js_eq_imp_eq)
    then show ?thesis using False tx(1,2) h by (auto simp: evidence_checks_def is_ok_iff)
  qed
  moreover have "classifyAfterRestart sha256 k authority J' = classifyWorkspaceLifecycleEvidence sha256 ?tx c h predecessor JNull authority"
    using k(1,2) e(5) unfolding predecessor_def J' by (simp add: classifyAfterRestart_def Let_def or_null_def)
  ultimately have "classifyAfterRestart sha256 k authority J' =
      (if authority = fld ?tx ''authorityFingerprint'' then Ev_committed else Ev_no_route)"
    using t(1) cp(1) ha(2) by (simp add: classifyWorkspaceLifecycleEvidence_def)
  then show ?thesis using e(1) tx(3) by blast
qed

end
