(* ===== verification/Lifecycle_Witnesses.thy ===== *)
theory Lifecycle_Witnesses
  imports Lifecycle_Journal
begin

text \<open>
  Concrete lifecycle records, all with the hash of the constant sample function, and a journal in which
  a transaction is prepared, applied after an injected fault, committed and made the head.
\<close>

section \<open>Sample records\<close>

definition sample_tx :: jsval where
  "sample_tx = record_of [(''version'', JInt 1), (''kind'', JLit ''workspace-lifecycle-transaction''), (''txId'', JLit ''t1''),
     (''hostId'', JLit ''h''), (''mappingId'', JLit ''m1''), (''mappingGeneration'', JInt 1), (''mappingVersion'', JInt 1),
     (''workspaceId'', JLit ''w1''), (''workspaceGeneration'', JInt 1), (''sourcePlatform'', JLit ''posix''),
     (''routeFingerprint'', JStr (replicate 64 0x30)), (''authorityFingerprint'', JStr (replicate 64 0x30)),
     (''inventoryGeneration'', JInt 1), (''anchorFingerprint'', JStr (replicate 64 0x30)), (''operation'', JLit ''create''),
     (''principalFingerprint'', JStr (replicate 64 0x30)), (''idempotencyFingerprint'', JStr (replicate 64 0x30)),
     (''ownerFingerprint'', JStr (replicate 64 0x30)), (''fenceGeneration'', JInt 1), (''expectedHeadRevision'', JInt 0),
     (''expectedHeadFingerprint'', JNull), (''beforeFingerprint'', JNull), (''candidateFingerprint'', JStr (replicate 64 0x30)),
     (''priorFingerprint'', JNull), (''transactionFingerprint'', JStr (replicate 64 0x30))]"

definition checkpoint_at :: "string \<Rightarrow> jsval \<Rightarrow> jsval" where
  "checkpoint_at phase evidence = record_of [(''version'', JInt 1), (''kind'', JLit ''workspace-lifecycle-checkpoint''), (''txId'', JLit ''t1''),
     (''transactionFingerprint'', JStr (replicate 64 0x30)), (''phase'', JLit phase),
     (''operationEvidenceFingerprint'', evidence), (''checkpointFingerprint'', JStr (replicate 64 0x30))]"

definition sample_checkpoint :: jsval where
  "sample_checkpoint = checkpoint_at ''prepared'' JNull"

definition sample_head :: jsval where
  "sample_head = record_of [(''version'', JInt 1), (''kind'', JLit ''workspace-lifecycle-head''), (''revision'', JInt 1),
     (''currentRecordFingerprint'', JStr (replicate 64 0x30)), (''disposition'', JLit ''committed''),
     (''headFingerprint'', JStr (replicate 64 0x30))]"

definition sample_cleanup :: jsval where
  "sample_cleanup = record_of [(''version'', JInt 1), (''kind'', JLit ''manual-cleanup''), (''anchorFingerprint'', JStr (replicate 64 0x30)),
     (''fenceGeneration'', JInt 1), (''txId'', JNull), (''reason'', JLit ''h''), (''expectedFingerprint'', JNull),
     (''observedFingerprint'', JNull), (''expectedFloorFingerprint'', JNull), (''observedFloorFingerprint'', JNull),
     (''routeDisposition'', JLit ''no-route''), (''blockedUntilOwnerAction'', JBool True),
     (''manualCleanupFingerprint'', JStr (replicate 64 0x30))]"

lemma sample_tx_fld:
  "fld sample_tx ''version'' = JInt 1" "fld sample_tx ''kind'' = JLit ''workspace-lifecycle-transaction''"
  "fld sample_tx ''txId'' = JLit ''t1''" "fld sample_tx ''hostId'' = JLit ''h''" "fld sample_tx ''mappingId'' = JLit ''m1''"
  "fld sample_tx ''mappingGeneration'' = JInt 1" "fld sample_tx ''mappingVersion'' = JInt 1"
  "fld sample_tx ''workspaceId'' = JLit ''w1''" "fld sample_tx ''workspaceGeneration'' = JInt 1"
  "fld sample_tx ''sourcePlatform'' = JLit ''posix''" "fld sample_tx ''routeFingerprint'' = JStr (replicate 64 0x30)"
  "fld sample_tx ''authorityFingerprint'' = JStr (replicate 64 0x30)" "fld sample_tx ''inventoryGeneration'' = JInt 1"
  "fld sample_tx ''anchorFingerprint'' = JStr (replicate 64 0x30)" "fld sample_tx ''operation'' = JLit ''create''"
  "fld sample_tx ''principalFingerprint'' = JStr (replicate 64 0x30)"
  "fld sample_tx ''idempotencyFingerprint'' = JStr (replicate 64 0x30)"
  "fld sample_tx ''ownerFingerprint'' = JStr (replicate 64 0x30)" "fld sample_tx ''fenceGeneration'' = JInt 1"
  "fld sample_tx ''expectedHeadRevision'' = JInt 0" "fld sample_tx ''expectedHeadFingerprint'' = JNull"
  "fld sample_tx ''beforeFingerprint'' = JNull" "fld sample_tx ''candidateFingerprint'' = JStr (replicate 64 0x30)"
  "fld sample_tx ''priorFingerprint'' = JNull" "fld sample_tx ''transactionFingerprint'' = JStr (replicate 64 0x30)"
  by (simp_all add: sample_tx_def get_own_JObj)

lemma checkpoint_at_fld:
  "fld (checkpoint_at p v) ''version'' = JInt 1" "fld (checkpoint_at p v) ''kind'' = JLit ''workspace-lifecycle-checkpoint''"
  "fld (checkpoint_at p v) ''txId'' = JLit ''t1''" "fld (checkpoint_at p v) ''transactionFingerprint'' = JStr (replicate 64 0x30)"
  "fld (checkpoint_at p v) ''phase'' = JLit p" "fld (checkpoint_at p v) ''operationEvidenceFingerprint'' = v"
  "fld (checkpoint_at p v) ''checkpointFingerprint'' = JStr (replicate 64 0x30)"
  by (simp_all add: checkpoint_at_def get_own_JObj)

lemma sample_head_fld:
  "fld sample_head ''version'' = JInt 1" "fld sample_head ''kind'' = JLit ''workspace-lifecycle-head''"
  "fld sample_head ''revision'' = JInt 1" "fld sample_head ''currentRecordFingerprint'' = JStr (replicate 64 0x30)"
  "fld sample_head ''disposition'' = JLit ''committed''" "fld sample_head ''headFingerprint'' = JStr (replicate 64 0x30)"
  by (simp_all add: sample_head_def get_own_JObj)

lemma sample_cleanup_fld:
  "fld sample_cleanup ''version'' = JInt 1" "fld sample_cleanup ''kind'' = JLit ''manual-cleanup''"
  "fld sample_cleanup ''anchorFingerprint'' = JStr (replicate 64 0x30)" "fld sample_cleanup ''fenceGeneration'' = JInt 1"
  "fld sample_cleanup ''txId'' = JNull" "fld sample_cleanup ''reason'' = JLit ''h''"
  "fld sample_cleanup ''expectedFingerprint'' = JNull" "fld sample_cleanup ''observedFingerprint'' = JNull"
  "fld sample_cleanup ''expectedFloorFingerprint'' = JNull" "fld sample_cleanup ''observedFloorFingerprint'' = JNull"
  "fld sample_cleanup ''routeDisposition'' = JLit ''no-route''" "fld sample_cleanup ''blockedUntilOwnerAction'' = JBool True"
  "fld sample_cleanup ''manualCleanupFingerprint'' = JStr (replicate 64 0x30)"
  by (simp_all add: sample_cleanup_def get_own_JObj)

lemma sealed_sample:
  assumes "canonicalJson STRICT_JSON_LIMITS (without v k) = Inr (render (without v k))" "fld v k = JStr (replicate 64 0x30)"
  shows "sealed sample_sha v k e = Inr v"
  using assms by (simp add: sealed_def fingerprint_def canonicalJsonHash_def canonicalJsonBytes_def sample_sha_def)

lemma ascii_identity:
  assumes "list_all (\<lambda>c. 0x20 \<le> unat c \<and> unat c < 0x7f) s" "s \<noteq> []" "length s \<le> 4096"
  shows "isOpaqueIdentity (JStr s)"
  using assms validText_ascii [OF assms] by (simp add: isOpaqueIdentity_def validText_def is_ok_iff assertStrictText_Inr)

lemma sample_identities: "isOpaqueIdentity (JLit ''t1'')" "isOpaqueIdentity (JLit ''h'')" "isOpaqueIdentity (JLit ''m1'')"
  "isOpaqueIdentity (JLit ''w1'')" "isOpaqueIdentity (JLit ''posix'')"
  by (rule ascii_identity; simp add: js_def)+

lemma sample_tx_ok: "validateWorkspaceLifecycleTransaction sample_sha sample_tx = Inr sample_tx"
proof -
  have "exact sample_tx txKeys" by (simp add: exact_def txKeys_def sample_tx_def own_keys_JObj has_key_JObj)
  then have "transaction_schema sample_tx"
    using hex_zeros sample_identities
    by (simp add: transaction_schema_def sample_tx_fld generation_def nullableHash_def operations_def MAX_SAFE_INTEGER_def is_integral_def)
  moreover have "operation_evidence sample_tx" by (simp add: operation_evidence_def sample_tx_fld)
  moreover have "canonicalJson STRICT_JSON_LIMITS (without sample_tx ''transactionFingerprint'') =
      Inr (render (without sample_tx ''transactionFingerprint''))"
    by (simp add: sample_tx_def without_def canonicalJson_Inr STRICT_JSON_LIMITS_def MAX_SAFE_INTEGER_def is_integral_def strict_text_replicate_0)
      (simp add: strict_text_def js_def forbidden_control_def surrogate_unat)
  ultimately show ?thesis
    by (simp add: validateWorkspaceLifecycleTransaction_def sealed_sample sample_tx_fld)
qed

text \<open>The phases with the evidence that the validator asks for.\<close>

definition phase_evidence :: "string \<Rightarrow> jsval \<Rightarrow> bool" where
  "phase_evidence p v \<longleftrightarrow> (p, v) \<in> {(''prepared'', JNull), (''applied'', JStr (replicate 64 0x30)), (''committed'', JStr (replicate 64 0x30))}"

lemma checkpoint_hash:
  assumes "phase_evidence p v"
  shows "canonicalJson STRICT_JSON_LIMITS (without (checkpoint_at p v) ''checkpointFingerprint'') =
    Inr (render (without (checkpoint_at p v) ''checkpointFingerprint''))"
proof -
  have "strict_text (js ''prepared'')" "strict_text (js ''applied'')" "strict_text (js ''committed'')"
    by (simp_all add: strict_text_def js_def forbidden_control_def surrogate_unat)
  with assms show ?thesis
    by (auto simp: checkpoint_at_def without_def canonicalJson_Inr STRICT_JSON_LIMITS_def MAX_SAFE_INTEGER_def is_integral_def
        strict_text_replicate_0 phase_evidence_def)
      (simp_all add: strict_text_def js_def forbidden_control_def surrogate_unat)
qed

lemma checkpoint_at_ok:
  assumes "phase_evidence p v"
  shows "validateWorkspaceLifecycleCheckpoint sample_sha (checkpoint_at p v) sample_tx = Inr (checkpoint_at p v)"
proof -
  have "exact (checkpoint_at p v) checkpointKeys"
    by (simp add: exact_def checkpointKeys_def checkpoint_at_def own_keys_JObj has_key_JObj)
  then have "checkpoint_schema (checkpoint_at p v)"
    using hex_zeros sample_identities assms
    by (auto simp: checkpoint_schema_def checkpoint_at_fld nullableHash_def phase_evidence_def)
  with checkpoint_hash [OF assms] sample_tx_ok assms show ?thesis
    by (auto simp: validateWorkspaceLifecycleCheckpoint_def sealed_sample checkpoint_at_fld sample_tx_fld phase_evidence_def)
qed

lemma sample_checkpoint_ok: "validateWorkspaceLifecycleCheckpoint sample_sha sample_checkpoint sample_tx = Inr sample_checkpoint"
  unfolding sample_checkpoint_def by (rule checkpoint_at_ok) (simp add: phase_evidence_def)

lemma sample_head_ok: "validateWorkspaceLifecycleHead sample_sha sample_head = Inr sample_head"
proof -
  have "exact sample_head headKeys" by (simp add: exact_def headKeys_def sample_head_def own_keys_JObj has_key_JObj)
  moreover have "canonicalJson STRICT_JSON_LIMITS (without sample_head ''headFingerprint'') = Inr (render (without sample_head ''headFingerprint''))"
    by (simp add: sample_head_def without_def canonicalJson_Inr STRICT_JSON_LIMITS_def MAX_SAFE_INTEGER_def is_integral_def strict_text_replicate_0)
      (simp add: strict_text_def js_def forbidden_control_def surrogate_unat)
  ultimately show ?thesis
    using hex_zeros
    by (simp add: validateWorkspaceLifecycleHead_def sealed_sample sample_head_fld nullableHash_def MAX_SAFE_INTEGER_def is_integral_def)
qed

lemma sample_cleanup_ok: "validateManualCleanup sample_sha sample_cleanup = Inr sample_cleanup"
proof -
  have "exact sample_cleanup mcKeys" by (simp add: exact_def mcKeys_def sample_cleanup_def own_keys_JObj has_key_JObj)
  moreover have "canonicalJson STRICT_JSON_LIMITS (without sample_cleanup ''manualCleanupFingerprint'') =
      Inr (render (without sample_cleanup ''manualCleanupFingerprint''))"
    by (simp add: sample_cleanup_def without_def canonicalJson_Inr STRICT_JSON_LIMITS_def MAX_SAFE_INTEGER_def is_integral_def strict_text_replicate_0)
      (simp add: strict_text_def js_def forbidden_control_def surrogate_unat)
  ultimately show ?thesis
    using hex_zeros sample_identities
    by (simp add: validateManualCleanup_def sealed_sample sample_cleanup_fld nullableHash_def positiveFence_def
        MAX_SAFE_INTEGER_def is_integral_def)
qed

section \<open>A committed transaction\<close>

definition sample_calls :: "journal_call list" where
  "sample_calls = [Create_transaction sample_tx, Flush_checkpoint sample_checkpoint,
     Replace_checkpoint (checkpoint_at ''applied'' (JStr (replicate 64 0x30))) (JStr (replicate 64 0x30)),
     Replace_checkpoint (checkpoint_at ''applied'' (JStr (replicate 64 0x30))) (JStr (replicate 64 0x30)),
     Replace_checkpoint (checkpoint_at ''committed'' (JStr (replicate 64 0x30))) (JStr (replicate 64 0x30))]"

definition sample_journal :: "string list \<Rightarrow> jsval option \<Rightarrow> journal" where
  "sample_journal fl c = \<lparr>j_failures = fl, j_records = [(JLit ''t1'', \<lparr>j_transaction = sample_tx, j_checkpoint = c\<rparr>)],
     j_head = None, j_heads = [], j_manualCleanup = None\<rparr>"

lemma sample_steps:
  "create_transaction sample_sha sample_tx \<lparr>j_failures = [''replace''], j_records = [], j_head = None, j_heads = [], j_manualCleanup = None\<rparr> =
     (Inr sample_tx, sample_journal [''replace''] None)"
  "flush_checkpoint sample_sha sample_checkpoint (sample_journal [''replace''] None) =
     (Inr sample_checkpoint, sample_journal [''replace''] (Some sample_checkpoint))"
  "replace_checkpoint sample_sha (checkpoint_at ''applied'' (JStr (replicate 64 0x30))) (JStr (replicate 64 0x30))
     (sample_journal [''replace''] (Some sample_checkpoint)) =
     (Inl (journal_fault ''replace''), sample_journal [] (Some sample_checkpoint))"
  "replace_checkpoint sample_sha (checkpoint_at ''applied'' (JStr (replicate 64 0x30))) (JStr (replicate 64 0x30))
     (sample_journal [] (Some sample_checkpoint)) =
     (Inr (checkpoint_at ''applied'' (JStr (replicate 64 0x30))),
      sample_journal [] (Some (checkpoint_at ''applied'' (JStr (replicate 64 0x30)))))"
  "replace_checkpoint sample_sha (checkpoint_at ''committed'' (JStr (replicate 64 0x30))) (JStr (replicate 64 0x30))
     (sample_journal [] (Some (checkpoint_at ''applied'' (JStr (replicate 64 0x30))))) =
     (Inr (checkpoint_at ''committed'' (JStr (replicate 64 0x30))),
      sample_journal [] (Some (checkpoint_at ''committed'' (JStr (replicate 64 0x30)))))"
  using sample_tx_ok checkpoint_at_ok [of "''prepared''" JNull] checkpoint_at_ok [of "''applied''" "JStr (replicate 64 0x30)"]
    checkpoint_at_ok [of "''committed''" "JStr (replicate 64 0x30)"]
  by (simp_all add: create_transaction_def flush_checkpoint_def replace_checkpoint_def boundary_def sample_journal_def
      put_checkpoint_def sample_tx_fld sample_checkpoint_def checkpoint_at_fld phase_evidence_def transition_allowed_def
      transitions_def mhas_def)

lemma sample_run:
  "new_journal [''replace''] = Inr \<lparr>j_failures = [''replace''], j_records = [], j_head = None, j_heads = [], j_manualCleanup = None\<rparr>"
  "journal_run sample_sha sample_calls \<lparr>j_failures = [''replace''], j_records = [], j_head = None, j_heads = [], j_manualCleanup = None\<rparr> =
     (0, sample_journal [] (Some (checkpoint_at ''committed'' (JStr (replicate 64 0x30)))))"
  by (simp_all add: new_journal_def faultStages_def sample_calls_def sample_steps)

lemma sample_cas:
  "compareAndSetHead sample_sha sample_head (JInt 0) JNull (sample_journal [] (Some (checkpoint_at ''committed'' (JStr (replicate 64 0x30))))) =
     (Inr sample_head, (sample_journal [] (Some (checkpoint_at ''committed'' (JStr (replicate 64 0x30)))))\<lparr>j_head := Some sample_head\<rparr>)"
  using sample_head_ok
  by (simp add: compareAndSetHead_def boundary_def sample_journal_def find_committed_def checkpoint_at_fld sample_head_fld
      sample_tx_fld head_field_def)

theorem committed_head_classified_witness:
  "classifyAfterRestart sample_sha (JLit ''t1'') (JStr (replicate 64 0x30))
     ((sample_journal [] (Some (checkpoint_at ''committed'' (JStr (replicate 64 0x30)))))\<lparr>j_head := Some sample_head\<rparr>) = Ev_committed"
proof -
  have "find_committed sample_head (sample_journal [] (Some (checkpoint_at ''committed'' (JStr (replicate 64 0x30))))) =
      Some \<lparr>j_transaction = sample_tx, j_checkpoint = Some (checkpoint_at ''committed'' (JStr (replicate 64 0x30)))\<rparr>"
    by (simp add: find_committed_def sample_journal_def checkpoint_at_fld sample_head_fld)
  with committed_head_classified [OF sample_run sample_cas, of "JStr (replicate 64 0x30)"] show ?thesis
    by (simp add: sample_tx_fld)
qed

theorem lifecycle_journal_monotone_witness:
  "journal_le (sample_journal [] (Some (checkpoint_at ''committed'' (JStr (replicate 64 0x30)))))
     ((sample_journal [] (Some (checkpoint_at ''committed'' (JStr (replicate 64 0x30)))))\<lparr>j_head := Some sample_head\<rparr>)"
proof -
  have "journal_run sample_sha [Compare_and_set_head sample_head (JInt 0) JNull]
      (sample_journal [] (Some (checkpoint_at ''committed'' (JStr (replicate 64 0x30))))) =
    (1, (sample_journal [] (Some (checkpoint_at ''committed'' (JStr (replicate 64 0x30)))))\<lparr>j_head := Some sample_head\<rparr>)"
    using sample_cas by simp
  from lifecycle_journal_monotone [OF sample_run this] show ?thesis by simp
qed

theorem manual_cleanup_absorbs_witness:
  "classifyAfterRestart sample_sha (JLit ''t1'') (JStr (replicate 64 0x30))
     ((sample_journal [] (Some (checkpoint_at ''committed'' (JStr (replicate 64 0x30)))))\<lparr>j_manualCleanup := Some sample_cleanup\<rparr>) =
   Ev_manual_cleanup"
proof -
  have "setManualCleanup sample_sha sample_cleanup (sample_journal [] (Some (checkpoint_at ''committed'' (JStr (replicate 64 0x30))))) =
    (Inr sample_cleanup, (sample_journal [] (Some (checkpoint_at ''committed'' (JStr (replicate 64 0x30)))))\<lparr>j_manualCleanup := Some sample_cleanup\<rparr>)"
    using sample_cleanup_ok by (simp add: setManualCleanup_def sample_journal_def)
  from manual_cleanup_absorbs [OF sample_run this journal_run.simps(1)] show ?thesis by simp
qed

end
