(* ===== verification/Recovery_Witnesses.thy ===== *)
theory Recovery_Witnesses
  imports Crash_Recovery Lifecycle_Witnesses
begin

text \<open>
  Concrete pointers and file systems at which the theorems on publication and
  crash recovery apply.
\<close>

section \<open>Pointers\<close>

definition sample_pointer :: "int \<Rightarrow> jsval \<Rightarrow> jsval \<Rightarrow> jsval" where
  "sample_pointer n prior priorFp = record_of [(''version'', JInt 1), (''kind'', JLit ''workspace-generation-pointer''),
     (''hostId'', JLit ''h''), (''workspaceId'', JLit ''w1''), (''sourcePlatform'', JLit ''posix''), (''activeGeneration'', JInt n),
     (''generationPath'', JLit ''g/a''), (''rootIdentityFingerprint'', JStr (replicate 64 0x30)),
     (''storageIdentityFingerprint'', JStr (replicate 64 0x30)), (''gitGenerationFingerprint'', JStr (replicate 64 0x30)),
     (''manifestFingerprint'', JStr (replicate 64 0x30)), (''priorGeneration'', prior), (''priorPointerFingerprint'', priorFp),
     (''pointerFingerprint'', JStr (replicate 64 0x30))]"

definition pointer1 :: jsval where
  "pointer1 = sample_pointer 1 JNull JNull"

definition pointer2 :: jsval where
  "pointer2 = sample_pointer 2 (JInt 1) (JStr (replicate 64 0x30))"

lemma sample_pointer_fld:
  "fld (sample_pointer n a b) ''version'' = JInt 1" "fld (sample_pointer n a b) ''kind'' = JLit ''workspace-generation-pointer''"
  "fld (sample_pointer n a b) ''hostId'' = JLit ''h''" "fld (sample_pointer n a b) ''workspaceId'' = JLit ''w1''"
  "fld (sample_pointer n a b) ''sourcePlatform'' = JLit ''posix''" "fld (sample_pointer n a b) ''activeGeneration'' = JInt n"
  "fld (sample_pointer n a b) ''generationPath'' = JLit ''g/a''"
  "fld (sample_pointer n a b) ''rootIdentityFingerprint'' = JStr (replicate 64 0x30)"
  "fld (sample_pointer n a b) ''storageIdentityFingerprint'' = JStr (replicate 64 0x30)"
  "fld (sample_pointer n a b) ''gitGenerationFingerprint'' = JStr (replicate 64 0x30)"
  "fld (sample_pointer n a b) ''manifestFingerprint'' = JStr (replicate 64 0x30)"
  "fld (sample_pointer n a b) ''priorGeneration'' = a" "fld (sample_pointer n a b) ''priorPointerFingerprint'' = b"
  "fld (sample_pointer n a b) ''pointerFingerprint'' = JStr (replicate 64 0x30)"
  by (simp_all add: sample_pointer_def get_own_JObj)

lemma sample_path: "assertGenerationPath (JLit ''g/a'') = Inr ()"
proof -
  have t: "strict_text (js ''g/a'')" by (simp add: strict_text_def js_def forbidden_control_def surrogate_unat)
  have g: "check_segment (js ''g'') = None" "check_segment (js ''a'') = None"
    by (simp_all add: check_segment_def dots_def js_def windows_reserved_def lower_unit_def)
  have b: "byteLength (js ''g/a'') = 3" by code_simp
  have p: "split_on 0x2f (js ''g/a'') = [js ''g'', js ''a'']" "0 \<notin> set (js ''g/a'')" "0x5c \<notin> set (js ''g/a'')"
    "hd (js ''g/a'') \<noteq> 0x2f" "take 1 (tl (js ''g/a'')) \<noteq> [0x3a]" "js ''g/a'' \<noteq> []"
    by (simp_all add: js_def)
  show ?thesis
    using scan_text_None [THEN iffD2, OF t] g b p by (simp add: assertGenerationPath_def Let_def MAX_PATH_BYTES_def)
qed

lemma pointer_hashes:
  "pointerFingerprintOf sample_sha (sample_pointer 1 JNull JNull) = Inr (replicate 64 0x30)"
  "pointerFingerprintOf sample_sha (sample_pointer 2 (JInt 1) (JStr (replicate 64 0x30))) = Inr (replicate 64 0x30)"
proof -
  have h: "pointerFingerprintOf sample_sha p = Inr (replicate 64 0x30)"
    if "canonicalJson GENERATION_POINTER_LIMITS (pointer_body p) = Inr (render (pointer_body p))" for p
    using that by (auto simp: pointerFingerprintOf_def canonicalJsonHash_def canonicalJsonBytes_def sample_sha_def split: sum.splits)
  note ev = pointer_body_def POINTER_KEYS_def sample_pointer_fld canonicalJson_Inr GENERATION_POINTER_LIMITS_def
    MAX_SAFE_INTEGER_def is_integral_def strict_text_replicate_0
  show "pointerFingerprintOf sample_sha (sample_pointer 1 JNull JNull) = Inr (replicate 64 0x30)"
    by (rule h) (simp add: ev, simp add: strict_text_def js_def forbidden_control_def surrogate_unat)
  show "pointerFingerprintOf sample_sha (sample_pointer 2 (JInt 1) (JStr (replicate 64 0x30))) = Inr (replicate 64 0x30)"
    by (rule h) (simp add: ev, simp add: strict_text_def js_def forbidden_control_def surrogate_unat)
qed

lemma sample_pointer_ok:
  assumes "prior_ok (sample_pointer n a b) = Inr ()" "isGeneration (JInt n)" "a = JNull \<or> isGeneration a" "nullableHash b"
    and "pointerFingerprintOf sample_sha (sample_pointer n a b) = Inr (replicate 64 0x30)"
  shows "is_ok (validateGenerationPointer sample_sha (sample_pointer n a b))"
proof -
  have "exact (sample_pointer n a b) POINTER_KEYS"
    by (simp add: exact_def POINTER_KEYS_def sample_pointer_def own_keys_JObj has_key_JObj)
  moreover have "isId (JLit ''h'')" "isId (JLit ''w1'')" by (simp_all add: isId_def js_def)
  moreover have "js_eq (fld (sample_pointer n a b) ''priorGeneration'') JNull \<or> isGeneration (fld (sample_pointer n a b) ''priorGeneration'')"
    using assms(3) by (auto simp: sample_pointer_fld)
  ultimately show ?thesis
    using assms hex_zeros sample_path by (simp add: validateGenerationPointer_def sample_pointer_fld)
qed

lemma pointers_ok: "is_ok (validateGenerationPointer sample_sha pointer1)" "is_ok (validateGenerationPointer sample_sha pointer2)"
proof -
  note ev = prior_ok_def sample_pointer_fld isGeneration_def nullableHash_def MAX_SAFE_INTEGER_def is_integral_def
  show "is_ok (validateGenerationPointer sample_sha pointer1)"
    unfolding pointer1_def by (rule sample_pointer_ok [OF _ _ _ _ pointer_hashes(1)]) (simp_all add: ev)
  show "is_ok (validateGenerationPointer sample_sha pointer2)"
    unfolding pointer2_def
    by (rule sample_pointer_ok [OF _ _ _ _ pointer_hashes(2)]) (use hex_zeros in \<open>simp_all add: ev\<close>)
qed

lemma pointers_distinct: "distinct_keys pointer1" "distinct_keys pointer2"
  by (simp_all add: pointer1_def pointer2_def sample_pointer_def)

theorem pointer_storage_round_trip_witness:
  "\<exists>b. generationPointerBytes sample_sha pointer1 = Inr b \<and> length b \<le> 65536 \<and>
     parseGenerationPointer sample_sha b = Inr (canon pointer1)"
  by (rule pointer_storage_round_trip [OF pointers_ok(1) pointers_distinct(1)])

section \<open>An interrupted publication\<close>

text \<open>Temporary names of a process \<open>7\<close>, and of the process \<open>8\<close> that runs after the crash.\<close>

definition sample_suffix :: "string \<Rightarrow> nat \<Rightarrow> jsstr" where
  "sample_suffix pid n = js pid @ replicate n 0x2d"

definition sample_fs :: "fault list \<Rightarrow> fs" where
  "sample_fs fl = \<lparr>files = [], faults = fl, tempCounter = 0\<rparr>"

abbreviation sample_live :: location where
  "sample_live \<equiv> live_location (js ''/srv'') (js ''w1'')"

text \<open>The publication of the first pointer fails when it syncs the directory, after the replacement.\<close>

lemma late_fault:
  "publishGeneration sample_sha (createAtomicPointerIo False (sample_suffix ''7'') sample_live) pointer1
     (sample_fs [Done, Done, Done, Done, Done, Done, Fault ''EIO'' 0]) =
   (Inl (step_failed ''flushParent''),
    \<lparr>files = [(sample_live, utf8 (render pointer1))], faults = [], tempCounter = 1\<rparr>)"
proof -
  obtain v where v: "validateGenerationPointer sample_sha pointer1 = Inr v" using pointers_ok(1) by (auto simp: is_ok_iff)
  have b: "generationPointerBytes sample_sha pointer1 = Inr (utf8 (render pointer1))"
    by (rule pointer_stored(1) [OF pointers_ok(1) pointers_distinct(1)])
  have c: "cas_check pointer1 None = Inr ()" by (simp add: cas_check_def pointer1_def sample_pointer_fld)
  show ?thesis
    using v b c
    by (simp add: publishGeneration_def readLiveGeneration_def createAtomicPointerIo_def readBytesOrNull_def readFile_def
        fs_call_def next_fault_def sample_fs_def and_then_def run_steps_def runStep_def storage_writeTemp_def io_then_def
        open_wx_def write_handle_def sync_handle_def rename_def storage_flushParent_def tolerate_def open_directory_def
        unsupported_def Let_def mhas_def mput_def mdel_def)
qed

theorem publication_crash_safe_witness:
  "live_pointer sample_sha (Some (utf8 (render pointer1))) (Some (canon pointer1))"
proof -
  have "honest_faults (sample_fs [Done, Done, Done, Done, Done, Done, Fault ''EIO'' 0])"
    by (simp add: honest_faults_def sample_fs_def)
  from publication_crash_safe [OF this pointers_distinct(1) late_fault, of sample_live] show ?thesis
    by (simp add: sample_fs_def)
qed


text \<open>The second pointer is published after the first, and a third attempt with the first pointer is refused.\<close>

theorem generations_advance_one_by_one_witness:
  "case publish_run sample_sha (createAtomicPointerIo False (sample_suffix ''7'') sample_live) [pointer1, pointer2, pointer1]
     (sample_fs []) of (rs, w') \<Rightarrow>
     (\<exists>c'. live_pointer sample_sha (map_of (files w') sample_live) c' \<and> int (length (filter is_ok rs)) \<le> generation_of c' \<and>
        generation_of c' \<le> 3)"
proof -
  have "honest_faults (sample_fs [])" "list_all distinct_keys [pointer1, pointer2, pointer1]"
    "live_pointer sample_sha (map_of (files (sample_fs [])) sample_live) None"
    using pointers_distinct by (simp_all add: honest_faults_def sample_fs_def live_pointer_def)
  from generations_advance_one_by_one [OF this surjective_pairing, of False "sample_suffix ''7''"] show ?thesis
    by (simp add: case_prod_beta' generation_of_def)
qed

section \<open>Recovery\<close>

text \<open>The lifecycle files hold two records that \<open>JSON.parse\<close> reads; the publication of the first pointer
  crashes before its temporary file is synced.\<close>

definition sample_json :: "bytes \<Rightarrow> jsval option" where
  "sample_json b = (if b = [1] then Some sample_tx else if b = [2] then Some sample_checkpoint else None)"

definition sample_evidence :: "(location \<times> bytes) list" where
  "sample_evidence = [(gfile (js ''/srv'') (js ''w1'') ''candidate.ptr'', utf8 (render pointer1)),
     (lfile (js ''/srv'') (js ''w1'') ''transaction.json'', [1]), (lfile (js ''/srv'') (js ''w1'') ''checkpoint.json'', [2])]"

definition sample_crash :: fs where
  "sample_crash = \<lparr>files = sample_evidence, faults = [Done, Done, Done, Fault ''EIO'' 0], tempCounter = 0\<rparr>"

abbreviation sample_temp :: location where
  "sample_temp \<equiv> temp_location (sample_suffix ''7'') sample_live 1"

lemma sample_evidence_read:
  "map_of sample_evidence sample_live = None" "map_of sample_evidence (gfile (js ''/srv'') (js ''w1'') ''prior.ptr'') = None"
  "map_of sample_evidence (gfile (js ''/srv'') (js ''w1'') ''candidate.ptr'') = Some (utf8 (render pointer1))"
  "map_of sample_evidence (lfile (js ''/srv'') (js ''w1'') ''manual-cleanup.json'') = None"
  "map_of sample_evidence (lfile (js ''/srv'') (js ''w1'') ''transaction.json'') = Some [1]"
  "map_of sample_evidence (lfile (js ''/srv'') (js ''w1'') ''checkpoint.json'') = Some [2]"
  by (simp_all add: sample_evidence_def live_location_def workspace_dir_def js_def)

lemma sample_interrupted: "interrupted sample_sha sample_json (js ''/srv'') (js ''w1'') pointer1 None sample_crash"
  unfolding interrupted_def
  using sample_tx_ok sample_checkpoint_ok [unfolded sample_checkpoint_def]
  by (simp add: sample_crash_def sample_evidence_read sample_json_def sample_tx_fld sample_checkpoint_def checkpoint_at_fld
      pointer1_def sample_pointer_fld del: map_of_eq_Some_iff)

lemma temp_not_evidence: "\<not> mhas (temp_location (sample_suffix pid) sample_live n) sample_evidence"
  by (auto simp: mhas_def sample_evidence_def temp_location_def live_location_def workspace_dir_def js_def)

lemma sample_crashed:
  "\<exists>r. publishGeneration sample_sha (createGenerationPublisherIo False (sample_suffix ''7'') (js ''/srv'') (js ''w1'')) pointer1 sample_crash =
     (r, \<lparr>files = mput sample_temp (utf8 (render pointer1)) (mput sample_temp [] sample_evidence), faults = [], tempCounter = 1\<rparr>)"
proof -
  obtain v where v: "validateGenerationPointer sample_sha pointer1 = Inr v" using pointers_ok(1) by (auto simp: is_ok_iff)
  have b: "generationPointerBytes sample_sha pointer1 = Inr (utf8 (render pointer1))"
    by (rule pointer_stored(1) [OF pointers_ok(1) pointers_distinct(1)])
  have c: "cas_check pointer1 None = Inr ()" by (simp add: cas_check_def pointer1_def sample_pointer_fld)
  show ?thesis
    using v b c temp_not_evidence
    by (simp add: publishGeneration_def readLiveGeneration_def createGenerationPublisherIo_def createAtomicPointerIo_def
        readBytesOrNull_def readFile_def fs_call_def next_fault_def sample_crash_def and_then_def run_steps_def runStep_def
        storage_writeTemp_def io_then_def open_wx_def write_handle_def sync_handle_def Let_def sample_evidence_read)
qed

lemma sample_fresh:
  "\<not> mhas (temp_location (sample_suffix ''8'') sample_live (Suc 0)) (mput sample_temp b (mput sample_temp [] sample_evidence))"
proof -
  have "temp_location (sample_suffix ''8'') sample_live (Suc 0) \<noteq> sample_temp"
    by (simp add: temp_location_def live_location_def sample_suffix_def js_def)
  then show ?thesis using temp_not_evidence [of "''8''" "Suc 0"] by simp
qed


end
