(* ===== verification/Tombstone_Witnesses.thy ===== *)
theory Tombstone_Witnesses
  imports Tombstone_Publisher Recovery_Witnesses
begin

text \<open>
  A concrete tombstone of the first sample pointer, at which the theorems on the live slot apply.
\<close>

definition sample_tombstone :: "jsval \<Rightarrow> jsval" where
  "sample_tombstone d = record_of [(''version'', JInt 1), (''kind'', TOMBSTONE_KIND), (''hostId'', JLit ''h''), (''workspaceId'', JLit ''w1''),
     (''sourcePlatform'', JLit ''posix''), (''operation'', JLit ''reset''), (''tombstonedGeneration'', JInt 1),
     (''priorKind'', POINTER_KIND), (''priorPointerFingerprint'', JStr (replicate 64 0x30)), (''dirtyBackupFingerprint'', d),
     (''tombstoneFingerprint'', JStr (replicate 64 0x30))]"

definition tombstone1 :: jsval where
  "tombstone1 = sample_tombstone JNull"

lemma sample_tombstone_fld:
  "fld (sample_tombstone d) ''version'' = JInt 1" "fld (sample_tombstone d) ''kind'' = TOMBSTONE_KIND"
  "fld (sample_tombstone d) ''hostId'' = JLit ''h''" "fld (sample_tombstone d) ''workspaceId'' = JLit ''w1''"
  "fld (sample_tombstone d) ''sourcePlatform'' = JLit ''posix''" "fld (sample_tombstone d) ''operation'' = JLit ''reset''"
  "fld (sample_tombstone d) ''tombstonedGeneration'' = JInt 1" "fld (sample_tombstone d) ''priorKind'' = POINTER_KIND"
  "fld (sample_tombstone d) ''priorPointerFingerprint'' = JStr (replicate 64 0x30)" "fld (sample_tombstone d) ''dirtyBackupFingerprint'' = d"
  "fld (sample_tombstone d) ''tombstoneFingerprint'' = JStr (replicate 64 0x30)"
  by (simp_all add: sample_tombstone_def get_own_JObj)

lemma sample_tombstone_hash:
  assumes "d \<in> {JNull, JStr (replicate 64 0x30)}"
  shows "tombstoneFingerprintOf sample_sha (sample_tombstone d) = Inr (replicate 64 0x30)"
proof -
  note ev = tombstone_body_def TOMBSTONE_KEYS_def sample_tombstone_fld canonicalJson_Inr TOMBSTONE_LIMITS_def POINTER_KIND_def
    TOMBSTONE_KIND_def MAX_SAFE_INTEGER_def is_integral_def strict_text_replicate_0
  have "canonicalJson TOMBSTONE_LIMITS (tombstone_body (sample_tombstone d)) = Inr (render (tombstone_body (sample_tombstone d)))"
    using assms
    by (elim insertE emptyE) (simp add: ev, simp add: strict_text_def js_def forbidden_control_def surrogate_unat)+
  then show ?thesis
    by (auto simp: tombstoneFingerprintOf_def canonicalJsonHash_def canonicalJsonBytes_def sample_sha_def split: sum.splits)
qed

lemma sample_tombstone_ok:
  assumes "d \<in> {JNull, JStr (replicate 64 0x30)}"
  shows "validateTombstone sample_sha (sample_tombstone d) = Inr (sample_tombstone d)" "distinct_keys (sample_tombstone d)"
proof -
  have "exact (sample_tombstone d) TOMBSTONE_KEYS"
    by (simp add: exact_def TOMBSTONE_KEYS_def sample_tombstone_def own_keys_JObj has_key_JObj)
  moreover have "isId (JLit ''h'')" "isId (JLit ''w1'')" by (simp_all add: isId_def js_def)
  moreover have "isGeneration (JInt 1)" by (simp add: isGeneration_def MAX_SAFE_INTEGER_def is_integral_def)
  moreover have "nullableHash d" using assms hex_zeros by (auto simp: nullableHash_def)
  moreover have "str_in POINTER_KIND [''workspace-generation-pointer'', ''workspace-tombstone'']"
    by (simp add: POINTER_KIND_def)
  ultimately show "validateTombstone sample_sha (sample_tombstone d) = Inr (sample_tombstone d)"
    using hex_zeros by (simp add: validateTombstone_def sample_tombstone_fld sample_tombstone_hash [OF assms])
  show "distinct_keys (sample_tombstone d)" using assms by (auto simp: sample_tombstone_def TOMBSTONE_KIND_def POINTER_KIND_def)
qed

lemmas tombstone1_fld = sample_tombstone_fld [of JNull, folded tombstone1_def]

lemma tombstone1_ok: "is_ok (validateTombstone sample_sha tombstone1)" "distinct_keys tombstone1"
  unfolding tombstone1_def using sample_tombstone_ok [of JNull] by simp_all

lemma sample_tombstone_chains: "assertTombstoneSuccession (sample_tombstone d) (slot_pointer (canon pointer1)) = Inr ()"
proof -
  have "fld (canon pointer1) ''hostId'' = JLit ''h''" "fld (canon pointer1) ''workspaceId'' = JLit ''w1''"
    "fld (canon pointer1) ''pointerFingerprint'' = JStr (replicate 64 0x30)" "fld (canon pointer1) ''activeGeneration'' = JInt 1"
    using pointer_canon(2) [OF pointers_ok(1) pointers_distinct(1)] by (simp_all add: POINTER_KEYS_def pointer1_def sample_pointer_fld)
  then show ?thesis
    by (simp add: assertTombstoneSuccession_def sample_tombstone_fld slot_pointer_def live_generation_def)
qed

lemma pointer1_slot: "slot_record sample_sha (utf8 (render pointer1)) = Inr (slot_pointer (canon pointer1))"
  by (rule pointer_slot [OF pointer_stored(2) [OF pointers_ok(1) pointers_distinct(1)]])

text \<open>The disposal of the first pointer fails when it syncs the directory, after the replacement.\<close>

definition sample_slot :: "jsval \<Rightarrow> fault list \<Rightarrow> fs" where
  "sample_slot v fl = \<lparr>files = [(sample_live, utf8 (render v))], faults = fl, tempCounter = 0\<rparr>"

lemma late_disposal_fault:
  "publishTombstone sample_sha (createAtomicPointerIo False (sample_suffix ''7'') sample_live) tombstone1
     (sample_slot pointer1 [Done, Done, Done, Done, Done, Done, Fault ''EIO'' 0]) =
   (Inl (tombstone_step_failed ''flushParent''),
    \<lparr>files = [(sample_live, utf8 (render tombstone1))], faults = [], tempCounter = 1\<rparr>)"
proof -
  obtain v where v: "validateTombstone sample_sha tombstone1 = Inr v" using tombstone1_ok(1) by (auto simp: is_ok_iff)
  have b: "tombstoneBytes sample_sha tombstone1 = Inr (utf8 (render tombstone1))" by (rule tombstone_stored(1) [OF tombstone1_ok])
  note c = sample_tombstone_chains [of JNull, folded tombstone1_def]
  show ?thesis
    using v b c pointer1_slot
    by (simp add: publishTombstone_def readLiveDisposition_def createAtomicPointerIo_def readBytesOrNull_def readFile_def
        fs_call_def next_fault_def sample_slot_def and_then_def run_steps_def runStep_def storage_writeTemp_def io_then_def
        open_wx_def write_handle_def sync_handle_def rename_def storage_flushParent_def tolerate_def open_directory_def
        unsupported_def Let_def mhas_def mput_def mdel_def)
qed

theorem disposal_crash_safe_witness:
  "slot_holds sample_sha (Some (utf8 (render tombstone1))) (Some (slot_tombstone (canon tombstone1)))"
proof -
  have h: "honest_faults (sample_slot pointer1 [Done, Done, Done, Done, Done, Done, Fault ''EIO'' 0])"
    by (simp add: honest_faults_def sample_slot_def)
  have "utf8 (render tombstone1) \<noteq> utf8 (render pointer1)"
    using pointer1_slot slot_of_tombstone [OF tombstone1_ok] kinds_differ
    by (auto simp: slot_holds_def slot_pointer_def slot_tombstone_def)
  with disposal_crash_safe [OF h tombstone1_ok(2) late_disposal_fault, of sample_live] show ?thesis
    by (simp add: sample_slot_def)
qed


theorem disposed_workspace_barred_witness:
  "publishGeneration sample_sha (createGenerationPublisherIo False (sample_suffix ''8'') (js ''/srv'') (js ''w1'')) pointer2
     (sample_slot tombstone1 []) = (Inl (gen_invalid ''pointer must have the exact pointer key set''), sample_slot tombstone1 []) \<and>
   (\<exists>rep. runBootRecovery sample_sha sample_json False (sample_suffix ''8'') (js ''/srv'') [js ''w1''] (sample_slot tombstone1 []) =
     (Inr rep, sample_slot tombstone1 []) \<and> r_barred rep = [js ''w1''])"
proof -
  have "faults (sample_slot tombstone1 []) = []" "js ''/srv'' \<noteq> []" "isId (JStr (js ''w1''))"
    "map_of (files (sample_slot tombstone1 [])) sample_live = Some (utf8 (render tombstone1))"
    by (simp_all add: sample_slot_def js_def isId_def)
  from disposed_workspace_barred [OF this tombstone_stored(2) [OF tombstone1_ok] pointers_ok(2)] show ?thesis by blast
qed

end
