(* ===== verification/Backup_Witnesses.thy ===== *)
theory Backup_Witnesses
  imports Backup_Manifest Recovery_Witnesses
begin

text \<open>
  A tree with one file and its backup, at which the theorems on backups apply.
\<close>

definition sample_tree :: "jsstr \<Rightarrow> bytes option" where
  "sample_tree p = (if p = js ''g/a'' then Some [0x68, 0x69] else None)"

definition sample_backup_of :: "int \<Rightarrow> jsval" where
  "sample_backup_of n = record_of [(''hostId'', JLit ''h''), (''workspaceId'', JLit ''w1''), (''workspaceGeneration'', JInt n),
     (''sourcePlatform'', JLit ''posix''), (''rootIdentityFingerprint'', JStr (replicate 64 0x30)),
     (''storageIdentityFingerprint'', JStr (replicate 64 0x30)), (''gitGenerationFingerprint'', JStr (replicate 64 0x30)),
     (''relativePaths'', JArr [JLit ''g/a''])]"

abbreviation sample_backup_request :: jsval where
  "sample_backup_request \<equiv> sample_backup_of 1"

definition sample_entry :: jsval where
  "sample_entry = file_entry (JLit ''g/a'') (JInt 2) (JStr (replicate 64 0x30))"

definition sample_manifest_of :: "int \<Rightarrow> jsval" where
  "sample_manifest_of n = with_field (manifest_record (backup_input (sample_backup_of n) [sample_entry]) [sample_entry] 2)
     ''manifestFingerprint'' (JStr (replicate 64 0x30))"

abbreviation sample_manifest :: jsval where
  "sample_manifest \<equiv> sample_manifest_of 1"

lemma sample_request_fld:
  "fld (sample_backup_of n) ''hostId'' = JLit ''h''" "fld (sample_backup_of n) ''workspaceId'' = JLit ''w1''"
  "fld (sample_backup_of n) ''workspaceGeneration'' = JInt n" "fld (sample_backup_of n) ''sourcePlatform'' = JLit ''posix''"
  "fld (sample_backup_of n) ''rootIdentityFingerprint'' = JStr (replicate 64 0x30)"
  "fld (sample_backup_of n) ''storageIdentityFingerprint'' = JStr (replicate 64 0x30)"
  "fld (sample_backup_of n) ''gitGenerationFingerprint'' = JStr (replicate 64 0x30)"
  "fld (sample_backup_of n) ''relativePaths'' = JArr [JLit ''g/a'']"
  by (simp_all add: sample_backup_of_def get_own_JObj)

lemma sample_input_fld:
  "plain (backup_input (sample_backup_of n) es)" "fld (backup_input (sample_backup_of n) es) ''entries'' = JArr es"
  "fld (backup_input (sample_backup_of n) es) ''hostId'' = JLit ''h''" "fld (backup_input (sample_backup_of n) es) ''workspaceId'' = JLit ''w1''"
  "fld (backup_input (sample_backup_of n) es) ''workspaceGeneration'' = JInt n"
  "fld (backup_input (sample_backup_of n) es) ''sourcePlatform'' = JLit ''posix''"
  "fld (backup_input (sample_backup_of n) es) ''rootIdentityFingerprint'' = JStr (replicate 64 0x30)"
  "fld (backup_input (sample_backup_of n) es) ''storageIdentityFingerprint'' = JStr (replicate 64 0x30)"
  "fld (backup_input (sample_backup_of n) es) ''gitGenerationFingerprint'' = JStr (replicate 64 0x30)"
  by (simp_all add: backup_input_def sample_request_fld get_own_JObj)

lemma sample_entry_path: "assertRelativePath (JLit ''g/a'') = Inr ()"
proof -
  have t: "strict_text (js ''g/a'')" by (simp add: strict_text_def js_def forbidden_control_def surrogate_unat)
  have g: "entry_segment (js ''g'') = None" "entry_segment (js ''a'') = None"
    by (simp_all add: entry_segment_def dots_def js_def windows_reserved_def lower_unit_def)
  have b: "byteLength (js ''g/a'') = 3" by code_simp
  have p: "split_on 0x2f (js ''g/a'') = [js ''g'', js ''a'']" "0 \<notin> set (js ''g/a'')" "0x5c \<notin> set (js ''g/a'')"
    "hd (js ''g/a'') \<noteq> 0x2f" "take 1 (tl (js ''g/a'')) \<noteq> [0x3a]" "js ''g/a'' \<noteq> []"
    by (simp_all add: js_def)
  show ?thesis
    using scan_text_None [THEN iffD2, OF t] g b p
    by (simp add: assertRelativePath_def Let_def MAX_ENTRY_PATH_BYTES_def assertStrictText.simps)
qed

lemma sample_entry_ok: "assertEntry sample_entry = Inr ()" "entry_size sample_entry = 2" "copy_entry sample_entry = sample_entry"
proof -
  have "exact sample_entry ENTRY_KEYS"
    by (simp add: sample_entry_def file_entry_def exact_def ENTRY_KEYS_def own_keys_JObj has_key_JObj)
  then show "assertEntry sample_entry = Inr ()"
    using sample_entry_path hex_zeros
    by (simp add: assertEntry_def sample_entry_def isSafeCount_def MAX_SAFE_INTEGER_def is_integral_def)
  show "entry_size sample_entry = 2" "copy_entry sample_entry = sample_entry"
    by (simp_all add: sample_entry_def entry_size_def)
qed

lemma sample_captured: "captured sample_sha sample_tree (JLit ''g/a'') = sample_entry"
  by (simp add: captured_def sample_tree_def sample_entry_def sample_sha_def)

text \<open>Two generations are enough for the samples.\<close>

lemma sample_body:
  assumes "n \<in> {1, 2}"
  shows "manifestFingerprintOf sample_sha (manifest_record (backup_input (sample_backup_of n) [sample_entry]) [sample_entry] 2) =
     Inr (replicate 64 0x30)" "manifestFingerprintOf sample_sha (sample_manifest_of n) = Inr (replicate 64 0x30)"
proof -
  let ?r = "manifest_record (backup_input (sample_backup_of n) [sample_entry]) [sample_entry] 2"
  have b: "manifest_body ?r = record_of [(''version'', JInt 1), (''kind'', JLit ''workspace-backup-manifest''), (''hostId'', JLit ''h''),
     (''workspaceId'', JLit ''w1''), (''workspaceGeneration'', JInt n), (''sourcePlatform'', JLit ''posix''),
     (''rootIdentityFingerprint'', JStr (replicate 64 0x30)), (''storageIdentityFingerprint'', JStr (replicate 64 0x30)),
     (''gitGenerationFingerprint'', JStr (replicate 64 0x30)), (''entryCount'', JInt 1), (''totalSize'', JInt 2),
     (''entries'', JArr [sample_entry])]"
    by (simp add: manifest_body_def MANIFEST_KEYS_def manifest_record_def sample_input_fld get_own_JObj)
  have e: "admits 8 2 sample_entry" "nodes sample_entry = 4"
    by (simp_all add: sample_entry_def file_entry_def MAX_SAFE_INTEGER_def is_integral_def strict_text_replicate_0)
      (simp add: strict_text_def js_def forbidden_control_def surrogate_unat)
  have c: "canonicalJson WORKSPACE_MANIFEST_LIMITS (manifest_body ?r) = Inr (render (manifest_body ?r))"
    using e assms unfolding b canonicalJson_Inr
    by (elim insertE emptyE)
      (simp add: WORKSPACE_MANIFEST_LIMITS_def MAX_ENTRIES_def MAX_SAFE_INTEGER_def is_integral_def strict_text_replicate_0
        numeral_2_eq_2 [symmetric], simp add: strict_text_def js_def forbidden_control_def surrogate_unat)+
  show h: "manifestFingerprintOf sample_sha ?r = Inr (replicate 64 0x30)"
    using c by (auto simp: manifestFingerprintOf_def canonicalJsonHash_def canonicalJsonBytes_def sample_sha_def split: sum.splits)
  have "manifest_body (sample_manifest_of n) = manifest_body ?r"
    by (simp add: manifest_body_def MANIFEST_KEYS_def sample_manifest_of_def manifest_record_def with_field_def get_own_JObj own_keys_JObj)
  with h show "manifestFingerprintOf sample_sha (sample_manifest_of n) = Inr (replicate 64 0x30)" by (simp add: manifestFingerprintOf_def)
qed

lemma sample_manifest_fld:
  "fld (sample_manifest_of n) ''version'' = JInt 1" "fld (sample_manifest_of n) ''kind'' = JLit ''workspace-backup-manifest''"
  "fld (sample_manifest_of n) ''hostId'' = JLit ''h''" "fld (sample_manifest_of n) ''workspaceId'' = JLit ''w1''"
  "fld (sample_manifest_of n) ''workspaceGeneration'' = JInt n" "fld (sample_manifest_of n) ''sourcePlatform'' = JLit ''posix''"
  "fld (sample_manifest_of n) ''rootIdentityFingerprint'' = JStr (replicate 64 0x30)"
  "fld (sample_manifest_of n) ''storageIdentityFingerprint'' = JStr (replicate 64 0x30)"
  "fld (sample_manifest_of n) ''gitGenerationFingerprint'' = JStr (replicate 64 0x30)" "fld (sample_manifest_of n) ''entryCount'' = JInt 1"
  "fld (sample_manifest_of n) ''totalSize'' = JInt 2" "fld (sample_manifest_of n) ''entries'' = JArr [sample_entry]"
  "fld (sample_manifest_of n) ''manifestFingerprint'' = JStr (replicate 64 0x30)"
  by (simp_all add: sample_manifest_of_def manifest_record_def with_field_def sample_input_fld get_own_JObj own_keys_JObj)

lemma sample_manifest_ok:
  assumes "n \<in> {1, 2}"
  shows "validateWorkspaceManifest sample_sha (sample_manifest_of n) = Inr (sample_manifest_of n)"
proof -
  have x: "exact (sample_manifest_of n) MANIFEST_KEYS"
    by (simp add: sample_manifest_of_def manifest_record_def with_field_def exact_def MANIFEST_KEYS_def own_keys_JObj has_key_JObj)
  have i: "isId (JLit ''h'')" "isId (JLit ''w1'')" by (simp_all add: isId_def js_def)
  have g: "isGeneration (JInt n)" using assms by (elim insertE emptyE) (simp_all add: isGeneration_def MAX_SAFE_INTEGER_def is_integral_def)
  have c: "check_entries [sample_entry] None 0 = Inr 2"
    by (simp add: sample_entry_ok add_size_def MAX_SAFE_INTEGER_def)
  have k: "js_eq (JInt 1) (JInt (int (length [sample_entry])))" "js_eq (JInt 2) (JInt 2)" by simp_all
  show ?thesis
    using hex_zeros k g by (simp add: validateWorkspaceManifest_def sample_manifest_fld x i c sample_body(2) [OF assms] MAX_ENTRIES_def del: check_entries.simps)
qed

lemma sample_backup_built:
  assumes "n \<in> {1, 2}"
  shows "computeManifestEntries sample_sha (tree_reader sample_tree) (JArr [JLit ''g/a'']) () = (Inr [sample_entry], ())"
    "buildWorkspaceManifest sample_sha (backup_input (sample_backup_of n) [sample_entry]) = Inr (sample_manifest_of n)"
proof -
  have r: "tree_reader sample_tree (js ''g/a'') () = (Inr [0x68, 0x69], ())" by (simp add: tree_reader_def sample_tree_def)
  show "computeManifestEntries sample_sha (tree_reader sample_tree) (JArr [JLit ''g/a'']) () = (Inr [sample_entry], ())"
    using sample_entry_path r
    by (simp add: computeManifestEntries_def and_then_def sort_entries_def sample_entry_def sample_sha_def)
  show "buildWorkspaceManifest sample_sha (backup_input (sample_backup_of n) [sample_entry]) = Inr (sample_manifest_of n)"
    using sample_manifest_ok [OF assms] sample_body(1) [OF assms]
    by (simp add: buildWorkspaceManifest_def sample_input_fld sample_entry_ok MAX_ENTRIES_def sort_entries_def Let_def
        add_size_def MAX_SAFE_INTEGER_def sample_manifest_of_def [symmetric])
qed

lemma sample_backup:
  "computeDirtyBackup sample_sha (tree_reader sample_tree) sample_backup_request () = (Inr sample_manifest, ())"
proof -
  have x: "exact sample_backup_request DIRTY_BACKUP_REQUEST_KEYS"
    by (simp add: sample_backup_of_def exact_def DIRTY_BACKUP_REQUEST_KEYS_def own_keys_JObj has_key_JObj)
  have p: "fld sample_entry ''path'' = JLit ''g/a''" by (simp add: sample_entry_def)
  have c: "assertDirtyBackupComplete sample_sha sample_manifest (JArr [JLit ''g/a'']) = Inr sample_manifest"
    using sample_manifest_ok [of 1] by (simp add: assertDirtyBackupComplete_def sample_manifest_fld Let_def p)
  show ?thesis using x sample_backup_built [of 1] c by (simp add: computeDirtyBackup_def sample_request_fld and_then_def)
qed

theorem dirty_backup_complete_witness:
  "is_ok (validateWorkspaceManifest sample_sha sample_manifest) \<and>
   file_entry (JLit ''g/a'') (JInt 2) (JStr (sample_sha [0x68, 0x69])) \<in> set (elements (fld sample_manifest ''entries''))"
proof -
  have "\<exists>b. sample_tree (js ''g/a'') = Some b \<and>
      file_entry (JLit ''g/a'') (JInt (int (length b))) (JStr (sample_sha b)) \<in> set (elements (fld sample_manifest ''entries''))"
    "is_ok (validateWorkspaceManifest sample_sha sample_manifest)"
    using dirty_backup_complete [OF sample_backup] by (simp_all add: sample_request_fld)
  then show ?thesis by (simp add: sample_tree_def)
qed

theorem backup_detects_changes_witness:
  "is_ok (fst (verifyManifestAgainst sample_sha (tree_reader sample_tree) sample_manifest ()))"
  using backup_detects_changes [OF sample_backup] by blast

end
