(* ===== verification/Disposal_Witnesses.thy ===== *)
theory Disposal_Witnesses
  imports Lifecycle_Dispatch Tombstone_Witnesses Backup_Witnesses Lease_Witnesses Lifecycle_Witnesses
begin

text \<open>
  A reset of the workspace of the first sample pointer, dispatched from a message.  When its binding cannot be retired, the
  tombstone is published and the manual-cleanup record stays on disk; otherwise it commits.
\<close>

definition reset_message :: jsval where
  "reset_message = record_of [(''operation'', JLit ''reset''), (''hostId'', JLit ''h''), (''mappingId'', JLit ''m''),
     (''mappingGeneration'', JInt 1), (''mappingVersion'', JInt 1), (''workspaceId'', JLit ''w1''), (''workspaceGeneration'', JInt 1),
     (''sourcePlatform'', JLit ''posix''), (''authorityFingerprint'', JLit ''f'')]"

definition reset_binding :: jsval where
  "reset_binding = record_of [(''authorityEpoch'', JInt 5), (''fenceGeneration'', JInt 1), (''hostId'', JLit ''h''), (''mappingId'', JLit ''m''),
     (''mappingGeneration'', JInt 1), (''mappingVersion'', JInt 1), (''workspaceId'', JLit ''w1''), (''workspaceGeneration'', JInt 1),
     (''sourcePlatform'', JLit ''posix''), (''authorityFingerprint'', JLit ''f'')]"

definition reset_inventory :: jsval where
  "reset_inventory = record_of [(''hostId'', JLit ''h''), (''workspaceId'', JLit ''w1''), (''sourcePlatform'', JLit ''posix''),
     (''workDir'', JLit ''/srv/a'')]"

definition reset_context :: jsval where
  "reset_context = record_of [(''lifecycleAuthority'', record_of [(''anchorFingerprint'', JStr (replicate 64 0x30)),
        (''fenceGeneration'', JInt 1), (''txId'', JNull), (''reason'', JLit ''h''), (''expectedFingerprint'', JNull),
        (''observedFingerprint'', JNull), (''expectedFloorFingerprint'', JNull), (''observedFloorFingerprint'', JNull)]),
      (''probeQuiescence'', JOther), (''prepareTerminal'', JOther), (''clearTerminalPreparation'', JOther), (''commitTerminal'', JOther)]"

definition reset_request :: jsval where
  "reset_request = reset_request_of reset_message reset_binding reset_inventory wit_authority reset_context"

definition sample_string :: "jsval \<Rightarrow> jsstr" where
  "sample_string v = (if typeof_string v then str_of v else js ''1'')"

definition sample_dispatch :: dispatch_env where
  "sample_dispatch = \<lparr>de_root = js ''/srv'', de_paths = (\<lambda>_ _. Inr (JArr [JLit ''g/a''])), de_probe = Fin 0\<rparr>"

definition reset_env :: "io_error option \<Rightarrow> disposal_env" where
  "reset_env commit = \<lparr>env_now = (\<lambda>k. of_nat k), env_others = (\<lambda>_ R. R), env_quiescence = Inr (JInt 0, JInt 0),
     env_backup = prepareDirtyBackup sample_string sample_dispatch (\<lambda>_. sample_tree) reset_message ''posix'',
     env_residual = Inr (JArr []), env_commit = commit\<rparr>"

abbreviation retirement_failed :: io_error where
  "retirement_failed \<equiv> Foreign ''RUNTIME_INCOMPATIBLE''"

definition reset_start :: disposal_state where
  "reset_start = \<lparr>ds_registry = wit_R1, ds_fs = sample_slot pointer1 [], ds_barred = False\<rparr>"

abbreviation reset_tombstone :: jsval where
  "reset_tombstone \<equiv> sample_tombstone (JStr (replicate 64 0x30))"

abbreviation sample_cleanup_file :: location where
  "sample_cleanup_file \<equiv> cleanup_location (js ''/srv'') (js ''w1'')"

lemma reset_request_fld:
  "fld reset_request ''operation'' = JLit ''reset''" "fld reset_request ''hostId'' = JLit ''h''"
  "fld reset_request ''workspaceId'' = JLit ''w1''" "fld reset_request ''sourcePlatform'' = JLit ''posix''"
  "fld reset_request ''workDir'' = JLit ''/srv/a''" "fld reset_request ''leaseCandidate'' = wit_authority"
  "fld reset_request ''expectedWorkspaceGeneration'' = JInt 1"
  "fld reset_request ''lifecycleContext'' = reset_context" "fld reset_request ''prepareDirtyBackup'' = JOther"
  by (simp_all add: reset_request_def reset_request_of_def reset_message_def reset_binding_def reset_inventory_def get_own_JObj)

lemma reset_request_ok: "assertRequest reset_request = Inr ()"
proof -
  have "wit_authority \<noteq> JUndefined" "wit_authority \<noteq> JNull" by (simp_all add: wit_authority_def)
  moreover have "isGeneration (JInt 1)" by (simp add: isGeneration_def MAX_SAFE_INTEGER_def is_integral_def)
  moreover have "isNonEmptyString (JLit s)" if "s \<noteq> ''''" for s using that by (simp add: isNonEmptyString_def js_def)
  ultimately show ?thesis
    by (simp add: assertRequest_def reset_request_fld)
      (simp add: reset_request_def reset_request_of_def reset_context_def reset_request_fld get_own_JObj lifecycleAuthority_def exact_def LIFECYCLE_CONTEXT_KEYS_def LIFECYCLE_AUTHORITY_KEYS_def
        own_keys_JObj has_key_JObj is_function_def)
qed

lemma reset_cleanup: "buildManualCleanup sample_sha (lifecycleAuthority reset_request) = Inr sample_cleanup"
proof -
  let ?r = "cleanup_record (lifecycleAuthority reset_request)"
  have r: "?r = record_of [(''version'', JInt 1), (''kind'', JLit ''manual-cleanup''), (''anchorFingerprint'', JStr (replicate 64 0x30)),
     (''fenceGeneration'', JInt 1), (''txId'', JNull), (''reason'', JLit ''h''), (''expectedFingerprint'', JNull),
     (''observedFingerprint'', JNull), (''expectedFloorFingerprint'', JNull), (''observedFloorFingerprint'', JNull),
     (''routeDisposition'', JLit ''no-route''), (''blockedUntilOwnerAction'', JBool True), (''manualCleanupFingerprint'', JNull)]"
    by (simp add: cleanup_record_def lifecycleAuthority_def reset_request_fld reset_context_def get_own_JObj)
  have "canonicalJson STRICT_JSON_LIMITS (without ?r ''manualCleanupFingerprint'') = Inr (render (without ?r ''manualCleanupFingerprint''))"
    unfolding r
    by (simp add: without_def canonicalJson_Inr STRICT_JSON_LIMITS_def MAX_SAFE_INTEGER_def is_integral_def strict_text_replicate_0)
      (simp add: strict_text_def js_def forbidden_control_def surrogate_unat)
  then have "fingerprint sample_sha ?r ''manualCleanupFingerprint'' = Inr (replicate 64 0x30)"
    by (simp add: fingerprint_def canonicalJsonHash_def canonicalJsonBytes_def sample_sha_def)
  moreover have "with_field ?r ''manualCleanupFingerprint'' (JStr (replicate 64 0x30)) = sample_cleanup"
    unfolding r by (simp add: with_field_def sample_cleanup_def own_keys_JObj)
  moreover have "sample_cleanup \<noteq> JNull" by (simp add: sample_cleanup_def)
  ultimately show ?thesis
    using sample_cleanup_ok by (simp add: buildManualCleanup_def classifyWorkspaceLifecycleEvidence_def)
qed

lemma reset_tombstone_built:
  "buildTombstone sample_sha (tombstone_input reset_request (slot_pointer (canon pointer1)) sample_manifest) = Inr reset_tombstone"
proof -
  have c: "fld (canon pointer1) ''pointerFingerprint'' = JStr (replicate 64 0x30)" "fld (canon pointer1) ''activeGeneration'' = JInt 1"
    using pointer_canon(2) [OF pointers_ok(1) pointers_distinct(1)] by (simp_all add: POINTER_KEYS_def pointer1_def sample_pointer_fld)
  let ?r = "with_field reset_tombstone ''tombstoneFingerprint'' JNull"
  have "tombstone_body ?r = tombstone_body reset_tombstone"
    by (simp add: tombstone_body_def TOMBSTONE_KEYS_def sample_tombstone_def with_field_def get_own_JObj own_keys_JObj)
  then have "tombstoneFingerprintOf sample_sha ?r = Inr (replicate 64 0x30)"
    using sample_tombstone_hash [of "JStr (replicate 64 0x30)"] by (simp add: tombstoneFingerprintOf_def)
  then show ?thesis
    using sample_tombstone_ok(1) [of "JStr (replicate 64 0x30)"] c
    by (simp add: buildTombstone_def tombstone_input_def reset_request_fld slot_pointer_def sample_manifest_fld get_own_JObj Let_def
        sample_tombstone_def with_field_def own_keys_JObj null_default_def)
qed

lemma canon_pointer1:
  "fld (canon pointer1) ''hostId'' = JLit ''h''" "fld (canon pointer1) ''workspaceId'' = JLit ''w1''"
  "fld (canon pointer1) ''sourcePlatform'' = JLit ''posix''" "fld (canon pointer1) ''activeGeneration'' = JInt 1"
  "fld (canon pointer1) ''rootIdentityFingerprint'' = JStr (replicate 64 0x30)"
  "fld (canon pointer1) ''storageIdentityFingerprint'' = JStr (replicate 64 0x30)"
  "fld (canon pointer1) ''gitGenerationFingerprint'' = JStr (replicate 64 0x30)"
  "fld (canon pointer1) ''pointerFingerprint'' = JStr (replicate 64 0x30)"
  using pointer_canon(2) [OF pointers_ok(1) pointers_distinct(1)] by (simp_all add: POINTER_KEYS_def pointer1_def sample_pointer_fld)

lemma reset_backup: "env_backup (reset_env commit) (slot_pointer (canon pointer1)) = Inr (sample_backup_request, sample_tree)"
proof -
  have "isGeneration (JInt 1)" by (simp add: isGeneration_def MAX_SAFE_INTEGER_def is_integral_def)
  moreover have "fld reset_message ''hostId'' = JLit ''h''" "fld reset_message ''workspaceId'' = JLit ''w1''" "fld reset_message ''sourcePlatform'' = JLit ''posix''"
    by (simp_all add: reset_message_def get_own_JObj)
  ultimately show ?thesis
    using hex_zeros canon_pointer1
    by (simp add: reset_env_def prepareDirtyBackup_def slot_pointer_def sample_dispatch_def sample_backup_of_def Let_def)
qed

lemma reset_guards:
  "dispose_guards sample_sha (reset_env commit) (createAtomicPointerIo False (sample_suffix ''7'') sample_live) reset_request 0
     (reset_start\<lparr>ds_registry := wit_R2\<rparr>) =
   (Inr (slot_pointer (canon pointer1), sample_manifest), reset_start\<lparr>ds_registry := wit_R2\<rparr>)"
proof -
  let ?s = "reset_start\<lparr>ds_registry := wit_R2\<rparr>"
  have s: "suspend (reset_env commit) k s = s" for k s by (simp add: suspend_def reset_env_def)
  have q: "assertQuiescent (JInt 0) (JInt 0) = Inr ()" by (simp add: assertQuiescent_def MAX_SAFE_INTEGER_def is_integral_def)
  have "isCurrent 0 wit_R2 = Inr True" using exclusive_lease.acquire_current [OF reachable_ok [OF wit_reachable1] wit_acquire] by simp
  then have f: "assertFenceCurrent 0 x ?s = Inr ()" for x by (simp add: assertFenceCurrent_def)
  have rd: "in_fs (readLiveDisposition sample_sha (createAtomicPointerIo False (sample_suffix ''7'') sample_live)) ?s =
      (Inr (Some (slot_pointer (canon pointer1))), ?s)"
    using pointer1_slot
    by (simp add: in_fs_def readLiveDisposition_def createAtomicPointerIo_def readBytesOrNull_def readFile_def fs_call_def
        next_fault_def sample_slot_def reset_start_def)
  have a: "accept_live reset_request (Some (slot_pointer (canon pointer1))) = Inr (slot_pointer (canon pointer1))"
    using canon_pointer1 by (simp add: accept_live_def slot_pointer_def reset_request_fld)
  have p: "plain sample_backup_request" by (simp add: sample_backup_of_def)
  have e: "env_quiescence (reset_env commit) = Inr (JInt 0, JInt 0)" by (simp add: reset_env_def)
  note bk = reset_backup
  have r: "assertResidualProcessAbsence (env_residual (reset_env commit)) (JLit ''h'') (JLit ''w1'') (JLit ''/srv/a'') (JLit ''posix'') = Inr ()"
    by (simp add: assertResidualProcessAbsence_def reset_env_def isNonEmptyString_def js_def)
  show ?thesis
    using q by (simp add: dispose_guards_def s e bk f rd a p r sample_backup reset_request_fld)
qed

text \<open>The files after the preparation, and after the publication.\<close>

lemma apart: "sample_cleanup_file \<noteq> sample_live" "sample_live \<noteq> sample_cleanup_file"
  "temp_location (sample_suffix ''7'') sample_cleanup_file n \<noteq> sample_live" "temp_location (sample_suffix ''7'') sample_live n \<noteq> sample_cleanup_file"
  using slot_and_cleanup_apart [of "sample_suffix ''7''" "js ''/srv''" "js ''w1''"] by (metis outside_def)+

definition prepared :: fs where
  "prepared = \<lparr>files = [(sample_live, utf8 (render pointer1)), (sample_cleanup_file, utf8 (render sample_cleanup))], faults = [], tempCounter = 1\<rparr>"

definition disposed_files :: fs where
  "disposed_files = \<lparr>files = [(sample_live, utf8 (render reset_tombstone)), (sample_cleanup_file, utf8 (render sample_cleanup))],
     faults = [], tempCounter = 2\<rparr>"

lemma sample_cleanup_bytes: "canonicalJsonBytes STRICT_JSON_LIMITS sample_cleanup = Inr (utf8 (render sample_cleanup))"
proof -
  have "canonicalJson STRICT_JSON_LIMITS sample_cleanup = Inr (render sample_cleanup)"
    by (simp add: sample_cleanup_def canonicalJson_Inr STRICT_JSON_LIMITS_def MAX_SAFE_INTEGER_def is_integral_def strict_text_replicate_0)
      (simp add: strict_text_def js_def forbidden_control_def surrogate_unat)
  then show ?thesis by (simp add: canonicalJsonBytes_def)
qed

lemma reset_prepared:
  "publish_cleanup sample_sha False (sample_suffix ''7'') sample_cleanup_file sample_cleanup (sample_slot pointer1 []) = (Published, prepared)"
  using sample_cleanup_ok sample_cleanup_bytes apart apart(3) [THEN not_sym]
  by (simp add: publish_cleanup_def readBytesOrNull_def readFile_def fs_call_def next_fault_def sample_slot_def storage_writeTemp_def
      io_then_def open_wx_def write_handle_def sync_handle_def rename_def storage_flushParent_def tolerate_def open_directory_def
      unsupported_def Let_def mhas_def mput_def mdel_def prepared_def)

lemma reset_published:
  "\<exists>pub. publishTombstone sample_sha (createAtomicPointerIo False (sample_suffix ''7'') sample_live) reset_tombstone prepared =
     (Inr pub, disposed_files)"
proof -
  note ok = sample_tombstone_ok [of "JStr (replicate 64 0x30)"]
  have b: "tombstoneBytes sample_sha reset_tombstone = Inr (utf8 (render reset_tombstone))"
    using tombstone_stored(1) [of sample_sha reset_tombstone] ok by simp
  show ?thesis
    using ok b sample_tombstone_chains pointer1_slot apart apart(4) [THEN not_sym]
    by (simp add: publishTombstone_def readLiveDisposition_def createAtomicPointerIo_def readBytesOrNull_def readFile_def
        fs_call_def next_fault_def prepared_def and_then_def run_steps_def runStep_def storage_writeTemp_def io_then_def
        open_wx_def write_handle_def sync_handle_def rename_def storage_flushParent_def tolerate_def open_directory_def
        unsupported_def Let_def mhas_def mput_def mdel_def disposed_files_def)
qed

definition cleared_files :: fs where
  "cleared_files = \<lparr>files = [(sample_live, utf8 (render reset_tombstone))], faults = [], tempCounter = 2\<rparr>"

lemma reset_cleared: "clear_cleanup False sample_cleanup_file disposed_files = (Inr (), cleared_files)"
  using apart
  by (simp add: clear_cleanup_def unlink_def fs_call_def next_fault_def disposed_files_def cleared_files_def mhas_def mdel_def
      storage_flushParent_def io_then_def tolerate_def open_directory_def sync_handle_def unsupported_def)

section \<open>The run\<close>

lemma reset_guarded_run:
  assumes "dispose_publish sample_sha (reset_env commit) (createAtomicPointerIo False (sample_suffix ''7'') sample_live)
      (publish_cleanup sample_sha False (sample_suffix ''7'') sample_cleanup_file) (clear_cleanup False sample_cleanup_file) reset_request sample_cleanup 0
      (lease_fence 0 wit_R2) (slot_pointer (canon pointer1)) sample_manifest (reset_start\<lparr>ds_registry := wit_R2\<rparr>) =
     (r, \<lparr>ds_registry = wit_R2, ds_fs = w, ds_barred = b\<rparr>)"
  shows "runResetDelete sample_sha False (sample_suffix ''7'') (js ''/srv'') (reset_env commit) reset_request reset_start =
     (r, \<lparr>ds_registry = release 0 1 wit_R2, ds_fs = w, ds_barred = b\<rparr>)"
proof -
  have "suspend (reset_env commit) k s = s" "env_now (reset_env commit) 0 = 0" "env_now (reset_env commit) 1 = 1" for k s
    by (simp_all add: suspend_def reset_env_def)
  then show ?thesis
    using assms reset_guards wit_acquire
    by (simp add: runResetDelete_def Let_def reset_request_ok reset_cleanup reset_request_fld createGenerationPublisherIo_def reset_start_def
      del: One_nat_def)
qed

text \<open>The publication, up to the retirement of the binding.\<close>

lemma reset_publication:
  "\<exists>pub. \<forall>commit fence. dispose_publish sample_sha (reset_env commit) (createAtomicPointerIo False (sample_suffix ''7'') sample_live)
      (publish_cleanup sample_sha False (sample_suffix ''7'') sample_cleanup_file) (clear_cleanup False sample_cleanup_file) reset_request sample_cleanup 0
      fence (slot_pointer (canon pointer1)) sample_manifest (reset_start\<lparr>ds_registry := wit_R2\<rparr>) =
     (case commit of Some e \<Rightarrow> (Inl e, \<lparr>ds_registry = wit_R2, ds_fs = disposed_files, ds_barred = True\<rparr>)
      | None \<Rightarrow> (Inr (make_receipt reset_request reset_tombstone sample_manifest fence (Disposal_committed pub)),
          \<lparr>ds_registry = wit_R2, ds_fs = cleared_files, ds_barred = True\<rparr>))"
proof -
  obtain pub where pub: "publishTombstone sample_sha (createAtomicPointerIo False (sample_suffix ''7'') sample_live) reset_tombstone prepared =
      (Inr pub, disposed_files)" using reset_published by blast
  have cur: "isCurrent 0 wit_R2 = Inr True" using exclusive_lease.acquire_current [OF reachable_ok [OF wit_reachable1] wit_acquire] by simp
  have s: "suspend (reset_env commit) k s = s" "env_commit (reset_env commit) = commit" for commit k s by (simp_all add: suspend_def reset_env_def)
  show ?thesis
    by (rule exI [of _ pub])
      (simp add: dispose_publish_def reset_tombstone_built in_fs_def reset_start_def reset_prepared s cur dispose_slot_def pub commitTerminal_def
        reset_cleared split: option.splits)
qed

lemma reset_run:
  "runResetDelete sample_sha False (sample_suffix ''7'') (js ''/srv'') (reset_env (Some retirement_failed)) reset_request reset_start =
     (Inl retirement_failed, \<lparr>ds_registry = release 0 1 wit_R2, ds_fs = disposed_files, ds_barred = True\<rparr>)"
  by (rule reset_guarded_run) (use reset_publication in force)

lemma reset_changes: "utf8 (render reset_tombstone) \<noteq> utf8 (render pointer1)"
  using pointer1_slot slot_of_tombstone [of sample_sha reset_tombstone] sample_tombstone_ok [of "JStr (replicate 64 0x30)"] kinds_differ
  by (auto simp: slot_holds_def slot_pointer_def slot_tombstone_def)

lemma reset_start_ok: "honest_faults (ds_fs reset_start)" "reachable (ds_registry reset_start)" "fair_env (reset_env commit)"
  by (simp_all add: reset_start_def sample_slot_def honest_faults_def wit_reachable1 fair_env_def reset_env_def)


theorem disposal_write_ahead_witness:
  "\<exists>b. canonicalJsonBytes STRICT_JSON_LIMITS sample_cleanup = Inr b \<and> map_of (files disposed_files) sample_cleanup_file = Some b"
proof -
  have "map_of (files disposed_files) sample_live \<noteq> map_of (files (ds_fs reset_start)) sample_live"
    using reset_changes by (simp add: disposed_files_def reset_start_def sample_slot_def)
  then show ?thesis
    using disposal_write_ahead [OF reset_start_ok(1) reset_run] by (simp add: reset_request_fld reset_cleanup)
qed

theorem disposal_releases_fence_witness: "isCurrent 0 (release 0 1 wit_R2) = Inr False"
proof -
  have "createExclusiveFence (fld reset_request ''leaseCandidate'') (env_now (reset_env (Some retirement_failed)) 0) (ds_registry reset_start) = (Inr 0, wit_R2)"
    using wit_acquire by (simp add: reset_request_fld reset_env_def reset_start_def)
  from disposal_releases_fence [OF reset_start_ok(2,3) reset_request_ok reset_cleanup this reset_run] show ?thesis by simp
qed

section \<open>The dispatch of the message\<close>

definition reset_receipt :: "tombstoned \<Rightarrow> receipt" where
  "reset_receipt pub = make_receipt reset_request reset_tombstone sample_manifest (lease_fence 0 wit_R2) (Disposal_committed pub)"

lemma reset_dispatched:
  "\<exists>pub. dispatchResetDelete sample_string sample_sha False (sample_suffix ''7'') sample_dispatch (\<lambda>_. sample_tree) (reset_env None)
     reset_message reset_binding reset_inventory wit_authority reset_context (record_of []) reset_start =
   (Reset_committed (reset_receipt pub), \<lparr>ds_registry = release 0 1 wit_R2, ds_fs = cleared_files, ds_barred = True\<rparr>)"
proof -
  have "matchesReceiptLifecycleAuthority reset_message reset_binding" "inventory_guard reset_message reset_inventory = None"
    "isObject reset_message" "isObject reset_binding" "str_in (fld reset_message ''operation'') [''reset'', ''delete'']" "isObject wit_authority"
    by (simp_all add: matchesReceiptLifecycleAuthority_def inventory_guard_def reset_message_def reset_binding_def reset_inventory_def
        wit_authority_def RECEIPT_LIFECYCLE_FIELDS_def isNonEmptyString_def js_def get_own_JObj MAX_SAFE_INTEGER_def is_integral_def)
  moreover have "has_exact_keys reset_context LIFECYCLE_CONTEXT_KEYS" "has_exact_keys (fld reset_context ''lifecycleAuthority'') LIFECYCLE_AUTHORITY_KEYS"
    "is_function (fld reset_context ''probeQuiescence'')" "is_function (fld reset_context ''prepareTerminal'')"
    "is_function (fld reset_context ''clearTerminalPreparation'')" "is_function (fld reset_context ''commitTerminal'')"
    by (simp_all add: has_exact_keys_def reset_context_def LIFECYCLE_CONTEXT_KEYS_def LIFECYCLE_AUTHORITY_KEYS_def own_keys_JObj has_key_JObj
        get_own_JObj is_function_def)
  ultimately have g: "reset_guard reset_message reset_binding reset_inventory wit_authority reset_context (record_of []) = None"
    by (simp add: reset_guard_def)
  have pf: "MATERIALIZER_PLATFORM (fld reset_message ''sourcePlatform'') = Some ''posix''"
    by (simp add: MATERIALIZER_PLATFORM_def reset_message_def get_own_JObj)
  have env: "(reset_env None)\<lparr>env_backup := prepareDirtyBackup sample_string sample_dispatch (\<lambda>_. sample_tree) reset_message ''posix''\<rparr> = reset_env None"
    by (simp add: reset_env_def)
  obtain pub where "runResetDelete sample_sha False (sample_suffix ''7'') (js ''/srv'') (reset_env None) reset_request reset_start =
     (Inr (reset_receipt pub), \<lparr>ds_registry = release 0 1 wit_R2, ds_fs = cleared_files, ds_barred = True\<rparr>)"
    using reset_guarded_run reset_publication unfolding reset_receipt_def by (metis option.simps(4))
  moreover have "de_root sample_dispatch = js ''/srv''" "rc_disposition (reset_receipt pub) = Disposal_committed pub"
    by (simp_all add: sample_dispatch_def reset_receipt_def make_receipt_def)
  ultimately have "dispatchResetDelete sample_string sample_sha False (sample_suffix ''7'') sample_dispatch (\<lambda>_. sample_tree) (reset_env None)
     reset_message reset_binding reset_inventory wit_authority reset_context (record_of []) reset_start =
   (Reset_committed (reset_receipt pub), \<lparr>ds_registry = release 0 1 wit_R2, ds_fs = cleared_files, ds_barred = True\<rparr>)"
    unfolding dispatchResetDelete_def g pf option.case env reset_request_def [symmetric] by (simp add: reset_reply_def)
  then show ?thesis by blast
qed

theorem reset_outcome_truthful_witness:
  "\<exists>d. slot_holds sample_sha (Some (utf8 (render pointer1))) (Some d) \<and> lr_kind d = POINTER_KIND \<and>
     fld (lr_record d) ''activeGeneration'' = JInt 1"
proof -
  have p: "sample_live = live_location (de_root sample_dispatch) (str_of (fld reset_message ''workspaceId''))"
    by (simp add: sample_dispatch_def reset_message_def get_own_JObj)
  obtain pub where "dispatchResetDelete sample_string sample_sha False (sample_suffix ''7'') sample_dispatch (\<lambda>_. sample_tree) (reset_env None)
     reset_message reset_binding reset_inventory wit_authority reset_context (record_of []) reset_start =
   (Reset_committed (reset_receipt pub), \<lparr>ds_registry = release 0 1 wit_R2, ds_fs = cleared_files, ds_barred = True\<rparr>)"
    using reset_dispatched by blast
  from reset_outcome_truthful [OF reset_start_ok(1) p this] show ?thesis
    by (auto simp: reset_start_def sample_slot_def reset_binding_def get_own_JObj)
qed

end
