(* ===== verification/Generation_Witnesses.thy ===== *)
theory Generation_Witnesses
  imports Disposal_Witnesses
begin

text \<open>
  The creation of the first sample generation and its refresh to the second, with every proof at hand, and the refusal
  of both by the dispatchers.
\<close>

definition live_dimension :: "string \<Rightarrow> jsval" where
  "live_dimension st = record_of [(''state'', JLit st), (''source'', JLit ''live'')]"

definition sample_readiness :: jsval where
  "sample_readiness = record_of [(''connection'', live_dimension ''online''), (''runtime'', live_dimension ''ready''),
     (''providerAuth'', live_dimension ''configured''), (''modelProfile'', live_dimension ''ready'')]"

definition generation_request :: "string \<Rightarrow> jsval" where
  "generation_request opn = record_of [(''operation'', JLit opn), (''hostId'', JLit ''h''), (''workspaceId'', JLit ''w1''),
     (''sourcePlatform'', JLit ''posix''), (''workDir'', JLit ''/srv/a''), (''generationPath'', JLit ''g/a''), (''candidatePath'', JLit ''/c''),
     (''gitDir'', JLit ''/d''), (''manifestPaths'', JArr [JLit ''g/a'']), (''activeGeneration'', JInt 1), (''probedAtMs'', JInt 0),
     (''readiness'', sample_readiness), (''leaseCandidate'', wit_authority),
     (''expected'', record_of [(''pointerFingerprint'', JStr (replicate 64 0x30))])]"

definition generation_sample :: generation_env where
  "generation_sample = \<lparr>ge_others = (\<lambda>_ R. R), ge_now = of_nat, ge_clock = (\<lambda>_. Fin 0), ge_root = Inr (record_of [], record_of []),
     ge_materialize = (\<lambda>_. Inr ()), ge_contained = (\<lambda>_ _. Inr ()), ge_graph = (\<lambda>_ _. Inr (JStr (replicate 64 0x30))), ge_tree = sample_tree\<rparr>"

definition sample_window :: replay_window where
  "sample_window = \<lparr>w_maxAgeMs = 5, w_seen = [], w_lastNowMs = None\<rparr>"

definition generation_start :: "fs \<Rightarrow> generation_state" where
  "generation_start w = \<lparr>gs_registry = wit_R1, gs_fs = w, gs_window = sample_window\<rparr>"

lemma generation_request_fld:
  "fld (generation_request opn) ''operation'' = JLit opn" "fld (generation_request opn) ''hostId'' = JLit ''h''"
  "fld (generation_request opn) ''workspaceId'' = JLit ''w1''" "fld (generation_request opn) ''sourcePlatform'' = JLit ''posix''"
  "fld (generation_request opn) ''workDir'' = JLit ''/srv/a''" "fld (generation_request opn) ''generationPath'' = JLit ''g/a''"
  "fld (generation_request opn) ''candidatePath'' = JLit ''/c''" "fld (generation_request opn) ''gitDir'' = JLit ''/d''"
  "fld (generation_request opn) ''manifestPaths'' = JArr [JLit ''g/a'']" "fld (generation_request opn) ''activeGeneration'' = JInt 1"
  "fld (generation_request opn) ''probedAtMs'' = JInt 0" "fld (generation_request opn) ''readiness'' = sample_readiness"
  "fld (generation_request opn) ''leaseCandidate'' = wit_authority"
  "fld (generation_request opn) ''expected'' = record_of [(''pointerFingerprint'', JStr (replicate 64 0x30))]"
  "fld (generation_request opn) ''priorGeneration'' = JUndefined" "fld (generation_request opn) ''priorPointerFingerprint'' = JUndefined"
  by (simp_all add: generation_request_def get_own_JObj)

section \<open>The candidate\<close>

lemma sample_identity: "canonicalJsonHash sample_sha IDENTITY_LIMITS (record_of []) = Inr (replicate 64 0x30)"
proof -
  have "canonicalJson IDENTITY_LIMITS (record_of []) = Inr (render (record_of []))"
    by (simp add: canonicalJson_Inr IDENTITY_LIMITS_def)
  then show ?thesis by (simp add: canonicalJsonHash_def canonicalJsonBytes_def sample_sha_def)
qed

lemma sample_candidate_manifest:
  assumes "n \<in> {1, 2}"
  shows "candidate_manifest sample_sha sample_tree (generation_request opn) (JInt n) (replicate 64 0x30) (replicate 64 0x30) (JStr (replicate 64 0x30)) =
    Inr (sample_manifest_of n)"
  using sample_backup_built [OF assms]
  by (simp add: candidate_manifest_def generation_request_fld backup_input_def sample_request_fld)

lemma sample_candidate_pointer:
  assumes "n = 1 \<and> a = JNull \<and> b = JNull \<or> n = 2 \<and> a = JInt 1 \<and> b = JStr (replicate 64 0x30)"
  shows "candidate_pointer sample_sha (generation_request opn) (JInt n) (replicate 64 0x30) (replicate 64 0x30) (JStr (replicate 64 0x30))
      (sample_manifest_of n) a b = Inr (sample_pointer n a b)"
proof -
  have ok: "validateGenerationPointer sample_sha (sample_pointer n a b) = Inr (sample_pointer n a b)"
    using pointers_ok assms unfolding pointer1_def pointer2_def by (auto simp only: pointer_Inr)
  have h: "pointerFingerprintOf sample_sha (sample_pointer n a b) = Inr (replicate 64 0x30)" using pointer_hashes assms by auto
  have nd: "null_default a = a" "null_default b = b" using assms by (auto simp: null_default_def)
  let ?r = "with_field (sample_pointer n a b) ''pointerFingerprint'' JNull"
  have "pointer_body ?r = pointer_body (sample_pointer n a b)"
    by (simp add: pointer_body_def POINTER_KEYS_def sample_pointer_def with_field_def get_own_JObj own_keys_JObj)
  then have "pointerFingerprintOf sample_sha ?r = Inr (replicate 64 0x30)" using h by (simp add: pointerFingerprintOf_def)
  then show ?thesis
    using ok sample_path nd
    by (simp add: candidate_pointer_def buildGenerationPointer_def generation_request_fld sample_manifest_fld get_own_JObj Let_def
        sample_pointer_def with_field_def own_keys_JObj)
qed

lemma sample_candidate:
  assumes "n = 1 \<and> a = JNull \<and> b = JNull \<or> n = 2 \<and> a = JInt 1 \<and> b = JStr (replicate 64 0x30)"
  shows "candidate sample_sha generation_sample (generation_request opn) (record_of [], record_of []) (JStr (replicate 64 0x30)) (JInt n) a b =
    Inr (sample_manifest_of n, sample_pointer n a b)"
proof -
  have "ge_tree generation_sample = sample_tree" by (simp add: generation_sample_def)
  then show ?thesis
    using sample_identity sample_candidate_manifest [of n opn] sample_candidate_pointer [OF assms, of opn] assms
    unfolding candidate_def by auto
qed

section \<open>The attestation\<close>

definition sample_attestation :: attestation where
  "sample_attestation = \<lparr>at_generationPointerFingerprint = JStr (replicate 64 0x30), at_probedAtMs = JInt 0, at_readinessFingerprint = replicate 64 0x30\<rparr>"

lemma sample_attested:
  "evaluateGenerationReadiness sample_string sample_sha (readiness_evidence (generation_request opn) (sample_pointer n a b) (Fin 0) 5) = Inr sample_attestation"
proof -
  let ?e = "readiness_evidence (generation_request opn) (sample_pointer n a b) (Fin 0) 5"
  let ?fp = "record_of (map (\<lambda>k. (k, JStr (replicate 64 0x30))) GENERATION_FINGERPRINTS)"
  let ?w = "record_of [(''state'', JLit ''ready''), (''source'', JLit ''live''), (''generation'', ?fp), (''expected'', ?fp)]"
  let ?f = "record_of [(''probedAtMs'', JInt 0), (''nowMs'', JInt 0), (''maxAgeMs'', JInt 5)]"
  have fp: "generation_fingerprints (sample_pointer n a b) = ?fp"
    by (simp add: generation_fingerprints_def GENERATION_FINGERPRINTS_def sample_pointer_fld)
  have e: "?e = record_of [(''connection'', live_dimension ''online''), (''runtime'', live_dimension ''ready''),
      (''providerAuth'', live_dimension ''configured''), (''modelProfile'', live_dimension ''ready''), (''workspace'', ?w), (''freshness'', ?f)]"
    unfolding readiness_evidence_def fp
    by (simp add: CALLER_DIMENSIONS_def generation_request_fld sample_readiness_def get_own_JObj)
  have x: "exact ?e (DIMENSIONS @ [''freshness''])"
    unfolding e by (simp add: exact_def DIMENSIONS_def own_keys_JObj has_key_JObj)
  have d: "fld ?e ''connection'' = live_dimension ''online''" "fld ?e ''runtime'' = live_dimension ''ready''"
    "fld ?e ''providerAuth'' = live_dimension ''configured''" "fld ?e ''modelProfile'' = live_dimension ''ready''"
    "fld ?e ''workspace'' = ?w" "fld ?e ''freshness'' = ?f"
    unfolding e by (simp_all add: get_own_JObj)
  have l: "assertLiveSource sample_string k (live_dimension st) = Inr ()" "fld (live_dimension st) ''state'' = JLit st" for k st
    by (simp_all add: assertLiveSource_def live_dimension_def exact_def own_keys_JObj has_key_JObj get_own_JObj)
  have w: "assertLiveSource sample_string ''workspace'' ?w = Inr ()" "fld ?w ''state'' = JLit ''ready''"
    by (simp_all add: assertLiveSource_def get_own_JObj)
  have "exact ?w [''state'', ''source'', ''generation'', ''expected'']" "exact ?fp GENERATION_FINGERPRINTS"
    by (simp_all add: exact_def GENERATION_FINGERPRINTS_def own_keys_JObj has_key_JObj)
  then have b: "assertGenerationBinding ?w = Inr ?fp"
    using hex_zeros by (simp add: assertGenerationBinding_def binding_side_def GENERATION_FINGERPRINTS_def get_own_JObj)
  have fr: "check_freshness ?f = Inr ()"
    by (simp add: check_freshness_def exact_def own_keys_JObj has_key_JObj get_own_JObj MAX_SAFE_INTEGER_def is_integral_def)
  have "canonicalJson READINESS_LIMITS (attestation_body ?fp (JInt 0)) = Inr (render (attestation_body ?fp (JInt 0)))"
    by (simp add: attestation_body_def GENERATION_FINGERPRINTS_def get_own_JObj canonicalJson_Inr READINESS_LIMITS_def MAX_SAFE_INTEGER_def
        is_integral_def strict_text_replicate_0)
      (simp add: strict_text_def js_def forbidden_control_def surrogate_unat)
  then have "canonicalJsonHash sample_sha READINESS_LIMITS (attestation_body ?fp (JInt 0)) = Inr (replicate 64 0x30)"
    by (simp add: canonicalJsonHash_def canonicalJsonBytes_def sample_sha_def)
  then have i: "issue_attestation sample_sha ?fp (JInt 0) = Inr sample_attestation"
    by (simp add: issue_attestation_def sample_attestation_def GENERATION_FINGERPRINTS_def get_own_JObj)
  have p: "fld ?f ''probedAtMs'' = JInt 0" by (simp add: get_own_JObj)
  have "for_each (\<lambda>k. assertLiveSource sample_string k (fld ?e k)) DIMENSIONS = Inr ()"
    using l(1) w(1) unfolding DIMENSIONS_def for_each.simps d by simp
  then show ?thesis
    using x b fr i p l(2) w(2) unfolding evaluateGenerationReadiness_def state_of_def d Let_def by simp
qed

theorem attestation_proves_witness:
  "map (state_of (readiness_evidence (generation_request ''create'') pointer1 (Fin 0) 5)) DIMENSIONS =
     map JLit [''online'', ''ready'', ''configured'', ''ready'', ''ready''] \<and>
   isHex64 (fld (fld (fld (readiness_evidence (generation_request ''create'') pointer1 (Fin 0) 5) ''workspace'') ''generation'') ''pointerFingerprint'')"
proof -
  have "evaluateGenerationReadiness sample_string sample_sha (readiness_evidence (generation_request ''create'') pointer1 (Fin 0) 5) = Inr sample_attestation"
    unfolding pointer1_def by (rule sample_attested)
  note a = attestation_proves [OF this]
  from a [THEN conjunct2, THEN conjunct1] a [THEN conjunct2, THEN conjunct2, THEN conjunct1] show ?thesis
    unfolding GENERATION_FINGERPRINTS_def list.pred_inject by blast
qed

section \<open>The runs\<close>

lemma sample_attest:
  assumes "gs_window s = sample_window"
  shows "\<exists>W. attest sample_string sample_sha 5 refuse generation_sample (generation_request opn) (sample_pointer n a b) s =
    (Inr sample_attestation, s\<lparr>gs_window := W\<rparr>)"
proof -
  have fp: "assertFingerprint (JStr (replicate 64 0x30)) = Inr (replicate 64 0x30)"
    by (simp add: assertFingerprint_def)
  have "\<exists>W. single_use generation_sample (replicate 64 0x30) sample_window W"
    using fp by (simp add: single_use_def window_has_def window_add_def readClock_def generation_sample_def sample_window_def evict_def mhas_def Let_def)
  then obtain W where "single_use generation_sample (at_readinessFingerprint sample_attestation) (gs_window s) W"
    using assms by (auto simp: sample_attestation_def)
  moreover have "ge_clock generation_sample 0 = Fin 0" by (simp add: generation_sample_def)
  ultimately show ?thesis using sample_attested by (auto simp: attest_Inr)
qed

lemma generation_request_checks:
  "request_strings refuse (generation_request opn) = Inr ()" "request_paths refuse (generation_request opn) = Inr ()"
  "request_probe refuse (generation_request opn) = Inr ()" "plain (generation_request opn)"
proof -
  have "isNonEmptyString (JLit s)" if "s \<noteq> ''''" for s using that by (simp add: isNonEmptyString_def js_def)
  then show "request_strings refuse (generation_request opn) = Inr ()"
    by (simp add: request_strings_def REQUEST_STRINGS_def generation_request_fld)
  show "request_paths refuse (generation_request opn) = Inr ()" by (simp add: request_paths_def generation_request_fld)
  show "request_probe refuse (generation_request opn) = Inr ()"
    by (simp add: request_probe_def generation_request_fld sample_readiness_def live_dimension_def CALLER_DIMENSIONS_def get_own_JObj
        MAX_SAFE_INTEGER_def is_integral_def)
  show "plain (generation_request opn)" by (simp add: generation_request_def)
qed

lemma create_request_ok: "create_assertRequest (generation_request ''create'') = Inr ()"
proof -
  have "isGeneration (JInt 1)" by (simp add: isGeneration_def MAX_SAFE_INTEGER_def is_integral_def)
  then show ?thesis by (simp add: create_assertRequest_def generation_request_checks generation_request_fld)
qed

lemma refresh_request_ok: "refresh_assertRequest (generation_request ''refresh'') = Inr ()"
proof -
  have "wit_authority \<noteq> JUndefined" "wit_authority \<noteq> JNull" by (simp_all add: wit_authority_def)
  then show ?thesis
    by (simp add: refresh_assertRequest_def generation_request_checks generation_request_fld get_own_JObj isNonEmptyString_def Let_def)
qed

lemma generation_sample_steps:
  "ge_root generation_sample = Inr (record_of [], record_of [])" "ge_materialize generation_sample v = Inr ()"
  "ge_contained generation_sample u v = Inr ()" "ge_graph generation_sample u v = Inr (JStr (replicate 64 0x30))"
  "gen_suspend generation_sample k s = s" "ge_others generation_sample k R = R" "ge_now generation_sample 0 = 0"
  by (simp_all add: generation_sample_def gen_suspend_def)

abbreviation sample_io :: "(location, fs) pointer_io" where
  "sample_io \<equiv> createAtomicPointerIo False (sample_suffix ''7'') sample_live"

lemma sample_created:
  "\<exists>r s'. runCreateClone sample_string sample_sha 5 generation_sample sample_io (generation_request ''create'') (generation_start (sample_fs [])) = (r, s') \<and>
     slot_of sample_live s' = Some (utf8 (render pointer1))"
proof -
  let ?s = "generation_start (sample_fs [])"
  obtain W where a: "attest sample_string sample_sha 5 create_refuse generation_sample (generation_request ''create'') pointer1 ?s =
      (Inr sample_attestation, ?s\<lparr>gs_window := W\<rparr>)"
    using sample_attest [of ?s create_refuse "''create''" 1 JNull JNull] by (auto simp: generation_start_def pointer1_def)
  have "live_pointer sample_sha (map_of (files (sample_fs [])) sample_live) None" "follows pointer1 None"
    by (simp_all add: sample_fs_def live_pointer_def follows_def pointer1_def sample_pointer_fld)
  then obtain r w where p: "publishGeneration sample_sha sample_io pointer1 (sample_fs []) = (Inr r, w)"
    "map_of (files w) sample_live = Some (utf8 (render pointer1))"
    using publish_no_faults [of "sample_fs []" "sample_suffix ''7''" sample_live sample_sha pointer1 None False] pointers_ok(1) pointers_distinct(1)
    by (auto simp: sample_fs_def mhas_def)
  have "candidate sample_sha generation_sample (generation_request ''create'') (record_of [], record_of []) (JStr (replicate 64 0x30)) (JInt 1) JNull JNull =
    Inr (sample_manifest_of 1, pointer1)"
    unfolding pointer1_def by (rule sample_candidate) simp
  then show ?thesis
    using a p
    by (simp add: runCreateClone_def create_request_ok generation_sample_steps generation_request_fld null_default_def gen_fs_def
        generation_start_def slot_of_def)
qed

theorem creation_guarded_witness:
  "\<exists>q W. utf8 (render pointer1) = utf8 (render q) \<and> is_ok (validateGenerationPointer sample_sha q) \<and> fld q ''activeGeneration'' = JInt 1 \<and>
     generation_proven sample_string sample_sha 5 generation_sample (generation_request ''create'') q sample_window W"
proof -
  obtain r s' where run: "runCreateClone sample_string sample_sha 5 generation_sample sample_io (generation_request ''create'')
      (generation_start (sample_fs [])) = (r, s')" and slot: "slot_of sample_live s' = Some (utf8 (render pointer1))"
    using sample_created by blast
  have "honest_faults (gs_fs (generation_start (sample_fs [])))" "slot_of sample_live (generation_start (sample_fs [])) = None"
    "gs_window (generation_start (sample_fs [])) = sample_window"
    by (simp_all add: generation_start_def sample_fs_def honest_faults_def slot_of_def)
  with creation_guarded [OF _ run] slot show ?thesis by (auto simp: generation_request_fld)
qed

definition sample_R2 :: registry where
  "sample_R2 = snd (createActivityFence wit_authority 0 wit_R1)"

lemma sample_activity: "createActivityFence wit_authority 0 wit_R1 = (Inr 0, sample_R2)" "isCurrent 0 sample_R2 = Inr True"
proof -
  have "fst (createActivityFence wit_authority 0 wit_R1) = Inr 0"
    by (simp add: createActivityFence_def acquireActivity_def wit_required wit_R1_def wit_R0_def wit_ws undef_def
        wit_reads wit_same entry_of_def admit_entry_def reserve_def fresh_entry_def Let_def)
  then show f: "createActivityFence wit_authority 0 wit_R1 = (Inr 0, sample_R2)" by (simp add: sample_R2_def prod_eq_iff)
  show "isCurrent 0 sample_R2 = Inr True" using shared_lease.acquire_current [OF reachable_ok [OF wit_reachable1] f] by simp
qed

lemma pointer1_live: "live_pointer sample_sha (map_of (files (sample_slot pointer1 [])) sample_live) (Some (canon pointer1))"
  using pointer_stored(2) [OF pointers_ok(1) pointers_distinct(1)] by (simp add: live_pointer_def sample_slot_def)

lemma pointer1_read: "readLiveGeneration sample_sha sample_io (sample_slot pointer1 []) = (Inr (Some (canon pointer1)), sample_slot pointer1 [])"
  using pointer_stored(2) [OF pointers_ok(1) pointers_distinct(1)]
  by (simp add: readLiveGeneration_def createAtomicPointerIo_def read_no_faults sample_slot_def)

lemma pointers_differ: "utf8 (render pointer2) \<noteq> utf8 (render pointer1)"
proof
  assume "utf8 (render pointer2) = utf8 (render pointer1)"
  then have "canon pointer2 = canon pointer1"
    using pointer_stored(2) [OF pointers_ok(1) pointers_distinct(1)] pointer_stored(2) [OF pointers_ok(2) pointers_distinct(2)] by simp
  moreover have "fld (canon pointer2) ''activeGeneration'' = JInt 2"
    using pointer_canon(2) [OF pointers_ok(2) pointers_distinct(2)] by (simp add: POINTER_KEYS_def pointer2_def sample_pointer_fld)
  ultimately show False using canon_pointer1(4) by simp
qed

lemma sample_refreshed:
  "\<exists>r s'. runRefresh sample_string sample_sha 5 generation_sample sample_io (generation_request ''refresh'') (generation_start (sample_slot pointer1 [])) = (r, s') \<and>
     slot_of sample_live s' = Some (utf8 (render pointer2))"
proof -
  let ?q = "generation_request ''refresh''" and ?s = "(generation_start (sample_slot pointer1 []))\<lparr>gs_registry := sample_R2\<rparr>"
  obtain W where a: "attest sample_string sample_sha 5 refresh_refuse generation_sample ?q pointer2 ?s = (Inr sample_attestation, ?s\<lparr>gs_window := W\<rparr>)"
    using sample_attest [of ?s refresh_refuse "''refresh''" 2 "JInt 1" "JStr (replicate 64 0x30)"] by (auto simp: generation_start_def pointer2_def)
  have "follows pointer2 (Some (canon pointer1))" by (simp add: follows_def pointer2_def sample_pointer_fld canon_pointer1)
  moreover have "\<not> mhas (temp_location (sample_suffix ''7'') sample_live 1) (files (sample_slot pointer1 []))"
    by (simp add: sample_slot_def mhas_def temp_location_def prod_eq_iff)
  ultimately obtain r w where p: "publishGeneration sample_sha sample_io pointer2 (sample_slot pointer1 []) = (Inr r, w)"
    "map_of (files w) sample_live = Some (utf8 (render pointer2))"
    using publish_no_faults [of "sample_slot pointer1 []" "sample_suffix ''7''" sample_live sample_sha pointer2 "Some (canon pointer1)" False]
      pointers_ok(2) pointers_distinct(2) pointer1_live by (auto simp: sample_slot_def)
  have c: "candidate sample_sha generation_sample ?q (record_of [], record_of []) (JStr (replicate 64 0x30)) (JInt 2) (JInt 1) (JStr (replicate 64 0x30)) =
    Inr (sample_manifest_of 2, pointer2)"
    unfolding pointer2_def by (rule sample_candidate) simp
  have n: "next_generation (JInt 1) = JInt 2" by (simp add: next_generation_def)
  have b: "assertExpectedBase (Some (canon pointer1)) (fld ?q ''expected'') = Inr (canon pointer1)"
    by (simp add: assertExpectedBase_def generation_request_fld canon_pointer1 get_own_JObj)
  have f: "refresh_fenceCurrent 0 k s = Inr ()" if "gs_registry s = sample_R2" for k s
    using that sample_activity(2) by (simp add: fence_current_Inr)
  have "\<exists>x s'. refresh_body sample_string sample_sha 5 generation_sample sample_io ?q 0 g ?s = (x, s') \<and> slot_of sample_live s' = Some (utf8 (render pointer2))" for g
    using a p c n
    by (simp add: refresh_body_def pointer1_read b f generation_sample_steps canon_pointer1 gen_fs_def generation_start_def slot_of_def)
  then obtain x s1 where "refresh_body sample_string sample_sha 5 generation_sample sample_io ?q 0 (lease_fence 0 sample_R2) ?s = (x, s1)"
    "slot_of sample_live s1 = Some (utf8 (render pointer2))" by blast
  then show ?thesis
    using sample_activity(1)
    by (simp add: runRefresh_def refresh_request_ok generation_request_fld generation_sample_steps generation_start_def)
qed


text \<open>A message of the same workspace, dispatched to the operations over the git materialisation.\<close>

definition generation_message :: "string \<Rightarrow> jsval" where
  "generation_message opn = with_field reset_message ''operation'' (JLit opn)"

definition sample_paths :: path_ops where
  "sample_paths = \<lparr>po_isAbsolute = (\<lambda>v. take 1 v = js ''/''), po_resolve = (\<lambda>v. v), po_relative = (\<lambda>_ v. v)\<rparr>"

definition git_sample :: generation_env where
  "git_sample = generation_sample\<lparr>ge_materialize := materialize sample_paths (\<lambda>_. Inr ())\<rparr>"

theorem native_generation_never_served_witness:
  "(\<exists>k reason. fst (dispatchCreate sample_string sample_sha 5 False (sample_suffix ''7'') sample_dispatch git_sample (generation_message ''create'') reset_binding
      reset_inventory sample_readiness (generation_start (sample_fs []))) = Not_served k reason) \<and>
   (\<exists>k reason. fst (dispatchRefresh sample_string sample_sha 5 False (sample_suffix ''7'') sample_dispatch git_sample (generation_message ''refresh'') reset_binding
      reset_inventory wit_authority sample_readiness (generation_start (sample_fs []))) = Not_served k reason)"
proof -
  have "ge_materialize git_sample = materialize sample_paths (\<lambda>_. Inr ())" "honest_faults (gs_fs (generation_start (sample_fs [])))"
    by (simp_all add: git_sample_def generation_start_def sample_fs_def honest_faults_def)
  note refused = native_generation_never_served [OF this refl]
  show ?thesis using refused by blast
qed

end
