(* ===== verification/Parser_Typing.thy ===== *)
theory Parser_Typing
  imports Canonical_Json
begin

text \<open>
  The strict parser is type safe: whatever text it accepts, canonical or not, the value it returns lies in the
  domain of the renderer, within the same limits of depth and nodes.
\<close>

section \<open>What a parser task may return\<close>

text \<open>The value of a task continues the members or elements read so far, and its nodes are the ones counted.\<close>

fun task_typed :: "limits \<Rightarrow> task \<Rightarrow> bool" where
  "task_typed L (Value d r n) \<longleftrightarrow> n \<le> maxNodes L"
| "task_typed L (Members d acc r n) \<longleftrightarrow> n \<le> maxNodes L \<and> admits (maxDepth L) d (JObj ObjectProto acc)"
| "task_typed L (Elements d acc r n) \<longleftrightarrow> n \<le> maxNodes L \<and> admits (maxDepth L) d (JArr acc)"

fun task_result :: "limits \<Rightarrow> task \<Rightarrow> jsval \<Rightarrow> nat \<Rightarrow> bool" where
  "task_result L (Value d r n) v m \<longleftrightarrow> admits (maxDepth L) d v \<and> m = n + nodes v \<and> m \<le> maxNodes L"
| "task_result L (Members d acc r n) v m \<longleftrightarrow>
     admits (maxDepth L) d v \<and> m + nodes (JObj ObjectProto acc) = n + nodes v \<and> m \<le> maxNodes L"
| "task_result L (Elements d acc r n) v m \<longleftrightarrow>
     admits (maxDepth L) d v \<and> m + nodes (JArr acc) = n + nodes v \<and> m \<le> maxNodes L"

definition builds_typed :: "limits \<Rightarrow> (task \<Rightarrow> jsval parsed) \<Rightarrow> bool" where
  "builds_typed L f \<longleftrightarrow> (\<forall>t v r m. task_typed L t \<longrightarrow> f t = Some (Inr (v, r, m)) \<longrightarrow> task_result L t v m)"

lemma builds_typedD: "\<lbrakk>builds_typed L f; f t = Some (Inr (v, r, m)); task_typed L t\<rbrakk> \<Longrightarrow> task_result L t v m"
  by (auto simp: builds_typed_def)

lemma parse_string_strict:
  assumes "parse_string env isKey s = Inr (x, r)" "allowedControls env = None"
  shows "strict_text x"
  using assms scan_text_None [of "js ''JSON string''" x]
  by (auto simp: parse_string_def Let_def split: list.splits if_splits sum.splits option.splits prod.splits)

lemma parse_scalar_cases:
  assumes "parse_scalar env s = Inr (v, r)"
  shows "isSafeInteger v \<or> v \<in> {JBool True, JBool False, JNull}"
  using assms
  by (auto simp: parse_scalar_def Let_def simp del: isSafeInteger.simps isSafeInteger_JInt of_int_minus of_int_of_nat_eq
      split: option.splits prod.splits if_splits)

lemma parse_scalar_typed: "parse_scalar env s = Inr (v, r) \<Longrightarrow> d \<le> D \<Longrightarrow> admits D d v \<and> nodes v = 1"
  using parse_scalar_cases [of env s v r] by (auto simp: isSafeInteger_iff is_integral_def)

section \<open>The three steps\<close>

lemma value_step_typed:
  assumes f: "builds_typed (lims env) f" and env: "allowedControls env = None"
    and "value_step f env d s n = Some (Inr (v, r, m))"
  shows "task_result (lims env) (Value d s n) v m"
proof -
  have d: "d \<le> maxDepth (lims env)" and n: "Suc n \<le> maxNodes (lims env)"
    using assms(3) by (auto simp: value_step_def split: if_splits)
  let ?r = "skip_ws s"
  consider (chars) x where "parse_string env False ?r = Inr (x, r)" "v = JStr x" "m = Suc n"
    | (empty) "v = JObj ObjectProto [] \<or> v = JArr []" "m = Suc n"
    | (members) q where "f (Members d [] q (Suc n)) = Some (Inr (v, r, m))"
    | (elements) q where "f (Elements d [] q (Suc n)) = Some (Inr (v, r, m))"
    | (scalar) "parse_scalar env ?r = Inr (v, r)" "m = Suc n"
    using assms(3) by (auto simp: value_step_def Let_def split: if_splits sum.splits prod.splits)
  then show ?thesis
  proof cases
    case chars
    then show ?thesis using parse_string_strict [OF chars(1) env] d n by simp
  next
    case empty
    then show ?thesis using d n by auto
  next
    case members
    then show ?thesis using builds_typedD [OF f members] d n by simp
  next
    case elements
    then show ?thesis using builds_typedD [OF f elements] d n by simp
  next
    case scalar
    then show ?thesis using parse_scalar_typed [OF scalar(1) d] n by simp
  qed
qed

lemma members_step_typed:
  assumes f: "builds_typed (lims env) f" and env: "allowedControls env = None"
    and t: "task_typed (lims env) (Members d acc s n)"
    and "members_step f env d acc s n = Some (Inr (v, r, m))"
  shows "task_result (lims env) (Members d acc s n) v m"
proof -
  obtain key q x r1 n1 where k: "parse_string env True (skip_ws s) = Inr (key, q)"
    and x: "f (Value (Suc d) (tl (skip_ws q)) n) = Some (Inr (x, r1, n1))"
    and e: "v = JObj ObjectProto (acc @ [(key, x)]) \<and> m = n1 \<or>
      f (Members d (acc @ [(key, x)]) (tl (skip_ws r1)) n1) = Some (Inr (v, r, m))"
    using assms(4) by (auto simp: members_step_def Let_def split: sum.splits prod.splits if_splits option.splits)
  have "task_result (lims env) (Value (Suc d) (tl (skip_ws q)) n) x n1"
    using builds_typedD [OF f x] t by simp
  moreover have "strict_text key" by (rule parse_string_strict [OF k env])
  ultimately have a: "task_typed (lims env) (Members d (acc @ [(key, x)]) (tl (skip_ws r1)) n1)" "n1 = n + nodes x"
    using t by auto
  from e show ?thesis
  proof
    assume "f (Members d (acc @ [(key, x)]) (tl (skip_ws r1)) n1) = Some (Inr (v, r, m))"
    from builds_typedD [OF f this a(1)] show ?thesis using a(2) by simp
  qed (use a in auto)
qed

lemma elements_step_typed:
  assumes f: "builds_typed (lims env) f" and t: "task_typed (lims env) (Elements d acc s n)"
    and "elements_step f env d acc s n = Some (Inr (v, r, m))"
  shows "task_result (lims env) (Elements d acc s n) v m"
proof -
  obtain x r1 n1 where x: "f (Value (Suc d) s n) = Some (Inr (x, r1, n1))"
    and e: "v = JArr (acc @ [x]) \<and> m = n1 \<or> f (Elements d (acc @ [x]) (tl (skip_ws r1)) n1) = Some (Inr (v, r, m))"
    using assms(3) by (auto simp: elements_step_def Let_def split: sum.splits prod.splits if_splits option.splits)
  have "task_result (lims env) (Value (Suc d) s n) x n1" using builds_typedD [OF f x] t by simp
  then have a: "task_typed (lims env) (Elements d (acc @ [x]) (tl (skip_ws r1)) n1)" "n1 = n + nodes x" using t by auto
  from e show ?thesis
  proof
    assume "f (Elements d (acc @ [x]) (tl (skip_ws r1)) n1) = Some (Inr (v, r, m))"
    from builds_typedD [OF f this a(1)] show ?thesis using a(2) by simp
  qed (use a in auto)
qed

lemma run_parser_typed:
  assumes "allowedControls env = None"
  shows "builds_typed (lims env) (run_parser fuel env)"
proof (induction fuel)
  case (Suc fuel)
  show ?case
    unfolding builds_typed_def
  proof (intro allI impI)
    fix t v r m
    assume "task_typed (lims env) t" "run_parser (Suc fuel) env t = Some (Inr (v, r, m))"
    then show "task_result (lims env) t v m"
      by (cases t) (auto simp del: task_typed.simps task_result.simps
          intro: value_step_typed [OF Suc assms] members_step_typed [OF Suc assms] elements_step_typed [OF Suc])
  qed
qed (simp add: builds_typed_def)

section \<open>Type safety\<close>

text \<open>C37. Every value that the strict parser returns is a JSON value in the domain of the renderer: unique keys in
  each object, plain objects only, safe integers, strings without control characters or lone surrogates, and
  no deeper or larger than the limits; so the renderer never refuses what the parser accepted.\<close>

theorem parsed_values_well_typed:
  assumes "parseStrictJson None L src = Some (Inr v)"
  shows "distinct_keys v \<and> admits (maxDepth L) 0 v \<and> nodes v \<le> maxNodes L \<and> canonicalJson L v = Inr (render v)"
proof -
  obtain s r m where s: "src = JStr s"
    "run_parser (parse_fuel s) \<lparr>source = s, lims = L, allowedControls = None\<rparr> (Value 0 s 0) = Some (Inr (v, r, m))"
    using assms by (auto simp: parseStrictJson_def Let_def split: jsval.splits if_splits option.splits sum.splits)
  have "task_result L (Value 0 s 0) v m"
    using builds_typedD [OF run_parser_typed s(2)] by simp
  then have "admits (maxDepth L) 0 v" "nodes v \<le> maxNodes L" by auto
  then show ?thesis using parseStrictJson_distinct [OF assms] by (simp add: canonicalJson_Inr)
qed

theorem parsed_values_well_typed_witness:
  "distinct_keys (canon sample_value) \<and> admits 64 0 (canon sample_value) \<and>
   canonicalJson STRICT_JSON_LIMITS (canon sample_value) = Inr (render (canon sample_value))"
proof -
  have "byteLength sample_text = 24" by code_simp
  then have "parseStrictJson None STRICT_JSON_LIMITS (JStr sample_text) = Some (Inr (canon sample_value))"
    by (intro strict_round_trip [OF _ sample_canonical]) (simp_all add: sample_value_def STRICT_JSON_LIMITS_def)
  from parsed_values_well_typed [OF this] show ?thesis by (simp add: STRICT_JSON_LIMITS_def)
qed

end
