(* ===== verification/Session_Pool.thy ===== *)
theory Session_Pool
  imports Prelude
begin

text \<open>
  The pool of agent sessions of \<^verbatim>\<open>daemon/src/session-pool.js\<close>.  A JavaScript function runs to its next
  \<open>await\<close> without interruption, so every stretch between two awaits is a function on the pool's state, and
  the interleavings are a step relation over them.  Sessions, entries and hold callbacks are numbered;
  working directories are the canonical ones that \<open>ensureSession\<close> computes, and whether the receipt
  retirement table blocks an identity is an argument, because \<open>retireManagedReceipt\<close> is not modelled
  beyond the call of \<open>#retire\<close> it makes.  Logging, observers and the pending-operation list have no
  effect on the state and are left out.
\<close>

section \<open>State\<close>

datatype retirement_state = R_pending | R_failed

record retirement =
  rt_session :: nat
  rt_generation :: nat
  rt_identity :: "jsstr option"
  rt_holds :: "nat list"
  rt_state :: retirement_state

record pool_entry =
  en_id :: nat
  en_session :: "nat option"
  en_lastUsed :: int
  en_identity :: "jsstr option"

text \<open>What the operation of a transition waits for: the reaction to a session that is already there, the
  disposal of the session to replace (by its generation), the factory, the disposal of a session
  created after shutdown, a factory that has timed out, the disposal of the session it made
  late, or the settlement of a replaced session whose disposal timed out.\<close>

datatype stage = Found | Retiring nat | Creating | Closing | Late | Late_retiring | Replaced nat

record transition =
  tr_identity :: "jsstr option"
  tr_entry :: nat
  tr_cleanupPending :: bool
  tr_stage :: stage

text \<open>The last three fields are history: the hold callbacks called so far, the holds registered with the
  session they guard, and the sessions received from the factory whose disposal is not fulfilled.\<close>

record pool =
  p_maxSessions :: nat
  p_closed :: bool
  p_sessions :: "(jsstr \<times> pool_entry) list"
  p_transitions :: "(jsstr \<times> transition) list"
  p_retirements :: "(jsstr \<times> retirement) list"
  p_retiredSessions :: "nat list"
  p_creationHolds :: "(jsstr \<times> nat) list"
  p_nextRetirementGeneration :: nat
  p_nextEntry :: nat
  p_called :: "nat list"
  p_registered :: "(nat \<times> nat) list"
  p_live :: "(jsstr \<times> nat) list"

definition new_pool :: "nat \<Rightarrow> js_error + pool" where
  "new_pool maxSessions =
     (if maxSessions < 1 then Inl (TypeError (js ''maxSessions must be a positive safe integer''))
      else Inr \<lparr>p_maxSessions = maxSessions, p_closed = False, p_sessions = [], p_transitions = [], p_retirements = [],
        p_retiredSessions = [], p_creationHolds = [], p_nextRetirementGeneration = 1, p_nextEntry = 0,
        p_called = [], p_registered = [], p_live = []\<rparr>)"

section \<open>Admission\<close>

definition admitted_workspaces :: "pool \<Rightarrow> jsstr list" where
  "admitted_workspaces P = remdups (map fst (p_sessions P) @ map fst (p_retirements P) @ map fst (p_creationHolds P))"

record pool_snapshot =
  a_activeSessions :: nat
  a_pendingSessions :: nat
  a_admittedWorkspaces :: nat
  a_maxSessions :: nat

definition getPoolSnapshot :: "(nat \<Rightarrow> bool) \<Rightarrow> pool \<Rightarrow> pool_snapshot" where
  "getPoolSnapshot isClosed P =
     \<lparr>a_activeSessions = length (filter (\<lambda>(_, e). \<exists>s. en_session e = Some s \<and> \<not> isClosed s) (p_sessions P)),
      a_pendingSessions = length (remdups (map fst (p_creationHolds P) @ map fst (filter (\<lambda>(_, e). en_session e = None) (p_sessions P)))),
      a_admittedWorkspaces = length (admitted_workspaces P), a_maxSessions = p_maxSessions P\<rparr>"

record observability_snapshot =
  o_admission :: pool_snapshot
  o_pendingSessionRetirements :: nat
  o_failedSessionRetirements :: nat

definition getObservabilitySnapshot :: "(nat \<Rightarrow> bool) \<Rightarrow> pool \<Rightarrow> observability_snapshot" where
  "getObservabilitySnapshot isClosed P = \<lparr>o_admission = getPoolSnapshot isClosed P,
     o_pendingSessionRetirements = length (filter (\<lambda>(_, r). rt_state r = R_pending) (p_retirements P)),
     o_failedSessionRetirements = length (filter (\<lambda>(_, r). rt_state r = R_failed) (p_retirements P))\<rparr>"

section \<open>Retirement\<close>

definition lease_conflict :: js_error where
  "lease_conflict = CodedError ''LEASE_CONFLICT'' (js ''managed session transition is already in progress'')"

definition retirement_error :: "retirement_state \<Rightarrow> js_error" where
  "retirement_error st = CodedError (if st = R_failed then ''SESSION_RETIREMENT_FAILED'' else ''SESSION_RETIREMENT_PENDING'')
     (js ''prior SDK session retirement has not completed'')"

definition retirement_mismatch :: js_error where
  "retirement_mismatch = CodedError ''SESSION_RETIREMENT_FAILED'' (js ''SDK session retirement identity mismatch'')"

definition set_add :: "nat \<Rightarrow> nat list \<Rightarrow> nat list" where
  "set_add h hs = (if h \<in> set hs then hs else hs @ [h])"

definition addRetirementHolds :: "retirement \<Rightarrow> nat list \<Rightarrow> retirement" where
  "addRetirementHolds r holds = r\<lparr>rt_holds := fold set_add holds (rt_holds r)\<rparr>"

definition register :: "nat \<Rightarrow> nat list \<Rightarrow> pool \<Rightarrow> pool" where
  "register s holds P = P\<lparr>p_registered := p_registered P @ map (\<lambda>h. (h, s)) holds\<rparr>"

definition retire :: "nat \<Rightarrow> jsstr \<Rightarrow> jsstr option \<Rightarrow> nat list \<Rightarrow> pool \<Rightarrow> js_error + pool" where
  "retire s workDir managedIdentity holds P =
     (case map_of (p_retirements P) workDir of
        Some existing \<Rightarrow>
          if rt_session existing \<noteq> s then Inl retirement_mismatch
          else if rt_identity existing \<noteq> None \<and> managedIdentity \<noteq> None \<and> rt_identity existing \<noteq> managedIdentity
          then Inl retirement_mismatch
          else Inr (register s holds (P\<lparr>p_retirements := mput workDir (addRetirementHolds existing holds) (p_retirements P)\<rparr>))
      | None \<Rightarrow>
          let r = \<lparr>rt_session = s, rt_generation = p_nextRetirementGeneration P, rt_identity = managedIdentity, rt_holds = [],
                   rt_state = R_pending\<rparr>
          in Inr (register s holds (P\<lparr>p_nextRetirementGeneration := p_nextRetirementGeneration P + 1,
               p_retirements := mput workDir (addRetirementHolds r holds) (p_retirements P),
               p_sessions := (case map_of (p_sessions P) workDir of
                  Some e \<Rightarrow> if en_session e = Some s then mdel workDir (p_sessions P) else p_sessions P
                | None \<Rightarrow> p_sessions P)\<rparr>)))"

text \<open>The reaction to the settlement of a disposal.\<close>

definition dispose_settled :: "jsstr \<Rightarrow> bool \<Rightarrow> pool \<Rightarrow> pool" where
  "dispose_settled workDir fulfilled P =
     (case map_of (p_retirements P) workDir of
        None \<Rightarrow> P
      | Some r \<Rightarrow>
         if fulfilled
         then P\<lparr>p_retiredSessions := rt_session r # p_retiredSessions P, p_retirements := mdel workDir (p_retirements P),
                p_called := p_called P @ rt_holds r, p_live := filter (\<lambda>x. x \<noteq> (workDir, rt_session r)) (p_live P)\<rparr>
         else P\<lparr>p_retirements := mput workDir (r\<lparr>rt_state := R_failed\<rparr>) (p_retirements P)\<rparr>)"

datatype retire_result = Retire_refused js_error | Retire_awaited | Retire_done

definition retireSession :: "nat \<Rightarrow> nat list \<Rightarrow> pool \<Rightarrow> retire_result \<times> pool" where
  "retireSession s holds P =
     (case find (\<lambda>(_, r). rt_session r = s) (p_retirements P) of
        Some (workDir, r) \<Rightarrow>
          (if rt_state r = R_failed then Retire_refused (retirement_error R_failed) else Retire_awaited,
           register s holds (P\<lparr>p_retirements := mput workDir (addRetirementHolds r holds) (p_retirements P)\<rparr>))
      | None \<Rightarrow>
         (case find (\<lambda>(_, e). en_session e = Some s) (p_sessions P) of
            Some (workDir, e) \<Rightarrow>
              (case retire s workDir (en_identity e) holds P of
                 Inl err \<Rightarrow> (Retire_refused err, P)
               | Inr P' \<Rightarrow> (Retire_awaited, P'))
          | None \<Rightarrow>
              if s \<notin> set (p_retiredSessions P)
              then (Retire_refused (CodedError ''SESSION_RETIREMENT_FAILED'' (js ''SDK session is not owned by this pool'')), P)
              else (Retire_done, register s holds (P\<lparr>p_called := p_called P @ fold set_add holds []\<rparr>))))"

section \<open>Ensuring a session\<close>

datatype ensure_result = Refused_with js_error | Joined | Waiting | Awaits_creation

definition put_transition :: "jsstr \<Rightarrow> jsstr option \<Rightarrow> nat \<Rightarrow> stage \<Rightarrow> pool \<Rightarrow> pool" where
  "put_transition workDir managedIdentity i st P = P\<lparr>p_transitions := mput workDir
     \<lparr>tr_identity = managedIdentity, tr_entry = i, tr_cleanupPending = False, tr_stage = st\<rparr> (p_transitions P)\<rparr>"

text \<open>The entry that stands for the creation in progress.\<close>

definition put_creation :: "jsstr \<Rightarrow> jsstr option \<Rightarrow> int \<Rightarrow> pool \<Rightarrow> pool" where
  "put_creation workDir managedIdentity now P = P\<lparr>p_nextEntry := p_nextEntry P + 1,
     p_sessions := mput workDir \<lparr>en_id = p_nextEntry P, en_session = None, en_lastUsed = now, en_identity = managedIdentity\<rparr> (p_sessions P)\<rparr>"

definition hold_creation :: "jsstr \<Rightarrow> nat \<Rightarrow> pool \<Rightarrow> pool" where
  "hold_creation workDir i P = P\<lparr>p_creationHolds := mput workDir i (p_creationHolds P)\<rparr>"

text \<open>\<open>#ensureCanonicalSession\<close> up to its first wait, with the transition that \<open>ensureSession\<close> records for it.
  An entry without a session is awaited there; \<open>Awaits_creation\<close> stands for that branch, which
  no reachable pool takes.\<close>

definition ensureCanonicalSession ::
  "(nat \<Rightarrow> bool) \<Rightarrow> int \<Rightarrow> jsstr \<Rightarrow> jsstr option \<Rightarrow> pool \<Rightarrow> ensure_result \<times> pool" where
  "ensureCanonicalSession isClosed now workDir managedIdentity P =
     (let i = p_nextEntry P in
      case map_of (p_sessions P) workDir of
        Some e \<Rightarrow>
          (case en_session e of
             None \<Rightarrow> (Awaits_creation, P)
           | Some s \<Rightarrow>
              if en_identity e = managedIdentity \<and> \<not> isClosed s
              then (Waiting, put_transition workDir managedIdentity (en_id e) Found
                      (P\<lparr>p_sessions := mput workDir (e\<lparr>en_lastUsed := now\<rparr>) (p_sessions P)\<rparr>))
              else (case retire s workDir (en_identity e) [] P of
                      Inl err \<Rightarrow> (Refused_with err, P\<lparr>p_sessions := mdel workDir (p_sessions P)\<rparr>)
                    | Inr P' \<Rightarrow> (Waiting, put_transition workDir managedIdentity i (Retiring (p_nextRetirementGeneration P))
                        (put_creation workDir managedIdentity now P'))))
      | None \<Rightarrow>
          if p_maxSessions P \<le> length (admitted_workspaces P)
          then (Refused_with (CodedError ''SESSION_LIMIT'' (js ''SDK session admission limit reached'')), P)
          else (Waiting, put_transition workDir managedIdentity i Creating
                  (put_creation workDir managedIdentity now (hold_creation workDir i P))))"

definition ensureSession ::
  "(nat \<Rightarrow> bool) \<Rightarrow> int \<Rightarrow> retirement_state option \<Rightarrow> jsstr \<Rightarrow> jsstr option \<Rightarrow> pool \<Rightarrow> ensure_result \<times> pool" where
  "ensureSession isClosed now receipt workDir managedIdentity P =
     (if p_closed P then (Refused_with (PlainError (js ''SessionPool is shut down'')), P)
      else case receipt of Some st \<Rightarrow> (Refused_with (retirement_error st), P)
      | None \<Rightarrow>
      (case map_of (p_retirements P) workDir of Some r \<Rightarrow> (Refused_with (retirement_error (rt_state r)), P)
       | None \<Rightarrow>
      (case map_of (p_transitions P) workDir of
         Some t \<Rightarrow>
           (if tr_cleanupPending t then (Refused_with lease_conflict, P)
            else if tr_identity t = managedIdentity then (Joined, P)
            else (Refused_with lease_conflict, P))
       | None \<Rightarrow> ensureCanonicalSession isClosed now workDir managedIdentity P)))"

section \<open>Continuations\<close>

definition clear_transition :: "jsstr \<Rightarrow> pool \<Rightarrow> pool" where
  "clear_transition workDir P = P\<lparr>p_transitions := mdel workDir (p_transitions P)\<rparr>"

definition set_stage :: "jsstr \<Rightarrow> transition \<Rightarrow> bool \<Rightarrow> stage \<Rightarrow> pool \<Rightarrow> pool" where
  "set_stage workDir t cleanup st P =
     P\<lparr>p_transitions := mput workDir (t\<lparr>tr_cleanupPending := cleanup, tr_stage := st\<rparr>) (p_transitions P)\<rparr>"

text \<open>The entry of a failed creation is removed, unless it is no longer the one in the map.\<close>

definition drop_entry :: "jsstr \<Rightarrow> nat \<Rightarrow> pool \<Rightarrow> pool" where
  "drop_entry workDir i P =
     (case map_of (p_sessions P) workDir of
        Some e \<Rightarrow> if en_id e = i then P\<lparr>p_sessions := mdel workDir (p_sessions P)\<rparr> else P
      | None \<Rightarrow> P)"

definition release_creation :: "jsstr \<Rightarrow> nat \<Rightarrow> pool \<Rightarrow> pool" where
  "release_creation workDir i P =
     (if map_of (p_creationHolds P) workDir = Some i then P\<lparr>p_creationHolds := mdel workDir (p_creationHolds P)\<rparr> else P)"

definition receive :: "jsstr \<Rightarrow> nat \<Rightarrow> pool \<Rightarrow> pool" where
  "receive workDir s P = P\<lparr>p_live := (workDir, s) # p_live P\<rparr>"

datatype bounded = Fulfilled | Rejected | Timed_out

text \<open>After the disposal of the replaced session.\<close>

definition prior_settled :: "bounded \<Rightarrow> jsstr \<Rightarrow> transition \<Rightarrow> nat \<Rightarrow> pool \<Rightarrow> pool" where
  "prior_settled b workDir t g P =
     (case b of
        Fulfilled \<Rightarrow> set_stage workDir t False Creating (hold_creation workDir (tr_entry t) P)
      | Rejected \<Rightarrow> clear_transition workDir (drop_entry workDir (tr_entry t) P)
      | Timed_out \<Rightarrow> set_stage workDir t True (Replaced g) (drop_entry workDir (tr_entry t) P))"

text \<open>After the factory, which returned the session or failed.\<close>

datatype factory_result = Made nat | Factory_failed | Factory_late

definition factory_settled :: "factory_result \<Rightarrow> jsstr \<Rightarrow> transition \<Rightarrow> pool \<Rightarrow> pool" where
  "factory_settled f workDir t P =
     (case f of
        Made s \<Rightarrow>
          (let P1 = release_creation workDir (tr_entry t) (receive workDir s P) in
           if p_closed P1
           then (case retire s workDir (tr_identity t) [] P1 of
                   Inl _ \<Rightarrow> clear_transition workDir (drop_entry workDir (tr_entry t) P1)
                 | Inr P2 \<Rightarrow> set_stage workDir t False Closing P2)
           else set_stage workDir t False Found
                  (case map_of (p_sessions P1) workDir of
                     Some e \<Rightarrow> if en_id e = tr_entry t
                               then P1\<lparr>p_sessions := mput workDir (e\<lparr>en_session := Some s\<rparr>) (p_sessions P1)\<rparr> else P1
                   | None \<Rightarrow> P1))
      | Factory_failed \<Rightarrow>
          clear_transition workDir (drop_entry workDir (tr_entry t) (release_creation workDir (tr_entry t) P))
      | Factory_late \<Rightarrow> set_stage workDir t True Late (drop_entry workDir (tr_entry t) P))"

text \<open>After a factory that had timed out.\<close>

definition late_settled :: "nat option \<Rightarrow> jsstr \<Rightarrow> transition \<Rightarrow> pool \<Rightarrow> pool" where
  "late_settled f workDir t P =
     (case f of
        Some s \<Rightarrow>
          (case retire s workDir (tr_identity t) [] (receive workDir s P) of
             Inl _ \<Rightarrow> clear_transition workDir (release_creation workDir (tr_entry t) (receive workDir s P))
           | Inr P' \<Rightarrow> set_stage workDir t True Late_retiring P')
      | None \<Rightarrow> clear_transition workDir (release_creation workDir (tr_entry t) P))"

definition late_disposed :: "jsstr \<Rightarrow> transition \<Rightarrow> pool \<Rightarrow> pool" where
  "late_disposed workDir t P = clear_transition workDir (release_creation workDir (tr_entry t) P)"

definition closing_done :: "jsstr \<Rightarrow> transition \<Rightarrow> pool \<Rightarrow> pool" where
  "closing_done workDir t P = clear_transition workDir (drop_entry workDir (tr_entry t) P)"

section \<open>Reaping and shutdown\<close>

fun retire_all :: "(jsstr \<times> pool_entry) list \<Rightarrow> pool \<Rightarrow> js_error option \<times> pool" where
  "retire_all [] P = (None, P)"
| "retire_all ((workDir, e) # es) P =
     (case en_session e of
        None \<Rightarrow> retire_all es P
      | Some s \<Rightarrow> (case retire s workDir (en_identity e) [] P of Inl err \<Rightarrow> (Some err, P) | Inr P' \<Rightarrow> retire_all es P'))"

definition shutdown :: "pool \<Rightarrow> js_error option \<times> pool" where
  "shutdown P =
     (if p_closed P then (None, P)
      else case retire_all (p_sessions P) (P\<lparr>p_closed := True\<rparr>) of
             (Some e, P') \<Rightarrow> (Some e, P')
           | (None, P') \<Rightarrow> (None, P'\<lparr>p_sessions := []\<rparr>))"

fun reap_entries :: "(nat \<Rightarrow> bool) \<Rightarrow> int \<Rightarrow> int \<Rightarrow> (jsstr \<times> pool_entry) list \<Rightarrow> pool \<Rightarrow> js_error option \<times> pool" where
  "reap_entries isBusy idleTimeoutMs now [] P = (None, P)"
| "reap_entries isBusy idleTimeoutMs now ((workDir, e) # es) P =
     (case en_session e of
        None \<Rightarrow> reap_entries isBusy idleTimeoutMs now es P
      | Some s \<Rightarrow>
         if isBusy s
         then reap_entries isBusy idleTimeoutMs now es (P\<lparr>p_sessions := mput workDir (e\<lparr>en_lastUsed := now\<rparr>) (p_sessions P)\<rparr>)
         else if idleTimeoutMs < now - en_lastUsed e
         then (case retire s workDir (en_identity e) [] P of
                 Inl err \<Rightarrow> (Some err, P)
               | Inr P' \<Rightarrow> reap_entries isBusy idleTimeoutMs now es P')
         else reap_entries isBusy idleTimeoutMs now es P)"

definition reapIdle :: "(nat \<Rightarrow> bool) \<Rightarrow> int \<Rightarrow> int \<Rightarrow> pool \<Rightarrow> js_error option \<times> pool" where
  "reapIdle isBusy idleTimeoutMs now P = reap_entries isBusy idleTimeoutMs now (p_sessions P) P"

section \<open>Interleavings\<close>

text \<open>\<open>Retire_entry\<close> is the call that \<open>retireManagedReceipt\<close> makes.  The settlement of a disposal runs its
  reaction before anything that waits for the bounded disposal, so a fulfilled wait finds the
  retirement gone; a wait that times out may do so at any time.\<close>

inductive pool_step :: "pool \<Rightarrow> pool \<Rightarrow> bool" where
  Ensure: "ensureSession isClosed now receipt wd i P = (res, P') \<Longrightarrow> pool_step P P'"
| Retire_session: "retireSession s holds P = (rres, P') \<Longrightarrow> pool_step P P'"
| Retire_entry: "map_of (p_sessions P) wd = Some e \<Longrightarrow> en_session e = Some s \<Longrightarrow> retire s wd (en_identity e) holds P = Inr P' \<Longrightarrow>
    pool_step P P'"
| Settle: "map_of (p_retirements P) wd = Some r \<Longrightarrow> rt_state r = R_pending \<Longrightarrow> pool_step P (dispose_settled wd ok P)"
| Found_done: "map_of (p_transitions P) wd = Some t \<Longrightarrow> tr_stage t = Found \<Longrightarrow> pool_step P (clear_transition wd P)"
| Prior: "map_of (p_transitions P) wd = Some t \<Longrightarrow> tr_stage t = Retiring g \<Longrightarrow>
    (b = Fulfilled \<Longrightarrow> list_all (\<lambda>(_, r). rt_generation r \<noteq> g) (p_retirements P)) \<Longrightarrow> pool_step P (prior_settled b wd t g P)"
| Factory: "map_of (p_transitions P) wd = Some t \<Longrightarrow> tr_stage t = Creating \<Longrightarrow> pool_step P (factory_settled f wd t P)"
| Late_factory: "map_of (p_transitions P) wd = Some t \<Longrightarrow> tr_stage t = Late \<Longrightarrow> pool_step P (late_settled lf wd t P)"
| Late_done: "map_of (p_transitions P) wd = Some t \<Longrightarrow> tr_stage t = Late_retiring \<Longrightarrow>
    (\<And>r. map_of (p_retirements P) wd = Some r \<Longrightarrow> rt_state r = R_failed) \<Longrightarrow> pool_step P (late_disposed wd t P)"
| Closing_done: "map_of (p_transitions P) wd = Some t \<Longrightarrow> tr_stage t = Closing \<Longrightarrow> pool_step P (closing_done wd t P)"
| Replaced_done: "map_of (p_transitions P) wd = Some t \<Longrightarrow> tr_stage t = Replaced g \<Longrightarrow>
    list_all (\<lambda>(_, r). rt_generation r = g \<longrightarrow> rt_state r = R_failed) (p_retirements P) \<Longrightarrow> pool_step P (clear_transition wd P)"
| Shutdown: "shutdown P = (err, P') \<Longrightarrow> pool_step P P'"
| Reap: "reapIdle isBusy idle now P = (err, P') \<Longrightarrow> pool_step P P'"

inductive pool_reachable :: "nat \<Rightarrow> pool \<Rightarrow> bool" for n where
  Start: "new_pool n = Inr P \<Longrightarrow> pool_reachable n P"
| Step: "pool_reachable n P \<Longrightarrow> pool_step P P' \<Longrightarrow> pool_reachable n P'"

end
