(* ===== verification/Session_Pool_Invariant.thy ===== *)
theory Session_Pool_Invariant
  imports Session_Pool
begin

text \<open>
  The invariant of the session pool: for every working directory the entry, the transition, the
  retirement and the creation hold fit together, and no more directories are occupied than the limit allows.
\<close>

section \<open>Invariant\<close>

text \<open>The state of one working directory: whether the pool is closed, the entry, the transition, the
  retirement, the creation hold and the live sessions.\<close>

type_synonym view = "bool \<times> pool_entry option \<times> transition option \<times> retirement option \<times> nat option \<times> nat set"

definition view :: "pool \<Rightarrow> jsstr \<Rightarrow> view" where
  "view P wd = (p_closed P, map_of (p_sessions P) wd, map_of (p_transitions P) wd, map_of (p_retirements P) wd,
     map_of (p_creationHolds P) wd, {s. (wd, s) \<in> set (p_live P)})"

definition idle_ok :: "pool_entry option \<Rightarrow> nat option \<Rightarrow> bool" where
  "idle_ok e h \<longleftrightarrow> h = None \<and> (\<forall>x. e = Some x \<longrightarrow> en_session x \<noteq> None)"

definition creating_ok :: "bool \<Rightarrow> pool_entry option \<Rightarrow> transition \<Rightarrow> bool" where
  "creating_ok cl e t \<longleftrightarrow> (case e of None \<Rightarrow> cl | Some x \<Rightarrow> \<not> cl \<and> en_session x = None \<and> en_id x = tr_entry t)"

fun stage_ok :: "bool \<Rightarrow> pool_entry option \<Rightarrow> transition \<Rightarrow> retirement option \<Rightarrow> nat option \<Rightarrow> stage \<Rightarrow> bool" where
  "stage_ok cl e t r h Found \<longleftrightarrow> idle_ok e h"
| "stage_ok cl e t r h (Retiring g) \<longleftrightarrow> h = None \<and> creating_ok cl e t \<and> (\<forall>y. r = Some y \<longrightarrow> rt_generation y = g)"
| "stage_ok cl e t r h Creating \<longleftrightarrow> h = Some (tr_entry t) \<and> creating_ok cl e t \<and> r = None"
| "stage_ok cl e t r h Closing \<longleftrightarrow> h = None \<and> e = None \<and> cl"
| "stage_ok cl e t r h Late \<longleftrightarrow> h = Some (tr_entry t) \<and> e = None \<and> r = None"
| "stage_ok cl e t r h Late_retiring \<longleftrightarrow> h = Some (tr_entry t) \<and> e = None"
| "stage_ok cl e t r h (Replaced g) \<longleftrightarrow> h = None \<and> e = None"

definition sessions_of :: "pool_entry option \<Rightarrow> retirement option \<Rightarrow> nat set" where
  "sessions_of e r = (case e of None \<Rightarrow> {} | Some x \<Rightarrow> set_option (en_session x)) \<union> (case r of None \<Rightarrow> {} | Some y \<Rightarrow> {rt_session y})"

fun dir_ok :: "view \<Rightarrow> bool" where
  "dir_ok (cl, e, t, r, h, live) \<longleftrightarrow> live = sessions_of e r \<and>
     (\<forall>x. e = Some x \<longrightarrow> en_session x \<noteq> None \<longrightarrow> r = None) \<and>
     (case t of None \<Rightarrow> idle_ok e h | Some y \<Rightarrow> stage_ok cl e y r h (tr_stage y))"

fun occupied :: "view \<Rightarrow> bool" where
  "occupied (cl, e, t, r, h, live) \<longleftrightarrow> e \<noteq> None \<or> r \<noteq> None \<or> h \<noteq> None \<or> (\<exists>y g. t = Some y \<and> tr_stage y = Retiring g)"

definition occupied_dirs :: "pool \<Rightarrow> jsstr set" where
  "occupied_dirs P = {wd. occupied (view P wd)}"

definition maps_ok :: "pool \<Rightarrow> bool" where
  "maps_ok P \<longleftrightarrow> wf_map (p_sessions P) \<and> wf_map (p_transitions P) \<and> wf_map (p_retirements P) \<and> wf_map (p_creationHolds P) \<and>
     wf_map (p_live P)"

definition pool_inv :: "pool \<Rightarrow> bool" where
  "pool_inv P \<longleftrightarrow> maps_ok P \<and> (\<forall>wd. dir_ok (view P wd)) \<and> card (occupied_dirs P) \<le> p_maxSessions P"

lemma finite_occupied: "finite (occupied_dirs P)"
proof (rule finite_subset)
  show "occupied_dirs P \<subseteq> fst ` set (p_sessions P) \<union> fst ` set (p_transitions P) \<union> fst ` set (p_retirements P) \<union> fst ` set (p_creationHolds P)"
    by (auto simp: occupied_dirs_def view_def dest!: map_of_SomeD intro: rev_image_eqI)
qed auto

lemma local_step:
  assumes "pool_inv P" "\<And>x. x \<noteq> wd \<Longrightarrow> view P' x = view P x" "dir_ok (view P' wd)"
    and "occupied (view P' wd) \<Longrightarrow> occupied (view P wd)" "maps_ok P'" "p_maxSessions P' = p_maxSessions P"
  shows "pool_inv P'"
proof -
  have "occupied_dirs P' \<subseteq> occupied_dirs P"
    using assms(2,4) unfolding occupied_dirs_def by (metis (mono_tags, lifting) Collect_mono)
  then have "card (occupied_dirs P') \<le> card (occupied_dirs P)" by (rule card_mono [OF finite_occupied])
  moreover have "dir_ok (view P' x)" for x using assms(1,2,3) by (cases "x = wd") (auto simp: pool_inv_def)
  ultimately show ?thesis using assms(1,5,6) by (simp add: pool_inv_def)
qed

lemma dir_okI: "pool_inv P \<Longrightarrow> dir_ok (view P wd)"
  by (simp add: pool_inv_def)

lemmas view_simps = view_def maps_ok_def clear_transition_def set_stage_def drop_entry_def release_creation_def receive_def
  hold_creation_def put_creation_def put_transition_def register_def

lemmas ok_simps = sessions_of_def idle_ok_def creating_ok_def

lemma clear_inv:
  assumes "pool_inv P" "map_of (p_transitions P) wd = Some t" "tr_stage t \<in> {Found, Closing} \<union> range Replaced"
  shows "pool_inv (clear_transition wd P)"
  using assms(1)
proof (rule local_step [of _ wd])
  show "dir_ok (view (clear_transition wd P) wd)"
    using dir_okI [OF assms(1), of wd] assms(2,3) by (auto simp: view_simps ok_simps)
qed (use assms in \<open>auto simp: view_simps pool_inv_def\<close>)

lemma closing_inv:
  assumes "pool_inv P" "map_of (p_transitions P) wd = Some t" "tr_stage t = Closing"
  shows "pool_inv (closing_done wd t P)"
proof -
  have "map_of (p_sessions P) wd = None" using dir_okI [OF assms(1), of wd] assms(2,3) by (simp add: view_def)
  then have "closing_done wd t P = clear_transition wd P" by (simp add: closing_done_def drop_entry_def)
  then show ?thesis using clear_inv [OF assms(1,2)] assms(3) by simp
qed

lemma late_done_inv:
  assumes "pool_inv P" "map_of (p_transitions P) wd = Some t" "tr_stage t = Late_retiring"
  shows "pool_inv (late_disposed wd t P)"
  using assms(1)
proof (rule local_step [of _ wd])
  show "dir_ok (view (late_disposed wd t P) wd)"
    using dir_okI [OF assms(1), of wd] assms(2,3) by (auto simp: late_disposed_def view_simps ok_simps)
qed (use assms in \<open>auto simp: late_disposed_def view_simps pool_inv_def\<close>)

lemma prior_inv:
  assumes "pool_inv P" "map_of (p_transitions P) wd = Some t" "tr_stage t = Retiring g"
    and "b = Fulfilled \<Longrightarrow> list_all (\<lambda>(_, r). rt_generation r \<noteq> g) (p_retirements P)"
  shows "pool_inv (prior_settled b wd t g P)"
  using assms(1)
proof (rule local_step [of _ wd])
  have d: "dir_ok (view P wd)" by (rule dir_okI [OF assms(1)])
  have r: "map_of (p_retirements P) wd = None" if "b = Fulfilled"
  proof (cases "map_of (p_retirements P) wd")
    case (Some y)
    then have "rt_generation y = g" using d assms(2,3) by (simp add: view_def)
    then show ?thesis using assms(4) [OF that] map_of_SomeD [OF Some] by (auto simp: list_all_iff)
  qed
  show "dir_ok (view (prior_settled b wd t g P) wd)"
    using d r assms(2,3) by (auto simp: prior_settled_def view_simps ok_simps split: bounded.splits option.splits)
  show "occupied (view (prior_settled b wd t g P) wd) \<Longrightarrow> occupied (view P wd)"
    using assms(2,3) by (auto simp: view_def)
qed (use assms(1,2) in \<open>auto simp: prior_settled_def view_simps pool_inv_def split: bounded.splits option.splits\<close>)

lemma addHolds_simps [simp]:
  "rt_session (addRetirementHolds r hs) = rt_session r" "rt_generation (addRetirementHolds r hs) = rt_generation r"
  "rt_state (addRetirementHolds r hs) = rt_state r"
  by (simp_all add: addRetirementHolds_def)

text \<open>A further hold on a retirement.\<close>

lemma add_holds_inv:
  assumes "pool_inv P" "map_of (p_retirements P) wd = Some r"
  shows "pool_inv (register s holds (P\<lparr>p_retirements := mput wd (addRetirementHolds r holds) (p_retirements P)\<rparr>))" (is "pool_inv ?P")
  using assms(1)
proof (rule local_step [of _ wd])
  have "stage_ok cl e t (Some (addRetirementHolds r holds)) h st = stage_ok cl e t (Some r) h st" for cl e t h st
    by (cases st) auto
  then show "dir_ok (view ?P wd)"
    using dir_okI [OF assms(1), of wd] assms(2) by (auto simp: view_simps sessions_of_def split: option.splits)
qed (use assms in \<open>auto simp: view_simps pool_inv_def\<close>)

lemma retire_entry:
  assumes "pool_inv P" "map_of (p_sessions P) wd = Some e" "en_session e = Some s"
  shows "map_of (p_retirements P) wd = None"
    "\<exists>P'. retire s wd i holds P = Inr P' \<and> pool_inv P' \<and> p_sessions P' = mdel wd (p_sessions P) \<and>
       p_transitions P' = p_transitions P \<and> p_closed P' = p_closed P \<and> p_maxSessions P' = p_maxSessions P \<and>
       (\<exists>r. map_of (p_retirements P') wd = Some r \<and> rt_session r = s \<and> rt_generation r = p_nextRetirementGeneration P)"
proof -
  have d: "dir_ok (view P wd)" by (rule dir_okI [OF assms(1)])
  then show n: "map_of (p_retirements P) wd = None" using assms(2,3) by (simp add: view_def)
  let ?r = "\<lparr>rt_session = s, rt_generation = p_nextRetirementGeneration P, rt_identity = i, rt_holds = [], rt_state = R_pending\<rparr>"
  let ?P = "register s holds (P\<lparr>p_nextRetirementGeneration := p_nextRetirementGeneration P + 1,
               p_retirements := mput wd (addRetirementHolds ?r holds) (p_retirements P), p_sessions := mdel wd (p_sessions P)\<rparr>)"
  have "retire s wd i holds P = Inr ?P" using assms(2,3) n by (simp add: retire_def Let_def)
  moreover have "pool_inv ?P"
    using assms(1)
  proof (rule local_step [of _ wd])
    show "dir_ok (view ?P wd)"
      using d assms(2,3) n by (auto simp: view_simps ok_simps split: option.splits stage.splits elim!: stage_ok.elims)
  qed (use assms in \<open>auto simp: view_simps pool_inv_def\<close>)
  ultimately show "\<exists>P'. retire s wd i holds P = Inr P' \<and> pool_inv P' \<and> p_sessions P' = mdel wd (p_sessions P) \<and>
       p_transitions P' = p_transitions P \<and> p_closed P' = p_closed P \<and> p_maxSessions P' = p_maxSessions P \<and>
       (\<exists>r. map_of (p_retirements P') wd = Some r \<and> rt_session r = s \<and> rt_generation r = p_nextRetirementGeneration P)"
    by (simp add: register_def)
qed

lemma settle_inv:
  assumes "pool_inv P" "map_of (p_retirements P) wd = Some r"
  shows "pool_inv (dispose_settled wd ok P)"
  using assms(1)
proof (rule local_step [of _ wd])
  have d: "dir_ok (view P wd)" by (rule dir_okI [OF assms(1)])
  show "dir_ok (view (dispose_settled wd ok P) wd)"
    using d assms(2)
    by (auto simp: dispose_settled_def view_simps ok_simps split: option.splits elim!: stage_ok.elims)
  show "maps_ok (dispose_settled wd ok P)"
    using assms by (auto simp: dispose_settled_def maps_ok_def pool_inv_def distinct_map_filter)
qed (use assms in \<open>auto simp: dispose_settled_def view_simps pool_inv_def\<close>)

text \<open>A session that the factory made for a directory without any.\<close>

lemma receive_retire:
  assumes "map_of (p_retirements P) wd = None"
  shows "\<exists>P'. retire s wd i [] P = Inr P' \<and> p_retirements P' = mput wd \<lparr>rt_session = s, rt_generation = p_nextRetirementGeneration P,
      rt_identity = i, rt_holds = [], rt_state = R_pending\<rparr> (p_retirements P) \<and>
    (map_of (p_sessions P) wd = None \<longrightarrow> p_sessions P' = p_sessions P) \<and> p_transitions P' = p_transitions P \<and> p_live P' = p_live P \<and>
    p_creationHolds P' = p_creationHolds P \<and> p_closed P' = p_closed P \<and> p_maxSessions P' = p_maxSessions P"
  using assms by (simp add: retire_def Let_def register_def addRetirementHolds_def)

lemma creating_view:
  assumes "pool_inv P" "map_of (p_transitions P) wd = Some t" "tr_stage t = Creating"
  shows "map_of (p_creationHolds P) wd = Some (tr_entry t)" "map_of (p_retirements P) wd = None"
    "creating_ok (p_closed P) (map_of (p_sessions P) wd) t" "(wd, s) \<notin> set (p_live P)" "maps_ok P"
proof -
  have d: "dir_ok (view P wd)" by (rule dir_okI [OF assms(1)])
  then show h: "map_of (p_creationHolds P) wd = Some (tr_entry t)" "map_of (p_retirements P) wd = None"
    "creating_ok (p_closed P) (map_of (p_sessions P) wd) t"
    using assms(2,3) by (simp_all add: view_def)
  have "{s. (wd, s) \<in> set (p_live P)} = {}"
    using d h by (auto simp: view_def ok_simps split: option.splits)
  then show "(wd, s) \<notin> set (p_live P)" by blast
  show "maps_ok P" using assms(1) by (simp add: pool_inv_def)
qed

lemma made_closed_inv:
  assumes "pool_inv P" "map_of (p_transitions P) wd = Some t" "tr_stage t = Creating" "p_closed P"
  shows "pool_inv (factory_settled (Made s) wd t P)"
proof -
  note d = creating_view [OF assms(1-3)]
  let ?P = "release_creation wd (tr_entry t) (receive wd s P)"
  have e: "map_of (p_sessions P) wd = None" using d(3) assms(4) by (auto simp: creating_ok_def split: option.splits)
  obtain P' where P': "retire s wd (tr_identity t) [] ?P = Inr P'"
    "p_retirements P' = mput wd \<lparr>rt_session = s, rt_generation = p_nextRetirementGeneration ?P,
      rt_identity = tr_identity t, rt_holds = [], rt_state = R_pending\<rparr> (p_retirements P)"
    "p_sessions P' = p_sessions P" "p_transitions P' = p_transitions P" "p_live P' = (wd, s) # p_live P"
    "p_creationHolds P' = mdel wd (p_creationHolds P)" "p_closed P' = p_closed P" "p_maxSessions P' = p_maxSessions P"
    using receive_retire [of ?P wd s "tr_identity t"] d(1,2) e by (auto simp: view_simps)
  have eq: "factory_settled (Made s) wd t P = set_stage wd t False Closing P'"
    using assms(4) P'(1) by (simp add: factory_settled_def Let_def view_simps)
  show ?thesis unfolding eq using assms(1)
  proof (rule local_step [of _ wd])
    show "dir_ok (view (set_stage wd t False Closing P') wd)"
      using P' e assms(4) d(4) by (simp add: view_simps ok_simps)
    show "maps_ok (set_stage wd t False Closing P')"
      using P' d(4,5) by (auto simp: set_stage_def maps_ok_def)
    show "occupied (view P wd)" using d(1) by (simp add: view_def)
    show "view (set_stage wd t False Closing P') x = view P x" if "x \<noteq> wd" for x
      using P' that by (simp add: view_simps)
  qed (simp add: P' set_stage_def)
qed

lemma made_open_inv:
  assumes "pool_inv P" "map_of (p_transitions P) wd = Some t" "tr_stage t = Creating" "\<not> p_closed P"
  shows "pool_inv (factory_settled (Made s) wd t P)"
proof -
  note d = creating_view [OF assms(1-3)]
  obtain e where e: "map_of (p_sessions P) wd = Some e" "en_session e = None" "en_id e = tr_entry t"
    using d(3) assms(4) by (auto simp: creating_ok_def split: option.splits)
  have eq: "factory_settled (Made s) wd t P = set_stage wd t False Found (P\<lparr>p_live := (wd, s) # p_live P,
      p_creationHolds := mdel wd (p_creationHolds P), p_sessions := mput wd (e\<lparr>en_session := Some s\<rparr>) (p_sessions P)\<rparr>)"
    using assms(4) d(1) e by (simp add: factory_settled_def Let_def release_creation_def receive_def)
  show ?thesis unfolding eq using assms(1)
  proof (rule local_step [of _ wd], goal_cases)
    case 2
    then show ?case using d(2,4) by (simp add: view_simps ok_simps)
  next
    case 3
    then show ?case using d(1) by (simp add: view_def)
  next
    case 4
    then show ?case using d(4,5) by (auto simp: set_stage_def maps_ok_def)
  qed (simp_all add: view_simps)
qed

lemma no_session_inv:
  assumes "pool_inv P" "map_of (p_transitions P) wd = Some t" "tr_stage t = Creating"
  shows "pool_inv (factory_settled Factory_failed wd t P)" "pool_inv (factory_settled Factory_late wd t P)"
proof -
  note d = creating_view [OF assms]
  have drop: "drop_entry wd (tr_entry t) P = P\<lparr>p_sessions := mdel wd (p_sessions P)\<rparr>"
    if "creating_ok (p_closed P) (map_of (p_sessions P) wd) t" for P :: pool
  proof (cases "map_of (p_sessions P) wd")
    case None
    then have "mdel wd (p_sessions P) = p_sessions P" by (intro mdel_absent) (simp add: mhas_map_of)
    with None show ?thesis by (simp add: drop_entry_def)
  qed (use that in \<open>auto simp: drop_entry_def creating_ok_def\<close>)
  have eq: "factory_settled Factory_failed wd t P = clear_transition wd
      (P\<lparr>p_creationHolds := mdel wd (p_creationHolds P), p_sessions := mdel wd (p_sessions P)\<rparr>)"
    "factory_settled Factory_late wd t P = set_stage wd t True Late (P\<lparr>p_sessions := mdel wd (p_sessions P)\<rparr>)"
    using d(1,3) drop by (simp_all add: factory_settled_def release_creation_def)
  have o: "occupied (view P wd)" using d(1) by (simp add: view_def)
  show "pool_inv (factory_settled Factory_failed wd t P)" unfolding eq(1) using assms(1)
    by (rule local_step [of _ wd]) (use o d(2,4,5) in \<open>simp_all add: view_simps ok_simps\<close>)
  show "pool_inv (factory_settled Factory_late wd t P)" unfolding eq(2) using assms(1)
    by (rule local_step [of _ wd]) (use o d(1,2,4,5) in \<open>simp_all add: view_simps ok_simps\<close>)
qed

lemma factory_inv:
  assumes "pool_inv P" "map_of (p_transitions P) wd = Some t" "tr_stage t = Creating"
  shows "pool_inv (factory_settled f wd t P)"
  using made_closed_inv [OF assms] made_open_inv [OF assms] no_session_inv [OF assms] by (cases f) auto

lemma late_inv:
  assumes "pool_inv P" "map_of (p_transitions P) wd = Some t" "tr_stage t = Late"
  shows "pool_inv (late_settled f wd t P)"
proof -
  have d: "map_of (p_creationHolds P) wd = Some (tr_entry t)" "map_of (p_retirements P) wd = None"
    "map_of (p_sessions P) wd = None" "{s. (wd, s) \<in> set (p_live P)} = {}"
    using dir_okI [OF assms(1), of wd] assms(2,3) by (auto simp: view_def ok_simps split: option.splits)
  then have l: "wd \<notin> fst ` set (p_live P)" by force
  show ?thesis
  proof (cases f)
    case (Some s)
    obtain P' where P': "retire s wd (tr_identity t) [] (receive wd s P) = Inr P'"
      "p_retirements P' = mput wd \<lparr>rt_session = s, rt_generation = p_nextRetirementGeneration P,
        rt_identity = tr_identity t, rt_holds = [], rt_state = R_pending\<rparr> (p_retirements P)"
      "p_sessions P' = p_sessions P" "p_transitions P' = p_transitions P" "p_live P' = (wd, s) # p_live P"
      "p_creationHolds P' = p_creationHolds P" "p_closed P' = p_closed P" "p_maxSessions P' = p_maxSessions P"
      using receive_retire [of "receive wd s P" wd s "tr_identity t"] d by (auto simp: view_simps)
    have eq: "late_settled f wd t P = set_stage wd t True Late_retiring P'"
      using Some P'(1) by (simp add: late_settled_def)
    show ?thesis unfolding eq using assms(1)
      by (rule local_step [of _ wd])
        (use P' d l assms(1,2) in \<open>auto simp: view_simps ok_simps pool_inv_def set_eq_iff\<close>)
  next
    case None
    show ?thesis using assms(1)
      by (rule local_step [of _ wd])
        (use d assms(1,2) None in \<open>auto simp: late_settled_def view_simps ok_simps pool_inv_def set_eq_iff\<close>)
  qed
qed

lemma admitted_occupied: "set (admitted_workspaces P) \<subseteq> occupied_dirs P"
  by (auto simp: admitted_workspaces_def occupied_dirs_def view_def map_of_eq_None_iff rev_image_eqI)

lemma occupied_admitted:
  assumes "pool_inv P" "\<not> p_closed P"
  shows "occupied_dirs P = set (admitted_workspaces P)"
proof
  show "occupied_dirs P \<subseteq> set (admitted_workspaces P)"
  proof
    fix wd assume o: "wd \<in> occupied_dirs P"
    have "map_of (p_sessions P) wd \<noteq> None" if "map_of (p_transitions P) wd = Some y" "tr_stage y = Retiring g" for y g
      using dir_okI [OF assms(1), of wd] that assms(2) by (auto simp: view_def creating_ok_def split: option.splits)
    with o have "map_of (p_sessions P) wd \<noteq> None \<or> map_of (p_retirements P) wd \<noteq> None \<or> map_of (p_creationHolds P) wd \<noteq> None"
      by (auto simp: occupied_dirs_def view_def)
    then show "wd \<in> set (admitted_workspaces P)" by (auto simp: admitted_workspaces_def map_of_eq_None_iff)
  qed
qed (rule admitted_occupied)

lemma local_grow:
  assumes "pool_inv P" "\<And>x. x \<noteq> wd \<Longrightarrow> view P' x = view P x" "dir_ok (view P' wd)"
    and "\<not> p_closed P" "length (admitted_workspaces P) < p_maxSessions P" "maps_ok P'" "p_maxSessions P' = p_maxSessions P"
  shows "pool_inv P'"
proof -
  have "occupied_dirs P' \<subseteq> insert wd (occupied_dirs P)"
    using assms(2) unfolding occupied_dirs_def by (metis (mono_tags, lifting) insertI2 insertI1 mem_Collect_eq subsetI)
  then have "card (occupied_dirs P') \<le> Suc (card (occupied_dirs P))"
    using card_mono [of "insert wd (occupied_dirs P)" "occupied_dirs P'"] finite_occupied by (simp add: card_insert_if split: if_splits)
  moreover have "card (occupied_dirs P) = length (admitted_workspaces P)"
    unfolding occupied_admitted [OF assms(1,4)] admitted_workspaces_def by (rule distinct_card) simp
  moreover have "dir_ok (view P' x)" for x using assms(1,2,3) by (cases "x = wd") (auto simp: pool_inv_def)
  ultimately show ?thesis using assms(5,6,7) by (simp add: pool_inv_def)
qed

lemma touch_inv:
  assumes "pool_inv P" "map_of (p_sessions P) wd = Some e"
  shows "pool_inv (P\<lparr>p_sessions := mput wd (e\<lparr>en_lastUsed := n\<rparr>) (p_sessions P)\<rparr>)" (is "pool_inv ?P")
  using assms(1)
proof (rule local_step [of _ wd])
  have "stage_ok cl (Some (e\<lparr>en_lastUsed := n\<rparr>)) t r h st = stage_ok cl (Some e) t r h st" for cl t r h st
    by (cases st) (auto simp: ok_simps)
  then show "dir_ok (view ?P wd)"
    using dir_okI [OF assms(1), of wd] assms(2) by (auto simp: view_simps ok_simps split: option.splits)
qed (use assms in \<open>auto simp: view_simps pool_inv_def\<close>)

lemma idle_view:
  assumes "pool_inv P" "map_of (p_transitions P) wd = None"
  shows "map_of (p_creationHolds P) wd = None" "map_of (p_sessions P) wd = Some e \<Longrightarrow> en_session e \<noteq> None"
  using dir_okI [OF assms(1), of wd] assms(2) by (auto simp: view_def idle_ok_def)

lemma put_found_inv:
  assumes "pool_inv P" "map_of (p_transitions P) wd = None"
  shows "pool_inv (put_transition wd i k Found P)"
  using assms(1)
proof (rule local_step [of _ wd])
  show "dir_ok (view (put_transition wd i k Found P) wd)"
    using dir_okI [OF assms(1), of wd] assms(2) by (simp add: view_simps)
qed (use assms in \<open>auto simp: view_simps pool_inv_def\<close>)

lemma replace_inv:
  assumes "pool_inv P" "map_of (p_transitions P) wd = None" "map_of (p_sessions P) wd = None" "\<not> p_closed P"
    and "map_of (p_retirements P) wd = Some r" "rt_generation r = g"
  shows "pool_inv (put_transition wd i (p_nextEntry P) (Retiring g) (put_creation wd i now P))" (is "pool_inv ?P")
  using assms(1)
proof (rule local_step [of _ wd])
  show "dir_ok (view ?P wd)"
    using dir_okI [OF assms(1), of wd] assms(2-) by (simp add: view_simps ok_simps)
qed (use assms in \<open>auto simp: view_simps pool_inv_def\<close>)

lemma start_inv:
  assumes "pool_inv P" "map_of (p_transitions P) wd = None" "map_of (p_sessions P) wd = None" "\<not> p_closed P"
    and "map_of (p_retirements P) wd = None" "length (admitted_workspaces P) < p_maxSessions P"
  shows "pool_inv (put_transition wd i (p_nextEntry P) Creating (put_creation wd i now (hold_creation wd (p_nextEntry P) P)))"
    (is "pool_inv ?P")
proof (rule local_grow [OF assms(1) _ _ assms(4,6), of wd])
  show "dir_ok (view ?P wd)"
    using dir_okI [OF assms(1), of wd] assms(2-) by (simp add: view_simps ok_simps)
qed (use assms in \<open>auto simp: view_simps pool_inv_def\<close>)

lemma ensure_inv:
  assumes "pool_inv P" "ensureSession isClosed now receipt wd i P = (res, P')"
  shows "pool_inv P' \<and> res \<noteq> Awaits_creation"
proof (cases "p_closed P \<or> receipt \<noteq> None \<or> map_of (p_retirements P) wd \<noteq> None \<or> map_of (p_transitions P) wd \<noteq> None")
  case True
  then show ?thesis using assms by (auto simp: ensureSession_def split: if_splits option.splits)
next
  case False
  then have g: "\<not> p_closed P" "map_of (p_retirements P) wd = None" "map_of (p_transitions P) wd = None"
    and eq: "ensureCanonicalSession isClosed now wd i P = (res, P')"
    using assms(2) by (auto simp: ensureSession_def)
  show ?thesis
  proof (cases "map_of (p_sessions P) wd")
    case None
    then show ?thesis
      using eq start_inv [OF assms(1) g(3) None g(1,2)] assms(1) by (auto simp: ensureCanonicalSession_def Let_def split: if_splits)
  next
    case (Some e)
    then obtain s where s: "en_session e = Some s" using idle_view(2) [OF assms(1) g(3)] by blast
    show ?thesis
    proof (cases "en_identity e = i \<and> \<not> isClosed s")
      case True
      then show ?thesis
        using eq Some s g(3) put_found_inv [OF touch_inv [OF assms(1) Some]]
        by (auto simp: ensureCanonicalSession_def Let_def)
    next
      case False
      obtain P1 where P1: "retire s wd (en_identity e) [] P = Inr P1" "pool_inv P1" "p_sessions P1 = mdel wd (p_sessions P)"
        "p_transitions P1 = p_transitions P" "p_closed P1 = p_closed P"
        "\<exists>r. map_of (p_retirements P1) wd = Some r \<and> rt_generation r = p_nextRetirementGeneration P"
        using retire_entry(2) [OF assms(1) Some s, of "en_identity e" "[]"] by auto
      have n: "p_nextEntry P1 = p_nextEntry P" using P1(1) g(2) by (auto simp: retire_def Let_def register_def)
      show ?thesis
        using eq Some s False P1 g n replace_inv [OF P1(2), of wd]
        by (auto simp: ensureCanonicalSession_def Let_def)
    qed
  qed
qed

lemma find_map:
  assumes "find f m = Some (k, v)" "wf_map m"
  shows "map_of m k = Some v" "f (k, v)"
  using assms by (auto simp: find_Some_iff)

lemma retireSession_inv:
  assumes "pool_inv P" "retireSession s holds P = (res, P')"
  shows "pool_inv P'"
proof -
  have m: "wf_map (p_sessions P)" "wf_map (p_retirements P)" using assms(1) by (simp_all add: pool_inv_def maps_ok_def)
  show ?thesis
  proof (cases "find (\<lambda>(_, r). rt_session r = s) (p_retirements P)")
    case (Some x)
    obtain wd r where x: "x = (wd, r)" by force
    then have "map_of (p_retirements P) wd = Some r" using find_map(1) [OF _ m(2)] Some by blast
    then show ?thesis using add_holds_inv [OF assms(1)] assms(2) Some x by (auto simp: retireSession_def)
  next
    case None
    show ?thesis
    proof (cases "find (\<lambda>(_, e). en_session e = Some s) (p_sessions P)")
      case (Some x)
      obtain wd e where x: "x = (wd, e)" by force
      then have "map_of (p_sessions P) wd = Some e" "en_session e = Some s"
        using find_map [OF Some [unfolded x] m(1)] by simp_all
      with retire_entry(2) [OF assms(1) this, of "en_identity e" holds] show ?thesis
        using assms(2) None Some x by (auto simp: retireSession_def)
    next
      case n: None
      have "view (P\<lparr>p_called := c, p_registered := d\<rparr>) x = view P x" "maps_ok (P\<lparr>p_called := c, p_registered := d\<rparr>) = maps_ok P" for c d x
        by (simp_all add: view_def maps_ok_def)
      then have "pool_inv (P\<lparr>p_called := c, p_registered := d\<rparr>)" for c d
        using assms(1) by (simp add: pool_inv_def occupied_dirs_def)
      then show ?thesis using assms None n by (auto simp: retireSession_def register_def split: if_splits)
    qed
  qed
qed

lemma retire_all_inv:
  assumes "pool_inv P" "wf_map es" "\<And>wd e. (wd, e) \<in> set es \<Longrightarrow> map_of (p_sessions P) wd = Some e"
  shows "\<exists>P'. retire_all es P = (None, P') \<and> pool_inv P' \<and> p_closed P' = p_closed P \<and> p_transitions P' = p_transitions P \<and>
    (\<forall>wd e. map_of (p_sessions P') wd = Some e \<longrightarrow> map_of (p_sessions P) wd = Some e \<and> ((wd, e) \<in> set es \<longrightarrow> en_session e = None))"
  using assms
proof (induction es arbitrary: P)
  case (Cons x es)
  obtain wd e where x: "x = (wd, e)" by force
  have e: "map_of (p_sessions P) wd = Some e" using Cons.prems(3) x by simp
  have d: "wf_map es" "wd \<notin> fst ` set es" using Cons.prems(2) x by auto
  show ?case
  proof (cases "en_session e")
    case None
    obtain P' where P': "retire_all es P = (None, P')" "pool_inv P'" "p_closed P' = p_closed P" "p_transitions P' = p_transitions P"
      "\<forall>wd e. map_of (p_sessions P') wd = Some e \<longrightarrow> map_of (p_sessions P) wd = Some e \<and> ((wd, e) \<in> set es \<longrightarrow> en_session e = None)"
      using Cons.IH [OF Cons.prems(1) d(1)] Cons.prems(3) by (metis list.set_intros(2))
    with None x show ?thesis by auto
  next
    case (Some s)
    obtain P1 where P1: "retire s wd (en_identity e) [] P = Inr P1" "pool_inv P1" "p_sessions P1 = mdel wd (p_sessions P)"
      "p_transitions P1 = p_transitions P" "p_closed P1 = p_closed P"
      using retire_entry(2) [OF Cons.prems(1) e Some] by blast
    have "map_of (p_sessions P1) k = Some v" if "(k, v) \<in> set es" for k v
      using Cons.prems(3) [of k v] that d(2) x P1(3) by force
    from Cons.IH [OF P1(2) d(1) this] obtain P' where P': "retire_all es P1 = (None, P')" "pool_inv P'" "p_closed P' = p_closed P"
      "p_transitions P' = p_transitions P"
      "\<forall>wd e. map_of (p_sessions P') wd = Some e \<longrightarrow> map_of (p_sessions P1) wd = Some e \<and> ((wd, e) \<in> set es \<longrightarrow> en_session e = None)"
      using P1(4,5) by auto
    then have "\<forall>k v. map_of (p_sessions P') k = Some v \<longrightarrow> map_of (p_sessions P) k = Some v \<and> ((k, v) \<in> set (x # es) \<longrightarrow> en_session v = None)"
    proof (intro allI impI)
      fix k v assume v: "map_of (p_sessions P') k = Some v"
      with P'(5) have "map_of (p_sessions P1) k = Some v" "(k, v) \<in> set es \<longrightarrow> en_session v = None" by blast+
      then show "map_of (p_sessions P) k = Some v \<and> ((k, v) \<in> set (x # es) \<longrightarrow> en_session v = None)"
        using P1(3) x by (auto simp del: map_of_eq_Some_iff split: if_splits)
    qed
    with P' P1(1) x Some show ?thesis by auto
  qed
qed simp

lemma retire_closed: "retire s wd i hs (P\<lparr>p_closed := b\<rparr>) = map_sum id (\<lambda>Q. Q\<lparr>p_closed := b\<rparr>) (retire s wd i hs P)"
  by (simp add: retire_def Let_def register_def split: option.splits)

lemma retire_all_closed: "retire_all es (P\<lparr>p_closed := b\<rparr>) = (fst (retire_all es P), (snd (retire_all es P))\<lparr>p_closed := b\<rparr>)"
proof (induction es arbitrary: P)
  case (Cons x es)
  obtain wd e where x: "x = (wd, e)" by force
  show ?case
  proof (cases "en_session e")
    case (Some s)
    then show ?thesis using Cons x by (cases "retire s wd (en_identity e) [] P") (simp_all add: retire_closed)
  qed (use Cons x in simp)
qed simp

lemma close_inv:
  assumes "pool_inv P" "\<And>wd e. map_of (p_sessions P) wd = Some e \<Longrightarrow> en_session e = None"
  shows "pool_inv (P\<lparr>p_closed := True, p_sessions := []\<rparr>)" (is "pool_inv ?P")
proof -
  have "dir_ok (view ?P wd)" for wd
  proof -
    have "stage_ok True None t r h st" if "stage_ok (p_closed P) (map_of (p_sessions P) wd) t r h st" for t r h st
      using that by (cases st) (auto simp: ok_simps split: option.splits)
    moreover have "sessions_of (map_of (p_sessions P) wd) r = sessions_of None r" for r
      using assms(2) by (auto simp: sessions_of_def split: option.splits)
    ultimately show ?thesis
      using dir_okI [OF assms(1), of wd] by (auto simp: view_def idle_ok_def split: option.splits)
  qed
  moreover have "occupied_dirs ?P \<subseteq> occupied_dirs P" by (auto simp: occupied_dirs_def view_def)
  then have "card (occupied_dirs ?P) \<le> card (occupied_dirs P)" by (rule card_mono [OF finite_occupied])
  ultimately show ?thesis using assms(1) by (simp add: pool_inv_def maps_ok_def)
qed

lemma shutdown_inv:
  assumes "pool_inv P" "shutdown P = (err, P')"
  shows "pool_inv P' \<and> err = None"
proof (cases "p_closed P")
  case False
  have m: "wf_map (p_sessions P)" using assms(1) by (simp add: pool_inv_def maps_ok_def)
  obtain P1 where P1: "retire_all (p_sessions P) P = (None, P1)" "pool_inv P1"
    "\<And>wd e. map_of (p_sessions P1) wd = Some e \<Longrightarrow> map_of (p_sessions P) wd = Some e \<and> ((wd, e) \<in> set (p_sessions P) \<longrightarrow> en_session e = None)"
    using retire_all_inv [OF assms(1) m] m by (metis map_of_eq_Some_iff)
  have "en_session e = None" if "map_of (p_sessions P1) wd = Some e" for wd e
    using P1(3) [OF that] map_of_SomeD by metis
  from close_inv [OF P1(2) this] show ?thesis
    using assms(2) False P1(1) by (simp add: shutdown_def retire_all_closed)
qed (use assms in \<open>simp add: shutdown_def\<close>)

lemma reap_inv:
  assumes "pool_inv P" "wf_map es" "\<And>wd e. (wd, e) \<in> set es \<Longrightarrow> map_of (p_sessions P) wd = Some e"
    and "reap_entries isBusy idle now es P = (err, P')"
  shows "pool_inv P' \<and> err = None"
  using assms
proof (induction es arbitrary: P)
  case (Cons x es)
  obtain wd e where x: "x = (wd, e)" by force
  have e: "map_of (p_sessions P) wd = Some e" using Cons.prems(3) x by simp
  have d: "wf_map es" "wd \<notin> fst ` set es" using Cons.prems(2) x by auto
  have keep: "map_of (p_sessions P) k = Some v" "k \<noteq> wd" if "(k, v) \<in> set es" for k v
    using Cons.prems(3) [of k v] that d(2) by force+
  show ?case
  proof (cases "en_session e")
    case None
    then show ?thesis using Cons.IH [OF Cons.prems(1) d(1) keep(1)] Cons.prems(4) x by auto
  next
    case (Some s)
    obtain P1 where P1: "retire s wd (en_identity e) [] P = Inr P1" "pool_inv P1" "p_sessions P1 = mdel wd (p_sessions P)"
      using retire_entry(2) [OF Cons.prems(1) e Some] by blast
    let ?T = "P\<lparr>p_sessions := mput wd (e\<lparr>en_lastUsed := now\<rparr>) (p_sessions P)\<rparr>"
    note t = touch_inv [OF Cons.prems(1) e, of now]
    have k: "map_of (p_sessions ?T) k = Some v" "map_of (p_sessions P1) k = Some v" if "(k, v) \<in> set es" for k v
      using keep [OF that] P1(3) by simp_all
    show ?thesis
      using Cons.IH [OF t d(1) k(1)] Cons.IH [OF P1(2) d(1) k(2)] Cons.IH [OF Cons.prems(1) d(1) keep(1)] Cons.prems(4) x Some P1(1)
      by (auto split: if_splits)
  qed
qed simp

lemma reapIdle_inv:
  assumes "pool_inv P" "reapIdle isBusy idle now P = (err, P')"
  shows "pool_inv P' \<and> err = None"
proof (rule reap_inv [OF assms(1) _ _ assms(2) [unfolded reapIdle_def]])
  show "wf_map (p_sessions P)" using assms(1) by (simp add: pool_inv_def maps_ok_def)
  then show "map_of (p_sessions P) wd = Some e" if "(wd, e) \<in> set (p_sessions P)" for wd e using that by simp
qed

lemma pool_step_inv:
  assumes "pool_step P P'" "pool_inv P"
  shows "pool_inv P'"
  using assms(1)
proof cases
  case (Ensure isClosed now receipt wd i res)
  then show ?thesis using ensure_inv [OF assms(2)] by simp
next
  case (Retire_session s holds rres)
  then show ?thesis using retireSession_inv [OF assms(2)] by simp
next
  case (Retire_entry wd e s holds)
  then show ?thesis using retire_entry(2) [OF assms(2) Retire_entry(1,2), of "en_identity e" holds] by auto
next
  case (Settle wd r ok)
  then show ?thesis using settle_inv [OF assms(2)] by simp
next
  case (Found_done wd t)
  then show ?thesis using clear_inv [OF assms(2)] by simp
next
  case (Prior wd t g b)
  then show ?thesis using prior_inv [OF assms(2) Prior(2,3), of b] by simp
next
  case (Factory wd t f)
  then show ?thesis using factory_inv [OF assms(2)] by simp
next
  case (Late_factory wd t lf)
  then show ?thesis using late_inv [OF assms(2)] by simp
next
  case (Late_done wd t)
  then show ?thesis using late_done_inv [OF assms(2)] by simp
next
  case (Closing_done wd t)
  then show ?thesis using closing_inv [OF assms(2)] by simp
next
  case (Replaced_done wd t g)
  then show ?thesis using clear_inv [OF assms(2)] by simp
next
  case (Shutdown err)
  then show ?thesis using shutdown_inv [OF assms(2)] by simp
next
  case (Reap isBusy idle now err)
  then show ?thesis using reapIdle_inv [OF assms(2)] by simp
qed

lemma pool_reachable_inv: "pool_reachable n P \<Longrightarrow> pool_inv P"
proof (induction rule: pool_reachable.induct)
  case (Start P)
  then show ?case
    by (auto simp: new_pool_def pool_inv_def maps_ok_def view_def occupied_dirs_def ok_simps split: if_splits)
qed (rule pool_step_inv)

end
