(* ===== verification/Session_Pool_Properties.thy ===== *)
theory Session_Pool_Properties
  imports Session_Pool_Invariant
begin

text \<open>
  What the session pool guarantees in every interleaving: one session per directory, the admission limit,
  and the release of containment holds only after the disposal of the session they guard.
\<close>

section \<open>Limit and holds\<close>

lemma retire_max: "retire s wd i hs P = Inr P' \<Longrightarrow> p_maxSessions P' = p_maxSessions P"
  by (auto simp: retire_def Let_def register_def split: option.splits if_splits)

lemma retire_all_max: "p_maxSessions (snd (retire_all es P)) = p_maxSessions P"
  by (induction es P rule: retire_all.induct) (auto simp: retire_max split: option.splits sum.splits)

lemma reap_max: "p_maxSessions (snd (reap_entries b i now es P)) = p_maxSessions P"
  by (induction b i now es P rule: reap_entries.induct) (auto simp: retire_max split: option.splits sum.splits)

lemma max_simps [simp]:
  "p_maxSessions (clear_transition wd P) = p_maxSessions P" "p_maxSessions (set_stage wd t c st P) = p_maxSessions P"
  "p_maxSessions (release_creation wd k P) = p_maxSessions P" "p_maxSessions (receive wd s P) = p_maxSessions P"
  "p_maxSessions (hold_creation wd k P) = p_maxSessions P" "p_maxSessions (put_creation wd i now P) = p_maxSessions P"
  "p_maxSessions (put_transition wd i k st P) = p_maxSessions P" "p_maxSessions (register s hs P) = p_maxSessions P"
  "p_maxSessions (drop_entry wd k P) = p_maxSessions P" "p_maxSessions (dispose_settled wd ok P) = p_maxSessions P"
  by (simp_all add: view_simps dispose_settled_def split: option.splits)

lemma ensure_max: "p_maxSessions (snd (ensureSession isClosed now receipt wd i P)) = p_maxSessions P"
  by (auto simp: ensureSession_def ensureCanonicalSession_def Let_def retire_max split: option.splits sum.splits)

lemma settled_max [simp]:
  "p_maxSessions (prior_settled b wd t g P) = p_maxSessions P" "p_maxSessions (late_settled lf wd t P) = p_maxSessions P"
  "p_maxSessions (factory_settled f wd t P) = p_maxSessions P" "p_maxSessions (late_disposed wd t P) = p_maxSessions P"
  "p_maxSessions (closing_done wd t P) = p_maxSessions P"
proof -
  show "p_maxSessions (prior_settled b wd t g P) = p_maxSessions P" by (cases b) (simp_all add: prior_settled_def)
  show "p_maxSessions (late_settled lf wd t P) = p_maxSessions P"
    by (auto simp: late_settled_def dest: retire_max split: option.splits sum.splits)
  show "p_maxSessions (factory_settled f wd t P) = p_maxSessions P"
    by (cases f) (auto simp: factory_settled_def Let_def dest: retire_max split: option.splits sum.splits)
qed (simp_all add: late_disposed_def closing_done_def)

lemma retireSession_max: "p_maxSessions (snd (retireSession s holds P)) = p_maxSessions P"
  by (auto simp: retireSession_def dest: retire_max split: option.splits sum.splits)

lemma shutdown_max: "p_maxSessions (snd (shutdown P)) = p_maxSessions P"
  using retire_all_max [of "p_sessions P" "P\<lparr>p_closed := True\<rparr>"]
  by (cases "retire_all (p_sessions P) (P\<lparr>p_closed := True\<rparr>)") (auto simp: shutdown_def split: option.splits)

lemma pool_step_max:
  assumes "pool_step P P'"
  shows "p_maxSessions P' = p_maxSessions P"
  using assms
proof cases
  case (Ensure isClosed now receipt wd i res)
  then show ?thesis using ensure_max [of isClosed now receipt wd i P] by simp
next
  case (Retire_session s holds rres)
  then show ?thesis using retireSession_max [of s holds P] by simp
next
  case (Retire_entry wd e s holds)
  then show ?thesis by (simp add: retire_max)
next
  case (Shutdown err)
  then show ?thesis using shutdown_max [of P] by simp
next
  case (Reap isBusy idle now err)
  then show ?thesis using reap_max [of isBusy idle now "p_sessions P" P] by (simp add: reapIdle_def)
qed simp_all

lemma pool_reachable_max: "pool_reachable n P \<Longrightarrow> p_maxSessions P = n"
  by (induction rule: pool_reachable.induct) (auto simp: new_pool_def pool_step_max split: if_splits)

text \<open>How often a hold waits in the retirements.\<close>

definition waiting :: "nat \<Rightarrow> (jsstr \<times> retirement) list \<Rightarrow> nat" where
  "waiting h m = sum_list (map (\<lambda>(_, r). count_list (rt_holds r) h) m)"

lemma waiting_mput:
  "map_of m k = None \<Longrightarrow> waiting h (mput k r m) = waiting h m + count_list (rt_holds r) h"
  "map_of m k = Some q \<Longrightarrow> waiting h (mput k r m) + count_list (rt_holds q) h = waiting h m + count_list (rt_holds r) h"
  by (induction m) (auto simp: waiting_def split: if_splits)

lemma waiting_mdel: "wf_map m \<Longrightarrow> map_of m k = Some q \<Longrightarrow> waiting h (mdel k m) + count_list (rt_holds q) h = waiting h m"
proof (induction m)
  case (Cons x m)
  show ?case
  proof (cases "fst x = k")
    case True
    then have "mdel k m = m" using Cons.prems(1) by (intro mdel_absent) (auto simp: mhas_def)
    then show ?thesis using True Cons.prems by (cases x) (auto simp: waiting_def mdel_def)
  next
    case False
    then show ?thesis using Cons by (cases x) (auto simp: waiting_def mdel_def)
  qed
qed simp

lemma set_fold_set_add: "set (fold set_add hs acc) = set acc \<union> set hs"
  by (induction hs arbitrary: acc) (auto simp: set_add_def)

lemma count_fold_set_add: "count_list (fold set_add hs acc) h \<le> count_list acc h + count_list hs h"
proof (induction hs arbitrary: acc)
  case (Cons x hs)
  have "count_list (set_add x acc) h \<le> count_list acc h + (if x = h then 1 else 0)" by (simp add: set_add_def)
  with Cons.IH [of "set_add x acc"] show ?case by (auto intro: order_trans)
qed simp

definition holds_inv :: "pool \<Rightarrow> bool" where
  "holds_inv P \<longleftrightarrow> (\<forall>h \<in> set (p_called P). \<exists>s. (h, s) \<in> set (p_registered P) \<and> s \<in> set (p_retiredSessions P)) \<and>
     (\<forall>(wd, r) \<in> set (p_retirements P). \<forall>h \<in> set (rt_holds r). (h, rt_session r) \<in> set (p_registered P)) \<and>
     (\<forall>h. count_list (p_called P) h + waiting h (p_retirements P) \<le> count_list (map fst (p_registered P)) h)"

definition history :: "pool \<Rightarrow> nat list \<times> (nat \<times> nat) list \<times> (jsstr \<times> retirement) list \<times> nat list" where
  "history P = (p_called P, p_registered P, p_retirements P, p_retiredSessions P)"

lemma holds_inv_history: "history P' = history P \<Longrightarrow> holds_inv P' = holds_inv P"
  by (simp add: holds_inv_def history_def)

text \<open>Holds are added to a retirement and registered at once.\<close>

lemma put_holds_inv:
  assumes "holds_inv P" "rt_session r = s" "rt_holds r = (case map_of (p_retirements P) wd of None \<Rightarrow> [] | Some q \<Rightarrow> rt_holds q)"
    and "\<And>q. map_of (p_retirements P) wd = Some q \<Longrightarrow> rt_session q = s"
    and "history P' = (p_called P, p_registered P @ map (\<lambda>h. (h, s)) holds, mput wd (addRetirementHolds r holds) (p_retirements P), p_retiredSessions P)"
  shows "holds_inv P'"
proof -
  let ?r = "addRetirementHolds r holds"
  have set: "set (rt_holds ?r) = set (rt_holds r) \<union> set holds" by (simp add: addRetirementHolds_def set_fold_set_add)
  have P': "p_called P' = p_called P" "p_registered P' = p_registered P @ map (\<lambda>h. (h, s)) holds"
    "p_retirements P' = mput wd ?r (p_retirements P)" "p_retiredSessions P' = p_retiredSessions P"
    using assms(5) by (simp_all add: history_def)
  have old: "(h, s) \<in> set (p_registered P)" if "h \<in> set (rt_holds r)" for h
    using that assms(1,3,4) by (cases "map_of (p_retirements P) wd") (auto simp: holds_inv_def dest!: map_of_SomeD)
  have mput: "x = (wd, ?r) \<or> x \<in> set (p_retirements P)" if "x \<in> set (mput wd ?r (p_retirements P))" for x
    using in_set_mput [OF that] .
  have w: "waiting h (mput wd ?r (p_retirements P)) \<le> waiting h (p_retirements P) + count_list holds h" for h
    using count_fold_set_add [of holds "rt_holds r" h] assms(3) waiting_mput(1) [of "p_retirements P" wd h ?r]
      waiting_mput(2) [of "p_retirements P" wd _ h ?r]
    by (cases "map_of (p_retirements P) wd") (fastforce simp: addRetirementHolds_def)+
  have "count_list (p_called P) h + waiting h (mput wd ?r (p_retirements P)) \<le> count_list (map fst (p_registered P)) h + count_list holds h" for h
  proof -
    have "count_list (p_called P) h + waiting h (p_retirements P) \<le> count_list (map fst (p_registered P)) h"
      using assms(1) by (simp add: holds_inv_def)
    with w [of h] show ?thesis by linarith
  qed
  moreover have "(h, rt_session q) \<in> set (p_registered P')" if "(k, q) \<in> set (p_retirements P')" "h \<in> set (rt_holds q)" for k q h
    using that mput [of "(k, q)"] old set assms(1,2) P' by (auto simp: holds_inv_def)
  ultimately show ?thesis
    using assms(1) P' unfolding holds_inv_def by (auto simp: comp_def)
qed

lemma retire_holds:
  assumes "holds_inv P" "retire s wd i holds P = Inr P'"
  shows "holds_inv P'"
proof (cases "map_of (p_retirements P) wd")
  case None
  then show ?thesis
    using assms(2) by (intro put_holds_inv [OF assms(1), of
        "\<lparr>rt_session = s, rt_generation = p_nextRetirementGeneration P, rt_identity = i, rt_holds = [], rt_state = R_pending\<rparr>" s wd P' holds])
      (auto simp: retire_def Let_def history_def register_def)
next
  case (Some q)
  then show ?thesis
    using assms(2) by (intro put_holds_inv [OF assms(1), of q s wd P' holds])
      (auto simp: retire_def history_def register_def split: if_splits)
qed

lemma settle_holds:
  assumes "holds_inv P" "maps_ok P"
  shows "holds_inv (dispose_settled wd ok P)"
proof (cases "map_of (p_retirements P) wd")
  case (Some r)
  have w: "wf_map (p_retirements P)" using assms(2) by (simp add: maps_ok_def)
  note i = assms(1) [unfolded holds_inv_def]
  have reg: "(h, rt_session r) \<in> set (p_registered P)" if "h \<in> set (rt_holds r)" for h
    using i that map_of_SomeD [OF Some] by blast
  show ?thesis
  proof (cases ok)
    case True
    have "count_list (p_called P @ rt_holds r) h + waiting h (mdel wd (p_retirements P)) \<le> count_list (map fst (p_registered P)) h" for h
    proof -
      have "count_list (p_called P) h + waiting h (p_retirements P) \<le> count_list (map fst (p_registered P)) h" using i by blast
      with waiting_mdel [OF w Some, of h] show ?thesis by simp
    qed
    moreover have "\<exists>s. (h, s) \<in> set (p_registered P) \<and> s \<in> set (rt_session r # p_retiredSessions P)"
      if "h \<in> set (p_called P @ rt_holds r)" for h
    proof (cases "h \<in> set (p_called P)")
      case True
      then obtain s where "(h, s) \<in> set (p_registered P)" "s \<in> set (p_retiredSessions P)" using i by blast
      then show ?thesis by auto
    qed (use that reg in auto)
    moreover have "(k, q) \<in> set (mdel wd (p_retirements P)) \<Longrightarrow> (k, q) \<in> set (p_retirements P)" for k q by (simp add: mdel_def)
    ultimately show ?thesis
      using i Some True unfolding holds_inv_def dispose_settled_def by (simp del: map_of_eq_Some_iff) blast
  next
    case False
    have "waiting h (mput wd (r\<lparr>rt_state := R_failed\<rparr>) (p_retirements P)) = waiting h (p_retirements P)" for h
      using waiting_mput(2) [OF Some, of h "r\<lparr>rt_state := R_failed\<rparr>"] by simp
    moreover have "(h, rt_session q) \<in> set (p_registered P)"
      if "(k, q) \<in> set (mput wd (r\<lparr>rt_state := R_failed\<rparr>) (p_retirements P))" "h \<in> set (rt_holds q)" for k q h
      using in_set_mput [OF that(1)] that(2) reg i by auto
    ultimately show ?thesis
      using i Some False unfolding holds_inv_def dispose_settled_def by (simp del: map_of_eq_Some_iff) blast
  qed
qed (use assms(1) in \<open>simp add: dispose_settled_def\<close>)

lemma retireSession_holds:
  assumes "holds_inv P" "maps_ok P" "retireSession s holds P = (res, P')"
  shows "holds_inv P'"
proof -
  have m: "wf_map (p_retirements P)" using assms(2) by (simp add: maps_ok_def)
  show ?thesis
  proof (cases "find (\<lambda>(_, r). rt_session r = s) (p_retirements P)")
    case (Some x)
    obtain wd r where x: "x = (wd, r)" by force
    then have r: "map_of (p_retirements P) wd = Some r" "rt_session r = s" using find_map [OF Some [unfolded x] m] by simp_all
    then show ?thesis
      using assms(3) Some x by (intro put_holds_inv [OF assms(1), of r s wd P' holds])
        (auto simp: retireSession_def history_def register_def)
  next
    case None
    show ?thesis
    proof (cases "s \<in> set (p_retiredSessions P) \<and> find (\<lambda>(_, e). en_session e = Some s) (p_sessions P) = None")
      case True
      note i = assms(1) [unfolded holds_inv_def]
      have P': "P' = register s holds (P\<lparr>p_called := p_called P @ fold set_add holds []\<rparr>)"
        using assms(3) None True by (auto simp: retireSession_def)
      have "count_list (p_called P @ fold set_add holds []) h + waiting h (p_retirements P) \<le>
          count_list (map fst (p_registered P) @ holds) h" for h
      proof -
        have "count_list (p_called P) h + waiting h (p_retirements P) \<le> count_list (map fst (p_registered P)) h" using i by blast
        with count_fold_set_add [of holds "[]" h] show ?thesis by simp
      qed
      then show ?thesis using i True
        unfolding P' holds_inv_def by (auto simp: register_def set_fold_set_add comp_def)
    next
      case False
      then have "P' = P \<or> (\<exists>wd i. retire s wd i holds P = Inr P')"
        using assms(3) None by (auto simp: retireSession_def split: option.splits sum.splits if_splits)
      then show ?thesis using assms(1) retire_holds by blast
    qed
  qed
qed

lemma history_simps [simp]:
  "history (clear_transition wd P) = history P" "history (set_stage wd t c st P) = history P"
  "history (release_creation wd k P) = history P" "history (receive wd s P) = history P"
  "history (hold_creation wd k P) = history P" "history (put_creation wd i now P) = history P"
  "history (put_transition wd i k st P) = history P" "history (drop_entry wd k P) = history P"
  "history (P\<lparr>p_sessions := es\<rparr>) = history P" "history (P\<lparr>p_closed := b\<rparr>) = history P"
  by (simp_all add: history_def view_simps split: option.splits)

lemmas holds_history [simp] = history_simps [THEN holds_inv_history]

lemma ensure_holds: "holds_inv P \<Longrightarrow> holds_inv (snd (ensureSession isClosed now receipt wd i P))"
  by (auto simp: ensureSession_def ensureCanonicalSession_def Let_def dest: retire_holds split: option.splits sum.splits)

lemma settled_holds:
  assumes "holds_inv P"
  shows "holds_inv (prior_settled b wd t g P)" "holds_inv (late_settled lf wd t P)" "holds_inv (factory_settled f wd t P)"
    "holds_inv (late_disposed wd t P)" "holds_inv (closing_done wd t P)"
proof -
  show "holds_inv (prior_settled b wd t g P)" using assms by (cases b) (simp_all add: prior_settled_def)
  have r: "holds_inv P'" if "retire s wd i [] (receive wd s P) = Inr P'" for s i P'
    using retire_holds [OF _ that] assms by simp
  then show "holds_inv (late_settled lf wd t P)"
    using assms by (auto simp: late_settled_def split: option.splits sum.splits)
  have "holds_inv P'" if "retire s wd i [] (release_creation wd k (receive wd s P)) = Inr P'" for s i k P'
    using retire_holds [OF _ that] assms by simp
  then show "holds_inv (factory_settled f wd t P)"
    using assms by (cases f) (auto simp: factory_settled_def Let_def split: option.splits sum.splits)
qed (use assms in \<open>simp_all add: late_disposed_def closing_done_def\<close>)

lemma retire_all_holds: "holds_inv P \<Longrightarrow> holds_inv (snd (retire_all es P))"
  by (induction es P rule: retire_all.induct) (auto dest: retire_holds split: option.splits sum.splits)

lemma shutdown_holds: "holds_inv P \<Longrightarrow> holds_inv (snd (shutdown P))"
  using retire_all_holds [of "P\<lparr>p_closed := True\<rparr>" "p_sessions P"]
  by (cases "retire_all (p_sessions P) (P\<lparr>p_closed := True\<rparr>)") (auto simp: shutdown_def split: option.splits)

lemma reap_holds: "holds_inv P \<Longrightarrow> holds_inv (snd (reap_entries b i now es P))"
  by (induction b i now es P rule: reap_entries.induct) (auto dest: retire_holds split: option.splits sum.splits)

lemma pool_step_holds:
  assumes "pool_step P P'" "holds_inv P" "maps_ok P"
  shows "holds_inv P'"
  using assms(1)
proof cases
  case (Ensure isClosed now receipt wd i res)
  then show ?thesis using ensure_holds [OF assms(2), of isClosed now receipt wd i] by simp
next
  case (Retire_session s holds rres)
  then show ?thesis using retireSession_holds [OF assms(2,3)] by simp
next
  case (Retire_entry wd e s holds)
  then show ?thesis using retire_holds [OF assms(2)] by simp
next
  case (Settle wd r ok)
  then show ?thesis using settle_holds [OF assms(2,3)] by simp
next
  case (Shutdown err)
  then show ?thesis using shutdown_holds [OF assms(2)] by simp
next
  case (Reap isBusy idle now err)
  then show ?thesis using reap_holds [OF assms(2), of isBusy idle now "p_sessions P"] by (simp add: reapIdle_def)
qed (use assms(2) settled_holds [OF assms(2)] in simp_all)

lemma pool_reachable_holds: "pool_reachable n P \<Longrightarrow> holds_inv P"
proof (induction rule: pool_reachable.induct)
  case (Start P)
  then show ?case by (auto simp: new_pool_def holds_inv_def waiting_def split: if_splits)
next
  case (Step P P')
  have "maps_ok P" using pool_reachable_inv [OF Step(1)] by (simp add: pool_inv_def)
  with pool_step_holds [OF Step(2,3)] show ?case .
qed

section \<open>Properties\<close>

text \<open>C5. At any moment of any interleaving of calls, timeouts and settlements a working directory has at most
  one session that was created and not yet disposed of, and while a factory call for it is outstanding,
  timed out or not, it has none: sessions of one directory never overlap.\<close>

theorem one_session_per_directory:
  assumes "pool_reachable n P"
  shows "distinct (map fst (p_live P)) \<and>
    list_all (\<lambda>(wd, t). tr_stage t = Creating \<or> tr_stage t = Late \<longrightarrow> wd \<notin> set (map fst (p_live P))) (p_transitions P)"
proof -
  have i: "pool_inv P" by (rule pool_reachable_inv [OF assms])
  then have m: "wf_map (p_live P)" "wf_map (p_transitions P)" by (simp_all add: pool_inv_def maps_ok_def)
  have "wd \<notin> fst ` set (p_live P)" if "(wd, t) \<in> set (p_transitions P)" "tr_stage t = Creating \<or> tr_stage t = Late" for wd t
  proof -
    have "map_of (p_transitions P) wd = Some t" using that(1) m(2) by simp
    then have "{s. (wd, s) \<in> set (p_live P)} = {}"
      using dir_okI [OF i, of wd] that(2) by (auto simp: view_def ok_simps split: option.splits)
    then show ?thesis by force
  qed
  with m(1) show ?thesis by (auto simp: list_all_iff)
qed

text \<open>C20. The pool never admits more working directories than its limit, counting sessions, sessions that are
  being disposed of or could not be, and factory calls that have not returned; the snapshot it reports is
  within the limit and counts every open session.\<close>

theorem pool_admission_bounded:
  assumes "pool_reachable n P"
  shows "length (admitted_workspaces P) \<le> n \<and>
    a_activeSessions (getPoolSnapshot isClosed P) \<le> a_admittedWorkspaces (getPoolSnapshot isClosed P) \<and>
    a_pendingSessions (getPoolSnapshot isClosed P) \<le> a_admittedWorkspaces (getPoolSnapshot isClosed P) \<and>
    a_admittedWorkspaces (getPoolSnapshot isClosed P) \<le> a_maxSessions (getPoolSnapshot isClosed P)"
proof -
  have i: "pool_inv P" by (rule pool_reachable_inv [OF assms])
  have n: "p_maxSessions P = n" by (rule pool_reachable_max [OF assms])
  have d: "distinct (admitted_workspaces P)" by (simp add: admitted_workspaces_def)
  have m: "wf_map (p_sessions P)" using i by (simp add: pool_inv_def maps_ok_def)
  have "length (admitted_workspaces P) = card (set (admitted_workspaces P))" by (simp add: distinct_card [OF d])
  also have "\<dots> \<le> card (occupied_dirs P)" by (rule card_mono [OF finite_occupied admitted_occupied])
  finally have l: "length (admitted_workspaces P) \<le> n" using i n by (simp add: pool_inv_def)
  have sub: "length xs \<le> length (admitted_workspaces P)" if "distinct xs" "set xs \<subseteq> set (admitted_workspaces P)" for xs
    using that d by (metis List.finite_set card_mono distinct_card)
  have "length (map fst (filter f (p_sessions P))) \<le> length (admitted_workspaces P)" for f
    by (rule sub [OF distinct_map_filter [OF m]]) (auto simp: admitted_workspaces_def)
  then have "length (filter f (p_sessions P)) \<le> length (admitted_workspaces P)" for f by simp
  moreover have "length (remdups (map fst (p_creationHolds P) @ map fst (filter f (p_sessions P)))) \<le> length (admitted_workspaces P)" for f
    by (rule sub) (auto simp: admitted_workspaces_def)
  ultimately show ?thesis using l n by (simp add: getPoolSnapshot_def)
qed


text \<open>No reachable pool runs into its own guards: a session of the pool can always be retired, the reaper and
  the shutdown retire every session they find without an identity mismatch, and a call for a
  directory never meets a creation that is still running.\<close>

theorem pool_retirement_never_refused:
  assumes "pool_reachable n P"
  shows "fst (shutdown P) = None \<and> fst (reapIdle isBusy idle now P) = None \<and>
    fst (ensureSession isClosed now receipt wd i P) \<noteq> Awaits_creation \<and>
    list_all (\<lambda>(wd, e). case en_session e of None \<Rightarrow> True | Some s \<Rightarrow> is_ok (retire s wd (en_identity e) holds P)) (p_sessions P)"
proof -
  have i: "pool_inv P" by (rule pool_reachable_inv [OF assms])
  have w: "wf_map (p_sessions P)" using i by (simp add: pool_inv_def maps_ok_def)
  have "is_ok (retire s k (en_identity e) holds P)" if "(k, e) \<in> set (p_sessions P)" "en_session e = Some s" for k e s
    using retire_entry(2) [OF i _ that(2), of k "en_identity e" holds] that(1) w by auto
  then show ?thesis
    using shutdown_inv [OF i surjective_pairing] reapIdle_inv [OF i surjective_pairing] ensure_inv [OF i surjective_pairing]
    by (auto simp: list_all_iff split: option.splits)
qed

section \<open>A sample run\<close>

text \<open>A pool of one session: it is created, retired with a hold while the disposal is pending, and the disposal is
  fulfilled.\<close>

definition sample_dir :: jsstr where
  "sample_dir = js ''/w''"

definition sample_pool :: "nat \<Rightarrow> pool" where
  "sample_pool k =
     (let P0 = \<lparr>p_maxSessions = 1, p_closed = False, p_sessions = [], p_transitions = [], p_retirements = [],
            p_retiredSessions = [], p_creationHolds = [], p_nextRetirementGeneration = 1, p_nextEntry = 0,
            p_called = [], p_registered = [], p_live = []\<rparr>;
          P1 = snd (ensureSession (\<lambda>_. False) 0 None sample_dir None P0);
          P2 = factory_settled (Made 7) sample_dir \<lparr>tr_identity = None, tr_entry = 0, tr_cleanupPending = False, tr_stage = Creating\<rparr> P1;
          P3 = snd (retireSession 7 [100] P2);
          P4 = dispose_settled sample_dir True P3
      in [P0, P1, P2, P3, P4] ! k)"

lemma sample_pool_simps:
  "p_transitions (sample_pool 1) = [(sample_dir, \<lparr>tr_identity = None, tr_entry = 0, tr_cleanupPending = False, tr_stage = Creating\<rparr>)]"
  "p_live (sample_pool 2) = [(sample_dir, 7)]"
  "p_retirements (sample_pool 3) = [(sample_dir, \<lparr>rt_session = 7, rt_generation = 1, rt_identity = None, rt_holds = [100], rt_state = R_pending\<rparr>)]"
  "p_called (sample_pool 4) = [100]" "p_registered (sample_pool 4) = [(100, 7)]" "p_retiredSessions (sample_pool 4) = [7]"
  by code_simp+

lemma sample_pool_next:
  "sample_pool 1 = snd (ensureSession (\<lambda>_. False) 0 None sample_dir None (sample_pool 0))"
  "sample_pool 2 = factory_settled (Made 7) sample_dir \<lparr>tr_identity = None, tr_entry = 0, tr_cleanupPending = False, tr_stage = Creating\<rparr> (sample_pool 1)"
  "sample_pool 3 = snd (retireSession 7 [100] (sample_pool 2))"
  "sample_pool 4 = dispose_settled sample_dir True (sample_pool 3)"
  by (simp_all add: sample_pool_def Let_def)

lemma sample_pool_reachable:
  "pool_reachable 1 (sample_pool 1)" "pool_reachable 1 (sample_pool 2)" "pool_reachable 1 (sample_pool 3)" "pool_reachable 1 (sample_pool 4)"
proof -
  have "pool_reachable 1 (sample_pool 0)" by (rule Start) (simp add: new_pool_def sample_pool_def)
  then show 1: "pool_reachable 1 (sample_pool 1)"
    unfolding sample_pool_next(1) by (rule Step) (rule Ensure [OF surjective_pairing])
  show 2: "pool_reachable 1 (sample_pool 2)"
    unfolding sample_pool_next(2) by (rule Step [OF 1]) (rule Factory; simp add: sample_pool_simps del: One_nat_def)
  show 3: "pool_reachable 1 (sample_pool 3)"
    unfolding sample_pool_next(3) by (rule Step [OF 2]) (rule Retire_session [OF surjective_pairing])
  have "map_of (p_retirements (sample_pool 3)) sample_dir =
      Some \<lparr>rt_session = 7, rt_generation = 1, rt_identity = None, rt_holds = [100], rt_state = R_pending\<rparr>"
    by (simp add: sample_pool_simps)
  from Settle [OF this] show "pool_reachable 1 (sample_pool 4)"
    unfolding sample_pool_next(4) by (intro Step [OF 3]) simp
qed

theorem one_session_per_directory_witness:
  "distinct (map fst (p_live (sample_pool 2))) \<and> sample_dir \<notin> set (map fst (p_live (sample_pool 1)))"
  using one_session_per_directory [OF sample_pool_reachable(2)] one_session_per_directory [OF sample_pool_reachable(1)]
  by (simp add: sample_pool_simps del: One_nat_def)

theorem pool_admission_bounded_witness: "length (admitted_workspaces (sample_pool 3)) \<le> 1"
  using pool_admission_bounded [OF sample_pool_reachable(3)] by simp


theorem pool_retirement_never_refused_witness: "fst (shutdown (sample_pool 2)) = None"
  using pool_retirement_never_refused [OF sample_pool_reachable(2)] by simp

end
