(* ===== verification/Spec2Isabelle.thy ===== *)
theory Spec2Isabelle
  imports Lease_Witnesses Reservations Replay_Window Gate_Properties Delivery Bind_Authority Generation_Witnesses Parser_Typing Session_Pool_Properties
begin

text \<open>
  A verification library for gjc-remote, a Discord bot (\<^verbatim>\<open>bot/\<close>) that controls agent sessions on remote hosts
  through a daemon (\<^verbatim>\<open>daemon/\<close>) on each of them; both use the wire protocol and the self-hashing records of \<^verbatim>\<open>shared/\<close>.

  \<^bold>\<open>The program.\<close>  The daemon opens a WebSocket to the bot and registers.  The bot sends binds that tie a channel to
  a workspace of the host; the daemon verifies their records, adopts the authority in a lease registry, and
  answers with readiness frames.  Invocations then pass the request fence, the admission budget and the session pool,
  which keeps one agent session per working directory.  Lifecycle operations on a workspace publish a record in its live
  slot on disk: create and clone the first generation, refresh the next one under an activity fence of the registry, reset and
  delete a tombstone under an exclusive fence; boot recovery completes what a crash interrupted.  The bot delivers results in chunks and presents workflow
  gates whose answers it forwards once.

  \<^bold>\<open>Common ground.\<close>
  \<^item> \<open>Prelude\<close>: JavaScript values (\<open>jsval\<close>: strings as lists of 16-bit words, numbers as rationals with the special values,
    objects as insertion-ordered lists of own properties), errors as a datatype, \<open>check\<close> and \<open>seq\<close> for code that throws, and the
    insertion-ordered \<open>Map\<close>.  \<open>Js_Text\<close>: UTF-8, \<open>trim\<close>, splitting, decimal numerals.
  \<^item> \<open>Strict_Json\<close>, \<open>Strict_Json_Correct\<close>, \<open>Canonical_Json\<close>, \<open>Parser_Typing\<close>: \<^verbatim>\<open>shared/strict-json.js\<close>.  The parser is a recursion
    with fuel, \<open>2 * length + 2\<close> steps, shown to be always enough; \<open>parseCanonicalJsonBytes\<close> accepts exactly the canonical
    encodings, rendering and parsing are inverse, and parsed values are well typed.
  \<^item> \<open>Identity\<close>: \<^verbatim>\<open>shared/identity.js\<close>, \<^verbatim>\<open>shared/work-dir.js\<close>, \<^verbatim>\<open>daemon/src/work-dir.js\<close>.
  \<^item> \<open>Sealed_Records\<close>: the locale \<open>flat_record\<close>, a record type with an exact key set and bounded fields; its lemmas give the storage
    round trip, and the generation pointer and the tombstone interpret it.

  \<^bold>\<open>Protocol and authority.\<close>
  \<^item> \<open>Protocol_Tables\<close>, \<open>Readiness\<close>, \<open>Wire_Frames\<close>, \<open>Protocol_Properties\<close>: \<^verbatim>\<open>shared/protocol.js\<close>, the limits, the error taxonomy, every
    frame validator, the capability gates and the lifecycle authority.  Readiness streams are monotone, an accepted lifecycle
    authority is the trusted tuple field by field.
  \<^item> \<open>Workspace_Inventory\<close>: \<^verbatim>\<open>shared/workspace-binding.js\<close>, \<^verbatim>\<open>shared/workspace-inventory.js\<close>, \<^verbatim>\<open>daemon/src/workspace-inventory.js\<close>.
  \<^item> \<open>Mapping_Envelope\<close>, \<open>Managed_Records\<close>, \<open>Host_Tokens\<close>: \<^verbatim>\<open>shared/mapping-envelope.js\<close>, whose token file is read exactly and
    whose channel file is consistent.
  \<^item> \<open>Bind_Authority\<close>: \<^verbatim>\<open>shared/bind-authority-verification.js\<close>; an accepted bind commits to the verified mapping.

  \<^bold>\<open>Leases and admission.\<close>
  \<^item> \<open>Lease_Registry\<close>, \<open>Lease_Invariant\<close>, \<open>Lease_Properties\<close>: \<^verbatim>\<open>daemon/src/workspace-lease-registry.js\<close> as a state with a step relation.
    In every reachable state an exclusive lease is alone and the bounds hold.
  \<^item> \<open>Lease_Fence\<close>: \<^verbatim>\<open>daemon/src/workspace-lease-fence.js\<close>, as interpretations of the locales \<open>activity_fence\<close> and
    \<open>exclusive_fence\<close>, in which the acquire-work-release bracket is proved once.  \<open>Lease_Witnesses\<close>: concrete runs, and the loss of the
    epoch fence through a binding of the legacy shape.
  \<^item> \<open>Reservations\<close>: the request fence, invocation ownership, the admission budget and headroom, the binding fence.
    \<open>Replay_Window\<close>: the readiness replay window and the recovery queue.  They refine sets and finite maps.
  \<^item> \<open>Session_Pool\<close>, \<open>Session_Pool_Invariant\<close>, \<open>Session_Pool_Properties\<close>: \<^verbatim>\<open>daemon/src/session-pool.js\<close>.  Every stretch between two
    awaits is a step; the theorems hold for every interleaving.  Three fields of the state are history that the code does
    not store: the callbacks called, the holds registered and the sessions not yet disposed of.

  \<^bold>\<open>Storage and recovery.\<close>
  \<^item> \<open>Lifecycle_Records\<close>, \<open>Lifecycle_Journal\<close>, \<open>Lifecycle_Witnesses\<close>: \<^verbatim>\<open>shared/workspace-lifecycle-envelope.js\<close>, the manual-cleanup
    record of \<^verbatim>\<open>shared/recovery-envelope.js\<close>, and \<^verbatim>\<open>daemon/src/workspace-lifecycle-journal.js\<close>.
  \<^item> \<open>Generation_Publisher\<close>, \<open>Generation_Storage\<close>: \<^verbatim>\<open>daemon/src/workspace-generation-publisher.js\<close> over the locale \<open>atomic_pointer\<close>,
    interpreted by the io of \<^verbatim>\<open>daemon/src/workspace-generation-storage-io.js\<close> on a file system in which every call may fail
    as a given list of faults says.  A publication is atomic at every fault, and generations advance one by one.
  \<^item> \<open>Crash_Recovery\<close>, \<open>Recovery_Witnesses\<close>: the snapshot, the classifier, the recovery operation and the boot wiring;
    an interrupted publication is completed at the next boot.
  \<^item> \<open>Tombstone_Publisher\<close>, \<open>Tombstone_Witnesses\<close>: \<^verbatim>\<open>daemon/src/workspace-tombstone-publisher.js\<close> on the same slot: whatever is published and
    disposed of in whatever order, the slot holds one valid record and a disposal is final.
  \<^item> \<open>Backup_Manifest\<close>, \<open>Backup_Witnesses\<close>: \<^verbatim>\<open>daemon/src/workspace-backup-manifest.js\<close> and \<^verbatim>\<open>daemon/src/workspace-dirty-backup.js\<close>; a backup is
    complete and its verification detects changes.
  \<^item> \<open>Async_Steps\<close>: the sequencing of awaited steps that may throw, shared by the operations.
  \<^item> \<open>Generation_Probe\<close>, \<open>Create_Refresh\<close>: \<^verbatim>\<open>daemon/src/workspace-generation-probe.js\<close>, \<^verbatim>\<open>daemon/src/workspace-create-operation.js\<close> and
    \<^verbatim>\<open>daemon/src/workspace-refresh-operation.js\<close>.  They compose containment, graph and manifest proofs, the probe, the replay window, the
    activity fence and the publisher; the live slot changes only when everything about the generation has been proven.
  \<^item> \<open>Lifecycle_Dispatch\<close>, \<open>Generation_Witnesses\<close>: \<^verbatim>\<open>daemon/src/workspace-create-dispatch.js\<close>, \<^verbatim>\<open>daemon/src/workspace-refresh-dispatch.js\<close>,
    \<^verbatim>\<open>daemon/src/workspace-reset-delete-dispatch.js\<close> and the request check of \<^verbatim>\<open>daemon/src/workspace-git-materializer.js\<close>.  The reply to a reset or
    delete says what happened to the slot; create and refresh are always refused when wired to the git materialisation.
  \<^item> \<open>Reset_Delete\<close>, \<open>Disposal_Witnesses\<close>: \<^verbatim>\<open>daemon/src/workspace-reset-delete-operation.js\<close> and \<^verbatim>\<open>daemon/src/workspace-residual-process.js\<close>.  The operation
    composes the exclusive fence, the backup, the tombstone publisher and the manual-cleanup record; its theorems say under which
    guards the slot changes, what is left on disk when it fails, and that the fence is released.

  \<^bold>\<open>The bot.\<close>
  \<^item> \<open>Gate_Store\<close>, \<open>Gate_Properties\<close>: \<^verbatim>\<open>bot/src/gate-answer.js\<close> and the state changes of \<^verbatim>\<open>bot/src/gate-presentation.js\<close>; one answer per gate.
    The eviction loop has the number of entries as fuel, since every round removes one.
  \<^item> \<open>Delivery\<close>: \<^verbatim>\<open>bot/src/delivery.js\<close>; chunks are within the limit, balanced and complete.

  \<^bold>\<open>Parameters.\<close>  Code outside the sources is an argument of the definitions: SHA-256, \<open>String\<close> and \<open>JSON.stringify\<close> of arbitrary
  values, \<open>JSON.parse\<close>, the clock, the token factory, the temporary names, the platform, the containment predicate, the legacy
  channel parser, the canonical working directory, byte readers, and what an operation's awaits return.  Theorems about
  fingerprints are stated up to collisions of the given hash.  A file-system fault is honest when \<open>ENOENT\<close> is reported
  for missing files only.

  \<^bold>\<open>Not modelled.\<close>  \<^verbatim>\<open>native-control/\<close> (services, installation, release archives, native bindings): it drives operating-system services and
  a compiled add-on.  \<^verbatim>\<open>daemon/src/daemon.js\<close> apart from the callbacks above, \<^verbatim>\<open>daemon/src/sdk-session.js\<close>, \<^verbatim>\<open>bot/src/bot.js\<close>,
  \<^verbatim>\<open>bot/src/host-registry.js\<close> and \<^verbatim>\<open>bot/src/management-runtime.js\<close>: sockets, the Discord client and the agent SDK, with the protocol
  logic they call modelled above.  Restore and migration, which move directory trees through the native adapter, and the boot
  wirings, which only build dependency records.  The deployment, genesis, successor, publication, admission and service-lifecycle
  envelopes, further records of the kind of \<open>Lifecycle_Records\<close>.  Git and containment probes, which run processes.  Build scripts, tests and fixtures.
\<close>

end
